(* ===== verification/Prelude.thy ===== *)
theory Prelude
  imports Main "HOL-Library.List_Lexorder" "HOL-Library.Char_ord"
begin

text \<open>
  Shared ground of the development: identifiers and instants, the fragment of Python's string
  library the services call, JSON values, and rows kept in lists (a database table is the list of
  its rows in insertion order) with the three operations the repositories perform on them: the
  scalar of a select, the update of one row in place, the append of a new row.
\<close>

named_theorems table_simps \<open>what a lookup returns after an update or an insert\<close>

subsection \<open>Identifiers, time and money\<close>

text \<open>
  A UUID is a natural number: the services only compare them.  Instants are UTC microseconds since
  the epoch, days are ordinals (\<^verbatim>\<open>date.toordinal\<close>), a clock is microseconds since midnight.
  A column \<^verbatim>\<open>Numeric(18, 2)\<close> is an integer number of hundredths.
\<close>

type_synonym uuid = nat
type_synonym instant = int
type_synonym day = int
type_synonym clock = int
type_synonym cents = int

definition minute_usec :: int where
  "minute_usec = 60 * 1000000"

definition day_usec :: int where
  "day_usec = 24 * 60 * minute_usec"

lemma minute_usec_pos [simp]: "0 < minute_usec"
  by (simp add: minute_usec_def)

lemma day_usec_pos [simp]: "0 < day_usec"
  by (simp add: day_usec_def)

subsection \<open>Python strings\<close>

text \<open>
  A \<open>char\<close> stands for one of the first 256 code points.  \<open>py_space\<close> are those for which
  \<^verbatim>\<open>str.isspace\<close> holds; \<open>py_strip\<close> is \<^verbatim>\<open>str.strip()\<close>.
\<close>

definition py_space :: "char \<Rightarrow> bool" where
  "py_space c = (let n = of_char c :: nat in
     9 \<le> n \<and> n \<le> 13 \<or> 28 \<le> n \<and> n \<le> 32 \<or> n = 133 \<or> n = 160)"

definition py_lstrip :: "string \<Rightarrow> string" where
  "py_lstrip s = dropWhile py_space s"

definition py_strip :: "string \<Rightarrow> string" where
  "py_strip s = rev (py_lstrip (rev (py_lstrip s)))"

lemma dropWhile_idem: "dropWhile P (dropWhile P xs) = dropWhile P xs"
  by (induction xs) auto

lemma hd_dropWhile_not: "dropWhile P xs \<noteq> [] \<Longrightarrow> \<not> P (hd (dropWhile P xs))"
  by (induction xs) auto

lemma dropWhile_id: "xs = [] \<or> \<not> P (hd xs) \<Longrightarrow> dropWhile P xs = xs"
  by (cases xs) auto

lemma py_strip_lstrip_id: "py_lstrip (py_strip s) = py_strip s"
proof (cases "py_strip s")
  case Nil
  then show ?thesis by (simp add: py_lstrip_def)
next
  case (Cons c cs)
  define t where "t = dropWhile py_space s"
  have eq: "py_strip s = rev (dropWhile py_space (rev t))"
    by (simp add: py_strip_def py_lstrip_def t_def)
  obtain pre where pre: "rev t = pre @ dropWhile py_space (rev t)"
    by (metis takeWhile_dropWhile_id)
  then have t: "t = py_strip s @ rev pre"
    by (metis eq rev_append rev_rev_ident)
  then have "hd t = c" "t \<noteq> []" using Cons by auto
  then have "\<not> py_space c"
    by (metis hd_dropWhile_not t_def)
  with Cons show ?thesis by (simp add: py_lstrip_def)
qed

lemma py_strip_idem [simp]: "py_strip (py_strip s) = py_strip s"
proof -
  have "py_lstrip (rev (py_strip s)) = rev (py_strip s)"
    by (simp add: py_strip_def py_lstrip_def dropWhile_idem)
  then show ?thesis
    using py_strip_lstrip_id[of s] by (metis py_strip_def rev_rev_ident)
qed

definition ascii_upper :: "char \<Rightarrow> char" where
  "ascii_upper c = (let n = of_char c :: nat in if 97 \<le> n \<and> n \<le> 122 then char_of (n - 32) else c)"

definition ascii_lower :: "char \<Rightarrow> char" where
  "ascii_lower c = (let n = of_char c :: nat in if 65 \<le> n \<and> n \<le> 90 then char_of (n + 32) else c)"

text \<open>Single quotes as the f-strings of the error messages put them.\<close>

definition quoted :: "string \<Rightarrow> string" where
  "quoted s = CHR 39 # s @ [CHR 39]"

fun join_with :: "string \<Rightarrow> string list \<Rightarrow> string" where
  "join_with sep [] = []"
| "join_with sep [x] = x"
| "join_with sep (x # xs) = x @ sep @ join_with sep xs"

text \<open>Decimal rendering of a natural number (\<^verbatim>\<open>str(n)\<close>), and \<^verbatim>\<open>f"{n:05d}"\<close>.\<close>

fun nat_str :: "nat \<Rightarrow> string" where
  "nat_str n = (if n < 10 then [char_of (48 + n)] else nat_str (n div 10) @ [char_of (48 + n mod 10)])"

declare nat_str.simps [simp del]

definition pad5 :: "nat \<Rightarrow> string" where
  "pad5 n = (let s = nat_str n in replicate (5 - length s) (CHR 48) @ s)"

lemma sort_key_Nil [simp]: "sort_key f xs = [] \<longleftrightarrow> xs = []"
  by (metis length_sort length_0_conv)

subsection \<open>JSON\<close>

text \<open>
  JSON columns and payloads.  \<open>JId\<close> is the string form of an identifier, kept as the identifier.
\<close>

datatype json =
    JNull
  | JBool bool
  | JInt int
  | JStr string
  | JId uuid
  | JList "json list"
  | JObj "(string \<times> json) list"

definition json_get :: "string \<Rightarrow> json \<Rightarrow> json option" where
  "json_get k j = (case j of JObj kvs \<Rightarrow> map_of kvs k | _ \<Rightarrow> None)"

subsection \<open>Tables\<close>

text \<open>
  \<open>row_find\<close> is \<^verbatim>\<open>db.scalar(select(T).where(...))\<close>, \<open>row_update\<close> the assignment to attributes
  of the row with a given key, \<open>row_insert\<close> is \<^verbatim>\<open>db.add\<close> followed by \<^verbatim>\<open>db.flush\<close>.
\<close>

definition row_find :: "('r \<Rightarrow> bool) \<Rightarrow> 'r list \<Rightarrow> 'r option" where
  "row_find P rows = List.find P rows"

definition row_update :: "('r \<Rightarrow> 'k) \<Rightarrow> 'k \<Rightarrow> ('r \<Rightarrow> 'r) \<Rightarrow> 'r list \<Rightarrow> 'r list" where
  "row_update key k f rows = map (\<lambda>r. if key r = k then f r else r) rows"

definition row_insert :: "'r \<Rightarrow> 'r list \<Rightarrow> 'r list" where
  "row_insert r rows = rows @ [r]"

lemma row_find_simps [simp]:
  "row_find P [] = None"
  "row_find P (r # rows) = (if P r then Some r else row_find P rows)"
  by (simp_all add: row_find_def)

lemma row_find_Some: "row_find P rows = Some r \<Longrightarrow> r \<in> set rows \<and> P r"
  by (induction rows) (auto split: if_splits)

lemma row_find_None [table_simps]: "row_find P rows = None \<longleftrightarrow> (\<forall>r \<in> set rows. \<not> P r)"
  by (induction rows) auto

lemma row_find_unique:
  assumes "r \<in> set rows" "P r" and "\<And>x. x \<in> set rows \<Longrightarrow> P x \<Longrightarrow> x = r"
  shows "row_find P rows = Some r"
proof (cases "row_find P rows")
  case None
  then have "\<forall>r \<in> set rows. \<not> P r" by (simp only: row_find_None)
  with assms(1,2) have False by blast
  then show ?thesis ..
next
  case (Some x)
  from row_find_Some[OF Some] have "x = r" using assms(3) by blast
  with Some show ?thesis by simp
qed

lemma row_update_simps [simp]:
  "row_update key k f [] = []"
  "row_update key k f (r # rows) = (if key r = k then f r else r) # row_update key k f rows"
  by (simp_all add: row_update_def)

lemma in_row_update [table_simps]:
  "x \<in> set (row_update key k f rows) \<longleftrightarrow>
     (\<exists>r \<in> set rows. if key r = k then x = f r else x = r)"
  by (induction rows) auto

lemma in_row_updateI: "r \<in> set rows \<Longrightarrow> key r = k \<Longrightarrow> f r \<in> set (row_update key k f rows)"
  by (force simp: row_update_def)

lemma in_row_insert [table_simps]: "x \<in> set (row_insert r rows) \<longleftrightarrow> x = r \<or> x \<in> set rows"
  by (auto simp: row_insert_def)

lemma map_key_row_update [table_simps]:
  "(\<And>r. key (f r) = key r) \<Longrightarrow> map key (row_update key k f rows) = map key rows"
  by (auto simp: row_update_def)

lemma map_row_update [table_simps]:
  "(\<And>r. g (f r) = g r) \<Longrightarrow> map g (row_update key k f rows) = map g rows"
  by (auto simp: row_update_def)

lemma map_key_row_insert [table_simps]: "map key (row_insert r rows) = map key rows @ [key r]"
  by (simp add: row_insert_def)

lemma length_row_update [simp]: "length (row_update key k f rows) = length rows"
  by (simp add: row_update_def)

lemma row_update_absent: "k \<notin> key ` set rows \<Longrightarrow> row_update key k f rows = rows"
  by (induction rows) auto

lemma row_find_update_same:
  assumes "row_find (\<lambda>r. key r = k) rows = Some r" and "\<And>r. key (f r) = key r"
  shows "row_find (\<lambda>r. key r = k) (row_update key k f rows) = Some (f r)"
  using assms(1)
  by (induction rows) (auto simp: assms(2) split: if_splits)

lemma row_find_update:
  assumes "\<And>r. key (f r) = key r"
  shows "row_find (\<lambda>r. key r = k) (row_update key k f rows) =
    map_option f (row_find (\<lambda>r. key r = k) rows)"
  by (induction rows) (auto simp: assms)

lemma row_find_update_other:
  assumes "k' \<noteq> k" and "\<And>r. key (f r) = key r"
  shows "row_find (\<lambda>r. key r = k') (row_update key k f rows) = row_find (\<lambda>r. key r = k') rows"
  using assms by (induction rows) auto

lemma distinct_keys_inj: "distinct (map key rows) \<Longrightarrow> inj_on key (set rows)"
  by (simp add: distinct_map)

lemma distinct_keys_eq:
  "distinct (map key rows) \<Longrightarrow> x \<in> set rows \<Longrightarrow> y \<in> set rows \<Longrightarrow> key x = key y \<Longrightarrow> x = y"
  by (metis distinct_keys_inj inj_on_eq_iff)

text \<open>
  \<open>scoped_get\<close> is the select every repository uses: by tenant and primary key.
\<close>

definition scoped_get ::
    "('r \<Rightarrow> uuid) \<Rightarrow> ('r \<Rightarrow> uuid) \<Rightarrow> uuid \<Rightarrow> uuid \<Rightarrow> 'r list \<Rightarrow> 'r option" where
  "scoped_get ten key t i rows = row_find (\<lambda>r. ten r = t \<and> key r = i) rows"

lemma scoped_get_Some:
  "scoped_get ten key t i rows = Some r \<Longrightarrow> r \<in> set rows \<and> ten r = t \<and> key r = i"
  unfolding scoped_get_def by (drule row_find_Some) simp

lemma row_find_by_key:
  assumes "distinct (map key rows)" "r \<in> set rows"
  shows "row_find (\<lambda>x. key x = key r) rows = Some r"
  using assms by (intro row_find_unique) (auto intro: distinct_keys_eq)

end
