(* ===== verification/Session.thy ===== *)
theory Session
  imports Prelude
begin

text \<open>
  The exceptions of the backend (\<^verbatim>\<open>core/exceptions.py\<close>, \<^verbatim>\<open>booking/exceptions.py\<close>,
  \<^verbatim>\<open>process_overlay/exceptions.py\<close>, \<^verbatim>\<open>workflows/service/lead_automation.py\<close>, the secret vault), their HTTP
  statuses, and the monad the services are written in: a service call runs on the state of the
  database session, may raise, and keeps the writes it made before raising; a route commits only
  when the service returned.  Invariants of reachable session states are proved through the
  locale \<open>invariant_machine\<close>.
\<close>

named_theorems svc_ok \<open>inversion of service calls that return\<close>
named_theorems svc_eval \<open>evaluation of service calls\<close>

subsection \<open>Exceptions\<close>

datatype (discs_sels) exn =
    CoreOpsError string
  | NotFoundError string
  | ConflictError string
  | AuthenticationError string
  | PermissionDeniedError string
  | BootstrapCompletedError string
  | ModuleDisabledError string
  | ModuleDependencyError string
  | FeatureNotEntitledError string
  | UsageLimitExceededError string
  | RateLimitExceededError string
  | BookingTimezoneError string
  | BookingAvailabilityError string "(uuid \<times> uuid) list"
  | BookingValidationError string
  | BookingStatusTransitionError string string string
  | ProcessOverlayValidationError string "string list"
  | ProcessDefinitionImmutableError string
  | ProcessOverlayActivationError string
  | ProcessOverlayTenantIsolationError string
  | ProcessRunConflictError string
  | ProcessRunStateError string
  | ProcessTransitionDeniedError string "string option" "string option" "uuid option" "uuid option"
  | LeadAutomationConfigError string
  | LeadAutomationConflictError string
  | IntegrityError string
  | PyValueError string
  | PyKeyError string
  | PyOSError string
  | PyAssertionError
  | OperationalError string
  | HTTPException nat string
  | SecretVaultError string
  | SecretRefValidationError string
  | SecretLifecycleError string

text \<open>Subclass tests of the exception classes, as \<^verbatim>\<open>isinstance\<close> answers them.\<close>

fun isinstance_ConflictError :: "exn \<Rightarrow> bool" where
  "isinstance_ConflictError (ConflictError _) = True"
| "isinstance_ConflictError (BookingAvailabilityError _ _) = True"
| "isinstance_ConflictError (ProcessRunConflictError _) = True"
| "isinstance_ConflictError (ProcessTransitionDeniedError _ _ _ _ _) = True"
| "isinstance_ConflictError (LeadAutomationConflictError _) = True"
| "isinstance_ConflictError (SecretLifecycleError _) = True"
| "isinstance_ConflictError _ = False"

fun isinstance_PermissionDeniedError :: "exn \<Rightarrow> bool" where
  "isinstance_PermissionDeniedError (PermissionDeniedError _) = True"
| "isinstance_PermissionDeniedError (ProcessOverlayTenantIsolationError _) = True"
| "isinstance_PermissionDeniedError _ = False"

fun isinstance_CoreOpsError :: "exn \<Rightarrow> bool" where
  "isinstance_CoreOpsError (IntegrityError _) = False"
| "isinstance_CoreOpsError (PyValueError _) = False"
| "isinstance_CoreOpsError (PyKeyError _) = False"
| "isinstance_CoreOpsError (PyOSError _) = False"
| "isinstance_CoreOpsError PyAssertionError = False"
| "isinstance_CoreOpsError (OperationalError _) = False"
| "isinstance_CoreOpsError (HTTPException _ _) = False"
| "isinstance_CoreOpsError (SecretVaultError _) = False"
| "isinstance_CoreOpsError (SecretRefValidationError _) = False"
| "isinstance_CoreOpsError _ = True"

text \<open>
  \<^verbatim>\<open>core_ops_error_handler\<close>: the tests in the order of the source.  An exception that is no
  \<^verbatim>\<open>CoreOpsError\<close> does not reach this handler: the framework answers 500.
\<close>

definition core_ops_error_handler :: "exn \<Rightarrow> nat" where
  "core_ops_error_handler e =
     (if is_NotFoundError e then 404
      else if isinstance_ConflictError e then 409
      else if is_AuthenticationError e then 401
      else if isinstance_PermissionDeniedError e \<or> is_BootstrapCompletedError e then 403
      else if is_ModuleDisabledError e then 403
      else if is_ModuleDependencyError e then 409
      else if is_FeatureNotEntitledError e then 403
      else if is_UsageLimitExceededError e \<or> is_RateLimitExceededError e then 429
      else 400)"

subsection \<open>Service calls\<close>

type_synonym ('s, 'a) svc = "'s \<Rightarrow> (exn + 'a) \<times> 's"

definition ret :: "'a \<Rightarrow> ('s, 'a) svc" where
  "ret x s = (Inr x, s)"

definition raise :: "exn \<Rightarrow> ('s, 'a) svc" where
  "raise e s = (Inl e, s)"

definition bindS :: "('s, 'a) svc \<Rightarrow> ('a \<Rightarrow> ('s, 'b) svc) \<Rightarrow> ('s, 'b) svc" where
  "bindS m f s = (case m s of (Inl e, s') \<Rightarrow> (Inl e, s') | (Inr x, s') \<Rightarrow> f x s')"

definition thenS :: "('s, 'a) svc \<Rightarrow> ('s, 'b) svc \<Rightarrow> ('s, 'b) svc" where
  "thenS m n = bindS m (\<lambda>_. n)"

definition gets :: "('s \<Rightarrow> 'a) \<Rightarrow> ('s, 'a) svc" where
  "gets f s = (Inr (f s), s)"

definition modify :: "('s \<Rightarrow> 's) \<Rightarrow> ('s, unit) svc" where
  "modify f s = (Inr (), f s)"

definition ensure :: "bool \<Rightarrow> exn \<Rightarrow> ('s, unit) svc" where
  "ensure b e = (if b then ret () else raise e)"

definition or_raise :: "'a option \<Rightarrow> exn \<Rightarrow> ('s, 'a) svc" where
  "or_raise x e = (case x of None \<Rightarrow> raise e | Some y \<Rightarrow> ret y)"

definition of_sum :: "exn + 'a \<Rightarrow> ('s, 'a) svc" where
  "of_sum r = (case r of Inl e \<Rightarrow> raise e | Inr x \<Rightarrow> ret x)"

fun for_each :: "'a list \<Rightarrow> ('a \<Rightarrow> ('s, unit) svc) \<Rightarrow> ('s, unit) svc" where
  "for_each [] f = ret ()"
| "for_each (x # xs) f = thenS (f x) (for_each xs f)"

definition whenS :: "bool \<Rightarrow> ('s, unit) svc \<Rightarrow> ('s, unit) svc" where
  "whenS b m = (if b then m else ret ())"

text \<open>
  \<^verbatim>\<open>try: ... except Exception: db.rollback(); raise\<close>, and the route's commit: on a raise the
  session's writes are gone.
\<close>

definition atomic :: "('s, 'a) svc \<Rightarrow> ('s, 'a) svc" where
  "atomic m s = (case m s of (Inl e, _) \<Rightarrow> (Inl e, s) | (Inr x, s') \<Rightarrow> (Inr x, s'))"

lemma svc_ok_rules [svc_ok]:
  "ret x s = (Inr y, s') \<longleftrightarrow> y = x \<and> s' = s"
  "raise e s = (Inr y, s') \<longleftrightarrow> False"
  "gets g s = (Inr z, s') \<longleftrightarrow> z = g s \<and> s' = s"
  "modify h s = (Inr u, s') \<longleftrightarrow> s' = h s"
  "ensure b e s = (Inr u, s') \<longleftrightarrow> b \<and> s' = s"
  "or_raise w e s = (Inr v, s') \<longleftrightarrow> w = Some v \<and> s' = s"
  by (auto simp: ret_def raise_def gets_def modify_def ensure_def or_raise_def split: option.splits)

lemma of_sum_ok [svc_ok]: "of_sum r s = (Inr x, s') \<longleftrightarrow> r = Inr x \<and> s' = s"
  by (auto simp: of_sum_def svc_ok split: sum.splits)

lemma bindS_ok [svc_ok]:
  "bindS m f s = (Inr y, s') \<longleftrightarrow> (\<exists>x s1. m s = (Inr x, s1) \<and> f x s1 = (Inr y, s'))"
  by (auto simp: bindS_def split: prod.splits sum.splits)

lemma thenS_ok [svc_ok]:
  "thenS m n s = (Inr y, s') \<longleftrightarrow> (\<exists>x s1. m s = (Inr x, s1) \<and> n s1 = (Inr y, s'))"
  by (simp add: thenS_def bindS_ok)

lemma whenS_ok [svc_ok]:
  "whenS b m s = (Inr u, s') \<longleftrightarrow> (if b then m s = (Inr (), s') else s' = s)"
  by (auto simp: whenS_def ret_def)

lemma atomic_ok [svc_ok]: "atomic m s = (Inr y, s') \<longleftrightarrow> m s = (Inr y, s')"
  by (auto simp: atomic_def split: prod.splits sum.splits)

lemma atomic_raises: "atomic m s = (Inl e, s') \<Longrightarrow> s' = s"
  by (auto simp: atomic_def split: prod.splits sum.splits)

lemma svc_eval_rules [svc_eval]:
  "ret x s = (Inr x, s)"
  "raise e s = (Inl e, s)"
  "gets g s = (Inr (g s), s)"
  "modify h s = (Inr (), h s)"
  "ensure b e s = (if b then (Inr (), s) else (Inl e, s))"
  "or_raise w e s = (case w of None \<Rightarrow> (Inl e, s) | Some y \<Rightarrow> (Inr y, s))"
  "bindS m f s = (case m s of (Inl e, s') \<Rightarrow> (Inl e, s') | (Inr x, s') \<Rightarrow> f x s')"
  "thenS m n s = (case m s of (Inl e, s') \<Rightarrow> (Inl e, s') | (Inr x, s') \<Rightarrow> n s')"
  "whenS b k s = (if b then k s else (Inr (), s))"
  "atomic m s = (case m s of (Inl e, _) \<Rightarrow> (Inl e, s) | (Inr x, s') \<Rightarrow> (Inr x, s'))"
  by (auto simp: ret_def raise_def gets_def modify_def ensure_def or_raise_def bindS_def thenS_def
      whenS_def atomic_def split: option.splits)

lemma of_sum_eval [svc_eval]: "of_sum r s = (case r of Inl e \<Rightarrow> (Inl e, s) | Inr x \<Rightarrow> (Inr x, s))"
  by (simp add: of_sum_def svc_eval split: sum.splits)

lemma for_each_step: "f x s = (Inr (), s1) \<Longrightarrow> for_each (x # xs) f s = for_each xs f s1"
  by (simp add: thenS_def bindS_def)

subsection \<open>Preservation\<close>

text \<open>An invariant of the session state that a call keeps whether it returns or raises.\<close>

definition preserves :: "('s \<Rightarrow> bool) \<Rightarrow> ('s, 'a) svc \<Rightarrow> bool" where
  "preserves I m \<longleftrightarrow> (\<forall>s. I s \<longrightarrow> I (snd (m s)))"

lemma preserves_ret [intro, simp]: "preserves I (ret x)"
  by (simp add: preserves_def ret_def)

lemma preserves_raise [intro, simp]: "preserves I (raise e)"
  by (simp add: preserves_def raise_def)

lemma preserves_gets [intro, simp]: "preserves I (gets f)"
  by (simp add: preserves_def gets_def)

lemma preserves_ensure [intro, simp]: "preserves I (ensure b e)"
  by (simp add: preserves_def ensure_def ret_def raise_def)

lemma preserves_or_raise [intro, simp]: "preserves I (or_raise w e)"
  by (simp add: preserves_def or_raise_def ret_def raise_def split: option.splits)

lemma preserves_of_sum [intro, simp]: "preserves I (of_sum r)"
  by (simp add: of_sum_def split: sum.splits)

lemma preserves_bindS [intro]:
  assumes "preserves I m" and "\<And>x. preserves I (f x)"
  shows "preserves I (bindS m f)"
  unfolding preserves_def
proof (intro allI impI)
  fix s assume "I s"
  obtain r s1 where r: "m s = (r, s1)" by force
  with assms(1) \<open>I s\<close> have "I s1" unfolding preserves_def by (metis snd_conv)
  then show "I (snd (bindS m f s))"
    using assms(2) by (cases r) (auto simp: bindS_def r preserves_def)
qed

lemma preserves_thenS [intro]: "preserves I m \<Longrightarrow> preserves I n \<Longrightarrow> preserves I (thenS m n)"
  unfolding thenS_def by (rule preserves_bindS)

lemma preserves_for_each [intro]:
  "(\<And>x. x \<in> set xs \<Longrightarrow> preserves I (f x)) \<Longrightarrow> preserves I (for_each xs f)"
  by (induction xs) (auto intro: preserves_thenS)

lemma preserves_whenS [intro]: "preserves I m \<Longrightarrow> preserves I (whenS b m)"
  by (simp add: whenS_def)

lemma preserves_atomic [intro]: "preserves I m \<Longrightarrow> preserves I (atomic m)"
  unfolding preserves_def atomic_def by (force split: prod.splits sum.splits)

lemma preservesD: "preserves I m \<Longrightarrow> I s \<Longrightarrow> m s = (r, s') \<Longrightarrow> I s'"
  unfolding preserves_def by (metis snd_conv)

lemma preserves_modify: "(\<And>s. I s \<Longrightarrow> I (f s)) \<Longrightarrow> preserves I (modify f)"
  by (simp add: preserves_def modify_def)

lemma preserves_snd: "preserves I m \<Longrightarrow> I s \<Longrightarrow> I (snd (m s))"
  by (simp add: preserves_def)

lemma atomic_keeps: "I s \<Longrightarrow> (\<And>x s'. m s = (Inr x, s') \<Longrightarrow> I s') \<Longrightarrow> I (snd (atomic m s))"
  by (auto simp: atomic_def split: prod.splits sum.splits)

subsection \<open>Reachable session states\<close>

inductive reachable :: "('s \<Rightarrow> bool) \<Rightarrow> ('s \<Rightarrow> 's \<Rightarrow> bool) \<Rightarrow> 's \<Rightarrow> bool"
  for start step where
  reachable_start: "start s \<Longrightarrow> reachable start step s"
| reachable_step: "reachable start step s \<Longrightarrow> step s t \<Longrightarrow> reachable start step t"

locale invariant_machine =
  fixes start :: "'s \<Rightarrow> bool" and step :: "'s \<Rightarrow> 's \<Rightarrow> bool" and inv :: "'s \<Rightarrow> bool"
  assumes start_inv: "start s \<Longrightarrow> inv s"
    and step_inv: "inv s \<Longrightarrow> step s t \<Longrightarrow> inv t"
begin

lemma reachable_inv: "reachable start step s \<Longrightarrow> inv s"
  by (induction rule: reachable.induct) (auto intro: start_inv step_inv)

lemma reachable_weaken:
  assumes "\<And>s. inv s \<Longrightarrow> P s" and "reachable start step s"
  shows "P s"
  using assms reachable_inv by blast

end

end
