(* ===== verification/Enums.thy ===== *)
theory Enums
  imports Prelude
begin

text \<open>
  The string enums of the backend: \<^verbatim>\<open>core/enums.py\<close>, \<^verbatim>\<open>booking/enums.py\<close> and
  \<^verbatim>\<open>process_overlay/enums.py\<close>.  A member \<^verbatim>\<open>E.M\<close> is the constructor \<open>E_M\<close>, its
  \<^verbatim>\<open>value\<close> is \<open>E_value E_M\<close>, and \<open>E_members\<close> lists the members in the order of the class.
  \<open>enum_of\<close> is the lookup by value, \<^verbatim>\<open>E("...")\<close>; the locale \<open>str_enum\<close> states what a string
  enum promises and proves the round trip once.
\<close>

definition enum_of :: "'a list \<Rightarrow> ('a \<Rightarrow> string) \<Rightarrow> string \<Rightarrow> 'a option" where
  "enum_of members value s = row_find (\<lambda>x. value x = s) members"

locale str_enum =
  fixes members :: "'a list" and val :: "'a \<Rightarrow> string"
  assumes members_all: "x \<in> set members"
    and val_distinct: "distinct (map val members)"
begin

lemma val_inj: "val x = val y \<Longrightarrow> x = y"
  using val_distinct members_all by (metis distinct_keys_eq)

lemma enum_of_val [simp]: "enum_of members val (val x) = Some x"
  unfolding enum_of_def using val_distinct members_all by (rule row_find_by_key)

lemma enum_of_Some: "enum_of members val s = Some x \<Longrightarrow> val x = s"
  unfolding enum_of_def by (drule row_find_Some) simp

lemma enum_of_iff: "enum_of members val s = Some x \<longleftrightarrow> s = val x"
  using enum_of_val enum_of_Some by metis

end

subsection \<open>\<^verbatim>\<open>core/enums.py\<close>\<close>

datatype ProviderRole =
    ProviderRole_PROVIDER_OWNER
  | ProviderRole_PROVIDER_ADMIN
  | ProviderRole_SALES_MANAGER
  | ProviderRole_IMPLEMENTATION_MANAGER
  | ProviderRole_CONSULTANT
  | ProviderRole_SUPPORT_MANAGER
  | ProviderRole_FINANCE_MANAGER
  | ProviderRole_DEVELOPER

primrec ProviderRole_value :: "ProviderRole \<Rightarrow> string" where
  "ProviderRole_value ProviderRole_PROVIDER_OWNER = ''provider_owner''"
| "ProviderRole_value ProviderRole_PROVIDER_ADMIN = ''provider_admin''"
| "ProviderRole_value ProviderRole_SALES_MANAGER = ''sales_manager''"
| "ProviderRole_value ProviderRole_IMPLEMENTATION_MANAGER = ''implementation_manager''"
| "ProviderRole_value ProviderRole_CONSULTANT = ''consultant''"
| "ProviderRole_value ProviderRole_SUPPORT_MANAGER = ''support_manager''"
| "ProviderRole_value ProviderRole_FINANCE_MANAGER = ''finance_manager''"
| "ProviderRole_value ProviderRole_DEVELOPER = ''developer''"

definition ProviderRole_members :: "ProviderRole list" where
  "ProviderRole_members =
     [ProviderRole_PROVIDER_OWNER,
      ProviderRole_PROVIDER_ADMIN,
      ProviderRole_SALES_MANAGER,
      ProviderRole_IMPLEMENTATION_MANAGER,
      ProviderRole_CONSULTANT,
      ProviderRole_SUPPORT_MANAGER,
      ProviderRole_FINANCE_MANAGER,
      ProviderRole_DEVELOPER]"

interpretation providerRole: str_enum ProviderRole_members ProviderRole_value
  by unfold_locales (case_tac x, simp_all add: ProviderRole_members_def)

datatype TenantRole =
    TenantRole_TENANT_OWNER
  | TenantRole_TENANT_ADMIN
  | TenantRole_MEMBER

primrec TenantRole_value :: "TenantRole \<Rightarrow> string" where
  "TenantRole_value TenantRole_TENANT_OWNER = ''tenant_owner''"
| "TenantRole_value TenantRole_TENANT_ADMIN = ''tenant_admin''"
| "TenantRole_value TenantRole_MEMBER = ''member''"

definition TenantRole_members :: "TenantRole list" where
  "TenantRole_members =
     [TenantRole_TENANT_OWNER,
      TenantRole_TENANT_ADMIN,
      TenantRole_MEMBER]"

interpretation tenantRole: str_enum TenantRole_members TenantRole_value
  by unfold_locales (case_tac x, simp_all add: TenantRole_members_def)

datatype TenantStatus =
    TenantStatus_ACTIVE
  | TenantStatus_TRIAL
  | TenantStatus_SUSPENDED
  | TenantStatus_ARCHIVED

primrec TenantStatus_value :: "TenantStatus \<Rightarrow> string" where
  "TenantStatus_value TenantStatus_ACTIVE = ''active''"
| "TenantStatus_value TenantStatus_TRIAL = ''trial''"
| "TenantStatus_value TenantStatus_SUSPENDED = ''suspended''"
| "TenantStatus_value TenantStatus_ARCHIVED = ''archived''"

definition TenantStatus_members :: "TenantStatus list" where
  "TenantStatus_members =
     [TenantStatus_ACTIVE,
      TenantStatus_TRIAL,
      TenantStatus_SUSPENDED,
      TenantStatus_ARCHIVED]"

interpretation tenantStatus: str_enum TenantStatus_members TenantStatus_value
  by unfold_locales (case_tac x, simp_all add: TenantStatus_members_def)

datatype ModuleStatus =
    ModuleStatus_ENABLED
  | ModuleStatus_DISABLED
  | ModuleStatus_TRIAL
  | ModuleStatus_SUSPENDED

primrec ModuleStatus_value :: "ModuleStatus \<Rightarrow> string" where
  "ModuleStatus_value ModuleStatus_ENABLED = ''enabled''"
| "ModuleStatus_value ModuleStatus_DISABLED = ''disabled''"
| "ModuleStatus_value ModuleStatus_TRIAL = ''trial''"
| "ModuleStatus_value ModuleStatus_SUSPENDED = ''suspended''"

definition ModuleStatus_members :: "ModuleStatus list" where
  "ModuleStatus_members =
     [ModuleStatus_ENABLED,
      ModuleStatus_DISABLED,
      ModuleStatus_TRIAL,
      ModuleStatus_SUSPENDED]"

interpretation moduleStatus: str_enum ModuleStatus_members ModuleStatus_value
  by unfold_locales (case_tac x, simp_all add: ModuleStatus_members_def)

datatype ModuleMode =
    ModuleMode_INTERNAL
  | ModuleMode_EXTERNAL
  | ModuleMode_HYBRID
  | ModuleMode_DISABLED

primrec ModuleMode_value :: "ModuleMode \<Rightarrow> string" where
  "ModuleMode_value ModuleMode_INTERNAL = ''internal''"
| "ModuleMode_value ModuleMode_EXTERNAL = ''external''"
| "ModuleMode_value ModuleMode_HYBRID = ''hybrid''"
| "ModuleMode_value ModuleMode_DISABLED = ''disabled''"

definition ModuleMode_members :: "ModuleMode list" where
  "ModuleMode_members =
     [ModuleMode_INTERNAL,
      ModuleMode_EXTERNAL,
      ModuleMode_HYBRID,
      ModuleMode_DISABLED]"

interpretation moduleMode: str_enum ModuleMode_members ModuleMode_value
  by unfold_locales (case_tac x, simp_all add: ModuleMode_members_def)

datatype SubscriptionStatus =
    SubscriptionStatus_ACTIVE
  | SubscriptionStatus_TRIAL
  | SubscriptionStatus_PAST_DUE
  | SubscriptionStatus_CANCELLED
  | SubscriptionStatus_EXPIRED

primrec SubscriptionStatus_value :: "SubscriptionStatus \<Rightarrow> string" where
  "SubscriptionStatus_value SubscriptionStatus_ACTIVE = ''active''"
| "SubscriptionStatus_value SubscriptionStatus_TRIAL = ''trial''"
| "SubscriptionStatus_value SubscriptionStatus_PAST_DUE = ''past_due''"
| "SubscriptionStatus_value SubscriptionStatus_CANCELLED = ''cancelled''"
| "SubscriptionStatus_value SubscriptionStatus_EXPIRED = ''expired''"

definition SubscriptionStatus_members :: "SubscriptionStatus list" where
  "SubscriptionStatus_members =
     [SubscriptionStatus_ACTIVE,
      SubscriptionStatus_TRIAL,
      SubscriptionStatus_PAST_DUE,
      SubscriptionStatus_CANCELLED,
      SubscriptionStatus_EXPIRED]"

interpretation subscriptionStatus: str_enum SubscriptionStatus_members SubscriptionStatus_value
  by unfold_locales (case_tac x, simp_all add: SubscriptionStatus_members_def)

datatype UsagePeriod =
    UsagePeriod_DAILY
  | UsagePeriod_MONTHLY
  | UsagePeriod_YEARLY
  | UsagePeriod_LIFETIME

primrec UsagePeriod_value :: "UsagePeriod \<Rightarrow> string" where
  "UsagePeriod_value UsagePeriod_DAILY = ''daily''"
| "UsagePeriod_value UsagePeriod_MONTHLY = ''monthly''"
| "UsagePeriod_value UsagePeriod_YEARLY = ''yearly''"
| "UsagePeriod_value UsagePeriod_LIFETIME = ''lifetime''"

definition UsagePeriod_members :: "UsagePeriod list" where
  "UsagePeriod_members =
     [UsagePeriod_DAILY,
      UsagePeriod_MONTHLY,
      UsagePeriod_YEARLY,
      UsagePeriod_LIFETIME]"

interpretation usagePeriod: str_enum UsagePeriod_members UsagePeriod_value
  by unfold_locales (case_tac x, simp_all add: UsagePeriod_members_def)

datatype PartyType =
    PartyType_PERSON
  | PartyType_ORGANIZATION
  | PartyType_SOLE_PROPRIETOR

primrec PartyType_value :: "PartyType \<Rightarrow> string" where
  "PartyType_value PartyType_PERSON = ''person''"
| "PartyType_value PartyType_ORGANIZATION = ''organization''"
| "PartyType_value PartyType_SOLE_PROPRIETOR = ''sole_proprietor''"

definition PartyType_members :: "PartyType list" where
  "PartyType_members =
     [PartyType_PERSON,
      PartyType_ORGANIZATION,
      PartyType_SOLE_PROPRIETOR]"

interpretation partyType: str_enum PartyType_members PartyType_value
  by unfold_locales (case_tac x, simp_all add: PartyType_members_def)

datatype PartyStatus =
    PartyStatus_ACTIVE
  | PartyStatus_INACTIVE
  | PartyStatus_ARCHIVED

primrec PartyStatus_value :: "PartyStatus \<Rightarrow> string" where
  "PartyStatus_value PartyStatus_ACTIVE = ''active''"
| "PartyStatus_value PartyStatus_INACTIVE = ''inactive''"
| "PartyStatus_value PartyStatus_ARCHIVED = ''archived''"

definition PartyStatus_members :: "PartyStatus list" where
  "PartyStatus_members =
     [PartyStatus_ACTIVE,
      PartyStatus_INACTIVE,
      PartyStatus_ARCHIVED]"

interpretation partyStatus: str_enum PartyStatus_members PartyStatus_value
  by unfold_locales (case_tac x, simp_all add: PartyStatus_members_def)

datatype ContactMethodType =
    ContactMethodType_EMAIL
  | ContactMethodType_PHONE
  | ContactMethodType_MOBILE
  | ContactMethodType_TELEGRAM
  | ContactMethodType_WHATSAPP
  | ContactMethodType_OTHER

primrec ContactMethodType_value :: "ContactMethodType \<Rightarrow> string" where
  "ContactMethodType_value ContactMethodType_EMAIL = ''email''"
| "ContactMethodType_value ContactMethodType_PHONE = ''phone''"
| "ContactMethodType_value ContactMethodType_MOBILE = ''mobile''"
| "ContactMethodType_value ContactMethodType_TELEGRAM = ''telegram''"
| "ContactMethodType_value ContactMethodType_WHATSAPP = ''whatsapp''"
| "ContactMethodType_value ContactMethodType_OTHER = ''other''"

definition ContactMethodType_members :: "ContactMethodType list" where
  "ContactMethodType_members =
     [ContactMethodType_EMAIL,
      ContactMethodType_PHONE,
      ContactMethodType_MOBILE,
      ContactMethodType_TELEGRAM,
      ContactMethodType_WHATSAPP,
      ContactMethodType_OTHER]"

interpretation contactMethodType: str_enum ContactMethodType_members ContactMethodType_value
  by unfold_locales (case_tac x, simp_all add: ContactMethodType_members_def)

datatype AddressType =
    AddressType_LEGAL
  | AddressType_ACTUAL
  | AddressType_MAILING
  | AddressType_OTHER

primrec AddressType_value :: "AddressType \<Rightarrow> string" where
  "AddressType_value AddressType_LEGAL = ''legal''"
| "AddressType_value AddressType_ACTUAL = ''actual''"
| "AddressType_value AddressType_MAILING = ''mailing''"
| "AddressType_value AddressType_OTHER = ''other''"

definition AddressType_members :: "AddressType list" where
  "AddressType_members =
     [AddressType_LEGAL,
      AddressType_ACTUAL,
      AddressType_MAILING,
      AddressType_OTHER]"

interpretation addressType: str_enum AddressType_members AddressType_value
  by unfold_locales (case_tac x, simp_all add: AddressType_members_def)

datatype WorkItemStatus =
    WorkItemStatus_OPEN
  | WorkItemStatus_IN_PROGRESS
  | WorkItemStatus_WON
  | WorkItemStatus_LOST
  | WorkItemStatus_CANCELLED
  | WorkItemStatus_ARCHIVED

primrec WorkItemStatus_value :: "WorkItemStatus \<Rightarrow> string" where
  "WorkItemStatus_value WorkItemStatus_OPEN = ''open''"
| "WorkItemStatus_value WorkItemStatus_IN_PROGRESS = ''in_progress''"
| "WorkItemStatus_value WorkItemStatus_WON = ''won''"
| "WorkItemStatus_value WorkItemStatus_LOST = ''lost''"
| "WorkItemStatus_value WorkItemStatus_CANCELLED = ''cancelled''"
| "WorkItemStatus_value WorkItemStatus_ARCHIVED = ''archived''"

definition WorkItemStatus_members :: "WorkItemStatus list" where
  "WorkItemStatus_members =
     [WorkItemStatus_OPEN,
      WorkItemStatus_IN_PROGRESS,
      WorkItemStatus_WON,
      WorkItemStatus_LOST,
      WorkItemStatus_CANCELLED,
      WorkItemStatus_ARCHIVED]"

interpretation workItemStatus: str_enum WorkItemStatus_members WorkItemStatus_value
  by unfold_locales (case_tac x, simp_all add: WorkItemStatus_members_def)

datatype ActivityType =
    ActivityType_CALL
  | ActivityType_EMAIL
  | ActivityType_MEETING
  | ActivityType_NOTE
  | ActivityType_STATUS_CHANGE
  | ActivityType_OTHER

primrec ActivityType_value :: "ActivityType \<Rightarrow> string" where
  "ActivityType_value ActivityType_CALL = ''call''"
| "ActivityType_value ActivityType_EMAIL = ''email''"
| "ActivityType_value ActivityType_MEETING = ''meeting''"
| "ActivityType_value ActivityType_NOTE = ''note''"
| "ActivityType_value ActivityType_STATUS_CHANGE = ''status_change''"
| "ActivityType_value ActivityType_OTHER = ''other''"

definition ActivityType_members :: "ActivityType list" where
  "ActivityType_members =
     [ActivityType_CALL,
      ActivityType_EMAIL,
      ActivityType_MEETING,
      ActivityType_NOTE,
      ActivityType_STATUS_CHANGE,
      ActivityType_OTHER]"

interpretation activityType: str_enum ActivityType_members ActivityType_value
  by unfold_locales (case_tac x, simp_all add: ActivityType_members_def)

datatype TaskStatus =
    TaskStatus_PENDING
  | TaskStatus_IN_PROGRESS
  | TaskStatus_DONE
  | TaskStatus_CANCELLED

primrec TaskStatus_value :: "TaskStatus \<Rightarrow> string" where
  "TaskStatus_value TaskStatus_PENDING = ''pending''"
| "TaskStatus_value TaskStatus_IN_PROGRESS = ''in_progress''"
| "TaskStatus_value TaskStatus_DONE = ''done''"
| "TaskStatus_value TaskStatus_CANCELLED = ''cancelled''"

definition TaskStatus_members :: "TaskStatus list" where
  "TaskStatus_members =
     [TaskStatus_PENDING,
      TaskStatus_IN_PROGRESS,
      TaskStatus_DONE,
      TaskStatus_CANCELLED]"

interpretation taskStatus: str_enum TaskStatus_members TaskStatus_value
  by unfold_locales (case_tac x, simp_all add: TaskStatus_members_def)

datatype ReminderStatus =
    ReminderStatus_SCHEDULED
  | ReminderStatus_SENT
  | ReminderStatus_CANCELLED

primrec ReminderStatus_value :: "ReminderStatus \<Rightarrow> string" where
  "ReminderStatus_value ReminderStatus_SCHEDULED = ''scheduled''"
| "ReminderStatus_value ReminderStatus_SENT = ''sent''"
| "ReminderStatus_value ReminderStatus_CANCELLED = ''cancelled''"

definition ReminderStatus_members :: "ReminderStatus list" where
  "ReminderStatus_members =
     [ReminderStatus_SCHEDULED,
      ReminderStatus_SENT,
      ReminderStatus_CANCELLED]"

interpretation reminderStatus: str_enum ReminderStatus_members ReminderStatus_value
  by unfold_locales (case_tac x, simp_all add: ReminderStatus_members_def)

datatype WorkItemParticipantRole =
    WorkItemParticipantRole_CLIENT
  | WorkItemParticipantRole_ASSIGNEE
  | WorkItemParticipantRole_OBSERVER
  | WorkItemParticipantRole_OTHER

primrec WorkItemParticipantRole_value :: "WorkItemParticipantRole \<Rightarrow> string" where
  "WorkItemParticipantRole_value WorkItemParticipantRole_CLIENT = ''client''"
| "WorkItemParticipantRole_value WorkItemParticipantRole_ASSIGNEE = ''assignee''"
| "WorkItemParticipantRole_value WorkItemParticipantRole_OBSERVER = ''observer''"
| "WorkItemParticipantRole_value WorkItemParticipantRole_OTHER = ''other''"

definition WorkItemParticipantRole_members :: "WorkItemParticipantRole list" where
  "WorkItemParticipantRole_members =
     [WorkItemParticipantRole_CLIENT,
      WorkItemParticipantRole_ASSIGNEE,
      WorkItemParticipantRole_OBSERVER,
      WorkItemParticipantRole_OTHER]"

interpretation workItemParticipantRole: str_enum WorkItemParticipantRole_members WorkItemParticipantRole_value
  by unfold_locales (case_tac x, simp_all add: WorkItemParticipantRole_members_def)

datatype DocumentStatus =
    DocumentStatus_DRAFT
  | DocumentStatus_GENERATED
  | DocumentStatus_SENT_FOR_REVIEW
  | DocumentStatus_SENT_FOR_SIGNATURE
  | DocumentStatus_SIGNED
  | DocumentStatus_REJECTED
  | DocumentStatus_CANCELLED
  | DocumentStatus_ARCHIVED

primrec DocumentStatus_value :: "DocumentStatus \<Rightarrow> string" where
  "DocumentStatus_value DocumentStatus_DRAFT = ''draft''"
| "DocumentStatus_value DocumentStatus_GENERATED = ''generated''"
| "DocumentStatus_value DocumentStatus_SENT_FOR_REVIEW = ''sent_for_review''"
| "DocumentStatus_value DocumentStatus_SENT_FOR_SIGNATURE = ''sent_for_signature''"
| "DocumentStatus_value DocumentStatus_SIGNED = ''signed''"
| "DocumentStatus_value DocumentStatus_REJECTED = ''rejected''"
| "DocumentStatus_value DocumentStatus_CANCELLED = ''cancelled''"
| "DocumentStatus_value DocumentStatus_ARCHIVED = ''archived''"

definition DocumentStatus_members :: "DocumentStatus list" where
  "DocumentStatus_members =
     [DocumentStatus_DRAFT,
      DocumentStatus_GENERATED,
      DocumentStatus_SENT_FOR_REVIEW,
      DocumentStatus_SENT_FOR_SIGNATURE,
      DocumentStatus_SIGNED,
      DocumentStatus_REJECTED,
      DocumentStatus_CANCELLED,
      DocumentStatus_ARCHIVED]"

interpretation documentStatus: str_enum DocumentStatus_members DocumentStatus_value
  by unfold_locales (case_tac x, simp_all add: DocumentStatus_members_def)

datatype SignatureStatus =
    SignatureStatus_PENDING
  | SignatureStatus_SENT
  | SignatureStatus_SIGNED
  | SignatureStatus_REJECTED
  | SignatureStatus_CANCELLED

primrec SignatureStatus_value :: "SignatureStatus \<Rightarrow> string" where
  "SignatureStatus_value SignatureStatus_PENDING = ''pending''"
| "SignatureStatus_value SignatureStatus_SENT = ''sent''"
| "SignatureStatus_value SignatureStatus_SIGNED = ''signed''"
| "SignatureStatus_value SignatureStatus_REJECTED = ''rejected''"
| "SignatureStatus_value SignatureStatus_CANCELLED = ''cancelled''"

definition SignatureStatus_members :: "SignatureStatus list" where
  "SignatureStatus_members =
     [SignatureStatus_PENDING,
      SignatureStatus_SENT,
      SignatureStatus_SIGNED,
      SignatureStatus_REJECTED,
      SignatureStatus_CANCELLED]"

interpretation signatureStatus: str_enum SignatureStatus_members SignatureStatus_value
  by unfold_locales (case_tac x, simp_all add: SignatureStatus_members_def)

datatype DocumentFileType =
    DocumentFileType_GENERATED
  | DocumentFileType_SIGNED
  | DocumentFileType_ATTACHMENT

primrec DocumentFileType_value :: "DocumentFileType \<Rightarrow> string" where
  "DocumentFileType_value DocumentFileType_GENERATED = ''generated''"
| "DocumentFileType_value DocumentFileType_SIGNED = ''signed''"
| "DocumentFileType_value DocumentFileType_ATTACHMENT = ''attachment''"

definition DocumentFileType_members :: "DocumentFileType list" where
  "DocumentFileType_members =
     [DocumentFileType_GENERATED,
      DocumentFileType_SIGNED,
      DocumentFileType_ATTACHMENT]"

interpretation documentFileType: str_enum DocumentFileType_members DocumentFileType_value
  by unfold_locales (case_tac x, simp_all add: DocumentFileType_members_def)

datatype InvoiceStatus =
    InvoiceStatus_DRAFT
  | InvoiceStatus_ISSUED
  | InvoiceStatus_SENT
  | InvoiceStatus_PARTIAL
  | InvoiceStatus_PAID
  | InvoiceStatus_OVERDUE
  | InvoiceStatus_CANCELLED
  | InvoiceStatus_VOID

primrec InvoiceStatus_value :: "InvoiceStatus \<Rightarrow> string" where
  "InvoiceStatus_value InvoiceStatus_DRAFT = ''draft''"
| "InvoiceStatus_value InvoiceStatus_ISSUED = ''issued''"
| "InvoiceStatus_value InvoiceStatus_SENT = ''sent''"
| "InvoiceStatus_value InvoiceStatus_PARTIAL = ''partial''"
| "InvoiceStatus_value InvoiceStatus_PAID = ''paid''"
| "InvoiceStatus_value InvoiceStatus_OVERDUE = ''overdue''"
| "InvoiceStatus_value InvoiceStatus_CANCELLED = ''cancelled''"
| "InvoiceStatus_value InvoiceStatus_VOID = ''void''"

definition InvoiceStatus_members :: "InvoiceStatus list" where
  "InvoiceStatus_members =
     [InvoiceStatus_DRAFT,
      InvoiceStatus_ISSUED,
      InvoiceStatus_SENT,
      InvoiceStatus_PARTIAL,
      InvoiceStatus_PAID,
      InvoiceStatus_OVERDUE,
      InvoiceStatus_CANCELLED,
      InvoiceStatus_VOID]"

interpretation invoiceStatus: str_enum InvoiceStatus_members InvoiceStatus_value
  by unfold_locales (case_tac x, simp_all add: InvoiceStatus_members_def)

datatype PaymentStatus =
    PaymentStatus_PENDING
  | PaymentStatus_COMPLETED
  | PaymentStatus_FAILED
  | PaymentStatus_REFUNDED
  | PaymentStatus_CANCELLED

primrec PaymentStatus_value :: "PaymentStatus \<Rightarrow> string" where
  "PaymentStatus_value PaymentStatus_PENDING = ''pending''"
| "PaymentStatus_value PaymentStatus_COMPLETED = ''completed''"
| "PaymentStatus_value PaymentStatus_FAILED = ''failed''"
| "PaymentStatus_value PaymentStatus_REFUNDED = ''refunded''"
| "PaymentStatus_value PaymentStatus_CANCELLED = ''cancelled''"

definition PaymentStatus_members :: "PaymentStatus list" where
  "PaymentStatus_members =
     [PaymentStatus_PENDING,
      PaymentStatus_COMPLETED,
      PaymentStatus_FAILED,
      PaymentStatus_REFUNDED,
      PaymentStatus_CANCELLED]"

interpretation paymentStatus: str_enum PaymentStatus_members PaymentStatus_value
  by unfold_locales (case_tac x, simp_all add: PaymentStatus_members_def)

datatype PaymentMethod =
    PaymentMethod_BANK_TRANSFER
  | PaymentMethod_CASH
  | PaymentMethod_CARD
  | PaymentMethod_ONLINE
  | PaymentMethod_OTHER

primrec PaymentMethod_value :: "PaymentMethod \<Rightarrow> string" where
  "PaymentMethod_value PaymentMethod_BANK_TRANSFER = ''bank_transfer''"
| "PaymentMethod_value PaymentMethod_CASH = ''cash''"
| "PaymentMethod_value PaymentMethod_CARD = ''card''"
| "PaymentMethod_value PaymentMethod_ONLINE = ''online''"
| "PaymentMethod_value PaymentMethod_OTHER = ''other''"

definition PaymentMethod_members :: "PaymentMethod list" where
  "PaymentMethod_members =
     [PaymentMethod_BANK_TRANSFER,
      PaymentMethod_CASH,
      PaymentMethod_CARD,
      PaymentMethod_ONLINE,
      PaymentMethod_OTHER]"

interpretation paymentMethod: str_enum PaymentMethod_members PaymentMethod_value
  by unfold_locales (case_tac x, simp_all add: PaymentMethod_members_def)

datatype PaymentDirection =
    PaymentDirection_INCOMING
  | PaymentDirection_OUTGOING
  | PaymentDirection_NEEDS_REVIEW

primrec PaymentDirection_value :: "PaymentDirection \<Rightarrow> string" where
  "PaymentDirection_value PaymentDirection_INCOMING = ''incoming''"
| "PaymentDirection_value PaymentDirection_OUTGOING = ''outgoing''"
| "PaymentDirection_value PaymentDirection_NEEDS_REVIEW = ''needs_review''"

definition PaymentDirection_members :: "PaymentDirection list" where
  "PaymentDirection_members =
     [PaymentDirection_INCOMING,
      PaymentDirection_OUTGOING,
      PaymentDirection_NEEDS_REVIEW]"

interpretation paymentDirection: str_enum PaymentDirection_members PaymentDirection_value
  by unfold_locales (case_tac x, simp_all add: PaymentDirection_members_def)

datatype AuditAction =
    AuditAction_CREATE
  | AuditAction_UPDATE
  | AuditAction_DELETE
  | AuditAction_EXECUTE
  | AuditAction_APPROVE
  | AuditAction_REJECT
  | AuditAction_LOGIN
  | AuditAction_OTHER

primrec AuditAction_value :: "AuditAction \<Rightarrow> string" where
  "AuditAction_value AuditAction_CREATE = ''create''"
| "AuditAction_value AuditAction_UPDATE = ''update''"
| "AuditAction_value AuditAction_DELETE = ''delete''"
| "AuditAction_value AuditAction_EXECUTE = ''execute''"
| "AuditAction_value AuditAction_APPROVE = ''approve''"
| "AuditAction_value AuditAction_REJECT = ''reject''"
| "AuditAction_value AuditAction_LOGIN = ''login''"
| "AuditAction_value AuditAction_OTHER = ''other''"

definition AuditAction_members :: "AuditAction list" where
  "AuditAction_members =
     [AuditAction_CREATE,
      AuditAction_UPDATE,
      AuditAction_DELETE,
      AuditAction_EXECUTE,
      AuditAction_APPROVE,
      AuditAction_REJECT,
      AuditAction_LOGIN,
      AuditAction_OTHER]"

interpretation auditAction: str_enum AuditAction_members AuditAction_value
  by unfold_locales (case_tac x, simp_all add: AuditAction_members_def)

datatype SecurityEventType =
    SecurityEventType_LOGIN_SUCCESS
  | SecurityEventType_LOGIN_FAILED
  | SecurityEventType_LOGOUT
  | SecurityEventType_TOKEN_REFRESH
  | SecurityEventType_REGISTER
  | SecurityEventType_PASSWORD_CHANGE
  | SecurityEventType_ACCOUNT_LOCKED
  | SecurityEventType_OTHER

primrec SecurityEventType_value :: "SecurityEventType \<Rightarrow> string" where
  "SecurityEventType_value SecurityEventType_LOGIN_SUCCESS = ''login_success''"
| "SecurityEventType_value SecurityEventType_LOGIN_FAILED = ''login_failed''"
| "SecurityEventType_value SecurityEventType_LOGOUT = ''logout''"
| "SecurityEventType_value SecurityEventType_TOKEN_REFRESH = ''token_refresh''"
| "SecurityEventType_value SecurityEventType_REGISTER = ''register''"
| "SecurityEventType_value SecurityEventType_PASSWORD_CHANGE = ''password_change''"
| "SecurityEventType_value SecurityEventType_ACCOUNT_LOCKED = ''account_locked''"
| "SecurityEventType_value SecurityEventType_OTHER = ''other''"

definition SecurityEventType_members :: "SecurityEventType list" where
  "SecurityEventType_members =
     [SecurityEventType_LOGIN_SUCCESS,
      SecurityEventType_LOGIN_FAILED,
      SecurityEventType_LOGOUT,
      SecurityEventType_TOKEN_REFRESH,
      SecurityEventType_REGISTER,
      SecurityEventType_PASSWORD_CHANGE,
      SecurityEventType_ACCOUNT_LOCKED,
      SecurityEventType_OTHER]"

interpretation securityEventType: str_enum SecurityEventType_members SecurityEventType_value
  by unfold_locales (case_tac x, simp_all add: SecurityEventType_members_def)

datatype DataAccessType =
    DataAccessType_READ
  | DataAccessType_LIST
  | DataAccessType_EXPORT
  | DataAccessType_SEARCH

primrec DataAccessType_value :: "DataAccessType \<Rightarrow> string" where
  "DataAccessType_value DataAccessType_READ = ''read''"
| "DataAccessType_value DataAccessType_LIST = ''list''"
| "DataAccessType_value DataAccessType_EXPORT = ''export''"
| "DataAccessType_value DataAccessType_SEARCH = ''search''"

definition DataAccessType_members :: "DataAccessType list" where
  "DataAccessType_members =
     [DataAccessType_READ,
      DataAccessType_LIST,
      DataAccessType_EXPORT,
      DataAccessType_SEARCH]"

interpretation dataAccessType: str_enum DataAccessType_members DataAccessType_value
  by unfold_locales (case_tac x, simp_all add: DataAccessType_members_def)

datatype AITaskStatus =
    AITaskStatus_PENDING
  | AITaskStatus_RUNNING
  | AITaskStatus_COMPLETED
  | AITaskStatus_FAILED
  | AITaskStatus_CANCELLED

primrec AITaskStatus_value :: "AITaskStatus \<Rightarrow> string" where
  "AITaskStatus_value AITaskStatus_PENDING = ''pending''"
| "AITaskStatus_value AITaskStatus_RUNNING = ''running''"
| "AITaskStatus_value AITaskStatus_COMPLETED = ''completed''"
| "AITaskStatus_value AITaskStatus_FAILED = ''failed''"
| "AITaskStatus_value AITaskStatus_CANCELLED = ''cancelled''"

definition AITaskStatus_members :: "AITaskStatus list" where
  "AITaskStatus_members =
     [AITaskStatus_PENDING,
      AITaskStatus_RUNNING,
      AITaskStatus_COMPLETED,
      AITaskStatus_FAILED,
      AITaskStatus_CANCELLED]"

interpretation aiTaskStatus: str_enum AITaskStatus_members AITaskStatus_value
  by unfold_locales (case_tac x, simp_all add: AITaskStatus_members_def)

datatype AIActionProposalStatus =
    AIActionProposalStatus_PENDING
  | AIActionProposalStatus_APPROVED
  | AIActionProposalStatus_REJECTED
  | AIActionProposalStatus_EXECUTED
  | AIActionProposalStatus_EXPIRED
  | AIActionProposalStatus_CANCELLED

primrec AIActionProposalStatus_value :: "AIActionProposalStatus \<Rightarrow> string" where
  "AIActionProposalStatus_value AIActionProposalStatus_PENDING = ''pending''"
| "AIActionProposalStatus_value AIActionProposalStatus_APPROVED = ''approved''"
| "AIActionProposalStatus_value AIActionProposalStatus_REJECTED = ''rejected''"
| "AIActionProposalStatus_value AIActionProposalStatus_EXECUTED = ''executed''"
| "AIActionProposalStatus_value AIActionProposalStatus_EXPIRED = ''expired''"
| "AIActionProposalStatus_value AIActionProposalStatus_CANCELLED = ''cancelled''"

definition AIActionProposalStatus_members :: "AIActionProposalStatus list" where
  "AIActionProposalStatus_members =
     [AIActionProposalStatus_PENDING,
      AIActionProposalStatus_APPROVED,
      AIActionProposalStatus_REJECTED,
      AIActionProposalStatus_EXECUTED,
      AIActionProposalStatus_EXPIRED,
      AIActionProposalStatus_CANCELLED]"

interpretation aIActionProposalStatus: str_enum AIActionProposalStatus_members AIActionProposalStatus_value
  by unfold_locales (case_tac x, simp_all add: AIActionProposalStatus_members_def)

datatype AIApprovalDecision =
    AIApprovalDecision_APPROVED
  | AIApprovalDecision_REJECTED

primrec AIApprovalDecision_value :: "AIApprovalDecision \<Rightarrow> string" where
  "AIApprovalDecision_value AIApprovalDecision_APPROVED = ''approved''"
| "AIApprovalDecision_value AIApprovalDecision_REJECTED = ''rejected''"

definition AIApprovalDecision_members :: "AIApprovalDecision list" where
  "AIApprovalDecision_members =
     [AIApprovalDecision_APPROVED,
      AIApprovalDecision_REJECTED]"

interpretation aIApprovalDecision: str_enum AIApprovalDecision_members AIApprovalDecision_value
  by unfold_locales (case_tac x, simp_all add: AIApprovalDecision_members_def)

datatype AIActionType =
    AIActionType_SEND_DOCUMENT
  | AIActionType_CREATE_INVOICE
  | AIActionType_UPDATE_PAYMENT
  | AIActionType_DELETE_DATA
  | AIActionType_SEND_MESSAGE
  | AIActionType_CHANGE_WORK_ITEM_STATUS
  | AIActionType_UPDATE_LEGAL_PROFILE
  | AIActionType_OTHER

primrec AIActionType_value :: "AIActionType \<Rightarrow> string" where
  "AIActionType_value AIActionType_SEND_DOCUMENT = ''send_document''"
| "AIActionType_value AIActionType_CREATE_INVOICE = ''create_invoice''"
| "AIActionType_value AIActionType_UPDATE_PAYMENT = ''update_payment''"
| "AIActionType_value AIActionType_DELETE_DATA = ''delete_data''"
| "AIActionType_value AIActionType_SEND_MESSAGE = ''send_message''"
| "AIActionType_value AIActionType_CHANGE_WORK_ITEM_STATUS = ''change_work_item_status''"
| "AIActionType_value AIActionType_UPDATE_LEGAL_PROFILE = ''update_legal_profile''"
| "AIActionType_value AIActionType_OTHER = ''other''"

definition AIActionType_members :: "AIActionType list" where
  "AIActionType_members =
     [AIActionType_SEND_DOCUMENT,
      AIActionType_CREATE_INVOICE,
      AIActionType_UPDATE_PAYMENT,
      AIActionType_DELETE_DATA,
      AIActionType_SEND_MESSAGE,
      AIActionType_CHANGE_WORK_ITEM_STATUS,
      AIActionType_UPDATE_LEGAL_PROFILE,
      AIActionType_OTHER]"

interpretation aIActionType: str_enum AIActionType_members AIActionType_value
  by unfold_locales (case_tac x, simp_all add: AIActionType_members_def)

datatype IntegrationConnectionStatus =
    IntegrationConnectionStatus_PENDING
  | IntegrationConnectionStatus_ACTIVE
  | IntegrationConnectionStatus_ERROR
  | IntegrationConnectionStatus_DISCONNECTED

primrec IntegrationConnectionStatus_value :: "IntegrationConnectionStatus \<Rightarrow> string" where
  "IntegrationConnectionStatus_value IntegrationConnectionStatus_PENDING = ''pending''"
| "IntegrationConnectionStatus_value IntegrationConnectionStatus_ACTIVE = ''active''"
| "IntegrationConnectionStatus_value IntegrationConnectionStatus_ERROR = ''error''"
| "IntegrationConnectionStatus_value IntegrationConnectionStatus_DISCONNECTED = ''disconnected''"

definition IntegrationConnectionStatus_members :: "IntegrationConnectionStatus list" where
  "IntegrationConnectionStatus_members =
     [IntegrationConnectionStatus_PENDING,
      IntegrationConnectionStatus_ACTIVE,
      IntegrationConnectionStatus_ERROR,
      IntegrationConnectionStatus_DISCONNECTED]"

interpretation integrationConnectionStatus: str_enum IntegrationConnectionStatus_members IntegrationConnectionStatus_value
  by unfold_locales (case_tac x, simp_all add: IntegrationConnectionStatus_members_def)

datatype ExternalSyncStatus =
    ExternalSyncStatus_PENDING
  | ExternalSyncStatus_LINKED
  | ExternalSyncStatus_SYNCED
  | ExternalSyncStatus_ERROR

primrec ExternalSyncStatus_value :: "ExternalSyncStatus \<Rightarrow> string" where
  "ExternalSyncStatus_value ExternalSyncStatus_PENDING = ''pending''"
| "ExternalSyncStatus_value ExternalSyncStatus_LINKED = ''linked''"
| "ExternalSyncStatus_value ExternalSyncStatus_SYNCED = ''synced''"
| "ExternalSyncStatus_value ExternalSyncStatus_ERROR = ''error''"

definition ExternalSyncStatus_members :: "ExternalSyncStatus list" where
  "ExternalSyncStatus_members =
     [ExternalSyncStatus_PENDING,
      ExternalSyncStatus_LINKED,
      ExternalSyncStatus_SYNCED,
      ExternalSyncStatus_ERROR]"

interpretation externalSyncStatus: str_enum ExternalSyncStatus_members ExternalSyncStatus_value
  by unfold_locales (case_tac x, simp_all add: ExternalSyncStatus_members_def)

datatype SyncJobStatus =
    SyncJobStatus_QUEUED
  | SyncJobStatus_RUNNING
  | SyncJobStatus_COMPLETED
  | SyncJobStatus_FAILED
  | SyncJobStatus_CANCELLED

primrec SyncJobStatus_value :: "SyncJobStatus \<Rightarrow> string" where
  "SyncJobStatus_value SyncJobStatus_QUEUED = ''queued''"
| "SyncJobStatus_value SyncJobStatus_RUNNING = ''running''"
| "SyncJobStatus_value SyncJobStatus_COMPLETED = ''completed''"
| "SyncJobStatus_value SyncJobStatus_FAILED = ''failed''"
| "SyncJobStatus_value SyncJobStatus_CANCELLED = ''cancelled''"

definition SyncJobStatus_members :: "SyncJobStatus list" where
  "SyncJobStatus_members =
     [SyncJobStatus_QUEUED,
      SyncJobStatus_RUNNING,
      SyncJobStatus_COMPLETED,
      SyncJobStatus_FAILED,
      SyncJobStatus_CANCELLED]"

interpretation syncJobStatus: str_enum SyncJobStatus_members SyncJobStatus_value
  by unfold_locales (case_tac x, simp_all add: SyncJobStatus_members_def)

datatype SyncJobType =
    SyncJobType_TEST
  | SyncJobType_FULL_SYNC
  | SyncJobType_INCREMENTAL

primrec SyncJobType_value :: "SyncJobType \<Rightarrow> string" where
  "SyncJobType_value SyncJobType_TEST = ''test''"
| "SyncJobType_value SyncJobType_FULL_SYNC = ''full_sync''"
| "SyncJobType_value SyncJobType_INCREMENTAL = ''incremental''"

definition SyncJobType_members :: "SyncJobType list" where
  "SyncJobType_members =
     [SyncJobType_TEST,
      SyncJobType_FULL_SYNC,
      SyncJobType_INCREMENTAL]"

interpretation syncJobType: str_enum SyncJobType_members SyncJobType_value
  by unfold_locales (case_tac x, simp_all add: SyncJobType_members_def)

datatype SyncLogLevel =
    SyncLogLevel_INFO
  | SyncLogLevel_WARNING
  | SyncLogLevel_ERROR

primrec SyncLogLevel_value :: "SyncLogLevel \<Rightarrow> string" where
  "SyncLogLevel_value SyncLogLevel_INFO = ''info''"
| "SyncLogLevel_value SyncLogLevel_WARNING = ''warning''"
| "SyncLogLevel_value SyncLogLevel_ERROR = ''error''"

definition SyncLogLevel_members :: "SyncLogLevel list" where
  "SyncLogLevel_members =
     [SyncLogLevel_INFO,
      SyncLogLevel_WARNING,
      SyncLogLevel_ERROR]"

interpretation syncLogLevel: str_enum SyncLogLevel_members SyncLogLevel_value
  by unfold_locales (case_tac x, simp_all add: SyncLogLevel_members_def)

datatype TaxRegime =
    TaxRegime_GENERAL
  | TaxRegime_SIMPLIFIED
  | TaxRegime_PATENT
  | TaxRegime_OTHER

primrec TaxRegime_value :: "TaxRegime \<Rightarrow> string" where
  "TaxRegime_value TaxRegime_GENERAL = ''general''"
| "TaxRegime_value TaxRegime_SIMPLIFIED = ''simplified''"
| "TaxRegime_value TaxRegime_PATENT = ''patent''"
| "TaxRegime_value TaxRegime_OTHER = ''other''"

definition TaxRegime_members :: "TaxRegime list" where
  "TaxRegime_members =
     [TaxRegime_GENERAL,
      TaxRegime_SIMPLIFIED,
      TaxRegime_PATENT,
      TaxRegime_OTHER]"

interpretation taxRegime: str_enum TaxRegime_members TaxRegime_value
  by unfold_locales (case_tac x, simp_all add: TaxRegime_members_def)

datatype CatalogItemType =
    CatalogItemType_PRODUCT
  | CatalogItemType_SERVICE
  | CatalogItemType_SUBSCRIPTION_SERVICE
  | CatalogItemType_BUNDLE
  | CatalogItemType_FEE
  | CatalogItemType_DISCOUNT

primrec CatalogItemType_value :: "CatalogItemType \<Rightarrow> string" where
  "CatalogItemType_value CatalogItemType_PRODUCT = ''product''"
| "CatalogItemType_value CatalogItemType_SERVICE = ''service''"
| "CatalogItemType_value CatalogItemType_SUBSCRIPTION_SERVICE = ''subscription_service''"
| "CatalogItemType_value CatalogItemType_BUNDLE = ''bundle''"
| "CatalogItemType_value CatalogItemType_FEE = ''fee''"
| "CatalogItemType_value CatalogItemType_DISCOUNT = ''discount''"

definition CatalogItemType_members :: "CatalogItemType list" where
  "CatalogItemType_members =
     [CatalogItemType_PRODUCT,
      CatalogItemType_SERVICE,
      CatalogItemType_SUBSCRIPTION_SERVICE,
      CatalogItemType_BUNDLE,
      CatalogItemType_FEE,
      CatalogItemType_DISCOUNT]"

interpretation catalogItemType: str_enum CatalogItemType_members CatalogItemType_value
  by unfold_locales (case_tac x, simp_all add: CatalogItemType_members_def)

datatype CustomFieldType =
    CustomFieldType_STRING
  | CustomFieldType_TEXT
  | CustomFieldType_NUMBER
  | CustomFieldType_MONEY
  | CustomFieldType_BOOLEAN
  | CustomFieldType_DATE
  | CustomFieldType_DATETIME
  | CustomFieldType_SELECT
  | CustomFieldType_MULTI_SELECT
  | CustomFieldType_FILE
  | CustomFieldType_JSON
  | CustomFieldType_REFERENCE

primrec CustomFieldType_value :: "CustomFieldType \<Rightarrow> string" where
  "CustomFieldType_value CustomFieldType_STRING = ''string''"
| "CustomFieldType_value CustomFieldType_TEXT = ''text''"
| "CustomFieldType_value CustomFieldType_NUMBER = ''number''"
| "CustomFieldType_value CustomFieldType_MONEY = ''money''"
| "CustomFieldType_value CustomFieldType_BOOLEAN = ''boolean''"
| "CustomFieldType_value CustomFieldType_DATE = ''date''"
| "CustomFieldType_value CustomFieldType_DATETIME = ''datetime''"
| "CustomFieldType_value CustomFieldType_SELECT = ''select''"
| "CustomFieldType_value CustomFieldType_MULTI_SELECT = ''multi_select''"
| "CustomFieldType_value CustomFieldType_FILE = ''file''"
| "CustomFieldType_value CustomFieldType_JSON = ''json''"
| "CustomFieldType_value CustomFieldType_REFERENCE = ''reference''"

definition CustomFieldType_members :: "CustomFieldType list" where
  "CustomFieldType_members =
     [CustomFieldType_STRING,
      CustomFieldType_TEXT,
      CustomFieldType_NUMBER,
      CustomFieldType_MONEY,
      CustomFieldType_BOOLEAN,
      CustomFieldType_DATE,
      CustomFieldType_DATETIME,
      CustomFieldType_SELECT,
      CustomFieldType_MULTI_SELECT,
      CustomFieldType_FILE,
      CustomFieldType_JSON,
      CustomFieldType_REFERENCE]"

interpretation customFieldType: str_enum CustomFieldType_members CustomFieldType_value
  by unfold_locales (case_tac x, simp_all add: CustomFieldType_members_def)

subsection \<open>\<^verbatim>\<open>modules/booking/enums.py\<close>\<close>

datatype BookingTerritoryStatus =
    BookingTerritoryStatus_DRAFT
  | BookingTerritoryStatus_ACTIVE
  | BookingTerritoryStatus_ARCHIVED

primrec BookingTerritoryStatus_value :: "BookingTerritoryStatus \<Rightarrow> string" where
  "BookingTerritoryStatus_value BookingTerritoryStatus_DRAFT = ''draft''"
| "BookingTerritoryStatus_value BookingTerritoryStatus_ACTIVE = ''active''"
| "BookingTerritoryStatus_value BookingTerritoryStatus_ARCHIVED = ''archived''"

definition BookingTerritoryStatus_members :: "BookingTerritoryStatus list" where
  "BookingTerritoryStatus_members =
     [BookingTerritoryStatus_DRAFT,
      BookingTerritoryStatus_ACTIVE,
      BookingTerritoryStatus_ARCHIVED]"

interpretation bookingTerritoryStatus: str_enum BookingTerritoryStatus_members BookingTerritoryStatus_value
  by unfold_locales (case_tac x, simp_all add: BookingTerritoryStatus_members_def)

datatype BookingOwnerStatus =
    BookingOwnerStatus_ACTIVE
  | BookingOwnerStatus_SUSPENDED

primrec BookingOwnerStatus_value :: "BookingOwnerStatus \<Rightarrow> string" where
  "BookingOwnerStatus_value BookingOwnerStatus_ACTIVE = ''active''"
| "BookingOwnerStatus_value BookingOwnerStatus_SUSPENDED = ''suspended''"

definition BookingOwnerStatus_members :: "BookingOwnerStatus list" where
  "BookingOwnerStatus_members =
     [BookingOwnerStatus_ACTIVE,
      BookingOwnerStatus_SUSPENDED]"

interpretation bookingOwnerStatus: str_enum BookingOwnerStatus_members BookingOwnerStatus_value
  by unfold_locales (case_tac x, simp_all add: BookingOwnerStatus_members_def)

datatype BookableObjectStatus =
    BookableObjectStatus_ACTIVE
  | BookableObjectStatus_MAINTENANCE
  | BookableObjectStatus_UNLISTED

primrec BookableObjectStatus_value :: "BookableObjectStatus \<Rightarrow> string" where
  "BookableObjectStatus_value BookableObjectStatus_ACTIVE = ''active''"
| "BookableObjectStatus_value BookableObjectStatus_MAINTENANCE = ''maintenance''"
| "BookableObjectStatus_value BookableObjectStatus_UNLISTED = ''unlisted''"

definition BookableObjectStatus_members :: "BookableObjectStatus list" where
  "BookableObjectStatus_members =
     [BookableObjectStatus_ACTIVE,
      BookableObjectStatus_MAINTENANCE,
      BookableObjectStatus_UNLISTED]"

interpretation bookableObjectStatus: str_enum BookableObjectStatus_members BookableObjectStatus_value
  by unfold_locales (case_tac x, simp_all add: BookableObjectStatus_members_def)

datatype BookableObjectType =
    BookableObjectType_CABIN
  | BookableObjectType_ZONE
  | BookableObjectType_HALL
  | BookableObjectType_OTHER

primrec BookableObjectType_value :: "BookableObjectType \<Rightarrow> string" where
  "BookableObjectType_value BookableObjectType_CABIN = ''cabin''"
| "BookableObjectType_value BookableObjectType_ZONE = ''zone''"
| "BookableObjectType_value BookableObjectType_HALL = ''hall''"
| "BookableObjectType_value BookableObjectType_OTHER = ''other''"

definition BookableObjectType_members :: "BookableObjectType list" where
  "BookableObjectType_members =
     [BookableObjectType_CABIN,
      BookableObjectType_ZONE,
      BookableObjectType_HALL,
      BookableObjectType_OTHER]"

interpretation bookableObjectType: str_enum BookableObjectType_members BookableObjectType_value
  by unfold_locales (case_tac x, simp_all add: BookableObjectType_members_def)

datatype BookablePricingUnit =
    BookablePricingUnit_PER_NIGHT
  | BookablePricingUnit_PER_STAY

primrec BookablePricingUnit_value :: "BookablePricingUnit \<Rightarrow> string" where
  "BookablePricingUnit_value BookablePricingUnit_PER_NIGHT = ''per_night''"
| "BookablePricingUnit_value BookablePricingUnit_PER_STAY = ''per_stay''"

definition BookablePricingUnit_members :: "BookablePricingUnit list" where
  "BookablePricingUnit_members =
     [BookablePricingUnit_PER_NIGHT,
      BookablePricingUnit_PER_STAY]"

interpretation bookablePricingUnit: str_enum BookablePricingUnit_members BookablePricingUnit_value
  by unfold_locales (case_tac x, simp_all add: BookablePricingUnit_members_def)

datatype BookingOrderStatus =
    BookingOrderStatus_DRAFT
  | BookingOrderStatus_HELD
  | BookingOrderStatus_PENDING_PAYMENT
  | BookingOrderStatus_PAID
  | BookingOrderStatus_CONFIRMED
  | BookingOrderStatus_CANCELLED
  | BookingOrderStatus_EXPIRED

primrec BookingOrderStatus_value :: "BookingOrderStatus \<Rightarrow> string" where
  "BookingOrderStatus_value BookingOrderStatus_DRAFT = ''draft''"
| "BookingOrderStatus_value BookingOrderStatus_HELD = ''held''"
| "BookingOrderStatus_value BookingOrderStatus_PENDING_PAYMENT = ''pending_payment''"
| "BookingOrderStatus_value BookingOrderStatus_PAID = ''paid''"
| "BookingOrderStatus_value BookingOrderStatus_CONFIRMED = ''confirmed''"
| "BookingOrderStatus_value BookingOrderStatus_CANCELLED = ''cancelled''"
| "BookingOrderStatus_value BookingOrderStatus_EXPIRED = ''expired''"

definition BookingOrderStatus_members :: "BookingOrderStatus list" where
  "BookingOrderStatus_members =
     [BookingOrderStatus_DRAFT,
      BookingOrderStatus_HELD,
      BookingOrderStatus_PENDING_PAYMENT,
      BookingOrderStatus_PAID,
      BookingOrderStatus_CONFIRMED,
      BookingOrderStatus_CANCELLED,
      BookingOrderStatus_EXPIRED]"

interpretation bookingOrderStatus: str_enum BookingOrderStatus_members BookingOrderStatus_value
  by unfold_locales (case_tac x, simp_all add: BookingOrderStatus_members_def)

datatype BookingOrderSource =
    BookingOrderSource_PUBLIC_WEB
  | BookingOrderSource_ADMIN
  | BookingOrderSource_TWOGIS
  | BookingOrderSource_EXTERNAL

primrec BookingOrderSource_value :: "BookingOrderSource \<Rightarrow> string" where
  "BookingOrderSource_value BookingOrderSource_PUBLIC_WEB = ''public_web''"
| "BookingOrderSource_value BookingOrderSource_ADMIN = ''admin''"
| "BookingOrderSource_value BookingOrderSource_TWOGIS = ''2gis''"
| "BookingOrderSource_value BookingOrderSource_EXTERNAL = ''external''"

definition BookingOrderSource_members :: "BookingOrderSource list" where
  "BookingOrderSource_members =
     [BookingOrderSource_PUBLIC_WEB,
      BookingOrderSource_ADMIN,
      BookingOrderSource_TWOGIS,
      BookingOrderSource_EXTERNAL]"

interpretation bookingOrderSource: str_enum BookingOrderSource_members BookingOrderSource_value
  by unfold_locales (case_tac x, simp_all add: BookingOrderSource_members_def)

datatype BookingItemStatus =
    BookingItemStatus_ACTIVE
  | BookingItemStatus_CANCELLED

primrec BookingItemStatus_value :: "BookingItemStatus \<Rightarrow> string" where
  "BookingItemStatus_value BookingItemStatus_ACTIVE = ''active''"
| "BookingItemStatus_value BookingItemStatus_CANCELLED = ''cancelled''"

definition BookingItemStatus_members :: "BookingItemStatus list" where
  "BookingItemStatus_members =
     [BookingItemStatus_ACTIVE,
      BookingItemStatus_CANCELLED]"

interpretation bookingItemStatus: str_enum BookingItemStatus_members BookingItemStatus_value
  by unfold_locales (case_tac x, simp_all add: BookingItemStatus_members_def)

datatype BookingPermissionScope =
    BookingPermissionScope_TERRITORY
  | BookingPermissionScope_OWNER
  | BookingPermissionScope_OBJECT

primrec BookingPermissionScope_value :: "BookingPermissionScope \<Rightarrow> string" where
  "BookingPermissionScope_value BookingPermissionScope_TERRITORY = ''territory''"
| "BookingPermissionScope_value BookingPermissionScope_OWNER = ''owner''"
| "BookingPermissionScope_value BookingPermissionScope_OBJECT = ''object''"

definition BookingPermissionScope_members :: "BookingPermissionScope list" where
  "BookingPermissionScope_members =
     [BookingPermissionScope_TERRITORY,
      BookingPermissionScope_OWNER,
      BookingPermissionScope_OBJECT]"

interpretation bookingPermissionScope: str_enum BookingPermissionScope_members BookingPermissionScope_value
  by unfold_locales (case_tac x, simp_all add: BookingPermissionScope_members_def)

datatype BookingPermission =
    BookingPermission_VIEW
  | BookingPermission_MANAGE
  | BookingPermission_FINANCE
  | BookingPermission_NOTIFY

primrec BookingPermission_value :: "BookingPermission \<Rightarrow> string" where
  "BookingPermission_value BookingPermission_VIEW = ''view''"
| "BookingPermission_value BookingPermission_MANAGE = ''manage''"
| "BookingPermission_value BookingPermission_FINANCE = ''finance''"
| "BookingPermission_value BookingPermission_NOTIFY = ''notify''"

definition BookingPermission_members :: "BookingPermission list" where
  "BookingPermission_members =
     [BookingPermission_VIEW,
      BookingPermission_MANAGE,
      BookingPermission_FINANCE,
      BookingPermission_NOTIFY]"

interpretation bookingPermission: str_enum BookingPermission_members BookingPermission_value
  by unfold_locales (case_tac x, simp_all add: BookingPermission_members_def)

subsection \<open>\<^verbatim>\<open>modules/process_overlay/enums.py\<close>\<close>

datatype ProcessOverlayActivationState =
    ProcessOverlayActivationState_INACTIVE
  | ProcessOverlayActivationState_ACTIVE

primrec ProcessOverlayActivationState_value :: "ProcessOverlayActivationState \<Rightarrow> string" where
  "ProcessOverlayActivationState_value ProcessOverlayActivationState_INACTIVE = ''inactive''"
| "ProcessOverlayActivationState_value ProcessOverlayActivationState_ACTIVE = ''active''"

definition ProcessOverlayActivationState_members :: "ProcessOverlayActivationState list" where
  "ProcessOverlayActivationState_members =
     [ProcessOverlayActivationState_INACTIVE,
      ProcessOverlayActivationState_ACTIVE]"

interpretation processOverlayActivationState: str_enum ProcessOverlayActivationState_members ProcessOverlayActivationState_value
  by unfold_locales (case_tac x, simp_all add: ProcessOverlayActivationState_members_def)

datatype ProcessRunState =
    ProcessRunState_ACTIVE
  | ProcessRunState_COMPLETED
  | ProcessRunState_CANCELLED

primrec ProcessRunState_value :: "ProcessRunState \<Rightarrow> string" where
  "ProcessRunState_value ProcessRunState_ACTIVE = ''active''"
| "ProcessRunState_value ProcessRunState_COMPLETED = ''completed''"
| "ProcessRunState_value ProcessRunState_CANCELLED = ''cancelled''"

definition ProcessRunState_members :: "ProcessRunState list" where
  "ProcessRunState_members =
     [ProcessRunState_ACTIVE,
      ProcessRunState_COMPLETED,
      ProcessRunState_CANCELLED]"

interpretation processRunState: str_enum ProcessRunState_members ProcessRunState_value
  by unfold_locales (case_tac x, simp_all add: ProcessRunState_members_def)

end
