(* ===== verification/Core_Db.thy ===== *)
theory Core_Db
  imports Session Enums
begin

text \<open>
  The rows every service shares: provider companies' staff, tenants, branches, users and their
  memberships (\<^verbatim>\<open>modules/provider\<close>, \<^verbatim>\<open>modules/tenants\<close>, \<^verbatim>\<open>modules/auth\<close>,
  \<^verbatim>\<open>modules/branches\<close>), the audit log (\<^verbatim>\<open>modules/audit\<close>), the permission tests of
  \<^verbatim>\<open>core/permissions.py\<close> and the tenant context of \<^verbatim>\<open>core/tenancy.py\<close>.  The session state is
  the record \<open>core_db\<close>; each component extends it with its own tables.  A new primary key
  (\<^verbatim>\<open>uuid.uuid4\<close>) is drawn from the supply \<open>next_id\<close>.
\<close>

subsection \<open>Rows\<close>

record provider_staff =
  ps_provider_company_id :: uuid
  ps_user_id :: uuid
  ps_role :: ProviderRole

record membership =
  um_id :: uuid
  um_tenant_id :: uuid
  um_user_id :: uuid
  um_role :: TenantRole
  um_is_active :: bool

record user =
  us_id :: uuid
  us_email :: string
  us_hashed_password :: string
  us_full_name :: string
  us_is_active :: bool
  us_provider_staff :: "provider_staff list"
  us_tenant_memberships :: "membership list"

record tenant =
  tn_id :: uuid
  tn_provider_company_id :: uuid
  tn_name :: string
  tn_slug :: string
  tn_industry_template_id :: "uuid option"
  tn_status :: TenantStatus
  tn_default_branch_id :: "uuid option"

record branch =
  br_id :: uuid
  br_tenant_id :: uuid
  br_code :: string
  br_name :: string
  br_is_active :: bool
  br_is_default :: bool

record audit_log =
  au_tenant_id :: "uuid option"
  au_user_id :: "uuid option"
  au_action :: AuditAction
  au_entity_type :: "string option"
  au_entity_id :: "uuid option"
  au_summary :: string
  au_changes_json :: json
  au_ai_proposal_id :: "uuid option"
  au_approved_by_user_id :: "uuid option"
  au_metadata_json :: json

record core_db =
  next_id :: uuid
  tenants :: "tenant list"
  branches :: "branch list"
  audit_logs :: "audit_log list"

subsection \<open>Partial updates\<close>

text \<open>
  \<^verbatim>\<open>payload.model_dump(exclude_unset=True)\<close>: a field of a PATCH is absent, or set, to \<^verbatim>\<open>None\<close> too.  A
  column that is not nullable raises \<^verbatim>\<open>IntegrityError\<close> at the flush when it was set to \<^verbatim>\<open>None\<close>.
\<close>

datatype 'a patch = Unset | Null | SetTo 'a

fun patched :: "'a patch \<Rightarrow> 'a \<Rightarrow> 'a" where
  "patched (SetTo x) old = x"
| "patched _ old = old"

fun patched_option :: "'a patch \<Rightarrow> 'a option \<Rightarrow> 'a option" where
  "patched_option (SetTo x) old = Some x"
| "patched_option Null old = None"
| "patched_option Unset old = old"

fun is_null :: "'a patch \<Rightarrow> bool" where
  "is_null Null = True"
| "is_null _ = False"

subsection \<open>Primary keys and the audit log\<close>

definition fresh_id :: "('z core_db_scheme, uuid) svc" where
  "fresh_id s = (Inr (next_id s), s\<lparr>next_id := Suc (next_id s)\<rparr>)"

lemma fresh_id_ok [svc_ok]:
  "fresh_id s = (Inr i, s') \<longleftrightarrow> i = next_id s \<and> s' = s\<lparr>next_id := Suc (next_id s)\<rparr>"
  by (auto simp: fresh_id_def)

lemma fresh_id_eval [svc_eval]: "fresh_id s = (Inr (next_id s), s\<lparr>next_id := Suc (next_id s)\<rparr>)"
  by (simp add: fresh_id_def)

text \<open>\<^verbatim>\<open>AuditRecorder.audit_log\<close>: append one entry (the request's address is not modelled).\<close>

definition record_audit :: "audit_log \<Rightarrow> ('z core_db_scheme, unit) svc" where
  "record_audit e = modify (\<lambda>s. s\<lparr>audit_logs := row_insert e (audit_logs s)\<rparr>)"

lemma record_audit_ok [svc_ok]:
  "record_audit e s = (Inr u, s') \<longleftrightarrow> s' = s\<lparr>audit_logs := row_insert e (audit_logs s)\<rparr>"
  by (simp add: record_audit_def svc_ok)

lemma record_audit_eval [svc_eval]:
  "record_audit e s = (Inr (), s\<lparr>audit_logs := row_insert e (audit_logs s)\<rparr>)"
  by (simp add: record_audit_def svc_eval)

definition audit_entry ::
    "AuditAction \<Rightarrow> string \<Rightarrow> uuid \<Rightarrow> uuid option \<Rightarrow> string \<Rightarrow> uuid \<Rightarrow> json \<Rightarrow> audit_log" where
  "audit_entry action summary t u etype eid changes =
     \<lparr>au_tenant_id = Some t, au_user_id = u, au_action = action, au_entity_type = Some etype,
      au_entity_id = Some eid, au_summary = summary, au_changes_json = changes,
      au_ai_proposal_id = None, au_approved_by_user_id = None, au_metadata_json = JObj []\<rparr>"

subsection \<open>Permissions\<close>

definition user_has_provider_role :: "user \<Rightarrow> ProviderRole \<Rightarrow> bool" where
  "user_has_provider_role u r = list_ex (\<lambda>st. ps_role st = r) (us_provider_staff u)"

definition user_is_provider_owner :: "user \<Rightarrow> bool" where
  "user_is_provider_owner u = user_has_provider_role u ProviderRole_PROVIDER_OWNER"

definition user_has_tenant_role :: "user \<Rightarrow> uuid \<Rightarrow> TenantRole \<Rightarrow> bool" where
  "user_has_tenant_role u t r =
     list_ex (\<lambda>m. um_tenant_id m = t \<and> um_role m = r \<and> um_is_active m) (us_tenant_memberships u)"

definition user_has_any_tenant_role :: "user \<Rightarrow> uuid \<Rightarrow> TenantRole list \<Rightarrow> bool" where
  "user_has_any_tenant_role u t rs =
     list_ex (\<lambda>m. um_tenant_id m = t \<and> List.member rs (um_role m) \<and> um_is_active m)
       (us_tenant_memberships u)"

definition user_is_tenant_owner :: "user \<Rightarrow> uuid \<Rightarrow> bool" where
  "user_is_tenant_owner u t = user_has_tenant_role u t TenantRole_TENANT_OWNER"

definition get_provider_staff :: "user \<Rightarrow> provider_staff option" where
  "get_provider_staff u = (case us_provider_staff u of [] \<Rightarrow> None | st # _ \<Rightarrow> Some st)"

definition user_belongs_to_provider :: "user \<Rightarrow> uuid \<Rightarrow> bool" where
  "user_belongs_to_provider u c = list_ex (\<lambda>st. ps_provider_company_id st = c) (us_provider_staff u)"

subsection \<open>Tenants\<close>

definition get_tenant :: "'z core_db_scheme \<Rightarrow> uuid \<Rightarrow> tenant option" where
  "get_tenant s t = row_find (\<lambda>r. tn_id r = t) (tenants s)"

text \<open>
  \<^verbatim>\<open>staff and staff.provider_company_id == tenant.provider_company_id\<close>: the test shared by
  \<^verbatim>\<open>get_tenant_context\<close>, \<^verbatim>\<open>TenantService._ensure_access\<close> and the provider-only services.
\<close>

definition staff_of_tenant_provider :: "user \<Rightarrow> tenant \<Rightarrow> bool" where
  "staff_of_tenant_provider u tn =
     (case get_provider_staff u of None \<Rightarrow> False
      | Some st \<Rightarrow> ps_provider_company_id st = tn_provider_company_id tn)"

definition active_member_of :: "user \<Rightarrow> uuid \<Rightarrow> bool" where
  "active_member_of u t = list_ex (\<lambda>m. um_tenant_id m = t \<and> um_is_active m) (us_tenant_memberships u)"

text \<open>
  \<open>parse_uuid\<close> is \<^verbatim>\<open>uuid.UUID\<close> on the header's text; \<open>None\<close> is its \<^verbatim>\<open>ValueError\<close>.
\<close>

definition get_tenant_context ::
    "(string \<Rightarrow> uuid option) \<Rightarrow> uuid option \<Rightarrow> string option \<Rightarrow> user \<Rightarrow>
     ('z core_db_scheme, tenant \<times> user) svc" where
  "get_tenant_context parse_uuid tenant_id x_tenant_id current_user =
     bindS
       (case tenant_id of
          Some t \<Rightarrow> ret (Some t)
        | None \<Rightarrow>
            (case x_tenant_id of
               None \<Rightarrow> ret None
             | Some h \<Rightarrow> if h = '''' then ret None
                 else bindS (or_raise (parse_uuid h) (PyValueError ''badly formed hexadecimal UUID string''))
                        (\<lambda>t. ret (Some t))))
       (\<lambda>resolved.
     bindS (or_raise resolved
              (PermissionDeniedError ''Tenant context required: use path tenant_id or X-Tenant-ID header''))
       (\<lambda>t.
     bindS (gets (\<lambda>s. get_tenant s t)) (\<lambda>found.
     bindS (or_raise found (NotFoundError ''Tenant not found'')) (\<lambda>tn.
     if staff_of_tenant_provider current_user tn then ret (tn, current_user)
     else if active_member_of current_user (tn_id tn) then ret (tn, current_user)
     else raise (PermissionDeniedError ''No access to this tenant'')))))"

definition ensure_access :: "user \<Rightarrow> tenant \<Rightarrow> ('z core_db_scheme, unit) svc" where
  "ensure_access u tn =
     (if staff_of_tenant_provider u tn then ret ()
      else if active_member_of u (tn_id tn) then ret ()
      else raise (PermissionDeniedError ''No access to this tenant''))"

text \<open>
  \<^verbatim>\<open>_ensure_provider_access\<close> of the registry and of the subscription service; they differ in the
  message \<open>msg\<close>.
\<close>

definition ensure_provider_access :: "string \<Rightarrow> user \<Rightarrow> uuid \<Rightarrow> ('z core_db_scheme, unit) svc" where
  "ensure_provider_access msg u t =
     bindS (gets (\<lambda>s. get_tenant s t)) (\<lambda>found.
     bindS (or_raise found (NotFoundError ''Tenant not found'')) (\<lambda>tn.
     ensure (staff_of_tenant_provider u tn) (PermissionDeniedError msg)))"

lemma ensure_provider_access_ok [svc_ok]:
  "ensure_provider_access msg u t s = (Inr x, s') \<longleftrightarrow>
     s' = s \<and> (\<exists>tn. get_tenant s t = Some tn \<and> staff_of_tenant_provider u tn)"
  by (auto simp: ensure_provider_access_def svc_ok)

lemma ensure_provider_access_state [simp]: "snd (ensure_provider_access msg u t s) = s"
  by (auto simp: ensure_provider_access_def svc_eval split: option.splits)

text \<open>Access control lets through exactly the provider's staff and the active members.\<close>

lemma get_tenant_context_ok:
  "get_tenant_context pu (Some t) h u s = (Inr (tn, u'), s') \<longleftrightarrow>
     s' = s \<and> u' = u \<and> get_tenant s t = Some tn \<and>
     (staff_of_tenant_provider u tn \<or> active_member_of u (tn_id tn))"
  by (auto simp: get_tenant_context_def svc_ok split: if_splits)

subsection \<open>Branches\<close>

definition get_default_branch :: "'z core_db_scheme \<Rightarrow> uuid \<Rightarrow> branch option" where
  "get_default_branch s t = row_find (\<lambda>b. br_tenant_id b = t \<and> br_is_default b) (branches s)"

definition set_default_branch :: "uuid \<Rightarrow> uuid \<Rightarrow> ('z core_db_scheme, unit) svc" where
  "set_default_branch t b =
     modify (\<lambda>s. s\<lparr>tenants := row_update tn_id t (\<lambda>r. r\<lparr>tn_default_branch_id := Some b\<rparr>) (tenants s)\<rparr>)"

definition ensure_default_branch :: "uuid \<Rightarrow> ('z core_db_scheme, uuid) svc" where
  "ensure_default_branch t =
     bindS (gets (\<lambda>s. get_default_branch s t)) (\<lambda>existing.
     case existing of
       Some b \<Rightarrow>
         bindS (gets (\<lambda>s. get_tenant s t)) (\<lambda>tn.
         thenS (case tn of
                  None \<Rightarrow> ret ()
                | Some r \<Rightarrow> whenS (tn_default_branch_id r = None) (set_default_branch t (br_id b)))
         (ret (br_id b)))
     | None \<Rightarrow>
         bindS fresh_id (\<lambda>i.
         thenS (modify (\<lambda>s. s\<lparr>branches := row_insert
                  \<lparr>br_id = i, br_tenant_id = t, br_code = ''main'', br_name = ''Main branch'',
                   br_is_active = True, br_is_default = True\<rparr> (branches s)\<rparr>))
         (bindS (gets (\<lambda>s. get_tenant s t)) (\<lambda>tn.
         thenS (whenS (tn \<noteq> None) (set_default_branch t i)) (ret i)))))"

lemma get_tenant_upd [simp]:
  "get_tenant (s\<lparr>tenants := row_update tn_id t (\<lambda>r. r\<lparr>tn_default_branch_id := b\<rparr>) (tenants s)\<rparr>) t =
     map_option (\<lambda>r. r\<lparr>tn_default_branch_id := b\<rparr>) (get_tenant s t)"
  by (simp add: get_tenant_def row_find_update)

end
