(* ===== verification/Module_Registry.thy ===== *)
theory Module_Registry
  imports Core_Db
begin

text \<open>
  The module registry: \<^verbatim>\<open>module_registry/models.py\<close>, \<^verbatim>\<open>repository.py\<close>, \<^verbatim>\<open>seed.py\<close>,
  \<^verbatim>\<open>service.py\<close> and the guard \<^verbatim>\<open>core/modules.py\<close>.  Its invariant: every active module of a
  tenant has its required modules active.  Enabling, disabling, provisioning and the ordered
  enabling of a plan's modules keep it; the PATCH of a module's status does not check it,
  so it keeps it only where the status it writes respects the rule.
\<close>

subsection \<open>Rows and state\<close>

record module_definition =
  md_code :: string
  md_name :: string
  md_description :: "string option"
  md_default_mode :: ModuleMode
  md_dependencies_json :: "(string \<times> string list) list"
  md_is_active :: bool

record tenant_module =
  tm_tenant_id :: uuid
  tm_module_code :: string
  tm_status :: ModuleStatus
  tm_mode :: ModuleMode
  tm_external_provider_code :: "string option"
  tm_settings_json :: json

record registry_db = core_db +
  definitions :: "module_definition list"
  tenant_modules :: "tenant_module list"

definition get_required :: "module_definition \<Rightarrow> string list" where
  "get_required d = (case map_of (md_dependencies_json d) ''required'' of None \<Rightarrow> [] | Some xs \<Rightarrow> xs)"

subsection \<open>Repository\<close>

definition list_definitions :: "bool \<Rightarrow> 'z registry_db_scheme \<Rightarrow> module_definition list" where
  "list_definitions active_only s =
     sort_key md_code (if active_only then filter md_is_active (definitions s) else definitions s)"

definition get_definition :: "string \<Rightarrow> 'z registry_db_scheme \<Rightarrow> module_definition option" where
  "get_definition code s = row_find (\<lambda>d. md_code d = code) (definitions s)"

definition list_tenant_modules :: "uuid \<Rightarrow> 'z registry_db_scheme \<Rightarrow> tenant_module list" where
  "list_tenant_modules t s =
     sort_key tm_module_code (filter (\<lambda>m. tm_tenant_id m = t) (tenant_modules s))"

definition get_tenant_module :: "uuid \<Rightarrow> string \<Rightarrow> 'z registry_db_scheme \<Rightarrow> tenant_module option" where
  "get_tenant_module t code s =
     row_find (\<lambda>m. tm_tenant_id m = t \<and> tm_module_code m = code) (tenant_modules s)"

definition new_tenant_module :: "uuid \<Rightarrow> string \<Rightarrow> tenant_module" where
  "new_tenant_module t code =
     \<lparr>tm_tenant_id = t, tm_module_code = code, tm_status = ModuleStatus_DISABLED,
      tm_mode = ModuleMode_DISABLED, tm_external_provider_code = None, tm_settings_json = JObj []\<rparr>"

definition create_tenant_module ::
    "uuid \<Rightarrow> string \<Rightarrow> ('z registry_db_scheme, tenant_module) svc" where
  "create_tenant_module t code =
     thenS (modify (\<lambda>s. s\<lparr>tenant_modules := row_insert (new_tenant_module t code) (tenant_modules s)\<rparr>))
       (ret (new_tenant_module t code))"

definition upsert_definition :: "module_definition \<Rightarrow> ('z registry_db_scheme, unit) svc" where
  "upsert_definition d = modify (\<lambda>s.
     case get_definition (md_code d) s of
       Some _ \<Rightarrow> s\<lparr>definitions := row_update md_code (md_code d)
                    (\<lambda>r. d\<lparr>md_is_active := md_is_active r\<rparr>) (definitions s)\<rparr>
     | None \<Rightarrow> s\<lparr>definitions := row_insert (d\<lparr>md_is_active := True\<rparr>) (definitions s)\<rparr>)"

text \<open>Writing attributes of the row of one tenant and module.\<close>

definition write_tenant_module ::
    "uuid \<Rightarrow> string \<Rightarrow> (tenant_module \<Rightarrow> tenant_module) \<Rightarrow> ('z registry_db_scheme, unit) svc" where
  "write_tenant_module t code f = modify (\<lambda>s. s\<lparr>tenant_modules :=
     row_update (\<lambda>m. (tm_tenant_id m, tm_module_code m)) (t, code) f (tenant_modules s)\<rparr>)"

subsection \<open>ModuleGuard\<close>

definition active_status :: "ModuleStatus \<Rightarrow> bool" where
  "active_status st = (st = ModuleStatus_ENABLED \<or> st = ModuleStatus_TRIAL)"

definition is_active :: "uuid \<Rightarrow> string \<Rightarrow> 'z registry_db_scheme \<Rightarrow> bool" where
  "is_active t code s =
     (case get_tenant_module t code s of None \<Rightarrow> False | Some m \<Rightarrow> active_status (tm_status m))"

definition assert_enabled :: "uuid \<Rightarrow> string \<Rightarrow> ('z registry_db_scheme, unit) svc" where
  "assert_enabled t code =
     bindS (gets (get_tenant_module t code)) (\<lambda>found.
     bindS (or_raise found
              (ModuleDisabledError (''Module '' @ quoted code @ '' is not configured for tenant''))) (\<lambda>m.
     ensure (active_status (tm_status m))
       (ModuleDisabledError (''Module '' @ quoted code @ '' is not enabled (status: '' @
          ModuleStatus_value (tm_status m) @ '')''))))"

definition assert_mode :: "uuid \<Rightarrow> string \<Rightarrow> ModuleMode list \<Rightarrow> ('z registry_db_scheme, unit) svc" where
  "assert_mode t code allowed =
     thenS (assert_enabled t code)
     (bindS (gets (get_tenant_module t code)) (\<lambda>found.
      bindS (or_raise found PyAssertionError) (\<lambda>m.
      ensure (List.member allowed (tm_mode m))
        (ModuleDisabledError (''Module '' @ quoted code @ '' mode '' @
           quoted (ModuleMode_value (tm_mode m)) @ '' is not allowed for this operation'')))))"

definition check_required_dependencies :: "uuid \<Rightarrow> string \<Rightarrow> ('z registry_db_scheme, string list) svc" where
  "check_required_dependencies t code =
     bindS (gets (get_definition code)) (\<lambda>found.
     bindS (or_raise found (NotFoundError (''Unknown module '' @ quoted code))) (\<lambda>d.
     gets (\<lambda>s. filter (\<lambda>dep. \<not> is_active t dep s) (get_required d))))"

definition assert_dependencies :: "uuid \<Rightarrow> string \<Rightarrow> ('z registry_db_scheme, unit) svc" where
  "assert_dependencies t code =
     bindS (check_required_dependencies t code) (\<lambda>missing.
     ensure (missing = [])
       (ModuleDependencyError (''Cannot enable '' @ quoted code @ '': required modules not active: '' @
          join_with '', '' missing)))"

definition list_active_dependents :: "uuid \<Rightarrow> string \<Rightarrow> 'z registry_db_scheme \<Rightarrow> string list" where
  "list_active_dependents t code s =
     sort (map md_code (filter (\<lambda>d. List.member (get_required d) code \<and> is_active t (md_code d) s)
       (list_definitions True s)))"

definition assert_no_active_dependents :: "uuid \<Rightarrow> string \<Rightarrow> ('z registry_db_scheme, unit) svc" where
  "assert_no_active_dependents t code =
     bindS (gets (list_active_dependents t code)) (\<lambda>dependents.
     ensure (dependents = [])
       (ModuleDependencyError (''Cannot disable '' @ quoted code @ '': required by active modules: '' @
          join_with '', '' dependents)))"

subsection \<open>ModuleRegistryService\<close>

definition registry_access :: "user \<Rightarrow> uuid \<Rightarrow> ('z registry_db_scheme, unit) svc" where
  "registry_access = ensure_provider_access ''Only provider staff can manage tenant modules''"

definition provision_one :: "uuid \<Rightarrow> string \<Rightarrow> ('z registry_db_scheme, unit) svc" where
  "provision_one t code =
     bindS (gets (get_tenant_module t code)) (\<lambda>existing.
     whenS (existing = None) (bindS (create_tenant_module t code) (\<lambda>_. ret ())))"

definition provision_tenant_modules :: "uuid \<Rightarrow> ('z registry_db_scheme, unit) svc" where
  "provision_tenant_modules t =
     bindS (gets (list_definitions True)) (\<lambda>defs.
     for_each defs (\<lambda>d. provision_one t (md_code d)))"

definition service_get_tenant_module ::
    "user \<Rightarrow> uuid \<Rightarrow> string \<Rightarrow> ('z registry_db_scheme, tenant_module) svc" where
  "service_get_tenant_module u t code =
     thenS (registry_access u t)
     (bindS (gets (get_tenant_module t code)) (\<lambda>found.
      or_raise found (NotFoundError (''Module '' @ quoted code @ '' not found for tenant''))))"

record module_update =
  mu_status :: "ModuleStatus option"
  mu_mode :: "ModuleMode option"
  mu_external_provider_code :: "string option"
  mu_settings_json :: "json option"

definition update_tenant_module ::
    "user \<Rightarrow> uuid \<Rightarrow> string \<Rightarrow> module_update \<Rightarrow> ('z registry_db_scheme, unit) svc" where
  "update_tenant_module u t code p =
     thenS (service_get_tenant_module u t code)
     (write_tenant_module t code (\<lambda>m. m\<lparr>
        tm_status := (case mu_status p of None \<Rightarrow> tm_status m | Some x \<Rightarrow> x),
        tm_mode := (case mu_mode p of None \<Rightarrow> tm_mode m | Some x \<Rightarrow> x),
        tm_external_provider_code :=
          (case mu_external_provider_code p of None \<Rightarrow> tm_external_provider_code m | Some x \<Rightarrow> Some x),
        tm_settings_json := (case mu_settings_json p of None \<Rightarrow> tm_settings_json m | Some x \<Rightarrow> x)\<rparr>))"

definition get_or_create_tenant_module ::
    "uuid \<Rightarrow> string \<Rightarrow> ('z registry_db_scheme, tenant_module) svc" where
  "get_or_create_tenant_module t code =
     bindS (gets (get_definition code)) (\<lambda>d.
     thenS (ensure (d \<noteq> None) (NotFoundError (''Unknown module '' @ quoted code)))
     (bindS (gets (get_tenant_module t code)) (\<lambda>found.
      case found of Some m \<Rightarrow> ret m | None \<Rightarrow> create_tenant_module t code)))"

definition default_mode_of :: "module_definition option \<Rightarrow> ModuleMode" where
  "default_mode_of d = (case d of Some x \<Rightarrow> md_default_mode x | None \<Rightarrow> ModuleMode_INTERNAL)"

definition enable_module :: "user \<Rightarrow> uuid \<Rightarrow> string \<Rightarrow> ('z registry_db_scheme, unit) svc" where
  "enable_module u t code =
     thenS (registry_access u t)
     (bindS (get_or_create_tenant_module t code) (\<lambda>m.
      if tm_status m = ModuleStatus_ENABLED then ret ()
      else
        thenS (assert_dependencies t code)
        (bindS (gets (get_definition code)) (\<lambda>d.
         write_tenant_module t code (\<lambda>r. r\<lparr>
           tm_status := ModuleStatus_ENABLED,
           tm_mode := (if tm_mode r = ModuleMode_DISABLED then default_mode_of d else tm_mode r)\<rparr>)))))"

definition disable_module :: "user \<Rightarrow> uuid \<Rightarrow> string \<Rightarrow> ('z registry_db_scheme, unit) svc" where
  "disable_module u t code =
     bindS (service_get_tenant_module u t code) (\<lambda>m.
     if tm_status m = ModuleStatus_DISABLED then ret ()
     else
       thenS (assert_no_active_dependents t code)
       (write_tenant_module t code (\<lambda>r. r\<lparr>
          tm_status := ModuleStatus_DISABLED,
          tm_mode := ModuleMode_DISABLED,
          tm_external_provider_code := None\<rparr>)))"

record mode_update =
  mo_mode :: ModuleMode
  mo_external_provider_code :: "string option"
  mo_settings_json :: "json option"

text \<open>
  \<open>validate_external\<close> is \<^verbatim>\<open>IntegrationService.validate_external_module_mode\<close> for the given
  provider: \<open>None\<close> when it accepts.
\<close>

definition set_module_mode ::
    "(uuid \<Rightarrow> string \<Rightarrow> string \<Rightarrow> exn option) \<Rightarrow> user \<Rightarrow> uuid \<Rightarrow> string \<Rightarrow> mode_update \<Rightarrow>
     ('z registry_db_scheme, unit) svc" where
  "set_module_mode validate_external u t code p =
     bindS (service_get_tenant_module u t code) (\<lambda>m.
     thenS (ensure (tm_status m \<noteq> ModuleStatus_DISABLED)
              (ConflictError ''Enable the module before changing its mode''))
     (let ext = (case mo_external_provider_code p of
                   None \<Rightarrow> tm_external_provider_code m | Some x \<Rightarrow> Some x) in
      thenS (write_tenant_module t code (\<lambda>r. r\<lparr>
               tm_mode := mo_mode p,
               tm_external_provider_code := ext,
               tm_settings_json := (case mo_settings_json p of None \<Rightarrow> tm_settings_json r | Some x \<Rightarrow> x)\<rparr>))
      (if mo_mode p = ModuleMode_EXTERNAL then
         (case ext of
            None \<Rightarrow> raise (ConflictError ''external_provider_code is required for external mode'')
          | Some c \<Rightarrow>
              if c = '''' then raise (ConflictError ''external_provider_code is required for external mode'')
              else (case validate_external t code c of None \<Rightarrow> ret () | Some e \<Rightarrow> raise e))
       else ret ())))"

subsection \<open>Enabling a plan's modules in order\<close>

definition module_priority :: "string list" where
  "module_priority = [''parties'', ''catalog'', ''crm'', ''documents'', ''finance'', ''accounting'',
     ''integrations'', ''ai'']"

fun append_new :: "string list \<Rightarrow> string list \<Rightarrow> string list" where
  "append_new ordered [] = ordered"
| "append_new ordered (c # cs) =
     append_new (if List.member ordered c then ordered else ordered @ [c]) cs"

definition sort_module_codes :: "string list \<Rightarrow> string list" where
  "sort_module_codes codes =
     append_new (filter (\<lambda>c. List.member codes c) module_priority) codes"

definition switch_on :: "bool \<Rightarrow> uuid \<Rightarrow> string \<Rightarrow> ('z registry_db_scheme, unit) svc" where
  "switch_on as_trial t code =
     bindS (get_or_create_tenant_module t code) (\<lambda>_.
     bindS (gets (get_definition code)) (\<lambda>d.
     write_tenant_module t code (\<lambda>r. r\<lparr>
       tm_status := (if as_trial then ModuleStatus_TRIAL else ModuleStatus_ENABLED),
       tm_mode := default_mode_of d\<rparr>)))"

definition enable_one :: "bool \<Rightarrow> uuid \<Rightarrow> string \<Rightarrow> ('z registry_db_scheme, unit) svc" where
  "enable_one as_trial t code = thenS (assert_dependencies t code) (switch_on as_trial t code)"

definition enable_modules_ordered :: "uuid \<Rightarrow> string list \<Rightarrow> bool \<Rightarrow> ('z registry_db_scheme, unit) svc" where
  "enable_modules_ordered t codes as_trial =
     thenS (provision_tenant_modules t) (for_each (sort_module_codes codes) (enable_one as_trial t))"

definition apply_plan_modules :: "uuid \<Rightarrow> string list \<Rightarrow> bool \<Rightarrow> ('z registry_db_scheme, unit) svc" where
  "apply_plan_modules = enable_modules_ordered"

subsection \<open>Seed\<close>

definition seed_definition :: "string \<Rightarrow> string \<Rightarrow> string \<Rightarrow> string list \<Rightarrow> string list \<Rightarrow> module_definition" where
  "seed_definition code nm descr required recommended =
     \<lparr>md_code = code, md_name = nm, md_description = Some descr,
      md_default_mode = ModuleMode_INTERNAL,
      md_dependencies_json = [(''required'', required), (''recommended'', recommended)],
      md_is_active = True\<rparr>"

definition MODULE_DEFINITIONS :: "module_definition list" where
  "MODULE_DEFINITIONS =
    [seed_definition ''parties'' ''Parties'' ''Universal contacts and organizations'' [] [],
     seed_definition ''crm'' ''CRM & Workflows'' ''Pipelines, work items, tasks and activities'' [''parties''] [],
     seed_definition ''catalog'' ''Catalog'' ''Products and services'' [] [],
     seed_definition ''documents'' ''Documents'' ''Document templates and instances'' [] [''parties''],
     seed_definition ''finance'' ''Finance'' ''Invoices, payments and receivables'' [] [''catalog'', ''parties''],
     seed_definition ''accounting'' ''Accounting Profiles'' ''Legal entity and tax configuration'' [] [''finance''],
     seed_definition ''integrations'' ''Integrations'' ''External systems and sync'' [] [],
     seed_definition ''ai'' ''AI Foundation'' ''AI agents and action proposals'' [] [],
     seed_definition ''booking'' ''Booking'' ''Territory and object reservations, holds and multi-object orders''
       [''parties''] [''finance'', ''documents'', ''integrations''],
     seed_definition ''marketing'' ''Marketing Cabinet'' ''Content topics, packs, publish workflow''
       [''parties''] []]"

definition seed_definitions :: "('z registry_db_scheme, unit) svc" where
  "seed_definitions = for_each MODULE_DEFINITIONS upsert_definition"

subsection \<open>Reading after writing\<close>

lemma get_tenant_module_key:
  "get_tenant_module t c s =
     row_find (\<lambda>m. (tm_tenant_id m, tm_module_code m) = (t, c)) (tenant_modules s)"
  by (simp add: get_tenant_module_def)

lemma write_tenant_module_state:
  "write_tenant_module t c f s = (Inr (), s\<lparr>tenant_modules :=
     row_update (\<lambda>m. (tm_tenant_id m, tm_module_code m)) (t, c) f (tenant_modules s)\<rparr>)"
  by (simp add: write_tenant_module_def modify_def)

text \<open>\<open>keeps_key f\<close>: a write that leaves the row's tenant and module code alone.\<close>

definition keeps_key :: "(tenant_module \<Rightarrow> tenant_module) \<Rightarrow> bool" where
  "keeps_key f \<longleftrightarrow> (\<forall>m. tm_tenant_id (f m) = tm_tenant_id m \<and> tm_module_code (f m) = tm_module_code m)"

lemma get_after_write:
  assumes "keeps_key f"
  shows "get_tenant_module t' c' (snd (write_tenant_module t c f s)) =
    (if t' = t \<and> c' = c then map_option f (get_tenant_module t c s) else get_tenant_module t' c' s)"
proof (cases "t' = t \<and> c' = c")
  case True
  have "row_find (\<lambda>m. (tm_tenant_id m, tm_module_code m) = (t, c))
      (row_update (\<lambda>m. (tm_tenant_id m, tm_module_code m)) (t, c) f (tenant_modules s)) =
    map_option f (row_find (\<lambda>m. (tm_tenant_id m, tm_module_code m) = (t, c)) (tenant_modules s))"
    using assms by (intro row_find_update) (simp add: keeps_key_def)
  with True show ?thesis by (auto simp: get_tenant_module_key write_tenant_module_state)
next
  case False
  have "row_find (\<lambda>m. (tm_tenant_id m, tm_module_code m) = (t', c'))
      (row_update (\<lambda>m. (tm_tenant_id m, tm_module_code m)) (t, c) f (tenant_modules s)) =
    row_find (\<lambda>m. (tm_tenant_id m, tm_module_code m) = (t', c')) (tenant_modules s)"
    using False assms by (intro row_find_update_other) (auto simp: keeps_key_def)
  with False show ?thesis by (auto simp: get_tenant_module_key write_tenant_module_state)
qed

lemma is_active_after_write:
  assumes "keeps_key f"
  shows "is_active t' c' (snd (write_tenant_module t c f s)) =
    (if t' = t \<and> c' = c
     then (case get_tenant_module t c s of None \<Rightarrow> False | Some m \<Rightarrow> active_status (tm_status (f m)))
     else is_active t' c' s)"
  by (auto simp: is_active_def get_after_write[OF assms] split: option.splits)

lemma row_find_insert:
  "row_find P (row_insert r rows) =
     (case row_find P rows of Some x \<Rightarrow> Some x | None \<Rightarrow> if P r then Some r else None)"
  by (induction rows) (auto simp: row_insert_def)

lemma is_active_after_create:
  assumes "get_tenant_module t c s = None"
  shows "is_active t' c' (snd (create_tenant_module t c s)) = is_active t' c' s"
  using assms
  by (auto simp: is_active_def get_tenant_module_def create_tenant_module_def new_tenant_module_def svc_eval row_find_insert
      active_status_def split: option.splits)

lemma write_definitions [simp]: "definitions (snd (write_tenant_module t c f s)) = definitions s"
  by (simp add: write_tenant_module_state)

lemma create_definitions [simp]: "definitions (snd (create_tenant_module t c s)) = definitions s"
  by (simp add: create_tenant_module_def new_tenant_module_def svc_eval)

subsection \<open>A guard as an interface\<close>

text \<open>
  What a service relies on when it starts with a guard: the guard passes without a write when it is
  open, and raises without a write when it is not.
\<close>

locale gate =
  fixes is_open :: "'s \<Rightarrow> bool" and check :: "('s, unit) svc"
  assumes check_open: "is_open s \<Longrightarrow> check s = (Inr (), s)"
    and check_closed: "\<not> is_open s \<Longrightarrow> \<exists>e. check s = (Inl e, s)"
begin

lemma check_ok: "check s = (Inr u, s') \<longleftrightarrow> is_open s \<and> s' = s"
  using check_open[of s] check_closed[of s] by (cases "is_open s") auto

lemma check_state: "snd (check s) = s"
  using check_open[of s] check_closed[of s] by (cases "is_open s") auto

lemma check_preserves: "preserves I check"
  by (simp add: preserves_def check_state)

lemma gated_ok: "thenS check m s = (Inr x, s') \<longleftrightarrow> is_open s \<and> m s = (Inr x, s')"
  by (auto simp: thenS_ok check_ok)

lemma gated_closed: "\<not> is_open s \<Longrightarrow> \<exists>e. thenS check m s = (Inl e, s)"
  using check_closed[of s] by (auto simp: thenS_def bindS_def)

end

interpretation module_gate: gate "is_active t code" "assert_enabled t code" for t code
  by unfold_locales
    (auto simp: is_active_def assert_enabled_def svc_eval split: option.splits)

interpretation dependency_gate: gate
  "\<lambda>s. \<exists>d. get_definition code s = Some d \<and> (\<forall>r \<in> set (get_required d). is_active t r s)"
  "assert_dependencies t code" for t code
  by unfold_locales
    (auto simp: assert_dependencies_def check_required_dependencies_def svc_eval filter_empty_conv
      split: option.splits)

interpretation dependents_gate: gate
  "\<lambda>s. \<forall>d \<in> set (definitions s). md_is_active d \<and> code \<in> set (get_required d) \<longrightarrow>
     \<not> is_active t (md_code d) s"
  "assert_no_active_dependents t code" for t code
  by unfold_locales
    (auto simp: assert_no_active_dependents_def list_active_dependents_def list_definitions_def
      svc_eval filter_empty_conv)

lemmas guard_ok = module_gate.check_ok dependency_gate.check_ok dependents_gate.check_ok

subsection \<open>The dependency invariant\<close>

definition deps_closed :: "'z registry_db_scheme \<Rightarrow> bool" where
  "deps_closed s \<longleftrightarrow> distinct (map md_code (definitions s)) \<and>
     (\<forall>t. \<forall>d \<in> set (definitions s). md_is_active d \<longrightarrow> is_active t (md_code d) s \<longrightarrow>
        (\<forall>r \<in> set (get_required d). is_active t r s))"

lemma get_definition_unique:
  "distinct (map md_code (definitions s)) \<Longrightarrow> d \<in> set (definitions s) \<Longrightarrow>
   get_definition (md_code d) s = Some d"
  by (simp add: get_definition_def row_find_by_key)

lemma preserves_create_deps:
  assumes "get_tenant_module t c s = None" "deps_closed s"
  shows "deps_closed (snd (create_tenant_module t c s))"
  using assms by (auto simp: deps_closed_def is_active_after_create)

lemma preserves_get_or_create: "preserves deps_closed (get_or_create_tenant_module t c)"
  unfolding preserves_def get_or_create_tenant_module_def
  by (auto simp: svc_eval preserves_create_deps split: option.splits)

lemma get_or_create_frame:
  "is_active t' c' (snd (get_or_create_tenant_module t c s)) = is_active t' c' s"
  "definitions (snd (get_or_create_tenant_module t c s)) = definitions s"
  by (auto simp: get_or_create_tenant_module_def svc_eval is_active_after_create split: option.splits)

lemma preserves_provision: "preserves deps_closed (provision_tenant_modules t)"
proof -
  have "preserves deps_closed (provision_one t c)" for c
    unfolding preserves_def provision_one_def svc_eval
    using preserves_create_deps[of t c] by (auto simp: create_tenant_module_def svc_eval)
  then show ?thesis
    unfolding provision_tenant_modules_def by (intro preserves_bindS) auto
qed

text \<open>Activating a module whose required modules are active keeps the invariant.\<close>

lemma activate_keeps_deps:
  assumes "deps_closed s" "keeps_key f"
    and act: "\<And>m. active_status (tm_status (f m))"
    and deps: "\<exists>d. get_definition c s = Some d \<and> (\<forall>r \<in> set (get_required d). is_active t r s)"
  shows "deps_closed (snd (write_tenant_module t c f s))"
proof -
  have mono: "is_active t' c' s \<Longrightarrow> is_active t' c' (snd (write_tenant_module t c f s))" for t' c'
    unfolding is_active_after_write[OF assms(2)] by (auto simp: act is_active_def split: option.splits)
  have "is_active t' r (snd (write_tenant_module t c f s))"
    if d: "d \<in> set (definitions s)" "md_is_active d"
      and a: "is_active t' (md_code d) (snd (write_tenant_module t c f s))"
      and r: "r \<in> set (get_required d)" for t' d r
  proof (cases "t' = t \<and> md_code d = c")
    case True
    have "get_definition (md_code d) s = Some d"
      using assms(1) d(1) by (intro get_definition_unique) (auto simp: deps_closed_def)
    with True deps r have "is_active t' r s" by auto
    then show ?thesis by (rule mono)
  next
    case False
    then have "is_active t' (md_code d) s" using a by (auto simp: is_active_after_write[OF assms(2)])
    then have "is_active t' r s" using assms(1) d r by (auto simp: deps_closed_def)
    then show ?thesis by (rule mono)
  qed
  then show ?thesis using assms(1) by (auto simp: deps_closed_def)
qed

text \<open>Deactivating a module no active module requires keeps it.\<close>

lemma deactivate_keeps_deps:
  assumes "deps_closed s" "keeps_key f"
    and "\<And>m. \<not> active_status (tm_status (f m))"
    and free: "\<forall>d \<in> set (definitions s). md_is_active d \<and> c \<in> set (get_required d) \<longrightarrow>
       \<not> is_active t (md_code d) s"
  shows "deps_closed (snd (write_tenant_module t c f s))"
  using assms
  by (auto simp: deps_closed_def is_active_after_write split: option.splits if_splits)

lemma preserves_dep_gate_then:
  fixes m :: "('z registry_db_scheme, 'b) svc"
  assumes "\<And>s. deps_closed s \<Longrightarrow>
      (\<exists>d. get_definition c s = Some d \<and> (\<forall>r \<in> set (get_required d). is_active t r s)) \<Longrightarrow>
      deps_closed (snd (m s))"
  shows "preserves deps_closed (thenS (assert_dependencies t c) m)"
  unfolding preserves_def
proof (intro allI impI)
  fix s :: "'z registry_db_scheme" assume s: "deps_closed s"
  let ?open = "\<exists>d. get_definition c s = Some d \<and> (\<forall>r \<in> set (get_required d). is_active t r s)"
  show "deps_closed (snd (thenS (assert_dependencies t c) m s))"
  proof (cases ?open)
    case True
    then show ?thesis
      using assms[OF s] dependency_gate.check_open[of c s t] by (simp add: svc_eval)
  next
    case False
    then show ?thesis
      using s dependency_gate.gated_closed[of c s t m] by (metis snd_conv)
  qed
qed

lemma preserves_enable_module: "preserves deps_closed (enable_module u t c)"
proof -
  have w: "deps_closed (snd (bindS (gets (get_definition c)) (\<lambda>d.
         write_tenant_module t c (\<lambda>r. r\<lparr>tm_status := ModuleStatus_ENABLED,
           tm_mode := (if tm_mode r = ModuleMode_DISABLED then default_mode_of d else tm_mode r)\<rparr>)) s))"
    if "deps_closed s"
      "\<exists>d. get_definition c s = Some d \<and> (\<forall>r \<in> set (get_required d). is_active t r s)"
    for s :: "'z registry_db_scheme"
    unfolding svc_eval
    by (simp, rule activate_keeps_deps) (use that in \<open>auto simp: keeps_key_def active_status_def\<close>)
  show ?thesis
    unfolding enable_module_def registry_access_def
    by (intro preserves_thenS preserves_bindS preserves_get_or_create)
      (auto intro!: preserves_dep_gate_then w simp: preserves_def[of _ "ensure_provider_access _ _ _"])
qed

lemma preserves_disable_module: "preserves deps_closed (disable_module u t c)"
proof -
  have w: "deps_closed (snd (thenS (assert_no_active_dependents t c)
       (write_tenant_module t c (\<lambda>r. r\<lparr>tm_status := ModuleStatus_DISABLED,
          tm_mode := ModuleMode_DISABLED, tm_external_provider_code := None\<rparr>)) s))"
    if s: "deps_closed s" for s :: "'z registry_db_scheme"
  proof (cases "\<forall>d \<in> set (definitions s). md_is_active d \<and> c \<in> set (get_required d) \<longrightarrow>
     \<not> is_active t (md_code d) s")
    case True
    then show ?thesis
      unfolding thenS_def bindS_def dependents_gate.check_open[OF True]
      by (simp, intro deactivate_keeps_deps) (use s in \<open>auto simp: keeps_key_def active_status_def\<close>)
  next
    case False
    then show ?thesis using s dependents_gate.gated_closed[OF False] by (metis snd_conv)
  qed
  show ?thesis
    unfolding disable_module_def service_get_tenant_module_def registry_access_def
    by (intro preserves_thenS preserves_bindS)
      (auto simp: preserves_def[of _ "ensure_provider_access _ _ _"] preserves_def[of _ "thenS _ _"] w)
qed

lemma switch_on_outcome:
  assumes "get_definition c s = Some d"
  obtains s1 m where "get_or_create_tenant_module t c s = (Inr m, s1)" "definitions s1 = definitions s"
    "\<And>t' c'. is_active t' c' s1 = is_active t' c' s" "\<exists>x. get_tenant_module t c s1 = Some x"
    "switch_on as_trial t c s = (Inr (), snd (write_tenant_module t c (\<lambda>r. r\<lparr>
       tm_status := (if as_trial then ModuleStatus_TRIAL else ModuleStatus_ENABLED),
       tm_mode := default_mode_of (Some d)\<rparr>) s1))"
proof -
  obtain m s1 where m: "get_or_create_tenant_module t c s = (Inr m, s1)"
      "\<exists>x. get_tenant_module t c s1 = Some x" "definitions s1 = definitions s"
    using assms by (cases "get_tenant_module t c s")
      (auto simp: get_or_create_tenant_module_def svc_eval create_tenant_module_def new_tenant_module_def
        get_tenant_module_def row_find_insert)
  moreover have "is_active t' c' s1 = is_active t' c' s" for t' c'
    using get_or_create_frame(1)[of t' c' t c s] m(1) by simp
  moreover have "switch_on as_trial t c s = (Inr (), snd (write_tenant_module t c (\<lambda>r. r\<lparr>
       tm_status := (if as_trial then ModuleStatus_TRIAL else ModuleStatus_ENABLED),
       tm_mode := default_mode_of (Some d)\<rparr>) s1))"
    using assms m(3) by (simp add: switch_on_def bindS_def m(1) gets_def write_tenant_module_state get_definition_def)
  ultimately show thesis using that by blast
qed

lemma switch_on_keeps_deps:
  assumes s: "deps_closed s"
    and d: "\<exists>d. get_definition c s = Some d \<and> (\<forall>r \<in> set (get_required d). is_active t r s)"
  shows "deps_closed (snd (switch_on as_trial t c s))"
proof -
  obtain d where d': "get_definition c s = Some d" "\<forall>r \<in> set (get_required d). is_active t r s"
    using d by blast
  obtain s1 m where s1: "get_or_create_tenant_module t c s = (Inr m, s1)" "definitions s1 = definitions s"
    "\<And>t' c'. is_active t' c' s1 = is_active t' c' s"
    "switch_on as_trial t c s = (Inr (), snd (write_tenant_module t c (\<lambda>r. r\<lparr>
       tm_status := (if as_trial then ModuleStatus_TRIAL else ModuleStatus_ENABLED),
       tm_mode := default_mode_of (Some d)\<rparr>) s1))"
    using switch_on_outcome[OF d'(1)] by metis
  have "deps_closed s1" using preserves_get_or_create s s1(1) by (rule preservesD)
  moreover have "get_definition c s1 = Some d" using d'(1) s1(2) by (simp add: get_definition_def)
  ultimately show ?thesis
    unfolding s1(4) snd_conv
    using d'(2) s1(3) by (intro activate_keeps_deps) (auto simp: keeps_key_def active_status_def)
qed

lemma preserves_enable_ordered: "preserves deps_closed (enable_modules_ordered t cs as_trial)"
  unfolding enable_modules_ordered_def enable_one_def
  by (intro preserves_thenS preserves_provision preserves_for_each preserves_dep_gate_then
      switch_on_keeps_deps)

subsection \<open>A plan's modules come up\<close>

lemma append_new_set [simp]: "set (append_new xs cs) = set xs \<union> set cs"
  by (induction xs cs rule: append_new.induct) auto

lemma append_new_distinct [simp]: "distinct (append_new xs cs) = distinct xs"
  by (induction xs cs rule: append_new.induct) auto

lemma append_new_prefix: "\<exists>ys. append_new xs cs = xs @ ys"
  by (induction xs cs rule: append_new.induct) (auto split: if_splits)

lemma sort_module_codes_set: "set (sort_module_codes cs) = set cs"
  by (auto simp: sort_module_codes_def)

lemma sort_module_codes_distinct: "distinct (sort_module_codes cs)"
  by (simp add: sort_module_codes_def module_priority_def)

text \<open>Every code is known and what it requires is in \<open>A\<close> or comes before it.\<close>

fun deps_ordered :: "module_definition list \<Rightarrow> string set \<Rightarrow> string list \<Rightarrow> bool" where
  "deps_ordered defs A [] = True"
| "deps_ordered defs A (c # cs) =
     (case row_find (\<lambda>d. md_code d = c) defs of
        None \<Rightarrow> False
      | Some d \<Rightarrow> set (get_required d) \<subseteq> A \<and> deps_ordered defs (insert c A) cs)"

lemma deps_ordered_flat:
  assumes "\<And>c. c \<in> set cs \<Longrightarrow> \<exists>d. row_find (\<lambda>d. md_code d = c) defs = Some d \<and> set (get_required d) \<subseteq> A"
  shows "deps_ordered defs A cs"
  using assms
proof (induction cs arbitrary: A)
  case (Cons c cs)
  obtain d where d: "row_find (\<lambda>d. md_code d = c) defs = Some d" "set (get_required d) \<subseteq> A"
    using Cons.prems[of c] by auto
  have "deps_ordered defs (insert c A) cs"
    by (rule Cons.IH) (use Cons.prems in \<open>fastforce\<close>)
  with d show ?case by simp
qed simp

lemma provision_one_ok:
  "\<exists>s'. provision_one t c s = (Inr (), s') \<and> definitions s' = definitions s \<and>
     (\<forall>t' x. is_active t' x s' = is_active t' x s)"
proof (cases "get_tenant_module t c s")
  case None
  have "provision_one t c s = (Inr (), snd (create_tenant_module t c s))"
    using None by (simp add: provision_one_def create_tenant_module_def svc_eval)
  then show ?thesis using None by (simp add: is_active_after_create)
qed (simp add: provision_one_def svc_eval)

lemma provision_ok:
  "\<exists>s'. provision_tenant_modules t s = (Inr (), s') \<and> definitions s' = definitions s \<and>
     (\<forall>t' c. is_active t' c s' = is_active t' c s)"
proof -
  have loop: "\<exists>s'. for_each ds (\<lambda>d. provision_one t (md_code d)) s = (Inr (), s') \<and>
     definitions s' = definitions s \<and> (\<forall>t' c. is_active t' c s' = is_active t' c s)" for ds s
  proof (induction ds arbitrary: s)
    case (Cons d ds)
    obtain s1 where s1: "provision_one t (md_code d) s = (Inr (), s1)" "definitions s1 = definitions s"
        "\<forall>t' x. is_active t' x s1 = is_active t' x s"
      using provision_one_ok by blast
    with Cons.IH[of s1] show ?case by (simp del: for_each.simps add: for_each_step)
  qed (simp add: svc_eval)
  show ?thesis unfolding provision_tenant_modules_def bindS_def gets_def using loop by simp
qed

lemma enable_loop_ok:
  assumes "deps_ordered (definitions s) A cs" and "\<And>c. c \<in> A \<Longrightarrow> is_active t c s"
  shows "\<exists>s'. for_each cs (enable_one as_trial t) s = (Inr (), s') \<and> (\<forall>c \<in> A \<union> set cs. is_active t c s')"
  using assms
proof (induction cs arbitrary: A s)
  case (Cons c cs)
  obtain d where d: "get_definition c s = Some d" "set (get_required d) \<subseteq> A"
      "deps_ordered (definitions s) (insert c A) cs"
    using Cons.prems(1) by (auto simp: get_definition_def split: option.splits)
  obtain s1 m where s1: "get_or_create_tenant_module t c s = (Inr m, s1)" "definitions s1 = definitions s"
    "\<And>t' c'. is_active t' c' s1 = is_active t' c' s" "\<exists>x. get_tenant_module t c s1 = Some x"
    "switch_on as_trial t c s = (Inr (), snd (write_tenant_module t c (\<lambda>r. r\<lparr>
       tm_status := (if as_trial then ModuleStatus_TRIAL else ModuleStatus_ENABLED),
       tm_mode := default_mode_of (Some d)\<rparr>) s1))"
    using switch_on_outcome[OF d(1)] by metis
  define s2 where "s2 = snd (switch_on as_trial t c s)"
  have act2: "is_active t x s2" if "x \<in> insert c A" for x
    using that s1(4) Cons.prems(2)[of x]
    by (auto simp: s2_def s1(5) is_active_after_write keeps_key_def active_status_def s1(3))
  have "assert_dependencies t c s = (Inr (), s)"
    using d Cons.prems(2) by (intro dependency_gate.check_open) auto
  then have step: "enable_one as_trial t c s = (Inr (), s2)"
    by (simp add: enable_one_def thenS_def bindS_def s2_def s1(5))
  have "definitions s2 = definitions s" by (simp add: s2_def s1(5) s1(2))
  then show ?case
    using Cons.IH[of s2 "insert c A"] d(3) act2 by (simp del: for_each.simps add: for_each_step[of "enable_one as_trial t", OF step])
qed (simp add: svc_eval)

lemma enable_ordered_ok:
  assumes "deps_ordered (definitions s) {} (sort_module_codes cs)"
  shows "\<exists>s'. enable_modules_ordered t cs as_trial s = (Inr (), s') \<and> (\<forall>c \<in> set cs. is_active t c s')"
proof -
  obtain s1 where s1: "provision_tenant_modules t s = (Inr (), s1)" "definitions s1 = definitions s"
    using provision_ok by blast
  with enable_loop_ok[of s1 "{}" "sort_module_codes cs" t as_trial] assms
  show ?thesis by (auto simp: enable_modules_ordered_def svc_eval sort_module_codes_set)
qed

lemma seed_required:
  "c \<in> set (map md_code MODULE_DEFINITIONS) \<Longrightarrow>
   \<exists>d. row_find (\<lambda>d. md_code d = c) MODULE_DEFINITIONS = Some d \<and>
     set (get_required d) = (if c \<in> {''crm'', ''booking'', ''marketing''} then {''parties''} else {})"
  by (auto simp: MODULE_DEFINITIONS_def seed_definition_def get_required_def)

lemma seed_deps_ordered:
  assumes "set cs \<subseteq> set (map md_code MODULE_DEFINITIONS)"
    and "''parties'' \<in> set cs \<or> set cs \<inter> {''crm'', ''booking'', ''marketing''} = {}"
  shows "deps_ordered MODULE_DEFINITIONS {} (sort_module_codes cs)"
proof (cases "''parties'' \<in> set cs")
  case True
  obtain ys where "sort_module_codes cs = filter (\<lambda>c. List.member cs c) module_priority @ ys"
    using append_new_prefix unfolding sort_module_codes_def by blast
  with True obtain rest where eq: "sort_module_codes cs = ''parties'' # rest"
    by (simp add: module_priority_def)
  have "set rest \<subseteq> set cs" using sort_module_codes_set[of cs] eq by auto
  with assms(1) have known: "c \<in> set rest \<Longrightarrow> c \<in> set (map md_code MODULE_DEFINITIONS)" for c
    by blast
  have "deps_ordered MODULE_DEFINITIONS {''parties''} rest"
  proof (rule deps_ordered_flat)
    fix c assume "c \<in> set rest"
    from seed_required[OF known[OF this]] obtain d where
      "row_find (\<lambda>d. md_code d = c) MODULE_DEFINITIONS = Some d"
      "set (get_required d) = (if c \<in> {''crm'', ''booking'', ''marketing''} then {''parties''} else {})"
      by blast
    then show "\<exists>d. row_find (\<lambda>d. md_code d = c) MODULE_DEFINITIONS = Some d \<and>
        set (get_required d) \<subseteq> {''parties''}"
      by (intro exI[of _ d]) (simp only: split: if_split, blast)
  qed
  moreover obtain d where "row_find (\<lambda>d. md_code d = ''parties'') MODULE_DEFINITIONS = Some d"
      "set (get_required d) = {}"
    using seed_required[OF subsetD[OF assms(1) True]] by auto
  ultimately show ?thesis by (simp add: eq)
next
  case False
  show ?thesis
  proof (rule deps_ordered_flat)
    fix c assume "c \<in> set (sort_module_codes cs)"
    then have c: "c \<in> set cs" by (simp only: sort_module_codes_set)
    have neg: "(c \<in> {''crm'', ''booking'', ''marketing''}) = False"
      using False assms(2) c by blast
    from seed_required[OF subsetD[OF assms(1) c], unfolded neg if_False]
    show "\<exists>d. row_find (\<lambda>d. md_code d = c) MODULE_DEFINITIONS = Some d \<and> set (get_required d) \<subseteq> {}"
      by (elim exE conjE) (intro exI conjI, assumption, simp only: subset_refl)
  qed
qed

subsection \<open>Reachable registries\<close>

lemma preserves_set_mode: "preserves deps_closed (set_module_mode ve u t c p)"
proof -
  have w: "deps_closed (snd (write_tenant_module t c (\<lambda>r. r\<lparr>tm_mode := x, tm_external_provider_code := y,
      tm_settings_json := g r\<rparr>) s))" (is "deps_closed (snd (write_tenant_module t c ?f s))")
    if s: "deps_closed s" for s :: "'z registry_db_scheme" and x y g
  proof -
    have "is_active t' c' (snd (write_tenant_module t c ?f s)) = is_active t' c' s" for t' c'
      by (subst is_active_after_write) (auto simp: keeps_key_def is_active_def split: option.splits)
    then show ?thesis using s by (simp add: deps_closed_def)
  qed
  have keep: "preserves deps_closed (service_get_tenant_module u t c)"
    unfolding service_get_tenant_module_def registry_access_def
    by (intro preserves_thenS preserves_bindS) (auto simp: preserves_def[of _ "ensure_provider_access _ _ _"])
  show ?thesis
    unfolding set_module_mode_def Let_def
    by (intro preserves_bindS preserves_thenS keep preserves_ensure)
      (auto simp: preserves_def[of _ "write_tenant_module _ _ _"] w split: option.splits)
qed

text \<open>
  The PATCH of a module writes the status it is given (see the last theorem of this theory).
  \<open>patch_respects\<close> is what the enable and the disable call check and the PATCH does not: a PATCH to an
  active status when every required module is active, one to an inactive status when no active module
  requires this one; a PATCH that writes no status needs neither.
\<close>

definition patch_respects :: "uuid \<Rightarrow> string \<Rightarrow> module_update \<Rightarrow> 'z registry_db_scheme \<Rightarrow> bool" where
  "patch_respects t c p s \<longleftrightarrow> (case mu_status p of
     None \<Rightarrow> True
   | Some st \<Rightarrow>
       if active_status st
       then \<exists>d. get_definition c s = Some d \<and> (\<forall>r \<in> set (get_required d). is_active t r s)
       else \<forall>d \<in> set (definitions s). md_is_active d \<and> c \<in> set (get_required d) \<longrightarrow>
         \<not> is_active t (md_code d) s)"

lemma patch_keeps_deps:
  fixes s :: "'z registry_db_scheme"
  assumes ok: "deps_closed s" and resp: "patch_respects t c p s"
  shows "deps_closed (snd (update_tenant_module u t c p s))"
proof -
  let ?f = "\<lambda>m. m\<lparr>tm_status := (case mu_status p of None \<Rightarrow> tm_status m | Some x \<Rightarrow> x),
        tm_mode := (case mu_mode p of None \<Rightarrow> tm_mode m | Some x \<Rightarrow> x),
        tm_external_provider_code :=
          (case mu_external_provider_code p of None \<Rightarrow> tm_external_provider_code m | Some x \<Rightarrow> Some x),
        tm_settings_json := (case mu_settings_json p of None \<Rightarrow> tm_settings_json m | Some x \<Rightarrow> x)\<rparr>"
  have key: "keeps_key ?f" by (simp add: keeps_key_def)
  have written: "deps_closed (snd (write_tenant_module t c ?f s))"
  proof (cases "mu_status p")
    case None
    have "is_active t' c' (snd (write_tenant_module t c ?f s)) = is_active t' c' s" for t' c'
      by (subst is_active_after_write[OF key]) (auto simp: None is_active_def split: option.splits)
    then show ?thesis using ok by (simp add: deps_closed_def)
  next
    case (Some st)
    show ?thesis
    proof (cases "active_status st")
      case True
      then show ?thesis
        using resp by (intro activate_keeps_deps[OF ok key]) (simp_all add: Some patch_respects_def)
    next
      case False
      then show ?thesis
        using resp by (intro deactivate_keeps_deps[OF ok key]) (simp_all add: Some patch_respects_def)
    qed
  qed
  have same: "snd (service_get_tenant_module u t c s) = s"
    unfolding service_get_tenant_module_def registry_access_def ensure_provider_access_def
    by (auto simp: svc_eval split: option.splits)
  obtain r where get: "service_get_tenant_module u t c s = (r, s)" using same by (metis prod.collapse)
  show ?thesis
    using ok written by (cases r) (simp_all add: update_tenant_module_def thenS_def bindS_def get)
qed

text \<open>
  One call of the registry on a session: it may return or raise.  The PATCH is a step where it respects
  the rule; the definitions are those seeded before the first call.
\<close>

inductive registry_step :: "'z registry_db_scheme \<Rightarrow> 'z registry_db_scheme \<Rightarrow> bool" where
  step_provision: "registry_step s (snd (provision_tenant_modules t s))"
| step_enable: "registry_step s (snd (enable_module u t c s))"
| step_disable: "registry_step s (snd (disable_module u t c s))"
| step_mode: "registry_step s (snd (set_module_mode ve u t c p s))"
| step_ordered: "registry_step s (snd (enable_modules_ordered t cs as_trial s))"
| step_patch: "patch_respects t c p s \<Longrightarrow> registry_step s (snd (update_tenant_module u t c p s))"

definition registry_start :: "'z registry_db_scheme \<Rightarrow> bool" where
  "registry_start s \<longleftrightarrow> tenant_modules s = [] \<and> distinct (map md_code (definitions s))"

interpretation registry: invariant_machine registry_start registry_step deps_closed
proof
  show "deps_closed s" if "registry_start s" for s :: "'a registry_db_scheme"
    using that by (simp add: registry_start_def deps_closed_def is_active_def get_tenant_module_def)
  show "deps_closed s'" if "deps_closed s" "registry_step s s'" for s s' :: "'a registry_db_scheme"
    using that(2,1)
    by cases (auto intro: preserves_snd preserves_provision preserves_enable_module
        preserves_disable_module preserves_set_mode preserves_enable_ordered patch_keeps_deps)
qed

subsection \<open>Properties\<close>

text \<open>C4: A tenant's active module has every module it requires active, in every registry that is reached
  by provisioning, enabling, disabling, changing a mode, enabling a plan's modules and those PATCH calls
  that respect the dependency rule (\<open>patch_respects\<close>: no status, or one that the guard of the enable or
  the disable call would have let through), also when a call raises half way.  The side condition on the
  PATCH is necessary, as the last theorem of this theory shows.\<close>

theorem active_module_has_dependencies:
  assumes "reachable registry_start registry_step s"
    and "d \<in> set (definitions s)" "md_is_active d"
    and "is_active t (md_code d) s" "r \<in> set (get_required d)"
  shows "is_active t r s"
  using registry.reachable_inv[OF assms(1)] assms(2-) by (auto simp: deps_closed_def)

definition sample_registry :: registry_db where
  "sample_registry =
     \<lparr>next_id = 0, tenants = [\<lparr>tn_id = 2, tn_provider_company_id = 7, tn_name = ''Lake'', tn_slug = ''lake'',
        tn_industry_template_id = None, tn_status = TenantStatus_ACTIVE, tn_default_branch_id = None\<rparr>],
      branches = [], audit_logs = [], definitions = MODULE_DEFINITIONS, tenant_modules = []\<rparr>"

definition sample_owner :: user where
  "sample_owner = \<lparr>us_id = 5, us_email = ''o@p'', us_hashed_password = '''', us_full_name = ''Owner'',
     us_is_active = True, us_provider_staff = [\<lparr>ps_provider_company_id = 7, ps_user_id = 5,
       ps_role = ProviderRole_PROVIDER_OWNER\<rparr>], us_tenant_memberships = []\<rparr>"

definition sample_enabled :: registry_db where
  "sample_enabled = snd (enable_modules_ordered 2 [''crm'', ''parties''] True sample_registry)"

lemma sample_enabled_reachable: "reachable registry_start registry_step sample_enabled"
proof -
  have "registry_start sample_registry" by code_simp
  then show ?thesis
    unfolding sample_enabled_def by (rule reachable_step[OF reachable_start]) (rule step_ordered)
qed

definition crm_definition :: module_definition where
  "crm_definition = seed_definition ''crm'' ''CRM & Workflows''
     ''Pipelines, work items, tasks and activities'' [''parties''] []"

lemma sample_enabled_crm:
  "is_active 2 ''crm'' sample_enabled \<and> get_definition ''crm'' sample_enabled = Some crm_definition"
  by code_simp

lemma sample_enabled_crm_row: "crm_definition \<in> set (definitions sample_enabled)"
  using conjunct2[OF sample_enabled_crm] unfolding get_definition_def by (rule row_find_Some[THEN conjunct1])

lemma crm_definition_fields:
  "md_code crm_definition = ''crm'' \<and> md_is_active crm_definition \<and> get_required crm_definition = [''parties'']"
  by code_simp

theorem active_module_has_dependencies_witness:
  "reachable registry_start registry_step sample_enabled \<and> is_active 2 ''crm'' sample_enabled \<and>
   is_active 2 ''parties'' sample_enabled"
proof (intro conjI sample_enabled_reachable)
  show "is_active 2 ''crm'' sample_enabled" using sample_enabled_crm by simp
  have "is_active 2 (md_code crm_definition) sample_enabled"
    using sample_enabled_crm by (simp add: crm_definition_fields)
  from active_module_has_dependencies[OF sample_enabled_reachable sample_enabled_crm_row _ this]
  show "is_active 2 ''parties'' sample_enabled" by (simp add: crm_definition_fields)
qed

text \<open>Enabling a list of seeded modules in order never fails on a missing dependency when the
  list names \<^verbatim>\<open>parties\<close> or none of the modules that require it: whatever the order of the list, the
  call returns and every module of it is active, even on a tenant that had no module at all.\<close>

theorem enable_modules_ordered_succeeds:
  assumes "definitions s = MODULE_DEFINITIONS"
    and "set cs \<subseteq> set (map md_code MODULE_DEFINITIONS)"
    and "''parties'' \<in> set cs \<or> set cs \<inter> {''crm'', ''booking'', ''marketing''} = {}"
  shows "\<exists>s'. enable_modules_ordered t cs as_trial s = (Inr (), s') \<and> (\<forall>c \<in> set cs. is_active t c s')"
  using enable_ordered_ok[of s cs t as_trial] seed_deps_ordered[OF assms(2,3)] assms(1) by simp

theorem enable_modules_ordered_succeeds_witness:
  "\<exists>s'. enable_modules_ordered 2 [''crm'', ''parties''] True sample_registry = (Inr (), s') \<and>
     (\<forall>c \<in> set [''crm'', ''parties'']. is_active 2 c s')"
  by (rule enable_modules_ordered_succeeds)
    (simp_all add: sample_registry_def MODULE_DEFINITIONS_def seed_definition_def)

text \<open>Disabling a module that an active module requires is refused with
  \<^verbatim>\<open>ModuleDependencyError\<close> and changes nothing.\<close>

theorem disable_module_refused:
  assumes "get_tenant s t = Some tn" "staff_of_tenant_provider u tn"
    and "get_tenant_module t c s = Some m" "tm_status m \<noteq> ModuleStatus_DISABLED"
    and "d \<in> set (definitions s)" "md_is_active d" "c \<in> set (get_required d)" "is_active t (md_code d) s"
  shows "\<exists>msg. disable_module u t c s = (Inl (ModuleDependencyError msg), s)"
proof -
  have "list_active_dependents t c s \<noteq> []"
    using assms(5-8) by (auto simp: list_active_dependents_def list_definitions_def filter_empty_conv)
  then show ?thesis
    using assms(1-4)
    by (simp add: disable_module_def service_get_tenant_module_def registry_access_def
        ensure_provider_access_def assert_no_active_dependents_def svc_eval)
qed

theorem disable_module_refused_witness:
  "\<exists>msg. disable_module sample_owner 2 ''parties'' sample_enabled =
     (Inl (ModuleDependencyError msg), sample_enabled)"
proof (rule disable_module_refused[where d = crm_definition and m = "(new_tenant_module 2 ''parties'')\<lparr>
      tm_status := ModuleStatus_TRIAL, tm_mode := ModuleMode_INTERNAL\<rparr>"])
  show "get_tenant sample_enabled 2 = Some (hd (tenants sample_registry))" by code_simp
  show "staff_of_tenant_provider sample_owner (hd (tenants sample_registry))" by code_simp
  show "get_tenant_module 2 ''parties'' sample_enabled = Some ((new_tenant_module 2 ''parties'')\<lparr>
      tm_status := ModuleStatus_TRIAL, tm_mode := ModuleMode_INTERNAL\<rparr>)" by code_simp
qed (simp_all add: sample_enabled_crm sample_enabled_crm_row crm_definition_fields new_tenant_module_def)

text \<open>C36: The order of enabling is a permutation of the plan's codes without duplicates, in which
  \<^verbatim>\<open>parties\<close>, when it is asked for, comes first.\<close>

theorem sort_module_codes_sound:
  "distinct (sort_module_codes cs) \<and> set (sort_module_codes cs) = set cs \<and>
   (''parties'' \<in> set cs \<longrightarrow> hd (sort_module_codes cs) = ''parties'')"
proof -
  obtain ys where "sort_module_codes cs = filter (\<lambda>c. List.member cs c) module_priority @ ys"
    using append_new_prefix unfolding sort_module_codes_def by blast
  then have "''parties'' \<in> set cs \<longrightarrow> hd (sort_module_codes cs) = ''parties''"
    by (simp add: module_priority_def)
  then show ?thesis by (simp add: sort_module_codes_distinct sort_module_codes_set)
qed

theorem sort_module_codes_sound_witness:
  "hd (sort_module_codes [''booking'', ''crm'', ''parties'']) = ''parties''"
  using sort_module_codes_sound[of "[''booking'', ''crm'', ''parties'']"] by simp

definition sample_patch :: module_update where
  "sample_patch = \<lparr>mu_status = Some ModuleStatus_DISABLED, mu_mode = None,
     mu_external_provider_code = None, mu_settings_json = None\<rparr>"

definition sample_patched :: registry_db where
  "sample_patched = snd (update_tenant_module sample_owner 2 ''parties'' sample_patch sample_enabled)"

lemma sample_patched_facts:
  "get_definition ''crm'' sample_patched = Some crm_definition \<and> is_active 2 ''crm'' sample_patched \<and>
   \<not> is_active 2 ''parties'' sample_patched"
  by code_simp

lemma sample_patched_open: "\<not> deps_closed sample_patched"
proof
  assume closed: "deps_closed sample_patched"
  have "crm_definition \<in> set (definitions sample_patched)"
    using conjunct1[OF sample_patched_facts] unfolding get_definition_def
    by (rule row_find_Some[THEN conjunct1])
  with closed have "is_active 2 (md_code crm_definition) sample_patched \<longrightarrow>
      (\<forall>r \<in> set (get_required crm_definition). is_active 2 r sample_patched)"
    using crm_definition_fields unfolding deps_closed_def by fast
  then show False using sample_patched_facts by (simp add: crm_definition_fields)
qed

text \<open>C40: The PATCH of a tenant's module writes the status it is given without asking the dependency
  guard: there is a registry that satisfies the dependency rule and an allowed call after which it
  does not (the guard runs only in the enable and disable calls).\<close>

theorem update_tenant_module_skips_guard:
  "\<exists>(s :: registry_db) u t c p s'. deps_closed s \<and> update_tenant_module u t c p s = (Inr (), s') \<and>
     \<not> deps_closed s'"
proof -
  have "fst (update_tenant_module sample_owner 2 ''parties'' sample_patch sample_enabled) = Inr ()"
    by code_simp
  then have "update_tenant_module sample_owner 2 ''parties'' sample_patch sample_enabled = (Inr (), sample_patched)"
    by (simp add: sample_patched_def prod_eq_iff)
  then show ?thesis
    using registry.reachable_inv[OF sample_enabled_reachable] sample_patched_open by blast
qed

end
