(* ===== verification/Entitlements.thy ===== *)
theory Entitlements
  imports Module_Registry
begin

text \<open>
  Plans, subscriptions and metered usage: \<^verbatim>\<open>subscriptions/models.py\<close>, \<^verbatim>\<open>repository.py\<close>,
  \<^verbatim>\<open>seed.py\<close>, \<^verbatim>\<open>service.py\<close> and the guard \<^verbatim>\<open>core/entitlements.py\<close>.  Facts about it: an
  entitled feature is one of the plan's with its module active; a tenant metered by check and record
  stays within the plan's limit in every period; assigning a plan leaves one subscription per tenant.
\<close>

subsection \<open>Rows and state\<close>

text \<open>
  \<^verbatim>\<open>datetime\<close> values are all in UTC here; they are compared and truncated by year, month, day and
  time of day, so these are the fields kept.
\<close>

record datetime =
  dt_year :: int
  dt_month :: int
  dt_day :: int
  dt_clock :: clock

definition dt_le :: "datetime \<Rightarrow> datetime \<Rightarrow> bool" where
  "dt_le a b \<longleftrightarrow> dt_year a < dt_year b \<or> dt_year a = dt_year b \<and>
     (dt_month a < dt_month b \<or> dt_month a = dt_month b \<and>
       (dt_day a < dt_day b \<or> dt_day a = dt_day b \<and> dt_clock a \<le> dt_clock b))"

text \<open>The fields of a \<^verbatim>\<open>datetime\<close> start at year 1, month 1, day 1, midnight.\<close>

definition dt_ok :: "datetime \<Rightarrow> bool" where
  "dt_ok d \<longleftrightarrow> 1 \<le> dt_year d \<and> 1 \<le> dt_month d \<and> 1 \<le> dt_day d \<and> 0 \<le> dt_clock d"

definition datetime_min :: datetime where
  "datetime_min = \<lparr>dt_year = 1, dt_month = 1, dt_day = 1, dt_clock = 0\<rparr>"

record feature =
  ft_id :: uuid
  ft_code :: string
  ft_module_code :: "string option"
  ft_name :: string

record plan =
  pl_id :: uuid
  pl_code :: string
  pl_name :: string
  pl_description :: "string option"
  pl_default_modules :: "string list"
  pl_is_active :: bool

record plan_feature =
  pf_plan_id :: uuid
  pf_feature_id :: uuid

record subscription =
  sb_id :: uuid
  sb_tenant_id :: uuid
  sb_plan_id :: uuid
  sb_status :: SubscriptionStatus

record usage_limit =
  ul_plan_id :: uuid
  ul_limit_code :: string
  ul_limit_value :: int
  ul_period :: UsagePeriod

record usage_event =
  ue_tenant_id :: uuid
  ue_limit_code :: string
  ue_quantity :: int
  ue_metadata_json :: json
  ue_created_at :: datetime

record billing_db = registry_db +
  features :: "feature list"
  plans :: "plan list"
  plan_features :: "plan_feature list"
  subscriptions :: "subscription list"
  usage_limits :: "usage_limit list"
  usage_events :: "usage_event list"

subsection \<open>Repository\<close>

definition get_plan_by_code :: "string \<Rightarrow> 'z billing_db_scheme \<Rightarrow> plan option" where
  "get_plan_by_code code s = row_find (\<lambda>p. pl_code p = code) (plans s)"

definition get_feature :: "string \<Rightarrow> 'z billing_db_scheme \<Rightarrow> feature option" where
  "get_feature code s = row_find (\<lambda>f. ft_code f = code) (features s)"

definition get_active_for_tenant :: "uuid \<Rightarrow> 'z billing_db_scheme \<Rightarrow> subscription option" where
  "get_active_for_tenant t s =
     row_find (\<lambda>b. sb_tenant_id b = t \<and>
       (sb_status b = SubscriptionStatus_ACTIVE \<or> sb_status b = SubscriptionStatus_TRIAL))
       (subscriptions s)"

definition plan_has_feature :: "uuid \<Rightarrow> string \<Rightarrow> 'z billing_db_scheme \<Rightarrow> bool" where
  "plan_has_feature p code s =
     list_ex (\<lambda>pf. pf_plan_id pf = p \<and>
       list_ex (\<lambda>f. ft_id f = pf_feature_id pf \<and> ft_code f = code) (features s)) (plan_features s)"

definition get_plan_limit :: "uuid \<Rightarrow> string \<Rightarrow> 'z billing_db_scheme \<Rightarrow> usage_limit option" where
  "get_plan_limit p code s =
     row_find (\<lambda>l. ul_plan_id l = p \<and> ul_limit_code l = code) (usage_limits s)"

definition sum_usage :: "uuid \<Rightarrow> string \<Rightarrow> datetime \<Rightarrow> 'z billing_db_scheme \<Rightarrow> int" where
  "sum_usage t code since s =
     sum_list (map ue_quantity (filter (\<lambda>e. ue_tenant_id e = t \<and> ue_limit_code e = code \<and>
       dt_le since (ue_created_at e)) (usage_events s)))"

definition record_usage_event ::
    "datetime \<Rightarrow> uuid \<Rightarrow> string \<Rightarrow> int \<Rightarrow> json \<Rightarrow> ('z billing_db_scheme, unit) svc" where
  "record_usage_event now t code q meta = modify (\<lambda>s. s\<lparr>usage_events := row_insert
     \<lparr>ue_tenant_id = t, ue_limit_code = code, ue_quantity = q, ue_metadata_json = meta,
      ue_created_at = now\<rparr> (usage_events s)\<rparr>)"

definition upsert_subscription ::
    "uuid \<Rightarrow> uuid \<Rightarrow> SubscriptionStatus \<Rightarrow> ('z billing_db_scheme, unit) svc" where
  "upsert_subscription t p st =
     bindS (gets (\<lambda>s. row_find (\<lambda>b. sb_tenant_id b = t) (subscriptions s))) (\<lambda>existing.
     case existing of
       Some b \<Rightarrow> modify (\<lambda>s. s\<lparr>subscriptions := row_update sb_id (sb_id b)
                   (\<lambda>r. r\<lparr>sb_plan_id := p, sb_status := st\<rparr>) (subscriptions s)\<rparr>)
     | None \<Rightarrow> bindS fresh_id (\<lambda>i. modify (\<lambda>s. s\<lparr>subscriptions := row_insert
                 \<lparr>sb_id = i, sb_tenant_id = t, sb_plan_id = p, sb_status = st\<rparr> (subscriptions s)\<rparr>)))"

definition upsert_feature :: "string \<Rightarrow> string \<Rightarrow> string \<Rightarrow> ('z billing_db_scheme, uuid) svc" where
  "upsert_feature code module_code nm =
     bindS (gets (get_feature code)) (\<lambda>existing.
     case existing of
       Some f \<Rightarrow> thenS (modify (\<lambda>s. s\<lparr>features := row_update ft_id (ft_id f)
                   (\<lambda>r. r\<lparr>ft_code := code, ft_module_code := Some module_code, ft_name := nm\<rparr>) (features s)\<rparr>))
                 (ret (ft_id f))
     | None \<Rightarrow> bindS fresh_id (\<lambda>i. thenS (modify (\<lambda>s. s\<lparr>features := row_insert
                 \<lparr>ft_id = i, ft_code = code, ft_module_code = Some module_code, ft_name = nm\<rparr> (features s)\<rparr>))
                 (ret i)))"

definition upsert_plan ::
    "string \<Rightarrow> string \<Rightarrow> string \<Rightarrow> string list \<Rightarrow> ('z billing_db_scheme, uuid) svc" where
  "upsert_plan code nm descr mods =
     bindS (gets (get_plan_by_code code)) (\<lambda>existing.
     case existing of
       Some p \<Rightarrow> thenS (modify (\<lambda>s. s\<lparr>plans := row_update pl_id (pl_id p)
                   (\<lambda>r. r\<lparr>pl_code := code, pl_name := nm, pl_description := Some descr,
                          pl_default_modules := mods\<rparr>) (plans s)\<rparr>))
                 (ret (pl_id p))
     | None \<Rightarrow> bindS fresh_id (\<lambda>i. thenS (modify (\<lambda>s. s\<lparr>plans := row_insert
                 \<lparr>pl_id = i, pl_code = code, pl_name = nm, pl_description = Some descr,
                  pl_default_modules = mods, pl_is_active = True\<rparr> (plans s)\<rparr>))
                 (ret i)))"

definition link_plan_feature :: "uuid \<Rightarrow> uuid \<Rightarrow> ('z billing_db_scheme, unit) svc" where
  "link_plan_feature p f =
     bindS (gets (\<lambda>s. row_find (\<lambda>x. pf_plan_id x = p \<and> pf_feature_id x = f) (plan_features s))) (\<lambda>existing.
     whenS (existing = None)
       (modify (\<lambda>s. s\<lparr>plan_features := row_insert \<lparr>pf_plan_id = p, pf_feature_id = f\<rparr> (plan_features s)\<rparr>)))"

definition upsert_usage_limit ::
    "uuid \<Rightarrow> string \<Rightarrow> int \<Rightarrow> UsagePeriod \<Rightarrow> ('z billing_db_scheme, unit) svc" where
  "upsert_usage_limit p code v period =
     bindS (gets (get_plan_limit p code)) (\<lambda>existing.
     modify (\<lambda>s. s\<lparr>usage_limits :=
       (case existing of
          Some l \<Rightarrow> row_update (\<lambda>r. (ul_plan_id r, ul_limit_code r)) (p, code)
                      (\<lambda>r. r\<lparr>ul_limit_value := v, ul_period := period\<rparr>) (usage_limits s)
        | None \<Rightarrow> row_insert \<lparr>ul_plan_id = p, ul_limit_code = code, ul_limit_value = v,
                     ul_period = period\<rparr> (usage_limits s))\<rparr>))"

subsection \<open>EntitlementService\<close>

definition has_feature :: "uuid \<Rightarrow> string \<Rightarrow> 'z billing_db_scheme \<Rightarrow> bool" where
  "has_feature t code s =
     (case get_active_for_tenant t s of None \<Rightarrow> False
      | Some b \<Rightarrow> plan_has_feature (sb_plan_id b) code s)"

definition assert_feature :: "uuid \<Rightarrow> string \<Rightarrow> ('z billing_db_scheme, unit) svc" where
  "assert_feature t code =
     bindS (gets (get_feature code)) (\<lambda>f.
     thenS (case f of None \<Rightarrow> ret ()
            | Some r \<Rightarrow> (case ft_module_code r of None \<Rightarrow> ret ()
                | Some m \<Rightarrow> if m = '''' then ret () else assert_enabled t m))
     (bindS (gets (has_feature t code)) (\<lambda>b.
      ensure b (FeatureNotEntitledError (''Feature '' @ quoted code @
        '' is not included in the current subscription'')))))"

fun period_start :: "UsagePeriod \<Rightarrow> datetime \<Rightarrow> datetime" where
  "period_start UsagePeriod_DAILY now = now\<lparr>dt_clock := 0\<rparr>"
| "period_start UsagePeriod_MONTHLY now = now\<lparr>dt_day := 1, dt_clock := 0\<rparr>"
| "period_start UsagePeriod_YEARLY now = now\<lparr>dt_month := 1, dt_day := 1, dt_clock := 0\<rparr>"
| "period_start _ now = datetime_min"

definition int_str :: "int \<Rightarrow> string" where
  "int_str n = (if n < 0 then CHR ''-'' # nat_str (nat (- n)) else nat_str (nat n))"

definition assert_within_limit :: "datetime \<Rightarrow> uuid \<Rightarrow> string \<Rightarrow> int \<Rightarrow> ('z billing_db_scheme, unit) svc" where
  "assert_within_limit now t code increment =
     bindS (gets (get_active_for_tenant t)) (\<lambda>sub.
     bindS (or_raise sub (FeatureNotEntitledError ''No active subscription for tenant'')) (\<lambda>b.
     bindS (gets (get_plan_limit (sb_plan_id b) code)) (\<lambda>limit.
     case limit of
       None \<Rightarrow> ret ()
     | Some l \<Rightarrow>
         bindS (gets (sum_usage t code (period_start (ul_period l) now))) (\<lambda>current.
         ensure (\<not> current + increment > ul_limit_value l)
           (UsageLimitExceededError (''Usage limit '' @ quoted code @ '' exceeded ('' @
              int_str (current + increment) @ ''/'' @ int_str (ul_limit_value l) @ '')''))))))"

definition record_usage :: "datetime \<Rightarrow> uuid \<Rightarrow> string \<Rightarrow> int \<Rightarrow> json \<Rightarrow> ('z billing_db_scheme, unit) svc" where
  "record_usage = record_usage_event"

text \<open>
  The metered use of a limit, as \<^verbatim>\<open>FinanceService.create_invoice\<close> does it: the check first, the
  event recorded when the work is done.
\<close>

definition metered_use :: "datetime \<Rightarrow> uuid \<Rightarrow> string \<Rightarrow> int \<Rightarrow> json \<Rightarrow> ('z billing_db_scheme, unit) svc" where
  "metered_use now t code q meta =
     thenS (assert_within_limit now t code q) (record_usage_event now t code q meta)"

subsection \<open>SubscriptionService\<close>

definition assign_plan :: "user \<Rightarrow> uuid \<Rightarrow> string \<Rightarrow> ('z billing_db_scheme, plan) svc" where
  "assign_plan u t plan_code =
     thenS (ensure_provider_access ''Only provider staff can manage subscriptions'' u t)
     (bindS (gets (get_plan_by_code plan_code)) (\<lambda>found.
      bindS (or_raise found (NotFoundError (''Plan '' @ quoted plan_code @ '' not found''))) (\<lambda>p.
      thenS (provision_tenant_modules t)
      (thenS (upsert_subscription t (pl_id p) SubscriptionStatus_TRIAL)
      (thenS (apply_plan_modules t (pl_default_modules p) True)
       (ret p))))))"

definition get_tenant_subscription :: "user \<Rightarrow> uuid \<Rightarrow> ('z billing_db_scheme, subscription option) svc" where
  "get_tenant_subscription u t =
     thenS (ensure_provider_access ''Only provider staff can manage subscriptions'' u t)
     (gets (get_active_for_tenant t))"

subsection \<open>Seed catalogue\<close>

definition FEATURES :: "(string \<times> string \<times> string) list" where
  "FEATURES =
    [(''crm.work_items.create'', ''crm'', ''Create work items''),
     (''crm.work_items.read'', ''crm'', ''View work items''),
     (''documents.generate'', ''documents'', ''Generate documents''),
     (''finance.invoices.create'', ''finance'', ''Create invoices''),
     (''catalog.items.create'', ''catalog'', ''Create catalog items''),
     (''ai.tasks.create'', ''ai'', ''Create AI tasks''),
     (''booking.territories.manage'', ''booking'', ''Manage booking territories''),
     (''booking.objects.manage'', ''booking'', ''Manage bookable objects''),
     (''booking.orders.create'', ''booking'', ''Create booking orders and holds''),
     (''booking.orders.read'', ''booking'', ''View booking orders''),
     (''booking.orders.confirm_payment'', ''booking'', ''Confirm booking payments''),
     (''booking.public.page'', ''booking'', ''Public booking page'')]"

record plan_seed =
  sd_code :: string
  sd_name :: string
  sd_description :: string
  sd_modules :: "string list"
  sd_features :: "string list"
  sd_limits :: "(string \<times> int \<times> UsagePeriod) list"

definition PLANS :: "plan_seed list" where
  "PLANS =
    [\<lparr>sd_code = ''starter'', sd_name = ''Starter'',
      sd_description = ''Core CRM and parties for small teams'',
      sd_modules = [''parties'', ''crm''],
      sd_features = [''crm.work_items.create'', ''crm.work_items.read''],
      sd_limits = [(''crm.work_items'', 500, UsagePeriod_MONTHLY)]\<rparr>,
     \<lparr>sd_code = ''business'', sd_name = ''Business'',
      sd_description = ''CRM, catalog, documents and finance'',
      sd_modules = [''parties'', ''crm'', ''catalog'', ''documents'', ''finance'', ''booking''],
      sd_features = [''crm.work_items.create'', ''crm.work_items.read'', ''documents.generate'',
        ''finance.invoices.create'', ''catalog.items.create'', ''booking.orders.read'',
        ''booking.objects.manage''],
      sd_limits = [(''crm.work_items'', 5000, UsagePeriod_MONTHLY),
        (''finance.invoices'', 1000, UsagePeriod_MONTHLY),
        (''booking.orders'', 500, UsagePeriod_MONTHLY),
        (''booking.bookable_objects'', 50, UsagePeriod_LIFETIME)]\<rparr>,
     \<lparr>sd_code = ''enterprise'', sd_name = ''Enterprise'',
      sd_description = ''All modules and AI foundation'',
      sd_modules = [''parties'', ''crm'', ''catalog'', ''documents'', ''finance'', ''booking'',
        ''accounting'', ''integrations'', ''ai''],
      sd_features = map fst FEATURES,
      sd_limits = []\<rparr>]"

fun seed_features ::
    "(string \<times> string \<times> string) list \<Rightarrow> (string \<times> uuid) list \<Rightarrow>
     ('z billing_db_scheme, (string \<times> uuid) list) svc" where
  "seed_features [] ids = ret ids"
| "seed_features ((code, m, nm) # items) ids =
     bindS (upsert_feature code m nm) (\<lambda>i. seed_features items ((code, i) # ids))"

definition seed_plan :: "(string \<times> uuid) list \<Rightarrow> plan_seed \<Rightarrow> ('z billing_db_scheme, unit) svc" where
  "seed_plan ids d =
     bindS (upsert_plan (sd_code d) (sd_name d) (sd_description d) (sd_modules d)) (\<lambda>p.
     thenS (for_each (sd_features d) (\<lambda>code.
              case map_of ids code of None \<Rightarrow> ret () | Some f \<Rightarrow> link_plan_feature p f))
     (for_each (sd_limits d) (\<lambda>(code, v, period). upsert_usage_limit p code v period)))"

definition seed_catalog :: "('z billing_db_scheme, unit) svc" where
  "seed_catalog = bindS (seed_features FEATURES []) (\<lambda>ids. for_each PLANS (seed_plan ids))"

subsection \<open>Usage in a period\<close>

lemma dt_le_refl [simp]: "dt_le a a"
  by (simp add: dt_le_def)

lemma dt_le_trans: "dt_le a b \<Longrightarrow> dt_le b c \<Longrightarrow> dt_le a c"
  by (auto simp: dt_le_def)

text \<open>An instant between the start of a period and an instant of it lies in the same period.\<close>

lemma period_start_same:
  "dt_le (period_start p now) a \<Longrightarrow> dt_le a now \<Longrightarrow> period_start p a = period_start p now"
  by (cases p; cases a; cases now) (auto simp: dt_le_def)

lemma sum_usage_record:
  "sum_usage t' code' since (snd (record_usage_event now t code q meta s)) =
     sum_usage t' code' since s + (if t' = t \<and> code' = code \<and> dt_le since now then q else 0)"
  by (simp add: sum_usage_def record_usage_event_def modify_def row_insert_def)

lemma sum_usage_before:
  assumes "\<And>e. e \<in> set (usage_events s) \<Longrightarrow> dt_le (ue_created_at e) now" "\<not> dt_le since now"
  shows "sum_usage t code since s = 0"
proof -
  have "\<not> dt_le since (ue_created_at e)" if "e \<in> set (usage_events s)" for e
    using that assms dt_le_trans by blast
  then have "filter (\<lambda>e. ue_tenant_id e = t \<and> ue_limit_code e = code \<and> dt_le since (ue_created_at e))
      (usage_events s) = []"
    by (auto simp: filter_empty_conv)
  then show ?thesis by (simp add: sum_usage_def)
qed

lemma assert_within_limit_ok:
  "assert_within_limit now t code q s = (Inr u, s') \<longleftrightarrow> s' = s \<and>
     (\<exists>b. get_active_for_tenant t s = Some b \<and>
       (\<forall>l. get_plan_limit (sb_plan_id b) code s = Some l \<longrightarrow>
          sum_usage t code (period_start (ul_period l) now) s + q \<le> ul_limit_value l))"
  by (auto simp: assert_within_limit_def svc_ok split: option.splits)

lemma assert_within_limit_state: "snd (assert_within_limit now t code q s) = s"
  by (auto simp: assert_within_limit_def svc_eval split: option.splits)

text \<open>
  One metered use of some tenant and limit, at an instant not before the recorded ones; it may be
  refused.
\<close>

definition latest :: "datetime \<Rightarrow> 'z billing_db_scheme \<Rightarrow> bool" where
  "latest now s \<longleftrightarrow> (\<forall>e \<in> set (usage_events s). dt_le (ue_created_at e) now)"

inductive metering_step :: "'z billing_db_scheme \<Rightarrow> 'z billing_db_scheme \<Rightarrow> bool" where
  meter: "latest now s \<Longrightarrow> s' = snd (metered_use now t code q meta s) \<Longrightarrow> metering_step s s'"

definition no_usage :: "'z billing_db_scheme \<Rightarrow> bool" where
  "no_usage s \<longleftrightarrow> usage_events s = []"

definition usage_within :: "'z billing_db_scheme \<Rightarrow> bool" where
  "usage_within s \<longleftrightarrow> (\<forall>t code b l now.
     get_active_for_tenant t s = Some b \<longrightarrow> get_plan_limit (sb_plan_id b) code s = Some l \<longrightarrow>
     latest now s \<longrightarrow>
     sum_usage t code (period_start (ul_period l) now) s \<le> max 0 (ul_limit_value l))"

lemma usage_within_record:
  assumes inv: "usage_within s" and last: "latest \<tau> s"
    and chk: "assert_within_limit \<tau> t code q s = (Inr (), s)"
  shows "usage_within (snd (record_usage_event \<tau> t code q meta s))"
  unfolding usage_within_def
proof (intro allI impI)
  let ?s = "snd (record_usage_event \<tau> t code q meta s)"
  have frame: "get_active_for_tenant t' ?s = get_active_for_tenant t' s"
      "get_plan_limit p c ?s = get_plan_limit p c s" for t' p c
    by (simp_all add: record_usage_event_def modify_def get_active_for_tenant_def get_plan_limit_def)
  fix t' code' b l now
  assume b: "get_active_for_tenant t' ?s = Some b" and l: "get_plan_limit (sb_plan_id b) code' ?s = Some l"
    and now: "latest now ?s"
  have now': "latest now s" "dt_le \<tau> now"
    using now by (auto simp: latest_def record_usage_event_def modify_def row_insert_def)
  let ?P = "period_start (ul_period l) now"
  show "sum_usage t' code' ?P ?s \<le> max 0 (ul_limit_value l)"
  proof (cases "t' = t \<and> code' = code \<and> dt_le ?P \<tau>")
    case True
    then have "period_start (ul_period l) \<tau> = ?P" using now'(2) by (auto intro: period_start_same)
    moreover have "sum_usage t code (period_start (ul_period l) \<tau>) s + q \<le> ul_limit_value l"
      using chk b l True by (auto simp: assert_within_limit_ok frame)
    ultimately show ?thesis using True by (simp add: sum_usage_record)
  next
    case False
    then have "sum_usage t' code' ?P ?s = sum_usage t' code' ?P s" by (simp only: sum_usage_record if_False add_0_right)
    then show ?thesis using inv b l now'(1) by (simp add: usage_within_def frame)
  qed
qed

lemma metering_keeps: "usage_within s \<Longrightarrow> metering_step s s' \<Longrightarrow> usage_within s'"
proof (erule metering_step.cases)
  fix now s0 s1 t code q meta
  assume s: "usage_within s" "s = s0" "s' = s1" "latest now s0" "s1 = snd (metered_use now t code q meta s0)"
  show "usage_within s'"
  proof (cases "assert_within_limit now t code q s0")
    case (Pair r s2)
    then have "s2 = s0" using assert_within_limit_state[of now t code q s0] by simp
    with Pair s show ?thesis
      by (cases r) (auto simp: metered_use_def thenS_def bindS_def intro: usage_within_record)
  qed
qed

interpretation metering: invariant_machine no_usage metering_step usage_within
proof
  show "usage_within s" if "no_usage s" for s :: "'a billing_db_scheme"
    using that by (auto simp: no_usage_def usage_within_def sum_usage_def)
qed (rule metering_keeps)

subsection \<open>Assigning a plan\<close>

text \<open>The registry's operations write no other table than the tenant's modules.\<close>

definition blind_to_modules :: "('z registry_db_scheme \<Rightarrow> bool) \<Rightarrow> bool" where
  "blind_to_modules I \<longleftrightarrow> (\<forall>s rows. I s \<longrightarrow> I (s\<lparr>tenant_modules := rows\<rparr>))"

lemma blind_modify:
  "blind_to_modules I \<Longrightarrow> preserves I (modify (\<lambda>s. s\<lparr>tenant_modules := f s\<rparr>))"
  by (simp add: blind_to_modules_def preserves_def modify_def)

lemma preserves_enable_ordered_blind:
  assumes "blind_to_modules I"
  shows "preserves I (enable_modules_ordered t cs as_trial)"
proof -
  have create: "preserves I (create_tenant_module t c)" for c
    unfolding create_tenant_module_def by (intro preserves_thenS blind_modify assms preserves_ret)
  have prov: "preserves I (provision_tenant_modules t)"
    unfolding provision_tenant_modules_def provision_one_def
    by (intro preserves_bindS preserves_for_each preserves_whenS create) auto
  have getcr: "preserves I (get_or_create_tenant_module t c)" for c
    unfolding get_or_create_tenant_module_def
    by (intro preserves_bindS preserves_thenS preserves_gets preserves_ensure)
      (auto intro: create split: option.splits)
  show ?thesis
    unfolding enable_modules_ordered_def enable_one_def switch_on_def write_tenant_module_def
    by (intro preserves_thenS preserves_bindS preserves_for_each prov getcr
        dependency_gate.check_preserves preserves_gets blind_modify assms)
qed

lemma preserves_provision_blind:
  "blind_to_modules I \<Longrightarrow> preserves I (provision_tenant_modules t)"
  unfolding provision_tenant_modules_def provision_one_def create_tenant_module_def
  by (intro preserves_bindS preserves_for_each preserves_whenS preserves_thenS blind_modify) auto

definition subscription_keys :: "'z billing_db_scheme \<Rightarrow> bool" where
  "subscription_keys s \<longleftrightarrow> distinct (map sb_id (subscriptions s)) \<and>
     distinct (map sb_tenant_id (subscriptions s)) \<and>
     (\<forall>b \<in> set (subscriptions s). sb_id b < next_id s)"

lemma upsert_subscription_outcome:
  assumes "subscription_keys s" and live: "st = SubscriptionStatus_ACTIVE \<or> st = SubscriptionStatus_TRIAL"
  obtains s' b where "upsert_subscription t p st s = (Inr (), s')"
    "get_active_for_tenant t s' = Some b" "sb_plan_id b = p" "sb_status b = st"
    "subscription_keys s'" "definitions s' = definitions s"
proof (cases "row_find (\<lambda>b. sb_tenant_id b = t) (subscriptions s)")
  case None
  let ?b = "\<lparr>sb_id = next_id s, sb_tenant_id = t, sb_plan_id = p, sb_status = st\<rparr>"
  let ?s = "s\<lparr>next_id := Suc (next_id s), subscriptions := row_insert ?b (subscriptions s)\<rparr>"
  have free: "\<forall>b \<in> set (subscriptions s). sb_tenant_id b \<noteq> t"
    using None by (simp only: row_find_None not_False_eq_True)
  then have "get_active_for_tenant t ?s = Some ?b"
    unfolding get_active_for_tenant_def using live
    by (intro row_find_unique) (auto simp: in_row_insert)
  moreover have "subscription_keys ?s"
    using assms(1) free by (auto simp: subscription_keys_def map_key_row_insert in_row_insert less_Suc_eq)
  moreover have "upsert_subscription t p st s = (Inr (), ?s)"
    using None by (simp add: upsert_subscription_def svc_eval fresh_id_eval)
  ultimately show thesis using that[of ?s ?b] by simp
next
  case (Some b)
  let ?f = "\<lambda>r. r\<lparr>sb_plan_id := p, sb_status := st\<rparr>"
  let ?s = "s\<lparr>subscriptions := row_update sb_id (sb_id b) ?f (subscriptions s)\<rparr>"
  have b: "b \<in> set (subscriptions s)" "sb_tenant_id b = t" using row_find_Some[OF Some] by auto
  have same: "x = b" if "x \<in> set (subscriptions s)" "sb_id x = sb_id b \<or> sb_tenant_id x = t" for x
    using that b assms(1) distinct_keys_eq[of sb_id _ x b] distinct_keys_eq[of sb_tenant_id _ x b]
    by (auto simp: subscription_keys_def)
  have "get_active_for_tenant t ?s = Some (?f b)"
    unfolding get_active_for_tenant_def using b live same
    by (intro row_find_unique) (auto simp: in_row_update split: if_splits)
  moreover have "subscription_keys ?s"
    using assms(1) b by (auto simp: subscription_keys_def map_row_update in_row_update split: if_splits)
  moreover have "upsert_subscription t p st s = (Inr (), ?s)"
    using Some by (simp add: upsert_subscription_def svc_eval)
  ultimately show thesis using that[of ?s "?f b"] by simp
qed

text \<open>The seeded plans name seeded modules, and \<^verbatim>\<open>parties\<close> with them.\<close>

definition plan_deployable :: "string list \<Rightarrow> bool" where
  "plan_deployable cs \<longleftrightarrow> list_all (\<lambda>c. List.member (map md_code MODULE_DEFINITIONS) c) cs \<and>
     (List.member cs ''parties'' \<or>
      list_all (\<lambda>c. c \<noteq> ''crm'' \<and> c \<noteq> ''booking'' \<and> c \<noteq> ''marketing'') cs)"

lemma seeded_plans_deployable: "list_all (\<lambda>d. plan_deployable (sd_modules d)) PLANS"
  by code_simp

lemma plan_deployable_ordered:
  "plan_deployable cs \<Longrightarrow> deps_ordered MODULE_DEFINITIONS {} (sort_module_codes cs)"
  by (rule seed_deps_ordered) (auto simp: plan_deployable_def list_all_iff)

lemma assign_plan_outcome:
  assumes access: "get_tenant s t = Some tn" "staff_of_tenant_provider u tn"
    and plan: "get_plan_by_code code s = Some p" "plan_deployable (pl_default_modules p)"
    and db: "definitions s = MODULE_DEFINITIONS" "subscription_keys s"
  shows "\<exists>s' b. assign_plan u t code s = (Inr p, s') \<and> get_active_for_tenant t s' = Some b \<and>
     sb_plan_id b = pl_id p \<and> sb_status b = SubscriptionStatus_TRIAL \<and> subscription_keys s' \<and>
     (\<forall>c \<in> set (pl_default_modules p). is_active t c s')"
proof -
  obtain s1 where s1: "provision_tenant_modules t s = (Inr (), s1)" "definitions s1 = definitions s"
    using provision_ok by blast
  have keep: "blind_to_modules (\<lambda>x. subscriptions x = bs \<and> next_id x = n)" for bs n
    by (simp add: blind_to_modules_def)
  have "subscription_keys s1"
    using preservesD[OF preserves_provision_blind[OF keep] _ s1(1), of "subscriptions s" "next_id s"] db(2)
    by (simp add: subscription_keys_def)
  then obtain s2 b where s2: "upsert_subscription t (pl_id p) SubscriptionStatus_TRIAL s1 = (Inr (), s2)"
    "get_active_for_tenant t s2 = Some b" "sb_plan_id b = pl_id p" "sb_status b = SubscriptionStatus_TRIAL"
    "subscription_keys s2" "definitions s2 = definitions s1"
    using upsert_subscription_outcome by metis
  have "deps_ordered (definitions s2) {} (sort_module_codes (pl_default_modules p))"
    using plan_deployable_ordered[OF plan(2)] s1(2) s2(6) db(1) by simp
  then obtain s3 where s3: "enable_modules_ordered t (pl_default_modules p) True s2 = (Inr (), s3)"
    "\<forall>c \<in> set (pl_default_modules p). is_active t c s3"
    using enable_ordered_ok by blast
  have "subscriptions s3 = subscriptions s2 \<and> next_id s3 = next_id s2"
    using preservesD[OF preserves_enable_ordered_blind[OF keep] _ s3(1), of "subscriptions s2" "next_id s2"]
    by simp
  then have "get_active_for_tenant t s3 = Some b" "subscription_keys s3"
    using s2(2,5) by (auto simp: get_active_for_tenant_def subscription_keys_def)
  moreover have "assign_plan u t code s = (Inr p, s3)"
    using access plan(1)
    by (simp add: assign_plan_def ensure_provider_access_def thenS_def bindS_def gets_def or_raise_def
        ensure_def ret_def s1(1) s2(1) s3(1) apply_plan_modules_def)
  ultimately show ?thesis using s2 s3 by blast
qed

subsection \<open>Properties\<close>

text \<open>A feature is granted exactly when the tenant's active or trial subscription is to a plan
  that has the feature and the module the feature belongs to, if any, is active; the check writes
  nothing.\<close>

theorem assert_feature_granted:
  "assert_feature t code s = (Inr u, s') \<longleftrightarrow>
     s' = s \<and> has_feature t code s \<and>
     \<not> (\<exists>f m. get_feature code s = Some f \<and> ft_module_code f = Some m \<and> m \<noteq> [] \<and> \<not> is_active t m s)"
  by (auto simp: assert_feature_def svc_ok module_gate.check_ok split: option.splits)

text \<open>C10: A tenant that meters its work by check and record never exceeds its plan: in every session
  reached by metered uses (of any tenants and limits, refused or not, in the order of time), at every
  instant after them, the usage recorded since the start of the current period is at most the limit.\<close>

theorem metered_usage_within_limit:
  assumes "reachable no_usage metering_step s"
    and "get_active_for_tenant t s = Some b" "get_plan_limit (sb_plan_id b) code s = Some l"
    and "latest now s" "0 \<le> ul_limit_value l"
  shows "sum_usage t code (period_start (ul_period l) now) s \<le> ul_limit_value l"
  using metering.reachable_inv[OF assms(1)] assms(2-5) by (fastforce simp: usage_within_def max_def)

definition at_day :: "int \<Rightarrow> datetime" where
  "at_day d = \<lparr>dt_year = 2026, dt_month = 3, dt_day = d, dt_clock = 5\<rparr>"

definition sample_plan :: plan where
  "sample_plan = \<lparr>pl_id = 10, pl_code = ''business'', pl_name = ''Business'', pl_description = None,
     pl_default_modules = [''crm'', ''booking'', ''parties''], pl_is_active = True\<rparr>"

definition sample_billing :: billing_db where
  "sample_billing = registry_db.extend sample_registry
     \<lparr>features = [\<lparr>ft_id = 8, ft_code = ''finance.invoices.create'', ft_module_code = Some ''finance'', ft_name = ''''\<rparr>],
      plans = [sample_plan], plan_features = [\<lparr>pf_plan_id = 10, pf_feature_id = 8\<rparr>],
      subscriptions = [\<lparr>sb_id = 6, sb_tenant_id = 2, sb_plan_id = 10, sb_status = SubscriptionStatus_ACTIVE\<rparr>],
      usage_limits = [\<lparr>ul_plan_id = 10, ul_limit_code = ''finance.invoices'', ul_limit_value = 3,
        ul_period = UsagePeriod_MONTHLY\<rparr>],
      usage_events = []\<rparr>\<lparr>next_id := 20\<rparr>"

definition sample_metered :: billing_db where
  "sample_metered = snd (metered_use (at_day 9) 2 ''finance.invoices'' 2 (JObj [])
     (snd (metered_use (at_day 8) 2 ''finance.invoices'' 2 (JObj []) sample_billing)))"

lemma sample_metered_reachable: "reachable no_usage metering_step sample_metered"
proof -
  let ?s = "snd (metered_use (at_day 8) 2 ''finance.invoices'' 2 (JObj []) sample_billing)"
  have "reachable no_usage metering_step sample_billing"
    by (rule reachable_start) code_simp
  then have "reachable no_usage metering_step ?s"
    by (rule reachable_step) (rule meter[OF _ refl], code_simp)
  then show ?thesis
    unfolding sample_metered_def by (rule reachable_step) (rule meter[OF _ refl], code_simp)
qed

theorem metered_usage_within_limit_witness:
  "sum_usage 2 ''finance.invoices'' (period_start UsagePeriod_MONTHLY (at_day 10)) sample_metered \<le> 3"
proof -
  have "get_active_for_tenant 2 sample_metered = Some \<lparr>sb_id = 6, sb_tenant_id = 2, sb_plan_id = 10,
      sb_status = SubscriptionStatus_ACTIVE\<rparr>" by code_simp
  moreover have "get_plan_limit 10 ''finance.invoices'' sample_metered = Some \<lparr>ul_plan_id = 10,
      ul_limit_code = ''finance.invoices'', ul_limit_value = 3, ul_period = UsagePeriod_MONTHLY\<rparr>" by code_simp
  moreover have "latest (at_day 10) sample_metered" by code_simp
  ultimately show ?thesis
    using metered_usage_within_limit[OF sample_metered_reachable] by fastforce
qed

text \<open>C33: Provider staff who assign a deployable plan to a tenant get it: the call returns, the tenant
  has one subscription, it is on trial of that plan, and every module of the plan is active.  A second
  subscription of the tenant can not come about.\<close>

theorem assign_plan_succeeds:
  assumes "get_tenant s t = Some tn" "staff_of_tenant_provider u tn"
    and "get_plan_by_code code s = Some p" "plan_deployable (pl_default_modules p)"
    and "definitions s = MODULE_DEFINITIONS" "subscription_keys s"
  shows "\<exists>s' b. assign_plan u t code s = (Inr p, s') \<and> get_active_for_tenant t s' = Some b \<and>
     sb_plan_id b = pl_id p \<and> sb_status b = SubscriptionStatus_TRIAL \<and> subscription_keys s' \<and>
     (\<forall>c \<in> set (pl_default_modules p). is_active t c s')"
  using assms by (rule assign_plan_outcome)

theorem assign_plan_succeeds_witness:
  "\<exists>s' b. assign_plan sample_owner 2 ''business'' sample_billing = (Inr sample_plan, s') \<and>
     get_active_for_tenant 2 s' = Some b \<and> sb_plan_id b = pl_id sample_plan \<and>
     sb_status b = SubscriptionStatus_TRIAL \<and> subscription_keys s' \<and>
     (\<forall>c \<in> set (pl_default_modules sample_plan). is_active 2 c s')"
proof (rule assign_plan_succeeds)
  show "get_tenant sample_billing 2 = Some (hd (tenants sample_registry))" by code_simp
  show "staff_of_tenant_provider sample_owner (hd (tenants sample_registry))" by code_simp
  show "get_plan_by_code ''business'' sample_billing = Some sample_plan" by code_simp
  show "plan_deployable (pl_default_modules sample_plan)" by code_simp
  show "definitions sample_billing = MODULE_DEFINITIONS"
    by (simp add: sample_billing_def sample_registry_def registry_db.defs)
  show "subscription_keys sample_billing" by code_simp
qed

text \<open>Every plan of the seed is deployable on the seeded modules: each names seeded modules only,
  and \<^verbatim>\<open>parties\<close> whenever it names a module that requires it.\<close>

theorem seeded_plans_come_up:
  "list_all (\<lambda>d. \<forall>t (s :: billing_db). definitions s = MODULE_DEFINITIONS \<longrightarrow>
     (\<exists>s'. apply_plan_modules t (sd_modules d) True s = (Inr (), s') \<and>
       (\<forall>c \<in> set (sd_modules d). is_active t c s'))) PLANS"
proof -
  have "list_all (\<lambda>d. deps_ordered MODULE_DEFINITIONS {} (sort_module_codes (sd_modules d))) PLANS"
    using seeded_plans_deployable plan_deployable_ordered unfolding list_all_iff by blast
  then show ?thesis
    unfolding list_all_iff apply_plan_modules_def using enable_ordered_ok by metis
qed

theorem seeded_plans_come_up_witness:
  "\<exists>s'. apply_plan_modules 2 (sd_modules (PLANS ! 1)) True sample_billing = (Inr (), s') \<and>
     (\<forall>c \<in> set (sd_modules (PLANS ! 1)). is_active 2 c s')"
proof -
  have "PLANS ! 1 \<in> set PLANS" by (simp add: PLANS_def)
  moreover have "definitions sample_billing = MODULE_DEFINITIONS"
    by (simp add: sample_billing_def sample_registry_def registry_db.defs)
  ultimately show ?thesis using seeded_plans_come_up unfolding list_all_iff by blast
qed

end
