(* ===== verification/Parties.thy ===== *)
theory Parties
  imports Entitlements
begin

text \<open>
  Parties: the rows of \<^verbatim>\<open>parties/models.py\<close>, the lookup of \<^verbatim>\<open>parties/repository.py\<close> the other
  components use to check the parties they are given, and the custom fields of any entity
  (\<^verbatim>\<open>parties/custom_fields.py\<close>).
\<close>

subsection \<open>Rows and state\<close>

record party =
  pa_id :: uuid
  pa_tenant_id :: uuid
  pa_party_type :: PartyType
  pa_display_name :: string
  pa_status :: PartyStatus
  pa_metadata_json :: json

record custom_field_definition =
  cd_tenant_id :: uuid
  cd_entity_type :: string
  cd_field_key :: string
  cd_field_type :: string
  cd_applies_to_json :: "(string \<times> json) list"
  cd_options_json :: json
  cd_is_required :: bool
  cd_sort_order :: int

record custom_field_value =
  cv_tenant_id :: uuid
  cv_entity_type :: string
  cv_entity_id :: uuid
  cv_field_key :: string
  cv_value :: json

record parties_db = billing_db +
  parties :: "party list"
  custom_definitions :: "custom_field_definition list"
  custom_values :: "custom_field_value list"

definition get_party :: "uuid \<Rightarrow> uuid \<Rightarrow> 'z parties_db_scheme \<Rightarrow> party option" where
  "get_party t p s = scoped_get pa_tenant_id pa_id t p (parties s)"

definition ensure_party :: "uuid \<Rightarrow> uuid \<Rightarrow> ('z parties_db_scheme, unit) svc" where
  "ensure_party t p =
     bindS (gets (get_party t p)) (\<lambda>found. ensure (found \<noteq> None) (NotFoundError ''Party not found''))"

subsection \<open>Python's text of a JSON value\<close>

definition hex_digit :: "nat \<Rightarrow> char" where
  "hex_digit n = (if n < 10 then char_of (48 + n) else char_of (87 + n))"

definition repr_char :: "char \<Rightarrow> char \<Rightarrow> string" where
  "repr_char q c = (let n = of_char c :: nat in
     if c = q \<or> n = 92 then [char_of (92::nat), c]
     else if n = 9 then [char_of (92::nat), CHR ''t'']
     else if n = 10 then [char_of (92::nat), CHR ''n'']
     else if n = 13 then [char_of (92::nat), CHR ''r'']
     else if n < 32 \<or> 127 \<le> n \<and> n \<le> 160 \<or> n = 173
     then [char_of (92::nat), CHR ''x'', hex_digit (n div 16), hex_digit (n mod 16)]
     else [c])"

definition repr_str :: "string \<Rightarrow> string" where
  "repr_str s = (let q = (if List.member s (CHR 39) \<and> \<not> List.member s (CHR 34) then CHR 34 else CHR 39) in
     q # concat (map (repr_char q) s) @ [q])"

fun py_repr :: "json \<Rightarrow> string" where
  "py_repr JNull = ''None''"
| "py_repr (JBool b) = (if b then ''True'' else ''False'')"
| "py_repr (JInt n) = int_str n"
| "py_repr (JStr s) = repr_str s"
| "py_repr (JId i) = repr_str (nat_str i)"
| "py_repr (JList js) = ''['' @ join_with '', '' (map py_repr js) @ '']''"
| "py_repr (JObj kvs) =
     ''{'' @ join_with '', '' (map (\<lambda>kv. repr_str (fst kv) @ '': '' @ py_repr (snd kv)) kvs) @ ''}''"

fun py_str :: "json \<Rightarrow> string" where
  "py_str (JStr s) = s"
| "py_str (JId i) = nat_str i"
| "py_str j = py_repr j"

subsection \<open>CustomFieldService\<close>

text \<open>
  \<^verbatim>\<open>float(raw)\<close> and \<^verbatim>\<open>str(Decimal(str(raw)))\<close> are parameters: binary floating point has no JSON value
  in this model.  They give a value or raise.
\<close>

record py_numbers =
  float_of :: "json \<Rightarrow> exn + json"
  decimal_text :: "json \<Rightarrow> exn + json"

definition list_field_definitions ::
    "uuid \<Rightarrow> string \<Rightarrow> 'z parties_db_scheme \<Rightarrow> custom_field_definition list" where
  "list_field_definitions t etype s =
     sort_key cd_sort_order (filter (\<lambda>d. cd_tenant_id d = t \<and> cd_entity_type d = etype) (custom_definitions s))"

definition get_values_map :: "uuid \<Rightarrow> string \<Rightarrow> uuid \<Rightarrow> 'z parties_db_scheme \<Rightarrow> (string \<times> json) list" where
  "get_values_map t etype eid s =
     map (\<lambda>v. (cv_field_key v, cv_value v))
       (filter (\<lambda>v. cv_tenant_id v = t \<and> cv_entity_type v = etype \<and> cv_entity_id v = eid) (custom_values s))"

definition matches_applies_to :: "(string \<times> json) list \<Rightarrow> (string \<times> json) list \<Rightarrow> bool" where
  "matches_applies_to flt ctx =
     list_all (\<lambda>(k, v). (case map_of ctx k of None \<Rightarrow> JNull | Some x \<Rightarrow> x) = v) flt"

definition field_choices :: "custom_field_definition \<Rightarrow> json list" where
  "field_choices d = (case json_get ''choices'' (cd_options_json d) of Some (JList xs) \<Rightarrow> xs | _ \<Rightarrow> [])"

definition coerce_value :: "py_numbers \<Rightarrow> json \<Rightarrow> custom_field_definition \<Rightarrow> exn + json" where
  "coerce_value num raw d =
     (if raw = JNull then Inr JNull
      else if cd_field_type d = ''string'' \<or> cd_field_type d = ''text'' then Inr (JStr (py_str raw))
      else if cd_field_type d = ''number'' then float_of num raw
      else if cd_field_type d = ''money'' then decimal_text num raw
      else if cd_field_type d = ''boolean'' then
        (case raw of JBool b \<Rightarrow> Inr raw
         | _ \<Rightarrow> Inr (JBool (List.member [''1'', ''true'', ''yes'', ''on''] (map ascii_lower (py_str raw)))))
      else if cd_field_type d = ''date'' \<or> cd_field_type d = ''datetime'' then Inr (JStr (py_str raw))
      else if cd_field_type d = ''select'' then
        (if field_choices d \<noteq> [] \<and> \<not> List.member (field_choices d) raw
         then Inl (ConflictError (''Invalid value for '' @ quoted (cd_field_key d) @ '': must be one of '' @
                py_repr (JList (field_choices d))))
         else Inr raw)
      else if cd_field_type d = ''multi_select'' then
        (case raw of JList _ \<Rightarrow> Inr raw
         | _ \<Rightarrow> Inl (ConflictError (''Field '' @ quoted (cd_field_key d) @ '' expects a list'')))
      else Inr raw)"

fun prepare_fields ::
    "py_numbers \<Rightarrow> (string \<times> json) list \<Rightarrow> custom_field_definition list \<Rightarrow> exn + (string \<times> json) list" where
  "prepare_fields num values [] = Inr []"
| "prepare_fields num values (d # ds) =
     (case map_of values (cd_field_key d) of
        None \<Rightarrow>
          if cd_is_required d
          then Inl (ConflictError (''Required custom field missing: '' @ cd_field_key d))
          else prepare_fields num values ds
      | Some raw \<Rightarrow>
          (case coerce_value num raw d of
             Inl e \<Rightarrow> Inl e
           | Inr v \<Rightarrow>
             (case prepare_fields num values ds of
                Inl e \<Rightarrow> Inl e
              | Inr rest \<Rightarrow> Inr ((cd_field_key d, v) # rest))))"

definition validate_and_prepare ::
    "py_numbers \<Rightarrow> uuid \<Rightarrow> string \<Rightarrow> (string \<times> json) list \<Rightarrow> (string \<times> json) list \<Rightarrow>
     ('z parties_db_scheme, (string \<times> json) list) svc" where
  "validate_and_prepare num t etype values applies_to =
     bindS (gets (list_field_definitions t etype)) (\<lambda>all_defs.
     bindS (ret (if applies_to = [] then all_defs
                 else filter (\<lambda>d. cd_applies_to_json d = [] \<or>
                        matches_applies_to (cd_applies_to_json d) applies_to) all_defs)) (\<lambda>defs.
     bindS (ret (filter (\<lambda>k. \<not> List.member (map cd_field_key defs) k) (map fst values))) (\<lambda>unknown.
     thenS (ensure (unknown = [])
              (ConflictError (''Unknown custom fields: '' @ join_with '', '' (sort (remdups unknown)))))
     (case prepare_fields num values defs of Inl e \<Rightarrow> raise e | Inr prepared \<Rightarrow> ret prepared))))"

definition upsert_one_value ::
    "uuid \<Rightarrow> string \<Rightarrow> uuid \<Rightarrow> string \<times> json \<Rightarrow> ('z parties_db_scheme, unit) svc" where
  "upsert_one_value t etype eid kv = modify (\<lambda>s.
     let key = (\<lambda>v. (cv_tenant_id v, cv_entity_type v, cv_entity_id v, cv_field_key v)) in
     case row_find (\<lambda>v. key v = (t, etype, eid, fst kv)) (custom_values s) of
       Some _ \<Rightarrow> s\<lparr>custom_values := row_update key (t, etype, eid, fst kv) (\<lambda>v. v\<lparr>cv_value := snd kv\<rparr>)
                   (custom_values s)\<rparr>
     | None \<Rightarrow> s\<lparr>custom_values := row_insert \<lparr>cv_tenant_id = t, cv_entity_type = etype, cv_entity_id = eid,
                   cv_field_key = fst kv, cv_value = snd kv\<rparr> (custom_values s)\<rparr>)"

definition upsert_values ::
    "uuid \<Rightarrow> string \<Rightarrow> uuid \<Rightarrow> (string \<times> json) list \<Rightarrow> ('z parties_db_scheme, unit) svc" where
  "upsert_values t etype eid values = for_each values (upsert_one_value t etype eid)"

subsection \<open>What preparation does\<close>

lemma validate_and_prepare_state: "snd (validate_and_prepare num t etype values ap s) = s"
  by (auto simp: validate_and_prepare_def svc_eval split: sum.splits)

lemma prepare_fields_required:
  "prepare_fields num values ds = Inr prepared \<Longrightarrow> d \<in> set ds \<Longrightarrow> cd_is_required d \<Longrightarrow>
     map_of values (cd_field_key d) \<noteq> None"
  by (induction ds arbitrary: prepared) (auto split: option.splits sum.splits if_splits)

end
