(* ===== verification/Booking_Orders.thy ===== *)
theory Booking_Orders
  imports Parties
begin

text \<open>
  Booking: the rows of \<^verbatim>\<open>booking/models.py\<close> the services read and write, the queries of
  \<^verbatim>\<open>booking/repository.py\<close>, the conversion of stays to UTC instants (\<^verbatim>\<open>service/timezone.py\<close>) and
  the order's state machine (\<^verbatim>\<open>service/order.py\<close>).
\<close>

subsection \<open>Rows and state\<close>

record territory =
  bt_id :: uuid
  bt_tenant_id :: uuid
  bt_code :: string
  bt_timezone :: string
  bt_currency :: string
  bt_default_check_in_time :: clock
  bt_default_check_out_time :: clock
  bt_hold_duration_minutes :: int
  bt_min_stay_nights :: int
  bt_status :: BookingTerritoryStatus

record bookable_object =
  ob_id :: uuid
  ob_tenant_id :: uuid
  ob_territory_id :: uuid
  ob_owner_id :: uuid
  ob_code :: string
  ob_base_price :: cents
  ob_pricing_unit :: BookablePricingUnit
  ob_check_in_time :: "clock option"
  ob_check_out_time :: "clock option"
  ob_status :: BookableObjectStatus

record booking_order =
  bo_id :: uuid
  bo_tenant_id :: uuid
  bo_territory_id :: uuid
  bo_order_number :: string
  bo_guest_party_id :: uuid
  bo_status :: BookingOrderStatus
  bo_hold_expires_at :: "instant option"
  bo_currency :: string
  bo_subtotal :: cents
  bo_source :: BookingOrderSource
  bo_confirmed_at :: "instant option"
  bo_cancelled_at :: "instant option"

record booking_item =
  bi_id :: uuid
  bi_tenant_id :: uuid
  bi_booking_order_id :: uuid
  bi_bookable_object_id :: uuid
  bi_check_in_date :: day
  bi_check_out_date :: day
  bi_check_in_at :: instant
  bi_check_out_at :: instant
  bi_nights :: int
  bi_unit_price :: cents
  bi_line_total :: cents
  bi_owner_id :: uuid
  bi_status :: BookingItemStatus

record booking_db = parties_db +
  territories :: "territory list"
  bookable_objects :: "bookable_object list"
  orders :: "booking_order list"
  items :: "booking_item list"

subsection \<open>Repository\<close>

fun blocking_status :: "BookingOrderStatus \<Rightarrow> bool" where
  "blocking_status BookingOrderStatus_HELD = True"
| "blocking_status BookingOrderStatus_PENDING_PAYMENT = True"
| "blocking_status BookingOrderStatus_PAID = True"
| "blocking_status BookingOrderStatus_CONFIRMED = True"
| "blocking_status _ = False"

definition is_order_blocking :: "booking_order \<Rightarrow> instant \<Rightarrow> bool" where
  "is_order_blocking o' now =
     (if bo_status o' = BookingOrderStatus_CANCELLED \<or> bo_status o' = BookingOrderStatus_EXPIRED \<or>
         bo_status o' = BookingOrderStatus_DRAFT then False
      else if bo_status o' = BookingOrderStatus_HELD then
        (case bo_hold_expires_at o' of None \<Rightarrow> False | Some e \<Rightarrow> e > now)
      else blocking_status (bo_status o'))"

definition get_territory :: "uuid \<Rightarrow> uuid \<Rightarrow> 'z booking_db_scheme \<Rightarrow> territory option" where
  "get_territory t i s = scoped_get bt_tenant_id bt_id t i (territories s)"

definition list_objects_for_territory ::
    "uuid \<Rightarrow> uuid \<Rightarrow> uuid list \<Rightarrow> 'z booking_db_scheme \<Rightarrow> bookable_object list" where
  "list_objects_for_territory t terr ids s =
     filter (\<lambda>o'. ob_tenant_id o' = t \<and> ob_territory_id o' = terr \<and> List.member ids (ob_id o'))
       (bookable_objects s)"

text \<open>The order an item belongs to (the join on \<^verbatim>\<open>booking_order_id\<close>).\<close>

definition order_of_item :: "booking_item \<Rightarrow> 'z booking_db_scheme \<Rightarrow> booking_order option" where
  "order_of_item i s = row_find (\<lambda>o'. bo_id o' = bi_booking_order_id i) (orders s)"

definition find_overlapping_items ::
    "uuid \<Rightarrow> instant \<Rightarrow> instant \<Rightarrow> instant \<Rightarrow> uuid option \<Rightarrow> 'z booking_db_scheme \<Rightarrow> booking_item list" where
  "find_overlapping_items obj check_in check_out now exclude s =
     filter (\<lambda>i. bi_bookable_object_id i = obj \<and> bi_status i = BookingItemStatus_ACTIVE \<and>
         bi_check_in_at i < check_out \<and> bi_check_out_at i > check_in \<and>
         (case order_of_item i s of
            None \<Rightarrow> False
          | Some o' \<Rightarrow> blocking_status (bo_status o') \<and> exclude \<noteq> Some (bo_id o') \<and>
              is_order_blocking o' now))
       (items s)"

definition find_stale_held_orders ::
    "uuid \<Rightarrow> instant \<Rightarrow> uuid option \<Rightarrow> 'z booking_db_scheme \<Rightarrow> booking_order list" where
  "find_stale_held_orders t now terr s =
     filter (\<lambda>o'. bo_tenant_id o' = t \<and> bo_status o' = BookingOrderStatus_HELD \<and>
         (case bo_hold_expires_at o' of None \<Rightarrow> False | Some e \<Rightarrow> e \<le> now) \<and>
         (case terr of None \<Rightarrow> True | Some x \<Rightarrow> bo_territory_id o' = x))
       (orders s)"

definition repo_get_order :: "uuid \<Rightarrow> uuid \<Rightarrow> 'z booking_db_scheme \<Rightarrow> booking_order option" where
  "repo_get_order t i s = scoped_get bo_tenant_id bo_id t i (orders s)"

definition lock_bookable_objects :: "uuid list \<Rightarrow> ('z booking_db_scheme, unit) svc" where
  "lock_bookable_objects ids =
     (if ids = [] then ret ()
      else bindS (gets (\<lambda>s. filter (\<lambda>o'. List.member ids (ob_id o')) (bookable_objects s))) (\<lambda>locked.
        ensure (length locked = length ids) (PyValueError ''Failed to lock all bookable objects for hold'')))"

definition next_order_number :: "nat \<Rightarrow> uuid \<Rightarrow> 'z booking_db_scheme \<Rightarrow> string" where
  "next_order_number year t s =
     ''BO-'' @ nat_str year @ ''-'' @ pad5 (length (filter (\<lambda>o'. bo_tenant_id o' = t) (orders s)) + 1)"

definition territory_is_bookable :: "territory \<Rightarrow> bool" where
  "territory_is_bookable x = (bt_status x = BookingTerritoryStatus_ACTIVE)"

definition object_is_bookable :: "bookable_object \<Rightarrow> bool" where
  "object_is_bookable x = (ob_status x = BookableObjectStatus_ACTIVE)"

subsection \<open>Stays as UTC intervals\<close>

text \<open>
  \<^verbatim>\<open>ZoneInfo(key)\<close> is outside the repository: a zone is the UTC offset in microseconds of a local
  date and clock, a key may be unknown (\<^verbatim>\<open>ZoneInfoNotFoundError\<close>) or malformed (\<^verbatim>\<open>ValueError\<close>).
\<close>

datatype zone_lookup =
    ZoneFound "day \<Rightarrow> clock \<Rightarrow> int"
  | ZoneInfoNotFound
  | ZoneKeyInvalid

type_synonym zoneinfo = "string \<Rightarrow> zone_lookup"

record stay_request =
  sr_bookable_object_id :: uuid
  sr_check_in_date :: day
  sr_check_out_date :: day

record stay_interval =
  si_bookable_object_id :: uuid
  si_check_in_date :: day
  si_check_out_date :: day
  si_check_in_at :: instant
  si_check_out_at :: instant
  si_nights :: int

definition resolve_effective_check_times :: "territory \<Rightarrow> bookable_object \<Rightarrow> clock \<times> clock" where
  "resolve_effective_check_times terr obj =
     ((case ob_check_in_time obj of Some c \<Rightarrow> c | None \<Rightarrow> bt_default_check_in_time terr),
      (case ob_check_out_time obj of Some c \<Rightarrow> c | None \<Rightarrow> bt_default_check_out_time terr))"

definition local_stay_to_utc_instant :: "zoneinfo \<Rightarrow> day \<Rightarrow> clock \<Rightarrow> string \<Rightarrow> exn + instant" where
  "local_stay_to_utc_instant zi d c tz =
     (case zi tz of
        ZoneInfoNotFound \<Rightarrow> Inl (BookingTimezoneError (''Unknown timezone: '' @ tz))
      | ZoneKeyInvalid \<Rightarrow> Inl (PyValueError ''ZoneInfo keys must be normalized relative paths'')
      | ZoneFound offset \<Rightarrow> Inr (d * day_usec + c - offset d c))"

definition build_item_interval ::
    "zoneinfo \<Rightarrow> territory \<Rightarrow> bookable_object \<Rightarrow> day \<Rightarrow> day \<Rightarrow> exn + stay_interval" where
  "build_item_interval zi terr obj d_in d_out =
     (if d_out \<le> d_in then Inl (BookingTimezoneError ''check_out_date must be after check_in_date'')
      else
        (case resolve_effective_check_times terr obj of (c_in, c_out) \<Rightarrow>
          (case local_stay_to_utc_instant zi d_in c_in (bt_timezone terr) of
             Inl e \<Rightarrow> Inl e
           | Inr at_in \<Rightarrow>
             (case local_stay_to_utc_instant zi d_out c_out (bt_timezone terr) of
                Inl e \<Rightarrow> Inl e
              | Inr at_out \<Rightarrow>
                if at_out \<le> at_in
                then Inl (BookingTimezoneError ''check_out_at must be after check_in_at in UTC'')
                else Inr \<lparr>si_bookable_object_id = ob_id obj, si_check_in_date = d_in,
                       si_check_out_date = d_out, si_check_in_at = at_in, si_check_out_at = at_out,
                       si_nights = (if d_out - d_in < 1 then 1 else d_out - d_in)\<rparr>))))"

definition intervals_overlap :: "instant \<Rightarrow> instant \<Rightarrow> instant \<Rightarrow> instant \<Rightarrow> bool" where
  "intervals_overlap left_in left_out right_in right_out \<longleftrightarrow> left_in < right_out \<and> left_out > right_in"

lemma build_item_interval_ok:
  "build_item_interval zi terr obj d_in d_out = Inr iv \<Longrightarrow>
     si_bookable_object_id iv = ob_id obj \<and> si_check_in_at iv < si_check_out_at iv \<and>
     si_nights iv = d_out - d_in \<and> 1 \<le> si_nights iv \<and>
     si_check_in_date iv = d_in \<and> si_check_out_date iv = d_out"
  by (auto simp: build_item_interval_def split: if_splits prod.splits sum.splits)

subsection \<open>The order's state machine\<close>

fun allowed_transitions :: "BookingOrderStatus \<Rightarrow> BookingOrderStatus list" where
  "allowed_transitions BookingOrderStatus_DRAFT = [BookingOrderStatus_HELD]"
| "allowed_transitions BookingOrderStatus_HELD =
     [BookingOrderStatus_PENDING_PAYMENT, BookingOrderStatus_CANCELLED, BookingOrderStatus_EXPIRED]"
| "allowed_transitions BookingOrderStatus_PENDING_PAYMENT =
     [BookingOrderStatus_PAID, BookingOrderStatus_CANCELLED]"
| "allowed_transitions BookingOrderStatus_PAID = [BookingOrderStatus_CONFIRMED]"
| "allowed_transitions _ = []"

definition write_order ::
    "uuid \<Rightarrow> (booking_order \<Rightarrow> booking_order) \<Rightarrow> 'z booking_db_scheme \<Rightarrow> 'z booking_db_scheme" where
  "write_order i f s = s\<lparr>orders := row_update bo_id i f (orders s)\<rparr>"

definition cancel_item :: "booking_item \<Rightarrow> booking_item" where
  "cancel_item i = (if bi_status i = BookingItemStatus_ACTIVE
     then i\<lparr>bi_status := BookingItemStatus_CANCELLED\<rparr> else i)"

definition cancel_items :: "uuid \<Rightarrow> 'z booking_db_scheme \<Rightarrow> 'z booking_db_scheme" where
  "cancel_items oid s = s\<lparr>items :=
     map (\<lambda>i. if bi_booking_order_id i = oid then cancel_item i else i) (items s)\<rparr>"

definition service_get_order :: "uuid \<Rightarrow> uuid \<Rightarrow> ('z booking_db_scheme, booking_order) svc" where
  "service_get_order t i =
     bindS (gets (repo_get_order t i)) (\<lambda>found.
     or_raise found (NotFoundError (''Booking order '' @ quoted (nat_str i) @ '' not found'')))"

definition validate_transition ::
    "BookingOrderStatus \<Rightarrow> BookingOrderStatus \<Rightarrow> ('z booking_db_scheme, unit) svc" where
  "validate_transition current target =
     ensure (List.member (allowed_transitions current) target)
       (BookingStatusTransitionError
          (''Cannot transition booking order from '' @ quoted (BookingOrderStatus_value current) @
           '' to '' @ quoted (BookingOrderStatus_value target))
          (BookingOrderStatus_value current) (BookingOrderStatus_value target))"

definition apply_transition ::
    "uuid \<Rightarrow> BookingOrderStatus \<Rightarrow> instant \<Rightarrow> 'z booking_db_scheme \<Rightarrow> 'z booking_db_scheme" where
  "apply_transition i target now s =
     write_order i (\<lambda>o'. o'\<lparr>
         bo_cancelled_at := (if target = BookingOrderStatus_CANCELLED then Some now else bo_cancelled_at o'),
         bo_confirmed_at := (if target = BookingOrderStatus_CONFIRMED then Some now else bo_confirmed_at o'),
         bo_status := target\<rparr>)
       (if target = BookingOrderStatus_CANCELLED then cancel_items i s else s)"

definition transition ::
    "uuid \<Rightarrow> uuid \<Rightarrow> BookingOrderStatus \<Rightarrow> instant \<Rightarrow> ('z booking_db_scheme, unit) svc" where
  "transition t i target now =
     bindS (service_get_order t i) (\<lambda>o'.
     thenS (validate_transition (bo_status o') target)
     (modify (apply_transition i target now)))"

definition clear_hold :: "uuid \<Rightarrow> ('z booking_db_scheme, unit) svc" where
  "clear_hold i = modify (write_order i (\<lambda>o'. o'\<lparr>bo_hold_expires_at := None\<rparr>))"

definition submit_for_payment :: "uuid \<Rightarrow> uuid \<Rightarrow> instant \<Rightarrow> ('z booking_db_scheme, unit) svc" where
  "submit_for_payment t i now = thenS (transition t i BookingOrderStatus_PENDING_PAYMENT now) (clear_hold i)"

definition mark_paid :: "uuid \<Rightarrow> uuid \<Rightarrow> instant \<Rightarrow> ('z booking_db_scheme, unit) svc" where
  "mark_paid t i now = transition t i BookingOrderStatus_PAID now"

definition confirm_order :: "uuid \<Rightarrow> uuid \<Rightarrow> instant \<Rightarrow> ('z booking_db_scheme, unit) svc" where
  "confirm_order t i now = transition t i BookingOrderStatus_CONFIRMED now"

definition cancel_order :: "uuid \<Rightarrow> uuid \<Rightarrow> instant \<Rightarrow> ('z booking_db_scheme, unit) svc" where
  "cancel_order t i now = transition t i BookingOrderStatus_CANCELLED now"

definition expire_order :: "uuid \<Rightarrow> uuid \<Rightarrow> instant \<Rightarrow> ('z booking_db_scheme, unit) svc" where
  "expire_order t i now = thenS (transition t i BookingOrderStatus_EXPIRED now) (clear_hold i)"

end
