(* ===== verification/Booking_Holds.thy ===== *)
theory Booking_Holds
  imports Booking_Orders
begin

text \<open>
  Availability of a cart of stays (\<^verbatim>\<open>booking/service/availability.py\<close>), the hold that books it and
  the expiry of stale holds (\<^verbatim>\<open>booking/service/hold.py\<close>).
\<close>

subsection \<open>BookingAvailabilityService\<close>

record availability_conflict =
  ac_bookable_object_id :: uuid
  ac_requested_check_in_at :: instant
  ac_requested_check_out_at :: instant
  ac_conflicting_item_id :: uuid
  ac_conflicting_order_id :: uuid
  ac_conflicting_order_status :: string

record availability_result =
  ar_intervals :: "stay_interval list"
  ar_conflicts :: "availability_conflict list"
  ar_validation_errors :: "string list"

definition is_available :: "availability_result \<Rightarrow> bool" where
  "is_available r = (ar_conflicts r = [] \<and> ar_validation_errors r = [])"

definition add_error :: "string \<Rightarrow> availability_result \<Rightarrow> availability_result" where
  "add_error e r = r\<lparr>ar_validation_errors := ar_validation_errors r @ [e]\<rparr>"

definition conflict_of ::
    "'z booking_db_scheme \<Rightarrow> bookable_object \<Rightarrow> stay_interval \<Rightarrow> booking_item \<Rightarrow> availability_conflict" where
  "conflict_of s obj iv i =
     \<lparr>ac_bookable_object_id = ob_id obj, ac_requested_check_in_at = si_check_in_at iv,
      ac_requested_check_out_at = si_check_out_at iv, ac_conflicting_item_id = bi_id i,
      ac_conflicting_order_id = bi_booking_order_id i,
      ac_conflicting_order_status =
        (case order_of_item i s of None \<Rightarrow> [] | Some o' \<Rightarrow> BookingOrderStatus_value (bo_status o'))\<rparr>"

text \<open>One pass of the loop over the cart's stays.\<close>

definition check_one_stay ::
    "zoneinfo \<Rightarrow> territory \<Rightarrow> bookable_object list \<Rightarrow> uuid option \<Rightarrow> instant \<Rightarrow> stay_request \<Rightarrow>
     availability_result \<Rightarrow> 'z booking_db_scheme \<Rightarrow> exn + availability_result" where
  "check_one_stay zi terr objs exclude now stay r s =
     (case row_find (\<lambda>o'. ob_id o' = sr_bookable_object_id stay) objs of
        None \<Rightarrow> Inr (add_error (''Object '' @ quoted (nat_str (sr_bookable_object_id stay)) @
                  '' not found in territory'') r)
      | Some obj \<Rightarrow>
        if \<not> object_is_bookable obj
        then Inr (add_error (''Object '' @ quoted (ob_code obj) @ '' is not available for booking'') r)
        else
          (case build_item_interval zi terr obj (sr_check_in_date stay) (sr_check_out_date stay) of
             Inl e \<Rightarrow> Inl e
           | Inr iv \<Rightarrow>
             if si_nights iv < bt_min_stay_nights terr
             then Inr (add_error (''Object '' @ quoted (ob_code obj) @ '' requires at least '' @
                    int_str (bt_min_stay_nights terr) @ '' night(s)'') r)
             else Inr (r\<lparr>ar_intervals := ar_intervals r @ [iv],
                    ar_conflicts := ar_conflicts r @ map (conflict_of s obj iv)
                      (find_overlapping_items (ob_id obj) (si_check_in_at iv) (si_check_out_at iv)
                         now exclude s)\<rparr>)))"

fun check_stays ::
    "zoneinfo \<Rightarrow> territory \<Rightarrow> bookable_object list \<Rightarrow> uuid option \<Rightarrow> instant \<Rightarrow> stay_request list \<Rightarrow>
     availability_result \<Rightarrow> 'z booking_db_scheme \<Rightarrow> exn + availability_result" where
  "check_stays zi terr objs exclude now [] r s = Inr r"
| "check_stays zi terr objs exclude now (stay # stays) r s =
     (case check_one_stay zi terr objs exclude now stay r s of
        Inl e \<Rightarrow> Inl e
      | Inr r' \<Rightarrow> check_stays zi terr objs exclude now stays r' s)"

definition check_cart ::
    "zoneinfo \<Rightarrow> uuid \<Rightarrow> uuid \<Rightarrow> stay_request list \<Rightarrow> uuid option \<Rightarrow> instant \<Rightarrow>
     ('z booking_db_scheme, availability_result) svc" where
  "check_cart zi t terr_id stays exclude now =
     thenS (assert_enabled t ''booking'')
     (thenS (ensure (stays \<noteq> []) (BookingValidationError ''Cart must contain at least one stay request''))
     (bindS (gets (get_territory t terr_id)) (\<lambda>found.
      bindS (or_raise found
               (BookingValidationError (''Territory '' @ quoted (nat_str terr_id) @ '' not found''))) (\<lambda>terr.
      if \<not> territory_is_bookable terr
      then ret \<lparr>ar_intervals = [], ar_conflicts = [], ar_validation_errors = [''Territory is not active'']\<rparr>
      else
        bindS (gets (\<lambda>s. check_stays zi terr
                 (list_objects_for_territory t terr_id (map sr_bookable_object_id stays) s) exclude now
                 stays \<lparr>ar_intervals = [], ar_conflicts = [], ar_validation_errors = []\<rparr> s))
          (\<lambda>res. case res of Inl e \<Rightarrow> raise e | Inr r \<Rightarrow> ret r)))))"

definition assert_cart_available ::
    "zoneinfo \<Rightarrow> uuid \<Rightarrow> uuid \<Rightarrow> stay_request list \<Rightarrow> uuid option \<Rightarrow> instant \<Rightarrow>
     ('z booking_db_scheme, stay_interval list) svc" where
  "assert_cart_available zi t terr_id stays exclude now =
     bindS (check_cart zi t terr_id stays exclude now) (\<lambda>r.
     thenS (ensure (ar_validation_errors r = [])
              (BookingValidationError (join_with ''; '' (ar_validation_errors r))))
     (thenS (ensure (ar_conflicts r = [])
              (BookingAvailabilityError ''One or more requested stays are not available''
                 (map (\<lambda>c. (ac_conflicting_item_id c, ac_conflicting_order_id c)) (ar_conflicts r))))
     (ret (ar_intervals r))))"

definition check_stay ::
    "zoneinfo \<Rightarrow> uuid \<Rightarrow> territory \<Rightarrow> stay_request \<Rightarrow> uuid option \<Rightarrow> instant \<Rightarrow>
     ('z booking_db_scheme, availability_result) svc" where
  "check_stay zi t terr stay exclude now = check_cart zi t (bt_id terr) [stay] exclude now"

subsection \<open>BookingHoldService\<close>

record hold_cart =
  hc_territory_id :: uuid
  hc_guest_party_id :: uuid
  hc_source :: BookingOrderSource
  hc_items :: "stay_request list"
  hc_order_number :: "string option"

definition expire_stale_holds ::
    "uuid \<Rightarrow> uuid option \<Rightarrow> instant \<Rightarrow> ('z booking_db_scheme, uuid list) svc" where
  "expire_stale_holds t terr now =
     thenS (assert_enabled t ''booking'')
     (bindS (gets (find_stale_held_orders t now terr)) (\<lambda>stale.
      thenS (for_each stale (\<lambda>o'. expire_order t (bo_id o') now))
      (ret (map bo_id stale))))"

definition add_order :: "booking_order \<Rightarrow> ('z booking_db_scheme, unit) svc" where
  "add_order o' = modify (\<lambda>s. s\<lparr>orders := row_insert o' (orders s)\<rparr>)"

definition add_item :: "uuid \<Rightarrow> uuid \<Rightarrow> bookable_object \<Rightarrow> stay_interval \<Rightarrow> ('z booking_db_scheme, unit) svc" where
  "add_item t oid obj iv =
     bindS fresh_id (\<lambda>i. modify (\<lambda>s. s\<lparr>items := row_insert
       \<lparr>bi_id = i, bi_tenant_id = t, bi_booking_order_id = oid, bi_bookable_object_id = ob_id obj,
        bi_check_in_date = si_check_in_date iv, bi_check_out_date = si_check_out_date iv,
        bi_check_in_at = si_check_in_at iv, bi_check_out_at = si_check_out_at iv,
        bi_nights = si_nights iv, bi_unit_price = ob_base_price obj,
        bi_line_total = ob_base_price obj * si_nights iv, bi_owner_id = ob_owner_id obj,
        bi_status = BookingItemStatus_ACTIVE\<rparr> (items s)\<rparr>))"

text \<open>
  The loop over the cart's stays.  \<open>ivs\<close> is \<^verbatim>\<open>interval_by_object\<close>: a dict built from the resolved
  intervals in order, so the last interval of an object is the one found.
\<close>

definition interval_by_object :: "stay_interval list \<Rightarrow> uuid \<Rightarrow> stay_interval option" where
  "interval_by_object ivs o' = row_find (\<lambda>iv. si_bookable_object_id iv = o') (rev ivs)"

fun persist_items ::
    "uuid \<Rightarrow> uuid \<Rightarrow> bookable_object list \<Rightarrow> stay_interval list \<Rightarrow> stay_request list \<Rightarrow> cents \<Rightarrow>
     ('z booking_db_scheme, cents) svc" where
  "persist_items t oid objs ivs [] subtotal = ret subtotal"
| "persist_items t oid objs ivs (stay # stays) subtotal =
     bindS (or_raise (interval_by_object ivs (sr_bookable_object_id stay)) (PyKeyError [])) (\<lambda>iv.
     bindS (or_raise (row_find (\<lambda>o'. ob_id o' = sr_bookable_object_id stay) objs) (PyKeyError [])) (\<lambda>obj.
     thenS (add_item t oid obj iv)
     (persist_items t oid objs ivs stays (subtotal + ob_base_price obj * si_nights iv))))"

definition held_order ::
    "nat \<Rightarrow> uuid \<Rightarrow> hold_cart \<Rightarrow> territory \<Rightarrow> instant \<Rightarrow> uuid \<Rightarrow> 'z booking_db_scheme \<Rightarrow> booking_order" where
  "held_order year t cart terr now i s =
     \<lparr>bo_id = i, bo_tenant_id = t, bo_territory_id = bt_id terr,
      bo_order_number = (case hc_order_number cart of
          None \<Rightarrow> next_order_number year t s
        | Some n \<Rightarrow> if n = [] then next_order_number year t s else n),
      bo_guest_party_id = hc_guest_party_id cart, bo_status = BookingOrderStatus_HELD,
      bo_hold_expires_at = Some (now + bt_hold_duration_minutes terr * minute_usec),
      bo_currency = bt_currency terr, bo_subtotal = 0, bo_source = hc_source cart,
      bo_confirmed_at = None, bo_cancelled_at = None\<rparr>"

definition persist_hold_order ::
    "nat \<Rightarrow> uuid \<Rightarrow> hold_cart \<Rightarrow> territory \<Rightarrow> bookable_object list \<Rightarrow> stay_interval list \<Rightarrow> instant \<Rightarrow>
     ('z booking_db_scheme, uuid) svc" where
  "persist_hold_order year t cart terr objs ivs now =
     bindS fresh_id (\<lambda>i.
     bindS (gets (held_order year t cart terr now i)) (\<lambda>o'.
     thenS (add_order o')
     (bindS (persist_items t i objs ivs (hc_items cart) 0) (\<lambda>subtotal.
     thenS (modify (write_order i (\<lambda>r. r\<lparr>bo_subtotal := subtotal\<rparr>)))
     (ret i)))))"

definition create_hold ::
    "zoneinfo \<Rightarrow> nat \<Rightarrow> uuid \<Rightarrow> hold_cart \<Rightarrow> instant \<Rightarrow> ('z booking_db_scheme, uuid) svc" where
  "create_hold zi year t cart now =
     thenS (assert_enabled t ''booking'')
     (thenS (assert_feature t ''booking.orders.create'')
     (thenS (ensure (hc_items cart \<noteq> [])
              (BookingValidationError ''Hold cart must contain at least one stay request''))
     (thenS (expire_stale_holds t (Some (hc_territory_id cart)) now)
     (bindS (gets (get_territory t (hc_territory_id cart))) (\<lambda>found.
      bindS (or_raise found (BookingValidationError
               (''Territory '' @ quoted (nat_str (hc_territory_id cart)) @ '' not found''))) (\<lambda>terr.
      bindS (gets (get_party t (hc_guest_party_id cart))) (\<lambda>guest.
      thenS (ensure (guest \<noteq> None) (NotFoundError ''Guest party not found''))
      (bindS (gets (list_objects_for_territory t (hc_territory_id cart)
                (sort (remdups (map sr_bookable_object_id (hc_items cart)))))) (\<lambda>objs.
      thenS (ensure (length (remdups (map ob_id objs)) =
                     length (sort (remdups (map sr_bookable_object_id (hc_items cart)))))
               (BookingValidationError ''One or more bookable objects were not found in territory''))
      (atomic
        (thenS (lock_bookable_objects (sort (remdups (map sr_bookable_object_id (hc_items cart)))))
        (bindS (assert_cart_available zi t (hc_territory_id cart) (hc_items cart) None now) (\<lambda>ivs.
         persist_hold_order year t cart terr objs ivs now)))))))))))))"

end
