(* ===== verification/Booking_Safety.thy ===== *)
theory Booking_Safety
  imports Booking_Holds
begin

text \<open>
  The safety of booking: in every session reached through the hold service and the order service no
  two active items of one object that belong to blocking orders overlap.  The invariant counts every
  held order as blocking, also one whose hold has run out: \<^verbatim>\<open>create_hold\<close> expires those of its
  territory before it looks for conflicts, so a late payment can not bring back a lost slot.
\<close>

subsection \<open>The invariant\<close>

definition blocks :: "'z booking_db_scheme \<Rightarrow> booking_item \<Rightarrow> bool" where
  "blocks s i \<longleftrightarrow> i \<in> set (items s) \<and> bi_status i = BookingItemStatus_ACTIVE \<and>
     (\<exists>o' \<in> set (orders s). bo_id o' = bi_booking_order_id i \<and> blocking_status (bo_status o'))"

definition free_slot :: "'z booking_db_scheme \<Rightarrow> uuid \<Rightarrow> instant \<Rightarrow> instant \<Rightarrow> bool" where
  "free_slot s obj a b \<longleftrightarrow> (\<forall>i. blocks s i \<longrightarrow> bi_bookable_object_id i = obj \<longrightarrow>
     \<not> intervals_overlap a b (bi_check_in_at i) (bi_check_out_at i))"

definition orders_ok :: "'z booking_db_scheme \<Rightarrow> bool" where
  "orders_ok s \<longleftrightarrow> distinct (map bo_id (orders s)) \<and>
     (\<forall>o' \<in> set (orders s). bo_id o' < next_id s \<and> bo_status o' \<noteq> BookingOrderStatus_DRAFT \<and>
        (bo_status o' = BookingOrderStatus_HELD \<longrightarrow> bo_hold_expires_at o' \<noteq> None))"

definition item_ok :: "booking_item \<Rightarrow> bool" where
  "item_ok i \<longleftrightarrow> bi_check_in_at i < bi_check_out_at i \<and> 1 \<le> bi_nights i \<and>
     bi_nights i = bi_check_out_date i - bi_check_in_date i \<and>
     bi_line_total i = bi_unit_price i * bi_nights i"

definition item_placed :: "'z booking_db_scheme \<Rightarrow> booking_item \<Rightarrow> bool" where
  "item_placed s i \<longleftrightarrow> (\<exists>o' \<in> set (orders s). bo_id o' = bi_booking_order_id i \<and>
     (\<exists>b \<in> set (bookable_objects s). ob_id b = bi_bookable_object_id i \<and>
        ob_tenant_id b = bo_tenant_id o' \<and> ob_territory_id b = bo_territory_id o'))"

definition items_ok :: "'z booking_db_scheme \<Rightarrow> bool" where
  "items_ok s \<longleftrightarrow> distinct (map bi_id (items s)) \<and> distinct (map ob_id (bookable_objects s)) \<and>
     (\<forall>i \<in> set (items s). bi_id i < next_id s \<and> item_ok i \<and> item_placed s i)"

definition no_double_booking :: "'z booking_db_scheme \<Rightarrow> bool" where
  "no_double_booking s \<longleftrightarrow> (\<forall>i j. blocks s i \<longrightarrow> blocks s j \<longrightarrow> bi_id i \<noteq> bi_id j \<longrightarrow>
     bi_bookable_object_id i = bi_bookable_object_id j \<longrightarrow>
     \<not> intervals_overlap (bi_check_in_at i) (bi_check_out_at i) (bi_check_in_at j) (bi_check_out_at j))"

definition booking_ok :: "'z booking_db_scheme \<Rightarrow> bool" where
  "booking_ok s \<longleftrightarrow> orders_ok s \<and> items_ok s \<and> no_double_booking s"

lemma intervals_overlap_sym: "intervals_overlap a b c d = intervals_overlap c d a b"
  by (auto simp: intervals_overlap_def)

text \<open>Overlap is what it says: a common instant of two half-open non-empty intervals.\<close>

lemma intervals_overlap_iff:
  "a < b \<Longrightarrow> c < d \<Longrightarrow> intervals_overlap a b c d \<longleftrightarrow> (\<exists>x. a \<le> x \<and> x < b \<and> c \<le> x \<and> x < d)"
proof
  assume "a < b" "c < d" "intervals_overlap a b c d"
  then have "a \<le> max a c \<and> max a c < b \<and> c \<le> max a c \<and> max a c < d"
    by (auto simp: intervals_overlap_def max_def)
  then show "\<exists>x. a \<le> x \<and> x < b \<and> c \<le> x \<and> x < d" by blast
qed (auto simp: intervals_overlap_def)

lemma order_unique:
  "orders_ok s \<Longrightarrow> o1 \<in> set (orders s) \<Longrightarrow> o2 \<in> set (orders s) \<Longrightarrow> bo_id o1 = bo_id o2 \<Longrightarrow> o1 = o2"
  by (auto simp: orders_ok_def intro: distinct_keys_eq)

lemma order_of_item_row:
  "orders_ok s \<Longrightarrow> o' \<in> set (orders s) \<Longrightarrow> bo_id o' = bi_booking_order_id i \<Longrightarrow> order_of_item i s = Some o'"
  unfolding order_of_item_def by (rule row_find_unique) (auto intro: order_unique)

subsection \<open>Writing an order\<close>

text \<open>
  What the state machine does to an order: its identity stays, it does not become a draft or a hold
  without a deadline, and it does not start to block.
\<close>

definition order_write_ok :: "(booking_order \<Rightarrow> booking_order) \<Rightarrow> booking_order \<Rightarrow> bool" where
  "order_write_ok f o' \<longleftrightarrow> bo_tenant_id (f o') = bo_tenant_id o' \<and> bo_territory_id (f o') = bo_territory_id o' \<and>
     bo_status (f o') \<noteq> BookingOrderStatus_DRAFT \<and>
     (bo_status (f o') = BookingOrderStatus_HELD \<longrightarrow> bo_hold_expires_at (f o') \<noteq> None) \<and>
     (blocking_status (bo_status (f o')) \<longrightarrow> blocking_status (bo_status o'))"

lemma write_order_row:
  "o' \<in> set (orders (write_order i f s)) \<Longrightarrow> bo_id o' = i \<Longrightarrow> \<exists>r \<in> set (orders s). bo_id r = i \<and> o' = f r"
  by (auto simp: write_order_def in_row_update split: if_splits)

lemma write_order_orders_ok:
  assumes "orders_ok s" "\<And>o'. bo_id (f o') = bo_id o'"
    and "\<And>o'. o' \<in> set (orders s) \<Longrightarrow> bo_id o' = i \<Longrightarrow> order_write_ok f o'"
  shows "orders_ok (write_order i f s)"
  using assms
  by (auto simp: orders_ok_def write_order_def map_key_row_update in_row_update order_write_ok_def
      split: if_splits)

lemma write_order_blocks:
  assumes "\<And>o'. bo_id (f o') = bo_id o'"
    and "\<And>o'. o' \<in> set (orders s) \<Longrightarrow> bo_id o' = i \<Longrightarrow> order_write_ok f o'"
    and "blocks (write_order i f s) x"
  shows "blocks s x"
  using assms(3) assms(1,2)
  by (fastforce simp: blocks_def write_order_def in_row_update order_write_ok_def split: if_splits)

lemma write_order_items_ok:
  assumes "items_ok s" "\<And>o'. bo_id (f o') = bo_id o'"
    and "\<And>o'. o' \<in> set (orders s) \<Longrightarrow> bo_id o' = i \<Longrightarrow> order_write_ok f o'"
  shows "items_ok (write_order i f s)"
proof -
  have "\<exists>o' \<in> set (orders (write_order i f s)). bo_id o' = bo_id r \<and> bo_tenant_id o' = bo_tenant_id r \<and>
      bo_territory_id o' = bo_territory_id r" if "r \<in> set (orders s)" for r
    using that assms(2,3)[of r]
    by (intro bexI[of _ "if bo_id r = i then f r else r"])
      (auto simp: write_order_def in_row_update order_write_ok_def)
  then have "item_placed s x \<Longrightarrow> item_placed (write_order i f s) x" for x
    unfolding item_placed_def by (simp add: write_order_def) metis
  then show ?thesis using assms(1) by (simp add: items_ok_def) (simp add: write_order_def)
qed

lemma write_order_keeps:
  assumes "booking_ok s" "\<And>o'. bo_id (f o') = bo_id o'"
    and "\<And>o'. o' \<in> set (orders s) \<Longrightarrow> bo_id o' = i \<Longrightarrow> order_write_ok f o'"
  shows "booking_ok (write_order i f s)"
  using assms write_order_orders_ok[of s f i] write_order_items_ok[of s f i]
    write_order_blocks[OF assms(2,3)]
  unfolding booking_ok_def no_double_booking_def by blast

lemma cancel_item_simps [simp]:
  "bi_id (cancel_item x) = bi_id x" "item_ok (cancel_item x) = item_ok x"
  "bi_booking_order_id (cancel_item x) = bi_booking_order_id x"
  "bi_bookable_object_id (cancel_item x) = bi_bookable_object_id x"
  "bi_status (cancel_item x) \<noteq> BookingItemStatus_ACTIVE"
  by (auto simp: cancel_item_def item_ok_def)

lemma cancel_items_blocks: "blocks (cancel_items i s) x \<Longrightarrow> blocks s x"
  by (auto simp: blocks_def cancel_items_def split: if_splits)

lemma cancel_items_items_ok:
  assumes "items_ok s"
  shows "items_ok (cancel_items i s)"
proof -
  have ids: "map bi_id (items (cancel_items i s)) = map bi_id (items s)"
    by (simp add: cancel_items_def)
  have other: "orders (cancel_items i s) = orders s" "next_id (cancel_items i s) = next_id s"
      "bookable_objects (cancel_items i s) = bookable_objects s"
    by (simp_all add: cancel_items_def)
  have "set (items (cancel_items i s)) =
      (\<lambda>x. if bi_booking_order_id x = i then cancel_item x else x) ` set (items s)"
    by (simp add: cancel_items_def)
  then show ?thesis
    using assms unfolding items_ok_def item_placed_def ids other by (auto simp: image_iff)
qed

lemma cancel_items_keeps: "booking_ok s \<Longrightarrow> booking_ok (cancel_items i s)"
  using cancel_items_items_ok[of s i] cancel_items_blocks[of i s]
  unfolding booking_ok_def no_double_booking_def by (auto simp: orders_ok_def cancel_items_def)

subsection \<open>The order's transitions\<close>

lemma allowed_no_new_block:
  "target \<in> set (allowed_transitions current) \<Longrightarrow> current \<noteq> BookingOrderStatus_DRAFT \<Longrightarrow>
     target \<noteq> BookingOrderStatus_DRAFT \<and> target \<noteq> BookingOrderStatus_HELD \<and>
     (blocking_status target \<longrightarrow> blocking_status current)"
  by (cases current) auto

lemma transition_ok:
  "transition t i target now s = (Inr u, s') \<longleftrightarrow>
     (\<exists>o'. repo_get_order t i s = Some o' \<and> target \<in> set (allowed_transitions (bo_status o')) \<and>
        s' = apply_transition i target now s)"
  by (auto simp: transition_def service_get_order_def validate_transition_def svc_ok)

lemma repo_get_order_row:
  "repo_get_order t i s = Some o' \<Longrightarrow> o' \<in> set (orders s) \<and> bo_tenant_id o' = t \<and> bo_id o' = i"
  unfolding repo_get_order_def by (rule scoped_get_Some)

lemma apply_transition_keeps:
  assumes ok: "booking_ok s" and o': "o' \<in> set (orders s)" "bo_id o' = i"
    and target: "target \<in> set (allowed_transitions (bo_status o'))"
  shows "booking_ok (apply_transition i target now s)"
proof -
  let ?s = "if target = BookingOrderStatus_CANCELLED then cancel_items i s else s"
  have "booking_ok ?s" by (simp add: ok cancel_items_keeps)
  moreover have "orders ?s = orders s" by (simp add: cancel_items_def)
  moreover have "x = o'" if "x \<in> set (orders s)" "bo_id x = i" for x
    using that o' ok order_unique by (auto simp: booking_ok_def)
  moreover have "bo_status o' \<noteq> BookingOrderStatus_DRAFT"
    using ok o' by (auto simp: booking_ok_def orders_ok_def)
  ultimately show ?thesis
    unfolding apply_transition_def using allowed_no_new_block[OF target]
    by (intro write_order_keeps) (auto simp: order_write_ok_def)
qed

lemma preserves_transition: "preserves booking_ok (transition t i target now)"
  unfolding preserves_def
proof (intro allI impI)
  fix s :: "'a booking_db_scheme" assume s: "booking_ok s"
  show "booking_ok (snd (transition t i target now s))"
  proof (cases "transition t i target now s")
    case (Pair r s')
    show ?thesis
    proof (cases r)
      case (Inr u)
      with Pair transition_ok[of t i target now s u s'] obtain o' where
        "repo_get_order t i s = Some o'" "target \<in> set (allowed_transitions (bo_status o'))"
        "s' = apply_transition i target now s" by auto
      with Pair s repo_get_order_row[of t i s o'] show ?thesis
        by (auto intro: apply_transition_keeps)
    next
      case (Inl e)
      with Pair s show ?thesis
        by (auto simp: transition_def service_get_order_def validate_transition_def svc_eval
            split: option.splits if_splits)
    qed
  qed
qed

text \<open>After a transition to a status that is not a hold, clearing the deadline is harmless.\<close>

lemma preserves_transition_clear:
  assumes "target \<noteq> BookingOrderStatus_HELD"
  shows "preserves booking_ok (thenS (transition t i target now) (clear_hold i))"
  unfolding preserves_def
proof (intro allI impI)
  fix s :: "'a booking_db_scheme" assume s: "booking_ok s"
  obtain r s1 where r: "transition t i target now s = (r, s1)" by force
  have s1: "booking_ok s1" using preservesD[OF preserves_transition s r] .
  show "booking_ok (snd (thenS (transition t i target now) (clear_hold i) s))"
  proof (cases r)
    case (Inr u)
    with r have s1_eq: "s1 = apply_transition i target now s" by (auto simp: transition_ok)
    have "bo_status o' = target" if "o' \<in> set (orders s1)" "bo_id o' = i" for o'
      using write_order_row[OF that[unfolded s1_eq apply_transition_def]] by auto
    with s1 assms have "booking_ok (write_order i (\<lambda>o'. o'\<lparr>bo_hold_expires_at := None\<rparr>) s1)"
      by (intro write_order_keeps) (auto simp: order_write_ok_def booking_ok_def orders_ok_def)
    then show ?thesis by (simp add: thenS_def bindS_def r Inr clear_hold_def modify_def)
  qed (simp add: thenS_def bindS_def r s1)
qed

lemma preserves_order_ops:
  "preserves booking_ok (submit_for_payment t i now)" "preserves booking_ok (mark_paid t i now)"
  "preserves booking_ok (confirm_order t i now)" "preserves booking_ok (cancel_order t i now)"
  "preserves booking_ok (expire_order t i now)"
  unfolding submit_for_payment_def mark_paid_def confirm_order_def cancel_order_def expire_order_def
  by (rule preserves_transition preserves_transition_clear; simp)+

lemma preserves_expire_stale: "preserves booking_ok (expire_stale_holds t terr now)"
  unfolding expire_stale_holds_def
  by (intro preserves_thenS preserves_bindS preserves_for_each module_gate.check_preserves
      preserves_order_ops preserves_gets preserves_ret)

subsection \<open>Stale holds\<close>

lemma expire_order_ok:
  "expire_order t i now s = (Inr u, s') \<longleftrightarrow>
     (\<exists>o'. repo_get_order t i s = Some o' \<and> bo_status o' = BookingOrderStatus_HELD \<and>
        s' = write_order i (\<lambda>o'. o'\<lparr>bo_hold_expires_at := None\<rparr>)
               (apply_transition i BookingOrderStatus_EXPIRED now s))"
proof -
  have "BookingOrderStatus_EXPIRED \<in> set (allowed_transitions st) \<longleftrightarrow> st = BookingOrderStatus_HELD" for st
    by (cases st) auto
  then show ?thesis
    by (auto simp: expire_order_def clear_hold_def transition_ok svc_ok)
qed

lemma expire_order_stale:
  assumes "expire_order t i now s = (Inr u, s')"
  shows "find_stale_held_orders t' now' terr s' =
    filter (\<lambda>o'. bo_id o' \<noteq> i) (find_stale_held_orders t' now' terr s)"
proof -
  obtain f where f: "orders s' = map (\<lambda>r. if bo_id r = i then f r else r) (orders s)"
      "\<And>r. bo_status (f r) = BookingOrderStatus_EXPIRED"
  proof
    show "orders s' = map (\<lambda>r. if bo_id r = i then r\<lparr>bo_status := BookingOrderStatus_EXPIRED,
        bo_hold_expires_at := None\<rparr> else r) (orders s)"
      using assms by (auto simp: expire_order_ok write_order_def apply_transition_def row_update_def)
  qed simp
  have drop: "filter P (map (\<lambda>r. if bo_id r = i then f r else r) rows) = filter (\<lambda>r. bo_id r \<noteq> i) (filter P rows)"
    if "\<And>r. P r \<Longrightarrow> bo_status r = BookingOrderStatus_HELD" for P and rows :: "booking_order list"
    using that f(2) by (induction rows) (auto simp: dest: that)
  show ?thesis unfolding find_stale_held_orders_def f(1) by (rule drop) simp
qed

lemma expire_all_stale:
  "for_each os (\<lambda>o'. expire_order t (bo_id o') now) s = (Inr u, s') \<Longrightarrow>
     find_stale_held_orders t now terr s' =
       filter (\<lambda>o'. bo_id o' \<notin> bo_id ` set os) (find_stale_held_orders t now terr s)"
proof (induction os arbitrary: s)
  case (Cons o1 os)
  then obtain s1 where s1: "expire_order t (bo_id o1) now s = (Inr (), s1)"
      "for_each os (\<lambda>o'. expire_order t (bo_id o') now) s1 = (Inr u, s')"
    by (auto simp: svc_ok)
  show ?case
    unfolding Cons.IH[OF s1(2)] expire_order_stale[OF s1(1)] by (auto intro: filter_cong)
qed (simp add: svc_ok)

lemma expire_stale_holds_clears:
  assumes "expire_stale_holds t terr now s = (Inr ids, s')"
  shows "find_stale_held_orders t now terr s' = []"
proof -
  from assms obtain s1 where
    "for_each (find_stale_held_orders t now terr s) (\<lambda>o'. expire_order t (bo_id o') now) s = (Inr (), s1)"
    "s' = s1"
    by (auto simp: expire_stale_holds_def svc_ok module_gate.check_ok)
  then show ?thesis using expire_all_stale by (fastforce simp: filter_empty_conv)
qed

text \<open>
  With no stale hold in the territory, an empty answer of the overlap query means a free slot.
\<close>

lemma no_overlap_free:
  assumes ok: "booking_ok s" and b: "b \<in> set (bookable_objects s)"
    and stale: "find_stale_held_orders (ob_tenant_id b) now (Some (ob_territory_id b)) s = []"
    and none: "find_overlapping_items (ob_id b) a c now None s = []"
  shows "free_slot s (ob_id b) a c"
  unfolding free_slot_def
proof (intro allI impI notI)
  fix i assume i: "blocks s i" "bi_bookable_object_id i = ob_id b"
    and ov: "intervals_overlap a c (bi_check_in_at i) (bi_check_out_at i)"
  obtain o' where o': "o' \<in> set (orders s)" "bo_id o' = bi_booking_order_id i" "blocking_status (bo_status o')"
    using i(1) by (auto simp: blocks_def)
  have item: "i \<in> set (items s)" "bi_status i = BookingItemStatus_ACTIVE" using i(1) by (auto simp: blocks_def)
  obtain o2 b2 where "o2 \<in> set (orders s)" "bo_id o2 = bi_booking_order_id i"
    "b2 \<in> set (bookable_objects s)" "ob_id b2 = bi_bookable_object_id i"
    "ob_tenant_id b2 = bo_tenant_id o2" "ob_territory_id b2 = bo_territory_id o2"
    using ok item(1) unfolding booking_ok_def items_ok_def item_placed_def by blast
  moreover from this have "o2 = o'" using ok o' order_unique[of s o2 o'] by (auto simp: booking_ok_def)
  moreover have "b2 = b"
    using ok b i(2) calculation distinct_keys_eq[of ob_id "bookable_objects s" b2 b]
    by (auto simp: booking_ok_def items_ok_def)
  ultimately have place: "bo_tenant_id o' = ob_tenant_id b" "bo_territory_id o' = ob_territory_id b" by auto
  have "is_order_blocking o' now"
  proof (cases "bo_status o' = BookingOrderStatus_HELD")
    case True
    then obtain e where e: "bo_hold_expires_at o' = Some e"
      using ok o'(1) by (auto simp: booking_ok_def orders_ok_def)
    with True place o'(1) stale have "now < e"
      by (auto simp: find_stale_held_orders_def filter_empty_conv)
    with True e show ?thesis by (simp add: is_order_blocking_def)
  next
    case False
    with o'(3) show ?thesis by (cases "bo_status o'") (auto simp: is_order_blocking_def)
  qed
  moreover have "order_of_item i s = Some o'"
    using ok o' by (auto simp: booking_ok_def intro: order_of_item_row)
  ultimately have "i \<in> set (find_overlapping_items (ob_id b) a c now None s)"
    using item i(2) ov o'(3) by (simp add: find_overlapping_items_def intervals_overlap_def)
  with none show False by simp
qed

subsection \<open>The check of a cart\<close>

definition interval_checked ::
    "zoneinfo \<Rightarrow> territory \<Rightarrow> bookable_object list \<Rightarrow> uuid option \<Rightarrow> instant \<Rightarrow> 'z booking_db_scheme \<Rightarrow>
     stay_request list \<Rightarrow> stay_interval \<Rightarrow> bool" where
  "interval_checked zi terr objs exclude now s stays iv \<longleftrightarrow>
     (\<exists>stay \<in> set stays. \<exists>b \<in> set objs. sr_bookable_object_id stay = ob_id b \<and> object_is_bookable b \<and>
        build_item_interval zi terr b (sr_check_in_date stay) (sr_check_out_date stay) = Inr iv \<and>
        bt_min_stay_nights terr \<le> si_nights iv \<and>
        find_overlapping_items (ob_id b) (si_check_in_at iv) (si_check_out_at iv) now exclude s = [])"

lemma check_one_stay_clean:
  assumes "check_one_stay zi terr objs exclude now stay r s = Inr r'"
    and "ar_validation_errors r' = []" "ar_conflicts r' = []"
  shows "ar_validation_errors r = [] \<and> ar_conflicts r = [] \<and>
    (\<exists>iv. ar_intervals r' = ar_intervals r @ [iv] \<and> si_bookable_object_id iv = sr_bookable_object_id stay \<and>
       interval_checked zi terr objs exclude now s [stay] iv)"
proof -
  obtain b where b: "row_find (\<lambda>o'. ob_id o' = sr_bookable_object_id stay) objs = Some b"
    using assms by (auto simp: check_one_stay_def add_error_def split: option.splits)
  note row = row_find_Some[OF b]
  obtain iv where "build_item_interval zi terr b (sr_check_in_date stay) (sr_check_out_date stay) = Inr iv"
    using assms b by (auto simp: check_one_stay_def add_error_def split: if_splits sum.splits)
  then show ?thesis
    using assms b row build_item_interval_ok[of zi terr b _ _ iv]
    by (auto simp: check_one_stay_def add_error_def interval_checked_def split: if_splits intro!: bexI[of _ b])
qed

lemma interval_checked_mono:
  "interval_checked zi terr objs exclude now s stays iv \<Longrightarrow> set stays \<subseteq> set stays' \<Longrightarrow>
   interval_checked zi terr objs exclude now s stays' iv"
  unfolding interval_checked_def by blast

lemma check_stays_clean:
  "check_stays zi terr objs exclude now stays r s = Inr r' \<Longrightarrow>
   ar_validation_errors r' = [] \<Longrightarrow> ar_conflicts r' = [] \<Longrightarrow>
   ar_validation_errors r = [] \<and> ar_conflicts r = [] \<and>
   (\<exists>ivs. ar_intervals r' = ar_intervals r @ ivs \<and>
      map si_bookable_object_id ivs = map sr_bookable_object_id stays \<and>
      (\<forall>iv \<in> set ivs. interval_checked zi terr objs exclude now s stays iv))"
proof (induction stays arbitrary: r)
  case (Cons stay stays)
  then obtain r1 where r1: "check_one_stay zi terr objs exclude now stay r s = Inr r1"
      "check_stays zi terr objs exclude now stays r1 s = Inr r'"
    by (auto split: sum.splits)
  from Cons.IH[OF r1(2) Cons.prems(2,3)] obtain ivs where ivs:
    "ar_validation_errors r1 = []" "ar_conflicts r1 = []" "ar_intervals r' = ar_intervals r1 @ ivs"
    "map si_bookable_object_id ivs = map sr_bookable_object_id stays"
    "\<forall>iv \<in> set ivs. interval_checked zi terr objs exclude now s stays iv" by blast
  from check_one_stay_clean[OF r1(1) ivs(1,2)] obtain iv where iv:
    "ar_validation_errors r = []" "ar_conflicts r = []" "ar_intervals r1 = ar_intervals r @ [iv]"
    "si_bookable_object_id iv = sr_bookable_object_id stay"
    "interval_checked zi terr objs exclude now s [stay] iv" by blast
  have "\<forall>x \<in> set (iv # ivs). interval_checked zi terr objs exclude now s (stay # stays) x"
    using ivs(5) iv(5) interval_checked_mono by (metis list.set_intros(1) set_ConsD set_subset_Cons
        empty_subsetI insert_subset list.simps(15) list.set(1))
  then show ?case using ivs iv by (intro conjI exI[of _ "iv # ivs"]) auto
qed simp

lemma assert_cart_available_ok:
  assumes "assert_cart_available zi t terr_id stays exclude now s = (Inr ivs, s')"
  obtains terr where "s' = s" "is_active t ''booking'' s" "get_territory t terr_id s = Some terr"
    "territory_is_bookable terr" "map si_bookable_object_id ivs = map sr_bookable_object_id stays"
    "\<And>iv. iv \<in> set ivs \<Longrightarrow> interval_checked zi terr
       (list_objects_for_territory t terr_id (map sr_bookable_object_id stays) s) exclude now s stays iv"
proof -
  let ?r0 = "\<lparr>ar_intervals = [], ar_conflicts = [], ar_validation_errors = []\<rparr>"
  from assms obtain terr r where terr: "is_active t ''booking'' s" "get_territory t terr_id s = Some terr"
    "territory_is_bookable terr" "s' = s"
    "check_stays zi terr (list_objects_for_territory t terr_id (map sr_bookable_object_id stays) s)
       exclude now stays ?r0 s = Inr r"
    "ar_validation_errors r = []" "ar_conflicts r = []" "ivs = ar_intervals r"
    by (auto simp: assert_cart_available_def check_cart_def svc_ok module_gate.check_ok
        split: if_splits sum.splits)
  from check_stays_clean[OF terr(5-7)] terr(8) show thesis
    by (intro that[OF terr(4,1,2,3)]) auto
qed

subsection \<open>Writing the hold\<close>

text \<open>\<open>slot_ready s o' objs iv\<close>: an interval that may be booked by the order \<open>o'\<close>.\<close>

definition slot_ready :: "'z booking_db_scheme \<Rightarrow> stay_interval \<Rightarrow> bool" where
  "slot_ready s iv \<longleftrightarrow> si_check_in_at iv < si_check_out_at iv \<and> 1 \<le> si_nights iv \<and>
     si_nights iv = si_check_out_date iv - si_check_in_date iv \<and>
     free_slot s (si_bookable_object_id iv) (si_check_in_at iv) (si_check_out_at iv)"

definition new_item :: "uuid \<Rightarrow> uuid \<Rightarrow> bookable_object \<Rightarrow> stay_interval \<Rightarrow> uuid \<Rightarrow> booking_item" where
  "new_item t oid obj iv i =
     \<lparr>bi_id = i, bi_tenant_id = t, bi_booking_order_id = oid, bi_bookable_object_id = ob_id obj,
      bi_check_in_date = si_check_in_date iv, bi_check_out_date = si_check_out_date iv,
      bi_check_in_at = si_check_in_at iv, bi_check_out_at = si_check_out_at iv,
      bi_nights = si_nights iv, bi_unit_price = ob_base_price obj,
      bi_line_total = ob_base_price obj * si_nights iv, bi_owner_id = ob_owner_id obj,
      bi_status = BookingItemStatus_ACTIVE\<rparr>"

lemma add_item_eval:
  "add_item t oid obj iv s = (Inr (), s\<lparr>next_id := Suc (next_id s),
     items := row_insert (new_item t oid obj iv (next_id s)) (items s)\<rparr>)"
  by (simp add: add_item_def svc_eval fresh_id_eval new_item_def)

lemma add_item_keeps:
  assumes ok: "booking_ok s" and o': "o' \<in> set (orders s)" "bo_id o' = oid"
    and obj: "obj \<in> set (bookable_objects s)" "ob_tenant_id obj = bo_tenant_id o'"
      "ob_territory_id obj = bo_territory_id o'"
    and iv: "slot_ready s iv" "si_bookable_object_id iv = ob_id obj"
    and s1: "add_item t oid obj iv s = (Inr (), s1)"
  shows "booking_ok s1 \<and>
    (\<forall>a b x. x \<noteq> ob_id obj \<longrightarrow> free_slot s x a b \<longrightarrow> free_slot s1 x a b) \<and>
    orders s1 = orders s \<and> bookable_objects s1 = bookable_objects s"
proof -
  let ?x = "new_item t oid obj iv (next_id s)"
  have s1_eq: "s1 = s\<lparr>next_id := Suc (next_id s), items := row_insert ?x (items s)\<rparr>"
    using s1 by (simp add: add_item_eval)
  have blocks: "blocks s1 i \<Longrightarrow> i = ?x \<or> blocks s i" for i
    by (auto simp: s1_eq blocks_def in_row_insert)
  have x: "bi_id ?x = next_id s" "bi_bookable_object_id ?x = ob_id obj" "bi_booking_order_id ?x = oid"
      "bi_check_in_at ?x = si_check_in_at iv" "bi_check_out_at ?x = si_check_out_at iv"
    by (simp_all add: new_item_def)
  have "orders_ok s1" using ok by (auto simp: booking_ok_def orders_ok_def s1_eq)
  moreover have "items_ok s1"
  proof -
    have "item_ok ?x" using iv(1) by (simp add: item_ok_def new_item_def slot_ready_def)
    moreover have "item_placed s1 ?x" using o' obj x unfolding item_placed_def s1_eq by auto
    moreover have "item_placed s1 y = item_placed s y" for y by (simp add: item_placed_def s1_eq)
    ultimately show ?thesis
      using ok x(1) unfolding booking_ok_def items_ok_def
      by (auto simp: s1_eq map_key_row_insert in_row_insert less_Suc_eq)
  qed
  moreover have "no_double_booking s1"
    unfolding no_double_booking_def
  proof (intro allI impI)
    fix i j assume ij: "blocks s1 i" "blocks s1 j" "bi_id i \<noteq> bi_id j"
      "bi_bookable_object_id i = bi_bookable_object_id j"
    have free: "blocks s k \<Longrightarrow> bi_bookable_object_id k = ob_id obj \<Longrightarrow>
        \<not> intervals_overlap (si_check_in_at iv) (si_check_out_at iv) (bi_check_in_at k) (bi_check_out_at k)" for k
      using iv by (simp add: slot_ready_def free_slot_def)
    show "\<not> intervals_overlap (bi_check_in_at i) (bi_check_out_at i) (bi_check_in_at j) (bi_check_out_at j)"
      using blocks[OF ij(1)] blocks[OF ij(2)] ij(3,4) x free[of i] free[of j] ok intervals_overlap_sym
      by (auto simp: booking_ok_def no_double_booking_def)
  qed
  moreover have "free_slot s1 y a b" if "y \<noteq> ob_id obj" "free_slot s y a b" for y a b
    using that blocks x(2) unfolding free_slot_def by blast
  ultimately show ?thesis by (simp add: booking_ok_def s1_eq)
qed

lemma persist_items_keeps:
  assumes "booking_ok s" "o' \<in> set (orders s)" "bo_id o' = oid"
    and "\<forall>b \<in> set objs. b \<in> set (bookable_objects s) \<and> ob_tenant_id b = bo_tenant_id o' \<and>
       ob_territory_id b = bo_territory_id o'"
    and "distinct (map sr_bookable_object_id stays)"
    and "\<forall>iv \<in> set ivs. si_bookable_object_id iv \<in> sr_bookable_object_id ` set stays \<longrightarrow> slot_ready s iv"
    and "persist_items t oid objs ivs stays subtotal s = (Inr r, s')"
  shows "booking_ok s'"
  using assms
proof (induction stays arbitrary: s subtotal)
  case (Cons stay stays)
  from Cons.prems(7) obtain iv b s1 where iv: "interval_by_object ivs (sr_bookable_object_id stay) = Some iv"
    and b: "row_find (\<lambda>o'. ob_id o' = sr_bookable_object_id stay) objs = Some b"
    and s1: "add_item t oid b iv s = (Inr (), s1)"
    and rest: "persist_items t oid objs ivs stays (subtotal + ob_base_price b * si_nights iv) s1 = (Inr r, s')"
    by (auto simp: svc_ok)
  have iv': "iv \<in> set ivs" "si_bookable_object_id iv = sr_bookable_object_id stay"
    using row_find_Some[OF iv[unfolded interval_by_object_def]] by auto
  have b': "b \<in> set objs" "ob_id b = sr_bookable_object_id stay" using row_find_Some[OF b] by auto
  have "slot_ready s iv" using Cons.prems(6) iv' by simp
  with add_item_keeps[OF Cons.prems(1-3) _ _ _ _ _ s1] Cons.prems(4) b' iv'(2)
  have s1': "booking_ok s1" "orders s1 = orders s" "bookable_objects s1 = bookable_objects s"
      "\<And>x a c. x \<noteq> ob_id b \<Longrightarrow> free_slot s x a c \<Longrightarrow> free_slot s1 x a c" by auto
  have "slot_ready s1 v" if "v \<in> set ivs" "si_bookable_object_id v \<in> sr_bookable_object_id ` set stays" for v
  proof -
    have "slot_ready s v" using that Cons.prems(6) by simp
    moreover have "si_bookable_object_id v \<noteq> ob_id b" using that(2) Cons.prems(5) b'(2) by auto
    ultimately show ?thesis using s1'(4) by (simp add: slot_ready_def)
  qed
  then show ?case
    using Cons.IH[OF s1'(1) _ Cons.prems(3) _ _ _ rest] Cons.prems(2,4,5) s1'(2,3) by simp
qed (simp add: svc_ok)

text \<open>A new order has no items yet.\<close>

lemma add_held_order_keeps:
  assumes ok: "booking_ok s" and o': "bo_id o' = next_id s" "bo_status o' = BookingOrderStatus_HELD"
      "bo_hold_expires_at o' \<noteq> None"
    and s1: "s1 = s\<lparr>next_id := Suc (next_id s), orders := row_insert o' (orders s)\<rparr>"
  shows "booking_ok s1 \<and> (\<forall>iv. slot_ready s iv \<longrightarrow> slot_ready s1 iv)"
proof -
  have blocks: "blocks s1 i \<Longrightarrow> blocks s i" for i
  proof -
    assume i: "blocks s1 i"
    then have "i \<in> set (items s)" by (simp add: blocks_def s1)
    then have "bi_booking_order_id i < next_id s"
      using ok unfolding booking_ok_def items_ok_def item_placed_def orders_ok_def by metis
    with i o'(1) show "blocks s i" by (auto simp: blocks_def s1 in_row_insert)
  qed
  have "orders_ok s1"
    using ok o' by (auto simp: booking_ok_def orders_ok_def s1 map_key_row_insert in_row_insert less_Suc_eq)
  moreover have "items_ok s1"
  proof -
    have "set (orders s) \<subseteq> set (orders s1)" "bookable_objects s1 = bookable_objects s"
      by (auto simp: s1 in_row_insert)
    then have "item_placed s i \<Longrightarrow> item_placed s1 i" for i
      unfolding item_placed_def by (metis subsetD)
    moreover have "items s1 = items s" "next_id s1 = Suc (next_id s)" "bookable_objects s1 = bookable_objects s"
      by (simp_all add: s1)
    ultimately show ?thesis using ok unfolding booking_ok_def items_ok_def by (simp add: less_SucI)
  qed
  moreover have "no_double_booking s1"
    using ok blocks unfolding booking_ok_def no_double_booking_def by blast
  ultimately show ?thesis using blocks by (auto simp: booking_ok_def slot_ready_def free_slot_def)
qed

lemma persist_hold_order_keeps:
  assumes ok: "booking_ok s" and objs: "\<forall>b \<in> set objs. b \<in> set (bookable_objects s) \<and> ob_tenant_id b = t \<and>
      ob_territory_id b = bt_id terr"
    and cart: "distinct (map sr_bookable_object_id (hc_items cart))"
    and ready: "\<forall>iv \<in> set ivs. slot_ready s iv"
    and run: "persist_hold_order year t cart terr objs ivs now s = (Inr i, s')"
  shows "booking_ok s'"
proof -
  let ?o = "held_order year t cart terr now (next_id s) (s\<lparr>next_id := Suc (next_id s)\<rparr>)"
  let ?s1 = "s\<lparr>next_id := Suc (next_id s), orders := row_insert ?o (orders s)\<rparr>"
  obtain subtotal s2 where s2: "persist_items t (next_id s) objs ivs (hc_items cart) 0 ?s1 = (Inr subtotal, s2)"
    and s': "s' = write_order (next_id s) (\<lambda>r. r\<lparr>bo_subtotal := subtotal\<rparr>) s2"
    using run by (auto simp: persist_hold_order_def add_order_def svc_ok)
  have o': "bo_id ?o = next_id s" "bo_status ?o = BookingOrderStatus_HELD" "bo_hold_expires_at ?o \<noteq> None"
      "bo_tenant_id ?o = t" "bo_territory_id ?o = bt_id terr"
    by (simp_all add: held_order_def)
  have s1: "booking_ok ?s1" "\<forall>iv. slot_ready s iv \<longrightarrow> slot_ready ?s1 iv"
    using add_held_order_keeps[OF ok o'(1-3) refl] by auto
  have "booking_ok s2"
    by (rule persist_items_keeps[OF s1(1) _ o'(1) _ cart _ s2])
      (use objs ready s1(2) o'(4,5) in \<open>auto simp: in_row_insert\<close>)
  then show ?thesis
    unfolding s' by (intro write_order_keeps) (simp_all add: order_write_ok_def booking_ok_def orders_ok_def)
qed

text \<open>
  The part of \<^verbatim>\<open>create_hold\<close> after the expiry of the territory's stale holds.
\<close>

definition hold_body ::
    "zoneinfo \<Rightarrow> nat \<Rightarrow> uuid \<Rightarrow> hold_cart \<Rightarrow> instant \<Rightarrow> ('z booking_db_scheme, uuid) svc" where
  "hold_body zi year t cart now =
     bindS (gets (get_territory t (hc_territory_id cart))) (\<lambda>found.
      bindS (or_raise found (BookingValidationError
               (''Territory '' @ quoted (nat_str (hc_territory_id cart)) @ '' not found''))) (\<lambda>terr.
      bindS (gets (get_party t (hc_guest_party_id cart))) (\<lambda>guest.
      thenS (ensure (guest \<noteq> None) (NotFoundError ''Guest party not found''))
      (bindS (gets (list_objects_for_territory t (hc_territory_id cart)
                (sort (remdups (map sr_bookable_object_id (hc_items cart)))))) (\<lambda>objs.
      thenS (ensure (length (remdups (map ob_id objs)) =
                     length (sort (remdups (map sr_bookable_object_id (hc_items cart)))))
               (BookingValidationError ''One or more bookable objects were not found in territory''))
      (atomic
        (thenS (lock_bookable_objects (sort (remdups (map sr_bookable_object_id (hc_items cart)))))
        (bindS (assert_cart_available zi t (hc_territory_id cart) (hc_items cart) None now) (\<lambda>ivs.
         persist_hold_order year t cart terr objs ivs now)))))))))"

lemma create_hold_split:
  "create_hold zi year t cart now =
     thenS (assert_enabled t ''booking'')
     (thenS (assert_feature t ''booking.orders.create'')
     (thenS (ensure (hc_items cart \<noteq> [])
              (BookingValidationError ''Hold cart must contain at least one stay request''))
     (thenS (expire_stale_holds t (Some (hc_territory_id cart)) now)
     (hold_body zi year t cart now))))"
  unfolding create_hold_def hold_body_def ..

lemma hold_body_raises: "hold_body zi year t cart now s = (Inl e, s') \<Longrightarrow> s' = s"
  unfolding hold_body_def
  by (auto simp: bindS_def thenS_def gets_def or_raise_def ensure_def ret_def raise_def
      dest: atomic_raises split: option.splits if_splits)

lemma lock_bookable_objects_ok: "lock_bookable_objects ids s = (Inr u, s') \<Longrightarrow> s' = s"
  by (auto simp: lock_bookable_objects_def svc_ok split: if_splits)

lemma hold_body_ok:
  assumes "hold_body zi year t cart now s = (Inr i, s')"
  obtains terr objs ivs where "get_territory t (hc_territory_id cart) s = Some terr"
    "territory_is_bookable terr"
    "objs = list_objects_for_territory t (hc_territory_id cart)
       (sort (remdups (map sr_bookable_object_id (hc_items cart)))) s"
    "map si_bookable_object_id ivs = map sr_bookable_object_id (hc_items cart)"
    "\<And>iv. iv \<in> set ivs \<Longrightarrow> interval_checked zi terr
       (list_objects_for_territory t (hc_territory_id cart) (map sr_bookable_object_id (hc_items cart)) s)
       None now s (hc_items cart) iv"
    "persist_hold_order year t cart terr objs ivs now s = (Inr i, s')"
proof -
  from assms obtain terr ivs s1 s2 where terr: "get_territory t (hc_territory_id cart) s = Some terr"
    "lock_bookable_objects (sort (remdups (map sr_bookable_object_id (hc_items cart)))) s = (Inr (), s1)"
    "assert_cart_available zi t (hc_territory_id cart) (hc_items cart) None now s1 = (Inr ivs, s2)"
    "persist_hold_order year t cart terr (list_objects_for_territory t (hc_territory_id cart)
       (sort (remdups (map sr_bookable_object_id (hc_items cart)))) s) ivs now s2 = (Inr i, s')"
    unfolding hold_body_def by (auto simp: svc_ok)
  have "s1 = s" using lock_bookable_objects_ok[OF terr(2)] .
  from assert_cart_available_ok[OF terr(3)[unfolded this]] obtain terr2 where t2: "s2 = s"
    "get_territory t (hc_territory_id cart) s = Some terr2" "territory_is_bookable terr2"
    "map si_bookable_object_id ivs = map sr_bookable_object_id (hc_items cart)"
    "\<And>iv. iv \<in> set ivs \<Longrightarrow> interval_checked zi terr2
       (list_objects_for_territory t (hc_territory_id cart) (map sr_bookable_object_id (hc_items cart)) s)
       None now s (hc_items cart) iv" by blast
  show thesis by (rule that[OF terr(1) _ refl t2(4)]) (use t2 terr in auto)
qed

definition distinct_objects :: "hold_cart \<Rightarrow> bool" where
  "distinct_objects cart \<longleftrightarrow> distinct (map sr_bookable_object_id (hc_items cart))"

lemma hold_body_keeps:
  assumes ok: "booking_ok s" and cart: "distinct_objects cart"
    and stale: "find_stale_held_orders t now (Some (hc_territory_id cart)) s = []"
  shows "booking_ok (snd (hold_body zi year t cart now s))"
proof (cases "hold_body zi year t cart now s")
  case (Pair r s')
  show ?thesis
  proof (cases r)
    case (Inr i)
    with Pair have run: "hold_body zi year t cart now s = (Inr i, s')" by simp
    show ?thesis
    proof (rule hold_body_ok[OF run])
      fix terr objs ivs
      assume terr: "get_territory t (hc_territory_id cart) s = Some terr"
        and objs: "objs = list_objects_for_territory t (hc_territory_id cart)
          (sort (remdups (map sr_bookable_object_id (hc_items cart)))) s"
        and ivs: "\<And>iv. iv \<in> set ivs \<Longrightarrow> interval_checked zi terr
          (list_objects_for_territory t (hc_territory_id cart) (map sr_bookable_object_id (hc_items cart)) s)
          None now s (hc_items cart) iv"
        and persist: "persist_hold_order year t cart terr objs ivs now s = (Inr i, s')"
      have id: "bt_id terr = hc_territory_id cart"
        using terr unfolding get_territory_def by (auto dest: scoped_get_Some)
      have "slot_ready s iv" if iv_in: "iv \<in> set ivs" for iv
      proof -
        obtain b and stay :: stay_request where "b \<in> set (list_objects_for_territory t (hc_territory_id cart)
            (map sr_bookable_object_id (hc_items cart)) s)"
          "build_item_interval zi terr b (sr_check_in_date stay) (sr_check_out_date stay) = Inr iv"
          "find_overlapping_items (ob_id b) (si_check_in_at iv) (si_check_out_at iv) now None s = []"
          using ivs[OF iv_in] unfolding interval_checked_def by blast
        then have b: "b \<in> set (bookable_objects s)" "ob_tenant_id b = t"
          "ob_territory_id b = hc_territory_id cart"
          "build_item_interval zi terr b (sr_check_in_date stay) (sr_check_out_date stay) = Inr iv"
          "find_overlapping_items (ob_id b) (si_check_in_at iv) (si_check_out_at iv) now None s = []"
          by (simp_all add: list_objects_for_territory_def)
        have "free_slot s (ob_id b) (si_check_in_at iv) (si_check_out_at iv)"
          by (rule no_overlap_free[OF ok b(1) _ b(5)]) (simp add: b(2,3) stale)
        then show ?thesis using build_item_interval_ok[OF b(4)] by (simp add: slot_ready_def)
      qed
      then show ?thesis
        using persist_hold_order_keeps[OF ok _ _ _ persist] cart Pair objs id
        by (auto simp: list_objects_for_territory_def distinct_objects_def)
    qed
  next
    case (Inl e)
    with Pair have "s' = s" by (auto dest: hold_body_raises)
    with Pair ok show ?thesis by simp
  qed
qed

lemma preserves_assert_feature: "preserves I (assert_feature t code)"
  unfolding assert_feature_def
  by (intro preserves_bindS preserves_thenS preserves_gets preserves_ensure)
    (auto intro: module_gate.check_preserves split: option.splits)

lemma preserves_create_hold:
  assumes "distinct_objects cart"
  shows "preserves booking_ok (create_hold zi year t cart now :: ('z booking_db_scheme, uuid) svc)"
proof -
  have "preserves booking_ok (thenS (expire_stale_holds t (Some (hc_territory_id cart)) now)
      (hold_body zi year t cart now) :: ('z booking_db_scheme, uuid) svc)"
    unfolding preserves_def
  proof (intro allI impI)
    fix s :: "'z booking_db_scheme" assume s: "booking_ok s"
    obtain r s1 where r: "expire_stale_holds t (Some (hc_territory_id cart)) now s = (r, s1)" by force
    have s1: "booking_ok s1" using preservesD[OF preserves_expire_stale s r] .
    show "booking_ok (snd (thenS (expire_stale_holds t (Some (hc_territory_id cart)) now)
        (hold_body zi year t cart now) s))"
    proof (cases r)
      case (Inr ids)
      with r have "find_stale_held_orders t now (Some (hc_territory_id cart)) s1 = []"
        using expire_stale_holds_clears by blast
      from hold_body_keeps[OF s1 assms this] show ?thesis by (simp add: thenS_def bindS_def r Inr)
    qed (simp add: thenS_def bindS_def r s1)
  qed
  then show ?thesis
    unfolding create_hold_split
    by (rule preserves_thenS[OF module_gate.check_preserves
          preserves_thenS[OF preserves_assert_feature preserves_thenS[OF preserves_ensure]]])
qed

subsection \<open>Reachable sessions\<close>

text \<open>
  One call of the booking services at any instant; it may return or raise.  A cart names an object
  once, see \<open>duplicate_object_books_last_stay\<close> below for why this is asked for.
\<close>

inductive booking_step :: "'z booking_db_scheme \<Rightarrow> 'z booking_db_scheme \<Rightarrow> bool" where
  step_hold: "distinct_objects cart \<Longrightarrow> booking_step s (snd (create_hold zi year t cart now s))"
| step_expire_stale: "booking_step s (snd (expire_stale_holds t terr now s))"
| step_submit: "booking_step s (snd (submit_for_payment t i now s))"
| step_paid: "booking_step s (snd (mark_paid t i now s))"
| step_confirm: "booking_step s (snd (confirm_order t i now s))"
| step_cancel: "booking_step s (snd (cancel_order t i now s))"
| step_expire: "booking_step s (snd (expire_order t i now s))"

definition booking_start :: "'z booking_db_scheme \<Rightarrow> bool" where
  "booking_start s \<longleftrightarrow> orders s = [] \<and> items s = [] \<and> distinct (map ob_id (bookable_objects s))"

interpretation booking: invariant_machine booking_start booking_step booking_ok
proof
  show "booking_ok s" if "booking_start s" for s :: "'a booking_db_scheme"
    using that by (auto simp: booking_start_def booking_ok_def orders_ok_def items_ok_def
        no_double_booking_def blocks_def)
  show "booking_ok s'" if "booking_ok s" "booking_step s s'" for s s' :: "'a booking_db_scheme"
    using that(2,1)
    by cases (auto intro: preserves_snd preserves_create_hold preserves_expire_stale preserves_order_ops)
qed

inductive_simps booking_step_simps: "booking_step s s'"

subsection \<open>What a hold writes\<close>

text \<open>The items one hold writes, one for each stay, in order.\<close>

lemma persist_items_outcome:
  "persist_items t oid objs ivs stays subtotal s = (Inr r, s') \<Longrightarrow>
   \<exists>new. s' = s\<lparr>next_id := next_id s + length stays, items := items s @ new\<rparr> \<and>
     r = subtotal + sum_list (map bi_line_total new) \<and>
     list_all2 (\<lambda>stay x. \<exists>iv b k. interval_by_object ivs (sr_bookable_object_id stay) = Some iv \<and>
       row_find (\<lambda>o'. ob_id o' = sr_bookable_object_id stay) objs = Some b \<and> x = new_item t oid b iv k) stays new"
proof (induction stays arbitrary: s subtotal)
  case (Cons stay stays)
  then obtain iv b s1 where iv: "interval_by_object ivs (sr_bookable_object_id stay) = Some iv"
    and b: "row_find (\<lambda>o'. ob_id o' = sr_bookable_object_id stay) objs = Some b"
    and s1: "add_item t oid b iv s = (Inr (), s1)"
    and rest: "persist_items t oid objs ivs stays (subtotal + ob_base_price b * si_nights iv) s1 = (Inr r, s')"
    by (auto simp: svc_ok)
  let ?x = "new_item t oid b iv (next_id s)"
  have s1': "s1 = s\<lparr>next_id := Suc (next_id s), items := items s @ [?x]\<rparr>"
    using s1 by (auto simp: add_item_eval row_insert_def)
  from Cons.IH[OF rest] obtain new where new:
    "s' = s1\<lparr>next_id := next_id s1 + length stays, items := items s1 @ new\<rparr>"
    "r = subtotal + ob_base_price b * si_nights iv + sum_list (map bi_line_total new)"
    "list_all2 (\<lambda>stay x. \<exists>iv b k. interval_by_object ivs (sr_bookable_object_id stay) = Some iv \<and>
       row_find (\<lambda>o'. ob_id o' = sr_bookable_object_id stay) objs = Some b \<and> x = new_item t oid b iv k) stays new"
    by blast
  show ?case
    by (rule exI[of _ "?x # new"]) (use new s1' iv b in \<open>auto simp: new_item_def\<close>)
qed (simp add: svc_ok)

lemma persist_hold_order_outcome:
  assumes ok: "booking_ok s"
    and run: "persist_hold_order year t cart terr objs ivs now s = (Inr i, s')"
  shows "i = next_id s \<and> (\<exists>new. items s' = items s @ new \<and>
    orders s' = orders s @ [(held_order year t cart terr now i s)\<lparr>bo_subtotal := sum_list (map bi_line_total new)\<rparr>] \<and>
    list_all2 (\<lambda>stay x. \<exists>iv b k. interval_by_object ivs (sr_bookable_object_id stay) = Some iv \<and>
      row_find (\<lambda>o'. ob_id o' = sr_bookable_object_id stay) objs = Some b \<and> x = new_item t i b iv k)
      (hc_items cart) new)"
proof -
  let ?o = "held_order year t cart terr now (next_id s) (s\<lparr>next_id := Suc (next_id s)\<rparr>)"
  let ?s1 = "s\<lparr>next_id := Suc (next_id s), orders := row_insert ?o (orders s)\<rparr>"
  obtain subtotal s2 where s2: "persist_items t (next_id s) objs ivs (hc_items cart) 0 ?s1 = (Inr subtotal, s2)"
    and s': "s' = write_order (next_id s) (\<lambda>r. r\<lparr>bo_subtotal := subtotal\<rparr>) s2" and i: "i = next_id s"
    using run by (auto simp: persist_hold_order_def add_order_def svc_ok)
  from persist_items_outcome[OF s2] obtain new where new:
    "s2 = ?s1\<lparr>next_id := next_id ?s1 + length (hc_items cart), items := items ?s1 @ new\<rparr>"
    "subtotal = 0 + sum_list (map bi_line_total new)"
    "list_all2 (\<lambda>stay x. \<exists>iv b k. interval_by_object ivs (sr_bookable_object_id stay) = Some iv \<and>
      row_find (\<lambda>o'. ob_id o' = sr_bookable_object_id stay) objs = Some b \<and> x = new_item t (next_id s) b iv k)
      (hc_items cart) new"
    by blast
  have o': "?o = held_order year t cart terr now (next_id s) s" "bo_id ?o = next_id s"
    by (simp_all add: held_order_def next_order_number_def split: option.split)
  have "bo_id x \<noteq> next_id s" if "x \<in> set (orders s)" for x
    using ok that by (auto simp: booking_ok_def orders_ok_def)
  then have "map (\<lambda>x. if bo_id x = next_id s then f x else x) (orders s) = orders s" for f
    by (intro map_idI) auto
  then have "row_update bo_id (next_id s) f (orders s @ [?o]) = orders s @ [f ?o]" for f
    using o'(2) by (simp add: row_update_def)
  then have "orders s' = orders s @ [?o\<lparr>bo_subtotal := subtotal\<rparr>]"
    unfolding s' write_order_def by (simp add: new(1) row_insert_def)
  moreover have "items s' = items s @ new" unfolding s' write_order_def by (simp add: new(1))
  ultimately show ?thesis using i new(2,3) o'(1) by (intro conjI exI[of _ new]) simp_all
qed

lemma interval_by_object_distinct:
  assumes distinct: "distinct (map sr_bookable_object_id stays)"
    and checked: "\<And>iv. iv \<in> set ivs \<Longrightarrow> interval_checked zi terr objs exclude now s stays iv"
    and stay: "stay \<in> set stays" and iv: "interval_by_object ivs (sr_bookable_object_id stay) = Some iv"
  shows "\<exists>b \<in> set objs. ob_id b = sr_bookable_object_id stay \<and> object_is_bookable b \<and>
    build_item_interval zi terr b (sr_check_in_date stay) (sr_check_out_date stay) = Inr iv"
proof -
  have iv': "iv \<in> set ivs" "si_bookable_object_id iv = sr_bookable_object_id stay"
    using row_find_Some[OF iv[unfolded interval_by_object_def]] by auto
  from checked[OF iv'(1)] obtain stay' b where other: "stay' \<in> set stays" "b \<in> set objs"
    "sr_bookable_object_id stay' = ob_id b" "object_is_bookable b"
    "build_item_interval zi terr b (sr_check_in_date stay') (sr_check_out_date stay') = Inr iv"
    unfolding interval_checked_def by blast
  have "sr_bookable_object_id stay' = sr_bookable_object_id stay"
    using build_item_interval_ok[OF other(5)] iv'(2) other(3) by simp
  then have "stay' = stay" using distinct_keys_eq[OF distinct other(1) stay] by simp
  then show ?thesis using other by auto
qed

end
