(* ===== verification/Booking_Properties.thy ===== *)
theory Booking_Properties
  imports Booking_Safety
begin

text \<open>
  What booking guarantees, stated on its operations: no slot is sold twice, what a hold contains, how
  stale holds go, which orders can not change any more; and what happens when a cart names one object
  twice.
\<close>

subsection \<open>A territory with two cabins\<close>

definition utc_zone :: zoneinfo where
  "utc_zone key = (if key = ''UTC'' then ZoneFound (\<lambda>d c. 0) else ZoneInfoNotFound)"

definition cabin :: "uuid \<Rightarrow> bookable_object" where
  "cabin i = \<lparr>ob_id = i, ob_tenant_id = 2, ob_territory_id = 30, ob_owner_id = 33, ob_code = ''c'',
     ob_base_price = 1500000, ob_pricing_unit = BookablePricingUnit_PER_STAY, ob_check_in_time = None,
     ob_check_out_time = None, ob_status = BookableObjectStatus_ACTIVE\<rparr>"

definition lake :: territory where
  "lake = \<lparr>bt_id = 30, bt_tenant_id = 2, bt_code = ''lake'', bt_timezone = ''UTC'', bt_currency = ''KZT'',
     bt_default_check_in_time = 14 * 60 * minute_usec, bt_default_check_out_time = 12 * 60 * minute_usec,
     bt_hold_duration_minutes = 30, bt_min_stay_nights = 1, bt_status = BookingTerritoryStatus_ACTIVE\<rparr>"

definition lake_db :: booking_db where
  "lake_db =
     \<lparr>next_id = 100, tenants = [], branches = [], audit_logs = [], definitions = [],
      tenant_modules = [\<lparr>tm_tenant_id = 2, tm_module_code = ''booking'', tm_status = ModuleStatus_ENABLED,
        tm_mode = ModuleMode_INTERNAL, tm_external_provider_code = None, tm_settings_json = JObj []\<rparr>],
      features = [\<lparr>ft_id = 8, ft_code = ''booking.orders.create'', ft_module_code = Some ''booking'', ft_name = ''n''\<rparr>],
      plans = [], plan_features = [\<lparr>pf_plan_id = 10, pf_feature_id = 8\<rparr>],
      subscriptions = [\<lparr>sb_id = 6, sb_tenant_id = 2, sb_plan_id = 10, sb_status = SubscriptionStatus_ACTIVE\<rparr>],
      usage_limits = [], usage_events = [],
      parties = [\<lparr>pa_id = 40, pa_tenant_id = 2, pa_party_type = PartyType_PERSON, pa_display_name = ''g'',
        pa_status = PartyStatus_ACTIVE, pa_metadata_json = JObj []\<rparr>],
      custom_definitions = [], custom_values = [],
      territories = [lake], bookable_objects = [cabin 31, cabin 32], orders = [], items = []\<rparr>"

definition lake_cart :: "stay_request list \<Rightarrow> hold_cart" where
  "lake_cart stays = \<lparr>hc_territory_id = 30, hc_guest_party_id = 40, hc_source = BookingOrderSource_PUBLIC_WEB,
     hc_items = stays, hc_order_number = None\<rparr>"

definition stay :: "uuid \<Rightarrow> day \<Rightarrow> day \<Rightarrow> stay_request" where
  "stay o' a b = \<lparr>sr_bookable_object_id = o', sr_check_in_date = a, sr_check_out_date = b\<rparr>"

definition held :: "uuid \<Rightarrow> string \<Rightarrow> instant \<Rightarrow> cents \<Rightarrow> booking_order" where
  "held i number e amount = \<lparr>bo_id = i, bo_tenant_id = 2, bo_territory_id = 30, bo_order_number = number,
     bo_guest_party_id = 40, bo_status = BookingOrderStatus_HELD, bo_hold_expires_at = Some e,
     bo_currency = ''KZT'', bo_subtotal = amount, bo_source = BookingOrderSource_PUBLIC_WEB,
     bo_confirmed_at = None, bo_cancelled_at = None\<rparr>"

definition booked :: "uuid \<Rightarrow> uuid \<Rightarrow> uuid \<Rightarrow> day \<Rightarrow> day \<Rightarrow> booking_item" where
  "booked i oid o' a b = \<lparr>bi_id = i, bi_tenant_id = 2, bi_booking_order_id = oid, bi_bookable_object_id = o',
     bi_check_in_date = a, bi_check_out_date = b, bi_check_in_at = a * day_usec + 14 * 60 * minute_usec,
     bi_check_out_at = b * day_usec + 12 * 60 * minute_usec, bi_nights = b - a, bi_unit_price = 1500000,
     bi_line_total = 1500000 * (b - a), bi_owner_id = 33, bi_status = BookingItemStatus_ACTIVE\<rparr>"

definition lake_one :: booking_db where
  "lake_one = lake_db\<lparr>next_id := 103, orders := [held 100 ''BO-2026-00001'' 1800000000 4500000],
     items := [booked 101 100 31 700 702, booked 102 100 32 700 701]\<rparr>"

definition lake_two :: booking_db where
  "lake_two = lake_one\<lparr>next_id := 105,
     orders := orders lake_one @ [held 103 ''BO-2026-00002'' 1800000005 1500000],
     items := items lake_one @ [booked 104 103 31 702 703]\<rparr>"

definition lake_twice :: booking_db where
  "lake_twice = lake_db\<lparr>next_id := 103, orders := [held 100 ''BO-2026-00001'' 1800000000 6000000],
     items := [booked 101 100 31 710 712, booked 102 100 31 710 712]\<rparr>"

lemma lake_one_run:
  "create_hold utc_zone 2026 2 (lake_cart [stay 31 700 702, stay 32 700 701]) 0 lake_db = (Inr 100, lake_one)"
  by code_simp

lemma lake_two_run:
  "create_hold utc_zone 2026 2 (lake_cart [stay 31 702 703]) 5 lake_one = (Inr 103, lake_two)"
  by code_simp

lemma lake_twice_run:
  "create_hold utc_zone 2026 2 (lake_cart [stay 31 700 701, stay 31 710 712]) 0 lake_db = (Inr 100, lake_twice)"
  by code_simp

lemma lake_two_reachable: "reachable booking_start booking_step lake_two"
proof -
  have "booking_start lake_db" by code_simp
  then have "reachable booking_start booking_step lake_db" by (rule reachable_start)
  moreover have "booking_step lake_db lake_one"
    using step_hold[of "lake_cart [stay 31 700 702, stay 32 700 701]" lake_db utc_zone 2026 2 0]
    unfolding lake_one_run by (simp add: distinct_objects_def lake_cart_def stay_def)
  ultimately have "reachable booking_start booking_step lake_one" by (rule reachable_step)
  moreover have "booking_step lake_one lake_two"
    using step_hold[of "lake_cart [stay 31 702 703]" lake_one utc_zone 2026 2 5]
    unfolding lake_two_run by (simp add: distinct_objects_def lake_cart_def stay_def)
  ultimately show ?thesis by (rule reachable_step)
qed

subsection \<open>What the hold service is to do\<close>

text \<open>A hold is stale when its deadline has passed; expiring it clears the deadline.\<close>

definition stale_hold :: "uuid \<Rightarrow> uuid option \<Rightarrow> instant \<Rightarrow> booking_order \<Rightarrow> bool" where
  "stale_hold t terr now o' \<longleftrightarrow> bo_tenant_id o' = t \<and> bo_status o' = BookingOrderStatus_HELD \<and>
     (\<exists>e. bo_hold_expires_at o' = Some e \<and> e \<le> now) \<and> (\<forall>x. terr = Some x \<longrightarrow> bo_territory_id o' = x)"

definition expired_order :: "booking_order \<Rightarrow> booking_order" where
  "expired_order o' = o'\<lparr>bo_status := BookingOrderStatus_EXPIRED, bo_hold_expires_at := None\<rparr>"

text \<open>
  The item of a stay: its object, exactly its dates and their nights, the instants of check-in and check-out
  on these dates at the territory, and the object's price for each night.
\<close>

definition item_of_stay ::
    "zoneinfo \<Rightarrow> territory \<Rightarrow> uuid \<Rightarrow> uuid \<Rightarrow> 'z booking_db_scheme \<Rightarrow> stay_request \<Rightarrow> booking_item \<Rightarrow> bool" where
  "item_of_stay zi terr t oid s req x \<longleftrightarrow>
     bi_tenant_id x = t \<and> bi_booking_order_id x = oid \<and> bi_status x = BookingItemStatus_ACTIVE \<and>
     bi_bookable_object_id x = sr_bookable_object_id req \<and>
     bi_check_in_date x = sr_check_in_date req \<and> bi_check_out_date x = sr_check_out_date req \<and>
     bi_nights x = sr_check_out_date req - sr_check_in_date req \<and> 1 \<le> bi_nights x \<and>
     (\<exists>b \<in> set (bookable_objects s). ob_id b = sr_bookable_object_id req \<and> ob_tenant_id b = t \<and>
        ob_territory_id b = bt_id terr \<and> bi_owner_id x = ob_owner_id b \<and> bi_unit_price x = ob_base_price b \<and>
        bi_line_total x = ob_base_price b * bi_nights x \<and>
        (case resolve_effective_check_times terr b of (c_in, c_out) \<Rightarrow>
           local_stay_to_utc_instant zi (sr_check_in_date req) c_in (bt_timezone terr) = Inr (bi_check_in_at x) \<and>
           local_stay_to_utc_instant zi (sr_check_out_date req) c_out (bt_timezone terr) = Inr (bi_check_out_at x)))"

lemma expire_all_run:
  assumes "booking_ok s" "distinct (map bo_id os)"
    and "\<forall>o' \<in> set os. o' \<in> set (orders s) \<and> bo_tenant_id o' = t \<and> bo_status o' = BookingOrderStatus_HELD"
  shows "for_each os (\<lambda>o'. expire_order t (bo_id o') now) s = (Inr (), s\<lparr>orders :=
    map (\<lambda>o'. if bo_id o' \<in> bo_id ` set os then expired_order o' else o') (orders s)\<rparr>)"
  using assms
proof (induction os arbitrary: s)
  case (Cons o1 os)
  have o1: "o1 \<in> set (orders s)" "bo_tenant_id o1 = t" "bo_status o1 = BookingOrderStatus_HELD"
    using Cons.prems(3) by auto
  have "repo_get_order t (bo_id o1) s = Some o1"
    unfolding repo_get_order_def scoped_get_def
    by (rule row_find_unique) (use o1 Cons.prems(1) in \<open>auto simp: booking_ok_def intro: order_unique\<close>)
  then have s1: "expire_order t (bo_id o1) now s = (Inr (), s\<lparr>orders :=
      map (\<lambda>o'. if bo_id o' = bo_id o1 then expired_order o' else o') (orders s)\<rparr>)" (is "_ = (_, ?s1)")
    using o1(3)
    by (auto simp: expire_order_ok write_order_def apply_transition_def row_update_def expired_order_def
        intro!: booking_db.equality)
  have ok1: "booking_ok ?s1" using preservesD[OF preserves_order_ops(5) Cons.prems(1) s1] .
  have "\<forall>r \<in> set os. r \<in> set (orders ?s1) \<and> bo_tenant_id r = t \<and> bo_status r = BookingOrderStatus_HELD"
  proof
    fix r assume r: "r \<in> set os"
    then have "bo_id r \<noteq> bo_id o1" using Cons.prems(2) by (auto simp: image_iff)
    with r Cons.prems(3) show "r \<in> set (orders ?s1) \<and> bo_tenant_id r = t \<and> bo_status r = BookingOrderStatus_HELD"
      by (force simp: image_iff)
  qed
  from Cons.IH[OF ok1 _ this] Cons.prems(2) have rest: "for_each os (\<lambda>o'. expire_order t (bo_id o') now) ?s1 =
      (Inr (), ?s1\<lparr>orders := map (\<lambda>o'. if bo_id o' \<in> bo_id ` set os then expired_order o' else o') (orders ?s1)\<rparr>)"
    by simp
  have twice: "map (\<lambda>o'. if bo_id o' \<in> bo_id ` set os then expired_order o' else o') (orders ?s1) =
      map (\<lambda>o'. if bo_id o' \<in> bo_id ` set (o1 # os) then expired_order o' else o') (orders s)"
    by (auto simp: expired_order_def)
  show ?case
    using for_each_step[of "\<lambda>o'. expire_order t (bo_id o') now", OF s1, of os] rest
    unfolding twice by simp
qed (simp add: svc_eval)

lemma expire_stale_run:
  assumes ok: "booking_ok s" and "is_active t ''booking'' s"
  shows "expire_stale_holds t terr now s = (Inr (map bo_id (filter (stale_hold t terr now) (orders s))),
    s\<lparr>orders := map (\<lambda>o'. if stale_hold t terr now o' then expired_order o' else o') (orders s)\<rparr>)"
proof -
  have query: "find_stale_held_orders t now terr s = filter (stale_hold t terr now) (orders s)"
    unfolding find_stale_held_orders_def
    by (rule filter_cong) (auto simp: stale_hold_def split: option.splits)
  have dist: "distinct (map bo_id (orders s))" using ok by (simp add: booking_ok_def orders_ok_def)
  have "bo_id o' \<in> bo_id ` set (filter (stale_hold t terr now) (orders s)) \<longleftrightarrow> stale_hold t terr now o'"
    if row: "o' \<in> set (orders s)" for o'
  proof
    assume "bo_id o' \<in> bo_id ` set (filter (stale_hold t terr now) (orders s))"
    then obtain r where r: "r \<in> set (orders s)" "stale_hold t terr now r" "bo_id r = bo_id o'" by auto
    with distinct_keys_eq[OF dist r(1) row] show "stale_hold t terr now o'" by blast
  qed (use row in simp)
  then have "map (\<lambda>o'. if bo_id o' \<in> bo_id ` set (filter (stale_hold t terr now) (orders s)) then expired_order o' else o')
      (orders s) = map (\<lambda>o'. if stale_hold t terr now o' then expired_order o' else o') (orders s)"
    by (intro map_cong) auto
  moreover have "for_each (filter (stale_hold t terr now) (orders s)) (\<lambda>o'. expire_order t (bo_id o') now) s =
      (Inr (), s\<lparr>orders := map (\<lambda>o'. if bo_id o' \<in> bo_id ` set (filter (stale_hold t terr now) (orders s))
        then expired_order o' else o') (orders s)\<rparr>)"
    by (rule expire_all_run[OF ok]) (use dist in \<open>auto simp: distinct_map_filter stale_hold_def\<close>)
  ultimately show ?thesis
    using assms(2) by (simp add: expire_stale_holds_def svc_eval module_gate.check_open query)
qed

subsection \<open>Properties\<close>

text \<open>C1: No double booking.  In every session reached by the hold service, for carts that name an object
  at most once, and the order service, two
  different active items of the same object whose orders block (held, awaiting payment, paid or
  confirmed) occupy disjoint intervals: one is checked out before the other is checked in.  This holds
  at any instants the calls are made, for holds that ran out and are paid late, and when calls raise.\<close>

theorem no_slot_sold_twice:
  assumes "reachable booking_start booking_step s"
    and "i \<in> set (items s)" "j \<in> set (items s)" "bi_id i \<noteq> bi_id j"
    and "bi_bookable_object_id i = bi_bookable_object_id j"
    and "bi_status i = BookingItemStatus_ACTIVE" "bi_status j = BookingItemStatus_ACTIVE"
    and "order_of_item i s = Some oi" "blocking_status (bo_status oi)"
    and "order_of_item j s = Some oj" "blocking_status (bo_status oj)"
  shows "bi_check_out_at i \<le> bi_check_in_at j \<or> bi_check_out_at j \<le> bi_check_in_at i"
proof -
  have "booking_ok s" using booking.reachable_inv[OF assms(1)] .
  moreover have "blocks s i" "blocks s j"
    using assms(2,3,6,7,9,11) row_find_Some[OF assms(8)[unfolded order_of_item_def]]
      row_find_Some[OF assms(10)[unfolded order_of_item_def]]
    by (auto simp: blocks_def)
  ultimately have "\<not> intervals_overlap (bi_check_in_at i) (bi_check_out_at i) (bi_check_in_at j) (bi_check_out_at j)"
    using assms(4,5) unfolding booking_ok_def no_double_booking_def by blast
  then show ?thesis by (auto simp: intervals_overlap_def)
qed

theorem no_slot_sold_twice_witness:
  "bi_check_out_at (booked 101 100 31 700 702) \<le> bi_check_in_at (booked 104 103 31 702 703) \<or>
   bi_check_out_at (booked 104 103 31 702 703) \<le> bi_check_in_at (booked 101 100 31 700 702)"
  by (rule no_slot_sold_twice[OF lake_two_reachable,
        where oi = "held 100 ''BO-2026-00001'' 1800000000 4500000"
          and oj = "held 103 ''BO-2026-00002'' 1800000005 1500000"])
    (simp_all add: lake_two_def lake_one_def booked_def held_def order_of_item_def)

lemma item_of_stay_new:
  assumes b: "b \<in> set (bookable_objects s)" "ob_id b = sr_bookable_object_id req" "ob_tenant_id b = t"
      "ob_territory_id b = bt_id terr"
    and iv: "build_item_interval zi terr b (sr_check_in_date req) (sr_check_out_date req) = Inr iv"
  shows "item_of_stay zi terr t oid s req (new_item t oid b iv k)"
proof -
  have "case resolve_effective_check_times terr b of (c_in, c_out) \<Rightarrow>
      local_stay_to_utc_instant zi (sr_check_in_date req) c_in (bt_timezone terr) = Inr (si_check_in_at iv) \<and>
      local_stay_to_utc_instant zi (sr_check_out_date req) c_out (bt_timezone terr) = Inr (si_check_out_at iv)"
    using iv by (auto simp: build_item_interval_def split: if_splits prod.splits sum.splits)
  then show ?thesis
    using b build_item_interval_ok[OF iv] unfolding item_of_stay_def
    by (intro conjI bexI[of _ b]) (auto simp: new_item_def)
qed

text \<open>C19: A hold is a faithful image of its cart, for a cart that names an object at most once (a cart that
  names one twice books its last stay twice, see the last theorem of this theory).  When
  \<^verbatim>\<open>create_hold\<close> returns, the stale holds of the territory have been expired, exactly one order has been
  added, of the tenant, territory and guest of the cart, held until the territory's hold time has passed,
  and exactly one item for each stay of the cart, in the cart's order, with the stay's object and dates;
  the order's subtotal is the sum of the line totals.  No other order and no other item has changed.\<close>

theorem create_hold_books_cart:
  assumes "reachable booking_start booking_step s" and "distinct_objects cart"
    and "create_hold zi year t cart now s = (Inr i, s')"
  shows "\<exists>terr o' new. get_territory t (hc_territory_id cart) s = Some terr \<and>
    orders s' = map (\<lambda>x. if stale_hold t (Some (hc_territory_id cart)) now x then expired_order x else x) (orders s) @ [o'] \<and>
    items s' = items s @ new \<and> list_all2 (item_of_stay zi terr t i s) (hc_items cart) new \<and>
    bo_id o' = i \<and> bo_tenant_id o' = t \<and> bo_territory_id o' = hc_territory_id cart \<and>
    bo_guest_party_id o' = hc_guest_party_id cart \<and> bo_source o' = hc_source cart \<and>
    bo_status o' = BookingOrderStatus_HELD \<and> bo_currency o' = bt_currency terr \<and>
    bo_hold_expires_at o' = Some (now + bt_hold_duration_minutes terr * 60000000) \<and>
    bo_subtotal o' = sum_list (map bi_line_total new)"
proof -
  let ?terr = "Some (hc_territory_id cart)"
  let ?s1 = "s\<lparr>orders := map (\<lambda>x. if stale_hold t ?terr now x then expired_order x else x) (orders s)\<rparr>"
  have ok: "booking_ok s" using booking.reachable_inv[OF assms(1)] .
  from assms(3) obtain s1 ids where active: "is_active t ''booking'' s"
    and s1: "expire_stale_holds t ?terr now s = (Inr ids, s1)"
    and run: "hold_body zi year t cart now s1 = (Inr i, s')"
    unfolding create_hold_split
    by (auto simp: svc_ok module_gate.check_ok assert_feature_def split: option.splits if_splits)
  have s1_eq: "s1 = ?s1" using s1 expire_stale_run[OF ok active, of ?terr now] by simp
  have ok1: "booking_ok s1" using preservesD[OF preserves_expire_stale ok s1] .
  show ?thesis
  proof (rule hold_body_ok[OF run])
    fix terr objs ivs
    assume terr: "get_territory t (hc_territory_id cart) s1 = Some terr"
      and objs: "objs = list_objects_for_territory t (hc_territory_id cart)
        (sort (remdups (map sr_bookable_object_id (hc_items cart)))) s1"
      and checked: "\<And>iv. iv \<in> set ivs \<Longrightarrow> interval_checked zi terr
        (list_objects_for_territory t (hc_territory_id cart) (map sr_bookable_object_id (hc_items cart)) s1)
        None now s1 (hc_items cart) iv"
      and persist: "persist_hold_order year t cart terr objs ivs now s1 = (Inr i, s')"
    have id: "bt_id terr = hc_territory_id cart"
      using terr unfolding get_territory_def by (auto dest: scoped_get_Some)
    have dist: "distinct (map ob_id (bookable_objects s1))" using ok1 by (simp add: booking_ok_def items_ok_def)
    obtain new where new: "items s' = items s1 @ new"
      "orders s' = orders s1 @ [(held_order year t cart terr now i s1)\<lparr>bo_subtotal := sum_list (map bi_line_total new)\<rparr>]"
      "list_all2 (\<lambda>req x. \<exists>iv b k. interval_by_object ivs (sr_bookable_object_id req) = Some iv \<and>
        row_find (\<lambda>o'. ob_id o' = sr_bookable_object_id req) objs = Some b \<and> x = new_item t i b iv k)
        (hc_items cart) new"
      using persist_hold_order_outcome[OF ok1 persist] by blast
    have "item_of_stay zi terr t i s req x"
      if req: "req \<in> set (hc_items cart)" and iv: "interval_by_object ivs (sr_bookable_object_id req) = Some iv"
        and b: "row_find (\<lambda>o'. ob_id o' = sr_bookable_object_id req) objs = Some b" and x: "x = new_item t i b iv k"
      for req x iv b k
    proof -
      have b': "b \<in> set (bookable_objects s1)" "ob_tenant_id b = t" "ob_territory_id b = bt_id terr"
        "ob_id b = sr_bookable_object_id req"
        using row_find_Some[OF b] id by (auto simp: objs list_objects_for_territory_def)
      from interval_by_object_distinct[OF assms(2)[unfolded distinct_objects_def] checked req iv] obtain b2 where
        b2: "b2 \<in> set (bookable_objects s1)" "ob_id b2 = sr_bookable_object_id req"
        "build_item_interval zi terr b2 (sr_check_in_date req) (sr_check_out_date req) = Inr iv"
        by (auto simp: list_objects_for_territory_def)
      have "b2 = b" using distinct_keys_eq[OF dist b2(1) b'(1)] b2(2) b'(4) by simp
      then show ?thesis
        unfolding x using b' b2(3) by (intro item_of_stay_new) (simp_all add: s1_eq)
    qed
    then have "list_all2 (item_of_stay zi terr t i s) (hc_items cart) new"
      using new(3) by (auto simp: list_all2_conv_all_nth)
    then show ?thesis
      using terr new(1,2) id
      by (intro exI[of _ terr] exI[of _ new]
          exI[of _ "(held_order year t cart terr now i s1)\<lparr>bo_subtotal := sum_list (map bi_line_total new)\<rparr>"])
        (simp add: s1_eq held_order_def get_territory_def minute_usec_def)
  qed
qed

lemma lake_db_reachable: "reachable booking_start booking_step lake_db"
  by (rule reachable_start) code_simp

theorem create_hold_books_cart_witness:
  "\<exists>o' new. orders lake_one = [o'] \<and> items lake_one = new \<and> bo_id o' = 100 \<and> bo_territory_id o' = 30 \<and>
    bo_status o' = BookingOrderStatus_HELD \<and> bo_subtotal o' = sum_list (map bi_line_total new) \<and>
    list_all2 (item_of_stay utc_zone lake 2 100 lake_db) [stay 31 700 702, stay 32 700 701] new"
proof -
  have "distinct_objects (lake_cart [stay 31 700 702, stay 32 700 701])"
    by (simp add: distinct_objects_def lake_cart_def stay_def)
  moreover have "get_territory 2 30 lake_db = Some lake"
    by (simp add: get_territory_def scoped_get_def lake_db_def lake_def)
  moreover have "orders lake_db = []" "items lake_db = []" by (simp_all add: lake_db_def)
  ultimately show ?thesis
    using create_hold_books_cart[OF lake_db_reachable _ lake_one_run] by (auto simp: lake_cart_def)
qed

text \<open>C34: Every booked item is priced and dated consistently: it ends after it starts, it has at least
  one night, its nights are the days between its dates, and its line total is the unit price times the
  nights (for every object, also one priced per stay).\<close>

theorem booked_item_consistent:
  assumes "reachable booking_start booking_step s" and "i \<in> set (items s)"
  shows "bi_check_in_at i < bi_check_out_at i \<and> 1 \<le> bi_nights i \<and>
    bi_nights i = bi_check_out_date i - bi_check_in_date i \<and>
    bi_line_total i = bi_unit_price i * bi_nights i"
  unfolding item_ok_def[symmetric]
  using booking.reachable_inv[OF assms(1)] assms(2) by (simp add: booking_ok_def items_ok_def)

theorem booked_item_consistent_witness:
  "bi_line_total (booked 101 100 31 700 702) = 2 * 1500000 \<and> ob_pricing_unit (cabin 31) = BookablePricingUnit_PER_STAY"
  using booked_item_consistent[OF lake_two_reachable, of "booked 101 100 31 700 702"]
  by (simp add: lake_two_def lake_one_def booked_def cabin_def)

text \<open>C30: Expiring stale holds always succeeds where the booking module is active, and does exactly this: the
  orders of the tenant (and of the territory, if one is named) that are held and whose deadline is not after
  now become expired and lose their deadline, their ids are returned, and nothing else of the session
  changes, no other order and no item; no stale hold is left.\<close>

theorem expire_stale_holds_complete:
  assumes "reachable booking_start booking_step s" and "is_active t ''booking'' s"
  shows "\<exists>s'. expire_stale_holds t terr now s = (Inr (map bo_id (filter (stale_hold t terr now) (orders s))), s') \<and>
    s' = s\<lparr>orders := map (\<lambda>o'. if stale_hold t terr now o'
      then o'\<lparr>bo_status := BookingOrderStatus_EXPIRED, bo_hold_expires_at := None\<rparr> else o') (orders s)\<rparr> \<and>
    (\<forall>o' \<in> set (orders s'). \<not> stale_hold t terr now o')"
proof (intro exI conjI)
  let ?s' = "s\<lparr>orders := map (\<lambda>o'. if stale_hold t terr now o' then expired_order o' else o') (orders s)\<rparr>"
  show "expire_stale_holds t terr now s = (Inr (map bo_id (filter (stale_hold t terr now) (orders s))), ?s')"
    by (rule expire_stale_run[OF booking.reachable_inv[OF assms(1)] assms(2)])
  show "?s' = s\<lparr>orders := map (\<lambda>o'. if stale_hold t terr now o'
      then o'\<lparr>bo_status := BookingOrderStatus_EXPIRED, bo_hold_expires_at := None\<rparr> else o') (orders s)\<rparr>"
    by (simp only: expired_order_def)
  have "\<not> stale_hold t terr now (expired_order o')" for o' by (simp add: stale_hold_def expired_order_def)
  then show "\<forall>o' \<in> set (orders ?s'). \<not> stale_hold t terr now o'" by auto
qed

theorem expire_stale_holds_complete_witness:
  "\<exists>s'. expire_stale_holds 2 None 1800000003 lake_two = (Inr [100], s') \<and>
    map bo_status (orders s') = [BookingOrderStatus_EXPIRED, BookingOrderStatus_HELD]"
proof -
  have "is_active 2 ''booking'' lake_two" by code_simp
  moreover have "orders lake_two = [held 100 ''BO-2026-00001'' 1800000000 4500000,
      held 103 ''BO-2026-00002'' 1800000005 1500000]"
    by (simp add: lake_two_def lake_one_def)
  moreover have "stale_hold 2 None 1800000003 (held 100 n 1800000000 c)"
    "\<not> stale_hold 2 None 1800000003 (held 103 n 1800000005 c)" for n c
    by (simp_all add: stale_hold_def held_def)
  ultimately show ?thesis
    using expire_stale_holds_complete[OF lake_two_reachable, of 2 None 1800000003] by (auto simp: held_def)
qed

text \<open>Confirmed, cancelled and expired orders are final: every transition of such an order raises
  \<^verbatim>\<open>BookingStatusTransitionError\<close> and changes nothing.\<close>

theorem final_orders_stay:
  assumes "repo_get_order t i s = Some o'"
    and "bo_status o' \<in> {BookingOrderStatus_CONFIRMED, BookingOrderStatus_CANCELLED, BookingOrderStatus_EXPIRED}"
  shows "\<exists>msg a b. transition t i target now s = (Inl (BookingStatusTransitionError msg a b), s)"
  using assms by (auto simp: transition_def service_get_order_def validate_transition_def svc_eval)

theorem final_orders_stay_witness:
  "\<exists>msg a b. transition 2 100 BookingOrderStatus_PAID 0
     (lake_one\<lparr>orders := [(held 100 ''n'' 1 1)\<lparr>bo_status := BookingOrderStatus_EXPIRED\<rparr>]\<rparr>) =
     (Inl (BookingStatusTransitionError msg a b),
      lake_one\<lparr>orders := [(held 100 ''n'' 1 1)\<lparr>bo_status := BookingOrderStatus_EXPIRED\<rparr>]\<rparr>)"
  by (rule final_orders_stay[where o' = "(held 100 ''n'' 1 1)\<lparr>bo_status := BookingOrderStatus_EXPIRED\<rparr>"])
    (simp_all add: repo_get_order_def scoped_get_def held_def)

text \<open>C32: A cancelled order gives its slots back: when \<^verbatim>\<open>cancel\<close> returns, the order is cancelled at that
  instant, none of its items is active, and the items of the other orders are as before.\<close>

theorem cancel_order_releases:
  assumes "cancel_order t i now s = (Inr u, s')"
  shows "(\<forall>x \<in> set (items s'). bi_booking_order_id x = i \<longrightarrow> bi_status x = BookingItemStatus_CANCELLED) \<and>
    filter (\<lambda>x. bi_booking_order_id x \<noteq> i) (items s') = filter (\<lambda>x. bi_booking_order_id x \<noteq> i) (items s) \<and>
    (\<forall>o' \<in> set (orders s'). bo_id o' = i \<longrightarrow> bo_status o' = BookingOrderStatus_CANCELLED \<and> bo_cancelled_at o' = Some now)"
proof -
  have s': "s' = apply_transition i BookingOrderStatus_CANCELLED now s"
    using assms by (auto simp: cancel_order_def transition_ok)
  have inactive: "bi_status (cancel_item x) = BookingItemStatus_CANCELLED" for x
    using cancel_item_simps(5)[of x] by (cases "bi_status (cancel_item x)") auto
  have other: "filter (\<lambda>x. bi_booking_order_id x \<noteq> i) (map (\<lambda>x. if bi_booking_order_id x = i then cancel_item x else x) xs) =
      filter (\<lambda>x. bi_booking_order_id x \<noteq> i) xs" for xs
    by (induction xs) auto
  have "bo_status o' = BookingOrderStatus_CANCELLED \<and> bo_cancelled_at o' = Some now"
    if "o' \<in> set (orders s')" "bo_id o' = i" for o'
    using write_order_row[OF that[unfolded s' apply_transition_def]] by auto
  then show ?thesis
    using inactive other by (auto simp: s' apply_transition_def write_order_def cancel_items_def split: if_splits)
qed

theorem cancel_order_releases_witness:
  "fst (cancel_order 2 100 7 lake_one) = Inr () \<and> items lake_one \<noteq> [] \<and>
   {x \<in> set (items (snd (cancel_order 2 100 7 lake_one))). bi_booking_order_id x = 100 \<and>
     bi_status x \<noteq> BookingItemStatus_CANCELLED} = {}"
proof -
  have ok: "fst (cancel_order 2 100 7 lake_one) = Inr ()" by code_simp
  then have "cancel_order 2 100 7 lake_one = (Inr (), snd (cancel_order 2 100 7 lake_one))"
    by (simp add: prod_eq_iff)
  note run = this
  have "items lake_one \<noteq> []" by (simp add: lake_one_def)
  then show ?thesis using ok cancel_order_releases[OF run] by blast
qed

text \<open>A cart that names one object twice loses a stay: the hold is accepted, but
  \<^verbatim>\<open>interval_by_object\<close> keeps the last interval of an object, so both items get it; the first stay is not
  booked and the last one is booked, and charged, twice.\<close>

theorem duplicate_object_books_last_stay:
  "\<exists>s'. create_hold utc_zone 2026 2 (lake_cart [stay 31 700 701, stay 31 710 712]) 0 lake_db = (Inr 100, s') \<and>
     map (\<lambda>i. (bi_bookable_object_id i, bi_check_in_date i, bi_check_out_date i, bi_line_total i)) (items s') =
       [(31, 710, 712, 3000000), (31, 710, 712, 3000000)] \<and>
     \<not> no_double_booking s'"
proof (intro exI conjI)
  show "create_hold utc_zone 2026 2 (lake_cart [stay 31 700 701, stay 31 710 712]) 0 lake_db = (Inr 100, lake_twice)"
    by (rule lake_twice_run)
  let ?i = "booked 101 100 31 710 712" and ?j = "booked 102 100 31 710 712"
  have "blocks lake_twice ?i" "blocks lake_twice ?j"
    by (simp_all add: blocks_def lake_twice_def booked_def held_def)
  then have "no_double_booking lake_twice \<Longrightarrow> bi_id ?i \<noteq> bi_id ?j \<Longrightarrow>
      bi_bookable_object_id ?i = bi_bookable_object_id ?j \<Longrightarrow>
      \<not> intervals_overlap (bi_check_in_at ?i) (bi_check_out_at ?i) (bi_check_in_at ?j) (bi_check_out_at ?j)"
    unfolding no_double_booking_def by blast
  then show "\<not> no_double_booking lake_twice"
    by (auto simp: intervals_overlap_def booked_def day_usec_def minute_usec_def)
qed (simp add: lake_twice_def booked_def)

end
