(* ===== verification/Finance_Db.thy ===== *)
theory Finance_Db
  imports Parties "HOL-Library.Product_Lexorder"
begin

text \<open>
  The tables of the catalog (\<^verbatim>\<open>catalog/models.py\<close>), of accounting (\<^verbatim>\<open>accounting/models.py\<close>) and of
  finance (\<^verbatim>\<open>finance/models.py\<close>), with the queries and inserts of their repositories.  An insert
  raises \<^verbatim>\<open>IntegrityError\<close> where a unique constraint of the table is violated.
\<close>

subsection \<open>Decimals\<close>

text \<open>
  A \<^verbatim>\<open>Decimal\<close> is a coefficient and a number of decimal places; \<open>quantize_cents\<close> is
  \<^verbatim>\<open>d.quantize(Decimal("0.01"))\<close>, which rounds half to even, as a number of hundredths.  Python's context
  keeps 28 digits; no column holds a number that long.
\<close>

datatype decimal = Dec int nat

fun decimal_mult :: "decimal \<Rightarrow> decimal \<Rightarrow> decimal" where
  "decimal_mult (Dec a m) (Dec b n) = Dec (a * b) (m + n)"

definition half_even :: "int \<Rightarrow> int \<Rightarrow> int" where
  "half_even c d = (let q = c div d; r = c mod d in
     if 2 * r > d \<or> 2 * r = d \<and> odd q then q + 1 else q)"

fun quantize_cents :: "decimal \<Rightarrow> cents" where
  "quantize_cents (Dec c e) = (if e \<le> 2 then c * 10 ^ (2 - e) else half_even c (10 ^ (e - 2)))"

text \<open>
  \<open>numeric_scale\<close> is what a column \<^verbatim>\<open>Numeric(18, k)\<close> keeps of a number: PostgreSQL, the database of
  \<^verbatim>\<open>core/config.py\<close>, rounds it to \<open>k\<close> places, ties away from zero.  A number with too many digits before
  the point is refused by the database; no such number is considered.
\<close>

definition half_away :: "int \<Rightarrow> int \<Rightarrow> int" where
  "half_away c d = sgn c * ((2 * \<bar>c\<bar> + d) div (2 * d))"

fun numeric_scale :: "nat \<Rightarrow> decimal \<Rightarrow> decimal" where
  "numeric_scale k (Dec c e) = Dec (if e \<le> k then c * 10 ^ (k - e) else half_away c (10 ^ (e - k))) k"

lemma half_away_error:
  assumes "0 < d"
  shows "2 * \<bar>half_away c d * d - c\<bar> \<le> d"
proof -
  define q r where "q = (2 * \<bar>c\<bar> + d) div (2 * d)" and "r = (2 * \<bar>c\<bar> + d) mod (2 * d)"
  have "2 * \<bar>c\<bar> + d = q * (2 * d) + r" unfolding q_def r_def by (simp only: div_mult_mod_eq)
  then have "2 * (q * d - \<bar>c\<bar>) = d - r" by (simp add: algebra_simps)
  moreover have "0 \<le> r" "r < 2 * d" using assms by (simp_all add: r_def)
  ultimately have q: "2 * \<bar>q * d - \<bar>c\<bar>\<bar> \<le> d" by linarith
  show ?thesis
  proof (cases "c = 0")
    case True
    then show ?thesis using assms by (simp add: half_away_def)
  next
    case False
    have "half_away c d * d - c = sgn c * (q * d - \<bar>c\<bar>)"
      by (simp add: half_away_def q_def right_diff_distrib mult.assoc sgn_mult_abs)
    then show ?thesis using q False by (simp add: abs_mult)
  qed
qed

text \<open>The rounded value is the nearest one: it is off by half a cent at most.\<close>

lemma half_even_error:
  assumes "0 < d"
  shows "2 * \<bar>half_even c d * d - c\<bar> \<le> d"
proof -
  define q r where "q = c div d" and "r = c mod d"
  have eq: "half_even c d = (if 2 * r > d \<or> 2 * r = d \<and> odd q then q + 1 else q)"
    unfolding half_even_def Let_def q_def r_def ..
  have c: "c = q * d + r" unfolding q_def r_def by simp
  have "half_even c d * d - c = (if 2 * r > d \<or> 2 * r = d \<and> odd q then d - r else - r)"
    using c unfolding eq by (simp add: distrib_right split: if_splits)
  moreover have "0 \<le> r" "r < d" using assms by (simp_all add: r_def)
  ultimately show ?thesis by (simp split: if_splits)
qed

subsection \<open>Rows\<close>

record unit_of_measure =
  un_id :: uuid
  un_tenant_id :: uuid
  un_code :: string
  un_name :: string
  un_symbol :: "string option"

record catalog_item =
  ci_id :: uuid
  ci_tenant_id :: uuid
  ci_item_type :: CatalogItemType
  ci_name :: string
  ci_description :: "string option"
  ci_sku :: "string option"
  ci_unit_id :: "uuid option"
  ci_base_price :: "cents option"
  ci_currency :: "string option"
  ci_is_active :: bool
  ci_updated_by_user_id :: uuid

record price_list =
  pk_id :: uuid
  pk_tenant_id :: uuid
  pk_code :: string
  pk_name :: string
  pk_currency :: string
  pk_is_active :: bool
  pk_valid_from :: "instant option"
  pk_valid_to :: "instant option"
  pk_updated_by_user_id :: uuid

record price_list_item =
  px_id :: uuid
  px_tenant_id :: uuid
  px_price_list_id :: uuid
  px_catalog_item_id :: uuid
  px_price :: cents
  px_min_quantity :: "decimal option"

record legal_entity =
  le_id :: uuid
  le_tenant_id :: uuid
  le_name :: string
  le_legal_form :: "string option"
  le_country :: string
  le_registration_number :: "string option"
  le_tax_number :: "string option"
  le_residency_status :: "string option"
  le_base_currency :: string
  le_bank_details_json :: json
  le_is_active :: bool

record tax_profile =
  tx_id :: uuid
  tx_tenant_id :: uuid
  tx_legal_entity_id :: uuid
  tx_code :: string
  tx_name :: string
  tx_country :: string
  tx_regime :: TaxRegime
  tx_default_vat_rate :: "decimal option"
  tx_config_json :: json
  tx_is_active :: bool
  tx_notes :: "string option"

record invoice =
  iv_id :: uuid
  iv_tenant_id :: uuid
  iv_legal_entity_id :: "uuid option"
  iv_tax_profile_id :: "uuid option"
  iv_party_id :: uuid
  iv_work_item_id :: "uuid option"
  iv_document_id :: "uuid option"
  iv_invoice_number :: string
  iv_status :: InvoiceStatus
  iv_currency :: string
  iv_subtotal :: cents
  iv_tax_amount :: cents
  iv_total :: cents
  iv_amount_paid :: cents
  iv_issue_date :: "day option"
  iv_due_date :: "day option"
  iv_issued_at :: "instant option"
  iv_notes :: "string option"
  iv_created_by_user_id :: uuid
  iv_updated_by_user_id :: uuid
  iv_created_at :: datetime

record invoice_line =
  il_id :: uuid
  il_tenant_id :: uuid
  il_invoice_id :: uuid
  il_catalog_item_id :: "uuid option"
  il_description :: string
  il_quantity :: decimal
  il_unit_price :: decimal
  il_line_total :: cents
  il_sort_order :: int

record payment =
  pm_id :: uuid
  pm_tenant_id :: uuid
  pm_party_id :: "uuid option"
  pm_payment_number :: string
  pm_amount :: cents
  pm_currency :: string
  pm_amount_allocated :: cents
  pm_payment_date :: day
  pm_method :: PaymentMethod
  pm_status :: PaymentStatus
  pm_direction :: PaymentDirection
  pm_reference_number :: "string option"
  pm_notes :: "string option"
  pm_created_by_user_id :: uuid
  pm_updated_by_user_id :: uuid

record payment_allocation =
  al_id :: uuid
  al_tenant_id :: uuid
  al_payment_id :: uuid
  al_invoice_id :: uuid
  al_amount :: cents
  al_notes :: "string option"

record finance_db = parties_db +
  units :: "unit_of_measure list"
  catalog_items :: "catalog_item list"
  price_lists :: "price_list list"
  price_items :: "price_list_item list"
  legal_entities :: "legal_entity list"
  tax_profiles :: "tax_profile list"
  invoices :: "invoice list"
  invoice_lines :: "invoice_line list"
  payments :: "payment list"
  allocations :: "payment_allocation list"

text \<open>\<^verbatim>\<open>order_by(column)\<close> on text and on dates that may be missing (\<^verbatim>\<open>nulls_last\<close>).\<close>

definition none_last :: "day option \<Rightarrow> bool \<times> int" where
  "none_last d = (case d of None \<Rightarrow> (True, 0) | Some x \<Rightarrow> (False, x))"

subsection \<open>CatalogRepository\<close>

definition list_units :: "uuid \<Rightarrow> 'z finance_db_scheme \<Rightarrow> unit_of_measure list" where
  "list_units t s = sort_key un_name (filter (\<lambda>u. un_tenant_id u = t) (units s))"

definition get_unit :: "uuid \<Rightarrow> uuid \<Rightarrow> 'z finance_db_scheme \<Rightarrow> unit_of_measure option" where
  "get_unit t i s = scoped_get un_tenant_id un_id t i (units s)"

definition insert_unit :: "unit_of_measure \<Rightarrow> ('z finance_db_scheme, unit) svc" where
  "insert_unit u =
     bindS (gets (\<lambda>s. row_find (\<lambda>x. un_tenant_id x = un_tenant_id u \<and> un_code x = un_code u) (units s))) (\<lambda>dup.
     thenS (ensure (dup = None) (IntegrityError ''uq_unit_tenant_code''))
     (modify (\<lambda>s. s\<lparr>units := row_insert u (units s)\<rparr>)))"

definition get_item :: "uuid \<Rightarrow> uuid \<Rightarrow> 'z finance_db_scheme \<Rightarrow> catalog_item option" where
  "get_item t i s = scoped_get ci_tenant_id ci_id t i (catalog_items s)"

definition get_item_by_sku :: "uuid \<Rightarrow> string \<Rightarrow> 'z finance_db_scheme \<Rightarrow> catalog_item option" where
  "get_item_by_sku t k s = row_find (\<lambda>r. ci_tenant_id r = t \<and> ci_sku r = Some k) (catalog_items s)"

text \<open>SQL's unique constraint on (tenant, sku): rows without a sku never collide.\<close>

definition sku_taken :: "catalog_item \<Rightarrow> 'z finance_db_scheme \<Rightarrow> bool" where
  "sku_taken c s \<longleftrightarrow> ci_sku c \<noteq> None \<and>
     list_ex (\<lambda>r. ci_id r \<noteq> ci_id c \<and> ci_tenant_id r = ci_tenant_id c \<and> ci_sku r = ci_sku c) (catalog_items s)"

definition insert_item :: "catalog_item \<Rightarrow> ('z finance_db_scheme, unit) svc" where
  "insert_item c =
     bindS (gets (sku_taken c)) (\<lambda>dup.
     thenS (ensure (\<not> dup) (IntegrityError ''uq_catalog_item_tenant_sku''))
     (modify (\<lambda>s. s\<lparr>catalog_items := row_insert c (catalog_items s)\<rparr>)))"

text \<open>
  \<^verbatim>\<open>db.delete(item)\<close>: the foreign keys delete the item's rows of price lists and clear it from
  invoice lines.
\<close>

definition delete_item_row :: "uuid \<Rightarrow> ('z finance_db_scheme, unit) svc" where
  "delete_item_row i = modify (\<lambda>s. s\<lparr>
     catalog_items := filter (\<lambda>r. ci_id r \<noteq> i) (catalog_items s),
     price_items := filter (\<lambda>r. px_catalog_item_id r \<noteq> i) (price_items s),
     invoice_lines := map (\<lambda>l. if il_catalog_item_id l = Some i then l\<lparr>il_catalog_item_id := None\<rparr> else l)
       (invoice_lines s)\<rparr>)"

definition get_price_list :: "uuid \<Rightarrow> uuid \<Rightarrow> 'z finance_db_scheme \<Rightarrow> price_list option" where
  "get_price_list t i s = scoped_get pk_tenant_id pk_id t i (price_lists s)"

definition get_price_list_by_code :: "uuid \<Rightarrow> string \<Rightarrow> 'z finance_db_scheme \<Rightarrow> price_list option" where
  "get_price_list_by_code t c s = row_find (\<lambda>r. pk_tenant_id r = t \<and> pk_code r = c) (price_lists s)"

definition insert_price_list :: "price_list \<Rightarrow> ('z finance_db_scheme, unit) svc" where
  "insert_price_list p =
     bindS (gets (get_price_list_by_code (pk_tenant_id p) (pk_code p))) (\<lambda>dup.
     thenS (ensure (dup = None) (IntegrityError ''uq_price_list_tenant_code''))
     (modify (\<lambda>s. s\<lparr>price_lists := row_insert p (price_lists s)\<rparr>)))"

definition get_price_list_item :: "uuid \<Rightarrow> uuid \<Rightarrow> 'z finance_db_scheme \<Rightarrow> price_list_item option" where
  "get_price_list_item p c s =
     row_find (\<lambda>r. px_price_list_id r = p \<and> px_catalog_item_id r = c) (price_items s)"

definition insert_price_list_item :: "price_list_item \<Rightarrow> ('z finance_db_scheme, unit) svc" where
  "insert_price_list_item x =
     bindS (gets (get_price_list_item (px_price_list_id x) (px_catalog_item_id x))) (\<lambda>dup.
     thenS (ensure (dup = None) (IntegrityError ''uq_price_list_catalog_item''))
     (modify (\<lambda>s. s\<lparr>price_items := row_insert
       (x\<lparr>px_min_quantity := map_option (numeric_scale 4) (px_min_quantity x)\<rparr>) (price_items s)\<rparr>)))"

subsection \<open>AccountingRepository\<close>

definition list_legal_entities :: "uuid \<Rightarrow> bool \<Rightarrow> 'z finance_db_scheme \<Rightarrow> legal_entity list" where
  "list_legal_entities t active_only s =
     filter (\<lambda>e. active_only \<longrightarrow> le_is_active e)
       (sort_key le_name (filter (\<lambda>e. le_tenant_id e = t) (legal_entities s)))"

definition get_legal_entity :: "uuid \<Rightarrow> uuid \<Rightarrow> 'z finance_db_scheme \<Rightarrow> legal_entity option" where
  "get_legal_entity t i s = scoped_get le_tenant_id le_id t i (legal_entities s)"

definition entity_name_taken :: "legal_entity \<Rightarrow> 'z finance_db_scheme \<Rightarrow> bool" where
  "entity_name_taken e s \<longleftrightarrow>
     list_ex (\<lambda>r. le_id r \<noteq> le_id e \<and> le_tenant_id r = le_tenant_id e \<and> le_name r = le_name e) (legal_entities s)"

definition insert_legal_entity :: "legal_entity \<Rightarrow> ('z finance_db_scheme, unit) svc" where
  "insert_legal_entity e =
     bindS (gets (entity_name_taken e)) (\<lambda>dup.
     thenS (ensure (\<not> dup) (IntegrityError ''uq_legal_entity_tenant_name''))
     (modify (\<lambda>s. s\<lparr>legal_entities := row_insert e (legal_entities s)\<rparr>)))"

definition list_tax_profiles ::
    "uuid \<Rightarrow> uuid option \<Rightarrow> bool \<Rightarrow> 'z finance_db_scheme \<Rightarrow> tax_profile list" where
  "list_tax_profiles t entity active_only s =
     filter (\<lambda>p. (entity \<noteq> None \<longrightarrow> entity = Some (tx_legal_entity_id p)) \<and> (active_only \<longrightarrow> tx_is_active p))
       (sort_key tx_name (filter (\<lambda>p. tx_tenant_id p = t) (tax_profiles s)))"

definition get_tax_profile :: "uuid \<Rightarrow> uuid \<Rightarrow> 'z finance_db_scheme \<Rightarrow> tax_profile option" where
  "get_tax_profile t i s = scoped_get tx_tenant_id tx_id t i (tax_profiles s)"

definition get_tax_profile_by_code :: "uuid \<Rightarrow> string \<Rightarrow> 'z finance_db_scheme \<Rightarrow> tax_profile option" where
  "get_tax_profile_by_code t c s = row_find (\<lambda>r. tx_tenant_id r = t \<and> tx_code r = c) (tax_profiles s)"

definition insert_tax_profile :: "tax_profile \<Rightarrow> ('z finance_db_scheme, unit) svc" where
  "insert_tax_profile p =
     bindS (gets (get_tax_profile_by_code (tx_tenant_id p) (tx_code p))) (\<lambda>dup.
     thenS (ensure (dup = None) (IntegrityError ''uq_tax_profile_tenant_code''))
     (modify (\<lambda>s. s\<lparr>tax_profiles := row_insert
       (p\<lparr>tx_default_vat_rate := map_option (numeric_scale 2) (tx_default_vat_rate p)\<rparr>) (tax_profiles s)\<rparr>)))"

subsection \<open>FinanceRepository\<close>

definition next_invoice_number :: "nat \<Rightarrow> uuid \<Rightarrow> 'z finance_db_scheme \<Rightarrow> string" where
  "next_invoice_number year t s =
     ''INV-'' @ nat_str year @ ''-'' @ pad5 (length (filter (\<lambda>i. iv_tenant_id i = t) (invoices s)) + 1)"

definition next_payment_number :: "nat \<Rightarrow> uuid \<Rightarrow> 'z finance_db_scheme \<Rightarrow> string" where
  "next_payment_number year t s =
     ''PAY-'' @ nat_str year @ ''-'' @ pad5 (length (filter (\<lambda>p. pm_tenant_id p = t) (payments s)) + 1)"

definition get_invoice :: "uuid \<Rightarrow> uuid \<Rightarrow> 'z finance_db_scheme \<Rightarrow> invoice option" where
  "get_invoice t i s = scoped_get iv_tenant_id iv_id t i (invoices s)"

definition insert_invoice :: "invoice \<Rightarrow> ('z finance_db_scheme, unit) svc" where
  "insert_invoice iv =
     bindS (gets (\<lambda>s. list_ex (\<lambda>r. iv_tenant_id r = iv_tenant_id iv \<and> iv_invoice_number r = iv_invoice_number iv)
              (invoices s))) (\<lambda>dup.
     thenS (ensure (\<not> dup) (IntegrityError ''uq_invoice_tenant_number''))
     (modify (\<lambda>s. s\<lparr>invoices := row_insert iv (invoices s)\<rparr>)))"

definition insert_invoice_line :: "invoice_line \<Rightarrow> ('z finance_db_scheme, unit) svc" where
  "insert_invoice_line l = modify (\<lambda>s. s\<lparr>invoice_lines := row_insert
     (l\<lparr>il_quantity := numeric_scale 4 (il_quantity l), il_unit_price := numeric_scale 2 (il_unit_price l)\<rparr>)
     (invoice_lines s)\<rparr>)"

definition write_invoice :: "uuid \<Rightarrow> (invoice \<Rightarrow> invoice) \<Rightarrow> ('z finance_db_scheme, unit) svc" where
  "write_invoice i f = modify (\<lambda>s. s\<lparr>invoices := row_update iv_id i f (invoices s)\<rparr>)"

definition get_payment :: "uuid \<Rightarrow> uuid \<Rightarrow> 'z finance_db_scheme \<Rightarrow> payment option" where
  "get_payment t i s = scoped_get pm_tenant_id pm_id t i (payments s)"

definition insert_payment :: "payment \<Rightarrow> ('z finance_db_scheme, unit) svc" where
  "insert_payment p = modify (\<lambda>s. s\<lparr>payments := row_insert p (payments s)\<rparr>)"

definition write_payment :: "uuid \<Rightarrow> (payment \<Rightarrow> payment) \<Rightarrow> ('z finance_db_scheme, unit) svc" where
  "write_payment i f = modify (\<lambda>s. s\<lparr>payments := row_update pm_id i f (payments s)\<rparr>)"

definition get_allocation :: "uuid \<Rightarrow> uuid \<Rightarrow> uuid \<Rightarrow> 'z finance_db_scheme \<Rightarrow> payment_allocation option" where
  "get_allocation t p i s =
     row_find (\<lambda>a. al_tenant_id a = t \<and> al_payment_id a = p \<and> al_invoice_id a = i) (allocations s)"

definition insert_allocation :: "payment_allocation \<Rightarrow> ('z finance_db_scheme, unit) svc" where
  "insert_allocation a =
     bindS (gets (\<lambda>s. list_ex (\<lambda>r. al_payment_id r = al_payment_id a \<and> al_invoice_id r = al_invoice_id a)
              (allocations s))) (\<lambda>dup.
     thenS (ensure (\<not> dup) (IntegrityError ''uq_payment_allocation_payment_invoice''))
     (modify (\<lambda>s. s\<lparr>allocations := row_insert a (allocations s)\<rparr>)))"

fun receivable_status :: "InvoiceStatus \<Rightarrow> bool" where
  "receivable_status InvoiceStatus_ISSUED = True"
| "receivable_status InvoiceStatus_SENT = True"
| "receivable_status InvoiceStatus_PARTIAL = True"
| "receivable_status InvoiceStatus_OVERDUE = True"
| "receivable_status _ = False"

definition list_receivable_invoices :: "uuid \<Rightarrow> 'z finance_db_scheme \<Rightarrow> invoice list" where
  "list_receivable_invoices t s =
     sort_key (\<lambda>i. none_last (iv_due_date i))
       (filter (\<lambda>i. iv_tenant_id i = t \<and> receivable_status (iv_status i)) (invoices s))"

fun uncounted_status :: "InvoiceStatus \<Rightarrow> bool" where
  "uncounted_status InvoiceStatus_DRAFT = True"
| "uncounted_status InvoiceStatus_CANCELLED = True"
| "uncounted_status InvoiceStatus_VOID = True"
| "uncounted_status _ = False"

definition sum_invoiced :: "uuid \<Rightarrow> 'z finance_db_scheme \<Rightarrow> cents" where
  "sum_invoiced t s =
     sum_list (map iv_total (filter (\<lambda>i. iv_tenant_id i = t \<and> \<not> uncounted_status (iv_status i)) (invoices s)))"

definition sum_paid :: "uuid \<Rightarrow> 'z finance_db_scheme \<Rightarrow> cents" where
  "sum_paid t s =
     sum_list (map pm_amount (filter (\<lambda>p. pm_tenant_id p = t \<and> pm_status p = PaymentStatus_COMPLETED) (payments s)))"

definition lines_of :: "uuid \<Rightarrow> 'z finance_db_scheme \<Rightarrow> invoice_line list" where
  "lines_of i s = sort_key il_sort_order (filter (\<lambda>l. il_invoice_id l = i) (invoice_lines s))"

definition allocations_of :: "uuid \<Rightarrow> 'z finance_db_scheme \<Rightarrow> payment_allocation list" where
  "allocations_of p s = filter (\<lambda>a. al_payment_id a = p) (allocations s)"

end
