(* ===== verification/Catalog.thy ===== *)
theory Catalog
  imports Finance_Db
begin

text \<open>
  The catalog of a tenant (\<^verbatim>\<open>CatalogService\<close> of \<^verbatim>\<open>catalog/service.py\<close>: units, items with custom
  fields, price lists) and its legal entities and tax profiles (\<^verbatim>\<open>AccountingService\<close> of
  \<^verbatim>\<open>accounting/service.py\<close>).
\<close>

definition ENTITY_CATALOG_ITEM :: string where
  "ENTITY_CATALOG_ITEM = ''catalog_item''"

subsection \<open>Units\<close>

record unit_create =
  nu_code :: string
  nu_name :: string
  nu_symbol :: "string option"

definition create_unit :: "uuid \<Rightarrow> unit_create \<Rightarrow> ('z finance_db_scheme, unit_of_measure) svc" where
  "create_unit t payload =
     bindS (gets (list_units t)) (\<lambda>rows.
     thenS (ensure (\<not> list_ex (\<lambda>u. un_code u = nu_code payload) rows) (ConflictError ''Unit code already exists''))
     (bindS fresh_id (\<lambda>i.
      bindS (ret \<lparr>un_id = i, un_tenant_id = t, un_code = nu_code payload, un_name = nu_name payload,
                un_symbol = nu_symbol payload\<rparr>) (\<lambda>u.
      thenS (insert_unit u) (ret u)))))"

subsection \<open>Items\<close>

record item_create =
  nc_item_type :: CatalogItemType
  nc_name :: string
  nc_description :: "string option"
  nc_sku :: "string option"
  nc_unit_id :: "uuid option"
  nc_base_price :: "cents option"
  nc_currency :: "string option"
  nc_is_active :: bool
  nc_custom_fields :: "(string \<times> json) list"

record item_update =
  cu_item_type :: "CatalogItemType option"
  cu_name :: "string option"
  cu_description :: "string option"
  cu_sku :: "string option"
  cu_unit_id :: "uuid option"
  cu_base_price :: "cents option"
  cu_currency :: "string option"
  cu_is_active :: "bool option"
  cu_custom_fields :: "(string \<times> json) list option"

record item_response =
  ir_item :: catalog_item
  ir_custom_fields :: "(string \<times> json) list"
  ir_unit :: "unit_of_measure option"

definition get_item_or_404 :: "uuid \<Rightarrow> uuid \<Rightarrow> ('z finance_db_scheme, catalog_item) svc" where
  "get_item_or_404 t i =
     bindS (gets (get_item t i)) (\<lambda>found. or_raise found (NotFoundError ''Catalog item not found''))"

definition to_item_response :: "uuid \<Rightarrow> catalog_item \<Rightarrow> 'z finance_db_scheme \<Rightarrow> item_response" where
  "to_item_response t c s =
     \<lparr>ir_item = c, ir_custom_fields = get_values_map t ENTITY_CATALOG_ITEM (ci_id c) s,
      ir_unit = (case ci_unit_id c of None \<Rightarrow> None | Some u \<Rightarrow> row_find (\<lambda>x. un_id x = u) (units s))\<rparr>"

definition service_get_item :: "uuid \<Rightarrow> uuid \<Rightarrow> ('z finance_db_scheme, item_response) svc" where
  "service_get_item t i = bindS (get_item_or_404 t i) (\<lambda>c. gets (to_item_response t c))"

text \<open>\<^verbatim>\<open>if payload.sku\<close>: an empty text is as good as none for the service, not for the constraint.\<close>

definition check_sku :: "uuid \<Rightarrow> string option \<Rightarrow> ('z finance_db_scheme, unit) svc" where
  "check_sku t sku =
     (case sku of
        None \<Rightarrow> ret ()
      | Some k \<Rightarrow>
          if k = '''' then ret ()
          else bindS (gets (get_item_by_sku t k)) (\<lambda>found. ensure (found = None) (ConflictError ''SKU already exists'')))"

definition check_unit :: "uuid \<Rightarrow> uuid option \<Rightarrow> ('z finance_db_scheme, unit) svc" where
  "check_unit t u =
     (case u of
        None \<Rightarrow> ret ()
      | Some i \<Rightarrow>
          bindS (gets (get_unit t i)) (\<lambda>found. ensure (found \<noteq> None) (NotFoundError ''Unit of measure not found'')))"

definition create_item ::
    "py_numbers \<Rightarrow> uuid \<Rightarrow> user \<Rightarrow> item_create \<Rightarrow> ('z finance_db_scheme, item_response) svc" where
  "create_item num t u payload =
     thenS (check_sku t (nc_sku payload))
     (thenS (check_unit t (nc_unit_id payload))
     (bindS (validate_and_prepare num t ENTITY_CATALOG_ITEM (nc_custom_fields payload) []) (\<lambda>custom_values.
      bindS fresh_id (\<lambda>i.
      thenS (insert_item \<lparr>ci_id = i, ci_tenant_id = t, ci_item_type = nc_item_type payload,
               ci_name = nc_name payload, ci_description = nc_description payload, ci_sku = nc_sku payload,
               ci_unit_id = nc_unit_id payload, ci_base_price = nc_base_price payload,
               ci_currency = nc_currency payload, ci_is_active = nc_is_active payload,
               ci_updated_by_user_id = us_id u\<rparr>)
      (thenS (whenS (custom_values \<noteq> []) (upsert_values t ENTITY_CATALOG_ITEM i custom_values))
       (service_get_item t i))))))"

text \<open>\<^verbatim>\<open>if value is not None: setattr(item, field, value)\<close>.\<close>

definition set_if :: "'a option \<Rightarrow> 'a \<Rightarrow> 'a" where
  "set_if v old = (case v of None \<Rightarrow> old | Some x \<Rightarrow> x)"

definition set_some_if :: "'a option \<Rightarrow> 'a option \<Rightarrow> 'a option" where
  "set_some_if v old = (case v of None \<Rightarrow> old | Some x \<Rightarrow> Some x)"

definition apply_item_update :: "user \<Rightarrow> item_update \<Rightarrow> catalog_item \<Rightarrow> catalog_item" where
  "apply_item_update u payload c = c\<lparr>
     ci_unit_id := set_some_if (cu_unit_id payload) (ci_unit_id c),
     ci_item_type := set_if (cu_item_type payload) (ci_item_type c),
     ci_name := set_if (cu_name payload) (ci_name c),
     ci_description := set_some_if (cu_description payload) (ci_description c),
     ci_sku := set_some_if (cu_sku payload) (ci_sku c),
     ci_base_price := set_some_if (cu_base_price payload) (ci_base_price c),
     ci_currency := set_some_if (cu_currency payload) (ci_currency c),
     ci_is_active := set_if (cu_is_active payload) (ci_is_active c),
     ci_updated_by_user_id := us_id u\<rparr>"

text \<open>
  The attributes are written to the row at the flush, where the constraint on the sku speaks.
\<close>

definition flush_item :: "catalog_item \<Rightarrow> ('z finance_db_scheme, unit) svc" where
  "flush_item c =
     bindS (gets (sku_taken c)) (\<lambda>dup.
     thenS (ensure (\<not> dup) (IntegrityError ''uq_catalog_item_tenant_sku''))
     (modify (\<lambda>s. s\<lparr>catalog_items := row_update ci_id (ci_id c) (\<lambda>_. c) (catalog_items s)\<rparr>)))"

definition update_item ::
    "py_numbers \<Rightarrow> uuid \<Rightarrow> user \<Rightarrow> uuid \<Rightarrow> item_update \<Rightarrow> ('z finance_db_scheme, item_response) svc" where
  "update_item num t u i payload =
     bindS (get_item_or_404 t i) (\<lambda>c.
     thenS (whenS (cu_sku payload \<noteq> ci_sku c) (check_sku t (cu_sku payload)))
     (thenS (check_unit t (cu_unit_id payload))
     (thenS (case cu_custom_fields payload of
               None \<Rightarrow> ret ()
             | Some fs \<Rightarrow>
                 bindS (validate_and_prepare num t ENTITY_CATALOG_ITEM fs []) (\<lambda>custom_values.
                 upsert_values t ENTITY_CATALOG_ITEM i custom_values))
     (thenS (flush_item (apply_item_update u payload c))
      (service_get_item t i)))))"

definition delete_item :: "uuid \<Rightarrow> uuid \<Rightarrow> ('z finance_db_scheme, unit) svc" where
  "delete_item t i = bindS (get_item_or_404 t i) (\<lambda>c. delete_item_row (ci_id c))"

subsection \<open>Price lists\<close>

record price_list_create =
  np_code :: string
  np_name :: string
  np_currency :: string
  np_is_active :: bool
  np_valid_from :: "instant option"
  np_valid_to :: "instant option"

record price_list_update =
  pu_name :: "string option"
  pu_currency :: "string option"
  pu_is_active :: "bool option"
  pu_valid_from :: "instant option"
  pu_valid_to :: "instant option"

record price_list_item_create =
  nx_catalog_item_id :: uuid
  nx_price :: cents
  nx_min_quantity :: "decimal option"

record price_list_response =
  lr_list :: price_list
  lr_items :: "(price_list_item \<times> string) list"

definition get_price_list_or_404 :: "uuid \<Rightarrow> uuid \<Rightarrow> ('z finance_db_scheme, price_list) svc" where
  "get_price_list_or_404 t i =
     bindS (gets (get_price_list t i)) (\<lambda>found. or_raise found (NotFoundError ''Price list not found''))"

definition item_name :: "uuid \<Rightarrow> 'z finance_db_scheme \<Rightarrow> string" where
  "item_name i s = (case row_find (\<lambda>c. ci_id c = i) (catalog_items s) of None \<Rightarrow> '''' | Some c \<Rightarrow> ci_name c)"

definition to_price_list_response :: "price_list \<Rightarrow> 'z finance_db_scheme \<Rightarrow> price_list_response" where
  "to_price_list_response p s =
     \<lparr>lr_list = p,
      lr_items = map (\<lambda>x. (x, item_name (px_catalog_item_id x) s))
        (filter (\<lambda>x. px_price_list_id x = pk_id p) (price_items s))\<rparr>"

definition service_get_price_list :: "uuid \<Rightarrow> uuid \<Rightarrow> ('z finance_db_scheme, price_list_response) svc" where
  "service_get_price_list t i = bindS (get_price_list_or_404 t i) (\<lambda>p. gets (to_price_list_response p))"

definition create_price_list ::
    "uuid \<Rightarrow> user \<Rightarrow> price_list_create \<Rightarrow> ('z finance_db_scheme, price_list_response) svc" where
  "create_price_list t u payload =
     bindS (gets (get_price_list_by_code t (np_code payload))) (\<lambda>found.
     thenS (ensure (found = None) (ConflictError ''Price list code already exists''))
     (bindS fresh_id (\<lambda>i.
      thenS (insert_price_list \<lparr>pk_id = i, pk_tenant_id = t, pk_code = np_code payload,
               pk_name = np_name payload, pk_currency = np_currency payload, pk_is_active = np_is_active payload,
               pk_valid_from = np_valid_from payload, pk_valid_to = np_valid_to payload,
               pk_updated_by_user_id = us_id u\<rparr>)
      (service_get_price_list t i))))"

definition update_price_list ::
    "uuid \<Rightarrow> user \<Rightarrow> uuid \<Rightarrow> price_list_update \<Rightarrow> ('z finance_db_scheme, price_list_response) svc" where
  "update_price_list t u i payload =
     bindS (get_price_list_or_404 t i) (\<lambda>p.
     thenS (modify (\<lambda>s. s\<lparr>price_lists := row_update pk_id (pk_id p) (\<lambda>r. r\<lparr>
              pk_name := set_if (pu_name payload) (pk_name r),
              pk_currency := set_if (pu_currency payload) (pk_currency r),
              pk_is_active := set_if (pu_is_active payload) (pk_is_active r),
              pk_valid_from := set_some_if (pu_valid_from payload) (pk_valid_from r),
              pk_valid_to := set_some_if (pu_valid_to payload) (pk_valid_to r),
              pk_updated_by_user_id := us_id u\<rparr>) (price_lists s)\<rparr>))
     (service_get_price_list t i))"

definition add_price_list_item ::
    "uuid \<Rightarrow> uuid \<Rightarrow> price_list_item_create \<Rightarrow> ('z finance_db_scheme, price_list_item \<times> string) svc" where
  "add_price_list_item t p payload =
     bindS (get_price_list_or_404 t p) (\<lambda>l.
     bindS (get_item_or_404 t (nx_catalog_item_id payload)) (\<lambda>c.
     bindS (gets (get_price_list_item (pk_id l) (ci_id c))) (\<lambda>found.
     thenS (ensure (found = None) (ConflictError ''Catalog item already exists in this price list''))
     (bindS fresh_id (\<lambda>i.
      bindS (ret \<lparr>px_id = i, px_tenant_id = t, px_price_list_id = pk_id l, px_catalog_item_id = ci_id c,
               px_price = nx_price payload, px_min_quantity = nx_min_quantity payload\<rparr>) (\<lambda>x.
      thenS (insert_price_list_item x) (ret (x, ci_name c))))))))"

subsection \<open>AccountingService\<close>

record legal_entity_create =
  ne_name :: string
  ne_legal_form :: "string option"
  ne_country :: string
  ne_registration_number :: "string option"
  ne_tax_number :: "string option"
  ne_residency_status :: "string option"
  ne_base_currency :: string
  ne_bank_details_json :: json
  ne_is_active :: bool

record legal_entity_update =
  eu_name :: "string patch"
  eu_legal_form :: "string patch"
  eu_country :: "string patch"
  eu_registration_number :: "string patch"
  eu_tax_number :: "string patch"
  eu_residency_status :: "string patch"
  eu_base_currency :: "string patch"
  eu_bank_details_json :: "json patch"
  eu_is_active :: "bool patch"

definition get_legal_entity_or_404 :: "uuid \<Rightarrow> uuid \<Rightarrow> ('z finance_db_scheme, legal_entity) svc" where
  "get_legal_entity_or_404 t i =
     bindS (gets (get_legal_entity t i)) (\<lambda>found. or_raise found (NotFoundError ''Legal entity not found''))"

definition create_legal_entity ::
    "uuid \<Rightarrow> legal_entity_create \<Rightarrow> ('z finance_db_scheme, legal_entity) svc" where
  "create_legal_entity t payload =
     bindS fresh_id (\<lambda>i.
     bindS (ret \<lparr>le_id = i, le_tenant_id = t, le_name = ne_name payload, le_legal_form = ne_legal_form payload,
               le_country = ne_country payload, le_registration_number = ne_registration_number payload,
               le_tax_number = ne_tax_number payload, le_residency_status = ne_residency_status payload,
               le_base_currency = ne_base_currency payload,
               le_bank_details_json = ne_bank_details_json payload, le_is_active = ne_is_active payload\<rparr>) (\<lambda>e.
     thenS (insert_legal_entity e) (ret e)))"

definition update_legal_entity ::
    "uuid \<Rightarrow> uuid \<Rightarrow> legal_entity_update \<Rightarrow> ('z finance_db_scheme, legal_entity) svc" where
  "update_legal_entity t i payload =
     bindS (get_legal_entity_or_404 t i) (\<lambda>e.
     thenS (ensure (\<not> (is_null (eu_name payload) \<or> is_null (eu_country payload) \<or>
                is_null (eu_base_currency payload) \<or> is_null (eu_bank_details_json payload) \<or>
                is_null (eu_is_active payload)))
              (IntegrityError ''NOT NULL''))
     (bindS (ret (e\<lparr>le_name := patched (eu_name payload) (le_name e),
               le_legal_form := patched_option (eu_legal_form payload) (le_legal_form e),
               le_country := patched (eu_country payload) (le_country e),
               le_registration_number := patched_option (eu_registration_number payload) (le_registration_number e),
               le_tax_number := patched_option (eu_tax_number payload) (le_tax_number e),
               le_residency_status := patched_option (eu_residency_status payload) (le_residency_status e),
               le_base_currency := patched (eu_base_currency payload) (le_base_currency e),
               le_bank_details_json := patched (eu_bank_details_json payload) (le_bank_details_json e),
               le_is_active := patched (eu_is_active payload) (le_is_active e)\<rparr>)) (\<lambda>e'.
      bindS (gets (entity_name_taken e')) (\<lambda>dup.
      thenS (ensure (\<not> dup) (IntegrityError ''uq_legal_entity_tenant_name''))
      (thenS (modify (\<lambda>s. s\<lparr>legal_entities := row_update le_id (le_id e) (\<lambda>_. e') (legal_entities s)\<rparr>))
       (ret e'))))))"

record tax_profile_create =
  nt_legal_entity_id :: uuid
  nt_code :: string
  nt_name :: string
  nt_country :: string
  nt_regime :: TaxRegime
  nt_default_vat_rate :: "decimal option"
  nt_config_json :: json
  nt_is_active :: bool
  nt_notes :: "string option"

record tax_profile_update =
  xu_name :: "string patch"
  xu_country :: "string patch"
  xu_regime :: "TaxRegime patch"
  xu_default_vat_rate :: "decimal patch"
  xu_config_json :: "json patch"
  xu_is_active :: "bool patch"
  xu_notes :: "string patch"

definition get_tax_profile_or_404 :: "uuid \<Rightarrow> uuid \<Rightarrow> ('z finance_db_scheme, tax_profile) svc" where
  "get_tax_profile_or_404 t i =
     bindS (gets (get_tax_profile t i)) (\<lambda>found. or_raise found (NotFoundError ''Tax profile not found''))"

definition create_tax_profile ::
    "uuid \<Rightarrow> tax_profile_create \<Rightarrow> ('z finance_db_scheme, tax_profile) svc" where
  "create_tax_profile t payload =
     bindS (gets (get_legal_entity t (nt_legal_entity_id payload))) (\<lambda>entity.
     thenS (ensure (entity \<noteq> None) (NotFoundError ''Legal entity not found''))
     (bindS (gets (get_tax_profile_by_code t (nt_code payload))) (\<lambda>found.
      thenS (ensure (found = None) (ConflictError ''Tax profile code already exists''))
      (bindS fresh_id (\<lambda>i.
       bindS (ret \<lparr>tx_id = i, tx_tenant_id = t, tx_legal_entity_id = nt_legal_entity_id payload,
                 tx_code = nt_code payload, tx_name = nt_name payload, tx_country = nt_country payload,
                 tx_regime = nt_regime payload, tx_default_vat_rate = nt_default_vat_rate payload,
                 tx_config_json = nt_config_json payload, tx_is_active = nt_is_active payload,
                 tx_notes = nt_notes payload\<rparr>) (\<lambda>p.
       thenS (insert_tax_profile p) (ret p)))))))"

definition update_tax_profile ::
    "uuid \<Rightarrow> uuid \<Rightarrow> tax_profile_update \<Rightarrow> ('z finance_db_scheme, tax_profile) svc" where
  "update_tax_profile t i payload =
     bindS (get_tax_profile_or_404 t i) (\<lambda>p.
     thenS (ensure (\<not> (is_null (xu_name payload) \<or> is_null (xu_country payload) \<or> is_null (xu_regime payload) \<or>
                is_null (xu_config_json payload) \<or> is_null (xu_is_active payload)))
              (IntegrityError ''NOT NULL''))
     (bindS (ret (p\<lparr>tx_name := patched (xu_name payload) (tx_name p),
               tx_country := patched (xu_country payload) (tx_country p),
               tx_regime := patched (xu_regime payload) (tx_regime p),
               tx_default_vat_rate := patched_option (xu_default_vat_rate payload) (tx_default_vat_rate p),
               tx_config_json := patched (xu_config_json payload) (tx_config_json p),
               tx_is_active := patched (xu_is_active payload) (tx_is_active p),
               tx_notes := patched_option (xu_notes payload) (tx_notes p)\<rparr>)) (\<lambda>p'.
      thenS (modify (\<lambda>s. s\<lparr>tax_profiles := row_update tx_id (tx_id p) (\<lambda>_. p'\<lparr>tx_default_vat_rate :=
              map_option (numeric_scale 2) (tx_default_vat_rate p')\<rparr>) (tax_profiles s)\<rparr>))
      (ret p'))))"

end
