(* ===== verification/Finance.thy ===== *)
theory Finance
  imports Catalog
begin

text \<open>
  \<^verbatim>\<open>FinanceService\<close> of \<^verbatim>\<open>finance/service.py\<close>: invoices with their lines and status, payments, the
  allocation of payments to invoices, receivables and the summary.
\<close>

subsection \<open>Requests and responses\<close>

record invoice_line_create =
  nl_catalog_item_id :: "uuid option"
  nl_description :: string
  nl_quantity :: decimal
  nl_unit_price :: decimal
  nl_sort_order :: int

record invoice_create =
  ni_party_id :: uuid
  ni_legal_entity_id :: "uuid option"
  ni_tax_profile_id :: "uuid option"
  ni_work_item_id :: "uuid option"
  ni_document_id :: "uuid option"
  ni_currency :: string
  ni_due_date :: "day option"
  ni_notes :: "string option"
  ni_lines :: "invoice_line_create list"
  ni_issue :: bool

record invoice_update =
  iu_status :: "InvoiceStatus option"
  iu_due_date :: "day option"
  iu_notes :: "string option"
  iu_legal_entity_id :: "uuid option"
  iu_tax_profile_id :: "uuid option"

record payment_create =
  nm_party_id :: "uuid option"
  nm_amount :: cents
  nm_currency :: string
  nm_payment_date :: day
  nm_method :: PaymentMethod
  nm_status :: PaymentStatus
  nm_direction :: PaymentDirection
  nm_reference_number :: "string option"
  nm_notes :: "string option"
  nm_legacy_payment_type :: "string option"

record allocation_item =
  na_invoice_id :: uuid
  na_amount :: cents
  na_notes :: "string option"

record invoice_response =
  vr_invoice :: invoice
  vr_lines :: "invoice_line list"
  vr_balance_due :: cents

record payment_response =
  mr_payment :: payment
  mr_unallocated :: cents
  mr_allocations :: "payment_allocation list"

record receivable =
  rc_invoice_id :: uuid
  rc_invoice_number :: string
  rc_party_id :: uuid
  rc_status :: InvoiceStatus
  rc_currency :: string
  rc_total :: cents
  rc_amount_paid :: cents
  rc_balance_due :: cents
  rc_due_date :: "day option"
  rc_is_overdue :: bool

record finance_summary =
  fs_currency :: string
  fs_total_invoiced :: cents
  fs_total_paid :: cents
  fs_total_outstanding :: cents
  fs_open_count :: nat
  fs_overdue_count :: nat
  fs_overdue_amount :: cents

text \<open>
  The clock of one request: \<^verbatim>\<open>datetime.now(UTC)\<close> as an instant, as calendar fields and as a date, and
  \<^verbatim>\<open>date.today()\<close> with its year.
\<close>

record moment =
  mo_instant :: instant
  mo_utc :: datetime
  mo_utc_date :: day
  mo_today :: day
  mo_year :: nat

text \<open>\<^verbatim>\<open>map_legacy_payment_type\<close> of \<^verbatim>\<open>finance/schemas.py\<close>.\<close>

definition map_legacy_payment_type :: "string option \<Rightarrow> PaymentDirection \<times> PaymentStatus \<times> bool" where
  "map_legacy_payment_type v =
     (case v of
        None \<Rightarrow> (PaymentDirection_NEEDS_REVIEW, PaymentStatus_PENDING, True)
      | Some x \<Rightarrow>
          (let normalized = map ascii_upper (py_strip x) in
           if normalized = ''INCOME'' then (PaymentDirection_INCOMING, PaymentStatus_COMPLETED, False)
           else if normalized = ''EXPENSE'' then (PaymentDirection_OUTGOING, PaymentStatus_COMPLETED, False)
           else (PaymentDirection_NEEDS_REVIEW, PaymentStatus_PENDING, True)))"

subsection \<open>The status of an invoice\<close>

definition refresh_overdue_status :: "moment \<Rightarrow> invoice \<Rightarrow> invoice" where
  "refresh_overdue_status mo iv =
     (if iv_status iv = InvoiceStatus_PAID \<or> iv_status iv = InvoiceStatus_CANCELLED \<or>
         iv_status iv = InvoiceStatus_VOID \<or> iv_status iv = InvoiceStatus_DRAFT then iv
      else case iv_due_date iv of
             None \<Rightarrow> iv
           | Some d \<Rightarrow>
               if d < mo_today mo \<and> iv_amount_paid iv < iv_total iv
               then iv\<lparr>iv_status := InvoiceStatus_OVERDUE\<rparr> else iv)"

definition issue_invoice :: "moment \<Rightarrow> invoice \<Rightarrow> exn + invoice" where
  "issue_invoice mo iv =
     (if iv_status iv \<noteq> InvoiceStatus_DRAFT then Inl (ConflictError ''Only draft invoices can be issued'')
      else Inr (refresh_overdue_status mo (iv\<lparr>iv_status := InvoiceStatus_ISSUED,
             iv_issue_date := Some (mo_utc_date mo), iv_issued_at := Some (mo_instant mo)\<rparr>)))"

definition transition_status :: "moment \<Rightarrow> InvoiceStatus \<Rightarrow> invoice \<Rightarrow> exn + invoice" where
  "transition_status mo new_status iv =
     (if new_status = InvoiceStatus_ISSUED \<and> iv_status iv = InvoiceStatus_DRAFT then issue_invoice mo iv
      else if (new_status = InvoiceStatus_CANCELLED \<or> new_status = InvoiceStatus_VOID) \<and> iv_amount_paid iv > 0
      then Inl (ConflictError ''Cannot cancel invoice with payments'')
      else Inr (refresh_overdue_status mo (iv\<lparr>iv_status := new_status\<rparr>)))"

definition update_invoice_payment_status :: "moment \<Rightarrow> invoice \<Rightarrow> invoice" where
  "update_invoice_payment_status mo iv =
     refresh_overdue_status mo
       (if iv_amount_paid iv \<ge> iv_total iv then iv\<lparr>iv_status := InvoiceStatus_PAID\<rparr>
        else if iv_amount_paid iv > 0 then iv\<lparr>iv_status := InvoiceStatus_PARTIAL\<rparr>
        else iv)"

subsection \<open>Invoices\<close>

definition get_invoice_or_404 :: "uuid \<Rightarrow> uuid \<Rightarrow> ('z finance_db_scheme, invoice) svc" where
  "get_invoice_or_404 t i =
     bindS (gets (get_invoice t i)) (\<lambda>found. or_raise found (NotFoundError ''Invoice not found''))"

definition to_invoice_response :: "invoice \<Rightarrow> 'z finance_db_scheme \<Rightarrow> invoice_response" where
  "to_invoice_response iv s =
     \<lparr>vr_invoice = iv, vr_lines = lines_of (iv_id iv) s, vr_balance_due = iv_total iv - iv_amount_paid iv\<rparr>"

definition service_get_invoice :: "uuid \<Rightarrow> uuid \<Rightarrow> ('z finance_db_scheme, invoice_response) svc" where
  "service_get_invoice t i = bindS (get_invoice_or_404 t i) (\<lambda>iv. gets (to_invoice_response iv))"

definition check_references :: "uuid \<Rightarrow> invoice_create \<Rightarrow> ('z finance_db_scheme, unit) svc" where
  "check_references t payload =
     bindS (gets (get_party t (ni_party_id payload))) (\<lambda>party.
     thenS (ensure (party \<noteq> None) (NotFoundError ''Party not found''))
     (thenS (case ni_legal_entity_id payload of
               None \<Rightarrow> ret ()
             | Some e \<Rightarrow> bindS (gets (get_legal_entity t e)) (\<lambda>found.
                 ensure (found \<noteq> None) (NotFoundError ''Legal entity not found'')))
     (case ni_tax_profile_id payload of
        None \<Rightarrow> ret ()
      | Some x \<Rightarrow> bindS (gets (get_tax_profile t x)) (\<lambda>found.
          ensure (found \<noteq> None) (NotFoundError ''Tax profile not found'')))))"

definition line_total :: "invoice_line_create \<Rightarrow> cents" where
  "line_total l = quantize_cents (decimal_mult (nl_quantity l) (nl_unit_price l))"

text \<open>One round of the loop over the lines; \<open>index\<close> is \<^verbatim>\<open>enumerate\<close>'s.\<close>

definition add_line :: "uuid \<Rightarrow> uuid \<Rightarrow> nat \<Rightarrow> invoice_line_create \<Rightarrow> ('z finance_db_scheme, unit) svc" where
  "add_line t i index l =
     thenS (case nl_catalog_item_id l of
              None \<Rightarrow> ret ()
            | Some c \<Rightarrow> bindS (gets (get_item t c)) (\<lambda>found.
                ensure (found \<noteq> None) (NotFoundError (''Catalog item not found: '' @ nat_str c))))
     (bindS fresh_id (\<lambda>k.
      insert_invoice_line \<lparr>il_id = k, il_tenant_id = t, il_invoice_id = i,
        il_catalog_item_id = nl_catalog_item_id l, il_description = nl_description l,
        il_quantity = nl_quantity l, il_unit_price = nl_unit_price l, il_line_total = line_total l,
        il_sort_order = (if nl_sort_order l \<noteq> 0 then nl_sort_order l else int index * 10)\<rparr>))"

fun add_lines :: "uuid \<Rightarrow> uuid \<Rightarrow> nat \<Rightarrow> invoice_line_create list \<Rightarrow> ('z finance_db_scheme, cents) svc" where
  "add_lines t i index [] = ret 0"
| "add_lines t i index (l # ls) =
     thenS (add_line t i index l)
     (bindS (add_lines t i (Suc index) ls) (\<lambda>rest. ret (line_total l + rest)))"

definition signed_cents :: "cents \<Rightarrow> string" where
  "signed_cents c = (if c < 0 then CHR ''-'' # [] else []) @ nat_str (nat (\<bar>c\<bar> div 100)) @ ''.'' @
     [char_of (nat (48 + \<bar>c\<bar> div 10 mod 10)), char_of (nat (48 + \<bar>c\<bar> mod 10))]"

text \<open>
  \<^verbatim>\<open>create_invoice\<close>: the draft, then the loop over the lines (its sum starts from \<^verbatim>\<open>Decimal("0")\<close>), the
  totals, the issue, the audit entry and the usage event.
\<close>

definition draft_invoice :: "moment \<Rightarrow> uuid \<Rightarrow> uuid \<Rightarrow> user \<Rightarrow> string \<Rightarrow> invoice_create \<Rightarrow> invoice" where
  "draft_invoice mo i t u number payload =
     \<lparr>iv_id = i, iv_tenant_id = t, iv_legal_entity_id = ni_legal_entity_id payload,
      iv_tax_profile_id = ni_tax_profile_id payload, iv_party_id = ni_party_id payload,
      iv_work_item_id = ni_work_item_id payload, iv_document_id = ni_document_id payload,
      iv_invoice_number = number, iv_status = InvoiceStatus_DRAFT, iv_currency = ni_currency payload,
      iv_subtotal = 0, iv_tax_amount = 0, iv_total = 0, iv_amount_paid = 0, iv_issue_date = None,
      iv_due_date = ni_due_date payload, iv_issued_at = None, iv_notes = ni_notes payload,
      iv_created_by_user_id = us_id u, iv_updated_by_user_id = us_id u, iv_created_at = mo_utc mo\<rparr>"

definition set_totals :: "cents \<Rightarrow> invoice \<Rightarrow> invoice" where
  "set_totals subtotal iv = iv\<lparr>iv_subtotal := subtotal, iv_tax_amount := 0, iv_total := subtotal\<rparr>"

definition finish_invoice ::
    "moment \<Rightarrow> uuid \<Rightarrow> user \<Rightarrow> invoice_create \<Rightarrow> uuid \<Rightarrow> ('z finance_db_scheme, invoice_response) svc" where
  "finish_invoice mo t u payload i =
     bindS (get_invoice_or_404 t i) (\<lambda>iv.
     thenS (whenS (ni_issue payload)
              (bindS (of_sum (issue_invoice mo iv)) (\<lambda>iv'. write_invoice i (\<lambda>_. iv'))))
     (thenS (record_audit (audit_entry AuditAction_CREATE (''Invoice created: '' @ iv_invoice_number iv) t
               (Some (us_id u)) ''invoice'' i
               (JObj [(''total'', JStr (signed_cents (iv_total iv))), (''party_id'', JId (ni_party_id payload))])))
     (thenS (record_usage_event (mo_utc mo) t ''finance.invoices'' 1 (JObj [(''invoice_id'', JId i)]))
      (service_get_invoice t i))))"

definition create_invoice ::
    "moment \<Rightarrow> uuid \<Rightarrow> user \<Rightarrow> invoice_create \<Rightarrow> ('z finance_db_scheme, invoice_response) svc" where
  "create_invoice mo t u payload =
     thenS (assert_within_limit (mo_utc mo) t ''finance.invoices'' 1)
     (thenS (check_references t payload)
     (bindS (gets (next_invoice_number (mo_year mo) t)) (\<lambda>number.
      bindS fresh_id (\<lambda>i.
      thenS (insert_invoice (draft_invoice mo i t u number payload))
      (bindS (add_lines t i 0 (ni_lines payload)) (\<lambda>subtotal.
       thenS (write_invoice i (set_totals subtotal))
       (finish_invoice mo t u payload i)))))))"

text \<open>
  \<^verbatim>\<open>update_invoice\<close>: the references are not looked up by the service; the foreign keys of the table
  are checked at the flush, whatever the tenant of the row they name.
\<close>

definition references_exist :: "invoice \<Rightarrow> 'z finance_db_scheme \<Rightarrow> bool" where
  "references_exist iv s \<longleftrightarrow>
     (case iv_legal_entity_id iv of None \<Rightarrow> True | Some e \<Rightarrow> list_ex (\<lambda>r. le_id r = e) (legal_entities s)) \<and>
     (case iv_tax_profile_id iv of None \<Rightarrow> True | Some x \<Rightarrow> list_ex (\<lambda>r. tx_id r = x) (tax_profiles s))"

definition apply_invoice_update :: "moment \<Rightarrow> user \<Rightarrow> invoice_update \<Rightarrow> invoice \<Rightarrow> invoice" where
  "apply_invoice_update mo u payload iv = refresh_overdue_status mo (iv\<lparr>
     iv_due_date := set_some_if (iu_due_date payload) (iv_due_date iv),
     iv_notes := set_some_if (iu_notes payload) (iv_notes iv),
     iv_legal_entity_id := set_some_if (iu_legal_entity_id payload) (iv_legal_entity_id iv),
     iv_tax_profile_id := set_some_if (iu_tax_profile_id payload) (iv_tax_profile_id iv),
     iv_updated_by_user_id := us_id u\<rparr>)"

definition update_invoice ::
    "moment \<Rightarrow> uuid \<Rightarrow> user \<Rightarrow> uuid \<Rightarrow> invoice_update \<Rightarrow> ('z finance_db_scheme, invoice_response) svc" where
  "update_invoice mo t u i payload =
     bindS (get_invoice_or_404 t i) (\<lambda>iv.
     bindS (case iu_status payload of
              None \<Rightarrow> ret iv
            | Some st \<Rightarrow> of_sum (transition_status mo st iv)) (\<lambda>moved.
     bindS (ret (apply_invoice_update mo u payload moved)) (\<lambda>iv'.
     bindS (gets (references_exist iv')) (\<lambda>ok.
     thenS (ensure ok (IntegrityError ''FOREIGN KEY''))
     (thenS (write_invoice i (\<lambda>_. iv'))
      (gets (to_invoice_response iv')))))))"

subsection \<open>Payments and allocations\<close>

definition get_payment_or_404 :: "uuid \<Rightarrow> uuid \<Rightarrow> ('z finance_db_scheme, payment) svc" where
  "get_payment_or_404 t i =
     bindS (gets (get_payment t i)) (\<lambda>found. or_raise found (NotFoundError ''Payment not found''))"

definition to_payment_response :: "payment \<Rightarrow> 'z finance_db_scheme \<Rightarrow> payment_response" where
  "to_payment_response p s =
     \<lparr>mr_payment = p, mr_unallocated = pm_amount p - pm_amount_allocated p,
      mr_allocations = allocations_of (pm_id p) s\<rparr>"

definition service_get_payment :: "uuid \<Rightarrow> uuid \<Rightarrow> ('z finance_db_scheme, payment_response) svc" where
  "service_get_payment t i = bindS (get_payment_or_404 t i) (\<lambda>p. gets (to_payment_response p))"

definition new_payment ::
    "uuid \<Rightarrow> uuid \<Rightarrow> user \<Rightarrow> string \<Rightarrow> PaymentDirection \<Rightarrow> PaymentStatus \<Rightarrow> payment_create \<Rightarrow> payment" where
  "new_payment i t u number direction status payload =
     \<lparr>pm_id = i, pm_tenant_id = t, pm_party_id = nm_party_id payload, pm_payment_number = number,
      pm_amount = nm_amount payload, pm_currency = nm_currency payload, pm_amount_allocated = 0,
      pm_payment_date = nm_payment_date payload, pm_method = nm_method payload, pm_status = status,
      pm_direction = direction, pm_reference_number = nm_reference_number payload,
      pm_notes = nm_notes payload, pm_created_by_user_id = us_id u, pm_updated_by_user_id = us_id u\<rparr>"

definition create_payment ::
    "moment \<Rightarrow> uuid \<Rightarrow> user \<Rightarrow> payment_create \<Rightarrow> ('z finance_db_scheme, payment_response) svc" where
  "create_payment mo t u payload =
     thenS (case nm_party_id payload of
              None \<Rightarrow> ret ()
            | Some p \<Rightarrow> bindS (gets (get_party t p)) (\<lambda>found.
                ensure (found \<noteq> None) (NotFoundError ''Party not found'')))
     (bindS (ret (case nm_legacy_payment_type payload of
                    None \<Rightarrow> (nm_direction payload, nm_status payload)
                  | Some k \<Rightarrow> (case map_legacy_payment_type (Some k) of (d, st, _) \<Rightarrow> (d, st)))) (\<lambda>(direction, status).
      bindS (gets (next_payment_number (mo_year mo) t)) (\<lambda>number.
      bindS fresh_id (\<lambda>i.
      thenS (insert_payment (new_payment i t u number direction status payload))
      (gets (to_payment_response (new_payment i t u number direction status payload)))))))"

text \<open>One round of the loop of \<^verbatim>\<open>allocate_payment\<close>.\<close>

definition allocate_one :: "moment \<Rightarrow> uuid \<Rightarrow> payment \<Rightarrow> allocation_item \<Rightarrow> ('z finance_db_scheme, unit) svc" where
  "allocate_one mo t p item =
     bindS (get_invoice_or_404 t (na_invoice_id item)) (\<lambda>iv.
     thenS (ensure (\<not> uncounted_status (iv_status iv)) (ConflictError ''Cannot allocate payment to this invoice status''))
     (thenS (ensure (\<not> na_amount item > iv_total iv - iv_amount_paid iv)
               (ConflictError (''Allocation amount exceeds invoice balance for '' @ iv_invoice_number iv)))
     (bindS (gets (get_allocation t (pm_id p) (iv_id iv))) (\<lambda>existing.
      thenS (ensure (existing = None)
               (ConflictError (''Payment already allocated to invoice '' @ iv_invoice_number iv)))
      (bindS fresh_id (\<lambda>i.
       thenS (insert_allocation \<lparr>al_id = i, al_tenant_id = t, al_payment_id = pm_id p,
                al_invoice_id = iv_id iv, al_amount = na_amount item, al_notes = na_notes item\<rparr>)
       (write_invoice (iv_id iv) (\<lambda>r. refresh_overdue_status mo (update_invoice_payment_status mo
          (r\<lparr>iv_amount_paid := iv_amount_paid r + na_amount item\<rparr>))))))))))"

definition allocate_payment ::
    "moment \<Rightarrow> uuid \<Rightarrow> user \<Rightarrow> uuid \<Rightarrow> allocation_item list \<Rightarrow> ('z finance_db_scheme, payment_response) svc" where
  "allocate_payment mo t u i requested =
     bindS (get_payment_or_404 t i) (\<lambda>p.
     thenS (ensure (pm_status p = PaymentStatus_COMPLETED) (ConflictError ''Only completed payments can be allocated''))
     (bindS (ret (sum_list (map na_amount requested))) (\<lambda>total_new.
      thenS (ensure (\<not> total_new > pm_amount p - pm_amount_allocated p)
               (ConflictError ''Allocation exceeds unallocated payment amount''))
      (thenS (for_each requested (allocate_one mo t p))
      (thenS (write_payment i (\<lambda>r. r\<lparr>pm_amount_allocated := pm_amount_allocated r + total_new,
                pm_updated_by_user_id := us_id u\<rparr>))
       (service_get_payment t i))))))"

subsection \<open>Receivables and the summary\<close>

definition is_overdue :: "moment \<Rightarrow> invoice \<Rightarrow> bool" where
  "is_overdue mo iv \<longleftrightarrow>
     (case iv_due_date iv of None \<Rightarrow> False | Some d \<Rightarrow> d < mo_today mo) \<and> iv_status iv \<noteq> InvoiceStatus_PAID"

definition list_receivables :: "moment \<Rightarrow> uuid \<Rightarrow> 'z finance_db_scheme \<Rightarrow> receivable list" where
  "list_receivables mo t s =
     map (\<lambda>iv. \<lparr>rc_invoice_id = iv_id iv, rc_invoice_number = iv_invoice_number iv, rc_party_id = iv_party_id iv,
            rc_status = iv_status iv, rc_currency = iv_currency iv, rc_total = iv_total iv,
            rc_amount_paid = iv_amount_paid iv, rc_balance_due = iv_total iv - iv_amount_paid iv,
            rc_due_date = iv_due_date iv, rc_is_overdue = is_overdue mo iv\<rparr>)
       (filter (\<lambda>iv. \<not> iv_total iv - iv_amount_paid iv \<le> 0) (list_receivable_invoices t s))"

text \<open>
  \<^verbatim>\<open>Decimal(str(float(total)))\<close> is the parameter \<open>via_float\<close>.
\<close>

definition get_summary ::
    "(cents \<Rightarrow> cents) \<Rightarrow> moment \<Rightarrow> uuid \<Rightarrow> string \<Rightarrow> 'z finance_db_scheme \<Rightarrow> finance_summary" where
  "get_summary via_float mo t currency s =
     (let receivables = list_receivables mo t s; overdue = filter rc_is_overdue receivables in
      \<lparr>fs_currency = currency, fs_total_invoiced = via_float (sum_invoiced t s),
       fs_total_paid = via_float (sum_paid t s),
       fs_total_outstanding = sum_list (map rc_balance_due receivables),
       fs_open_count = length receivables, fs_overdue_count = length overdue,
       fs_overdue_amount = sum_list (map rc_balance_due overdue)\<rparr>)"

end
