(* ===== verification/Finance_Safety.thy ===== *)
theory Finance_Safety
  imports Finance
begin

text \<open>
  The invariants of finance, kept by every operation of the catalog, accounting and finance services:
  the ledger (what was paid on invoices and allocated from payments is what the allocations say, nobody
  pays too much), the totals of invoices, the numbering of invoices and the metering of invoices.
\<close>

subsection \<open>The ledger\<close>

definition paid_to :: "uuid \<Rightarrow> 'z finance_db_scheme \<Rightarrow> cents" where
  "paid_to i s = sum_list (map al_amount (filter (\<lambda>a. al_invoice_id a = i) (allocations s)))"

definition allocated_from :: "uuid \<Rightarrow> 'z finance_db_scheme \<Rightarrow> cents" where
  "allocated_from p s = sum_list (map al_amount (filter (\<lambda>a. al_payment_id a = p) (allocations s)))"

definition invoice_ok :: "'z finance_db_scheme \<Rightarrow> invoice \<Rightarrow> bool" where
  "invoice_ok s iv \<longleftrightarrow> iv_id iv < next_id s \<and> iv_amount_paid iv = paid_to (iv_id iv) s \<and>
     iv_amount_paid iv \<le> max 0 (iv_total iv)"

text \<open>\<open>pending\<close> is what a running allocation has handed out and not yet written to the payment.\<close>

definition payment_ok :: "(uuid \<Rightarrow> cents) \<Rightarrow> 'z finance_db_scheme \<Rightarrow> payment \<Rightarrow> bool" where
  "payment_ok pending s p \<longleftrightarrow> pm_id p < next_id s \<and>
     pm_amount_allocated p + pending (pm_id p) = allocated_from (pm_id p) s \<and>
     pm_amount_allocated p \<le> pm_amount p"

definition allocation_ok :: "'z finance_db_scheme \<Rightarrow> payment_allocation \<Rightarrow> bool" where
  "allocation_ok s a \<longleftrightarrow> 0 < al_amount a \<and>
     (\<exists>iv \<in> set (invoices s). iv_id iv = al_invoice_id a \<and> iv_tenant_id iv = al_tenant_id a) \<and>
     (\<exists>p \<in> set (payments s). pm_id p = al_payment_id a \<and> pm_tenant_id p = al_tenant_id a)"

definition ledger_ok :: "(uuid \<Rightarrow> cents) \<Rightarrow> 'z finance_db_scheme \<Rightarrow> bool" where
  "ledger_ok pending s \<longleftrightarrow> distinct (map iv_id (invoices s)) \<and> distinct (map pm_id (payments s)) \<and>
     (\<forall>iv \<in> set (invoices s). invoice_ok s iv) \<and> (\<forall>p \<in> set (payments s). payment_ok pending s p) \<and>
     (\<forall>a \<in> set (allocations s). allocation_ok s a)"

definition settled :: "uuid \<Rightarrow> cents" where
  "settled = (\<lambda>_. 0)"

lemma ledger_okD:
  assumes "ledger_ok pending s"
  shows "distinct (map iv_id (invoices s))" "distinct (map pm_id (payments s))"
    "iv \<in> set (invoices s) \<Longrightarrow> invoice_ok s iv" "p \<in> set (payments s) \<Longrightarrow> payment_ok pending s p"
    "a \<in> set (allocations s) \<Longrightarrow> allocation_ok s a"
  using assms by (simp_all add: ledger_ok_def)

lemma map_eq_member:
  assumes "map g xs = map g ys" and "x \<in> set xs"
  shows "\<exists>y \<in> set ys. g y = g x"
proof -
  have "g x \<in> set (map g ys)" using assms by (metis image_eqI set_map)
  then show ?thesis by auto
qed

lemma ex_row_update:
  assumes "\<exists>r \<in> set rows. P r" and "\<And>r. P (f r) = P r"
  shows "\<exists>r \<in> set (row_update key k f rows). P r"
proof -
  obtain r where "r \<in> set rows" "P r" using assms(1) ..
  moreover have "(if key r = k then f r else r) \<in> set (row_update key k f rows)"
    unfolding in_row_update using \<open>r \<in> set rows\<close> by (intro bexI[of _ r]) simp_all
  ultimately show ?thesis by (intro bexI[of _ "if key r = k then f r else r"]) (simp_all add: assms(2))
qed

text \<open>A write to an invoice that keeps its key, tenant, total and paid amount keeps the ledger.\<close>

lemma ledger_ok_frame:
  assumes "ledger_ok pending s"
    and "map (\<lambda>iv. (iv_id iv, iv_tenant_id iv, iv_total iv, iv_amount_paid iv)) (invoices s') =
      map (\<lambda>iv. (iv_id iv, iv_tenant_id iv, iv_total iv, iv_amount_paid iv)) (invoices s)"
    and "payments s' = payments s" "allocations s' = allocations s" "next_id s \<le> next_id s'"
  shows "ledger_ok pending s'"
proof -
  let ?g = "\<lambda>iv. (iv_id iv, iv_tenant_id iv, iv_total iv, iv_amount_paid iv)"
  have ids: "map iv_id (invoices s') = map iv_id (invoices s)"
    using arg_cong[OF assms(2), of "map fst"] by (simp add: comp_def)
  have older: "\<exists>x \<in> set (invoices s). ?g x = ?g iv" if "iv \<in> set (invoices s')" for iv
    using map_eq_member[OF assms(2) that] .
  have newer: "\<exists>x \<in> set (invoices s'). ?g x = ?g iv" if "iv \<in> set (invoices s)" for iv
    using map_eq_member[OF assms(2)[symmetric] that] .
  have "invoice_ok s' iv" if "iv \<in> set (invoices s')" for iv
    using older[OF that] ledger_okD(3)[OF assms(1)] assms(4,5) by (fastforce simp: invoice_ok_def paid_to_def)
  moreover have "payment_ok pending s' p" if "p \<in> set (payments s')" for p
    using that ledger_okD(4)[OF assms(1)] assms(3,4,5) by (fastforce simp: payment_ok_def allocated_from_def)
  moreover have "allocation_ok s' a" if "a \<in> set (allocations s')" for a
    using that ledger_okD(5)[OF assms(1), of a] newer assms(3,4) by (fastforce simp: allocation_ok_def)
  ultimately show ?thesis
    using assms(1,3) ids by (simp add: ledger_ok_def)
qed

lemma paid_to_fresh: "ledger_ok pending s \<Longrightarrow> next_id s \<le> i \<Longrightarrow> paid_to i s = 0"
proof -
  assume ok: "ledger_ok pending s" and i: "next_id s \<le> i"
  have "al_invoice_id a \<noteq> i" if "a \<in> set (allocations s)" for a
    using ledger_okD(5)[OF ok that] ledger_okD(3)[OF ok] i by (fastforce simp: allocation_ok_def invoice_ok_def)
  then have "filter (\<lambda>a. al_invoice_id a = i) (allocations s) = []" by (auto simp: filter_empty_conv)
  then show ?thesis by (simp add: paid_to_def)
qed

lemma allocated_from_fresh: "ledger_ok pending s \<Longrightarrow> next_id s \<le> i \<Longrightarrow> allocated_from i s = 0"
proof -
  assume ok: "ledger_ok pending s" and i: "next_id s \<le> i"
  have "al_payment_id a \<noteq> i" if "a \<in> set (allocations s)" for a
    using ledger_okD(5)[OF ok that] ledger_okD(4)[OF ok] i by (fastforce simp: allocation_ok_def payment_ok_def)
  then have "filter (\<lambda>a. al_payment_id a = i) (allocations s) = []" by (auto simp: filter_empty_conv)
  then show ?thesis by (simp add: allocated_from_def)
qed

lemma ledger_insert_invoice:
  assumes ok: "ledger_ok pending s" and "iv_id iv = next_id s" "iv_amount_paid iv = 0"
    and s': "invoices s' = row_insert iv (invoices s)" "payments s' = payments s"
      "allocations s' = allocations s" "next_id s' = Suc (next_id s)"
  shows "ledger_ok pending s'"
proof -
  have sums: "paid_to i s' = paid_to i s" "allocated_from i s' = allocated_from i s" for i
    by (simp_all add: paid_to_def allocated_from_def s')
  have "iv_id iv \<notin> iv_id ` set (invoices s)"
    using ledger_okD(3)[OF ok] assms(2) by (fastforce simp: invoice_ok_def)
  moreover have "invoice_ok s' x" if "x \<in> set (invoices s')" for x
    using that ledger_okD(3)[OF ok, of x] assms(2,3) paid_to_fresh[OF ok, of "next_id s"]
    by (auto simp: s' in_row_insert invoice_ok_def sums)
  moreover have "payment_ok pending s' p" if "p \<in> set (payments s')" for p
    using that ledger_okD(4)[OF ok, of p] by (simp add: s' payment_ok_def sums)
  moreover have "allocation_ok s' a" if "a \<in> set (allocations s')" for a
    using that ledger_okD(5)[OF ok, of a] by (auto simp: s' allocation_ok_def in_row_insert)
  ultimately show ?thesis
    using ledger_okD(1,2)[OF ok] by (auto simp: ledger_ok_def s' map_key_row_insert)
qed

lemma ledger_insert_payment:
  assumes ok: "ledger_ok settled s" and "pm_id p = next_id s" "pm_amount_allocated p = 0" "0 \<le> pm_amount p"
    and s': "payments s' = row_insert p (payments s)" "invoices s' = invoices s"
      "allocations s' = allocations s" "next_id s' = Suc (next_id s)"
  shows "ledger_ok settled s'"
proof -
  have sums: "paid_to i s' = paid_to i s" "allocated_from i s' = allocated_from i s" for i
    by (simp_all add: paid_to_def allocated_from_def s')
  have "pm_id p \<notin> pm_id ` set (payments s)"
    using ledger_okD(4)[OF ok] assms(2) by (fastforce simp: payment_ok_def)
  moreover have "payment_ok settled s' x" if "x \<in> set (payments s')" for x
    using that ledger_okD(4)[OF ok, of x] assms(2-4) allocated_from_fresh[OF ok, of "next_id s"]
    by (auto simp: s' in_row_insert payment_ok_def sums settled_def)
  moreover have "invoice_ok s' iv" if "iv \<in> set (invoices s')" for iv
    using that ledger_okD(3)[OF ok, of iv] by (simp add: s' invoice_ok_def sums)
  moreover have "allocation_ok s' a" if "a \<in> set (allocations s')" for a
    using that ledger_okD(5)[OF ok, of a] by (auto simp: s' allocation_ok_def in_row_insert)
  ultimately show ?thesis
    using ledger_okD(1,2)[OF ok] by (auto simp: ledger_ok_def s' map_key_row_insert)
qed

lemma ledger_allocate:
  assumes ok: "ledger_ok pending s"
    and iv: "iv \<in> set (invoices s)" "iv_id iv = al_invoice_id a" "iv_tenant_id iv = al_tenant_id a"
    and p: "p \<in> set (payments s)" "pm_id p = al_payment_id a" "pm_tenant_id p = al_tenant_id a"
    and amount: "0 < al_amount a" "al_amount a \<le> iv_total iv - iv_amount_paid iv"
    and f: "\<And>r. iv_id (f r) = iv_id r" "\<And>r. iv_tenant_id (f r) = iv_tenant_id r"
      "\<And>r. iv_total (f r) = iv_total r" "\<And>r. iv_amount_paid (f r) = iv_amount_paid r + al_amount a"
    and s': "invoices s' = row_update iv_id (al_invoice_id a) f (invoices s)" "payments s' = payments s"
      "allocations s' = row_insert a (allocations s)" "next_id s \<le> next_id s'"
  shows "ledger_ok (pending(al_payment_id a := pending (al_payment_id a) + al_amount a)) s'"
proof -
  have sums: "paid_to i s' = paid_to i s + (if al_invoice_id a = i then al_amount a else 0)"
    "allocated_from i s' = allocated_from i s + (if al_payment_id a = i then al_amount a else 0)" for i
    by (simp_all add: paid_to_def allocated_from_def s' row_insert_def)
  have only: "x = iv" if "x \<in> set (invoices s)" "iv_id x = al_invoice_id a" for x
    using distinct_keys_eq[OF ledger_okD(1)[OF ok] that(1) iv(1)] that(2) iv(2) by simp
  have "invoice_ok s' x" if "x \<in> set (invoices s')" for x
  proof -
    obtain r where r: "r \<in> set (invoices s)" "x = (if iv_id r = al_invoice_id a then f r else r)"
      using \<open>x \<in> set (invoices s')\<close> unfolding s' in_row_update by (metis (no_types, lifting))
    show ?thesis
      using r(2) ledger_okD(3)[OF ok r(1)] only[OF r(1)] amount s'(4)
      by (auto simp: invoice_ok_def sums f)
  qed
  moreover have "payment_ok (pending(al_payment_id a := pending (al_payment_id a) + al_amount a)) s' x"
    if "x \<in> set (payments s')" for x
    using that ledger_okD(4)[OF ok, of x] s'(4) by (auto simp: s'(2) payment_ok_def sums)
  moreover have "allocation_ok s' x" if "x \<in> set (allocations s')" for x
  proof -
    have kept: "\<exists>i' \<in> set (invoices s'). iv_id i' = k \<and> iv_tenant_id i' = t"
      if "\<exists>i \<in> set (invoices s). iv_id i = k \<and> iv_tenant_id i = t" for k t
      unfolding s' using that by (rule ex_row_update) (simp add: f)
    have "al_amount x > 0 \<and> (\<exists>i \<in> set (invoices s). iv_id i = al_invoice_id x \<and> iv_tenant_id i = al_tenant_id x) \<and>
        (\<exists>q \<in> set (payments s). pm_id q = al_payment_id x \<and> pm_tenant_id q = al_tenant_id x)"
      using \<open>x \<in> set (allocations s')\<close> ledger_okD(5)[OF ok, of x] iv p amount(1)
      unfolding s' in_row_insert allocation_ok_def by metis
    then show ?thesis using kept by (simp add: allocation_ok_def s'(2))
  qed
  moreover have "map iv_id (invoices s') = map iv_id (invoices s)"
    by (simp add: s' map_row_update f)
  ultimately show ?thesis
    using ledger_okD(1,2)[OF ok] by (simp add: ledger_ok_def s'(2))
qed

lemma ledger_settle:
  assumes ok: "ledger_ok (settled(i := n)) s"
    and p: "p \<in> set (payments s)" "pm_id p = i" "pm_amount_allocated p + n \<le> pm_amount p"
    and f: "\<And>r. pm_id (f r) = pm_id r" "\<And>r. pm_tenant_id (f r) = pm_tenant_id r"
      "\<And>r. pm_amount (f r) = pm_amount r" "\<And>r. pm_amount_allocated (f r) = pm_amount_allocated r + n"
    and s': "payments s' = row_update pm_id i f (payments s)" "invoices s' = invoices s"
      "allocations s' = allocations s" "next_id s' = next_id s"
  shows "ledger_ok settled s'"
proof -
  have sums: "paid_to k s' = paid_to k s" "allocated_from k s' = allocated_from k s" for k
    by (simp_all add: paid_to_def allocated_from_def s')
  have "payment_ok settled s' x" if "x \<in> set (payments s')" for x
  proof -
    obtain r where r: "r \<in> set (payments s)" "x = (if pm_id r = i then f r else r)"
      using \<open>x \<in> set (payments s')\<close> unfolding s' in_row_update by (metis (no_types, lifting))
    have "r = p" if "pm_id r = i"
      using distinct_keys_eq[OF ledger_okD(2)[OF ok] r(1) p(1)] that p(2) by simp
    then show ?thesis
      using r(2) ledger_okD(4)[OF ok r(1)] p(2,3)
      by (auto simp: payment_ok_def sums f settled_def s'(4))
  qed
  moreover have "invoice_ok s' x" if "x \<in> set (invoices s')" for x
    using that ledger_okD(3)[OF ok, of x] by (simp add: s' invoice_ok_def sums)
  moreover have "allocation_ok s' x" if "x \<in> set (allocations s')" for x
  proof -
    have "\<exists>q' \<in> set (payments s'). pm_id q' = k \<and> pm_tenant_id q' = t"
      if "\<exists>q \<in> set (payments s). pm_id q = k \<and> pm_tenant_id q = t" for k t
      unfolding s' using that by (rule ex_row_update) (simp add: f)
    then show ?thesis
      using that ledger_okD(5)[OF ok, of x] by (simp add: allocation_ok_def s')
  qed
  moreover have "map pm_id (payments s') = map pm_id (payments s)"
    by (simp add: s' map_row_update f)
  ultimately show ?thesis
    using ledger_okD(1,2)[OF ok] by (simp add: ledger_ok_def s'(2))
qed

end
