(* ===== verification/Finance_Runs.thy ===== *)
theory Finance_Runs
  imports Finance_Safety
begin

text \<open>
  What the calls of the catalog, accounting and finance services that return have written: the calls
  that leave the books alone, the rows an invoice adds, the rows an allocation adds.
\<close>

subsection \<open>Calls that leave the books alone\<close>

definition same_books ::
    "(invoice list \<times> invoice_line list \<times> payment list \<times> payment_allocation list \<times>
      subscription list \<times> usage_limit list \<times> usage_event list) \<Rightarrow> uuid \<Rightarrow> 'z finance_db_scheme \<Rightarrow> bool" where
  "same_books b n s \<longleftrightarrow>
     (invoices s, invoice_lines s, payments s, allocations s, subscriptions s, usage_limits s, usage_events s) = b \<and>
     n \<le> next_id s"

lemma preserves_fresh_id_books: "preserves (same_books b n) fresh_id"
  by (simp add: preserves_def fresh_id_def same_books_def)

lemma preserves_prepare_books: "preserves (same_books b n) (validate_and_prepare num t et vs ap)"
  using validate_and_prepare_state unfolding preserves_def by metis

lemma preserves_upsert_books: "preserves (same_books b n) (upsert_values t et i vs)"
  unfolding upsert_values_def upsert_one_value_def
  by (intro preserves_for_each preserves_modify) (simp add: same_books_def Let_def split: option.split)

lemmas books_rules = preserves_bindS preserves_thenS preserves_whenS preserves_ret preserves_raise
  preserves_gets preserves_ensure preserves_or_raise preserves_of_sum preserves_fresh_id_books
  preserves_prepare_books preserves_upsert_books preserves_modify

lemma preserves_lookups:
  "preserves (same_books b n) (get_item_or_404 t i)"
  "preserves (same_books b n) (service_get_item t i)"
  "preserves (same_books b n) (check_sku t sku)"
  "preserves (same_books b n) (check_unit t un)"
  "preserves (same_books b n) (get_price_list_or_404 t i)"
  "preserves (same_books b n) (service_get_price_list t i)"
  "preserves (same_books b n) (get_legal_entity_or_404 t i)"
  "preserves (same_books b n) (get_tax_profile_or_404 t i)"
  unfolding get_item_or_404_def service_get_item_def check_sku_def check_unit_def get_price_list_or_404_def
    service_get_price_list_def get_legal_entity_or_404_def get_tax_profile_or_404_def
  by (auto intro!: books_rules split: option.split)

lemma preserves_inserts:
  "preserves (same_books b n) (insert_unit x1)"
  "preserves (same_books b n) (insert_item x2)"
  "preserves (same_books b n) (flush_item x2)"
  "preserves (same_books b n) (insert_price_list x3)"
  "preserves (same_books b n) (insert_price_list_item x4)"
  "preserves (same_books b n) (insert_legal_entity x5)"
  "preserves (same_books b n) (insert_tax_profile x6)"
  unfolding insert_unit_def insert_item_def flush_item_def insert_price_list_def insert_price_list_item_def
    insert_legal_entity_def insert_tax_profile_def
  by (auto intro!: books_rules simp: same_books_def)

lemma catalog_keeps_books:
  "preserves (same_books b n) (create_unit t nu)"
  "preserves (same_books b n) (create_item num t u nc)"
  "preserves (same_books b n) (update_item num t u i cu)"
  "preserves (same_books b n) (create_price_list t u np)"
  "preserves (same_books b n) (update_price_list t u i pu)"
  "preserves (same_books b n) (add_price_list_item t i nx)"
  unfolding create_unit_def create_item_def update_item_def create_price_list_def update_price_list_def
    add_price_list_item_def
  by (auto intro!: books_rules preserves_lookups preserves_inserts simp: same_books_def split: option.split)

lemma accounting_keeps_books:
  "preserves (same_books b n) (create_legal_entity t ne)"
  "preserves (same_books b n) (update_legal_entity t i eu)"
  "preserves (same_books b n) (create_tax_profile t nt)"
  "preserves (same_books b n) (update_tax_profile t i xu)"
  unfolding create_legal_entity_def update_legal_entity_def create_tax_profile_def update_tax_profile_def
  by (auto intro!: books_rules preserves_lookups preserves_inserts simp: same_books_def)

subsection \<open>Reading the ledger back\<close>

lemma get_invoice_Some:
  "get_invoice t i s = Some iv \<Longrightarrow> iv \<in> set (invoices s) \<and> iv_tenant_id iv = t \<and> iv_id iv = i"
  unfolding get_invoice_def by (rule scoped_get_Some)

lemma get_payment_Some:
  "get_payment t i s = Some p \<Longrightarrow> p \<in> set (payments s) \<and> pm_tenant_id p = t \<and> pm_id p = i"
  unfolding get_payment_def by (rule scoped_get_Some)

lemma get_invoice_or_404_ok [svc_ok]:
  "get_invoice_or_404 t i s = (Inr iv, s') \<longleftrightarrow> s' = s \<and> get_invoice t i s = Some iv"
  by (auto simp: get_invoice_or_404_def svc_ok)

lemma get_payment_or_404_ok [svc_ok]:
  "get_payment_or_404 t i s = (Inr p, s') \<longleftrightarrow> s' = s \<and> get_payment t i s = Some p"
  by (auto simp: get_payment_or_404_def svc_ok)

lemma write_invoice_ok [svc_ok]:
  "write_invoice i f s = (Inr x, s') \<longleftrightarrow> s' = s\<lparr>invoices := row_update iv_id i f (invoices s)\<rparr>"
  by (simp add: write_invoice_def svc_ok)

lemma insert_invoice_ok [svc_ok]:
  "insert_invoice iv s = (Inr x, s') \<longleftrightarrow>
     (\<forall>r \<in> set (invoices s). iv_tenant_id r = iv_tenant_id iv \<longrightarrow> iv_invoice_number r \<noteq> iv_invoice_number iv) \<and>
     s' = s\<lparr>invoices := row_insert iv (invoices s)\<rparr>"
  by (auto simp: insert_invoice_def svc_ok list_ex_iff)

lemma row_update_last:
  "k \<notin> key ` set rows \<Longrightarrow> key r = k \<Longrightarrow> row_update key k f (rows @ [r]) = rows @ [f r]"
  using row_update_absent[of k key rows f] by (simp add: row_update_def)

subsection \<open>The rows of a new invoice\<close>

lemma add_line_ok:
  assumes "add_line t i k l s = (Inr x, s')"
  shows "\<exists>r. s' = s\<lparr>next_id := Suc (next_id s), invoice_lines := invoice_lines s @ [r]\<rparr> \<and>
    il_invoice_id r = i \<and> il_tenant_id r = t \<and> il_line_total r = line_total l \<and>
    il_quantity r = numeric_scale 4 (nl_quantity l) \<and> il_unit_price r = numeric_scale 2 (nl_unit_price l)"
  using assms
  by (auto simp: add_line_def svc_ok insert_invoice_line_def row_insert_def split: option.splits)

lemma add_lines_ok:
  assumes "add_lines t i k ls s = (Inr c, s')"
  shows "\<exists>rows. s' = s\<lparr>next_id := next_id s + length ls, invoice_lines := invoice_lines s @ rows\<rparr> \<and>
    c = sum_list (map line_total ls) \<and> map il_line_total rows = map line_total ls \<and>
    map il_quantity rows = map (\<lambda>l. numeric_scale 4 (nl_quantity l)) ls \<and> map il_unit_price rows = map (\<lambda>l. numeric_scale 2 (nl_unit_price l)) ls \<and>
    (\<forall>r \<in> set rows. il_invoice_id r = i \<and> il_tenant_id r = t)"
  using assms
proof (induction ls arbitrary: k s c)
  case Nil
  then show ?case by (simp add: svc_ok)
next
  case (Cons l ls)
  then obtain s1 d where s1: "add_line t i k l s = (Inr (), s1)"
    and d: "add_lines t i (Suc k) ls s1 = (Inr d, s')" "c = line_total l + d"
    by (auto simp: svc_ok)
  obtain r where r: "s1 = s\<lparr>next_id := Suc (next_id s), invoice_lines := invoice_lines s @ [r]\<rparr>"
    "il_invoice_id r = i" "il_tenant_id r = t" "il_line_total r = line_total l"
    "il_quantity r = numeric_scale 4 (nl_quantity l)" "il_unit_price r = numeric_scale 2 (nl_unit_price l)"
    using add_line_ok[OF s1] by blast
  obtain rows where rows: "s' = s1\<lparr>next_id := next_id s1 + length ls, invoice_lines := invoice_lines s1 @ rows\<rparr>"
    "d = sum_list (map line_total ls)" "map il_line_total rows = map line_total ls"
    "map il_quantity rows = map (\<lambda>l. numeric_scale 4 (nl_quantity l)) ls" "map il_unit_price rows = map (\<lambda>l. numeric_scale 2 (nl_unit_price l)) ls"
    "\<forall>r \<in> set rows. il_invoice_id r = i \<and> il_tenant_id r = t"
    using Cons.IH[OF d(1)] by blast
  show ?case
    by (rule exI[of _ "r # rows"]) (use rows r d(2) in simp)
qed

text \<open>A status step keeps what the ledger reads of an invoice.\<close>

lemma refresh_overdue_keeps [simp]:
  "iv_id (refresh_overdue_status mo iv) = iv_id iv"
  "iv_tenant_id (refresh_overdue_status mo iv) = iv_tenant_id iv"
  "iv_subtotal (refresh_overdue_status mo iv) = iv_subtotal iv"
  "iv_tax_amount (refresh_overdue_status mo iv) = iv_tax_amount iv"
  "iv_total (refresh_overdue_status mo iv) = iv_total iv"
  "iv_amount_paid (refresh_overdue_status mo iv) = iv_amount_paid iv"
  "iv_invoice_number (refresh_overdue_status mo iv) = iv_invoice_number iv"
  "iv_currency (refresh_overdue_status mo iv) = iv_currency iv"
  "iv_due_date (refresh_overdue_status mo iv) = iv_due_date iv"
  "iv_created_at (refresh_overdue_status mo iv) = iv_created_at iv"
  by (simp_all add: refresh_overdue_status_def split: option.split)

lemma payment_status_keeps [simp]:
  "iv_id (update_invoice_payment_status mo iv) = iv_id iv"
  "iv_tenant_id (update_invoice_payment_status mo iv) = iv_tenant_id iv"
  "iv_subtotal (update_invoice_payment_status mo iv) = iv_subtotal iv"
  "iv_tax_amount (update_invoice_payment_status mo iv) = iv_tax_amount iv"
  "iv_total (update_invoice_payment_status mo iv) = iv_total iv"
  "iv_amount_paid (update_invoice_payment_status mo iv) = iv_amount_paid iv"
  "iv_invoice_number (update_invoice_payment_status mo iv) = iv_invoice_number iv"
  "iv_created_at (update_invoice_payment_status mo iv) = iv_created_at iv"
  by (simp_all add: update_invoice_payment_status_def)

text \<open>The columns of an invoice no status step and no PATCH writes.\<close>

definition fixed_part :: "invoice \<Rightarrow> uuid \<times> uuid \<times> cents \<times> cents \<times> cents \<times> cents \<times> string \<times> datetime" where
  "fixed_part iv = (iv_id iv, iv_tenant_id iv, iv_subtotal iv, iv_tax_amount iv, iv_total iv,
     iv_amount_paid iv, iv_invoice_number iv, iv_created_at iv)"

lemma issue_invoice_keeps: "issue_invoice mo iv = Inr iv' \<Longrightarrow> fixed_part iv' = fixed_part iv"
  by (auto simp: issue_invoice_def fixed_part_def split: if_splits)

lemma transition_status_keeps: "transition_status mo st iv = Inr iv' \<Longrightarrow> fixed_part iv' = fixed_part iv"
  by (auto simp: transition_status_def fixed_part_def dest: issue_invoice_keeps split: if_splits)

lemma apply_invoice_update_keeps: "fixed_part (apply_invoice_update mo u payload iv) = fixed_part iv"
  by (simp add: apply_invoice_update_def fixed_part_def)

lemma check_references_state: "check_references t payload s = (Inr x, s') \<Longrightarrow> s' = s"
  by (auto simp: check_references_def svc_ok split: option.splits)

text \<open>The invoice a creation leaves behind.\<close>

definition created_invoice ::
    "moment \<Rightarrow> uuid \<Rightarrow> uuid \<Rightarrow> user \<Rightarrow> string \<Rightarrow> invoice_create \<Rightarrow> invoice" where
  "created_invoice mo i t u number payload =
     (let iv = set_totals (sum_list (map line_total (ni_lines payload))) (draft_invoice mo i t u number payload) in
      if ni_issue payload then projr (issue_invoice mo iv) else iv)"

lemma issue_draft: "iv_status iv = InvoiceStatus_DRAFT \<Longrightarrow> issue_invoice mo iv = Inr (projr (issue_invoice mo iv))"
  by (simp add: issue_invoice_def)

lemma created_invoice_fixed:
  "fixed_part (created_invoice mo i t u number payload) =
     (i, t, sum_list (map line_total (ni_lines payload)), 0, sum_list (map line_total (ni_lines payload)), 0, number, mo_utc mo)"
proof -
  let ?iv = "set_totals (sum_list (map line_total (ni_lines payload))) (draft_invoice mo i t u number payload)"
  have "issue_invoice mo ?iv = Inr (projr (issue_invoice mo ?iv))"
    by (rule issue_draft) (simp add: set_totals_def draft_invoice_def)
  from issue_invoice_keeps[OF this] show ?thesis
    by (simp add: created_invoice_def Let_def) (simp add: fixed_part_def set_totals_def draft_invoice_def)
qed

text \<open>The event a creation meters, and the state it ends in.\<close>

definition invoice_event :: "moment \<Rightarrow> uuid \<Rightarrow> uuid \<Rightarrow> usage_event" where
  "invoice_event mo t i = \<lparr>ue_tenant_id = t, ue_limit_code = ''finance.invoices'', ue_quantity = 1,
     ue_metadata_json = JObj [(''invoice_id'', JId i)], ue_created_at = mo_utc mo\<rparr>"

lemma finish_invoice_ok:
  assumes "finish_invoice mo t u payload i s = (Inr r, s')"
    and "invoices s = old @ [iv]" "iv_id iv = i" "iv_tenant_id iv = t" "i \<notin> iv_id ` set old"
    and "iv_status iv = InvoiceStatus_DRAFT"
  shows "\<exists>logs. s' = s\<lparr>invoices := old @ [if ni_issue payload then projr (issue_invoice mo iv) else iv],
    audit_logs := logs, usage_events := row_insert (invoice_event mo t i) (usage_events s)\<rparr>"
proof -
  have find: "get_invoice t i s = Some iv"
    unfolding get_invoice_def scoped_get_def assms(2) using assms(3-5)
    by (intro row_find_unique) (auto simp: image_iff)
  have upd: "row_update iv_id i (\<lambda>_. x) (old @ [iv]) = old @ [x]" for x
    using row_update_last[OF assms(5,3)] .
  have issued: "issue_invoice mo iv = Inr (projr (issue_invoice mo iv))" by (rule issue_draft[OF assms(6)])
  obtain s1 logs where
    s1: "if ni_issue payload
      then bindS (of_sum (issue_invoice mo iv)) (\<lambda>iv'. write_invoice i (\<lambda>_. iv')) s = (Inr (), s1) else s1 = s"
    and s': "record_usage_event (mo_utc mo) t ''finance.invoices'' 1 (JObj [(''invoice_id'', JId i)])
      (s1\<lparr>audit_logs := logs\<rparr>) = (Inr (), s')"
    using assms(1) find by (auto simp: finish_invoice_def svc_ok service_get_invoice_def)
  have "s1 = s\<lparr>invoices := old @ [if ni_issue payload then projr (issue_invoice mo iv) else iv]\<rparr>"
  proof (cases "ni_issue payload")
    case True
    with s1 issued have "s1 = s\<lparr>invoices := row_update iv_id i (\<lambda>_. projr (issue_invoice mo iv)) (invoices s)\<rparr>"
      by (auto simp: svc_ok)
    then show ?thesis using True by (simp add: assms(2) upd)
  next
    case False
    with s1 have "s1 = s" by simp
    then show ?thesis using False by (simp flip: assms(2))
  qed
  moreover have "s' = s1\<lparr>audit_logs := logs, usage_events := row_insert (invoice_event mo t i) (usage_events s1)\<rparr>"
    using s' by (simp add: record_usage_event_def svc_ok invoice_event_def)
  ultimately show ?thesis by (intro exI[of _ logs]) simp
qed

lemma create_invoice_ok:
  assumes run: "create_invoice mo t u payload s = (Inr r, s')" and fresh: "next_id s \<notin> iv_id ` set (invoices s)"
  shows "\<exists>rows logs. assert_within_limit (mo_utc mo) t ''finance.invoices'' 1 s = (Inr (), s) \<and>
    s' = s\<lparr>next_id := Suc (next_id s) + length (ni_lines payload),
      invoices := invoices s @ [created_invoice mo (next_id s) t u (next_invoice_number (mo_year mo) t s) payload],
      invoice_lines := invoice_lines s @ rows, audit_logs := logs,
      usage_events := row_insert (invoice_event mo t (next_id s)) (usage_events s)\<rparr> \<and>
    map il_line_total rows = map line_total (ni_lines payload) \<and>
    map il_quantity rows = map (\<lambda>l. numeric_scale 4 (nl_quantity l)) (ni_lines payload) \<and>
    map il_unit_price rows = map (\<lambda>l. numeric_scale 2 (nl_unit_price l)) (ni_lines payload) \<and>
    (\<forall>l \<in> set rows. il_invoice_id l = next_id s \<and> il_tenant_id l = t)"
proof -
  let ?draft = "draft_invoice mo (next_id s) t u (next_invoice_number (mo_year mo) t s) payload"
  let ?s1 = "s\<lparr>next_id := Suc (next_id s), invoices := invoices s @ [?draft]\<rparr>"
  have check: "assert_within_limit (mo_utc mo) t ''finance.invoices'' 1 s = (Inr (), s)"
    using run by (auto simp: create_invoice_def svc_ok assert_within_limit_ok)
  obtain c s2 s3 where c: "add_lines t (next_id s) 0 (ni_lines payload) ?s1 = (Inr c, s2)"
    and s3: "write_invoice (next_id s) (set_totals c) s2 = (Inr (), s3)"
    and fin: "finish_invoice mo t u payload (next_id s) s3 = (Inr r, s')"
    using run check
    by (auto simp: create_invoice_def svc_ok row_insert_def dest!: check_references_state)
  obtain rows where rows: "s2 = ?s1\<lparr>next_id := next_id ?s1 + length (ni_lines payload),
        invoice_lines := invoice_lines ?s1 @ rows\<rparr>"
    "c = sum_list (map line_total (ni_lines payload))" "map il_line_total rows = map line_total (ni_lines payload)"
    "map il_quantity rows = map (\<lambda>l. numeric_scale 4 (nl_quantity l)) (ni_lines payload)"
    "map il_unit_price rows = map (\<lambda>l. numeric_scale 2 (nl_unit_price l)) (ni_lines payload)"
    "\<forall>l \<in> set rows. il_invoice_id l = next_id s \<and> il_tenant_id l = t"
    using add_lines_ok[OF c] by blast
  have id: "iv_id ?draft = next_id s" by (simp add: draft_invoice_def)
  have s3': "invoices s3 = invoices s @ [set_totals c ?draft]"
    using s3 by (simp add: svc_ok rows(1) row_update_last[OF fresh id])
  obtain logs where s': "s' = s3\<lparr>invoices := invoices s @ [if ni_issue payload
        then projr (issue_invoice mo (set_totals c ?draft)) else set_totals c ?draft],
      audit_logs := logs, usage_events := row_insert (invoice_event mo t (next_id s)) (usage_events s3)\<rparr>"
    using finish_invoice_ok[OF fin s3' _ _ fresh] by (auto simp: set_totals_def draft_invoice_def)
  have s3'': "s3 = s2\<lparr>invoices := invoices s @ [set_totals c ?draft]\<rparr>"
    using s3 by (simp add: svc_ok rows(1) row_update_last[OF fresh id])
  have "s' = s\<lparr>next_id := Suc (next_id s) + length (ni_lines payload),
      invoices := invoices s @ [created_invoice mo (next_id s) t u (next_invoice_number (mo_year mo) t s) payload],
      invoice_lines := invoice_lines s @ rows, audit_logs := logs,
      usage_events := row_insert (invoice_event mo t (next_id s)) (usage_events s)\<rparr>"
    unfolding s' s3'' rows(1) created_invoice_def Let_def rows(2) by simp
  then show ?thesis using check rows(3-6) by blast
qed

subsection \<open>What an allocation writes\<close>

text \<open>The columns of an invoice that only its creation writes.\<close>

definition header :: "invoice \<Rightarrow> uuid \<times> uuid \<times> cents \<times> cents \<times> cents \<times> string" where
  "header iv = (iv_id iv, iv_tenant_id iv, iv_subtotal iv, iv_tax_amount iv, iv_total iv, iv_invoice_number iv)"

text \<open>All a session holds for the invariants but the paid amounts, the payments and the allocations.\<close>

definition backdrop where
  "backdrop s = (map header (invoices s), map (\<lambda>iv. (iv_tenant_id iv, iv_created_at iv)) (invoices s), invoice_lines s, subscriptions s, usage_limits s, usage_events s)"

lemma allocate_one_ok:
  assumes run: "allocate_one mo t p item s = (Inr x, s')" and ok: "ledger_ok pending s"
    and p: "p \<in> set (payments s)" "pm_tenant_id p = t" and pos: "0 < na_amount item"
  shows "ledger_ok (pending(pm_id p := pending (pm_id p) + na_amount item)) s'"
    and "payments s' = payments s" and "backdrop s' = backdrop s"
proof -
  let ?f = "\<lambda>r. refresh_overdue_status mo (update_invoice_payment_status mo
      (r\<lparr>iv_amount_paid := iv_amount_paid r + na_amount item\<rparr>))"
  let ?a = "\<lparr>al_id = next_id s, al_tenant_id = t, al_payment_id = pm_id p,
      al_invoice_id = na_invoice_id item, al_amount = na_amount item, al_notes = na_notes item\<rparr>"
  obtain iv where iv: "get_invoice t (na_invoice_id item) s = Some iv"
    "\<not> na_amount item > iv_total iv - iv_amount_paid iv"
    and s': "s' = s\<lparr>next_id := Suc (next_id s), allocations := row_insert ?a (allocations s),
      invoices := row_update iv_id (na_invoice_id item) ?f (invoices s)\<rparr>"
  proof -
    obtain iv where "get_invoice t (na_invoice_id item) s = Some iv"
      "\<not> na_amount item > iv_total iv - iv_amount_paid iv"
      "s' = s\<lparr>next_id := Suc (next_id s), allocations := row_insert (?a\<lparr>al_invoice_id := iv_id iv\<rparr>) (allocations s),
        invoices := row_update iv_id (iv_id iv) ?f (invoices s)\<rparr>"
      using run by (auto simp: allocate_one_def svc_ok insert_allocation_def)
    then show thesis using that get_invoice_Some[of t "na_invoice_id item" s iv] by simp
  qed
  have row: "iv \<in> set (invoices s)" "iv_id iv = na_invoice_id item" "iv_tenant_id iv = t"
    using get_invoice_Some[OF iv(1)] by auto
  have "ledger_ok (pending(al_payment_id ?a := pending (al_payment_id ?a) + al_amount ?a)) s'"
    by (rule ledger_allocate[OF ok row(1) _ _ p(1), where f = ?f])
      (use row p iv(2) pos in \<open>simp_all add: s'\<close>)
  then show "ledger_ok (pending(pm_id p := pending (pm_id p) + na_amount item)) s'" by simp
  show "payments s' = payments s" by (simp add: s')
  have "map header (row_update iv_id k ?f rows) = map header rows"
    "map (\<lambda>iv. (iv_tenant_id iv, iv_created_at iv)) (row_update iv_id k ?f rows) =
      map (\<lambda>iv. (iv_tenant_id iv, iv_created_at iv)) rows" for k rows
    by (rule map_row_update; simp add: header_def)+
  then show "backdrop s' = backdrop s" by (simp add: backdrop_def s')
qed

text \<open>
  What an allocation is to make of the books: the status of an invoice that has been paid in part or in
  full, the invoice with its share, and the rows of the allocations.
\<close>

definition settled_status :: "day \<Rightarrow> cents \<Rightarrow> invoice \<Rightarrow> InvoiceStatus" where
  "settled_status today paid iv =
     (if iv_total iv \<le> paid then InvoiceStatus_PAID
      else if (\<exists>d. iv_due_date iv = Some d \<and> d < today) then InvoiceStatus_OVERDUE
      else InvoiceStatus_PARTIAL)"

definition settle_invoice :: "day \<Rightarrow> allocation_item list \<Rightarrow> invoice \<Rightarrow> invoice" where
  "settle_invoice today requested iv =
     (case map_of (map (\<lambda>item. (na_invoice_id item, na_amount item)) requested) (iv_id iv) of
        None \<Rightarrow> iv
      | Some a \<Rightarrow> iv\<lparr>iv_amount_paid := iv_amount_paid iv + a,
                    iv_status := settled_status today (iv_amount_paid iv + a) iv\<rparr>)"

fun allocation_rows :: "uuid \<Rightarrow> uuid \<Rightarrow> uuid \<Rightarrow> allocation_item list \<Rightarrow> payment_allocation list" where
  "allocation_rows t p k [] = []"
| "allocation_rows t p k (item # requested) =
     \<lparr>al_id = k, al_tenant_id = t, al_payment_id = p, al_invoice_id = na_invoice_id item,
      al_amount = na_amount item, al_notes = na_notes item\<rparr> # allocation_rows t p (Suc k) requested"

lemma pay_share:
  assumes "0 < paid"
  shows "refresh_overdue_status mo (update_invoice_payment_status mo (iv\<lparr>iv_amount_paid := paid\<rparr>)) =
    iv\<lparr>iv_amount_paid := paid, iv_status := settled_status (mo_today mo) paid iv\<rparr>"
  using assms
  by (auto simp: update_invoice_payment_status_def refresh_overdue_status_def settled_status_def split: option.split)

lemma allocate_one_run:
  assumes run: "allocate_one mo t p item s = (Inr x, s')" and ok: "ledger_ok pending s"
    and pos: "0 < na_amount item"
  shows "\<exists>iv. get_invoice t (na_invoice_id item) s = Some iv \<and>
    iv_amount_paid iv + na_amount item \<le> iv_total iv \<and>
    get_allocation t (pm_id p) (na_invoice_id item) s = None \<and>
    s' = s\<lparr>next_id := Suc (next_id s),
      allocations := allocations s @ allocation_rows t (pm_id p) (next_id s) [item],
      invoices := map (settle_invoice (mo_today mo) [item]) (invoices s)\<rparr>"
proof -
  let ?f = "\<lambda>r. refresh_overdue_status mo (update_invoice_payment_status mo
      (r\<lparr>iv_amount_paid := iv_amount_paid r + na_amount item\<rparr>))"
  obtain iv where iv: "get_invoice t (na_invoice_id item) s = Some iv"
    "iv_amount_paid iv + na_amount item \<le> iv_total iv" "get_allocation t (pm_id p) (iv_id iv) s = None"
    "s' = s\<lparr>next_id := Suc (next_id s), allocations := allocations s @
        [\<lparr>al_id = next_id s, al_tenant_id = t, al_payment_id = pm_id p, al_invoice_id = iv_id iv,
          al_amount = na_amount item, al_notes = na_notes item\<rparr>],
      invoices := row_update iv_id (iv_id iv) ?f (invoices s)\<rparr>"
    using run by (auto simp: allocate_one_def svc_ok insert_allocation_def row_insert_def)
  have id: "iv_id iv = na_invoice_id item" using get_invoice_Some[OF iv(1)] by simp
  have "0 \<le> al_amount a" if "a \<in> set (allocations s)" for a
    using ledger_okD(5)[OF ok that] by (simp add: allocation_ok_def)
  then have "0 \<le> paid_to k s" for k unfolding paid_to_def by (intro sum_list_nonneg) auto
  then have "?f r = settle_invoice (mo_today mo) [item] r"
    if "r \<in> set (invoices s)" "iv_id r = na_invoice_id item" for r
    using that ledger_okD(3)[OF ok that(1)] pos pay_share[of "iv_amount_paid r + na_amount item" mo r]
    by (simp add: settle_invoice_def invoice_ok_def add_nonneg_pos)
  moreover have "settle_invoice (mo_today mo) [item] r = r" if "iv_id r \<noteq> na_invoice_id item" for r
    using that by (simp add: settle_invoice_def)
  ultimately have "row_update iv_id (iv_id iv) ?f (invoices s) =
      map (settle_invoice (mo_today mo) [item]) (invoices s)"
    by (auto simp: row_update_def id)
  then show ?thesis using iv id by (intro exI[of _ iv]) simp
qed

lemma allocate_all_ok:
  assumes "for_each requested (allocate_one mo t p) s = (Inr x, s')" and "ledger_ok (settled(pm_id p := n)) s"
    and "p \<in> set (payments s)" "pm_tenant_id p = t" and "\<forall>item \<in> set requested. 0 < na_amount item"
  shows "ledger_ok (settled(pm_id p := n + sum_list (map na_amount requested))) s' \<and>
    payments s' = payments s \<and> backdrop s' = backdrop s"
  using assms
proof (induction requested arbitrary: s n)
  case Nil
  then show ?case by (simp add: svc_ok)
next
  case (Cons item requested)
  then obtain s1 where s1: "allocate_one mo t p item s = (Inr (), s1)"
    "for_each requested (allocate_one mo t p) s1 = (Inr x, s')"
    by (auto simp: svc_ok)
  note one = allocate_one_ok[OF s1(1) Cons.prems(2-4)]
  have "ledger_ok (settled(pm_id p := n + na_amount item)) s1"
    using one(1) Cons.prems(5) by (simp add: fun_upd_def cong: if_cong)
  from Cons.IH[OF s1(2) this] show ?case
    using one(2,3) Cons.prems(3-5) by (simp add: add.assoc)
qed

text \<open>
  The whole loop: no invoice is named twice, each has room for its share, and the state it leaves is
  the one the specification says.
\<close>

lemma settle_two:
  assumes "na_invoice_id item \<notin> na_invoice_id ` set requested"
  shows "settle_invoice today requested (settle_invoice today [item] iv) = settle_invoice today (item # requested) iv"
proof -
  have "map_of (map (\<lambda>item. (na_invoice_id item, na_amount item)) requested) (na_invoice_id item) = None"
    using assms by (simp add: map_of_eq_None_iff image_image)
  then show ?thesis by (simp add: settle_invoice_def split: option.split)
qed

lemma get_invoice_settled_other:
  assumes "k \<notin> na_invoice_id ` set requested" and "invoices s' = map (settle_invoice today requested) (invoices s)"
  shows "get_invoice t k s' = get_invoice t k s"
proof -
  have keeps: "settle_invoice today requested r = r" if "iv_id r = k" for r
  proof -
    have "map_of (map (\<lambda>item. (na_invoice_id item, na_amount item)) requested) k = None"
      using assms(1) by (simp add: map_of_eq_None_iff image_image)
    then show ?thesis using that by (simp add: settle_invoice_def)
  qed
  have key: "iv_id (settle_invoice today requested r) = iv_id r"
    "iv_tenant_id (settle_invoice today requested r) = iv_tenant_id r" for r
    by (simp_all add: settle_invoice_def split: option.split)
  have "row_find (\<lambda>r. iv_tenant_id r = t \<and> iv_id r = k) (map (settle_invoice today requested) rows) =
      row_find (\<lambda>r. iv_tenant_id r = t \<and> iv_id r = k) rows" for rows
    by (induction rows) (auto simp: key keeps)
  then show ?thesis by (simp add: get_invoice_def scoped_get_def assms(2))
qed

lemma get_allocation_later:
  assumes "get_allocation t p k s' = None" and "allocations s' = allocations s @ rows"
  shows "get_allocation t p k s = None" and "\<And>a. a \<in> set rows \<Longrightarrow>
    \<not> (al_tenant_id a = t \<and> al_payment_id a = p \<and> al_invoice_id a = k)"
  using assms by (auto simp: get_allocation_def row_find_None)

lemma allocate_all_run:
  assumes "for_each requested (allocate_one mo t p) s = (Inr x, s')" and "ledger_ok (settled(pm_id p := n)) s"
    and "p \<in> set (payments s)" "pm_tenant_id p = t" and "\<forall>item \<in> set requested. 0 < na_amount item"
  shows "distinct (map na_invoice_id requested) \<and>
    (\<forall>item \<in> set requested. get_allocation t (pm_id p) (na_invoice_id item) s = None \<and>
      (\<exists>iv. get_invoice t (na_invoice_id item) s = Some iv \<and> iv_amount_paid iv + na_amount item \<le> iv_total iv)) \<and>
    s' = s\<lparr>next_id := next_id s + length requested,
      allocations := allocations s @ allocation_rows t (pm_id p) (next_id s) requested,
      invoices := map (settle_invoice (mo_today mo) requested) (invoices s)\<rparr>"
  using assms
proof (induction requested arbitrary: s n)
  case Nil
  then show ?case by (simp add: svc_ok settle_invoice_def)
next
  case (Cons item requested)
  then obtain s1 where s1: "allocate_one mo t p item s = (Inr (), s1)"
    "for_each requested (allocate_one mo t p) s1 = (Inr x, s')"
    by (auto simp: svc_ok)
  have pos: "0 < na_amount item" using Cons.prems(5) by simp
  obtain iv where iv: "get_invoice t (na_invoice_id item) s = Some iv"
    "iv_amount_paid iv + na_amount item \<le> iv_total iv" "get_allocation t (pm_id p) (na_invoice_id item) s = None"
    and state: "s1 = s\<lparr>next_id := Suc (next_id s),
      allocations := allocations s @ allocation_rows t (pm_id p) (next_id s) [item],
      invoices := map (settle_invoice (mo_today mo) [item]) (invoices s)\<rparr>"
    using allocate_one_run[OF s1(1) Cons.prems(2) pos] by blast
  note one = allocate_one_ok[OF s1(1) Cons.prems(2-4) pos]
  have led: "ledger_ok (settled(pm_id p := n + na_amount item)) s1"
    using one(1) by (simp add: fun_upd_def cong: if_cong)
  have mem: "p \<in> set (payments s1)" and later: "\<forall>item \<in> set requested. 0 < na_amount item"
    using one(2) Cons.prems(3,5) by simp_all
  have IH: "distinct (map na_invoice_id requested)"
    "\<forall>item \<in> set requested. get_allocation t (pm_id p) (na_invoice_id item) s1 = None \<and>
      (\<exists>iv. get_invoice t (na_invoice_id item) s1 = Some iv \<and> iv_amount_paid iv + na_amount item \<le> iv_total iv)"
    "s' = s1\<lparr>next_id := next_id s1 + length requested,
      allocations := allocations s1 @ allocation_rows t (pm_id p) (next_id s1) requested,
      invoices := map (settle_invoice (mo_today mo) requested) (invoices s1)\<rparr>"
    using Cons.IH[OF s1(2) led mem Cons.prems(4) later] by blast+
  have rows: "allocations s1 = allocations s @ allocation_rows t (pm_id p) (next_id s) [item]"
    and ivs: "invoices s1 = map (settle_invoice (mo_today mo) [item]) (invoices s)"
    by (simp_all add: state)
  have new: "na_invoice_id item \<notin> na_invoice_id ` set requested"
  proof
    assume "na_invoice_id item \<in> na_invoice_id ` set requested"
    then obtain other where "other \<in> set requested" "na_invoice_id other = na_invoice_id item" by auto
    with IH(2) have "get_allocation t (pm_id p) (na_invoice_id item) s1 = None" by metis
    from get_allocation_later(2)[OF this rows] show False by simp
  qed
  have older: "get_allocation t (pm_id p) (na_invoice_id other) s = None \<and>
      (\<exists>iv. get_invoice t (na_invoice_id other) s = Some iv \<and> iv_amount_paid iv + na_amount other \<le> iv_total iv)"
    if "other \<in> set requested" for other
  proof -
    have "na_invoice_id other \<noteq> na_invoice_id item" using new that by (metis image_eqI)
    then have "na_invoice_id other \<notin> na_invoice_id ` set [item]" by simp
    from get_invoice_settled_other[OF this ivs] get_allocation_later(1)[OF _ rows]
    show ?thesis using IH(2) that by metis
  qed
  have "map (settle_invoice (mo_today mo) requested) (invoices s1) =
      map (settle_invoice (mo_today mo) (item # requested)) (invoices s)"
    by (simp add: ivs settle_two[OF new])
  then have "s' = s\<lparr>next_id := next_id s + length (item # requested),
      allocations := allocations s @ allocation_rows t (pm_id p) (next_id s) (item # requested),
      invoices := map (settle_invoice (mo_today mo) (item # requested)) (invoices s)\<rparr>"
    unfolding IH(3) by (simp add: state)
  then show ?case using IH(1) new iv older by simp
qed

lemma allocate_payment_ok:
  assumes run: "allocate_payment mo t u i requested s = (Inr r, s')" and ok: "ledger_ok settled s"
    and pos: "\<forall>item \<in> set requested. 0 < na_amount item"
  shows "ledger_ok settled s'" and "backdrop s' = backdrop s"
    and "\<exists>p. get_payment t i s = Some p \<and> pm_status p = PaymentStatus_COMPLETED \<and>
      pm_amount_allocated p + sum_list (map na_amount requested) \<le> pm_amount p"
    and "distinct (map na_invoice_id requested) \<and> (\<forall>item \<in> set requested.
      \<exists>iv. get_invoice t (na_invoice_id item) s = Some iv \<and> iv_amount_paid iv + na_amount item \<le> iv_total iv)"
    and "s' = s\<lparr>next_id := next_id s + length requested,
      allocations := allocations s @ allocation_rows t i (next_id s) requested,
      invoices := map (settle_invoice (mo_today mo) requested) (invoices s),
      payments := row_update pm_id i (\<lambda>r. r\<lparr>pm_amount_allocated := pm_amount_allocated r +
        sum_list (map na_amount requested), pm_updated_by_user_id := us_id u\<rparr>) (payments s)\<rparr>"
proof -
  let ?n = "sum_list (map na_amount requested)"
  let ?f = "\<lambda>r. r\<lparr>pm_amount_allocated := pm_amount_allocated r + ?n, pm_updated_by_user_id := us_id u\<rparr>"
  obtain p s1 where p: "get_payment t i s = Some p" "pm_status p = PaymentStatus_COMPLETED"
    "\<not> ?n > pm_amount p - pm_amount_allocated p"
    and s1: "for_each requested (allocate_one mo t p) s = (Inr (), s1)"
    and s': "s' = s1\<lparr>payments := row_update pm_id i ?f (payments s1)\<rparr>"
    using run
    by (auto simp: allocate_payment_def svc_ok service_get_payment_def write_payment_def)
  have row: "p \<in> set (payments s)" "pm_tenant_id p = t" "pm_id p = i"
    using get_payment_Some[OF p(1)] by auto
  have start: "ledger_ok (settled(pm_id p := 0)) s" using ok by (simp add: settled_def fun_upd_def)
  note all = allocate_all_ok[OF s1 start row(1,2) pos]
  show "ledger_ok settled s'"
    by (rule ledger_settle[of i ?n s1 p ?f]) (use all row p(3) in \<open>simp_all add: s'\<close>)
  show "backdrop s' = backdrop s" using all by (simp add: s' backdrop_def)
  show "\<exists>p. get_payment t i s = Some p \<and> pm_status p = PaymentStatus_COMPLETED \<and>
      pm_amount_allocated p + ?n \<le> pm_amount p"
    using p by (intro exI[of _ p]) linarith
  note runs = allocate_all_run[OF s1 start row(1,2) pos]
  then show "distinct (map na_invoice_id requested) \<and> (\<forall>item \<in> set requested.
      \<exists>iv. get_invoice t (na_invoice_id item) s = Some iv \<and> iv_amount_paid iv + na_amount item \<le> iv_total iv)"
    by blast
  show "s' = s\<lparr>next_id := next_id s + length requested,
      allocations := allocations s @ allocation_rows t i (next_id s) requested,
      invoices := map (settle_invoice (mo_today mo) requested) (invoices s),
      payments := row_update pm_id i ?f (payments s)\<rparr>"
    using runs by (simp add: s' row(3))
qed

lemma header_of_fixed: "fixed_part a = fixed_part b \<Longrightarrow> header a = header b"
  by (simp add: fixed_part_def header_def)

lemma update_invoice_ok:
  assumes run: "update_invoice mo t u i payload s = (Inr r, s')" and ok: "ledger_ok settled s"
  shows "\<exists>iv moved. get_invoice t i s = Some iv \<and>
      (case iu_status payload of None \<Rightarrow> moved = iv | Some st \<Rightarrow> transition_status mo st iv = Inr moved) \<and>
      s' = s\<lparr>invoices := row_update iv_id i (\<lambda>_. apply_invoice_update mo u payload moved) (invoices s)\<rparr>"
    and "ledger_ok settled s'" and "backdrop s' = backdrop s"
proof -
  obtain iv moved where iv: "get_invoice t i s = Some iv"
    and moved: "case iu_status payload of None \<Rightarrow> moved = iv | Some st \<Rightarrow> transition_status mo st iv = Inr moved"
    and s': "s' = s\<lparr>invoices := row_update iv_id i (\<lambda>_. apply_invoice_update mo u payload moved) (invoices s)\<rparr>"
    using run by (cases "iu_status payload") (auto simp: update_invoice_def svc_ok)
  then show "\<exists>iv moved. get_invoice t i s = Some iv \<and>
      (case iu_status payload of None \<Rightarrow> moved = iv | Some st \<Rightarrow> transition_status mo st iv = Inr moved) \<and>
      s' = s\<lparr>invoices := row_update iv_id i (\<lambda>_. apply_invoice_update mo u payload moved) (invoices s)\<rparr>"
    by blast
  have row: "iv \<in> set (invoices s)" "iv_id iv = i" using get_invoice_Some[OF iv] by auto
  have fixed: "fixed_part (apply_invoice_update mo u payload moved) = fixed_part iv"
    using moved by (auto simp: apply_invoice_update_keeps dest: transition_status_keeps split: option.splits)
  have same: "map g (invoices s') = map g (invoices s)"
    if g: "\<And>a b. fixed_part a = fixed_part b \<Longrightarrow> g a = g b" for g :: "invoice \<Rightarrow> 'b"
  proof -
    have "g (if iv_id x = i then apply_invoice_update mo u payload moved else x) = g x" if "x \<in> set (invoices s)" for x
      using distinct_keys_eq[OF ledger_okD(1)[OF ok] that row(1)] row(2) g[OF fixed] by auto
    then show ?thesis by (simp add: s' row_update_def)
  qed
  show "ledger_ok settled s'"
    by (rule ledger_ok_frame[OF ok same]) (simp_all add: s' fixed_part_def)
  have "map header (invoices s') = map header (invoices s)" by (rule same) (rule header_of_fixed)
  moreover have "map (\<lambda>iv. (iv_tenant_id iv, iv_created_at iv)) (invoices s') =
      map (\<lambda>iv. (iv_tenant_id iv, iv_created_at iv)) (invoices s)" by (rule same) (simp add: fixed_part_def)
  ultimately show "backdrop s' = backdrop s" by (simp add: backdrop_def s')
qed

lemma create_payment_ok:
  assumes run: "create_payment mo t u payload s = (Inr r, s')" and ok: "ledger_ok settled s"
    and "0 \<le> nm_amount payload"
  shows "ledger_ok settled s'" and "backdrop s' = backdrop s"
proof -
  obtain direction status where
    "insert_payment (new_payment (next_id s) t u (next_payment_number (mo_year mo) t s) direction status payload)
      (s\<lparr>next_id := Suc (next_id s)\<rparr>) = (Inr (), s')"
    using run by (auto simp: create_payment_def svc_ok split: option.splits prod.splits)
  moreover define p where "p = new_payment (next_id s) t u (next_payment_number (mo_year mo) t s) direction status payload"
  ultimately have s': "s' = s\<lparr>next_id := Suc (next_id s), payments := row_insert p (payments s)\<rparr>"
    by (simp add: insert_payment_def svc_ok)
  have p: "pm_id p = next_id s" "pm_amount_allocated p = 0" "pm_amount p = nm_amount payload"
    by (simp_all add: p_def new_payment_def)
  show "ledger_ok settled s'"
    by (rule ledger_insert_payment[OF ok p(1,2)]) (use p(3) assms(3) in \<open>simp_all add: s'\<close>)
  show "backdrop s' = backdrop s" by (simp add: s' backdrop_def)
qed

lemma delete_item_ok:
  assumes "delete_item t i s = (Inr x, s')"
  shows "\<exists>c f. (\<forall>l. il_invoice_id (f l) = il_invoice_id l \<and> il_line_total (f l) = il_line_total l \<and>
        il_quantity (f l) = il_quantity l \<and> il_unit_price (f l) = il_unit_price l \<and>
        il_tenant_id (f l) = il_tenant_id l) \<and>
      s' = s\<lparr>catalog_items := filter (\<lambda>r. ci_id r \<noteq> c) (catalog_items s),
        price_items := filter (\<lambda>r. px_catalog_item_id r \<noteq> c) (price_items s),
        invoice_lines := map f (invoice_lines s)\<rparr>"
proof -
  obtain c :: catalog_item where "delete_item_row (ci_id c) s = (Inr x, s')"
    using assms by (auto simp: delete_item_def svc_ok get_item_or_404_def)
  then have c: "s' = snd (delete_item_row (ci_id c) s)" by simp
  show ?thesis
    by (rule exI[of _ "ci_id c"],
        rule exI[of _ "\<lambda>l. if il_catalog_item_id l = Some (ci_id c) then l\<lparr>il_catalog_item_id := None\<rparr> else l"])
      (simp add: c delete_item_row_def modify_def)
qed

end
