(* ===== verification/Finance_Properties.thy ===== *)
theory Finance_Properties
  imports Finance_Runs Complex_Main
begin

text \<open>
  The properties of finance over every session its services, the catalog's and accounting's reach:
  money is conserved, nothing is overpaid, totals are the lines, invoice numbers never collide, and the
  plan's limit of invoices holds.
\<close>

subsection \<open>Numbers of invoices\<close>

definition digits_value :: "string \<Rightarrow> nat" where
  "digits_value ds = foldl (\<lambda>a c. 10 * a + (of_char c - 48)) 0 ds"

lemma digits_value_snoc: "digits_value (ds @ [c]) = 10 * digits_value ds + (of_char c - 48)"
  by (simp add: digits_value_def)

lemma digits_value_nat_str: "digits_value (nat_str n) = n"
proof (induction n rule: nat_str.induct)
  case (1 n)
  show ?case
  proof (cases "n < 10")
    case True
    then show ?thesis by (simp add: nat_str.simps[of n] digits_value_def)
  next
    case False
    then show ?thesis using 1 by (simp add: nat_str.simps[of n] digits_value_snoc)
  qed
qed

lemma digits_value_zeros: "digits_value (replicate k (CHR 48) @ ds) = digits_value ds"
  by (induction k) (simp_all add: digits_value_def)

lemma pad5_inj: "pad5 m = pad5 n \<Longrightarrow> m = n"
  by (metis digits_value_nat_str digits_value_zeros pad5_def)

lemma digit_not_dash: "d < 10 \<Longrightarrow> (char_of (48 + d) :: char) \<noteq> CHR ''-''" for d :: nat
proof
  assume "d < 10" and "(char_of (48 + d) :: char) = CHR ''-''"
  then have "(of_char (char_of (48 + d) :: char) :: nat) = of_char (CHR ''-'')" by simp
  then show False using \<open>d < 10\<close> by simp
qed

lemma nat_str_digits: "c \<in> set (nat_str n) \<Longrightarrow> c \<noteq> CHR ''-''"
proof (induction n rule: nat_str.induct)
  case (1 n)
  show ?case
  proof (cases "n < 10")
    case True
    then have "c = char_of (48 + n)" using 1(2) by (simp add: nat_str.simps[of n])
    then show ?thesis using digit_not_dash[OF True] by simp
  next
    case False
    then have "c \<in> set (nat_str (n div 10)) \<or> c = char_of (48 + n mod 10)"
      using 1(2) by (auto simp: nat_str.simps[of n])
    then show ?thesis using 1(1)[OF False] digit_not_dash[of "n mod 10"] by fastforce
  qed
qed

lemma pad5_digits: "c \<in> set (pad5 n) \<Longrightarrow> c \<noteq> CHR ''-''"
  by (auto simp: pad5_def Let_def dest: nat_str_digits split: if_splits)

lemma last_part_eq:
  assumes "a @ d # x = b @ d # y" and "d \<notin> set x" "d \<notin> set y"
  shows "x = y"
proof -
  have "takeWhile (\<lambda>c. c \<noteq> d) (rev (l @ d # r)) = rev r" if "d \<notin> set r" for l r
    using that by (induction r rule: rev_induct) auto
  then show ?thesis using assms by (metis rev_rev_ident)
qed

definition invoice_number :: "nat \<Rightarrow> nat \<Rightarrow> string" where
  "invoice_number year n = ''INV-'' @ nat_str year @ ''-'' @ pad5 n"

lemma invoice_number_inj: "invoice_number y m = invoice_number z n \<Longrightarrow> m = n"
  unfolding invoice_number_def
  using last_part_eq[of "''INV-'' @ nat_str y" "CHR ''-''" "pad5 m" "''INV-'' @ nat_str z" "pad5 n"]
  by (auto dest: pad5_digits pad5_inj)

subsection \<open>The invariant\<close>

definition tenant_numbers :: "uuid \<Rightarrow> 'z finance_db_scheme \<Rightarrow> string list" where
  "tenant_numbers t s = map (\<lambda>(i, t', st, tax, tot, n). n)
     (filter (\<lambda>(i, t', st, tax, tot, n). t' = t) (map header (invoices s)))"

definition numbers_ok :: "'z finance_db_scheme \<Rightarrow> bool" where
  "numbers_ok s \<longleftrightarrow> (\<forall>t k. k < length (tenant_numbers t s) \<longrightarrow>
     (\<exists>y. tenant_numbers t s ! k = invoice_number y (Suc k)))"

definition line_sum :: "uuid \<Rightarrow> invoice_line list \<Rightarrow> cents" where
  "line_sum i ls = sum_list (map il_line_total (filter (\<lambda>l. il_invoice_id l = i) ls))"

text \<open>
  The total of a line is computed from the numbers of the request; the quantity and the price are stored
  to four and two places.  \<open>line_ok\<close> says that the line came from some request.
\<close>

definition line_ok :: "invoice_line \<Rightarrow> bool" where
  "line_ok l \<longleftrightarrow> (\<exists>q p. il_quantity l = numeric_scale 4 q \<and> il_unit_price l = numeric_scale 2 p \<and>
     il_line_total l = quantize_cents (decimal_mult q p))"

definition totals_ok :: "'z finance_db_scheme \<Rightarrow> bool" where
  "totals_ok s \<longleftrightarrow>
     (\<forall>(i, t, st, tax, tot, n) \<in> set (map header (invoices s)). st = tot \<and> tax = 0 \<and> tot = line_sum i (invoice_lines s)) \<and>
     (\<forall>l \<in> set (invoice_lines s). il_invoice_id l \<in> fst ` set (map header (invoices s)) \<and> line_ok l)"

text \<open>Every invoice of a tenant was metered when it was created, by an event of quantity one.\<close>

definition metered :: "'z finance_db_scheme \<Rightarrow> bool" where
  "metered s \<longleftrightarrow> (\<forall>t. map (\<lambda>(t', c). (c, 1)) (filter (\<lambda>(t', c). t' = t)
       (map (\<lambda>iv. (iv_tenant_id iv, iv_created_at iv)) (invoices s))) =
     map (\<lambda>e. (ue_created_at e, ue_quantity e))
       (filter (\<lambda>e. ue_tenant_id e = t \<and> ue_limit_code e = ''finance.invoices'') (usage_events s)))"

definition finance_ok :: "'z finance_db_scheme \<Rightarrow> bool" where
  "finance_ok s \<longleftrightarrow> ledger_ok settled s \<and> totals_ok s \<and> numbers_ok s \<and> usage_within s \<and> metered s"

lemma backdrop_frame:
  assumes "backdrop s' = backdrop s" "totals_ok s" "numbers_ok s" "usage_within s" "metered s"
  shows "totals_ok s' \<and> numbers_ok s' \<and> usage_within s' \<and> metered s'"
proof -
  have eq: "map header (invoices s') = map header (invoices s)"
    "map (\<lambda>iv. (iv_tenant_id iv, iv_created_at iv)) (invoices s') =
      map (\<lambda>iv. (iv_tenant_id iv, iv_created_at iv)) (invoices s)" "invoice_lines s' = invoice_lines s"
    "subscriptions s' = subscriptions s" "usage_limits s' = usage_limits s" "usage_events s' = usage_events s"
    using assms(1) by (simp_all add: backdrop_def)
  have "totals_ok s'" using assms(2) unfolding totals_ok_def eq .
  moreover have "numbers_ok s'" using assms(3) unfolding numbers_ok_def tenant_numbers_def eq .
  moreover have "usage_within s'"
    using assms(4)
    unfolding usage_within_def get_active_for_tenant_def get_plan_limit_def latest_def sum_usage_def eq .
  moreover have "metered s'" using assms(5) unfolding metered_def eq .
  ultimately show ?thesis by blast
qed

lemma number_of_next: "next_invoice_number y t s = invoice_number y (Suc (length (tenant_numbers t s)))"
proof -
  have "length (filter (\<lambda>i. iv_tenant_id i = t) xs) =
      length (filter (\<lambda>(i, t', st, tax, tot, n). t' = t) (map header xs))" for xs
    by (induction xs) (auto simp: header_def)
  then show ?thesis by (simp add: next_invoice_number_def invoice_number_def tenant_numbers_def)
qed

lemma totals_new:
  assumes ok: "totals_ok s" and fresh: "next_id s \<notin> iv_id ` set (invoices s)"
    and s': "invoices s' = invoices s @ [iv]" "invoice_lines s' = invoice_lines s @ rows"
    and iv: "iv_id iv = next_id s" "iv_subtotal iv = c" "iv_tax_amount iv = 0" "iv_total iv = c"
    and rows: "c = sum_list (map il_line_total rows)" "\<forall>l \<in> set rows. il_invoice_id l = next_id s \<and> line_ok l"
  shows "totals_ok s'"
proof -
  have old: "il_invoice_id l \<noteq> next_id s" if "l \<in> set (invoice_lines s)" for l
    using ok that fresh unfolding totals_ok_def by (fastforce simp: header_def image_iff)
  have "filter (\<lambda>l. il_invoice_id l = next_id s) (invoice_lines s) = []"
    using old by (auto simp: filter_empty_conv)
  moreover have "filter (\<lambda>l. il_invoice_id l = next_id s) rows = rows" using rows(2) by simp
  ultimately have new: "line_sum (next_id s) (invoice_lines s') = c"
    by (simp add: line_sum_def s' rows(1))
  have same: "line_sum i (invoice_lines s') = line_sum i (invoice_lines s)" if "i \<noteq> next_id s" for i
  proof -
    have "filter (\<lambda>l. il_invoice_id l = i) rows = []" using rows(2) that by (auto simp: filter_empty_conv)
    then show ?thesis by (simp add: line_sum_def s')
  qed
  have ids: "iv_id x \<noteq> next_id s" if "x \<in> set (invoices s)" for x using fresh that by (auto simp: image_iff)
  show ?thesis
    using ok ids same new iv rows(2) unfolding totals_ok_def s'
    by (auto simp: header_def image_iff)
qed

lemma numbers_new:
  assumes ok: "numbers_ok s" and s': "invoices s' = invoices s @ [iv]"
    and iv: "iv_tenant_id iv = t" "iv_invoice_number iv = next_invoice_number y t s"
  shows "numbers_ok s'"
proof -
  have "tenant_numbers t' s' = tenant_numbers t' s @
      (if t' = t then [invoice_number y (Suc (length (tenant_numbers t s)))] else [])" for t'
    using iv by (simp add: tenant_numbers_def s' header_def number_of_next)
  then show ?thesis
    using ok unfolding numbers_ok_def by (auto simp: nth_append less_Suc_eq split: if_splits)
qed

lemma usage_new:
  assumes ok: "usage_within s" and now: "latest (mo_utc mo) s"
    and check: "assert_within_limit (mo_utc mo) t ''finance.invoices'' 1 s = (Inr (), s)"
    and s': "subscriptions s' = subscriptions s" "usage_limits s' = usage_limits s"
      "usage_events s' = row_insert (invoice_event mo t i) (usage_events s)"
  shows "usage_within s'"
proof -
  let ?r = "snd (record_usage_event (mo_utc mo) t ''finance.invoices'' 1 (JObj [(''invoice_id'', JId i)]) s)"
  have "usage_within ?r" by (rule usage_within_record[OF ok now check])
  moreover have "subscriptions ?r = subscriptions s'" "usage_limits ?r = usage_limits s'"
    "usage_events ?r = usage_events s'"
    by (simp_all add: record_usage_event_def modify_def s' invoice_event_def)
  ultimately show ?thesis
    unfolding usage_within_def get_active_for_tenant_def get_plan_limit_def latest_def sum_usage_def by simp
qed

lemma metered_new:
  assumes ok: "metered s" and s': "invoices s' = invoices s @ [iv]"
      "usage_events s' = row_insert (invoice_event mo t i) (usage_events s)"
    and iv: "iv_tenant_id iv = t" "iv_created_at iv = mo_utc mo"
  shows "metered s'"
  using ok iv unfolding metered_def s' row_insert_def by (simp add: invoice_event_def)

text \<open>So the usage since an instant is the number of invoices created since.\<close>

lemma count_by_time:
  fixes rows :: "'r list" and evs :: "usage_event list"
  assumes "map (\<lambda>r. (time r, 1)) rows = map (\<lambda>e. (ue_created_at e, ue_quantity e)) evs"
  shows "int (length (filter (\<lambda>r. dt_le since (time r)) rows)) =
    sum_list (map ue_quantity (filter (\<lambda>e. dt_le since (ue_created_at e)) evs))"
  using assms
proof (induction rows arbitrary: evs)
  case Nil
  then show ?case by simp
next
  case (Cons r rows)
  then obtain e rest where "evs = e # rest" "ue_created_at e = time r" "ue_quantity e = 1"
    "map (\<lambda>r. (time r, 1)) rows = map (\<lambda>e. (ue_created_at e, ue_quantity e)) rest"
    by (cases evs) auto
  with Cons.IH[of rest] show ?case by simp
qed

lemma metered_count:
  assumes "metered s"
  shows "int (length (filter (\<lambda>iv. iv_tenant_id iv = t \<and> dt_le since (iv_created_at iv)) (invoices s))) =
    sum_usage t ''finance.invoices'' since s"
proof -
  have rows: "map (\<lambda>(t', c). (c, 1)) (filter (\<lambda>(t', c). t' = t) (map (\<lambda>iv. (iv_tenant_id iv, iv_created_at iv)) rows)) =
      map (\<lambda>iv. (iv_created_at iv, 1 :: int)) (filter (\<lambda>iv. iv_tenant_id iv = t) rows)" for rows
    by (induction rows) auto
  have "map (\<lambda>iv. (iv_created_at iv, 1)) (filter (\<lambda>iv. iv_tenant_id iv = t) (invoices s)) =
      map (\<lambda>e. (ue_created_at e, ue_quantity e))
        (filter (\<lambda>e. ue_tenant_id e = t \<and> ue_limit_code e = ''finance.invoices'') (usage_events s))"
    using spec[OF assms[unfolded metered_def], of t] unfolding rows .
  from count_by_time[OF this, of since] show ?thesis
    by (simp add: sum_usage_def conj_ac)
qed

lemma lines_ok_rows:
  assumes "map il_line_total rows = map line_total ls"
    "map il_quantity rows = map (\<lambda>l. numeric_scale 4 (nl_quantity l)) ls"
    "map il_unit_price rows = map (\<lambda>l. numeric_scale 2 (nl_unit_price l)) ls" and "l \<in> set rows"
  shows "line_ok l"
proof -
  obtain k where k: "k < length rows" "rows ! k = l" using assms(4) by (auto simp: in_set_conv_nth)
  have len: "length ls = length rows" using arg_cong[OF assms(1), of length] by simp
  have "il_line_total l = line_total (ls ! k)" "il_quantity l = numeric_scale 4 (nl_quantity (ls ! k))"
    "il_unit_price l = numeric_scale 2 (nl_unit_price (ls ! k))"
    using arg_cong[OF assms(1), of "\<lambda>xs. xs ! k"] arg_cong[OF assms(2), of "\<lambda>xs. xs ! k"]
      arg_cong[OF assms(3), of "\<lambda>xs. xs ! k"] k len by simp_all
  then show ?thesis unfolding line_ok_def line_total_def by blast
qed

lemma finance_ok_create_invoice:
  assumes ok: "finance_ok s" and run: "create_invoice mo t u payload s = (Inr r, s')" and now: "latest (mo_utc mo) s"
  shows "finance_ok s'"
proof -
  have ledger: "ledger_ok settled s" using ok by (simp add: finance_ok_def)
  have fresh: "next_id s \<notin> iv_id ` set (invoices s)"
    using ledger_okD(3)[OF ledger] by (fastforce simp: invoice_ok_def)
  let ?total = "sum_list (map line_total (ni_lines payload))"
  let ?iv = "created_invoice mo (next_id s) t u (next_invoice_number (mo_year mo) t s) payload"
  obtain rows logs where check: "assert_within_limit (mo_utc mo) t ''finance.invoices'' 1 s = (Inr (), s)"
    and s': "s' = s\<lparr>next_id := Suc (next_id s) + length (ni_lines payload), invoices := invoices s @ [?iv],
      invoice_lines := invoice_lines s @ rows, audit_logs := logs,
      usage_events := row_insert (invoice_event mo t (next_id s)) (usage_events s)\<rparr>"
    and rows: "map il_line_total rows = map line_total (ni_lines payload)"
      "map il_quantity rows = map (\<lambda>l. numeric_scale 4 (nl_quantity l)) (ni_lines payload)"
      "map il_unit_price rows = map (\<lambda>l. numeric_scale 2 (nl_unit_price l)) (ni_lines payload)"
      "\<forall>l \<in> set rows. il_invoice_id l = next_id s \<and> il_tenant_id l = t"
    using create_invoice_ok[OF run fresh] by blast
  have iv: "iv_id ?iv = next_id s" "iv_tenant_id ?iv = t" "iv_subtotal ?iv = ?total" "iv_tax_amount ?iv = 0"
    "iv_total ?iv = ?total" "iv_amount_paid ?iv = 0" "iv_invoice_number ?iv = next_invoice_number (mo_year mo) t s"
    "iv_created_at ?iv = mo_utc mo"
    using created_invoice_fixed[of mo "next_id s" t u "next_invoice_number (mo_year mo) t s" payload]
    by (simp_all add: fixed_part_def)
  have "ledger_ok settled (s\<lparr>next_id := Suc (next_id s), invoices := invoices s @ [?iv]\<rparr>)"
    by (rule ledger_insert_invoice[OF ledger iv(1,6)]) (simp_all add: row_insert_def)
  then have "ledger_ok settled s'" by (rule ledger_ok_frame) (simp_all add: s')
  moreover have "totals_ok s'" 
    by (rule totals_new[OF _ fresh, where iv = ?iv and rows = rows and c = ?total])
      (use ok iv rows lines_ok_rows[OF rows(1-3)] in \<open>simp_all add: finance_ok_def s'\<close>)
  moreover have "numbers_ok s'" 
    by (rule numbers_new[OF _ _ iv(2,7)]) (use ok in \<open>simp_all add: finance_ok_def s'\<close>)
  moreover have "usage_within s'" 
    by (rule usage_new[OF _ now check]) (use ok in \<open>simp_all add: finance_ok_def s'\<close>)
  moreover have "metered s'"
    by (rule metered_new[where iv = ?iv and i = "next_id s"]) (use ok iv in \<open>simp_all add: finance_ok_def s'\<close>)
  ultimately show ?thesis by (simp add: finance_ok_def)
qed

subsection \<open>Sessions of finance\<close>

text \<open>
  Every call of the three services commits or rolls back.  The payloads satisfy their schemas (amounts
  are positive), and the clock does not run behind the recorded usage.
\<close>

inductive finance_step :: "py_numbers \<Rightarrow> 'z finance_db_scheme \<Rightarrow> 'z finance_db_scheme \<Rightarrow> bool" for num where
  step_create_invoice: "latest (mo_utc mo) s \<Longrightarrow> finance_step num s (snd (atomic (create_invoice mo t u nv) s))"
| step_update_invoice: "finance_step num s (snd (atomic (update_invoice mo t u i iu) s))"
| step_create_payment: "0 < nm_amount nm \<Longrightarrow> finance_step num s (snd (atomic (create_payment mo t u nm) s))"
| step_allocate: "\<forall>item \<in> set requested. 0 < na_amount item \<Longrightarrow>
    finance_step num s (snd (atomic (allocate_payment mo t u i requested) s))"
| step_create_unit: "finance_step num s (snd (atomic (create_unit t nu) s))"
| step_create_item: "finance_step num s (snd (atomic (create_item num t u nc) s))"
| step_update_item: "finance_step num s (snd (atomic (update_item num t u i cu) s))"
| step_delete_item: "finance_step num s (snd (atomic (delete_item t i) s))"
| step_create_price_list: "finance_step num s (snd (atomic (create_price_list t u np) s))"
| step_update_price_list: "finance_step num s (snd (atomic (update_price_list t u i pu) s))"
| step_add_price: "finance_step num s (snd (atomic (add_price_list_item t i nx) s))"
| step_create_entity: "finance_step num s (snd (atomic (create_legal_entity t ne) s))"
| step_update_entity: "finance_step num s (snd (atomic (update_legal_entity t i eu) s))"
| step_create_profile: "finance_step num s (snd (atomic (create_tax_profile t nt) s))"
| step_update_profile: "finance_step num s (snd (atomic (update_tax_profile t i xu) s))"

definition finance_start :: "'z finance_db_scheme \<Rightarrow> bool" where
  "finance_start s \<longleftrightarrow> invoices s = [] \<and> invoice_lines s = [] \<and> payments s = [] \<and> allocations s = [] \<and>
     usage_events s = []"

lemma finance_atomic:
  assumes "finance_ok s" and "\<And>x s'. m s = (Inr x, s') \<Longrightarrow> finance_ok s'"
  shows "finance_ok (snd (atomic m s))"
  using assms by (rule atomic_keeps)

lemma finance_ok_backdrop:
  "finance_ok s \<Longrightarrow> ledger_ok settled s' \<Longrightarrow> backdrop s' = backdrop s \<Longrightarrow> finance_ok s'"
  using backdrop_frame[of s' s] by (simp add: finance_ok_def)

lemma finance_ok_same_books:
  assumes "finance_ok s" and "\<And>b n. preserves (same_books b n) m"
  shows "finance_ok (snd (atomic m s))"
proof (rule finance_atomic[OF assms(1)])
  fix x s' assume run: "m s = (Inr x, s')"
  have "same_books (invoices s, invoice_lines s, payments s, allocations s, subscriptions s, usage_limits s,
      usage_events s) (next_id s) s'"
    by (rule preservesD[OF assms(2) _ run]) (simp add: same_books_def)
  then have eq: "invoices s' = invoices s" "invoice_lines s' = invoice_lines s" "payments s' = payments s"
    "allocations s' = allocations s" "backdrop s' = backdrop s" "next_id s \<le> next_id s'"
    by (simp_all add: same_books_def backdrop_def)
  have "ledger_ok settled s'"
    by (rule ledger_ok_frame[of settled s]) (use assms(1) eq in \<open>simp_all add: finance_ok_def\<close>)
  then show "finance_ok s'" by (rule finance_ok_backdrop[OF assms(1) _ eq(5)])
qed

lemma finance_ok_delete_item:
  assumes ok: "finance_ok s" and run: "delete_item t i s = (Inr x, s')"
  shows "finance_ok s'"
proof -
  obtain f cs ps where f: "\<forall>l. il_invoice_id (f l) = il_invoice_id l \<and> il_line_total (f l) = il_line_total l \<and>
        il_quantity (f l) = il_quantity l \<and> il_unit_price (f l) = il_unit_price l \<and> il_tenant_id (f l) = il_tenant_id l"
    and s': "s' = s\<lparr>catalog_items := cs, price_items := ps, invoice_lines := map f (invoice_lines s)\<rparr>"
    using delete_item_ok[OF run] by blast
  have "ledger_ok settled s'"
    by (rule ledger_ok_frame[of settled s]) (use ok in \<open>simp_all add: finance_ok_def s'\<close>)
  moreover have "line_sum k (invoice_lines s') = line_sum k (invoice_lines s)" for k
    using f by (simp add: s' line_sum_def filter_map comp_def)
  then have "totals_ok s'"
    using ok f by (auto simp: finance_ok_def totals_ok_def s' line_ok_def)
  moreover have "numbers_ok s'" using ok by (simp add: finance_ok_def numbers_ok_def tenant_numbers_def s')
  moreover have "usage_within s'"
    using ok unfolding finance_ok_def usage_within_def get_active_for_tenant_def get_plan_limit_def latest_def
      sum_usage_def s' by simp
  moreover have "metered s'" using ok by (simp add: finance_ok_def metered_def s')
  ultimately show ?thesis by (simp add: finance_ok_def)
qed

interpretation finance: invariant_machine finance_start "finance_step num" finance_ok for num
proof
  show "finance_ok s" if "finance_start s" for s :: "'a finance_db_scheme"
    using that
    by (simp add: finance_start_def finance_ok_def ledger_ok_def totals_ok_def numbers_ok_def tenant_numbers_def
        usage_within_def sum_usage_def metered_def)
  show "finance_ok s'" if ok: "finance_ok s" and step: "finance_step num s s'" for s s' :: "'a finance_db_scheme"
    using step
  proof cases
    case (step_create_invoice mo t u nv)
    then show ?thesis using finance_ok_create_invoice[OF ok] finance_atomic[OF ok] by metis
  next
    case (step_update_invoice mo t u i iu)
    have "finance_ok s1" if "update_invoice mo t u i iu s = (Inr x, s1)" for x s1
      by (rule finance_ok_backdrop[OF ok]; rule update_invoice_ok[OF that])
        (use ok in \<open>simp_all add: finance_ok_def\<close>)
    then show ?thesis using finance_atomic[OF ok] step_update_invoice by metis
  next
    case (step_create_payment nm mo t u)
    have "finance_ok s1" if "create_payment mo t u nm s = (Inr x, s1)" for x s1
      by (rule finance_ok_backdrop[OF ok]; rule create_payment_ok[OF that])
        (use step_create_payment(2) ok in \<open>simp_all add: finance_ok_def\<close>)
    then show ?thesis using finance_atomic[OF ok] step_create_payment(1) by metis
  next
    case (step_allocate requested mo t u i)
    have "finance_ok s1" if "allocate_payment mo t u i requested s = (Inr x, s1)" for x s1
      by (rule finance_ok_backdrop[OF ok]; rule allocate_payment_ok[OF that])
        (use step_allocate(2) ok in \<open>simp_all add: finance_ok_def\<close>)
    then show ?thesis using finance_atomic[OF ok] step_allocate(1) by metis
  next
    case (step_delete_item t i)
    then show ?thesis using finance_ok_delete_item[OF ok] finance_atomic[OF ok] by metis
  qed (use finance_ok_same_books[OF ok] catalog_keeps_books accounting_keeps_books in metis)+
qed

subsection \<open>A tenant with a plan\<close>

definition shop_user :: user where
  "shop_user = \<lparr>us_id = 5, us_email = [], us_hashed_password = [], us_full_name = [], us_is_active = True,
     us_provider_staff = [], us_tenant_memberships = []\<rparr>"

definition shop_now :: moment where
  "shop_now = \<lparr>mo_instant = 1000, mo_utc = \<lparr>dt_year = 9, dt_month = 3, dt_day = 4, dt_clock = 5\<rparr>,
     mo_utc_date = 700, mo_today = 700, mo_year = 9\<rparr>"

definition shop_empty :: finance_db where
  "shop_empty =
     \<lparr>next_id = 20, tenants = [], branches = [], audit_logs = [], definitions = [], tenant_modules = [],
      features = [], plans = [], plan_features = [],
      subscriptions = [\<lparr>sb_id = 6, sb_tenant_id = 2, sb_plan_id = 10, sb_status = SubscriptionStatus_ACTIVE\<rparr>],
      usage_limits = [\<lparr>ul_plan_id = 10, ul_limit_code = ''finance.invoices'', ul_limit_value = 1,
        ul_period = UsagePeriod_MONTHLY\<rparr>],
      usage_events = [],
      parties = [\<lparr>pa_id = 10, pa_tenant_id = 2, pa_party_type = PartyType_PERSON, pa_display_name = ''g'',
        pa_status = PartyStatus_ACTIVE, pa_metadata_json = JObj []\<rparr>],
      custom_definitions = [], custom_values = [], units = [], catalog_items = [], price_lists = [],
      price_items = [], legal_entities = [], tax_profiles = [], invoices = [], invoice_lines = [],
      payments = [], allocations = []\<rparr>"

text \<open>Three at 10.005 and one at 1.00: 30.02 (half to even; the price is stored as 10.01) and 1.00.\<close>

definition shop_order :: invoice_create where
  "shop_order = \<lparr>ni_party_id = 10, ni_legal_entity_id = None, ni_tax_profile_id = None, ni_work_item_id = None,
     ni_document_id = None, ni_currency = ''RUB'', ni_due_date = Some 690, ni_notes = None,
     ni_lines = [\<lparr>nl_catalog_item_id = None, nl_description = ''a'', nl_quantity = Dec 3 0,
         nl_unit_price = Dec 10005 3, nl_sort_order = 0\<rparr>,
       \<lparr>nl_catalog_item_id = None, nl_description = ''b'', nl_quantity = Dec 1 0, nl_unit_price = Dec 1 0,
         nl_sort_order = 0\<rparr>],
     ni_issue = True\<rparr>"

definition shop_payment :: payment_create where
  "shop_payment = \<lparr>nm_party_id = Some 10, nm_amount = 2000, nm_currency = ''USD'', nm_payment_date = 700,
     nm_method = PaymentMethod_CASH, nm_status = PaymentStatus_COMPLETED,
     nm_direction = PaymentDirection_OUTGOING, nm_reference_number = None, nm_notes = None,
     nm_legacy_payment_type = None\<rparr>"

definition shop_share :: allocation_item where
  "shop_share = \<lparr>na_invoice_id = 20, na_amount = 1500, na_notes = None\<rparr>"

text \<open>The invoice gets the id 20 (lines 21 and 22), the payment 23, the allocation 24.\<close>

definition shop_billed :: finance_db where
  "shop_billed = snd (atomic (create_payment shop_now 2 shop_user shop_payment)
     (snd (atomic (create_invoice shop_now 2 shop_user shop_order) shop_empty)))"

definition shop_paid :: finance_db where
  "shop_paid = snd (atomic (allocate_payment shop_now 2 shop_user 23 [shop_share]) shop_billed)"

definition no_numbers :: py_numbers where
  "no_numbers = \<lparr>float_of = Inr, decimal_text = Inr\<rparr>"

lemma shop_billed_reachable: "reachable finance_start (finance_step no_numbers) shop_billed"
  unfolding shop_billed_def
proof (rule reachable_step)
  let ?invoiced = "snd (atomic (create_invoice shop_now 2 shop_user shop_order) shop_empty)"
  show "reachable finance_start (finance_step no_numbers) ?invoiced"
  proof (rule reachable_step)
    show "reachable finance_start (finance_step no_numbers) shop_empty"
      by (rule reachable_start) (simp add: finance_start_def shop_empty_def)
    show "finance_step no_numbers shop_empty ?invoiced"
      by (rule finance_step.intros) (simp add: latest_def shop_empty_def)
  qed
  show "finance_step no_numbers ?invoiced (snd (atomic (create_payment shop_now 2 shop_user shop_payment) ?invoiced))"
    by (rule finance_step.intros) (simp add: shop_payment_def)
qed

lemma shop_paid_reachable: "reachable finance_start (finance_step no_numbers) shop_paid"
  unfolding shop_paid_def
  by (rule reachable_step[OF shop_billed_reachable], rule finance_step.intros) (simp add: shop_share_def)

lemma shop_paid_facts:
  "map (\<lambda>iv. (iv_id iv, iv_total iv, iv_amount_paid iv, iv_status iv)) (invoices shop_paid) =
     [(20, 3102, 1500, InvoiceStatus_OVERDUE)] \<and>
   map (\<lambda>p. (pm_id p, pm_amount_allocated p)) (payments shop_paid) = [(23, 1500)]"
  by code_simp

subsection \<open>Properties\<close>

text \<open>Rows whose keys are distinct divide a sum over the rows that refer to them.\<close>

lemma sum_by_key:
  fixes amount :: "'a \<Rightarrow> int"
  assumes "distinct (map key rows)"
  shows "sum_list (map (\<lambda>r. sum_list (map amount (filter (\<lambda>a. ref a = key r) refs))) rows) =
    sum_list (map amount (filter (\<lambda>a. ref a \<in> key ` set rows) refs))"
  using assms
proof (induction rows)
  case Nil
  then show ?case by simp
next
  case (Cons r rows)
  have "sum_list (map amount (filter (\<lambda>a. ref a = key r) xs)) +
      sum_list (map amount (filter (\<lambda>a. ref a \<in> key ` set rows) xs)) =
      sum_list (map amount (filter (\<lambda>a. ref a \<in> key ` set (r # rows)) xs))" for xs
    using Cons.prems by (induction xs) auto
  with Cons show ?case by simp
qed

lemma key_in_filter:
  assumes "distinct (map key rows)" and "r \<in> set rows"
  shows "key r \<in> key ` set (filter P rows) \<longleftrightarrow> P r"
proof
  assume "key r \<in> key ` set (filter P rows)"
  then obtain x where "x \<in> set rows" "P x" "key x = key r" by auto
  with distinct_keys_eq[OF assms(1) _ assms(2)] show "P r" by blast
next
  assume "P r"
  then show "key r \<in> key ` set (filter P rows)" using assms(2) by (intro imageI) simp
qed

lemma ledger_sums:
  assumes ok: "ledger_ok settled s"
  shows "sum_list (map iv_amount_paid (filter (\<lambda>i. iv_tenant_id i = t) (invoices s))) =
      sum_list (map al_amount (filter (\<lambda>a. al_tenant_id a = t) (allocations s)))"
    and "sum_list (map pm_amount_allocated (filter (\<lambda>p. pm_tenant_id p = t) (payments s))) =
      sum_list (map al_amount (filter (\<lambda>a. al_tenant_id a = t) (allocations s)))"
proof -
  let ?ivs = "filter (\<lambda>i. iv_tenant_id i = t) (invoices s)" and ?pms = "filter (\<lambda>p. pm_tenant_id p = t) (payments s)"
  have tenant: "al_invoice_id a \<in> iv_id ` set ?ivs \<longleftrightarrow> al_tenant_id a = t"
    "al_payment_id a \<in> pm_id ` set ?pms \<longleftrightarrow> al_tenant_id a = t" if a: "a \<in> set (allocations s)" for a
  proof -
    obtain iv p where iv: "iv \<in> set (invoices s)" "iv_id iv = al_invoice_id a" "iv_tenant_id iv = al_tenant_id a"
      and p: "p \<in> set (payments s)" "pm_id p = al_payment_id a" "pm_tenant_id p = al_tenant_id a"
      using ledger_okD(5)[OF ok a] by (auto simp: allocation_ok_def)
    show "al_invoice_id a \<in> iv_id ` set ?ivs \<longleftrightarrow> al_tenant_id a = t"
      using key_in_filter[OF ledger_okD(1)[OF ok] iv(1), of "\<lambda>i. iv_tenant_id i = t"] iv(2,3) by simp
    show "al_payment_id a \<in> pm_id ` set ?pms \<longleftrightarrow> al_tenant_id a = t"
      using key_in_filter[OF ledger_okD(2)[OF ok] p(1), of "\<lambda>p. pm_tenant_id p = t"] p(2,3) by simp
  qed
  have rows1: "map iv_amount_paid ?ivs = map (\<lambda>iv. paid_to (iv_id iv) s) ?ivs"
    using ledger_okD(3)[OF ok] by (auto simp: invoice_ok_def)
  show "sum_list (map iv_amount_paid ?ivs) =
      sum_list (map al_amount (filter (\<lambda>a. al_tenant_id a = t) (allocations s)))"
    unfolding rows1 using sum_by_key[of iv_id ?ivs al_amount al_invoice_id "allocations s"] ledger_okD(1)[OF ok] tenant(1)
    by (simp add: paid_to_def distinct_map_filter cong: filter_cong)
  have rows2: "map pm_amount_allocated ?pms = map (\<lambda>p. allocated_from (pm_id p) s) ?pms"
    using ledger_okD(4)[OF ok] by (auto simp: payment_ok_def settled_def)
  show "sum_list (map pm_amount_allocated ?pms) =
      sum_list (map al_amount (filter (\<lambda>a. al_tenant_id a = t) (allocations s)))"
    unfolding rows2 using sum_by_key[of pm_id ?pms al_amount al_payment_id "allocations s"] ledger_okD(2)[OF ok] tenant(2)
    by (simp add: allocated_from_def distinct_map_filter cong: filter_cong)
qed

text \<open>C6: Money is conserved: however the finance services are called, what a tenant's invoices record as
  paid is, in total, what its payments record as allocated.\<close>

theorem money_conserved:
  assumes "reachable finance_start (finance_step num) s"
  shows "sum_list (map iv_amount_paid (filter (\<lambda>i. iv_tenant_id i = t) (invoices s))) =
    sum_list (map pm_amount_allocated (filter (\<lambda>p. pm_tenant_id p = t) (payments s)))"
  using ledger_sums[of s t] finance.reachable_inv[OF assms] by (simp add: finance_ok_def)

theorem money_conserved_witness:
  "sum_list (map iv_amount_paid (filter (\<lambda>i. iv_tenant_id i = 2) (invoices shop_paid))) =
    sum_list (map pm_amount_allocated (filter (\<lambda>p. pm_tenant_id p = 2) (payments shop_paid))) \<and>
   map iv_amount_paid (invoices shop_paid) = [1500]"
  using money_conserved[OF shop_paid_reachable, of 2] shop_paid_facts by auto

text \<open>C13: Nothing is overpaid: an invoice records at most its total as paid (nothing, when the total is
  negative), a payment has at most its amount allocated, and neither is negative.\<close>

theorem nothing_overpaid:
  assumes "reachable finance_start (finance_step num) s"
    and "iv \<in> set (invoices s)" "p \<in> set (payments s)"
  shows "0 \<le> iv_amount_paid iv \<and> iv_amount_paid iv \<le> max 0 (iv_total iv) \<and>
    0 \<le> pm_amount_allocated p \<and> pm_amount_allocated p \<le> pm_amount p"
proof -
  have ok: "ledger_ok settled s" using finance.reachable_inv[OF assms(1)] by (simp add: finance_ok_def)
  have pos: "0 \<le> al_amount a" if "a \<in> set (allocations s)" for a
    using ledger_okD(5)[OF ok that] by (simp add: allocation_ok_def)
  have "0 \<le> paid_to i s" "0 \<le> allocated_from i s" for i
    unfolding paid_to_def allocated_from_def by (rule sum_list_nonneg; use pos in auto)+
  then show ?thesis
    using ledger_okD(3)[OF ok assms(2)] ledger_okD(4)[OF ok assms(3)]
    by (simp add: invoice_ok_def payment_ok_def settled_def)
qed

theorem nothing_overpaid_witness:
  "\<exists>iv p. iv \<in> set (invoices shop_paid) \<and> p \<in> set (payments shop_paid) \<and> iv_amount_paid iv \<le> max 0 (iv_total iv) \<and>
     pm_amount_allocated p \<le> pm_amount p"
proof -
  have "invoices shop_paid \<noteq> []" "payments shop_paid \<noteq> []" using shop_paid_facts by auto
  then obtain iv p where "iv \<in> set (invoices shop_paid)" "p \<in> set (payments shop_paid)"
    by (meson list.set_sel(1))
  then show ?thesis using nothing_overpaid[OF shop_paid_reachable] by blast
qed

text \<open>How far the stored numbers may be from the requested ones, in units of the last place kept.\<close>

lemma numeric_scale_error:
  assumes "numeric_scale k (Dec c e) = Dec d k"
  shows "2 * \<bar>d * 10 ^ e - c * 10 ^ k\<bar> \<le> 10 ^ e"
proof (cases "e \<le> k")
  case True
  then have "d * 10 ^ e = c * (10 ^ (k - e) * 10 ^ e)" using assms by simp
  also have "\<dots> = c * 10 ^ k" using True by (simp flip: power_add)
  finally show ?thesis by simp
next
  case False
  let ?d = "10 ^ (e - k) :: int"
  have pow: "10 ^ e = ?d * (10 ^ k :: int)" using False by (simp flip: power_add)
  have "d = half_away c ?d" using assms False by simp
  then have "d * 10 ^ e - c * 10 ^ k = (half_away c ?d * ?d - c) * 10 ^ k"
    unfolding pow by (simp add: algebra_simps)
  then have "2 * \<bar>d * 10 ^ e - c * 10 ^ k\<bar> = (2 * \<bar>half_away c ?d * ?d - c\<bar>) * 10 ^ k"
    by (simp add: abs_mult)
  also have "\<dots> \<le> ?d * 10 ^ k" using half_away_error[of ?d c] by (intro mult_right_mono) simp_all
  finally show ?thesis unfolding pow .
qed

lemma quantize_cents_error:
  "2 * \<bar>quantize_cents (Dec c e) * 10 ^ e - c * 100\<bar> \<le> 10 ^ e"
proof (cases "e \<le> 2")
  case True
  have "quantize_cents (Dec c e) * 10 ^ e = c * (10 ^ (2 - e) * 10 ^ e)" using True by simp
  also have "\<dots> = c * 100" using True by (simp flip: power_add)
  finally show ?thesis by simp
next
  case False
  let ?d = "10 ^ (e - 2) :: int"
  have "(10 :: int) ^ (e - 2 + 2) = ?d * 100" by (simp only: power_add) simp
  moreover have "e - 2 + 2 = e" using False by simp
  ultimately have pow: "10 ^ e = ?d * 100" by (simp only:)
  have "quantize_cents (Dec c e) = half_even c ?d" using False by simp
  then have diff: "quantize_cents (Dec c e) * 10 ^ e - c * 100 = (half_even c ?d * ?d - c) * 100"
    unfolding pow by (simp add: algebra_simps)
  show ?thesis using half_even_error[of ?d c] unfolding diff unfolding pow abs_mult by simp
qed

lemma near_product:
  fixes x y X Y L :: real
  assumes x: "\<bar>X - x\<bar> \<le> d" and y: "\<bar>Y - y\<bar> \<le> e" and L: "\<bar>L - x * y\<bar> \<le> f"
  shows "\<bar>L - X * Y\<bar> \<le> f + e * \<bar>X\<bar> + d * \<bar>Y\<bar> + d * e"
proof -
  have "L - X * Y = (L - x * y) - X * (Y - y) - Y * (X - x) + (X - x) * (Y - y)"
    by (simp add: algebra_simps)
  then have "\<bar>L - X * Y\<bar> \<le> \<bar>L - x * y\<bar> + \<bar>X\<bar> * \<bar>Y - y\<bar> + \<bar>Y\<bar> * \<bar>X - x\<bar> + \<bar>X - x\<bar> * \<bar>Y - y\<bar>"
    unfolding abs_mult[symmetric] by linarith
  also have "\<dots> \<le> f + \<bar>X\<bar> * e + \<bar>Y\<bar> * d + d * e"
    using x y L by (intro add_mono mult_left_mono mult_mono) auto
  finally show ?thesis by (simp add: mult.commute)
qed

lemma scaled_near:
  fixes d c w :: int
  assumes "2 * \<bar>d * 10 ^ e - c * w\<bar> \<le> 10 ^ e" and "0 < w"
  shows "\<bar>real_of_int d / w - c / 10 ^ e\<bar> \<le> 1 / (2 * w)"
proof -
  have "real_of_int (2 * \<bar>d * 10 ^ e - c * w\<bar>) \<le> real_of_int (10 ^ e)"
    using assms(1) by (simp only: of_int_le_iff)
  then have "2 * \<bar>real_of_int d * 10 ^ e - c * w\<bar> \<le> 10 ^ e" by simp
  moreover have "real_of_int d / w - c / 10 ^ e = (d * 10 ^ e - c * w) / (w * 10 ^ e)"
    using assms(2) by (simp add: field_simps)
  ultimately show ?thesis using assms(2) by (simp add: field_simps abs_mult)
qed

lemma line_near_product:
  assumes "line_ok l"
  shows "\<exists>a b. il_quantity l = Dec a 4 \<and> il_unit_price l = Dec b 2 \<and>
    4 * \<bar>10000 * il_line_total l - a * b\<bar> \<le> 20001 + 2 * \<bar>a\<bar> + 2 * \<bar>b\<bar>"
proof -
  obtain q p where qp: "il_quantity l = numeric_scale 4 q" "il_unit_price l = numeric_scale 2 p"
    "il_line_total l = quantize_cents (decimal_mult q p)"
    using assms unfolding line_ok_def by blast
  obtain c m where q: "q = Dec c m" by (cases q)
  obtain d n where p: "p = Dec d n" by (cases p)
  define a where "a = (if m \<le> 4 then c * 10 ^ (4 - m) else half_away c (10 ^ (m - 4)))"
  define b where "b = (if n \<le> 2 then d * 10 ^ (2 - n) else half_away d (10 ^ (n - 2)))"
  have a: "numeric_scale 4 (Dec c m) = Dec a 4" and b: "numeric_scale 2 (Dec d n) = Dec b 2"
    by (simp_all add: a_def b_def)
  let ?x = "c / 10 ^ m :: real" and ?y = "d / 10 ^ n :: real"
  have "\<bar>a / 10000 - ?x\<bar> \<le> 1 / 20000"
    using scaled_near[of a m c 10000] numeric_scale_error[OF a] by simp
  moreover have "\<bar>b / 100 - ?y\<bar> \<le> 1 / 200"
    using scaled_near[of b n d 100] numeric_scale_error[OF b] by simp
  moreover have "\<bar>il_line_total l / 100 - ?x * ?y\<bar> \<le> 1 / 200"
    using scaled_near[of "il_line_total l" "m + n" "c * d" 100] quantize_cents_error[of "c * d" "m + n"]
    by (simp add: qp(3) q p power_add)
  ultimately have "\<bar>il_line_total l / 100 - a / 10000 * (b / 100)\<bar> \<le>
      1 / 200 + 1 / 200 * \<bar>a / 10000\<bar> + 1 / 20000 * \<bar>b / 100\<bar> + 1 / 20000 * (1 / 200)"
    by (rule near_product)
  moreover define D where "D = real_of_int (10000 * il_line_total l - a * b)"
  have "il_line_total l / 100 - a / 10000 * (b / 100) = D / 1000000" by (simp add: D_def)
  ultimately have "4 * \<bar>D\<bar> \<le> 20001 + 2 * \<bar>real_of_int a\<bar> + 2 * \<bar>real_of_int b\<bar>"
    unfolding abs_divide abs_numeral by linarith
  then have "4 * \<bar>10000 * il_line_total l - a * b\<bar> \<le> 20001 + 2 * \<bar>a\<bar> + 2 * \<bar>b\<bar>"
    unfolding D_def by linarith
  moreover have "il_quantity l = Dec a 4" unfolding qp(1) q by (rule a)
  moreover have "il_unit_price l = Dec b 2" unfolding qp(2) p by (rule b)
  ultimately show ?thesis by blast
qed

text \<open>C35: An invoice's total is its lines: in every reachable session the total and the subtotal of an
  invoice are the sum of its lines' totals.  A line is stored with four places of quantity and two of
  price, and its total, which was computed before they were rounded, differs from their product by at most
  half a cent, plus half a cent for each unit of the quantity, plus a twenty-thousandth of the price (plus
  the product of the two roundings); the bound is stated in units of a ten-thousandth of a cent.\<close>

theorem invoice_total_is_lines:
  assumes "reachable finance_start (finance_step num) s" and "iv \<in> set (invoices s)"
  shows "iv_total iv = iv_subtotal iv \<and>
    iv_total iv = sum_list (map il_line_total (filter (\<lambda>l. il_invoice_id l = iv_id iv) (invoice_lines s))) \<and>
    (\<forall>l \<in> set (invoice_lines s). \<exists>a b. il_quantity l = Dec a 4 \<and> il_unit_price l = Dec b 2 \<and>
       4 * \<bar>10000 * il_line_total l - a * b\<bar> \<le> 20001 + 2 * \<bar>a\<bar> + 2 * \<bar>b\<bar>)"
proof (intro conjI ballI)
  have ok: "totals_ok s" using finance.reachable_inv[OF assms(1)] by (simp add: finance_ok_def)
  then show "iv_total iv = iv_subtotal iv"
    "iv_total iv = sum_list (map il_line_total (filter (\<lambda>l. il_invoice_id l = iv_id iv) (invoice_lines s)))"
    using assms(2) by (auto simp: totals_ok_def header_def line_sum_def)
  show "\<exists>a b. il_quantity l = Dec a 4 \<and> il_unit_price l = Dec b 2 \<and>
       4 * \<bar>10000 * il_line_total l - a * b\<bar> \<le> 20001 + 2 * \<bar>a\<bar> + 2 * \<bar>b\<bar>"
    if "l \<in> set (invoice_lines s)" for l
    using ok that by (intro line_near_product) (auto simp: totals_ok_def)
qed

text \<open>The first line of the sample is three at 10.005: 30.02, stored beside three at 10.01.\<close>

lemma shop_paid_lines:
  "map (\<lambda>l. (il_quantity l, il_unit_price l, il_line_total l)) (invoice_lines shop_paid) =
     [(Dec 30000 4, Dec 1001 2, 3002), (Dec 10000 4, Dec 100 2, 100)]"
  by code_simp

theorem invoice_total_is_lines_witness:
  "\<exists>iv. iv \<in> set (invoices shop_paid) \<and> iv_total iv = 3102 \<and>
     sum_list (map il_line_total (filter (\<lambda>l. il_invoice_id l = iv_id iv) (invoice_lines shop_paid))) = 3102 \<and>
     (Dec 30000 4, Dec 1001 2, 3002) \<in> set (map (\<lambda>l. (il_quantity l, il_unit_price l, il_line_total l))
       (invoice_lines shop_paid))"
proof -
  have "map iv_total (invoices shop_paid) = [3102]" using shop_paid_facts by auto
  then obtain iv where iv: "iv \<in> set (invoices shop_paid)" "iv_total iv = 3102" by auto
  then show ?thesis using invoice_total_is_lines[OF shop_paid_reachable iv(1)] unfolding shop_paid_lines by auto
qed

lemma numbers_distinct: "numbers_ok s \<Longrightarrow> distinct (tenant_numbers t s)"
  unfolding numbers_ok_def distinct_conv_nth by (metis invoice_number_inj Suc_inject)

lemma tenant_numbers_eq: "tenant_numbers t s = map iv_invoice_number (filter (\<lambda>i. iv_tenant_id i = t) (invoices s))"
proof -
  have "map (\<lambda>(i, t', st, tax, tot, n). n) (filter (\<lambda>(i, t', st, tax, tot, n). t' = t) (map header xs)) =
      map iv_invoice_number (filter (\<lambda>i. iv_tenant_id i = t) xs)" for xs
    by (induction xs) (auto simp: header_def)
  then show ?thesis by (simp add: tenant_numbers_def)
qed

lemma next_number_new:
  assumes "numbers_ok s" "r \<in> set (invoices s)" "iv_tenant_id r = t"
  shows "iv_invoice_number r \<noteq> next_invoice_number y t s"
proof
  assume eq: "iv_invoice_number r = next_invoice_number y t s"
  have "iv_invoice_number r \<in> set (tenant_numbers t s)" using assms(2,3) by (auto simp: tenant_numbers_eq)
  then obtain k where "k < length (tenant_numbers t s)" "tenant_numbers t s ! k = next_invoice_number y t s"
    unfolding eq by (auto simp: in_set_conv_nth)
  then show False using assms(1) unfolding numbers_ok_def number_of_next
    by (metis Suc_inject invoice_number_inj less_irrefl_nat)
qed

text \<open>The calls of a creation before and after the insert raise other exceptions only.\<close>

definition no_integrity :: "('s, 'a) svc \<Rightarrow> bool" where
  "no_integrity m \<longleftrightarrow> (\<forall>s e s'. m s \<noteq> (Inl (IntegrityError e), s'))"

lemma no_integrity_rules:
  "no_integrity (ret x)" "no_integrity (gets f)" "no_integrity (modify g)" "no_integrity fresh_id"
  "\<forall>e. ex \<noteq> IntegrityError e \<Longrightarrow> no_integrity (raise ex)"
  "\<forall>e. ex \<noteq> IntegrityError e \<Longrightarrow> no_integrity (ensure b ex)"
  "\<forall>e. ex \<noteq> IntegrityError e \<Longrightarrow> no_integrity (or_raise w ex)"
  by (auto simp: no_integrity_def svc_eval fresh_id_eval split: if_splits option.splits)

lemma no_integrity_bindS: "no_integrity m \<Longrightarrow> (\<And>x. no_integrity (f x)) \<Longrightarrow> no_integrity (bindS m f)"
  unfolding no_integrity_def bindS_def by (force split: prod.splits sum.splits)

lemma no_integrity_thenS: "no_integrity m \<Longrightarrow> no_integrity n \<Longrightarrow> no_integrity (thenS m n)"
  unfolding thenS_def by (rule no_integrity_bindS)

lemmas no_integrity_intros = no_integrity_rules no_integrity_bindS no_integrity_thenS

lemma no_integrity_parts:
  "no_integrity (assert_within_limit now t c q)" "no_integrity (check_references t payload)"
  "no_integrity (add_lines t i k ls)" "no_integrity (write_invoice i f)" "no_integrity (finish_invoice mo t u payload i)"
proof -
  show "no_integrity (assert_within_limit now t c q)"
    unfolding assert_within_limit_def by (auto intro!: no_integrity_intros split: option.split)
  show "no_integrity (check_references t payload)"
    unfolding check_references_def by (auto intro!: no_integrity_intros split: option.split)
  show "no_integrity (add_lines t i k ls)"
    by (induction ls arbitrary: k)
      (auto simp: add_line_def insert_invoice_line_def intro!: no_integrity_intros split: option.split)
  show "no_integrity (write_invoice i f)"
    unfolding write_invoice_def by (intro no_integrity_intros)
  show "no_integrity (finish_invoice mo t u payload i)"
    unfolding finish_invoice_def get_invoice_or_404_def write_invoice_def service_get_invoice_def record_audit_def
      record_usage_event_def whenS_def of_sum_def issue_invoice_def
    by (auto intro!: no_integrity_intros)
qed

lemma raised_later:
  "no_integrity m \<Longrightarrow> thenS m n s = (Inl (IntegrityError e), s') \<Longrightarrow>
     \<exists>x s1. m s = (Inr x, s1) \<and> n s1 = (Inl (IntegrityError e), s')"
  unfolding no_integrity_def thenS_def bindS_def by (auto split: prod.splits sum.splits)

lemma create_invoice_no_collision:
  assumes ok: "numbers_ok s"
  shows "create_invoice mo t u payload s \<noteq> (Inl (IntegrityError e), s')"
proof
  define rest :: "uuid \<Rightarrow> ('a finance_db_scheme, invoice_response) svc" where
    "rest i = bindS (add_lines t i 0 (ni_lines payload)) (\<lambda>subtotal.
       thenS (write_invoice i (set_totals subtotal)) (finish_invoice mo t u payload i))" for i
  have rest: "no_integrity (rest i)" for i
    unfolding rest_def by (intro no_integrity_intros no_integrity_parts)
  assume "create_invoice mo t u payload s = (Inl (IntegrityError e), s')"
  then have "thenS (assert_within_limit (mo_utc mo) t ''finance.invoices'' 1) (thenS (check_references t payload)
      (bindS (gets (next_invoice_number (mo_year mo) t)) (\<lambda>number. bindS fresh_id (\<lambda>i.
       thenS (insert_invoice (draft_invoice mo i t u number payload)) (rest i))))) s = (Inl (IntegrityError e), s')"
    by (simp only: create_invoice_def rest_def)
  from raised_later[OF no_integrity_parts(1) this] obtain y s1 where
    limit: "assert_within_limit (mo_utc mo) t ''finance.invoices'' 1 s = (Inr y, s1)"
    and later: "thenS (check_references t payload)
      (bindS (gets (next_invoice_number (mo_year mo) t)) (\<lambda>number. bindS fresh_id (\<lambda>i.
       thenS (insert_invoice (draft_invoice mo i t u number payload)) (rest i)))) s1 = (Inl (IntegrityError e), s')"
    by blast
  from raised_later[OF no_integrity_parts(2) later] obtain z s2 where
    refs: "check_references t payload s1 = (Inr z, s2)"
    and run: "bindS (gets (next_invoice_number (mo_year mo) t)) (\<lambda>number. bindS fresh_id (\<lambda>i.
        thenS (insert_invoice (draft_invoice mo i t u number payload)) (rest i))) s2 = (Inl (IntegrityError e), s')"
    by blast
  have "s2 = s" using check_references_state[OF refs] limit by (auto simp: assert_within_limit_ok)
  then have insert: "thenS (insert_invoice (draft_invoice mo (next_id s) t u (next_invoice_number (mo_year mo) t s) payload))
      (rest (next_id s)) (s\<lparr>next_id := Suc (next_id s)\<rparr>) = (Inl (IntegrityError e), s')"
    using run by (simp add: svc_eval fresh_id_eval)
  have "\<not> list_ex (\<lambda>r. iv_tenant_id r = t \<and> iv_invoice_number r = next_invoice_number (mo_year mo) t s) (invoices s)"
    using next_number_new[OF ok] by (auto simp: list_ex_iff)
  then have "\<exists>s3. insert_invoice (draft_invoice mo (next_id s) t u (next_invoice_number (mo_year mo) t s) payload)
      (s\<lparr>next_id := Suc (next_id s)\<rparr>) = (Inr (), s3)"
    by (simp add: insert_invoice_def svc_eval draft_invoice_def)
  then obtain s3 where "rest (next_id s) s3 = (Inl (IntegrityError e), s')"
    using insert by (auto simp: thenS_def bindS_def)
  then show False using rest unfolding no_integrity_def by blast
qed

text \<open>C8: Invoice numbers never collide: in every reachable session the numbers of a tenant's invoices are
  distinct, and no creation of an invoice fails on a unique constraint of the database, whatever the year
  of the clock.\<close>

theorem invoice_numbers_unique:
  assumes "reachable finance_start (finance_step num) s"
  shows "distinct (map iv_invoice_number (filter (\<lambda>i. iv_tenant_id i = t) (invoices s))) \<and>
    create_invoice mo t u payload s \<noteq> (Inl (IntegrityError e), s')"
proof (intro conjI)
  have ok: "numbers_ok s" using finance.reachable_inv[OF assms] by (simp add: finance_ok_def)
  show "distinct (map iv_invoice_number (filter (\<lambda>i. iv_tenant_id i = t) (invoices s)))"
    using numbers_distinct[OF ok, of t] by (simp add: tenant_numbers_eq)
  show "create_invoice mo t u payload s \<noteq> (Inl (IntegrityError e), s')"
    by (rule create_invoice_no_collision[OF ok])
qed

theorem invoice_numbers_unique_witness:
  "distinct (map iv_invoice_number (filter (\<lambda>i. iv_tenant_id i = 2) (invoices shop_paid))) \<and>
   create_invoice shop_now 2 shop_user shop_order shop_paid \<noteq> (Inl (IntegrityError ''x''), shop_paid)"
  by (rule invoice_numbers_unique[OF shop_paid_reachable])

text \<open>C11: The plan's limit of invoices holds for the whole service: in every reachable session, for a tenant
  whose plan limits \<^verbatim>\<open>finance.invoices\<close>, the number of invoices of the tenant that were created since the
  start of the current period is at most the limit, because every creation checks the recorded usage and
  records its own.\<close>

theorem invoices_within_plan:
  assumes "reachable finance_start (finance_step num) s"
    and "get_active_for_tenant t s = Some b" "get_plan_limit (sb_plan_id b) ''finance.invoices'' s = Some l"
    and "latest now s" "0 \<le> ul_limit_value l"
  shows "int (length (filter (\<lambda>iv. iv_tenant_id iv = t \<and> dt_le (period_start (ul_period l) now) (iv_created_at iv))
    (invoices s))) \<le> ul_limit_value l"
proof -
  have inv: "usage_within s" "metered s" using finance.reachable_inv[OF assms(1)] by (simp_all add: finance_ok_def)
  have "sum_usage t ''finance.invoices'' (period_start (ul_period l) now) s \<le> ul_limit_value l"
    using inv(1) assms(2-5) unfolding usage_within_def by (fastforce simp: max_def)
  then show ?thesis using metered_count[OF inv(2)] by simp
qed

lemma shop_paid_plan:
  "get_active_for_tenant 2 shop_paid = Some \<lparr>sb_id = 6, sb_tenant_id = 2, sb_plan_id = 10, sb_status = SubscriptionStatus_ACTIVE\<rparr> \<and>
   get_plan_limit 10 ''finance.invoices'' shop_paid = Some \<lparr>ul_plan_id = 10, ul_limit_code = ''finance.invoices'',
     ul_limit_value = 1, ul_period = UsagePeriod_MONTHLY\<rparr> \<and>
   map ue_created_at (usage_events shop_paid) = [mo_utc shop_now] \<and>
   map iv_tenant_id (invoices shop_paid) = [2]"
  by code_simp

theorem invoices_within_plan_witness:
  "int (length (filter (\<lambda>iv. iv_tenant_id iv = 2 \<and> dt_le (period_start UsagePeriod_MONTHLY (mo_utc shop_now))
     (iv_created_at iv)) (invoices shop_paid))) \<le> 1 \<and> length (invoices shop_paid) = 1"
proof -
  have "latest (mo_utc shop_now) shop_paid"
    using shop_paid_plan unfolding latest_def by (metis dt_le_refl imageI list.set_map set_ConsD empty_iff list.set(1))
  moreover have "length (invoices shop_paid) = 1"
    using shop_paid_plan by (metis One_nat_def length_Cons length_map list.size(3))
  ultimately show ?thesis
    using invoices_within_plan[OF shop_paid_reachable, of 2 "\<lparr>sb_id = 6, sb_tenant_id = 2, sb_plan_id = 10,
        sb_status = SubscriptionStatus_ACTIVE\<rparr>" "\<lparr>ul_plan_id = 10, ul_limit_code = ''finance.invoices'',
        ul_limit_value = 1, ul_period = UsagePeriod_MONTHLY\<rparr>" "mo_utc shop_now"] shop_paid_plan
    by simp
qed

text \<open>C17: What an allocation does, on the whole session: when it returns, the payment was completed and had
  room for the sum of the request, no invoice is named twice and each had room for its share.  The
  payment's allocated amount has grown by the sum, one allocation row follows for each requested item, in
  order, and every invoice named has its share added to what is paid and the status this makes (paid when
  nothing is left, otherwise overdue when its due date has passed, otherwise partial).  Everything else of
  the session is as before: the other columns of these invoices, the other invoices and payments, the
  lines, the catalog.  Every invoice then records as paid what the allocations to it add up to.\<close>

theorem allocate_payment_applies:
  assumes "reachable finance_start (finance_step num) s" and "\<forall>item \<in> set requested. 0 < na_amount item"
    and "allocate_payment mo t u i requested s = (Inr r, s')"
  shows "(\<exists>p. get_payment t i s = Some p \<and> pm_status p = PaymentStatus_COMPLETED \<and>
      pm_amount_allocated p + sum_list (map na_amount requested) \<le> pm_amount p) \<and>
    distinct (map na_invoice_id requested) \<and>
    (\<forall>item \<in> set requested. \<exists>iv. get_invoice t (na_invoice_id item) s = Some iv \<and>
      iv_amount_paid iv + na_amount item \<le> iv_total iv) \<and>
    s' = s\<lparr>next_id := next_id s + length requested,
      allocations := allocations s @ allocation_rows t i (next_id s) requested,
      invoices := map (settle_invoice (mo_today mo) requested) (invoices s),
      payments := row_update pm_id i (\<lambda>r. r\<lparr>pm_amount_allocated := pm_amount_allocated r +
        sum_list (map na_amount requested), pm_updated_by_user_id := us_id u\<rparr>) (payments s)\<rparr> \<and>
    (\<forall>iv \<in> set (invoices s'). iv_amount_paid iv =
       sum_list (map al_amount (filter (\<lambda>a. al_invoice_id a = iv_id iv) (allocations s'))))"
proof (intro conjI)
  have ok: "ledger_ok settled s" using finance.reachable_inv[OF assms(1)] by (simp add: finance_ok_def)
  note outcome = allocate_payment_ok[OF assms(3) ok assms(2)]
  show "\<forall>iv \<in> set (invoices s'). iv_amount_paid iv =
       sum_list (map al_amount (filter (\<lambda>a. al_invoice_id a = iv_id iv) (allocations s')))"
    using ledger_okD(3)[OF outcome(1)] by (simp add: invoice_ok_def paid_to_def)
qed (use allocate_payment_ok[OF assms(3) _ assms(2)] finance.reachable_inv[OF assms(1)] in
    \<open>(simp add: finance_ok_def; fail)+\<close>)

lemma shop_allocation_runs:
  "fst (allocate_payment shop_now 2 shop_user 23 [shop_share] shop_billed) \<noteq> Inl PyAssertionError \<and>
   (case allocate_payment shop_now 2 shop_user 23 [shop_share] shop_billed of (Inr r, s') \<Rightarrow> mr_unallocated r = 500
    | _ \<Rightarrow> False)"
  by code_simp

theorem allocate_payment_applies_witness:
  "\<exists>r s' p. allocate_payment shop_now 2 shop_user 23 [shop_share] shop_billed = (Inr r, s') \<and>
     get_payment 2 23 shop_billed = Some p \<and> mr_unallocated r = 500 \<and>
     map al_amount (allocations s') = map al_amount (allocations shop_billed) @ [1500] \<and>
     invoices s' = map (settle_invoice 700 [shop_share]) (invoices shop_billed)"
proof -
  obtain r s' where run: "allocate_payment shop_now 2 shop_user 23 [shop_share] shop_billed = (Inr r, s')"
    "mr_unallocated r = 500"
    using shop_allocation_runs by (auto split: prod.splits sum.splits)
  have pos: "\<forall>item \<in> set [shop_share]. 0 < na_amount item" by (simp add: shop_share_def)
  have now: "mo_today shop_now = 700" by (simp add: shop_now_def)
  note out = allocate_payment_applies[OF shop_billed_reachable pos run(1), unfolded now]
  then obtain p where p: "get_payment 2 23 shop_billed = Some p" by blast
  have s': "allocations s' = allocations shop_billed @ allocation_rows 2 23 (next_id shop_billed) [shop_share]"
    "invoices s' = map (settle_invoice 700 [shop_share]) (invoices shop_billed)"
    using arg_cong[OF out[THEN conjunct2, THEN conjunct2, THEN conjunct2, THEN conjunct1], of allocations]
      arg_cong[OF out[THEN conjunct2, THEN conjunct2, THEN conjunct2, THEN conjunct1], of invoices] by simp_all
  have "map al_amount (allocations s') = map al_amount (allocations shop_billed) @ [1500]"
    unfolding s' by (simp add: shop_share_def)
  with run p s'(2) show ?thesis by blast
qed

definition mark_paid_patch :: invoice_update where
  "mark_paid_patch = \<lparr>iu_status = Some InvoiceStatus_PAID, iu_due_date = None, iu_notes = None,
     iu_legal_entity_id = None, iu_tax_profile_id = None\<rparr>"

lemma get_invoice_written:
  assumes "get_invoice t i s = Some iv" and "iv_id v = i" "iv_tenant_id v = t"
  shows "get_invoice t i (s\<lparr>invoices := row_update iv_id i (\<lambda>_. v) (invoices s)\<rparr>) = Some v"
proof -
  have "row_find (\<lambda>r. iv_tenant_id r = t \<and> iv_id r = i) rows = Some iv \<Longrightarrow>
      row_find (\<lambda>r. iv_tenant_id r = t \<and> iv_id r = i) (row_update iv_id i (\<lambda>_. v) rows) = Some v" for rows
    using assms(2,3) by (induction rows) (auto split: if_splits)
  then show ?thesis using assms(1) by (simp add: get_invoice_def scoped_get_def)
qed

text \<open>C39: A PATCH can declare an invoice paid that nobody paid: the status of an invoice that is not a draft
  being issued is written without looking at the amounts, so setting it to paid returns, leaves the paid
  amount as it was, and the invoice is no longer among the receivables.\<close>

theorem patch_marks_unpaid_paid:
  assumes "get_invoice t i s = Some iv" and "references_exist iv s"
  shows "\<exists>r s' v. update_invoice mo t u i mark_paid_patch s = (Inr r, s') \<and> get_invoice t i s' = Some v \<and>
    iv_status v = InvoiceStatus_PAID \<and> iv_amount_paid v = iv_amount_paid iv \<and> iv_total v = iv_total iv \<and>
    v \<notin> set (list_receivable_invoices t s')"
proof -
  let ?v = "iv\<lparr>iv_status := InvoiceStatus_PAID, iv_updated_by_user_id := us_id u\<rparr>"
  have row: "iv_id iv = i" "iv_tenant_id iv = t" using get_invoice_Some[OF assms(1)] by auto
  have moved: "transition_status mo InvoiceStatus_PAID iv = Inr (iv\<lparr>iv_status := InvoiceStatus_PAID\<rparr>)"
    by (simp add: transition_status_def refresh_overdue_status_def)
  have v: "apply_invoice_update mo u mark_paid_patch (iv\<lparr>iv_status := InvoiceStatus_PAID\<rparr>) = ?v"
    by (simp add: apply_invoice_update_def mark_paid_patch_def refresh_overdue_status_def set_some_if_def)
  have refs: "references_exist ?v s" using assms(2) by (simp add: references_exist_def)
  have run: "update_invoice mo t u i mark_paid_patch s =
      (Inr (to_invoice_response ?v (s\<lparr>invoices := row_update iv_id i (\<lambda>_. ?v) (invoices s)\<rparr>)),
       s\<lparr>invoices := row_update iv_id i (\<lambda>_. ?v) (invoices s)\<rparr>)"
    using assms(1) refs
    by (simp add: update_invoice_def get_invoice_or_404_def svc_eval mark_paid_patch_def moved write_invoice_def
        v[unfolded mark_paid_patch_def])
  have get: "get_invoice t i (s\<lparr>invoices := row_update iv_id i (\<lambda>_. ?v) (invoices s)\<rparr>) = Some ?v"
    by (rule get_invoice_written[OF assms(1)]) (simp_all add: row)
  show ?thesis
    by (rule exI, rule exI, rule exI, intro conjI, rule run, rule get) (simp_all add: list_receivable_invoices_def)
qed

theorem patch_marks_unpaid_paid_witness:
  "\<exists>r s' v. update_invoice shop_now 2 shop_user 20 mark_paid_patch shop_billed = (Inr r, s') \<and>
     get_invoice 2 20 s' = Some v \<and> iv_status v = InvoiceStatus_PAID \<and> iv_amount_paid v = 0 \<and> iv_total v = 3102"
proof -
  have "map_option (\<lambda>iv. (iv_amount_paid iv, iv_total iv, references_exist iv shop_billed)) (get_invoice 2 20 shop_billed) =
      Some (0, 3102, True)"
    by code_simp
  then obtain iv where iv: "get_invoice 2 20 shop_billed = Some iv" "iv_amount_paid iv = 0" "iv_total iv = 3102"
    "references_exist iv shop_billed"
    by auto
  from patch_marks_unpaid_paid[OF iv(1,4)] iv(2,3) show ?thesis by metis
qed

text \<open>The allocation compares neither currencies nor directions: in a reachable session an outgoing
  payment in dollars is accepted as payment of an invoice in roubles, and its amount counts as paid.\<close>

theorem foreign_payment_pays_invoice:
  "\<exists>s' p iv. reachable finance_start (finance_step no_numbers) (s' :: finance_db) \<and>
     payments s' = [p] \<and> invoices s' = [iv] \<and> pm_currency p = ''USD'' \<and> iv_currency iv = ''RUB'' \<and>
     pm_direction p = PaymentDirection_OUTGOING \<and> iv_amount_paid iv = 1500 \<and> sum_paid 2 s' = 2000"
proof -
  have "map (\<lambda>p. (pm_currency p, pm_direction p)) (payments shop_paid) = [(''USD'', PaymentDirection_OUTGOING)] \<and>
      map (\<lambda>iv. (iv_currency iv, iv_amount_paid iv)) (invoices shop_paid) = [(''RUB'', 1500)] \<and> sum_paid 2 shop_paid = 2000"
    by code_simp
  then obtain p iv where "payments shop_paid = [p]" "pm_currency p = ''USD''" "pm_direction p = PaymentDirection_OUTGOING"
    "invoices shop_paid = [iv]" "iv_currency iv = ''RUB''" "iv_amount_paid iv = 1500" "sum_paid 2 shop_paid = 2000"
    by auto
  then show ?thesis using shop_paid_reachable by blast
qed

end
