(* ===== verification/Process_Policy.thy ===== *)
theory Process_Policy
  imports Core_Db
begin

text \<open>
  The policy of a process (\<^verbatim>\<open>process_overlay/policy_schema.py\<close>): its schema, the parser of a JSON
  snapshot with the denylist of keys, the JSON a policy is stored as, and the checks against a
  pipeline.  What pydantic itself decides (how it coerces a JSON value to an integer or a boolean, and
  the text of its errors) is the parameter \<open>pydantic_lib\<close>.
\<close>

subsection \<open>Schema\<close>

record transition_conditions =
  tc_required_fields :: "string list"
  tc_required_roles :: "string list"
  tc_requires_approval :: bool
  tc_required_task_codes :: "string list"
  tc_required_document_types :: "string list"

record policy_transition =
  pt_from_stage_code :: string
  pt_to_stage_code :: string
  pt_conditions :: transition_conditions

record policy_snapshot =
  po_schema_version :: int
  po_process_template_code :: string
  po_pipeline_code :: string
  po_stage_codes :: "string list"
  po_transitions :: "policy_transition list"
  po_module_requirements :: "string list"
  po_terminal_stage_codes :: "string list"

definition MAX_TRANSITIONS :: nat where "MAX_TRANSITIONS = 100"

definition MAX_STAGE_CODES :: nat where "MAX_STAGE_CODES = 50"

definition POLICY_SCHEMA_VERSION :: int where "POLICY_SCHEMA_VERSION = 1"

record pydantic_lib =
  lax_int :: "json \<Rightarrow> int option"
  lax_bool :: "json \<Rightarrow> bool option"
  error_text :: "json \<Rightarrow> string"

text \<open>An integer or a boolean of the right JSON type is taken as it is.\<close>

definition pydantic_ok :: "pydantic_lib \<Rightarrow> bool" where
  "pydantic_ok lib \<longleftrightarrow> (\<forall>n. lax_int lib (JInt n) = Some n) \<and> (\<forall>b. lax_bool lib (JBool b) = Some b)"

subsection \<open>Fields\<close>

text \<open>
  \<open>None\<close> is pydantic's \<^verbatim>\<open>ValidationError\<close>.  A field is looked up in the object, its default is used
  when it is missing.
\<close>

definition known_keys :: "string list \<Rightarrow> (string \<times> json) list \<Rightarrow> bool" where
  "known_keys allowed kvs = list_all (\<lambda>(k, _). List.member allowed k) kvs"

definition required_field :: "string \<Rightarrow> (json \<Rightarrow> 'a option) \<Rightarrow> (string \<times> json) list \<Rightarrow> 'a option" where
  "required_field k parse kvs = Option.bind (map_of kvs k) parse"

definition default_field :: "string \<Rightarrow> 'a \<Rightarrow> (json \<Rightarrow> 'a option) \<Rightarrow> (string \<times> json) list \<Rightarrow> 'a option" where
  "default_field k d parse kvs = (case map_of kvs k of None \<Rightarrow> Some d | Some j \<Rightarrow> parse j)"

fun parse_str :: "json \<Rightarrow> string option" where
  "parse_str (JStr s) = Some s"
| "parse_str (JId i) = Some (nat_str i)"
| "parse_str _ = None"

definition parse_code :: "json \<Rightarrow> string option" where
  "parse_code j = (case parse_str j of None \<Rightarrow> None
     | Some s \<Rightarrow> if 1 \<le> length s \<and> length s \<le> 64 then Some s else None)"

fun parse_all :: "(json \<Rightarrow> 'a option) \<Rightarrow> json list \<Rightarrow> 'a list option" where
  "parse_all parse [] = Some []"
| "parse_all parse (j # js) =
     (case parse j of None \<Rightarrow> None | Some x \<Rightarrow> map_option ((#) x) (parse_all parse js))"

definition parse_list :: "nat \<Rightarrow> nat \<Rightarrow> (json \<Rightarrow> 'a option) \<Rightarrow> json \<Rightarrow> 'a list option" where
  "parse_list lo hi parse j = (case j of
     JList js \<Rightarrow> if lo \<le> length js \<and> length js \<le> hi then parse_all parse js else None
   | _ \<Rightarrow> None)"

definition non_empty_strings :: "string list \<Rightarrow> string list option" where
  "non_empty_strings value =
     (let cleaned = map py_strip (filter (\<lambda>item. item \<noteq> [] \<and> py_strip item \<noteq> []) value) in
      if length cleaned \<noteq> length value then None else Some cleaned)"

definition unique_string_list :: "string list \<Rightarrow> string list option" where
  "unique_string_list value =
     (let normalized = map py_strip value in
      if list_ex (\<lambda>item. item = []) normalized then None
      else if length (remdups normalized) \<noteq> length normalized then None
      else Some normalized)"

definition parse_entries :: "nat \<Rightarrow> json \<Rightarrow> string list option" where
  "parse_entries hi j = Option.bind (parse_list 0 hi parse_str j) non_empty_strings"

definition parse_codes :: "nat \<Rightarrow> nat \<Rightarrow> json \<Rightarrow> string list option" where
  "parse_codes lo hi j = Option.bind (parse_list lo hi parse_str j) unique_string_list"

subsection \<open>Models\<close>

definition default_conditions :: transition_conditions where
  "default_conditions = \<lparr>tc_required_fields = [], tc_required_roles = [], tc_requires_approval = False,
     tc_required_task_codes = [], tc_required_document_types = []\<rparr>"

definition parse_conditions :: "pydantic_lib \<Rightarrow> json \<Rightarrow> transition_conditions option" where
  "parse_conditions lib j = (case j of
     JObj kvs \<Rightarrow>
       if \<not> known_keys [''required_fields'', ''required_roles'', ''requires_approval'',
              ''required_task_codes'', ''required_document_types''] kvs then None
       else
         Option.bind (default_field ''required_fields'' [] (parse_entries 50) kvs) (\<lambda>fs.
         Option.bind (default_field ''required_roles'' [] (parse_entries 20) kvs) (\<lambda>rs.
         Option.bind (default_field ''requires_approval'' False (lax_bool lib) kvs) (\<lambda>b.
         Option.bind (default_field ''required_task_codes'' [] (parse_entries 50) kvs) (\<lambda>ts.
         Option.bind (default_field ''required_document_types'' [] (parse_entries 50) kvs) (\<lambda>ds.
         Some \<lparr>tc_required_fields = fs, tc_required_roles = rs, tc_requires_approval = b,
               tc_required_task_codes = ts, tc_required_document_types = ds\<rparr>)))))
   | _ \<Rightarrow> None)"

definition parse_transition :: "pydantic_lib \<Rightarrow> json \<Rightarrow> policy_transition option" where
  "parse_transition lib j = (case j of
     JObj kvs \<Rightarrow>
       if \<not> known_keys [''from_stage_code'', ''to_stage_code'', ''conditions''] kvs then None
       else
         Option.bind (required_field ''from_stage_code'' parse_code kvs) (\<lambda>a.
         Option.bind (required_field ''to_stage_code'' parse_code kvs) (\<lambda>b.
         Option.bind (default_field ''conditions'' default_conditions (parse_conditions lib) kvs) (\<lambda>c.
         Some \<lparr>pt_from_stage_code = a, pt_to_stage_code = b, pt_conditions = c\<rparr>)))
   | _ \<Rightarrow> None)"

definition edge :: "policy_transition \<Rightarrow> string \<times> string" where
  "edge t = (pt_from_stage_code t, pt_to_stage_code t)"

fun check_edges :: "string list \<Rightarrow> (string \<times> string) list \<Rightarrow> policy_transition list \<Rightarrow> bool" where
  "check_edges stages seen [] = True"
| "check_edges stages seen (t # ts) =
     (if \<not> List.member stages (pt_from_stage_code t) then False
      else if \<not> List.member stages (pt_to_stage_code t) then False
      else if List.member seen (edge t) then False
      else check_edges stages (edge t # seen) ts)"

definition validate_graph :: "policy_snapshot \<Rightarrow> bool" where
  "validate_graph p =
     (po_stage_codes p \<noteq> [] \<and>
      list_all (\<lambda>c. List.member (po_stage_codes p) c) (po_terminal_stage_codes p) \<and>
      check_edges (po_stage_codes p) [] (po_transitions p))"

definition model_validate :: "pydantic_lib \<Rightarrow> json \<Rightarrow> policy_snapshot option" where
  "model_validate lib j = (case j of
     JObj kvs \<Rightarrow>
       if \<not> known_keys [''schema_version'', ''process_template_code'', ''pipeline_code'', ''stage_codes'',
              ''transitions'', ''module_requirements'', ''terminal_stage_codes''] kvs then None
       else
         Option.bind (required_field ''schema_version'' (lax_int lib) kvs) (\<lambda>v.
         if v \<noteq> POLICY_SCHEMA_VERSION then None else
         Option.bind (required_field ''process_template_code'' parse_code kvs) (\<lambda>pt.
         Option.bind (required_field ''pipeline_code'' parse_code kvs) (\<lambda>pl.
         Option.bind (required_field ''stage_codes'' (parse_codes 1 MAX_STAGE_CODES) kvs) (\<lambda>ss.
         Option.bind (default_field ''transitions'' [] (parse_list 0 MAX_TRANSITIONS (parse_transition lib)) kvs) (\<lambda>ts.
         Option.bind (default_field ''module_requirements'' [] (parse_codes 0 20) kvs) (\<lambda>ms.
         Option.bind (default_field ''terminal_stage_codes'' [] (parse_codes 0 MAX_STAGE_CODES) kvs) (\<lambda>es.
         (let p = \<lparr>po_schema_version = v, po_process_template_code = pt, po_pipeline_code = pl,
               po_stage_codes = ss, po_transitions = ts, po_module_requirements = ms,
               po_terminal_stage_codes = es\<rparr> in
          if validate_graph p then Some p else None))))))))
   | _ \<Rightarrow> None)"

subsection \<open>The denylist of keys\<close>

definition forbidden_words :: "string list" where
  "forbidden_words = [''script'', ''eval'', ''exec'', ''lambda'', ''__import__'', ''compile'',
     ''expression'', ''handler'', ''template_engine'']"

fun starts_with :: "string \<Rightarrow> string \<Rightarrow> bool" where
  "starts_with [] s = True"
| "starts_with (c # cs) [] = False"
| "starts_with (c # cs) (d # ds) = (c = d \<and> starts_with cs ds)"

fun contains_word :: "string \<Rightarrow> string \<Rightarrow> bool" where
  "contains_word w [] = starts_with w []"
| "contains_word w (c # cs) = (starts_with w (c # cs) \<or> contains_word w cs)"

definition forbidden_key :: "string \<Rightarrow> bool" where
  "forbidden_key k = list_ex (\<lambda>w. contains_word w (map ascii_lower k)) forbidden_words"

text \<open>The path of the first forbidden key, in the order the source walks the payload.\<close>

fun find_forbidden :: "string \<Rightarrow> json \<Rightarrow> string option"
  and find_forbidden_fields :: "string \<Rightarrow> (string \<times> json) list \<Rightarrow> string option"
  and find_forbidden_items :: "string \<Rightarrow> nat \<Rightarrow> json list \<Rightarrow> string option" where
  "find_forbidden path (JObj kvs) = find_forbidden_fields path kvs"
| "find_forbidden path (JList js) = find_forbidden_items path 0 js"
| "find_forbidden path _ = None"
| "find_forbidden_fields path [] = None"
| "find_forbidden_fields path ((k, v) # kvs) =
     (if forbidden_key k then Some (path @ ''.'' @ k)
      else (case find_forbidden (path @ ''.'' @ k) v of
              Some p \<Rightarrow> Some p | None \<Rightarrow> find_forbidden_fields path kvs))"
| "find_forbidden_items path i [] = None"
| "find_forbidden_items path i (j # js) =
     (case find_forbidden (path @ ''['' @ nat_str i @ '']'') j of
        Some p \<Rightarrow> Some p | None \<Rightarrow> find_forbidden_items path (Suc i) js)"

definition parse_policy_snapshot :: "pydantic_lib \<Rightarrow> json \<Rightarrow> exn + policy_snapshot" where
  "parse_policy_snapshot lib payload =
     (case find_forbidden ''policy'' payload of
        Some p \<Rightarrow> Inl (ProcessOverlayValidationError (''Forbidden policy key at '' @ p) [p])
      | None \<Rightarrow>
          (case model_validate lib payload of
             Some x \<Rightarrow> Inr x
           | None \<Rightarrow> Inl (ProcessOverlayValidationError ''Invalid policy snapshot'' [error_text lib payload])))"

subsection \<open>The stored form\<close>

definition dump_strings :: "string list \<Rightarrow> json" where
  "dump_strings xs = JList (map JStr xs)"

definition dump_conditions :: "transition_conditions \<Rightarrow> json" where
  "dump_conditions c = JObj
     [(''required_fields'', dump_strings (tc_required_fields c)),
      (''required_roles'', dump_strings (tc_required_roles c)),
      (''requires_approval'', JBool (tc_requires_approval c)),
      (''required_task_codes'', dump_strings (tc_required_task_codes c)),
      (''required_document_types'', dump_strings (tc_required_document_types c))]"

definition dump_transition :: "policy_transition \<Rightarrow> json" where
  "dump_transition t = JObj
     [(''from_stage_code'', JStr (pt_from_stage_code t)),
      (''to_stage_code'', JStr (pt_to_stage_code t)),
      (''conditions'', dump_conditions (pt_conditions t))]"

definition model_dump :: "policy_snapshot \<Rightarrow> json" where
  "model_dump p = JObj
     [(''schema_version'', JInt (po_schema_version p)),
      (''process_template_code'', JStr (po_process_template_code p)),
      (''pipeline_code'', JStr (po_pipeline_code p)),
      (''stage_codes'', dump_strings (po_stage_codes p)),
      (''transitions'', JList (map dump_transition (po_transitions p))),
      (''module_requirements'', dump_strings (po_module_requirements p)),
      (''terminal_stage_codes'', dump_strings (po_terminal_stage_codes p))]"

subsection \<open>Against a pipeline\<close>

definition validate_policy_against_pipeline ::
    "policy_snapshot \<Rightarrow> string \<Rightarrow> string list \<Rightarrow> string \<Rightarrow> ('s, unit) svc" where
  "validate_policy_against_pipeline p pipeline_code pipeline_stage_codes template_code =
     (let errors =
        (if po_pipeline_code p \<noteq> pipeline_code
         then [''policy.pipeline_code '' @ quoted (po_pipeline_code p) @ '' does not match pipeline '' @
               quoted pipeline_code] else []) @
        (if po_process_template_code p \<noteq> template_code
         then [''policy.process_template_code does not match bound process template''] else []) @
        (case sort (remdups (filter (\<lambda>c. \<not> List.member pipeline_stage_codes c) (po_stage_codes p))) of
           [] \<Rightarrow> []
         | unknown \<Rightarrow> [''unknown stage codes for pipeline: '' @ join_with '', '' unknown])
      in ensure (errors = []) (ProcessOverlayValidationError ''Policy pipeline validation failed'' errors))"

subsection \<open>What the parser accepts\<close>

definition stripped :: "string \<Rightarrow> bool" where
  "stripped s \<longleftrightarrow> s \<noteq> [] \<and> py_strip s = s"

definition entries_valid :: "nat \<Rightarrow> string list \<Rightarrow> bool" where
  "entries_valid hi xs \<longleftrightarrow> length xs \<le> hi \<and> (\<forall>x \<in> set xs. stripped x)"

definition codes_valid :: "nat \<Rightarrow> nat \<Rightarrow> string list \<Rightarrow> bool" where
  "codes_valid lo hi xs \<longleftrightarrow> lo \<le> length xs \<and> length xs \<le> hi \<and> (\<forall>x \<in> set xs. stripped x) \<and> distinct xs"

definition code_valid :: "string \<Rightarrow> bool" where
  "code_valid s \<longleftrightarrow> 1 \<le> length s \<and> length s \<le> 64"

definition conditions_valid :: "transition_conditions \<Rightarrow> bool" where
  "conditions_valid c \<longleftrightarrow> entries_valid 50 (tc_required_fields c) \<and> entries_valid 20 (tc_required_roles c) \<and>
     entries_valid 50 (tc_required_task_codes c) \<and> entries_valid 50 (tc_required_document_types c)"

definition transition_valid :: "policy_transition \<Rightarrow> bool" where
  "transition_valid t \<longleftrightarrow> code_valid (pt_from_stage_code t) \<and> code_valid (pt_to_stage_code t) \<and>
     conditions_valid (pt_conditions t)"

definition policy_valid :: "policy_snapshot \<Rightarrow> bool" where
  "policy_valid p \<longleftrightarrow> po_schema_version p = POLICY_SCHEMA_VERSION \<and> code_valid (po_process_template_code p) \<and>
     code_valid (po_pipeline_code p) \<and> codes_valid 1 MAX_STAGE_CODES (po_stage_codes p) \<and>
     length (po_transitions p) \<le> MAX_TRANSITIONS \<and> (\<forall>t \<in> set (po_transitions p). transition_valid t) \<and>
     codes_valid 0 20 (po_module_requirements p) \<and> codes_valid 0 MAX_STAGE_CODES (po_terminal_stage_codes p) \<and>
     validate_graph p"

lemma bind_Some: "Option.bind x f = Some y \<longleftrightarrow> (\<exists>z. x = Some z \<and> f z = Some y)"
  by (cases x) auto

lemma parse_all_map: "(\<And>x. x \<in> set xs \<Longrightarrow> parse (g x) = Some x) \<Longrightarrow> parse_all parse (map g xs) = Some xs"
  by (induction xs) auto

lemma parse_all_Some:
  "parse_all parse js = Some xs \<Longrightarrow> length xs = length js \<and> (\<forall>x \<in> set xs. \<exists>j. parse j = Some x)"
  by (induction js arbitrary: xs) (auto split: option.splits)

lemma parse_list_Some:
  "parse_list lo hi parse j = Some xs \<Longrightarrow>
     lo \<le> length xs \<and> length xs \<le> hi \<and> (\<forall>x \<in> set xs. \<exists>j. parse j = Some x)"
  by (auto simp: parse_list_def dest!: parse_all_Some split: json.splits if_splits)

lemma parse_code_Some: "parse_code j = Some s \<Longrightarrow> code_valid s"
  by (auto simp: parse_code_def code_valid_def split: option.splits if_splits)

lemma non_empty_strings_Some:
  assumes "non_empty_strings xs = Some ys"
  shows "length ys = length xs \<and> (\<forall>y \<in> set ys. stripped y)"
  using assms by (auto simp: non_empty_strings_def Let_def stripped_def split: if_splits)

lemma non_empty_strings_fix: "(\<And>x. x \<in> set xs \<Longrightarrow> stripped x) \<Longrightarrow> non_empty_strings xs = Some xs"
proof -
  assume x: "\<And>x. x \<in> set xs \<Longrightarrow> stripped x"
  then have "filter (\<lambda>item. item \<noteq> [] \<and> py_strip item \<noteq> []) xs = xs" "map py_strip xs = xs"
    by (auto simp: stripped_def filter_id_conv intro!: map_idI)
  then show ?thesis by (simp add: non_empty_strings_def)
qed

lemma unique_string_list_Some:
  assumes "unique_string_list xs = Some ys"
  shows "length ys = length xs \<and> (\<forall>y \<in> set ys. stripped y) \<and> distinct ys"
proof -
  have ys: "ys = map py_strip xs" "\<not> list_ex (\<lambda>item. item = []) ys"
    using assms by (auto simp: unique_string_list_def Let_def split: if_splits)
  moreover have "distinct ys"
    using assms length_remdups_eq[of "map py_strip xs"]
    by (auto simp: unique_string_list_def Let_def split: if_splits)
  ultimately show ?thesis by (auto simp: stripped_def list_ex_iff image_iff)
qed

lemma unique_string_list_fix:
  assumes "\<And>x. x \<in> set xs \<Longrightarrow> stripped x" "distinct xs"
  shows "unique_string_list xs = Some xs"
proof -
  have "map py_strip xs = xs" using assms(1) by (auto simp: stripped_def intro!: map_idI)
  then show ?thesis using assms by (auto simp: unique_string_list_def Let_def list_ex_iff distinct_remdups_id stripped_def)
qed

lemma parse_entries_Some: "parse_entries hi j = Some xs \<Longrightarrow> entries_valid hi xs"
  by (auto simp: parse_entries_def bind_Some entries_valid_def dest!: parse_list_Some non_empty_strings_Some)

lemma parse_codes_Some: "parse_codes lo hi j = Some xs \<Longrightarrow> codes_valid lo hi xs"
  by (auto simp: parse_codes_def bind_Some codes_valid_def dest!: parse_list_Some unique_string_list_Some)

lemma parse_strings_dump:
  "lo \<le> length xs \<Longrightarrow> length xs \<le> hi \<Longrightarrow> parse_list lo hi parse_str (dump_strings xs) = Some xs"
  by (simp add: parse_list_def dump_strings_def parse_all_map)

lemma parse_entries_dump: "entries_valid hi xs \<Longrightarrow> parse_entries hi (dump_strings xs) = Some xs"
  by (simp add: parse_entries_def parse_strings_dump entries_valid_def non_empty_strings_fix)

lemma parse_codes_dump: "codes_valid lo hi xs \<Longrightarrow> parse_codes lo hi (dump_strings xs) = Some xs"
  by (simp add: parse_codes_def parse_strings_dump codes_valid_def unique_string_list_fix)

lemma default_field_Some:
  "default_field k d parse kvs = Some x \<Longrightarrow> x = d \<or> (\<exists>j. parse j = Some x)"
  by (auto simp: default_field_def split: option.splits)

lemma required_field_Some: "required_field k parse kvs = Some x \<Longrightarrow> \<exists>j. parse j = Some x"
  by (auto simp: required_field_def bind_Some)

lemma parse_conditions_Some: "parse_conditions lib j = Some c \<Longrightarrow> conditions_valid c"
  by (fastforce simp: parse_conditions_def conditions_valid_def bind_Some entries_valid_def
      dest: default_field_Some parse_entries_Some split: json.splits if_splits)

lemma default_conditions_valid: "conditions_valid default_conditions"
  by (simp add: conditions_valid_def default_conditions_def entries_valid_def)

lemma parse_transition_Some: "parse_transition lib j = Some t \<Longrightarrow> transition_valid t"
  by (auto simp: parse_transition_def transition_valid_def bind_Some
      dest!: default_field_Some required_field_Some intro: parse_code_Some parse_conditions_Some
        default_conditions_valid split: json.splits if_splits)

lemma codes_valid_Nil: "codes_valid 0 hi []"
  by (simp add: codes_valid_def)

lemma model_validate_Some:
  assumes "model_validate lib j = Some p"
  shows "policy_valid p"
proof -
  obtain kvs where "j = JObj kvs" using assms by (auto simp: model_validate_def split: json.splits)
  with assms obtain v pt pl ss ts ms es where
    "v = POLICY_SCHEMA_VERSION" "required_field ''process_template_code'' parse_code kvs = Some pt"
    "required_field ''pipeline_code'' parse_code kvs = Some pl"
    "required_field ''stage_codes'' (parse_codes 1 MAX_STAGE_CODES) kvs = Some ss"
    "default_field ''transitions'' [] (parse_list 0 MAX_TRANSITIONS (parse_transition lib)) kvs = Some ts"
    "default_field ''module_requirements'' [] (parse_codes 0 20) kvs = Some ms"
    "default_field ''terminal_stage_codes'' [] (parse_codes 0 MAX_STAGE_CODES) kvs = Some es"
    "validate_graph p" "p = \<lparr>po_schema_version = v, po_process_template_code = pt, po_pipeline_code = pl,
               po_stage_codes = ss, po_transitions = ts, po_module_requirements = ms,
               po_terminal_stage_codes = es\<rparr>"
    by (auto simp: model_validate_def bind_Some Let_def split: if_splits)
  moreover from this have "code_valid pt" "code_valid pl" "codes_valid 1 MAX_STAGE_CODES ss"
    by (auto dest!: required_field_Some intro: parse_code_Some parse_codes_Some)
  moreover from calculation have "codes_valid 0 20 ms" "codes_valid 0 MAX_STAGE_CODES es"
    by (auto dest!: default_field_Some intro: parse_codes_Some codes_valid_Nil)
  moreover from calculation have "length ts \<le> MAX_TRANSITIONS \<and> (\<forall>t \<in> set ts. transition_valid t)"
    by (auto dest!: default_field_Some parse_list_Some intro: parse_transition_Some)
  ultimately show ?thesis by (simp add: policy_valid_def)
qed

subsection \<open>Round trip\<close>

lemma parse_conditions_dump:
  "pydantic_ok lib \<Longrightarrow> conditions_valid c \<Longrightarrow> parse_conditions lib (dump_conditions c) = Some c"
  by (simp add: parse_conditions_def dump_conditions_def conditions_valid_def known_keys_def
      default_field_def parse_entries_dump pydantic_ok_def)

lemma parse_transition_dump:
  "pydantic_ok lib \<Longrightarrow> transition_valid t \<Longrightarrow> parse_transition lib (dump_transition t) = Some t"
  by (simp add: parse_transition_def dump_transition_def transition_valid_def known_keys_def required_field_def
      default_field_def parse_conditions_dump parse_code_def code_valid_def)

lemma model_validate_dump:
  assumes "pydantic_ok lib" "policy_valid p"
  shows "model_validate lib (model_dump p) = Some p"
proof -
  have ts: "parse_list 0 MAX_TRANSITIONS (parse_transition lib) (JList (map dump_transition (po_transitions p)))
      = Some (po_transitions p)"
    using assms by (simp add: parse_list_def policy_valid_def parse_all_map parse_transition_dump)
  have eta: "\<lparr>po_schema_version = POLICY_SCHEMA_VERSION, po_process_template_code = po_process_template_code p,
      po_pipeline_code = po_pipeline_code p, po_stage_codes = po_stage_codes p,
      po_transitions = po_transitions p, po_module_requirements = po_module_requirements p,
      po_terminal_stage_codes = po_terminal_stage_codes p\<rparr> = p"
    using assms(2) by (cases p) (simp add: policy_valid_def)
  show ?thesis
    using assms ts
    by (simp add: eta Let_def model_validate_def model_dump_def known_keys_def required_field_def default_field_def
        pydantic_ok_def policy_valid_def parse_codes_dump parse_code_def code_valid_def)
qed

lemma no_forbidden_strings: "find_forbidden path (dump_strings xs) = None"
proof -
  have "find_forbidden_items path i (map JStr xs) = None" for i by (induction xs arbitrary: i) auto
  then show ?thesis by (simp add: dump_strings_def)
qed

lemma policy_keys_allowed:
  "list_all (\<lambda>k. \<not> forbidden_key k) [''schema_version'', ''process_template_code'', ''pipeline_code'',
     ''stage_codes'', ''transitions'', ''module_requirements'', ''terminal_stage_codes'', ''from_stage_code'',
     ''to_stage_code'', ''conditions'', ''required_fields'', ''required_roles'', ''requires_approval'',
     ''required_task_codes'', ''required_document_types'']"
  by code_simp

lemma no_forbidden_transition: "find_forbidden path (dump_transition t) = None"
  using policy_keys_allowed
  by (simp add: dump_transition_def dump_conditions_def no_forbidden_strings)

lemma no_forbidden_dump: "find_forbidden path (model_dump p) = None"
proof -
  have "find_forbidden_items path i (map dump_transition ts) = None" for path i ts
    by (induction ts arbitrary: i) (auto simp: no_forbidden_transition)
  then show ?thesis
    using policy_keys_allowed by (simp add: model_dump_def no_forbidden_strings)
qed

lemma parse_dump:
  "pydantic_ok lib \<Longrightarrow> policy_valid p \<Longrightarrow> parse_policy_snapshot lib (model_dump p) = Inr p"
  by (simp add: parse_policy_snapshot_def no_forbidden_dump model_validate_dump)

lemma parse_policy_snapshot_ok: "parse_policy_snapshot lib j = Inr p \<Longrightarrow> policy_valid p"
  by (auto simp: parse_policy_snapshot_def intro: model_validate_Some split: option.splits)

lemma check_edges_iff:
  "check_edges stages seen ts \<longleftrightarrow> (\<forall>t \<in> set ts. pt_from_stage_code t \<in> set stages \<and>
     pt_to_stage_code t \<in> set stages) \<and> distinct (map edge ts) \<and> set (map edge ts) \<inter> set seen = {}"
  by (induction ts arbitrary: seen) auto

end
