(* ===== verification/Crm_Db.thy ===== *)
theory Crm_Db
  imports Parties Process_Policy
begin

text \<open>
  The tables of the CRM and of the process overlay (\<^verbatim>\<open>workflows/models.py\<close>,
  \<^verbatim>\<open>process_overlay/models.py\<close>) with the constraints the database enforces on them, and the queries
  of \<^verbatim>\<open>workflows/repository.py\<close> and \<^verbatim>\<open>process_overlay/repository.py\<close>.
\<close>

subsection \<open>Rows\<close>

record pipeline =
  pp_id :: uuid
  pp_tenant_id :: uuid
  pp_code :: string
  pp_name :: string
  pp_entity_type :: string
  pp_is_default :: bool

record stage =
  sg_id :: uuid
  sg_pipeline_id :: uuid
  sg_code :: string
  sg_name :: string
  sg_sort_order :: int
  sg_is_terminal :: bool

record work_item =
  wi_id :: uuid
  wi_tenant_id :: uuid
  wi_pipeline_id :: uuid
  wi_stage_id :: uuid
  wi_work_item_type :: string
  wi_title :: string
  wi_description :: "string option"
  wi_primary_party_id :: "uuid option"
  wi_status :: WorkItemStatus
  wi_amount :: "cents option"
  wi_currency :: "string option"
  wi_source :: "string option"
  wi_custom_fields_json :: "(string \<times> json) list"
  wi_updated_by_user_id :: uuid

record participant =
  wp_tenant_id :: uuid
  wp_work_item_id :: uuid
  wp_party_id :: uuid
  wp_role :: WorkItemParticipantRole

text \<open>Texts shown to users; the fixed Russian ones are named by their purpose.\<close>

datatype display_text =
    Plain string
  | ContactLeadTitle
  | LeadClosedTitle string
  | LeadReopenedTitle
  | AutoTaskTitle
  | AutoTaskNote string uuid instant

record activity =
  av_tenant_id :: uuid
  av_work_item_id :: uuid
  av_activity_type :: ActivityType
  av_title :: display_text
  av_description :: "display_text option"
  av_occurred_at :: instant
  av_created_by_user_id :: uuid

record task =
  tk_id :: uuid
  tk_tenant_id :: uuid
  tk_work_item_id :: uuid
  tk_process_run_id :: "uuid option"
  tk_automation_key :: "string option"
  tk_title :: display_text
  tk_description :: "string option"
  tk_status :: TaskStatus
  tk_due_at :: "instant option"
  tk_assigned_to_user_id :: "uuid option"

record process_template =
  tp_id :: uuid
  tp_code :: string
  tp_name :: string
  tp_description :: "string option"
  tp_default_pipeline_code :: string
  tp_policy_blueprint_json :: json
  tp_required_module_codes :: "string list"
  tp_is_active :: bool

record process_config =
  pc_id :: uuid
  pc_tenant_id :: uuid
  pc_process_template_id :: uuid
  pc_pipeline_id :: uuid
  pc_activation_state :: ProcessOverlayActivationState
  pc_active_definition_version_id :: "uuid option"

record definition_version =
  dv_id :: uuid
  dv_tenant_id :: uuid
  dv_configuration_id :: uuid
  dv_version_number :: nat
  dv_pipeline_id :: uuid
  dv_pipeline_code :: string
  dv_stage_codes :: "string list"
  dv_policy_snapshot_json :: json
  dv_module_requirements :: "string list"
  dv_published_at :: instant
  dv_published_by_user_id :: uuid
  dv_publish_reason :: string

record process_run =
  pr_id :: uuid
  pr_tenant_id :: uuid
  pr_configuration_id :: uuid
  pr_definition_version_id :: uuid
  pr_work_item_id :: uuid
  pr_run_state :: ProcessRunState
  pr_started_at :: instant
  pr_started_by_user_id :: uuid
  pr_completed_at :: "instant option"
  pr_completed_by_user_id :: "uuid option"
  pr_completion_reason :: "string option"
  pr_current_stage_code :: "string option"

record crm_db = parties_db +
  users :: "user list"
  memberships :: "membership list"
  tenant_settings :: "(uuid \<times> json) list"
  pipelines :: "pipeline list"
  stages :: "stage list"
  work_items :: "work_item list"
  participants :: "participant list"
  activities :: "activity list"
  tasks :: "task list"
  process_templates :: "process_template list"
  process_configs :: "process_config list"
  definition_versions :: "definition_version list"
  process_runs :: "process_run list"

text \<open>What the services take from outside the repository's code.\<close>

record runtime =
  rt_pydantic :: pydantic_lib
  rt_numbers :: py_numbers
  rt_parse_uuid :: "string \<Rightarrow> uuid option"

text \<open>\<^verbatim>\<open>with db.begin_nested(): ... except IntegrityError\<close>: the savepoint is rolled back.\<close>

definition nested_or :: "('s, 'a) svc \<Rightarrow> ('s, 'a) svc \<Rightarrow> ('s, 'a) svc" where
  "nested_or m handler s =
     (case m s of
        (Inl (IntegrityError _), _) \<Rightarrow> handler s
      | (Inl e, _) \<Rightarrow> (Inl e, s)
      | (Inr x, s') \<Rightarrow> (Inr x, s'))"

lemma nested_or_ok:
  "nested_or m h s = (Inr x, s') \<longleftrightarrow>
     m s = (Inr x, s') \<or> (\<exists>e s1. m s = (Inl (IntegrityError e), s1) \<and> h s = (Inr x, s'))"
  by (auto simp: nested_or_def split: prod.splits sum.splits exn.splits)

lemma preserves_nested_or:
  assumes "preserves I m" "preserves I h"
  shows "preserves I (nested_or m h)"
  using assms unfolding preserves_def nested_or_def
  by (fastforce split: prod.splits sum.splits exn.splits)

subsection \<open>WorkflowRepository\<close>

definition get_pipeline :: "uuid \<Rightarrow> uuid \<Rightarrow> 'z crm_db_scheme \<Rightarrow> pipeline option" where
  "get_pipeline t i s = scoped_get pp_tenant_id pp_id t i (pipelines s)"

definition get_pipeline_by_code :: "uuid \<Rightarrow> string \<Rightarrow> 'z crm_db_scheme \<Rightarrow> pipeline option" where
  "get_pipeline_by_code t code s = row_find (\<lambda>p. pp_tenant_id p = t \<and> pp_code p = code) (pipelines s)"

definition stages_of :: "uuid \<Rightarrow> 'z crm_db_scheme \<Rightarrow> stage list" where
  "stages_of p s = sort_key sg_sort_order (filter (\<lambda>g. sg_pipeline_id g = p) (stages s))"

definition get_stage :: "uuid \<Rightarrow> uuid \<Rightarrow> 'z crm_db_scheme \<Rightarrow> stage option" where
  "get_stage t i s = row_find (\<lambda>g. sg_id g = i \<and> get_pipeline t (sg_pipeline_id g) s \<noteq> None) (stages s)"

definition get_stage_by_code :: "uuid \<Rightarrow> uuid \<Rightarrow> string \<Rightarrow> 'z crm_db_scheme \<Rightarrow> stage option" where
  "get_stage_by_code t p code s =
     row_find (\<lambda>g. sg_pipeline_id g = p \<and> sg_code g = code \<and> get_pipeline t p s \<noteq> None) (stages s)"

definition get_work_item :: "uuid \<Rightarrow> uuid \<Rightarrow> 'z crm_db_scheme \<Rightarrow> work_item option" where
  "get_work_item t i s = scoped_get wi_tenant_id wi_id t i (work_items s)"

definition write_work_item :: "uuid \<Rightarrow> (work_item \<Rightarrow> work_item) \<Rightarrow> ('z crm_db_scheme, unit) svc" where
  "write_work_item i f = modify (\<lambda>s. s\<lparr>work_items := row_update wi_id i f (work_items s)\<rparr>)"

definition add_participant_row :: "participant \<Rightarrow> ('z crm_db_scheme, unit) svc" where
  "add_participant_row p =
     bindS (gets participants) (\<lambda>ps.
     thenS (ensure (\<not> list_ex (\<lambda>q. wp_work_item_id q = wp_work_item_id p \<and> wp_party_id q = wp_party_id p \<and>
                       wp_role q = wp_role p) ps) (IntegrityError ''uq_work_item_party_role''))
     (modify (\<lambda>s. s\<lparr>participants := row_insert p (participants s)\<rparr>)))"

definition add_activity_row :: "activity \<Rightarrow> ('z crm_db_scheme, unit) svc" where
  "add_activity_row a = modify (\<lambda>s. s\<lparr>activities := row_insert a (activities s)\<rparr>)"

text \<open>The insert of a task with the table's constraints.\<close>

definition task_constraints :: "task \<Rightarrow> 'z crm_db_scheme \<Rightarrow> bool" where
  "task_constraints k s =
     (case (tk_process_run_id k, tk_automation_key k) of
        (None, None) \<Rightarrow> True
      | (Some r, Some key) \<Rightarrow>
          py_strip key \<noteq> [] \<and>
          list_ex (\<lambda>x. pr_tenant_id x = tk_tenant_id k \<and> pr_id x = r) (process_runs s) \<and>
          \<not> list_ex (\<lambda>x. tk_tenant_id x = tk_tenant_id k \<and> tk_process_run_id x = Some r \<and>
              tk_automation_key x = Some key) (tasks s)
      | _ \<Rightarrow> False)"

definition insert_task :: "task \<Rightarrow> ('z crm_db_scheme, unit) svc" where
  "insert_task k =
     bindS (gets (task_constraints k)) (\<lambda>ok.
     thenS (ensure ok (IntegrityError ''tasks''))
     (modify (\<lambda>s. s\<lparr>tasks := row_insert k (tasks s)\<rparr>)))"

subsection \<open>ProcessOverlayRepository\<close>

definition get_template_by_code :: "string \<Rightarrow> 'z crm_db_scheme \<Rightarrow> process_template option" where
  "get_template_by_code code s = row_find (\<lambda>t. tp_code t = code) (process_templates s)"

definition get_template_by_id :: "uuid \<Rightarrow> 'z crm_db_scheme \<Rightarrow> process_template option" where
  "get_template_by_id i s = row_find (\<lambda>t. tp_id t = i) (process_templates s)"

definition get_configuration :: "uuid \<Rightarrow> uuid \<Rightarrow> 'z crm_db_scheme \<Rightarrow> process_config option" where
  "get_configuration t i s = scoped_get pc_tenant_id pc_id t i (process_configs s)"

definition get_configuration_by_pipeline :: "uuid \<Rightarrow> uuid \<Rightarrow> 'z crm_db_scheme \<Rightarrow> process_config option" where
  "get_configuration_by_pipeline t p s =
     row_find (\<lambda>c. pc_tenant_id c = t \<and> pc_pipeline_id c = p) (process_configs s)"

definition list_configurations :: "uuid \<Rightarrow> 'z crm_db_scheme \<Rightarrow> process_config list" where
  "list_configurations t s = filter (\<lambda>c. pc_tenant_id c = t) (process_configs s)"

definition write_config :: "uuid \<Rightarrow> (process_config \<Rightarrow> process_config) \<Rightarrow> ('z crm_db_scheme, unit) svc" where
  "write_config i f = modify (\<lambda>s. s\<lparr>process_configs := row_update pc_id i f (process_configs s)\<rparr>)"

definition create_configuration_row ::
    "uuid \<Rightarrow> uuid \<Rightarrow> uuid \<Rightarrow> ('z crm_db_scheme, uuid) svc" where
  "create_configuration_row t template p =
     bindS fresh_id (\<lambda>i.
     thenS (modify (\<lambda>s. s\<lparr>process_configs := row_insert
              \<lparr>pc_id = i, pc_tenant_id = t, pc_process_template_id = template, pc_pipeline_id = p,
               pc_activation_state = ProcessOverlayActivationState_INACTIVE,
               pc_active_definition_version_id = None\<rparr> (process_configs s)\<rparr>))
     (ret i))"

definition get_definition_version :: "uuid \<Rightarrow> uuid \<Rightarrow> 'z crm_db_scheme \<Rightarrow> definition_version option" where
  "get_definition_version t i s = scoped_get dv_tenant_id dv_id t i (definition_versions s)"

definition get_definition_version_for_configuration ::
    "uuid \<Rightarrow> uuid \<Rightarrow> uuid \<Rightarrow> 'z crm_db_scheme \<Rightarrow> definition_version option" where
  "get_definition_version_for_configuration t c i s =
     row_find (\<lambda>v. dv_tenant_id v = t \<and> dv_configuration_id v = c \<and> dv_id v = i) (definition_versions s)"

definition max_version_number :: "uuid \<Rightarrow> 'z crm_db_scheme \<Rightarrow> nat" where
  "max_version_number c s =
     foldr max (map dv_version_number (filter (\<lambda>v. dv_configuration_id v = c) (definition_versions s))) 0"

text \<open>\<^verbatim>\<open>order_by(version_number.desc()).limit(1)\<close>; numbers of one configuration are unique.\<close>

definition get_latest_definition_version ::
    "uuid \<Rightarrow> uuid \<Rightarrow> 'z crm_db_scheme \<Rightarrow> definition_version option" where
  "get_latest_definition_version t c s =
     (case rev (sort_key dv_version_number
             (filter (\<lambda>v. dv_tenant_id v = t \<and> dv_configuration_id v = c) (definition_versions s))) of
        [] \<Rightarrow> None | v # _ \<Rightarrow> Some v)"

definition insert_definition_version :: "definition_version \<Rightarrow> ('z crm_db_scheme, unit) svc" where
  "insert_definition_version v =
     modify (\<lambda>s. s\<lparr>definition_versions := row_insert v (definition_versions s)\<rparr>)"

definition get_run :: "uuid \<Rightarrow> uuid \<Rightarrow> 'z crm_db_scheme \<Rightarrow> process_run option" where
  "get_run t i s = scoped_get pr_tenant_id pr_id t i (process_runs s)"

definition get_active_run_for_work_item :: "uuid \<Rightarrow> uuid \<Rightarrow> 'z crm_db_scheme \<Rightarrow> process_run option" where
  "get_active_run_for_work_item t w s =
     row_find (\<lambda>r. pr_tenant_id r = t \<and> pr_work_item_id r = w \<and> pr_run_state r = ProcessRunState_ACTIVE)
       (process_runs s)"

definition write_run :: "uuid \<Rightarrow> (process_run \<Rightarrow> process_run) \<Rightarrow> ('z crm_db_scheme, unit) svc" where
  "write_run i f = modify (\<lambda>s. s\<lparr>process_runs := row_update pr_id i f (process_runs s)\<rparr>)"

text \<open>The insert of a run; the database keeps one active run for each work item.\<close>

definition create_run :: "process_run \<Rightarrow> ('z crm_db_scheme, unit) svc" where
  "create_run r =
     bindS (gets process_runs) (\<lambda>rs.
     thenS (ensure (\<not> list_ex (\<lambda>x. pr_work_item_id x = pr_work_item_id r \<and>
                       pr_run_state x = ProcessRunState_ACTIVE) rs)
              (IntegrityError ''uq_process_run_one_active_per_work_item''))
     (modify (\<lambda>s. s\<lparr>process_runs := row_insert r (process_runs s)\<rparr>)))"

end
