(* ===== verification/Lead_Automation.thy ===== *)
theory Lead_Automation
  imports Crm_Db
begin

text \<open>
  The optional automation of \<^verbatim>\<open>workflows/service/lead_automation.py\<close>: when a process run starts
  and the tenant's settings enable it, a first-contact task is created for the configured assignee.
  The settings are JSON; every field is checked and an enabled but invalid setting raises.
\<close>

subsection \<open>Python's \<^verbatim>\<open>int(...)\<close>\<close>

text \<open>
  \<open>None\<close> is a \<^verbatim>\<open>TypeError\<close> or a \<^verbatim>\<open>ValueError\<close>; \<^verbatim>\<open>int\<close> accepts a sign, underscores
  between digits and at most 4300 digits.
\<close>

definition ascii_digit :: "char \<Rightarrow> bool" where
  "ascii_digit c = (let n = of_char c :: nat in 48 \<le> n \<and> n \<le> 57)"

fun digits_value :: "bool \<Rightarrow> nat \<Rightarrow> string \<Rightarrow> nat option" where
  "digits_value after_digit n [] = (if after_digit then Some n else None)"
| "digits_value after_digit n (c # cs) =
     (if ascii_digit c then digits_value True (10 * n + (of_char c - 48)) cs
      else if c = CHR ''_'' \<and> after_digit then digits_value False n cs
      else None)"

definition int_space :: "string \<Rightarrow> char \<Rightarrow> bool" where
  "int_space s c = (let n = of_char c :: nat in
     if list_all (\<lambda>d. (of_char d :: nat) < 128) s then 9 \<le> n \<and> n \<le> 13 \<or> n = 32 else py_space c)"

definition int_of_text :: "string \<Rightarrow> int option" where
  "int_of_text s =
     (let t = rev (dropWhile (int_space s) (rev (dropWhile (int_space s) s)));
          digits = (\<lambda>u. if length (filter ascii_digit u) > 4300 then None
                        else map_option int (digits_value False 0 u)) in
      case t of
        [] \<Rightarrow> None
      | c # cs \<Rightarrow>
          if c = CHR ''-'' then map_option uminus (digits cs)
          else if c = CHR ''+'' then digits cs
          else digits t)"

definition py_int :: "json \<Rightarrow> int option" where
  "py_int j = (case j of
     JInt n \<Rightarrow> Some n
   | JBool b \<Rightarrow> Some (if b then 1 else 0)
   | JStr s \<Rightarrow> int_of_text s
   | _ \<Rightarrow> None)"

subsection \<open>Configuration\<close>

definition DEFAULT_SLA_MINUTES :: int where "DEFAULT_SLA_MINUTES = 240"

definition MAX_SLA_MINUTES :: int where "MAX_SLA_MINUTES = 10080"

definition DEFAULT_TASK_TEMPLATE_CODE :: string where
  "DEFAULT_TASK_TEMPLATE_CODE = ''consulting_first_contact''"

definition DEFAULT_CREATE_ACTIVITY :: bool where "DEFAULT_CREATE_ACTIVITY = True"

record lead_automation_config =
  la_enabled :: bool
  la_default_assignee_user_id :: uuid
  la_first_contact_sla_minutes :: int
  la_task_template_code :: string
  la_create_activity :: bool

definition parse_uuid_value :: "runtime \<Rightarrow> json \<Rightarrow> string \<Rightarrow> ('s, uuid) svc" where
  "parse_uuid_value rt j field =
     (let bad = LeadAutomationConfigError (''lead_automation.'' @ field @ '' must be a valid UUID'') in
      case j of
        JId u \<Rightarrow> ret u
      | JStr s \<Rightarrow> or_raise (rt_parse_uuid rt (py_strip s)) bad
      | _ \<Rightarrow> raise bad)"

text \<open>The settings' \<^verbatim>\<open>consulting.lead_automation\<close> object, when it is enabled.\<close>

definition lead_automation_raw :: "uuid \<Rightarrow> 'z crm_db_scheme \<Rightarrow> (string \<times> json) list option" where
  "lead_automation_raw t s =
     (case map_of (tenant_settings s) t of
        None \<Rightarrow> None
      | Some industry \<Rightarrow>
          (case json_get ''consulting'' industry of
             Some (JObj kvs) \<Rightarrow>
               (case map_of kvs ''lead_automation'' of
                  Some (JObj raw) \<Rightarrow> if map_of raw ''enabled'' = Some (JBool True) then Some raw else None
                | _ \<Rightarrow> None)
           | _ \<Rightarrow> None))"

definition parse_lead_automation ::
    "runtime \<Rightarrow> (string \<times> json) list \<Rightarrow> ('s, lead_automation_config) svc" where
  "parse_lead_automation rt raw =
     bindS (ret (map_of raw ''default_assignee_user_id'')) (\<lambda>assignee_raw.
     thenS (ensure (assignee_raw \<noteq> None \<and> assignee_raw \<noteq> Some JNull \<and> assignee_raw \<noteq> Some (JStr []))
              (LeadAutomationConfigError ''lead_automation.enabled requires default_assignee_user_id''))
     (bindS (parse_uuid_value rt (the assignee_raw) ''default_assignee_user_id'') (\<lambda>assignee.
      bindS (ret (case map_of raw ''first_contact_sla_minutes'' of
                    None \<Rightarrow> Some DEFAULT_SLA_MINUTES | Some j \<Rightarrow> py_int j)) (\<lambda>parsed.
      bindS (or_raise parsed
               (LeadAutomationConfigError ''lead_automation.first_contact_sla_minutes must be an integer''))
        (\<lambda>sla.
      thenS (ensure (1 \<le> sla \<and> sla \<le> MAX_SLA_MINUTES)
               (LeadAutomationConfigError
                  ''lead_automation.first_contact_sla_minutes must be an integer between 1 and 10080 inclusive''))
      (bindS (ret (case map_of raw ''task_template_code'' of
                     None \<Rightarrow> Some DEFAULT_TASK_TEMPLATE_CODE
                   | Some (JStr s) \<Rightarrow> if py_strip s = [] then None else Some (py_strip s)
                   | Some (JId i) \<Rightarrow> Some (nat_str i)
                   | _ \<Rightarrow> None)) (\<lambda>template.
       bindS (or_raise template
                (LeadAutomationConfigError ''lead_automation.task_template_code must be a non-empty string''))
         (\<lambda>template_code.
       thenS (ensure (length template_code \<le> 64)
                (LeadAutomationConfigError ''lead_automation.task_template_code must be at most 64 characters''))
       (bindS (ret (case map_of raw ''create_activity'' of
                      None \<Rightarrow> Some DEFAULT_CREATE_ACTIVITY | Some (JBool b) \<Rightarrow> Some b | _ \<Rightarrow> None)) (\<lambda>flag.
        bindS (or_raise flag
                 (LeadAutomationConfigError ''lead_automation.create_activity must be a boolean''))
          (\<lambda>create_activity.
        ret \<lparr>la_enabled = True, la_default_assignee_user_id = assignee,
             la_first_contact_sla_minutes = sla, la_task_template_code = template_code,
             la_create_activity = create_activity\<rparr>)))))))))))"

definition load_lead_automation_config ::
    "runtime \<Rightarrow> uuid \<Rightarrow> ('z crm_db_scheme, lead_automation_config option) svc" where
  "load_lead_automation_config rt t =
     bindS (gets (lead_automation_raw t)) (\<lambda>found.
     case found of
       None \<Rightarrow> ret None
     | Some raw \<Rightarrow> bindS (parse_lead_automation rt raw) (\<lambda>c. ret (Some c)))"

subsection \<open>The task\<close>

definition assert_assignee_active_same_tenant :: "uuid \<Rightarrow> uuid \<Rightarrow> ('z crm_db_scheme, unit) svc" where
  "assert_assignee_active_same_tenant t u =
     bindS (gets (\<lambda>s. row_find (\<lambda>m. um_tenant_id m = t \<and> um_user_id m = u) (memberships s))) (\<lambda>m.
     thenS (ensure (case m of None \<Rightarrow> False | Some r \<Rightarrow> um_is_active r)
              (LeadAutomationConfigError
                 ''lead_automation.default_assignee_user_id must be an active member of the tenant''))
     (bindS (gets (\<lambda>s. row_find (\<lambda>x. us_id x = u) (users s))) (\<lambda>found.
      ensure (case found of None \<Rightarrow> False | Some x \<Rightarrow> us_is_active x)
        (LeadAutomationConfigError ''lead_automation.default_assignee_user_id must be an active user''))))"

definition get_existing_automation_task ::
    "uuid \<Rightarrow> uuid \<Rightarrow> string \<Rightarrow> 'z crm_db_scheme \<Rightarrow> task option" where
  "get_existing_automation_task t run key s =
     row_find (\<lambda>k. tk_tenant_id k = t \<and> tk_process_run_id k = Some run \<and> tk_automation_key k = Some key)
       (tasks s)"

definition maybe_create_process_run_first_contact_task ::
    "runtime \<Rightarrow> instant \<Rightarrow> uuid \<Rightarrow> uuid \<Rightarrow> uuid \<Rightarrow> uuid \<Rightarrow> ('z crm_db_scheme, task option) svc" where
  "maybe_create_process_run_first_contact_task rt now t run work_item actor =
     bindS (load_lead_automation_config rt t) (\<lambda>loaded.
     case loaded of
       None \<Rightarrow> ret None
     | Some config \<Rightarrow>
         thenS (assert_assignee_active_same_tenant t (la_default_assignee_user_id config))
         (bindS (gets (get_existing_automation_task t run (la_task_template_code config))) (\<lambda>existing.
          case existing of
            Some k \<Rightarrow> ret (Some k)
          | None \<Rightarrow>
              bindS (ret (now + la_first_contact_sla_minutes config * minute_usec)) (\<lambda>due_at.
              bindS
                (nested_or
                   (bindS fresh_id (\<lambda>i.
                    bindS (ret \<lparr>tk_id = i, tk_tenant_id = t, tk_work_item_id = work_item,
                                tk_process_run_id = Some run,
                                tk_automation_key = Some (la_task_template_code config),
                                tk_title = ContactLeadTitle, tk_description = None,
                                tk_status = TaskStatus_PENDING, tk_due_at = Some due_at,
                                tk_assigned_to_user_id = Some (la_default_assignee_user_id config)\<rparr>) (\<lambda>k.
                    thenS (insert_task k) (ret (k, True)))))
                   (bindS (gets (get_existing_automation_task t run (la_task_template_code config))) (\<lambda>found.
                    bindS (or_raise found (LeadAutomationConflictError
                             ''Failed to create or recover process-run automation task'')) (\<lambda>k.
                    ret (k, False)))))
                (\<lambda>(k, created_new).
              thenS (whenS (created_new \<and> la_create_activity config)
                       (add_activity_row
                          \<lparr>av_tenant_id = t, av_work_item_id = work_item, av_activity_type = ActivityType_NOTE,
                           av_title = AutoTaskTitle,
                           av_description = Some (AutoTaskNote (la_task_template_code config)
                                              (la_default_assignee_user_id config) due_at),
                           av_occurred_at = now, av_created_by_user_id = actor\<rparr>))
              (ret (Some k)))))))"

end
