(* ===== verification/Json_Text.thy ===== *)
theory Json_Text
  imports Parties
begin

text \<open>
  \<^verbatim>\<open>json.dumps(data, sort_keys=True, separators=(",", ":"), ensure_ascii=False)\<close>: the canonical text of a JSON
  value, from which fingerprints are computed.
\<close>

definition json_escape :: "char \<Rightarrow> string" where
  "json_escape c = (let n = of_char c :: nat in
     if n = 34 \<or> n = 92 then [char_of (92::nat), c]
     else if n = 10 then [char_of (92::nat), CHR ''n'']
     else if n = 13 then [char_of (92::nat), CHR ''r'']
     else if n = 9 then [char_of (92::nat), CHR ''t'']
     else if n = 12 then [char_of (92::nat), CHR ''f'']
     else if n = 8 then [char_of (92::nat), CHR ''b'']
     else if n < 32 then [char_of (92::nat), CHR ''u'', CHR ''0'', CHR ''0'', hex_digit (n div 16), hex_digit (n mod 16)]
     else [c])"

definition json_quote :: "string \<Rightarrow> string" where
  "json_quote s = CHR 34 # concat (map json_escape s) @ [CHR 34]"

fun json_dumps :: "json \<Rightarrow> string" where
  "json_dumps JNull = ''null''"
| "json_dumps (JBool b) = (if b then ''true'' else ''false'')"
| "json_dumps (JInt n) = int_str n"
| "json_dumps (JStr s) = json_quote s"
| "json_dumps (JId i) = json_quote (nat_str i)"
| "json_dumps (JList js) = ''['' @ join_with '','' (map json_dumps js) @ '']''"
| "json_dumps (JObj kvs) =
     ''{'' @ join_with '','' (map snd (sort_key fst
        (map (\<lambda>kv. (fst kv, json_quote (fst kv) @ '':'' @ json_dumps (snd kv))) kvs))) @ ''}''"

end
