(* ===== verification/Process_Overlay.thy ===== *)
theory Process_Overlay
  imports Lead_Automation Json_Text "HOL-Library.Product_Lexorder"
begin

text \<open>
  The services of the process overlay: the catalog of process templates
  (\<^verbatim>\<open>service/catalog.py\<close>, \<^verbatim>\<open>seed.py\<close>), tenant configurations
  (\<^verbatim>\<open>service/configuration.py\<close>), the publication of immutable definition versions
  (\<^verbatim>\<open>service/publication.py\<close>), process runs (\<^verbatim>\<open>service/runs.py\<close>), the guard every writer of a
  work item's stage calls (\<^verbatim>\<open>service/transitions.py\<close>), and the bootstrap with its policy
  fingerprint (\<^verbatim>\<open>service/bootstrap.py\<close>, \<^verbatim>\<open>service/policy_fingerprint.py\<close>).
\<close>

definition ENTITY_TENANT_PROCESS_CONFIGURATION :: string where
  "ENTITY_TENANT_PROCESS_CONFIGURATION = ''tenant_process_configuration''"

definition ENTITY_PROCESS_DEFINITION_VERSION :: string where
  "ENTITY_PROCESS_DEFINITION_VERSION = ''process_definition_version''"

definition ENTITY_PROCESS_RUN :: string where
  "ENTITY_PROCESS_RUN = ''process_run''"

definition EVENT_PROCESS_TRANSITION_APPLIED :: string where
  "EVENT_PROCESS_TRANSITION_APPLIED = ''process_transition.applied''"

definition MAX_PUBLISH_REASON_LENGTH :: nat where
  "MAX_PUBLISH_REASON_LENGTH = 2000"

subsection \<open>Catalog\<close>

definition sales_edge :: "string \<Rightarrow> string \<Rightarrow> (string \<times> json) list \<Rightarrow> json" where
  "sales_edge a b extra = JObj
     [(''from_stage_code'', JStr a), (''to_stage_code'', JStr b),
      (''conditions'', JObj (extra @
         [(''required_roles'', JList [JStr ''sales'']), (''requires_approval'', JBool False)]))]"

definition flexity_sales_blueprint :: json where
  "flexity_sales_blueprint = JObj
     [(''schema_version'', JInt 1),
      (''process_template_code'', JStr ''flexity_sales_intake''),
      (''pipeline_code'', JStr ''flexity_sales''),
      (''stage_codes'', JList (map JStr [''new_lead'', ''contacted'', ''diagnosis'', ''proposal_prepared'',
         ''proposal_sent'', ''negotiation'', ''accepted'', ''rejected''])),
      (''transitions'', JList
         [sales_edge ''new_lead'' ''contacted'' [(''required_fields'', JList [])],
          sales_edge ''new_lead'' ''rejected'' [],
          sales_edge ''contacted'' ''diagnosis'' [],
          sales_edge ''contacted'' ''rejected'' [],
          sales_edge ''diagnosis'' ''proposal_prepared'' [],
          sales_edge ''diagnosis'' ''rejected'' [],
          sales_edge ''proposal_prepared'' ''proposal_sent'' [],
          sales_edge ''proposal_prepared'' ''rejected'' [],
          sales_edge ''proposal_sent'' ''negotiation'' [],
          sales_edge ''proposal_sent'' ''accepted'' [],
          sales_edge ''proposal_sent'' ''rejected'' [],
          sales_edge ''negotiation'' ''accepted'' [],
          sales_edge ''negotiation'' ''rejected'' []]),
      (''module_requirements'', JList [JStr ''crm'']),
      (''terminal_stage_codes'', JList [JStr ''accepted'', JStr ''rejected''])]"

text \<open>The seeded template (its primary key is given when it is inserted).\<close>

definition PROCESS_TEMPLATE_DEFINITIONS :: "process_template list" where
  "PROCESS_TEMPLATE_DEFINITIONS =
     [\<lparr>tp_id = 0, tp_code = ''flexity_sales_intake'', tp_name = ''Flexity Sales Intake'',
       tp_description = Some (''Sales intake on flexity_sales: new_lead through proposal/negotiation '' @
         ''to accepted/rejected (full graph).''),
       tp_default_pipeline_code = ''flexity_sales'',
       tp_policy_blueprint_json = flexity_sales_blueprint,
       tp_required_module_codes = [''crm'', ''parties''], tp_is_active = True\<rparr>]"

definition upsert_template :: "process_template \<Rightarrow> ('z crm_db_scheme, unit) svc" where
  "upsert_template item =
     bindS (gets (get_template_by_code (tp_code item))) (\<lambda>existing.
     case existing of
       Some e \<Rightarrow> modify (\<lambda>s. s\<lparr>process_templates :=
                  row_update tp_code (tp_code item) (\<lambda>r. item\<lparr>tp_id := tp_id r\<rparr>) (process_templates s)\<rparr>)
     | None \<Rightarrow> bindS fresh_id (\<lambda>i.
                modify (\<lambda>s. s\<lparr>process_templates := row_insert (item\<lparr>tp_id := i\<rparr>) (process_templates s)\<rparr>)))"

definition seed_templates :: "('z crm_db_scheme, unit) svc" where
  "seed_templates = for_each PROCESS_TEMPLATE_DEFINITIONS upsert_template"

subsection \<open>Configuration\<close>

fun no_duplicate_configuration ::
    "uuid \<Rightarrow> uuid \<Rightarrow> process_config list \<Rightarrow> ('s, unit) svc" where
  "no_duplicate_configuration template p [] = ret ()"
| "no_duplicate_configuration template p (c # cs) =
     thenS (ensure (pc_process_template_id c \<noteq> template)
              (ConflictError ''Tenant process configuration for this template already exists''))
     (thenS (ensure (pc_pipeline_id c \<noteq> p)
              (ConflictError ''Tenant process configuration for this pipeline already exists''))
      (no_duplicate_configuration template p cs))"

definition create_configuration ::
    "uuid \<Rightarrow> string \<Rightarrow> uuid \<Rightarrow> uuid option \<Rightarrow> ('z crm_db_scheme, uuid) svc" where
  "create_configuration t template_code pipeline_id actor =
     bindS (gets (get_template_by_code template_code)) (\<lambda>found.
     bindS (or_raise (case found of Some tp \<Rightarrow> if tp_is_active tp then Some tp else None | None \<Rightarrow> None)
              (NotFoundError (''Process template '' @ quoted template_code @ '' not found''))) (\<lambda>template.
     bindS (gets (get_pipeline t pipeline_id)) (\<lambda>found_pipeline.
     bindS (or_raise found_pipeline (ProcessOverlayTenantIsolationError
              ''Pipeline not found for tenant or belongs to another tenant'')) (\<lambda>p.
     thenS (ensure (pp_code p = tp_default_pipeline_code template)
              (ProcessOverlayValidationError
                 ''Pipeline code does not match process template default_pipeline_code''
                 [''expected '' @ tp_default_pipeline_code template @ '', got '' @ pp_code p]))
     (bindS (gets (list_configurations t)) (\<lambda>existing.
      thenS (no_duplicate_configuration (tp_id template) pipeline_id existing)
      (bindS (create_configuration_row t (tp_id template) (pp_id p)) (\<lambda>c.
       thenS (record_audit (audit_entry AuditAction_CREATE ''Tenant process configuration created'' t actor
                ENTITY_TENANT_PROCESS_CONFIGURATION c
                (JObj [(''process_template_code'', JStr template_code), (''pipeline_id'', JId (pp_id p)),
                       (''activation_state'', JStr (ProcessOverlayActivationState_value
                          ProcessOverlayActivationState_INACTIVE))])))
       (ret c)))))))))"

definition get_configuration_or_raise :: "uuid \<Rightarrow> uuid \<Rightarrow> ('z crm_db_scheme, process_config) svc" where
  "get_configuration_or_raise t c =
     bindS (gets (get_configuration t c)) (\<lambda>found.
     or_raise found (NotFoundError ''Tenant process configuration not found''))"

definition assert_configuration_pipeline_consistency ::
    "process_config \<Rightarrow> uuid \<Rightarrow> ('z crm_db_scheme, unit) svc" where
  "assert_configuration_pipeline_consistency c t =
     bindS (gets (get_pipeline t (pc_pipeline_id c))) (\<lambda>found.
     bindS (or_raise found (ProcessOverlayTenantIsolationError ''Configuration pipeline not found for tenant''))
       (\<lambda>p.
     bindS (gets (stages_of (pp_id p))) (\<lambda>ss.
     ensure (ss \<noteq> []) (ProcessOverlayActivationError ''Configuration pipeline has no stages''))))"

definition assert_module_requirements_met :: "uuid \<Rightarrow> string list \<Rightarrow> ('z crm_db_scheme, unit) svc" where
  "assert_module_requirements_met t requirements =
     for_each requirements (\<lambda>code.
       bindS (gets (get_definition code)) (\<lambda>d.
       thenS (ensure (d \<noteq> None)
                (ProcessOverlayValidationError (''Unknown module requirement '' @ quoted code) [code]))
       (assert_enabled t code)))"

definition activate_configuration ::
    "uuid \<Rightarrow> uuid \<Rightarrow> uuid option \<Rightarrow> ('z crm_db_scheme, unit) svc" where
  "activate_configuration t c actor =
     bindS (get_configuration_or_raise t c) (\<lambda>config.
     if pc_activation_state config = ProcessOverlayActivationState_ACTIVE then ret ()
     else
       bindS (or_raise (pc_active_definition_version_id config)
                (ProcessOverlayActivationError
                   ''Cannot activate configuration without active_definition_version_id'')) (\<lambda>v.
       bindS (gets (get_definition_version_for_configuration t c v)) (\<lambda>found.
       bindS (or_raise found (ProcessOverlayActivationError
                ''Active definition version does not belong to this configuration'')) (\<lambda>version.
       thenS (assert_configuration_pipeline_consistency config t)
       (thenS (assert_module_requirements_met t (dv_module_requirements version))
       (thenS (write_config (pc_id config) (\<lambda>r. r\<lparr>pc_activation_state := ProcessOverlayActivationState_ACTIVE\<rparr>))
       (record_audit (audit_entry AuditAction_UPDATE ''Tenant process configuration activated'' t actor
          ENTITY_TENANT_PROCESS_CONFIGURATION (pc_id config)
          (JObj [(''activation_state'', JStr (ProcessOverlayActivationState_value
                     ProcessOverlayActivationState_ACTIVE)),
                 (''active_definition_version_id'', JId (dv_id version))])))))))))"

definition deactivate_configuration ::
    "uuid \<Rightarrow> uuid \<Rightarrow> uuid option \<Rightarrow> ('z crm_db_scheme, unit) svc" where
  "deactivate_configuration t c actor =
     bindS (get_configuration_or_raise t c) (\<lambda>config.
     if pc_activation_state config = ProcessOverlayActivationState_INACTIVE then ret ()
     else
       thenS (write_config (pc_id config)
                (\<lambda>r. r\<lparr>pc_activation_state := ProcessOverlayActivationState_INACTIVE\<rparr>))
       (record_audit (audit_entry AuditAction_UPDATE ''Tenant process configuration deactivated'' t actor
          ENTITY_TENANT_PROCESS_CONFIGURATION (pc_id config)
          (JObj [(''activation_state'', JStr (ProcessOverlayActivationState_value
                     ProcessOverlayActivationState_INACTIVE))]))))"

subsection \<open>Publication\<close>

definition validate_module_requirements :: "string list \<Rightarrow> ('z crm_db_scheme, unit) svc" where
  "validate_module_requirements requirements =
     for_each requirements (\<lambda>code.
       bindS (gets (get_definition code)) (\<lambda>d.
       ensure (d \<noteq> None)
         (ProcessOverlayValidationError (''Unknown module requirement '' @ quoted code) [code])))"

text \<open>A request carries a JSON policy or a validated one.\<close>

datatype policy_input = RawPolicy json | ValidPolicy policy_snapshot

definition publish_definition_version ::
    "runtime \<Rightarrow> instant \<Rightarrow> uuid \<Rightarrow> uuid \<Rightarrow> policy_input \<Rightarrow> string \<Rightarrow> uuid \<Rightarrow>
     ('z crm_db_scheme, uuid) svc" where
  "publish_definition_version rt now t c policy_in publish_reason actor =
     bindS (ret (py_strip publish_reason)) (\<lambda>reason.
     thenS (ensure (reason \<noteq> []) (ProcessOverlayValidationError ''publish_reason must be non-empty'' []))
     (thenS (ensure (length reason \<le> MAX_PUBLISH_REASON_LENGTH)
               (ProcessOverlayValidationError ''publish_reason exceeds maximum length'' []))
     (bindS (get_configuration_or_raise t c) (\<lambda>config.
      bindS (gets (get_template_by_id (pc_process_template_id config))) (\<lambda>found_template.
      bindS (or_raise found_template (NotFoundError ''Process template not found'')) (\<lambda>template.
      bindS (gets (get_pipeline t (pc_pipeline_id config))) (\<lambda>found_pipeline.
      bindS (or_raise found_pipeline
               (ProcessOverlayTenantIsolationError ''Configuration pipeline not found for tenant'')) (\<lambda>p.
      bindS (case policy_in of
               RawPolicy j \<Rightarrow> (case parse_policy_snapshot (rt_pydantic rt) j of
                                 Inl e \<Rightarrow> raise e | Inr x \<Rightarrow> ret x)
             | ValidPolicy x \<Rightarrow> ret x) (\<lambda>policy.
      bindS (gets (\<lambda>s. map sg_code (stages_of (pp_id p) s))) (\<lambda>codes.
      thenS (validate_policy_against_pipeline policy (pp_code p) codes (tp_code template))
      (thenS (validate_module_requirements (po_module_requirements policy))
      (bindS (gets (\<lambda>s. max_version_number (pc_id config) s + 1)) (\<lambda>version_number.
       bindS fresh_id (\<lambda>i.
       thenS (insert_definition_version
                \<lparr>dv_id = i, dv_tenant_id = t, dv_configuration_id = pc_id config,
                 dv_version_number = version_number, dv_pipeline_id = pp_id p, dv_pipeline_code = pp_code p,
                 dv_stage_codes = po_stage_codes policy, dv_policy_snapshot_json = model_dump policy,
                 dv_module_requirements = po_module_requirements policy, dv_published_at = now,
                 dv_published_by_user_id = actor, dv_publish_reason = reason\<rparr>)
       (thenS (record_audit (audit_entry AuditAction_CREATE ''Process definition version published'' t
                 (Some actor) ENTITY_PROCESS_DEFINITION_VERSION i
                 (JObj [(''configuration_id'', JId (pc_id config)),
                        (''version_number'', JInt (int version_number)),
                        (''pipeline_code'', JStr (pp_code p))])))
       (ret i))))))))))))))))"

definition set_active_definition_version ::
    "uuid \<Rightarrow> uuid \<Rightarrow> uuid \<Rightarrow> uuid option \<Rightarrow> ('z crm_db_scheme, unit) svc" where
  "set_active_definition_version t c version_id actor =
     bindS (get_configuration_or_raise t c) (\<lambda>config.
     bindS (gets (get_definition_version_for_configuration t c version_id)) (\<lambda>found.
     bindS (or_raise found (ProcessOverlayValidationError
              ''Definition version does not belong to this configuration or tenant'' [''version_id''])) (\<lambda>version.
     thenS (ensure (dv_tenant_id version = t)
              (ProcessOverlayTenantIsolationError ''Definition version belongs to another tenant''))
     (thenS (ensure (dv_configuration_id version = pc_id config)
               (ProcessOverlayValidationError ''Definition version belongs to another configuration''
                  [''configuration_id'']))
     (bindS (gets (get_pipeline t (pc_pipeline_id config))) (\<lambda>p.
      thenS (ensure (case p of None \<Rightarrow> False | Some q \<Rightarrow> pp_id q = dv_pipeline_id version)
               (ProcessOverlayTenantIsolationError
                  ''Version pipeline is not consistent with tenant configuration''))
      (thenS (write_config (pc_id config) (\<lambda>r. r\<lparr>pc_active_definition_version_id := Some (dv_id version)\<rparr>))
      (record_audit (audit_entry AuditAction_UPDATE ''Active process definition version set'' t actor
         ENTITY_TENANT_PROCESS_CONFIGURATION (pc_id config)
         (JObj [(''active_definition_version_id'', JId (dv_id version))]))))))))))"

subsection \<open>Runs\<close>

definition run_conflict :: exn where
  "run_conflict = ProcessRunConflictError ''An active process run already exists for this work item''"

definition start_run ::
    "runtime \<Rightarrow> instant \<Rightarrow> uuid \<Rightarrow> uuid \<Rightarrow> uuid \<Rightarrow> uuid \<Rightarrow> ('z crm_db_scheme, process_run) svc" where
  "start_run rt now t work_item_id c actor =
     bindS (get_configuration_or_raise t c) (\<lambda>config.
     thenS (ensure (pc_activation_state config = ProcessOverlayActivationState_ACTIVE)
              (ProcessOverlayActivationError ''Overlay configuration is inactive''))
     (bindS (or_raise (pc_active_definition_version_id config)
               (ProcessOverlayValidationError ''Cannot start process run without active definition version''
                  [''active_definition_version_id''])) (\<lambda>v.
      bindS (gets (get_definition_version_for_configuration t c v)) (\<lambda>found.
      bindS (or_raise found (ProcessOverlayValidationError
               ''Active definition version does not belong to this configuration''
               [''active_definition_version_id''])) (\<lambda>version.
      thenS (ensure (dv_tenant_id version = t \<and> pc_tenant_id config = t)
               (ProcessOverlayTenantIsolationError
                  ''Configuration or definition version belongs to another tenant''))
      (thenS (ensure (dv_configuration_id version = pc_id config)
                (ProcessOverlayValidationError ''Definition version belongs to another configuration''
                   [''configuration_id'']))
      (bindS (gets (get_work_item t work_item_id)) (\<lambda>found_item.
       bindS (or_raise found_item (NotFoundError ''Work item not found'')) (\<lambda>w.
       thenS (ensure (wi_pipeline_id w = pc_pipeline_id config)
                (ProcessOverlayValidationError
                   ''Work item pipeline does not match process configuration pipeline'' [''pipeline_id'']))
       (bindS (gets (get_active_run_for_work_item t work_item_id)) (\<lambda>existing.
        thenS (ensure (existing = None) run_conflict)
        (bindS (gets (get_stage t (wi_stage_id w))) (\<lambda>g.
         bindS
           (nested_or
              (bindS fresh_id (\<lambda>i.
               bindS (ret \<lparr>pr_id = i, pr_tenant_id = t, pr_configuration_id = pc_id config,
                           pr_definition_version_id = v, pr_work_item_id = wi_id w,
                           pr_run_state = ProcessRunState_ACTIVE, pr_started_at = now,
                           pr_started_by_user_id = actor, pr_completed_at = None,
                           pr_completed_by_user_id = None, pr_completion_reason = None,
                           pr_current_stage_code = map_option sg_code g\<rparr>) (\<lambda>run.
               thenS (create_run run)
               (thenS (record_audit (audit_entry AuditAction_CREATE ''Process run started'' t (Some actor)
                         ENTITY_PROCESS_RUN i
                         (JObj [(''event'', JStr ''process_run.started''), (''work_item_id'', JId (wi_id w)),
                                (''configuration_id'', JId (pc_id config)),
                                (''definition_version_id'', JId (dv_id version)),
                                (''version_number'', JInt (int (dv_version_number version)))])))
               (ret run)))))
              (raise run_conflict)) (\<lambda>run.
         bindS (maybe_create_process_run_first_contact_task rt now t (pr_id run) (wi_id w) actor)
           (\<lambda>_. ret run)))))))))))))))"

definition get_active_run_or_raise :: "uuid \<Rightarrow> uuid \<Rightarrow> ('z crm_db_scheme, process_run) svc" where
  "get_active_run_or_raise t i =
     bindS (gets (get_run t i)) (\<lambda>found.
     bindS (or_raise found (NotFoundError ''Process run not found'')) (\<lambda>run.
     thenS (ensure (pr_run_state run = ProcessRunState_ACTIVE)
              (ProcessRunStateError (''Process run must be active to change lifecycle (current='' @
                 ProcessRunState_value (pr_run_state run) @ '')'')))
     (ret run)))"

definition update_run_lifecycle ::
    "process_run \<Rightarrow> ProcessRunState \<Rightarrow> instant \<Rightarrow> uuid \<Rightarrow> string option \<Rightarrow> ('z crm_db_scheme, unit) svc" where
  "update_run_lifecycle run state at actor reason =
     write_run (pr_id run) (\<lambda>r. r\<lparr>pr_run_state := state, pr_completed_at := Some at,
       pr_completed_by_user_id := Some actor, pr_completion_reason := reason\<rparr>)"

definition complete_run ::
    "instant \<Rightarrow> uuid \<Rightarrow> uuid \<Rightarrow> uuid \<Rightarrow> string option \<Rightarrow> ('z crm_db_scheme, unit) svc" where
  "complete_run now t i actor reason =
     bindS (get_active_run_or_raise t i) (\<lambda>run.
     bindS (ret (case map_option py_strip reason of Some [] \<Rightarrow> None | x \<Rightarrow> x)) (\<lambda>completion_reason.
     thenS (update_run_lifecycle run ProcessRunState_COMPLETED now actor completion_reason)
     (record_audit (audit_entry AuditAction_UPDATE ''Process run completed'' t (Some actor)
        ENTITY_PROCESS_RUN (pr_id run)
        (JObj ([(''event'', JStr ''process_run.completed'')] @
               (case completion_reason of None \<Rightarrow> [] | Some r \<Rightarrow> [(''completion_reason'', JStr r)])))))))"

definition cancel_run ::
    "instant \<Rightarrow> uuid \<Rightarrow> uuid \<Rightarrow> uuid \<Rightarrow> string \<Rightarrow> ('z crm_db_scheme, unit) svc" where
  "cancel_run now t i actor reason =
     bindS (ret (py_strip reason)) (\<lambda>completion_reason.
     thenS (ensure (completion_reason \<noteq> [])
              (ProcessOverlayValidationError ''cancel_run requires a non-empty reason'' [''reason'']))
     (bindS (get_active_run_or_raise t i) (\<lambda>run.
      thenS (update_run_lifecycle run ProcessRunState_CANCELLED now actor (Some completion_reason))
      (record_audit (audit_entry AuditAction_UPDATE ''Process run cancelled'' t (Some actor)
         ENTITY_PROCESS_RUN (pr_id run)
         (JObj [(''event'', JStr ''process_run.cancelled''),
                (''completion_reason'', JStr completion_reason)]))))))"


subsection \<open>The transition guard\<close>

record guard_result =
  gr_enforced :: bool
  gr_noop :: bool
  gr_run :: "process_run option"
  gr_version :: "definition_version option"

definition denied ::
    "string \<Rightarrow> string \<Rightarrow> string \<Rightarrow> process_run \<Rightarrow> uuid \<Rightarrow> exn" where
  "denied why a b run v =
     ProcessTransitionDeniedError (''Process transition denied: '' @ why) (Some a) (Some b)
       (Some (pr_id run)) (Some v)"

definition assert_pinned_policy ::
    "runtime \<Rightarrow> uuid \<Rightarrow> work_item \<Rightarrow> string \<Rightarrow> string \<Rightarrow> process_run \<Rightarrow> ('z crm_db_scheme, guard_result) svc" where
  "assert_pinned_policy rt t w a b run =
     bindS (gets (get_definition_version t (pr_definition_version_id run))) (\<lambda>found.
     bindS (or_raise found
              (denied ''pinned definition version missing'' a b run (pr_definition_version_id run))) (\<lambda>version.
     thenS (ensure (dv_tenant_id version = t)
              (denied ''definition version tenant mismatch'' a b run (dv_id version)))
     (thenS (ensure (dv_configuration_id version = pr_configuration_id run)
               (denied ''definition version configuration mismatch'' a b run (dv_id version)))
     (thenS (ensure (dv_pipeline_id version = wi_pipeline_id w)
               (denied ''process pipeline mismatch'' a b run (dv_id version)))
     (bindS (case parse_policy_snapshot (rt_pydantic rt) (dv_policy_snapshot_json version) of
               Inl _ \<Rightarrow> raise (denied ''invalid pinned policy'' a b run (dv_id version))
             | Inr x \<Rightarrow> ret x) (\<lambda>policy.
      thenS (ensure (List.member (map edge (po_transitions policy)) (a, b))
               (denied (a @ '' -> '' @ b) a b run (dv_id version)))
      (ret \<lparr>gr_enforced = True, gr_noop = False, gr_run = Some run, gr_version = Some version\<rparr>)))))))"

definition assert_transition_allowed ::
    "runtime \<Rightarrow> uuid \<Rightarrow> work_item \<Rightarrow> string option \<Rightarrow> string option \<Rightarrow>
     ('z crm_db_scheme, guard_result) svc" where
  "assert_transition_allowed rt t w from_code to_code =
     (case (from_code, to_code) of
        (Some a, Some b) \<Rightarrow>
          if a = b then ret \<lparr>gr_enforced = False, gr_noop = True, gr_run = None, gr_version = None\<rparr>
          else
            bindS (gets (get_active_run_for_work_item t (wi_id w))) (\<lambda>active.
            case active of
              None \<Rightarrow> ret \<lparr>gr_enforced = False, gr_noop = False, gr_run = None, gr_version = None\<rparr>
            | Some run \<Rightarrow> assert_pinned_policy rt t w a b run)
      | _ \<Rightarrow> raise (ProcessTransitionDeniedError ''Process transition denied: stage code unresolved''
                      from_code to_code None None))"

definition update_run_current_stage_code :: "process_run \<Rightarrow> string \<Rightarrow> ('z crm_db_scheme, unit) svc" where
  "update_run_current_stage_code run code = write_run (pr_id run) (\<lambda>r. r\<lparr>pr_current_stage_code := Some code\<rparr>)"

definition record_applied_transition ::
    "uuid \<Rightarrow> uuid \<Rightarrow> guard_result \<Rightarrow> uuid \<Rightarrow> string \<Rightarrow> string \<Rightarrow> string \<Rightarrow> ('z crm_db_scheme, unit) svc" where
  "record_applied_transition t actor result w from_code to_code via =
     (if \<not> gr_enforced result \<or> gr_noop result then ret ()
      else (case (gr_run result, gr_version result) of
        (Some run, Some version) \<Rightarrow>
          thenS (update_run_current_stage_code run to_code)
          (record_audit (audit_entry AuditAction_UPDATE ''Process transition applied'' t (Some actor)
             ENTITY_PROCESS_RUN (pr_id run)
             (JObj [(''event'', JStr EVENT_PROCESS_TRANSITION_APPLIED), (''work_item_id'', JId w),
                    (''process_run_id'', JId (pr_id run)), (''definition_version_id'', JId (dv_id version)),
                    (''from_stage_code'', JStr from_code), (''to_stage_code'', JStr to_code),
                    (''via'', JStr via)])))
      | _ \<Rightarrow> ret ()))"

subsection \<open>The fingerprint of a policy\<close>

text \<open>
  The digest of the text (\<^verbatim>\<open>hashlib.sha256\<close> over its UTF-8 form, as hexadecimal) is the parameter
  \<open>digest\<close>.
\<close>

definition policy_fingerprint :: "(string \<Rightarrow> string) \<Rightarrow> policy_snapshot \<Rightarrow> string" where
  "policy_fingerprint digest policy =
     digest (json_dumps (model_dump (policy\<lparr>po_transitions := sort_key edge (po_transitions policy)\<rparr>)))"

definition stored_fingerprint :: "(string \<Rightarrow> string) \<Rightarrow> runtime \<Rightarrow> json \<Rightarrow> ('s, string) svc" where
  "stored_fingerprint digest rt j =
     (case parse_policy_snapshot (rt_pydantic rt) j of
        Inl e \<Rightarrow> raise e | Inr policy \<Rightarrow> ret (policy_fingerprint digest policy))"

definition matches_fingerprint ::
    "(string \<Rightarrow> string) \<Rightarrow> runtime \<Rightarrow> string \<Rightarrow> definition_version option \<Rightarrow> ('s, bool) svc" where
  "matches_fingerprint digest rt fp v =
     (case v of
        None \<Rightarrow> ret False
      | Some version \<Rightarrow>
          bindS (stored_fingerprint digest rt (dv_policy_snapshot_json version)) (\<lambda>x. ret (x = fp)))"

definition find_matching_published_version ::
    "(string \<Rightarrow> string) \<Rightarrow> runtime \<Rightarrow> uuid \<Rightarrow> uuid \<Rightarrow> string \<Rightarrow>
     ('z crm_db_scheme, definition_version option) svc" where
  "find_matching_published_version digest rt t c fp =
     bindS (gets (get_configuration t c)) (\<lambda>found.
     case found of
       None \<Rightarrow> ret None
     | Some config \<Rightarrow>
         bindS (gets (\<lambda>s. Option.bind (pc_active_definition_version_id config)
                   (\<lambda>v. get_definition_version_for_configuration t c v s))) (\<lambda>active.
         bindS (matches_fingerprint digest rt fp active) (\<lambda>hit.
         if hit then ret active
         else
           bindS (gets (get_latest_definition_version t c)) (\<lambda>latest.
           bindS (matches_fingerprint digest rt fp latest) (\<lambda>hit2.
           ret (if hit2 then latest else None))))))"

subsection \<open>Bootstrap\<close>

record ops_settings =
  process_overlay_bootstrap_enabled :: bool
  app_env :: string

definition assert_ops_guard :: "ops_settings \<Rightarrow> ('s, unit) svc" where
  "assert_ops_guard settings =
     thenS (ensure (process_overlay_bootstrap_enabled settings)
              (PermissionDeniedError (''Process overlay bootstrap is disabled '' @
                 ''(set PROCESS_OVERLAY_BOOTSTRAP_ENABLED=true for local/ops only)'')))
     (ensure (map ascii_lower (py_strip (app_env settings)) \<noteq> ''production'')
        (PermissionDeniedError ''Process overlay bootstrap is forbidden in production''))"

definition finalize :: "uuid \<Rightarrow> uuid \<Rightarrow> uuid \<Rightarrow> bool \<Rightarrow> ('z crm_db_scheme, process_config) svc" where
  "finalize t c actor activate =
     thenS (whenS activate (activate_configuration t c (Some actor)))
     (get_configuration_or_raise t c)"

definition bootstrap_flexity_sales_intake ::
    "(string \<Rightarrow> string) \<Rightarrow> runtime \<Rightarrow> ops_settings \<Rightarrow> instant \<Rightarrow> uuid \<Rightarrow> uuid \<Rightarrow> string \<Rightarrow> bool \<Rightarrow> string \<Rightarrow>
     ('z crm_db_scheme, process_config) svc" where
  "bootstrap_flexity_sales_intake digest rt settings now t actor pipeline_code activate publish_reason =
     thenS (assert_ops_guard settings)
     (bindS (ret (py_strip pipeline_code)) (\<lambda>code.
      thenS (ensure (code \<noteq> [])
               (PermissionDeniedError ''pipeline_code is required for process overlay bootstrap''))
      (thenS (ensure (code = ''flexity_sales'')
                (PermissionDeniedError (''bootstrap_flexity_sales_intake requires pipeline_code='' @
                   quoted ''flexity_sales'')))
      (thenS seed_templates
      (bindS (gets (get_pipeline_by_code t code)) (\<lambda>found.
       bindS (or_raise found (NotFoundError (''Pipeline '' @ quoted code @ '' not found for tenant''))) (\<lambda>p.
       bindS (gets (get_configuration_by_pipeline t (pp_id p))) (\<lambda>existing.
       bindS (case existing of
                None \<Rightarrow> create_configuration t ''flexity_sales_intake'' (pp_id p) (Some actor)
              | Some c \<Rightarrow> ret (pc_id c)) (\<lambda>c.
       bindS (gets (get_template_by_code ''flexity_sales_intake'')) (\<lambda>found_template.
       bindS (or_raise (case found_template of
                          Some tp \<Rightarrow> if tp_is_active tp then Some tp else None | None \<Rightarrow> None)
                (NotFoundError (''Process template '' @ quoted ''flexity_sales_intake'' @ '' not found'')))
         (\<lambda>template.
       bindS (case parse_policy_snapshot (rt_pydantic rt) (tp_policy_blueprint_json template) of
                Inl e \<Rightarrow> raise e | Inr x \<Rightarrow> ret x) (\<lambda>desired.
       bindS (find_matching_published_version digest rt t c (policy_fingerprint digest desired)) (\<lambda>matching.
       case matching of
         Some m \<Rightarrow>
           bindS (gets (get_configuration t c)) (\<lambda>again.
           bindS (or_raise again PyAssertionError) (\<lambda>config.
           thenS (whenS (pc_active_definition_version_id config \<noteq> Some (dv_id m))
                    (set_active_definition_version t c (dv_id m) (Some actor)))
           (finalize t c actor activate)))
       | None \<Rightarrow>
           thenS (ensure (1 \<le> length publish_reason \<and> length publish_reason \<le> 2000)
                    (PyValueError ''1 validation error for PublishDefinitionVersionRequest''))
           (bindS (publish_definition_version rt now t c (ValidPolicy desired) publish_reason actor)
             (\<lambda>version.
            thenS (set_active_definition_version t c version (Some actor))
            (finalize t c actor activate))))))))))))))))"


end
