(* ===== verification/Workflows.thy ===== *)
theory Workflows
  imports Process_Overlay
begin

text \<open>
  The CRM's work items: \<^verbatim>\<open>WorkflowService\<close> of \<^verbatim>\<open>workflows/service/workflow_service.py\<close> with the
  payloads of \<^verbatim>\<open>workflows/schemas.py\<close>.  Every writer of a work item's stage (update, move, close,
  reopen) asks the overlay's guard first; creation starts a process run when the pipeline's
  configuration is active.  A service writes and returns; the route's commit is \<open>atomic\<close>.
\<close>

subsection \<open>Legacy statuses and labels\<close>

text \<open>
  \<^verbatim>\<open>str.upper\<close> as far as a comparison with an ASCII key needs it: the German sharp s becomes two
  letters, other letters outside ASCII never become ASCII ones.
\<close>

definition upper_text :: "string \<Rightarrow> string" where
  "upper_text s = concat (map (\<lambda>c. if of_char c = (223::nat) then ''SS'' else [ascii_upper c]) s)"

definition LEGACY_ORDER_STATUS_TO_WORK_ITEM_STATUS :: "(string \<times> WorkItemStatus) list" where
  "LEGACY_ORDER_STATUS_TO_WORK_ITEM_STATUS =
     [(''COMPLETED'', WorkItemStatus_WON), (''IN_PROGRESS'', WorkItemStatus_IN_PROGRESS),
      (''CONTRACT_PENDING'', WorkItemStatus_OPEN), (''CANCELLED'', WorkItemStatus_CANCELLED)]"

definition LEGACY_STAGE_STATUS_TO_TARGET :: "(string \<times> string) list" where
  "LEGACY_STAGE_STATUS_TO_TARGET = [(''NOT_STARTED'', ''not_started''), (''DONE'', ''done'')]"

definition map_legacy_order_status :: "string option \<Rightarrow> WorkItemStatus \<times> bool" where
  "map_legacy_order_status status = (case status of
     None \<Rightarrow> (WorkItemStatus_OPEN, True)
   | Some s \<Rightarrow>
       (case map_of LEGACY_ORDER_STATUS_TO_WORK_ITEM_STATUS (upper_text (py_strip s)) of
          None \<Rightarrow> (WorkItemStatus_OPEN, True)
        | Some m \<Rightarrow> (m, False)))"

definition map_legacy_stage_status :: "string option \<Rightarrow> string \<times> bool" where
  "map_legacy_stage_status status = (case status of
     None \<Rightarrow> (''needs_review'', True)
   | Some s \<Rightarrow>
       (case map_of LEGACY_STAGE_STATUS_TO_TARGET (upper_text (py_strip s)) of
          None \<Rightarrow> (''needs_review'', True)
        | Some m \<Rightarrow> (m, False)))"

definition ENTITY_WORK_ITEM :: string where
  "ENTITY_WORK_ITEM = ''work_item''"

subsection \<open>Pipelines\<close>

record stage_create =
  sn_code :: string
  sn_name :: string
  sn_sort_order :: int
  sn_is_terminal :: bool

record pipeline_create =
  pn_code :: string
  pn_name :: string
  pn_entity_type :: string
  pn_is_default :: bool
  pn_stages :: "stage_create list"

definition create_stage :: "uuid \<Rightarrow> stage_create \<Rightarrow> ('z crm_db_scheme, unit) svc" where
  "create_stage p d =
     bindS (gets stages) (\<lambda>gs.
     thenS (ensure (\<not> list_ex (\<lambda>g. sg_pipeline_id g = p \<and> sg_code g = sn_code d) gs)
              (IntegrityError ''uq_pipeline_stage_code''))
     (bindS fresh_id (\<lambda>i.
      modify (\<lambda>s. s\<lparr>stages := row_insert
        \<lparr>sg_id = i, sg_pipeline_id = p, sg_code = sn_code d, sg_name = sn_name d,
         sg_sort_order = sn_sort_order d, sg_is_terminal = sn_is_terminal d\<rparr> (stages s)\<rparr>))))"

definition create_pipeline :: "uuid \<Rightarrow> pipeline_create \<Rightarrow> ('z crm_db_scheme, uuid) svc" where
  "create_pipeline t payload =
     bindS (gets (get_pipeline_by_code t (pn_code payload))) (\<lambda>existing.
     thenS (ensure (existing = None) (ConflictError ''Pipeline code already exists''))
     (bindS fresh_id (\<lambda>p.
      thenS (modify (\<lambda>s. s\<lparr>pipelines := row_insert
               \<lparr>pp_id = p, pp_tenant_id = t, pp_code = pn_code payload, pp_name = pn_name payload,
                pp_entity_type = pn_entity_type payload, pp_is_default = pn_is_default payload\<rparr>
               (pipelines s)\<rparr>))
      (thenS (for_each (pn_stages payload) (create_stage p))
      (ret p)))))"

definition update_pipeline ::
    "uuid \<Rightarrow> uuid \<Rightarrow> string option \<Rightarrow> bool option \<Rightarrow> ('z crm_db_scheme, unit) svc" where
  "update_pipeline t p new_name new_default =
     bindS (gets (get_pipeline t p)) (\<lambda>found.
     thenS (ensure (found \<noteq> None) (NotFoundError ''Pipeline not found''))
     (modify (\<lambda>s. s\<lparr>pipelines := row_update pp_id p
        (\<lambda>r. r\<lparr>pp_name := case new_name of None \<Rightarrow> pp_name r | Some n \<Rightarrow> n,
               pp_is_default := case new_default of None \<Rightarrow> pp_is_default r | Some b \<Rightarrow> b\<rparr>) (pipelines s)\<rparr>)))"

subsection \<open>Helpers of the service\<close>

definition get_work_item_or_404 :: "uuid \<Rightarrow> uuid \<Rightarrow> ('z crm_db_scheme, work_item) svc" where
  "get_work_item_or_404 t i =
     bindS (gets (get_work_item t i)) (\<lambda>found. or_raise found (NotFoundError ''Work item not found''))"

definition set_updated_by :: "uuid \<Rightarrow> uuid \<Rightarrow> ('z crm_db_scheme, unit) svc" where
  "set_updated_by i u = write_work_item i (\<lambda>r. r\<lparr>wi_updated_by_user_id := u\<rparr>)"

definition set_stage :: "uuid \<Rightarrow> uuid \<Rightarrow> ('z crm_db_scheme, unit) svc" where
  "set_stage i g = write_work_item i (\<lambda>r. r\<lparr>wi_stage_id := g\<rparr>)"

definition set_status :: "uuid \<Rightarrow> WorkItemStatus \<Rightarrow> ('z crm_db_scheme, unit) svc" where
  "set_status i st = write_work_item i (\<lambda>r. r\<lparr>wi_status := st\<rparr>)"

text \<open>The custom fields a response shows: stored values first, then the item's own JSON.\<close>

definition work_item_custom_fields :: "uuid \<Rightarrow> work_item \<Rightarrow> 'z crm_db_scheme \<Rightarrow> (string \<times> json) list" where
  "work_item_custom_fields t w s =
     (let custom = get_values_map t ENTITY_WORK_ITEM (wi_id w) s in
      custom @ filter (\<lambda>(k, _). map_of custom k = None) (wi_custom_fields_json w))"

definition maybe_auto_start_process_run ::
    "runtime \<Rightarrow> instant \<Rightarrow> uuid \<Rightarrow> uuid \<Rightarrow> uuid \<Rightarrow> uuid \<Rightarrow> ('z crm_db_scheme, unit) svc" where
  "maybe_auto_start_process_run rt now t actor w p =
     bindS (gets (get_configuration_by_pipeline t p)) (\<lambda>found.
     case found of
       None \<Rightarrow> ret ()
     | Some config \<Rightarrow>
         if pc_activation_state config \<noteq> ProcessOverlayActivationState_ACTIVE then ret ()
         else bindS (start_run rt now t w (pc_id config) actor) (\<lambda>_. ret ()))"

subsection \<open>Creation\<close>

record work_item_create =
  wc_pipeline_id :: uuid
  wc_stage_id :: "uuid option"
  wc_work_item_type :: string
  wc_title :: string
  wc_description :: "string option"
  wc_primary_party_id :: "uuid option"
  wc_status :: WorkItemStatus
  wc_amount :: "cents option"
  wc_currency :: "string option"
  wc_source :: "string option"
  wc_participants :: "(uuid \<times> WorkItemParticipantRole) list"
  wc_custom_fields :: "(string \<times> json) list"

definition choose_stage :: "uuid \<Rightarrow> pipeline \<Rightarrow> uuid option \<Rightarrow> ('z crm_db_scheme, uuid) svc" where
  "choose_stage t p requested =
     (case requested of
        None \<Rightarrow>
          bindS (gets (stages_of (pp_id p))) (\<lambda>gs.
          case gs of [] \<Rightarrow> raise (ConflictError ''Pipeline has no stages'') | g # _ \<Rightarrow> ret (sg_id g))
      | Some i \<Rightarrow>
          bindS (gets (get_stage t i)) (\<lambda>found.
          thenS (ensure (case found of None \<Rightarrow> False | Some g \<Rightarrow> sg_pipeline_id g = pp_id p)
                   (ConflictError ''Stage does not belong to the specified pipeline''))
          (ret i)))"

definition json_text :: "json \<Rightarrow> string option" where
  "json_text j = (case j of JStr s \<Rightarrow> Some s | JId i \<Rightarrow> Some (nat_str i) | _ \<Rightarrow> None)"

definition dict_set :: "string \<Rightarrow> json \<Rightarrow> (string \<times> json) list \<Rightarrow> (string \<times> json) list" where
  "dict_set k v d = (if map_of d k = None then d @ [(k, v)]
     else map (\<lambda>kv. if fst kv = k then (k, v) else kv) d)"

text \<open>\<^verbatim>\<open>try: ... except ConflictError: {}\<close> around a call that does not write.\<close>

definition or_empty_on_conflict :: "('s, (string \<times> json) list) svc \<Rightarrow> ('s, (string \<times> json) list) svc" where
  "or_empty_on_conflict m s =
     (case m s of (Inl e, s') \<Rightarrow> if isinstance_ConflictError e then (Inr [], s') else (Inl e, s')
      | (Inr x, s') \<Rightarrow> (Inr x, s'))"

definition store_source_note :: "runtime \<Rightarrow> uuid \<Rightarrow> uuid \<Rightarrow> string \<Rightarrow> ('z crm_db_scheme, unit) svc" where
  "store_source_note rt t i note =
     bindS (or_empty_on_conflict
              (validate_and_prepare (rt_numbers rt) t ENTITY_WORK_ITEM [(''source_note'', JStr note)] []))
       (\<lambda>note_values.
     if note_values \<noteq> [] then upsert_values t ENTITY_WORK_ITEM i note_values
     else write_work_item i (\<lambda>r. r\<lparr>wi_custom_fields_json :=
            dict_set ''source_note'' (JStr note) (wi_custom_fields_json r)\<rparr>))"

definition add_participants ::
    "uuid \<Rightarrow> uuid \<Rightarrow> (uuid \<times> WorkItemParticipantRole) list \<Rightarrow> ('z crm_db_scheme, unit) svc" where
  "add_participants t i ps = for_each ps (\<lambda>(party, role).
     thenS (ensure_party t party)
     (add_participant_row \<lparr>wp_tenant_id = t, wp_work_item_id = i, wp_party_id = party, wp_role = role\<rparr>))"

definition insert_work_item ::
    "uuid \<Rightarrow> user \<Rightarrow> work_item_create \<Rightarrow> uuid \<Rightarrow> uuid \<Rightarrow> ('z crm_db_scheme, uuid) svc" where
  "insert_work_item t u payload p g =
     bindS fresh_id (\<lambda>i.
     thenS (modify (\<lambda>s. s\<lparr>work_items := row_insert
              \<lparr>wi_id = i, wi_tenant_id = t, wi_pipeline_id = p, wi_stage_id = g,
               wi_work_item_type = wc_work_item_type payload, wi_title = wc_title payload,
               wi_description = wc_description payload, wi_primary_party_id = wc_primary_party_id payload,
               wi_status = wc_status payload, wi_amount = wc_amount payload,
               wi_currency = wc_currency payload, wi_source = wc_source payload,
               wi_custom_fields_json = [], wi_updated_by_user_id = us_id u\<rparr> (work_items s)\<rparr>))
     (ret i))"

definition create_work_item ::
    "runtime \<Rightarrow> instant \<Rightarrow> uuid \<Rightarrow> user \<Rightarrow> work_item_create \<Rightarrow> ('z crm_db_scheme, uuid) svc" where
  "create_work_item rt now t u payload =
     bindS (gets (get_pipeline t (wc_pipeline_id payload))) (\<lambda>found.
     bindS (or_raise found (NotFoundError ''Pipeline not found'')) (\<lambda>p.
     bindS (choose_stage t p (wc_stage_id payload)) (\<lambda>g.
     thenS (case wc_primary_party_id payload of None \<Rightarrow> ret () | Some party \<Rightarrow> ensure_party t party)
     (bindS (ret (map_of (wc_custom_fields payload) ''source_note'')) (\<lambda>source_note_raw.
      bindS (ret (filter (\<lambda>(k, _). k \<noteq> ''source_note'') (wc_custom_fields payload))) (\<lambda>custom_input.
      bindS (validate_and_prepare (rt_numbers rt) t ENTITY_WORK_ITEM custom_input []) (\<lambda>custom_values.
      bindS (insert_work_item t u payload (pp_id p) g) (\<lambda>i.
      thenS (add_participants t i (wc_participants payload))
      (thenS (whenS (custom_values \<noteq> []) (upsert_values t ENTITY_WORK_ITEM i custom_values))
      (thenS (case Option.bind source_note_raw json_text of
                None \<Rightarrow> ret ()
              | Some raw \<Rightarrow> whenS (py_strip raw \<noteq> []) (store_source_note rt t i (py_strip raw)))
      (thenS (maybe_auto_start_process_run rt now t (us_id u) i (pp_id p))
      (ret i))))))))))))"

subsection \<open>Stage changes\<close>

definition stage_in_pipeline :: "stage option \<Rightarrow> work_item \<Rightarrow> string \<Rightarrow> ('s, stage) svc" where
  "stage_in_pipeline found w msg =
     bindS (or_raise found (ConflictError msg)) (\<lambda>g.
     thenS (ensure (sg_pipeline_id g = wi_pipeline_id w) (ConflictError msg)) (ret g))"

definition foreign_stage :: string where
  "foreign_stage = ''Stage does not belong to the work item pipeline''"

definition code_or_empty :: "stage option \<Rightarrow> string" where
  "code_or_empty g = (case g of None \<Rightarrow> '''' | Some x \<Rightarrow> sg_code x)"

record work_item_update =
  wu_stage_id :: "uuid option"
  wu_work_item_type :: "string option"
  wu_title :: "string option"
  wu_description :: "string option"
  wu_primary_party_id :: "uuid option"
  wu_status :: "WorkItemStatus option"
  wu_amount :: "cents option"
  wu_currency :: "string option"
  wu_source :: "string option"
  wu_custom_fields :: "(string \<times> json) list option"

text \<open>\<^verbatim>\<open>if payload.x is not None: item.x = payload.x\<close>.\<close>

definition given :: "'a option \<Rightarrow> 'a \<Rightarrow> 'a" where
  "given new old = (case new of None \<Rightarrow> old | Some x \<Rightarrow> x)"

definition given_opt :: "'a option \<Rightarrow> 'a option \<Rightarrow> 'a option" where
  "given_opt new old = (case new of None \<Rightarrow> old | Some x \<Rightarrow> Some x)"

definition change_stage_by_update ::
    "runtime \<Rightarrow> uuid \<Rightarrow> user \<Rightarrow> work_item \<Rightarrow> uuid \<Rightarrow> ('z crm_db_scheme, unit) svc" where
  "change_stage_by_update rt t u w stage_id =
     bindS (gets (get_stage t stage_id)) (\<lambda>found.
     bindS (stage_in_pipeline found w foreign_stage) (\<lambda>g.
     if sg_id g = wi_stage_id w then ret ()
     else
       bindS (gets (get_stage t (wi_stage_id w))) (\<lambda>old.
       bindS (assert_transition_allowed rt t w (map_option sg_code old) (Some (sg_code g))) (\<lambda>result.
       thenS (set_stage (wi_id w) (sg_id g))
       (record_applied_transition t (us_id u) result (wi_id w) (code_or_empty old) (sg_code g)
          ''update_work_item'')))))"

definition update_work_item ::
    "runtime \<Rightarrow> uuid \<Rightarrow> user \<Rightarrow> uuid \<Rightarrow> work_item_update \<Rightarrow> ('z crm_db_scheme, unit) svc" where
  "update_work_item rt t u i payload =
     bindS (get_work_item_or_404 t i) (\<lambda>w.
     thenS (case wu_stage_id payload of None \<Rightarrow> ret ()
            | Some g \<Rightarrow> change_stage_by_update rt t u w g)
     (thenS (write_work_item (wi_id w) (\<lambda>r. r\<lparr>
               wi_work_item_type := given (wu_work_item_type payload) (wi_work_item_type r),
               wi_title := given (wu_title payload) (wi_title r),
               wi_description := given_opt (wu_description payload) (wi_description r)\<rparr>))
     (thenS (case wu_primary_party_id payload of None \<Rightarrow> ret ()
             | Some party \<Rightarrow> thenS (ensure_party t party)
                 (write_work_item (wi_id w) (\<lambda>r. r\<lparr>wi_primary_party_id := Some party\<rparr>)))
     (thenS (write_work_item (wi_id w) (\<lambda>r. r\<lparr>
               wi_status := given (wu_status payload) (wi_status r),
               wi_amount := given_opt (wu_amount payload) (wi_amount r),
               wi_currency := given_opt (wu_currency payload) (wi_currency r),
               wi_source := given_opt (wu_source payload) (wi_source r)\<rparr>))
     (thenS (case wu_custom_fields payload of None \<Rightarrow> ret ()
             | Some values \<Rightarrow>
                 bindS (validate_and_prepare (rt_numbers rt) t ENTITY_WORK_ITEM values []) (\<lambda>prepared.
                 upsert_values t ENTITY_WORK_ITEM (wi_id w) prepared))
     (set_updated_by (wi_id w) (us_id u)))))))"

definition stage_change_activity ::
    "uuid \<Rightarrow> uuid \<Rightarrow> uuid \<Rightarrow> instant \<Rightarrow> display_text \<Rightarrow> string \<Rightarrow> ('z crm_db_scheme, unit) svc" where
  "stage_change_activity t i u now title description = add_activity_row
     \<lparr>av_tenant_id = t, av_work_item_id = i, av_activity_type = ActivityType_STATUS_CHANGE, av_title = title,
      av_description = Some (Plain description), av_occurred_at = now, av_created_by_user_id = u\<rparr>"

definition stage_change_text :: "uuid \<Rightarrow> uuid \<Rightarrow> string" where
  "stage_change_text old new = ''stage_id: '' @ nat_str old @ '' -> '' @ nat_str new"

definition status_of_stage :: "stage \<Rightarrow> WorkItemStatus" where
  "status_of_stage g =
     (if sg_is_terminal g then
        (if List.member [''lost'', ''cancelled'', ''rejected''] (sg_code g)
         then WorkItemStatus_LOST else WorkItemStatus_WON)
      else WorkItemStatus_IN_PROGRESS)"

definition move_stage ::
    "runtime \<Rightarrow> instant \<Rightarrow> uuid \<Rightarrow> user \<Rightarrow> uuid \<Rightarrow> uuid \<Rightarrow> ('z crm_db_scheme, unit) svc" where
  "move_stage rt now t u i stage_id =
     bindS (get_work_item_or_404 t i) (\<lambda>w.
     bindS (gets (get_stage t stage_id)) (\<lambda>found.
     bindS (stage_in_pipeline found w foreign_stage) (\<lambda>g.
     bindS (gets (get_stage t (wi_stage_id w))) (\<lambda>old.
     if map_option sg_id old = Some (sg_id g) then ret ()
     else
       bindS (assert_transition_allowed rt t w (map_option sg_code old) (Some (sg_code g))) (\<lambda>result.
       thenS (set_stage (wi_id w) (sg_id g))
       (thenS (set_status (wi_id w) (status_of_stage g))
       (thenS (set_updated_by (wi_id w) (us_id u))
       (thenS (stage_change_activity t (wi_id w) (us_id u) now
                 (Plain (''Moved to stage: '' @ sg_name g)) (stage_change_text (wi_stage_id w) (sg_id g)))
       (record_applied_transition t (us_id u) result (wi_id w) (code_or_empty old) (sg_code g)
          ''move_stage'')))))))))"

definition note_json :: "string option \<Rightarrow> json" where
  "note_json note = (case note of None \<Rightarrow> JNull | Some s \<Rightarrow> JStr s)"

definition stripped_note :: "string option \<Rightarrow> string option" where
  "stripped_note raw = (case raw of None \<Rightarrow> None | Some s \<Rightarrow> if s = [] then None else Some (py_strip s))"

definition text_or_empty :: "json option \<Rightarrow> string" where
  "text_or_empty j = (case j of None \<Rightarrow> ''''
     | Some v \<Rightarrow> if List.member [JNull, JBool False, JInt 0, JStr [], JList [], JObj []] v then '''' else py_str v)"

definition close_work_item ::
    "runtime \<Rightarrow> instant \<Rightarrow> uuid \<Rightarrow> user \<Rightarrow> uuid \<Rightarrow> string \<Rightarrow> string option \<Rightarrow> ('z crm_db_scheme, unit) svc" where
  "close_work_item rt now t u i disposition disposition_note =
     bindS (get_work_item_or_404 t i) (\<lambda>w.
     bindS (gets (get_stage_by_code t (wi_pipeline_id w) ''rejected'')) (\<lambda>found.
     bindS (or_raise found (ConflictError (''Pipeline stage '' @ quoted ''rejected'' @ '' not found''))) (\<lambda>g.
     bindS (gets (get_stage t (wi_stage_id w))) (\<lambda>old.
     bindS (assert_transition_allowed rt t w (map_option sg_code old) (Some (sg_code g))) (\<lambda>result.
     bindS (ret (stripped_note disposition_note)) (\<lambda>note.
     bindS (validate_and_prepare (rt_numbers rt) t ENTITY_WORK_ITEM
              [(''disposition'', JStr disposition), (''disposition_note'', note_json note)] []) (\<lambda>custom_values.
     thenS (upsert_values t ENTITY_WORK_ITEM (wi_id w) custom_values)
     (thenS (set_stage (wi_id w) (sg_id g))
     (thenS (set_status (wi_id w) WorkItemStatus_LOST)
     (thenS (set_updated_by (wi_id w) (us_id u))
     (thenS (stage_change_activity t (wi_id w) (us_id u) now (LeadClosedTitle disposition)
               (''disposition='' @ disposition @ ''; note='' @ (case note of None \<Rightarrow> '''' | Some s \<Rightarrow> s) @ ''; '' @
                stage_change_text (wi_stage_id w) (sg_id g)))
     (record_applied_transition t (us_id u) result (wi_id w) (code_or_empty old) (sg_code g) ''close''))))))))))))"

definition reopen_work_item ::
    "runtime \<Rightarrow> instant \<Rightarrow> uuid \<Rightarrow> user \<Rightarrow> uuid \<Rightarrow> string option \<Rightarrow> ('z crm_db_scheme, unit) svc" where
  "reopen_work_item rt now t u i reopen_note =
     bindS (get_work_item_or_404 t i) (\<lambda>w.
     bindS (gets (get_stage t (wi_stage_id w))) (\<lambda>found.
     bindS (or_raise (case found of None \<Rightarrow> None | Some g \<Rightarrow> if sg_code g = ''rejected'' then Some g else None)
              (ConflictError (''Work item is not in '' @ quoted ''rejected'' @ '' stage''))) (\<lambda>current.
     bindS (gets (get_stage_by_code t (wi_pipeline_id w) ''new_lead'')) (\<lambda>found_new.
     bindS (or_raise found_new (ConflictError (''Pipeline stage '' @ quoted ''new_lead'' @ '' not found''))) (\<lambda>g.
     bindS (assert_transition_allowed rt t w (Some (sg_code current)) (Some (sg_code g))) (\<lambda>result.
     bindS (gets (get_values_map t ENTITY_WORK_ITEM (wi_id w))) (\<lambda>existing_custom.
     bindS (validate_and_prepare (rt_numbers rt) t ENTITY_WORK_ITEM
              [(''disposition'', JNull), (''disposition_note'', JNull)] []) (\<lambda>clear_values.
     thenS (upsert_values t ENTITY_WORK_ITEM (wi_id w) clear_values)
     (thenS (set_stage (wi_id w) (sg_id g))
     (thenS (set_status (wi_id w) WorkItemStatus_IN_PROGRESS)
     (thenS (set_updated_by (wi_id w) (us_id u))
     (thenS (stage_change_activity t (wi_id w) (us_id u) now LeadReopenedTitle
               (''previous_disposition='' @ text_or_empty (map_of existing_custom ''disposition'') @
                ''; note='' @ (case stripped_note reopen_note of None \<Rightarrow> '''' | Some s \<Rightarrow> s) @ ''; '' @
                stage_change_text (wi_stage_id w) (sg_id g)))
     (record_applied_transition t (us_id u) result (wi_id w) (sg_code current) (sg_code g) ''reopen'')))))))))))))"

subsection \<open>Activities, tasks, deletion\<close>

definition add_activity ::
    "instant \<Rightarrow> uuid \<Rightarrow> user \<Rightarrow> uuid \<Rightarrow> ActivityType \<Rightarrow> string \<Rightarrow> string option \<Rightarrow> instant option \<Rightarrow>
     ('z crm_db_scheme, unit) svc" where
  "add_activity now t u i kind title description occurred_at =
     bindS (get_work_item_or_404 t i) (\<lambda>_. add_activity_row
       \<lparr>av_tenant_id = t, av_work_item_id = i, av_activity_type = kind, av_title = Plain title,
        av_description = map_option Plain description,
        av_occurred_at = (case occurred_at of None \<Rightarrow> now | Some x \<Rightarrow> x), av_created_by_user_id = us_id u\<rparr>)"

record task_create =
  tn_title :: string
  tn_description :: "string option"
  tn_task_status :: TaskStatus
  tn_due_at :: "instant option"
  tn_assigned_to_user_id :: "uuid option"
  tn_process_run_id :: "uuid option"
  tn_automation_key :: "string option"

definition add_task :: "uuid \<Rightarrow> uuid \<Rightarrow> task_create \<Rightarrow> ('z crm_db_scheme, unit) svc" where
  "add_task t i payload =
     bindS (get_work_item_or_404 t i) (\<lambda>_.
     bindS fresh_id (\<lambda>k. insert_task
       \<lparr>tk_id = k, tk_tenant_id = t, tk_work_item_id = i, tk_process_run_id = tn_process_run_id payload,
        tk_automation_key = tn_automation_key payload, tk_title = Plain (tn_title payload),
        tk_description = tn_description payload, tk_status = tn_task_status payload,
        tk_due_at = tn_due_at payload, tk_assigned_to_user_id = tn_assigned_to_user_id payload\<rparr>))"

text \<open>
  The ORM deletes the participants, activities and tasks with the item; a process run still
  referring to it makes the delete fail.
\<close>

definition delete_work_item :: "uuid \<Rightarrow> uuid \<Rightarrow> ('z crm_db_scheme, unit) svc" where
  "delete_work_item t i =
     bindS (get_work_item_or_404 t i) (\<lambda>w.
     thenS (modify (\<lambda>s. s\<lparr>participants := filter (\<lambda>p. wp_work_item_id p \<noteq> wi_id w) (participants s),
              activities := filter (\<lambda>a. av_work_item_id a \<noteq> wi_id w) (activities s),
              tasks := filter (\<lambda>k. tk_work_item_id k \<noteq> wi_id w) (tasks s)\<rparr>))
     (bindS (gets process_runs) (\<lambda>runs.
      thenS (ensure (\<not> list_ex (\<lambda>r. pr_work_item_id r = wi_id w) runs)
               (IntegrityError ''process_runs.work_item_id''))
      (modify (\<lambda>s. s\<lparr>work_items := filter (\<lambda>x. wi_id x \<noteq> wi_id w) (work_items s)\<rparr>)))))"

subsection \<open>The system\<close>

text \<open>
  One committed request on the CRM of some tenant.  A policy object handed to the publication has
  passed its own validation.
\<close>

definition input_valid :: "policy_input \<Rightarrow> bool" where
  "input_valid x = (case x of RawPolicy _ \<Rightarrow> True | ValidPolicy p \<Rightarrow> policy_valid p)"

inductive crm_step :: "runtime \<Rightarrow> 'z crm_db_scheme \<Rightarrow> 'z crm_db_scheme \<Rightarrow> bool" for rt where
  "crm_step rt s (snd (atomic (create_pipeline t pipeline_payload) s))"
| "crm_step rt s (snd (atomic (update_pipeline t p new_name new_default) s))"
| "crm_step rt s (snd (atomic (create_work_item rt now t u create_payload) s))"
| "crm_step rt s (snd (atomic (update_work_item rt t u i update_payload) s))"
| "crm_step rt s (snd (atomic (move_stage rt now t u i g) s))"
| "crm_step rt s (snd (atomic (close_work_item rt now t u i disposition note) s))"
| "crm_step rt s (snd (atomic (reopen_work_item rt now t u i note) s))"
| "crm_step rt s (snd (atomic (add_activity now t u i kind title description occurred_at) s))"
| "crm_step rt s (snd (atomic (add_task t i task_payload) s))"
| "crm_step rt s (snd (atomic (delete_work_item t i) s))"
| "crm_step rt s (snd (atomic seed_templates s))"
| "crm_step rt s (snd (atomic (create_configuration t code p actor) s))"
| "crm_step rt s (snd (atomic (activate_configuration t c actor) s))"
| "crm_step rt s (snd (atomic (deactivate_configuration t c actor) s))"
| "input_valid policy_in \<Longrightarrow>
    crm_step rt s (snd (atomic (publish_definition_version rt now t c policy_in reason publisher) s))"
| "crm_step rt s (snd (atomic (set_active_definition_version t c v actor) s))"
| "crm_step rt s (snd (atomic (start_run rt now t i c starter) s))"
| "crm_step rt s (snd (atomic (complete_run now t r finisher note) s))"
| "crm_step rt s (snd (atomic (cancel_run now t r finisher why) s))"
| "crm_step rt s (snd (atomic (bootstrap_flexity_sales_intake digest rt settings now t operator code activate reason) s))"

end
