(* ===== verification/Process_Spec.thy ===== *)
theory Process_Spec
  imports Crm_Db
begin

text \<open>
  What the CRM and the process overlay promise together, as an abstract machine over the part of the
  session state that matters for it: pipelines and stages, the place of every work item,
  configurations, published versions and runs.  \<open>spec_step\<close> is its step relation and \<open>spec_ok\<close> its
  invariant; the services are shown to implement it in \<^verbatim>\<open>Workflow_Refinement\<close>.
\<close>

record placed_item =
  pi_id :: uuid
  pi_tenant_id :: uuid
  pi_pipeline_id :: uuid
  pi_stage_id :: uuid

record process_spec =
  sp_next :: uuid
  sp_pipelines :: "(uuid \<times> uuid) list"
  sp_stages :: "stage list"
  sp_items :: "placed_item list"
  sp_configs :: "(uuid \<times> uuid \<times> uuid) list"
  sp_versions :: "definition_version list"
  sp_runs :: "process_run list"

definition run_active :: "process_run \<Rightarrow> bool" where
  "run_active r \<longleftrightarrow> pr_run_state r = ProcessRunState_ACTIVE"

text \<open>The edges a published version allows: those of the policy it stores.\<close>

definition version_edge :: "definition_version \<Rightarrow> string \<Rightarrow> string \<Rightarrow> bool" where
  "version_edge v a b \<longleftrightarrow>
     (\<exists>p. policy_valid p \<and> dv_policy_snapshot_json v = model_dump p \<and> (a, b) \<in> set (map edge (po_transitions p)))"

definition has_active_run :: "process_spec \<Rightarrow> uuid \<Rightarrow> uuid \<Rightarrow> bool" where
  "has_active_run a t i \<longleftrightarrow>
     (\<exists>r \<in> set (sp_runs a). pr_tenant_id r = t \<and> pr_work_item_id r = i \<and> run_active r)"

definition move_item :: "uuid \<Rightarrow> uuid \<Rightarrow> process_spec \<Rightarrow> process_spec" where
  "move_item i g a = a\<lparr>sp_items := row_update pi_id i (\<lambda>r. r\<lparr>pi_stage_id := g\<rparr>) (sp_items a)\<rparr>"

definition sync_run :: "uuid \<Rightarrow> string \<Rightarrow> process_spec \<Rightarrow> process_spec" where
  "sync_run r code a = a\<lparr>sp_runs := row_update pr_id r (\<lambda>x. x\<lparr>pr_current_stage_code := Some code\<rparr>) (sp_runs a)\<rparr>"

definition end_run :: "uuid \<Rightarrow> (process_run \<Rightarrow> process_run) \<Rightarrow> process_spec \<Rightarrow> process_spec" where
  "end_run r f a = a\<lparr>sp_runs := row_update pr_id r f (sp_runs a)\<rparr>"

definition ends_run :: "(process_run \<Rightarrow> process_run) \<Rightarrow> bool" where
  "ends_run f \<longleftrightarrow> (\<forall>r. pr_id (f r) = pr_id r \<and> pr_tenant_id (f r) = pr_tenant_id r \<and>
     pr_work_item_id (f r) = pr_work_item_id r \<and> pr_configuration_id (f r) = pr_configuration_id r \<and>
     pr_definition_version_id (f r) = pr_definition_version_id r \<and> \<not> run_active (f r))"

definition stage_at :: "process_spec \<Rightarrow> placed_item \<Rightarrow> stage \<Rightarrow> bool" where
  "stage_at a w g \<longleftrightarrow> g \<in> set (sp_stages a) \<and> sg_id g = pi_stage_id w \<and> sg_pipeline_id g = pi_pipeline_id w"

definition can_start :: "process_spec \<Rightarrow> process_run \<Rightarrow> bool" where
  "can_start a r \<longleftrightarrow> run_active r \<and>
     \<not> (\<exists>x \<in> set (sp_runs a). pr_work_item_id x = pr_work_item_id r \<and> run_active x) \<and>
     (\<exists>w \<in> set (sp_items a). \<exists>g. pi_id w = pr_work_item_id r \<and> pi_tenant_id w = pr_tenant_id r \<and>
        g \<in> set (sp_stages a) \<and> sg_id g = pi_stage_id w \<and> pr_current_stage_code r = Some (sg_code g) \<and>
        (\<exists>v \<in> set (sp_versions a). dv_id v = pr_definition_version_id r \<and>
           dv_configuration_id v = pr_configuration_id r \<and> dv_tenant_id v = pr_tenant_id r \<and>
           (pr_configuration_id r, pr_tenant_id r, pi_pipeline_id w) \<in> set (sp_configs a)))"

text \<open>A version that may be published: the next number of its configuration, and a valid policy.\<close>

definition can_publish :: "process_spec \<Rightarrow> definition_version \<Rightarrow> bool" where
  "can_publish a v \<longleftrightarrow>
     (dv_configuration_id v, dv_tenant_id v, dv_pipeline_id v) \<in> set (sp_configs a) \<and>
     dv_version_number v =
       foldr max (map dv_version_number (filter (\<lambda>x. dv_configuration_id x = dv_configuration_id v)
         (sp_versions a))) 0 + 1 \<and>
     (\<exists>p. policy_valid p \<and> dv_policy_snapshot_json v = model_dump p)"

inductive spec_step :: "process_spec \<Rightarrow> process_spec \<Rightarrow> bool" where
  take_ids: "sp_next a \<le> n \<Longrightarrow> spec_step a (a\<lparr>sp_next := n\<rparr>)"
| add_pipeline:
    "spec_step a (a\<lparr>sp_next := Suc (sp_next a), sp_pipelines := row_insert (sp_next a, t) (sp_pipelines a)\<rparr>)"
| add_stage: "sg_id g = sp_next a \<Longrightarrow>
    (\<forall>x \<in> set (sp_stages a). \<not> (sg_pipeline_id x = sg_pipeline_id g \<and> sg_code x = sg_code g)) \<Longrightarrow>
    spec_step a (a\<lparr>sp_next := Suc (sp_next a), sp_stages := row_insert g (sp_stages a)\<rparr>)"
| add_item: "pi_id w = sp_next a \<Longrightarrow> stage_at a w g \<Longrightarrow>
    (pi_pipeline_id w, pi_tenant_id w) \<in> set (sp_pipelines a) \<Longrightarrow>
    spec_step a (a\<lparr>sp_next := Suc (sp_next a), sp_items := row_insert w (sp_items a)\<rparr>)"
| move_free: "w \<in> set (sp_items a) \<Longrightarrow> g \<in> set (sp_stages a) \<Longrightarrow> sg_pipeline_id g = pi_pipeline_id w \<Longrightarrow>
    \<not> has_active_run a (pi_tenant_id w) (pi_id w) \<or> (\<exists>h. stage_at a w h \<and> sg_code h = sg_code g) \<Longrightarrow>
    spec_step a (move_item (pi_id w) (sg_id g) a)"
| move_guarded: "w \<in> set (sp_items a) \<Longrightarrow> g \<in> set (sp_stages a) \<Longrightarrow> sg_pipeline_id g = pi_pipeline_id w \<Longrightarrow>
    r \<in> set (sp_runs a) \<Longrightarrow> run_active r \<Longrightarrow> pr_work_item_id r = pi_id w \<Longrightarrow>
    h \<in> set (sp_stages a) \<Longrightarrow> sg_id h = pi_stage_id w \<Longrightarrow>
    v \<in> set (sp_versions a) \<Longrightarrow> dv_id v = pr_definition_version_id r \<Longrightarrow>
    version_edge v (sg_code h) (sg_code g) \<Longrightarrow>
    spec_step a (sync_run (pr_id r) (sg_code g) (move_item (pi_id w) (sg_id g) a))"
| remove_item: "\<not> (\<exists>r \<in> set (sp_runs a). pr_work_item_id r = i) \<Longrightarrow>
    spec_step a (a\<lparr>sp_items := filter (\<lambda>w. pi_id w \<noteq> i) (sp_items a)\<rparr>)"
| add_config: "fst c = sp_next a \<Longrightarrow>
    spec_step a (a\<lparr>sp_next := Suc (sp_next a), sp_configs := row_insert c (sp_configs a)\<rparr>)"
| publish: "dv_id v = sp_next a \<Longrightarrow> can_publish a v \<Longrightarrow>
    spec_step a (a\<lparr>sp_next := Suc (sp_next a), sp_versions := row_insert v (sp_versions a)\<rparr>)"
| start: "pr_id r = sp_next a \<Longrightarrow> can_start a r \<Longrightarrow>
    spec_step a (a\<lparr>sp_next := Suc (sp_next a), sp_runs := row_insert r (sp_runs a)\<rparr>)"
| finish: "ends_run f \<Longrightarrow> r \<in> set (sp_runs a) \<Longrightarrow> run_active r \<Longrightarrow> pr_id r = i \<Longrightarrow> spec_step a (end_run i f a)"

subsection \<open>The invariant\<close>

definition keys_ok :: "('r \<Rightarrow> uuid) \<Rightarrow> uuid \<Rightarrow> 'r list \<Rightarrow> bool" where
  "keys_ok key n rows \<longleftrightarrow> distinct (map key rows) \<and> (\<forall>r \<in> set rows. key r < n)"

definition ids_ok :: "process_spec \<Rightarrow> bool" where
  "ids_ok a \<longleftrightarrow> keys_ok fst (sp_next a) (sp_pipelines a) \<and> keys_ok sg_id (sp_next a) (sp_stages a) \<and>
     keys_ok pi_id (sp_next a) (sp_items a) \<and> keys_ok fst (sp_next a) (sp_configs a) \<and>
     keys_ok dv_id (sp_next a) (sp_versions a) \<and> keys_ok pr_id (sp_next a) (sp_runs a)"

definition stages_ok :: "process_spec \<Rightarrow> bool" where
  "stages_ok a \<longleftrightarrow> distinct (map (\<lambda>g. (sg_pipeline_id g, sg_code g)) (sp_stages a))"

definition items_ok :: "process_spec \<Rightarrow> bool" where
  "items_ok a \<longleftrightarrow> (\<forall>w \<in> set (sp_items a). (\<exists>g. stage_at a w g) \<and>
     (pi_pipeline_id w, pi_tenant_id w) \<in> set (sp_pipelines a))"

definition versions_ok :: "process_spec \<Rightarrow> bool" where
  "versions_ok a \<longleftrightarrow>
     distinct (map (\<lambda>v. (dv_configuration_id v, dv_version_number v)) (sp_versions a)) \<and>
     (\<forall>v \<in> set (sp_versions a). 0 < dv_version_number v \<and>
        (dv_configuration_id v, dv_tenant_id v, dv_pipeline_id v) \<in> set (sp_configs a) \<and>
        (\<exists>p. policy_valid p \<and> dv_policy_snapshot_json v = model_dump p))"

definition run_ok :: "process_spec \<Rightarrow> process_run \<Rightarrow> bool" where
  "run_ok a r \<longleftrightarrow>
     (\<exists>w \<in> set (sp_items a). pi_id w = pr_work_item_id r \<and> pi_tenant_id w = pr_tenant_id r \<and>
        (\<exists>v \<in> set (sp_versions a). dv_id v = pr_definition_version_id r \<and>
           dv_configuration_id v = pr_configuration_id r \<and> dv_tenant_id v = pr_tenant_id r \<and>
           dv_pipeline_id v = pi_pipeline_id w) \<and>
        (run_active r \<longrightarrow> (\<exists>g. stage_at a w g \<and> pr_current_stage_code r = Some (sg_code g))))"

definition one_active_run :: "process_run list \<Rightarrow> bool" where
  "one_active_run rs \<longleftrightarrow> distinct (map pr_work_item_id (filter run_active rs))"

definition spec_ok :: "process_spec \<Rightarrow> bool" where
  "spec_ok a \<longleftrightarrow> ids_ok a \<and> stages_ok a \<and> items_ok a \<and> versions_ok a \<and>
     (\<forall>r \<in> set (sp_runs a). run_ok a r) \<and> one_active_run (sp_runs a)"

subsection \<open>Every step keeps the invariant\<close>

lemma keys_ok_insert: "keys_ok key n rows \<Longrightarrow> key r = n \<Longrightarrow> keys_ok key (Suc n) (row_insert r rows)"
  by (fastforce simp: keys_ok_def row_insert_def)

lemma keys_ok_mono: "keys_ok key n rows \<Longrightarrow> n \<le> m \<Longrightarrow> keys_ok key m rows"
  by (fastforce simp: keys_ok_def)

lemma keys_ok_update:
  "keys_ok key n rows \<Longrightarrow> (\<And>r. key (f r) = key r) \<Longrightarrow> keys_ok key n (row_update key k f rows)"
  by (auto simp: keys_ok_def table_simps split: if_splits)

lemma keys_ok_filter: "keys_ok key n rows \<Longrightarrow> keys_ok key n (filter P rows)"
  by (auto simp: keys_ok_def distinct_map_filter)

lemma keys_ok_eq: "keys_ok key n rows \<Longrightarrow> x \<in> set rows \<Longrightarrow> y \<in> set rows \<Longrightarrow> key x = key y \<Longrightarrow> x = y"
  by (rule distinct_keys_eq[of key rows]) (simp_all add: keys_ok_def)

lemma spec_okD:
  assumes "spec_ok a"
  shows "ids_ok a" "stages_ok a" "items_ok a" "versions_ok a" "\<And>r. r \<in> set (sp_runs a) \<Longrightarrow> run_ok a r"
    "one_active_run (sp_runs a)"
  using assms by (simp_all add: spec_ok_def)

lemma ids_okD:
  assumes "ids_ok a"
  shows "keys_ok fst (sp_next a) (sp_pipelines a)" "keys_ok sg_id (sp_next a) (sp_stages a)"
    "keys_ok pi_id (sp_next a) (sp_items a)" "keys_ok fst (sp_next a) (sp_configs a)"
    "keys_ok dv_id (sp_next a) (sp_versions a)" "keys_ok pr_id (sp_next a) (sp_runs a)"
  using assms by (simp_all add: ids_ok_def)

lemma stage_at_mono: "stage_at a w g \<Longrightarrow> set (sp_stages a) \<subseteq> set (sp_stages b) \<Longrightarrow> stage_at b w g"
  by (auto simp: stage_at_def)

lemma run_ok_mono:
  assumes "run_ok a r" "set (sp_stages a) \<subseteq> set (sp_stages b)" "set (sp_items a) \<subseteq> set (sp_items b)"
    "set (sp_versions a) \<subseteq> set (sp_versions b)"
  shows "run_ok b r"
proof -
  obtain w v where w: "w \<in> set (sp_items a)" "pi_id w = pr_work_item_id r" "pi_tenant_id w = pr_tenant_id r"
    and v: "v \<in> set (sp_versions a)" "dv_id v = pr_definition_version_id r"
      "dv_configuration_id v = pr_configuration_id r" "dv_tenant_id v = pr_tenant_id r"
      "dv_pipeline_id v = pi_pipeline_id w"
    and st: "run_active r \<longrightarrow> (\<exists>g. stage_at a w g \<and> pr_current_stage_code r = Some (sg_code g))"
    using assms(1) unfolding run_ok_def by blast
  have "run_active r \<longrightarrow> (\<exists>g. stage_at b w g \<and> pr_current_stage_code r = Some (sg_code g))"
    using st stage_at_mono[OF _ assms(2)] by blast
  then show ?thesis unfolding run_ok_def using w v assms(3,4) by blast
qed

text \<open>Growth of the tables other than the runs, and any change of ids taken.\<close>

lemma items_ok_mono:
  assumes "items_ok a" "sp_items b = sp_items a" "set (sp_stages a) \<subseteq> set (sp_stages b)"
    "set (sp_pipelines a) \<subseteq> set (sp_pipelines b)"
  shows "items_ok b"
  using assms stage_at_mono[OF _ assms(3)] unfolding items_ok_def by (metis subset_iff)

lemma foldr_max_upper: "x \<in> set xs \<Longrightarrow> x \<le> foldr max xs (0::nat)"
  by (induction xs) auto

lemma one_active_unique:
  assumes "one_active_run rs" "x \<in> set rs" "y \<in> set rs" "run_active x" "run_active y"
    "pr_work_item_id x = pr_work_item_id y"
  shows "x = y"
  using assms unfolding one_active_run_def distinct_map inj_on_def by simp

lemma active_items_update:
  assumes "\<And>r. pr_work_item_id (f r) = pr_work_item_id r" "\<And>r. run_active (f r) \<Longrightarrow> run_active r"
  shows "pr_work_item_id ` set (filter run_active (row_update pr_id k f rs)) \<subseteq>
    pr_work_item_id ` set (filter run_active rs)"
proof
  fix i assume "i \<in> pr_work_item_id ` set (filter run_active (row_update pr_id k f rs))"
  then obtain r where r: "r \<in> set rs" "run_active (if pr_id r = k then f r else r)"
      "i = pr_work_item_id (if pr_id r = k then f r else r)"
    by (auto simp: row_update_def)
  then have "run_active r" "i = pr_work_item_id r" using assms by (auto split: if_splits)
  with r(1) show "i \<in> pr_work_item_id ` set (filter run_active rs)" by auto
qed

lemma one_active_update:
  assumes "one_active_run rs"
    "\<And>r. pr_work_item_id (f r) = pr_work_item_id r" "\<And>r. run_active (f r) \<Longrightarrow> run_active r"
  shows "one_active_run (row_update pr_id k f rs)"
  using assms(1)
proof (induction rs)
  case (Cons r rs)
  let ?r = "if pr_id r = k then f r else r"
  have IH: "one_active_run (row_update pr_id k f rs)"
    using Cons by (cases "run_active r") (auto simp: one_active_run_def)
  show ?case
  proof (cases "run_active ?r")
    case True
    then have "run_active r" "pr_work_item_id ?r = pr_work_item_id r" using assms by (auto split: if_splits)
    then have "pr_work_item_id ?r \<notin> pr_work_item_id ` set (filter run_active rs)"
      using Cons.prems by (simp add: one_active_run_def)
    then have "pr_work_item_id ?r \<notin> pr_work_item_id ` set (filter run_active (row_update pr_id k f rs))"
      using active_items_update[of f k rs, OF assms(2,3)] by blast
    with IH True show ?thesis by (simp add: one_active_run_def)
  next
    case False
    with IH show ?thesis by (simp add: one_active_run_def)
  qed
qed simp

lemma grow_ok:
  assumes "spec_ok a" "ids_ok b" "stages_ok b" "sp_items b = sp_items a" "sp_versions b = sp_versions a"
    "sp_runs b = sp_runs a" "set (sp_stages a) \<subseteq> set (sp_stages b)"
    "set (sp_pipelines a) \<subseteq> set (sp_pipelines b)" "set (sp_configs a) \<subseteq> set (sp_configs b)"
  shows "spec_ok b"
proof -
  have "versions_ok b" using spec_okD(4)[OF assms(1)] assms(5,9) unfolding versions_ok_def by auto
  moreover have "items_ok b" using items_ok_mono[OF spec_okD(3)[OF assms(1)]] assms by blast
  moreover have "run_ok b r" if "r \<in> set (sp_runs b)" for r
    using run_ok_mono[OF spec_okD(5)[OF assms(1)], of r b] that assms by simp
  ultimately show ?thesis using assms spec_okD(6)[OF assms(1)] by (simp add: spec_ok_def)
qed

lemma set_row_insert [simp]: "set (row_insert r rows) = insert r (set rows)"
  by (auto simp: row_insert_def)

lemmas ids_intros = keys_ok_mono keys_ok_insert keys_ok_update keys_ok_filter

lemma take_ids_ok:
  assumes ok: "spec_ok a" and n: "sp_next a \<le> n"
  shows "spec_ok (a\<lparr>sp_next := n\<rparr>)"
  by (rule grow_ok[OF ok]) (insert spec_okD(1,2)[OF ok] n, auto simp: ids_ok_def stages_ok_def intro: ids_intros)

lemma add_pipeline_ok:
  assumes ok: "spec_ok a"
  shows "spec_ok (a\<lparr>sp_next := Suc (sp_next a), sp_pipelines := row_insert (sp_next a, t) (sp_pipelines a)\<rparr>)"
  by (rule grow_ok[OF ok]) (insert spec_okD(1,2)[OF ok], auto simp: ids_ok_def stages_ok_def intro: ids_intros)

lemma add_config_ok:
  assumes ok: "spec_ok a" and c: "fst c = sp_next a"
  shows "spec_ok (a\<lparr>sp_next := Suc (sp_next a), sp_configs := row_insert c (sp_configs a)\<rparr>)"
  by (rule grow_ok[OF ok]) (insert spec_okD(1,2)[OF ok] c, auto simp: ids_ok_def stages_ok_def intro: ids_intros)

lemma add_stage_ok:
  assumes ok: "spec_ok a" and g: "sg_id g = sp_next a"
    "\<forall>x \<in> set (sp_stages a). \<not> (sg_pipeline_id x = sg_pipeline_id g \<and> sg_code x = sg_code g)"
  shows "spec_ok (a\<lparr>sp_next := Suc (sp_next a), sp_stages := row_insert g (sp_stages a)\<rparr>)"
  by (rule grow_ok[OF ok]) (insert spec_okD(1,2)[OF ok] g,
      auto simp: ids_ok_def stages_ok_def table_simps intro: ids_intros)

lemma add_item_ok:
  assumes ok: "spec_ok a" and w: "pi_id w = sp_next a" "stage_at a w g"
    "(pi_pipeline_id w, pi_tenant_id w) \<in> set (sp_pipelines a)"
  shows "spec_ok (a\<lparr>sp_next := Suc (sp_next a), sp_items := row_insert w (sp_items a)\<rparr>)" (is "spec_ok ?b")
proof -
  have "ids_ok ?b" using spec_okD(1)[OF ok] w(1)
    by (auto simp: ids_ok_def intro: keys_ok_mono keys_ok_insert)
  moreover have "stages_ok ?b" "versions_ok ?b" "one_active_run (sp_runs ?b)"
    using spec_okD(2,4,6)[OF ok] by (simp_all add: stages_ok_def versions_ok_def)
  moreover have "items_ok ?b"
    using spec_okD(3)[OF ok] w by (auto simp: items_ok_def stage_at_def table_simps)
  moreover have "run_ok ?b r" if "r \<in> set (sp_runs ?b)" for r
    using run_ok_mono[OF spec_okD(5)[OF ok], of r ?b] that by (auto simp: table_simps)
  ultimately show ?thesis by (simp add: spec_ok_def)
qed

lemma remove_item_ok:
  assumes ok: "spec_ok a" and free: "\<not> (\<exists>r \<in> set (sp_runs a). pr_work_item_id r = i)"
  shows "spec_ok (a\<lparr>sp_items := filter (\<lambda>w. pi_id w \<noteq> i) (sp_items a)\<rparr>)" (is "spec_ok ?b")
proof -
  have "ids_ok ?b" using spec_okD(1)[OF ok] by (auto simp: ids_ok_def intro: keys_ok_filter)
  moreover have "stages_ok ?b" "versions_ok ?b" "one_active_run (sp_runs ?b)" "items_ok ?b"
    using spec_okD(2,3,4,6)[OF ok] by (simp_all add: stages_ok_def versions_ok_def items_ok_def stage_at_def)
  moreover have "run_ok ?b r" if r: "r \<in> set (sp_runs ?b)" for r
  proof -
    have "pr_work_item_id r \<noteq> i" "run_ok a r" using free r spec_okD(5)[OF ok] by auto
    then show ?thesis unfolding run_ok_def stage_at_def by auto
  qed
  ultimately show ?thesis by (simp add: spec_ok_def)
qed

lemma publish_ok:
  assumes ok: "spec_ok a" and v: "dv_id v = sp_next a" "can_publish a v"
  shows "spec_ok (a\<lparr>sp_next := Suc (sp_next a), sp_versions := row_insert v (sp_versions a)\<rparr>)" (is "spec_ok ?b")
proof -
  have "ids_ok ?b" using spec_okD(1)[OF ok] v(1)
    by (auto simp: ids_ok_def intro: keys_ok_mono keys_ok_insert)
  moreover have "stages_ok ?b" "items_ok ?b" "one_active_run (sp_runs ?b)"
    using spec_okD(2,3,6)[OF ok] by (simp_all add: stages_ok_def items_ok_def stage_at_def)
  moreover have "versions_ok ?b"
  proof -
    have "dv_version_number x < dv_version_number v"
      if "x \<in> set (sp_versions a)" "dv_configuration_id x = dv_configuration_id v" for x
      using foldr_max_upper[of "dv_version_number x" "map dv_version_number
          (filter (\<lambda>x. dv_configuration_id x = dv_configuration_id v) (sp_versions a))"] that v(2)
      by (simp add: can_publish_def)
    then have "(dv_configuration_id v, dv_version_number v) \<notin>
        (\<lambda>v. (dv_configuration_id v, dv_version_number v)) ` set (sp_versions a)" by fastforce
    then show ?thesis
      using spec_okD(4)[OF ok] v(2) by (auto simp: versions_ok_def can_publish_def table_simps)
  qed
  moreover have "run_ok ?b r" if "r \<in> set (sp_runs ?b)" for r
    using run_ok_mono[OF spec_okD(5)[OF ok], of r ?b] that by (auto simp: table_simps)
  ultimately show ?thesis by (simp add: spec_ok_def)
qed

lemma start_ok:
  assumes ok: "spec_ok a" and r: "pr_id r = sp_next a" "can_start a r"
  shows "spec_ok (a\<lparr>sp_next := Suc (sp_next a), sp_runs := row_insert r (sp_runs a)\<rparr>)" (is "spec_ok ?b")
proof -
  have "ids_ok ?b" using spec_okD(1)[OF ok] r(1)
    by (auto simp: ids_ok_def intro: keys_ok_mono keys_ok_insert)
  moreover have "stages_ok ?b" "items_ok ?b" "versions_ok ?b"
    using spec_okD(2,3,4)[OF ok] by (simp_all add: stages_ok_def items_ok_def versions_ok_def stage_at_def)
  moreover have "one_active_run (sp_runs ?b)"
    using spec_okD(6)[OF ok] r(2) by (auto simp: one_active_run_def row_insert_def can_start_def)
  moreover have "run_ok ?b x" if x: "x \<in> set (sp_runs ?b)" for x
  proof (cases "x = r")
    case False
    then show ?thesis
      using run_ok_mono[OF spec_okD(5)[OF ok], of x ?b] x by (auto simp: table_simps)
  next
    case True
    obtain w g v where w: "w \<in> set (sp_items a)" "pi_id w = pr_work_item_id r" "pi_tenant_id w = pr_tenant_id r"
      and g: "g \<in> set (sp_stages a)" "sg_id g = pi_stage_id w" "pr_current_stage_code r = Some (sg_code g)"
      and v: "v \<in> set (sp_versions a)" "dv_id v = pr_definition_version_id r"
        "dv_configuration_id v = pr_configuration_id r" "dv_tenant_id v = pr_tenant_id r"
        "(pr_configuration_id r, pr_tenant_id r, pi_pipeline_id w) \<in> set (sp_configs a)"
      using r(2) unfolding can_start_def by blast
    have "stage_at a w g"
      using spec_okD(3)[OF ok] w(1) g keys_ok_eq[OF ids_okD(2)[OF spec_okD(1)[OF ok]], of g]
      unfolding items_ok_def stage_at_def by metis
    moreover have "dv_pipeline_id v = pi_pipeline_id w"
    proof -
      have "(dv_configuration_id v, dv_tenant_id v, dv_pipeline_id v) \<in> set (sp_configs a)"
        using spec_okD(4)[OF ok] v(1) by (simp add: versions_ok_def)
      then have "(dv_configuration_id v, dv_tenant_id v, dv_pipeline_id v) =
          (pr_configuration_id r, pr_tenant_id r, pi_pipeline_id w)"
        using keys_ok_eq[OF ids_okD(4)[OF spec_okD(1)[OF ok]] _ v(5)] v(3) by simp
      then show ?thesis by simp
    qed
    ultimately show ?thesis
      using True w v g unfolding run_ok_def stage_at_def by auto
  qed
  ultimately show ?thesis by (simp add: spec_ok_def)
qed

lemma finish_ok:
  assumes ok: "spec_ok a" and f: "ends_run f"
  shows "spec_ok (end_run i f a)" (is "spec_ok ?b")
proof -
  have "ids_ok ?b" using spec_okD(1)[OF ok] f
    by (auto simp: ids_ok_def end_run_def ends_run_def intro: keys_ok_update)
  moreover have "stages_ok ?b" "items_ok ?b" "versions_ok ?b"
    using spec_okD(2,3,4)[OF ok]
    by (simp_all add: stages_ok_def items_ok_def versions_ok_def stage_at_def end_run_def)
  moreover have "one_active_run (sp_runs ?b)"
    using one_active_update[OF spec_okD(6)[OF ok], of f i] f by (simp add: end_run_def ends_run_def)
  moreover have "run_ok ?b x" if "x \<in> set (sp_runs ?b)" for x
  proof -
    obtain r where r: "r \<in> set (sp_runs a)" "x = (if pr_id r = i then f r else r)"
      using \<open>x \<in> set (sp_runs ?b)\<close> by (auto simp: end_run_def row_update_def)
    have b: "run_ok ?b r" using run_ok_mono[OF spec_okD(5)[OF ok r(1)], of ?b] by (simp add: end_run_def)
    have "run_ok ?b (f r)" using b f unfolding run_ok_def ends_run_def by auto
    with b r(2) show ?thesis by simp
  qed
  ultimately show ?thesis by (simp add: spec_ok_def)
qed


lemma item_unique:
  "ids_ok a \<Longrightarrow> w \<in> set (sp_items a) \<Longrightarrow> x \<in> set (sp_items a) \<Longrightarrow> pi_id w = pi_id x \<Longrightarrow> w = x"
  using keys_ok_eq[OF ids_okD(3)] by metis

lemma stage_at_unique: "ids_ok a \<Longrightarrow> stage_at a w g \<Longrightarrow> stage_at a w h \<Longrightarrow> g = h"
  using keys_ok_eq[OF ids_okD(2)] unfolding stage_at_def by metis

text \<open>
  The parts of the invariant a move touches; \<open>code\<close> tells which stage code the run records after it.
\<close>

lemma move_core_ok:
  assumes ok: "spec_ok a" and w: "w \<in> set (sp_items a)" and g: "g \<in> set (sp_stages a)"
      "sg_pipeline_id g = pi_pipeline_id w"
    and b: "b = a\<lparr>sp_items := sp_items (move_item (pi_id w) (sg_id g) a), sp_runs := rs\<rparr>"
    and rs: "keys_ok pr_id (sp_next a) rs" "one_active_run rs"
      "\<And>x. x \<in> set rs \<Longrightarrow> \<exists>r \<in> set (sp_runs a). \<exists>c. x = r\<lparr>pr_current_stage_code := c\<rparr> \<and>
         (run_active r \<longrightarrow> c = (if pr_work_item_id r = pi_id w then Some (sg_code g) else pr_current_stage_code r))"
  shows "spec_ok b"
proof -
  let ?move = "\<lambda>r. r\<lparr>pi_stage_id := sg_id g\<rparr>"
  have items: "sp_items b = row_update pi_id (pi_id w) ?move (sp_items a)" by (simp add: b move_item_def)
  have same: "sp_stages b = sp_stages a" "sp_versions b = sp_versions a" "sp_configs b = sp_configs a"
    "sp_pipelines b = sp_pipelines a" "sp_next b = sp_next a" "sp_runs b = rs"
    by (simp_all add: b)
  have moved: "\<exists>y \<in> set (sp_items a). x = (if y = w then ?move y else y)" if x: "x \<in> set (sp_items b)" for x
  proof -
    obtain y where y: "y \<in> set (sp_items a)" "x = (if pi_id y = pi_id w then ?move y else y)"
      using x by (auto simp: items row_update_def)
    moreover have "(pi_id y = pi_id w) = (y = w)" using item_unique[OF spec_okD(1)[OF ok] w y(1)] by auto
    ultimately show ?thesis by (intro bexI[OF _ y(1)]) simp
  qed
  have at: "stage_at b (if y = w then ?move y else y) (if y = w then g else h)"
    if "stage_at a y h" for y h
    using that g by (auto simp: stage_at_def same)
  have "ids_ok b" using spec_okD(1)[OF ok] rs(1)
    by (auto simp: ids_ok_def same items intro: keys_ok_update)
  moreover have "stages_ok b" "versions_ok b" "one_active_run (sp_runs b)"
    using spec_okD(2,4)[OF ok] rs(2) by (simp_all add: stages_ok_def versions_ok_def same)
  moreover have "items_ok b"
    unfolding items_ok_def
  proof
    fix x assume "x \<in> set (sp_items b)"
    then obtain y where y: "y \<in> set (sp_items a)" "x = (if y = w then ?move y else y)" using moved by blast
    obtain h where "stage_at a y h" "(pi_pipeline_id y, pi_tenant_id y) \<in> set (sp_pipelines a)"
      using spec_okD(3)[OF ok] y(1) by (auto simp: items_ok_def)
    then show "(\<exists>g. stage_at b x g) \<and> (pi_pipeline_id x, pi_tenant_id x) \<in> set (sp_pipelines b)"
      using at[of y h] y(2) by (auto simp: same)
  qed
  moreover have "run_ok b x" if x: "x \<in> set (sp_runs b)" for x
  proof -
    obtain r c where r: "r \<in> set (sp_runs a)" "x = r\<lparr>pr_current_stage_code := c\<rparr>"
      "run_active r \<longrightarrow> c = (if pr_work_item_id r = pi_id w then Some (sg_code g) else pr_current_stage_code r)"
      using rs(3)[of x] x unfolding same by blast
    obtain y v where y: "y \<in> set (sp_items a)" "pi_id y = pr_work_item_id r" "pi_tenant_id y = pr_tenant_id r"
      and v: "v \<in> set (sp_versions a)" "dv_id v = pr_definition_version_id r"
        "dv_configuration_id v = pr_configuration_id r" "dv_tenant_id v = pr_tenant_id r"
        "dv_pipeline_id v = pi_pipeline_id y"
      and st: "run_active r \<longrightarrow> (\<exists>h. stage_at a y h \<and> pr_current_stage_code r = Some (sg_code h))"
      using spec_okD(5)[OF ok r(1)] unfolding run_ok_def by blast
    let ?y = "if y = w then ?move y else y"
    have in_b: "?y \<in> set (sp_items b)"
      using y(1) item_unique[OF spec_okD(1)[OF ok] w y(1)] by (auto simp: items table_simps intro!: bexI[of _ y])
    have yw: "(pr_work_item_id r = pi_id w) = (y = w)"
      using item_unique[OF spec_okD(1)[OF ok] w y(1)] y(2) by auto
    have "run_active r \<longrightarrow> (\<exists>h. stage_at b ?y h \<and> c = Some (sg_code h))"
    proof
      assume act: "run_active r"
      then obtain h where h: "stage_at a y h" "pr_current_stage_code r = Some (sg_code h)" using st by blast
      show "\<exists>h. stage_at b ?y h \<and> c = Some (sg_code h)"
        using at[OF h(1)] r(3) act h(2) yw by (intro exI[of _ "if y = w then g else h"]) auto
    qed
    moreover have "run_active x = run_active r" by (simp add: r(2) run_active_def)
    ultimately show ?thesis
      unfolding run_ok_def using in_b y v
      by (intro bexI[of _ ?y] conjI bexI[of _ v]) (auto simp: r(2) same)
  qed
  ultimately show ?thesis by (simp add: spec_ok_def)
qed

lemma move_free_ok:
  assumes ok: "spec_ok a" and w: "w \<in> set (sp_items a)" and g: "g \<in> set (sp_stages a)"
      "sg_pipeline_id g = pi_pipeline_id w"
    and free: "\<not> has_active_run a (pi_tenant_id w) (pi_id w) \<or> (\<exists>h. stage_at a w h \<and> sg_code h = sg_code g)"
  shows "spec_ok (move_item (pi_id w) (sg_id g) a)"
proof (rule move_core_ok[OF ok w g, where rs = "sp_runs a"])
  show "keys_ok pr_id (sp_next a) (sp_runs a)" "one_active_run (sp_runs a)"
    using spec_okD(1,6)[OF ok] by (simp_all add: ids_ok_def)
  fix r assume r: "r \<in> set (sp_runs a)"
  have "pr_current_stage_code r = Some (sg_code g)" if act: "run_active r" and rw: "pr_work_item_id r = pi_id w"
  proof -
    obtain y h where y: "y \<in> set (sp_items a)" "pi_id y = pr_work_item_id r" "pi_tenant_id y = pr_tenant_id r"
      and h: "stage_at a y h" "pr_current_stage_code r = Some (sg_code h)"
      using spec_okD(5)[OF ok r] act unfolding run_ok_def by blast
    have "y = w" using item_unique[OF spec_okD(1)[OF ok] w y(1)] y(2) rw by simp
    moreover have "has_active_run a (pi_tenant_id w) (pi_id w)"
      using r act rw y(3) \<open>y = w\<close> by (auto simp: has_active_run_def)
    ultimately show ?thesis using free h stage_at_unique[OF spec_okD(1)[OF ok]] by metis
  qed
  then show "\<exists>r' \<in> set (sp_runs a). \<exists>c. r = r'\<lparr>pr_current_stage_code := c\<rparr> \<and>
     (run_active r' \<longrightarrow> c = (if pr_work_item_id r' = pi_id w then Some (sg_code g) else pr_current_stage_code r'))"
    by (intro bexI[OF _ r] exI[of _ "pr_current_stage_code r"]) auto
qed (simp add: move_item_def)

lemma move_guarded_ok:
  assumes ok: "spec_ok a" and w: "w \<in> set (sp_items a)" and g: "g \<in> set (sp_stages a)"
      "sg_pipeline_id g = pi_pipeline_id w"
    and r: "r \<in> set (sp_runs a)" "run_active r" "pr_work_item_id r = pi_id w"
  shows "spec_ok (sync_run (pr_id r) (sg_code g) (move_item (pi_id w) (sg_id g) a))"
proof (rule move_core_ok[OF ok w g])
  let ?rs = "row_update pr_id (pr_id r) (\<lambda>x. x\<lparr>pr_current_stage_code := Some (sg_code g)\<rparr>) (sp_runs a)"
  show "sync_run (pr_id r) (sg_code g) (move_item (pi_id w) (sg_id g) a) =
     a\<lparr>sp_items := sp_items (move_item (pi_id w) (sg_id g) a), sp_runs := ?rs\<rparr>"
    by (simp add: sync_run_def move_item_def)
  show "keys_ok pr_id (sp_next a) ?rs" using spec_okD(1)[OF ok] by (auto simp: ids_ok_def intro: keys_ok_update)
  show "one_active_run ?rs" by (rule one_active_update[OF spec_okD(6)[OF ok]]) (simp_all add: run_active_def)
  fix x assume "x \<in> set ?rs"
  then obtain y where y: "y \<in> set (sp_runs a)"
    "x = (if pr_id y = pr_id r then y\<lparr>pr_current_stage_code := Some (sg_code g)\<rparr> else y)"
    by (auto simp: row_update_def)
  have "run_active y \<Longrightarrow> pr_work_item_id y = pi_id w \<Longrightarrow> y = r"
    using one_active_unique[OF spec_okD(6)[OF ok] y(1) r(1)] r by simp
  moreover have "pr_id y = pr_id r \<Longrightarrow> y = r"
    using keys_ok_eq[OF ids_okD(6)[OF spec_okD(1)[OF ok]] y(1) r(1)] .
  ultimately show "\<exists>r' \<in> set (sp_runs a). \<exists>c. x = r'\<lparr>pr_current_stage_code := c\<rparr> \<and>
     (run_active r' \<longrightarrow> c = (if pr_work_item_id r' = pi_id w then Some (sg_code g) else pr_current_stage_code r'))"
    using y r(3)
    by (intro bexI[OF _ y(1)] exI[of _ "if pr_id y = pr_id r then Some (sg_code g) else pr_current_stage_code y"])
      auto
qed

definition spec_start :: "process_spec \<Rightarrow> bool" where
  "spec_start a \<longleftrightarrow> sp_pipelines a = [] \<and> sp_stages a = [] \<and> sp_items a = [] \<and> sp_configs a = [] \<and>
     sp_versions a = [] \<and> sp_runs a = []"

lemma spec_start_ok: "spec_start a \<Longrightarrow> spec_ok a"
  by (simp add: spec_start_def spec_ok_def ids_ok_def keys_ok_def stages_ok_def items_ok_def versions_ok_def
      one_active_run_def)

lemma spec_step_ok: "spec_step a b \<Longrightarrow> spec_ok a \<Longrightarrow> spec_ok b"
  by (induction rule: spec_step.induct)
    (auto intro: take_ids_ok add_pipeline_ok add_stage_ok add_item_ok move_free_ok move_guarded_ok
      remove_item_ok add_config_ok publish_ok start_ok finish_ok)

interpretation process_spec: invariant_machine spec_start spec_step spec_ok
  by unfold_locales (rule spec_start_ok, assumption, rule spec_step_ok)


end
