(* ===== verification/Workflow_Refinement.thy ===== *)
theory Workflow_Refinement
  imports Workflows Process_Spec
begin

text \<open>
  The services of the CRM and of the process overlay implement the abstract machine of
  \<^verbatim>\<open>Process_Spec\<close>: \<open>spec_of\<close> abstracts a session state, and a call that returns is a sequence of
  abstract steps.  Calls that do not touch the abstract part are handled once, by \<open>keeps_spec\<close>.
\<close>

definition placed :: "work_item \<Rightarrow> placed_item" where
  "placed w = \<lparr>pi_id = wi_id w, pi_tenant_id = wi_tenant_id w, pi_pipeline_id = wi_pipeline_id w,
     pi_stage_id = wi_stage_id w\<rparr>"

definition spec_of :: "'z crm_db_scheme \<Rightarrow> process_spec" where
  "spec_of s = \<lparr>sp_next = next_id s,
     sp_pipelines = map (\<lambda>p. (pp_id p, pp_tenant_id p)) (pipelines s),
     sp_stages = stages s, sp_items = map placed (work_items s),
     sp_configs = map (\<lambda>c. (pc_id c, pc_tenant_id c, pc_pipeline_id c)) (process_configs s),
     sp_versions = definition_versions s, sp_runs = process_runs s\<rparr>"

lemma spec_of_simps [simp]:
  "sp_next (spec_of s) = next_id s" "sp_stages (spec_of s) = stages s"
  "sp_versions (spec_of s) = definition_versions s" "sp_runs (spec_of s) = process_runs s"
  "sp_items (spec_of s) = map placed (work_items s)"
  "sp_pipelines (spec_of s) = map (\<lambda>p. (pp_id p, pp_tenant_id p)) (pipelines s)"
  "sp_configs (spec_of s) = map (\<lambda>c. (pc_id c, pc_tenant_id c, pc_pipeline_id c)) (process_configs s)"
  by (simp_all add: spec_of_def)

lemma placed_simps [simp]:
  "pi_id (placed w) = wi_id w" "pi_tenant_id (placed w) = wi_tenant_id w"
  "pi_pipeline_id (placed w) = wi_pipeline_id w" "pi_stage_id (placed w) = wi_stage_id w"
  by (simp_all add: placed_def)

subsection \<open>Calls that keep the abstract state\<close>

definition keeps_spec :: "('z crm_db_scheme, 'a) svc \<Rightarrow> bool" where
  "keeps_spec m \<longleftrightarrow> (\<forall>a. preserves (\<lambda>s. spec_of s = a) m)"

lemma keeps_specD: "keeps_spec m \<Longrightarrow> m s = (r, s') \<Longrightarrow> spec_of s' = spec_of s"
  unfolding keeps_spec_def preserves_def by (metis snd_conv)

lemma keeps_spec_basic [simp]:
  "keeps_spec (ret x)" "keeps_spec (raise e)" "keeps_spec (gets f)" "keeps_spec (ensure b e)"
  "keeps_spec (or_raise w e)"
  by (simp_all add: keeps_spec_def)

lemma keeps_spec_bindS: "keeps_spec m \<Longrightarrow> (\<And>x. keeps_spec (f x)) \<Longrightarrow> keeps_spec (bindS m f)"
  unfolding keeps_spec_def by (blast intro: preserves_bindS)

lemma keeps_spec_thenS: "keeps_spec m \<Longrightarrow> keeps_spec n \<Longrightarrow> keeps_spec (thenS m n)"
  unfolding keeps_spec_def by (blast intro: preserves_thenS)

lemma keeps_spec_for_each: "(\<And>x. keeps_spec (f x)) \<Longrightarrow> keeps_spec (for_each xs f)"
  unfolding keeps_spec_def by (blast intro: preserves_for_each)

lemma keeps_spec_whenS: "keeps_spec m \<Longrightarrow> keeps_spec (whenS b m)"
  by (simp add: whenS_def)

lemma keeps_spec_state: "(\<And>s. snd (m s) = s) \<Longrightarrow> keeps_spec m"
  by (simp add: keeps_spec_def preserves_def)

lemma keeps_case_option: "keeps_spec m \<Longrightarrow> (\<And>x. keeps_spec (f x)) \<Longrightarrow> keeps_spec (case w of None \<Rightarrow> m | Some x \<Rightarrow> f x)"
  by (cases w) simp_all

lemmas keeps_rules = keeps_spec_bindS keeps_spec_thenS keeps_spec_for_each keeps_spec_whenS

lemma keeps_record_audit [simp]: "keeps_spec (record_audit e)"
  by (simp add: keeps_spec_def preserves_def record_audit_eval spec_of_def)

lemma keeps_add_activity_row [simp]: "keeps_spec (add_activity_row a)"
  by (simp add: keeps_spec_def preserves_def add_activity_row_def svc_eval spec_of_def)

lemma keeps_add_participant_row [simp]: "keeps_spec (add_participant_row p)"
  by (simp add: keeps_spec_def preserves_def add_participant_row_def svc_eval spec_of_def)

lemma keeps_insert_task [simp]: "keeps_spec (insert_task k)"
  by (simp add: keeps_spec_def preserves_def insert_task_def svc_eval spec_of_def)

lemma keeps_ensure_party [simp]: "keeps_spec (ensure_party t p)"
  by (simp add: keeps_spec_def preserves_def ensure_party_def svc_eval)

lemma keeps_validate [simp]: "keeps_spec (validate_and_prepare num t etype values ap)"
  by (rule keeps_spec_state) (rule validate_and_prepare_state)

lemma keeps_upsert_one: "keeps_spec (upsert_one_value t etype eid kv)"
  by (auto simp: keeps_spec_def preserves_def upsert_one_value_def svc_eval spec_of_def Let_def
      split: option.splits)

lemma keeps_upsert_values [simp]: "keeps_spec (upsert_values t etype eid values)"
  unfolding upsert_values_def by (rule keeps_spec_for_each) (rule keeps_upsert_one)

lemma map_row_update_comp:
  "(\<And>r. h (f r) = h r) \<Longrightarrow> map h (row_update key k f rows) = map h rows"
  by (auto simp: row_update_def)

lemma keeps_write_work_item:
  "(\<And>r. placed (f r) = placed r) \<Longrightarrow> keeps_spec (write_work_item i f)"
  by (simp add: keeps_spec_def preserves_def write_work_item_def svc_eval spec_of_def map_row_update_comp)

lemma keeps_set_status [simp]: "keeps_spec (set_status i st)"
  unfolding set_status_def by (rule keeps_write_work_item) (simp add: placed_def)

lemma keeps_set_updated_by [simp]: "keeps_spec (set_updated_by i u)"
  unfolding set_updated_by_def by (rule keeps_write_work_item) (simp add: placed_def)

lemma keeps_write_config:
  "(\<And>r. pc_id (f r) = pc_id r \<and> pc_tenant_id (f r) = pc_tenant_id r \<and> pc_pipeline_id (f r) = pc_pipeline_id r) \<Longrightarrow>
   keeps_spec (write_config i f)"
  by (simp add: keeps_spec_def preserves_def write_config_def svc_eval spec_of_def map_row_update_comp)

lemma keeps_assert_enabled [simp]: "keeps_spec (assert_enabled t code)"
  by (simp add: assert_enabled_def keeps_rules)

lemma keeps_stage_change_activity [simp]: "keeps_spec (stage_change_activity t i u now title d)"
  by (simp add: stage_change_activity_def)

lemma keeps_or_empty: "keeps_spec m \<Longrightarrow> keeps_spec (or_empty_on_conflict m)"
  by (auto simp: keeps_spec_def preserves_def or_empty_on_conflict_def split: prod.splits sum.splits)
    (metis snd_conv)+

lemma keeps_store_source_note [simp]: "keeps_spec (store_source_note rt t i note)"
  unfolding store_source_note_def
  by (intro keeps_spec_bindS keeps_or_empty) (auto intro!: keeps_write_work_item simp: placed_def)

lemma keeps_add_participants [simp]: "keeps_spec (add_participants t i ps)"
  unfolding add_participants_def
  by (rule keeps_spec_for_each) (simp add: case_prod_unfold keeps_spec_thenS)

lemma keeps_update_pipeline [simp]: "keeps_spec (update_pipeline t p n d)"
  by (simp add: keeps_spec_def preserves_def update_pipeline_def svc_eval spec_of_def map_row_update_comp)

lemma keeps_get_work_item_or_404 [simp]: "keeps_spec (get_work_item_or_404 t i)"
  by (simp add: get_work_item_or_404_def keeps_rules)

lemma keeps_get_configuration_or_raise [simp]: "keeps_spec (get_configuration_or_raise t c)"
  by (simp add: get_configuration_or_raise_def keeps_rules)

lemma keeps_activate [simp]: "keeps_spec (activate_configuration t c actor)"
  unfolding activate_configuration_def assert_configuration_pipeline_consistency_def
    assert_module_requirements_met_def
  by (simp add: keeps_rules keeps_write_config)

lemma keeps_deactivate [simp]: "keeps_spec (deactivate_configuration t c actor)"
  unfolding deactivate_configuration_def by (simp add: keeps_rules keeps_write_config)

lemma keeps_set_active [simp]: "keeps_spec (set_active_definition_version t c v actor)"
  unfolding set_active_definition_version_def by (simp add: keeps_rules keeps_write_config)

lemma keeps_add_activity [simp]: "keeps_spec (add_activity now t u i k title d o')"
  unfolding add_activity_def by (simp add: keeps_rules)

subsection \<open>Simulation\<close>

text \<open>A call that returns from a state satisfying the invariant is a sequence of abstract steps.\<close>

definition sim :: "('z crm_db_scheme, 'a) svc \<Rightarrow> bool" where
  "sim m \<longleftrightarrow> (\<forall>s x s'. spec_ok (spec_of s) \<longrightarrow> m s = (Inr x, s') \<longrightarrow> spec_step\<^sup>*\<^sup>* (spec_of s) (spec_of s'))"

lemma simI: "(\<And>s x s'. spec_ok (spec_of s) \<Longrightarrow> m s = (Inr x, s') \<Longrightarrow> spec_step\<^sup>*\<^sup>* (spec_of s) (spec_of s')) \<Longrightarrow> sim m"
  unfolding sim_def by blast

lemma simD: "sim m \<Longrightarrow> spec_ok (spec_of s) \<Longrightarrow> m s = (Inr x, s') \<Longrightarrow> spec_step\<^sup>*\<^sup>* (spec_of s) (spec_of s')"
  unfolding sim_def by blast

lemma spec_steps_ok: "spec_step\<^sup>*\<^sup>* a b \<Longrightarrow> spec_ok a \<Longrightarrow> spec_ok b"
  by (induction rule: rtranclp_induct) (auto intro: spec_step_ok)

lemma sim_keeps: "keeps_spec m \<Longrightarrow> sim m"
  by (rule simI) (simp add: keeps_specD)

lemma sim_bindS:
  assumes "sim m" "\<And>x. sim (f x)"
  shows "sim (bindS m f)"
proof (rule simI)
  fix s y s' assume ok: "spec_ok (spec_of s)" and "bindS m f s = (Inr y, s')"
  then obtain x s1 where "m s = (Inr x, s1)" "f x s1 = (Inr y, s')" by (auto simp: svc_ok)
  moreover from this(1) have "spec_step\<^sup>*\<^sup>* (spec_of s) (spec_of s1)" using simD[OF assms(1) ok] by simp
  ultimately show "spec_step\<^sup>*\<^sup>* (spec_of s) (spec_of s')"
    using simD[OF assms(2), of s1] spec_steps_ok ok by (meson rtranclp_trans)
qed

lemma sim_thenS: "sim m \<Longrightarrow> sim n \<Longrightarrow> sim (thenS m n)"
  unfolding thenS_def by (rule sim_bindS)

lemma sim_for_each: "(\<And>x. sim (f x)) \<Longrightarrow> sim (for_each xs f)"
  by (induction xs) (simp_all add: sim_keeps sim_thenS)

lemma sim_whenS: "sim m \<Longrightarrow> sim (whenS b m)"
  by (simp add: whenS_def sim_keeps)

lemma sim_nested_or: "sim m \<Longrightarrow> sim h \<Longrightarrow> sim (nested_or m h)"
  unfolding sim_def nested_or_ok by blast

lemma sim_fresh_id: "sim fresh_id"
proof (rule simI)
  fix s :: "'a crm_db_scheme" and x s' assume "fresh_id s = (Inr x, s')"
  then have "spec_of s' = (spec_of s)\<lparr>sp_next := Suc (next_id s)\<rparr>" by (auto simp: svc_ok spec_of_def)
  then show "spec_step\<^sup>*\<^sup>* (spec_of s) (spec_of s')"
    using take_ids[of "spec_of s" "Suc (next_id s)"] by simp
qed

lemmas sim_rules = sim_bindS sim_thenS sim_for_each sim_whenS sim_nested_or sim_fresh_id

lemma sim_case_option: "sim m \<Longrightarrow> (\<And>x. sim (f x)) \<Longrightarrow> sim (case w of None \<Rightarrow> m | Some x \<Rightarrow> f x)"
  by (cases w) simp_all

lemma sim_case_prod: "(\<And>x y. sim (f x y)) \<Longrightarrow> sim (case p of (x, y) \<Rightarrow> f x y)"
  by (cases p) simp

lemma keeps_parse_lead_automation [simp]: "keeps_spec (parse_lead_automation rt raw)"
  unfolding parse_lead_automation_def parse_uuid_value_def Let_def
  by (intro keeps_rules) (auto split: json.split)

lemma keeps_load_lead_automation [simp]: "keeps_spec (load_lead_automation_config rt t)"
  unfolding load_lead_automation_config_def by (intro keeps_rules keeps_case_option) simp_all

lemma keeps_assert_assignee [simp]: "keeps_spec (assert_assignee_active_same_tenant t u)"
  unfolding assert_assignee_active_same_tenant_def by (intro keeps_rules) simp_all

lemma sim_first_contact: "sim (maybe_create_process_run_first_contact_task rt now t run w actor)"
  unfolding maybe_create_process_run_first_contact_task_def
  by (intro sim_rules sim_case_option sim_case_prod) (simp_all add: sim_keeps)

lemma sim_add_task: "sim (add_task t i payload)"
  unfolding add_task_def by (intro sim_rules) (simp_all add: sim_keeps)

lemma keeps_write_templates:
  fixes h :: "'z crm_db_scheme \<Rightarrow> process_template list"
  shows "keeps_spec (modify (\<lambda>s. s\<lparr>process_templates := h s\<rparr>))"
  by (simp add: keeps_spec_def preserves_def svc_eval spec_of_def)

lemma sim_seed_templates: "sim seed_templates"
  unfolding seed_templates_def upsert_template_def
  by (intro sim_rules sim_case_option) (simp_all add: sim_keeps keeps_write_templates)


subsection \<open>Lookups\<close>

lemma get_pipeline_iff:
  "get_pipeline t i s \<noteq> None \<longleftrightarrow> (i, t) \<in> set (sp_pipelines (spec_of s))"
  by (auto simp: get_pipeline_def scoped_get_def table_simps)

lemma get_stage_Some:
  "get_stage t i s = Some g \<Longrightarrow>
     g \<in> set (stages s) \<and> sg_id g = i \<and> (sg_pipeline_id g, t) \<in> set (sp_pipelines (spec_of s))"
  unfolding get_stage_def get_pipeline_iff by (drule row_find_Some) simp

lemma get_stage_by_code_Some:
  "get_stage_by_code t p code s = Some g \<Longrightarrow> g \<in> set (stages s) \<and> sg_pipeline_id g = p \<and> sg_code g = code"
  unfolding get_stage_by_code_def by (drule row_find_Some) simp

lemma get_work_item_Some:
  "get_work_item t i s = Some w \<Longrightarrow> w \<in> set (work_items s) \<and> wi_tenant_id w = t \<and> wi_id w = i"
  unfolding get_work_item_def by (rule scoped_get_Some)

lemma get_configuration_Some:
  "get_configuration t i s = Some c \<Longrightarrow> c \<in> set (process_configs s) \<and> pc_tenant_id c = t \<and> pc_id c = i"
  unfolding get_configuration_def by (rule scoped_get_Some)

lemma get_active_run_Some:
  "get_active_run_for_work_item t i s = Some r \<Longrightarrow>
     r \<in> set (process_runs s) \<and> pr_tenant_id r = t \<and> pr_work_item_id r = i \<and> run_active r"
  unfolding get_active_run_for_work_item_def by (drule row_find_Some) (simp add: run_active_def)

lemma get_active_run_None:
  "get_active_run_for_work_item t i s = None \<longleftrightarrow> \<not> has_active_run (spec_of s) t i"
  by (auto simp: get_active_run_for_work_item_def has_active_run_def run_active_def table_simps)

text \<open>The stage of a work item is always found, and it is in the item's pipeline.\<close>

lemma stage_of_item:
  assumes ok: "spec_ok (spec_of s)" and w: "w \<in> set (work_items s)"
  obtains g where "get_stage (wi_tenant_id w) (wi_stage_id w) s = Some g" "stage_at (spec_of s) (placed w) g"
proof -
  obtain g where g: "stage_at (spec_of s) (placed w) g"
    and p: "(wi_pipeline_id w, wi_tenant_id w) \<in> set (sp_pipelines (spec_of s))"
    using spec_okD(3)[OF ok] w unfolding items_ok_def by fastforce
  have "get_stage (wi_tenant_id w) (wi_stage_id w) s = Some g"
    unfolding get_stage_def
  proof (rule row_find_unique)
    show "g \<in> set (stages s)" "sg_id g = wi_stage_id w \<and> get_pipeline (wi_tenant_id w) (sg_pipeline_id g) s \<noteq> None"
      using g p get_pipeline_iff[of "wi_tenant_id w" "wi_pipeline_id w" s] by (simp_all add: stage_at_def)
    fix x assume "x \<in> set (stages s)"
      "sg_id x = wi_stage_id w \<and> get_pipeline (wi_tenant_id w) (sg_pipeline_id x) s \<noteq> None"
    then show "x = g"
      using keys_ok_eq[OF ids_okD(2)[OF spec_okD(1)[OF ok]], of x g] g by (simp add: stage_at_def)
  qed
  with g that show ?thesis by blast
qed

subsection \<open>New rows\<close>

lemma sim_create_stage: "sim (create_stage p d)"
proof (rule simI)
  fix s :: "'a crm_db_scheme" and x s' assume "create_stage p d s = (Inr x, s')"
  then have "spec_step (spec_of s) (spec_of s')"
    using add_stage[of "\<lparr>sg_id = next_id s, sg_pipeline_id = p, sg_code = sn_code d, sg_name = sn_name d,
         sg_sort_order = sn_sort_order d, sg_is_terminal = sn_is_terminal d\<rparr>" "spec_of s"]
    by (auto simp: create_stage_def svc_ok list_ex_iff spec_of_def)
  then show "spec_step\<^sup>*\<^sup>* (spec_of s) (spec_of s')" by blast
qed

lemma sim_create_pipeline: "sim (create_pipeline t payload)"
proof -
  let ?new = "\<lambda>p. \<lparr>pp_id = p, pp_tenant_id = t, pp_code = pn_code payload, pp_name = pn_name payload,
                pp_entity_type = pn_entity_type payload, pp_is_default = pn_is_default payload\<rparr>"
  have new: "sim (bindS fresh_id (\<lambda>p. thenS (modify (\<lambda>s. s\<lparr>pipelines := row_insert (?new p) (pipelines s)\<rparr>)) (n p)))"
    if n: "\<And>p. sim (n p)" for n :: "uuid \<Rightarrow> ('a crm_db_scheme, uuid) svc"
  proof (rule simI)
    fix s :: "'a crm_db_scheme" and x s' assume ok: "spec_ok (spec_of s)" and
      run: "bindS fresh_id (\<lambda>p. thenS (modify (\<lambda>s. s\<lparr>pipelines := row_insert (?new p) (pipelines s)\<rparr>)) (n p)) s
        = (Inr x, s')"
    let ?s1 = "s\<lparr>next_id := Suc (next_id s), pipelines := row_insert (?new (next_id s)) (pipelines s)\<rparr>"
    have r: "n (next_id s) ?s1 = (Inr x, s')" using run by (simp add: svc_ok)
    have st: "spec_step (spec_of s) (spec_of ?s1)"
      using add_pipeline[of "spec_of s" t] by (simp add: spec_of_def row_insert_def)
    then show "spec_step\<^sup>*\<^sup>* (spec_of s) (spec_of s')"
      using simD[OF n _ r] spec_step_ok[OF st ok] by (meson converse_rtranclp_into_rtranclp)
  qed
  show ?thesis
    unfolding create_pipeline_def
    by (rule sim_bindS, simp add: sim_keeps, rule sim_thenS, simp add: sim_keeps, rule new)
      (simp add: sim_keeps sim_thenS sim_for_each sim_create_stage)
qed

lemma sim_create_configuration_row: "sim (create_configuration_row t template p)"
proof (rule simI)
  fix s :: "'a crm_db_scheme" and x s' assume "create_configuration_row t template p s = (Inr x, s')"
  then have "spec_step (spec_of s) (spec_of s')"
    using add_config[of "(next_id s, t, p)" "spec_of s"]
    by (auto simp: create_configuration_row_def svc_ok spec_of_def row_insert_def)
  then show "spec_step\<^sup>*\<^sup>* (spec_of s) (spec_of s')" by blast
qed

lemma keeps_no_duplicate [simp]: "keeps_spec (no_duplicate_configuration template p cs)"
  by (induction cs) (simp_all add: keeps_rules)

lemma sim_create_configuration: "sim (create_configuration t code p actor)"
  unfolding create_configuration_def
  by (intro sim_bindS sim_thenS sim_create_configuration_row) (simp_all add: sim_keeps)


subsection \<open>Publication and runs\<close>

lemma or_raise_policy_ok:
  "(case policy_in of RawPolicy j \<Rightarrow> (case parse_policy_snapshot lib j of Inl e \<Rightarrow> raise e | Inr x \<Rightarrow> ret x)
     | ValidPolicy x \<Rightarrow> ret x) s = (Inr p, s') \<Longrightarrow> input_valid policy_in \<Longrightarrow> s' = s \<and> policy_valid p"
  by (auto simp: input_valid_def svc_ok split: policy_input.splits sum.splits intro: parse_policy_snapshot_ok)

lemma get_configuration_or_raise_ok:
  "get_configuration_or_raise t c s = (Inr x, s') \<longleftrightarrow> s' = s \<and> get_configuration t c s = Some x"
  by (auto simp: get_configuration_or_raise_def svc_ok)

lemma validate_module_requirements_ok:
  "validate_module_requirements codes s = (Inr x, s') \<Longrightarrow> s' = s"
  by (induction codes) (auto simp: validate_module_requirements_def svc_ok)

lemma validate_policy_against_pipeline_ok:
  "validate_policy_against_pipeline p pc codes tc s = (Inr x, s') \<Longrightarrow> s' = s \<and> po_pipeline_code p = pc"
  by (auto simp: validate_policy_against_pipeline_def svc_ok Let_def split: if_splits)

lemma get_pipeline_Some: "get_pipeline t i s = Some p \<Longrightarrow> pp_id p = i \<and> pp_tenant_id p = t"
  unfolding get_pipeline_def by (drule scoped_get_Some) simp

text \<open>What a publication that returns has done.\<close>

lemma publish_outcome:
  assumes run: "publish_definition_version rt now t c policy_in reason actor s = (Inr i, s')"
    and inp: "input_valid policy_in"
  obtains config policy v where "get_configuration t c s = Some config" "policy_valid policy"
    "v = \<lparr>dv_id = next_id s, dv_tenant_id = t, dv_configuration_id = pc_id config,
          dv_version_number = max_version_number c s + 1, dv_pipeline_id = pc_pipeline_id config,
          dv_pipeline_code = po_pipeline_code policy, dv_stage_codes = po_stage_codes policy,
          dv_policy_snapshot_json = model_dump policy, dv_module_requirements = po_module_requirements policy,
          dv_published_at = now, dv_published_by_user_id = actor, dv_publish_reason = py_strip reason\<rparr>"
    "i = next_id s" "definition_versions s' = row_insert v (definition_versions s)"
    "spec_of s' = (spec_of s)\<lparr>sp_next := Suc (next_id s), sp_versions := row_insert v (definition_versions s)\<rparr>"
proof -
  from run obtain config template p policy where
    c: "get_configuration t c s = Some config" and p: "get_pipeline t (pc_pipeline_id config) s = Some p"
    and pol: "policy_valid policy" "po_pipeline_code policy = pp_code p"
    and v: "definition_versions s' = row_insert
         \<lparr>dv_id = next_id s, dv_tenant_id = t, dv_configuration_id = pc_id config,
          dv_version_number = max_version_number (pc_id config) s + 1, dv_pipeline_id = pp_id p,
          dv_pipeline_code = pp_code p, dv_stage_codes = po_stage_codes policy,
          dv_policy_snapshot_json = model_dump policy, dv_module_requirements = po_module_requirements policy,
          dv_published_at = now, dv_published_by_user_id = actor, dv_publish_reason = py_strip reason\<rparr>
          (definition_versions s)"
      "spec_of s' = (spec_of s)\<lparr>sp_next := Suc (next_id s), sp_versions := definition_versions s'\<rparr>" "i = next_id s"
    unfolding publish_definition_version_def
    by (auto simp: svc_ok get_configuration_or_raise_ok insert_definition_version_def spec_of_def
        dest!: or_raise_policy_ok[OF _ inp] validate_module_requirements_ok validate_policy_against_pipeline_ok)
  have "pc_id config = c" using get_configuration_Some[OF c] by simp
  moreover have "pp_id p = pc_pipeline_id config" using get_pipeline_Some[OF p] by simp
  ultimately show ?thesis using that[OF c pol(1)] v pol(2) by simp
qed

lemma config_triple:
  "get_configuration t c s = Some config \<Longrightarrow> (c, t, pc_pipeline_id config) \<in> set (sp_configs (spec_of s))"
  by (force dest: get_configuration_Some)

lemma sim_publish:
  assumes "input_valid policy_in"
  shows "sim (publish_definition_version rt now t c policy_in reason actor)"
proof (rule simI)
  fix s :: "'a crm_db_scheme" and i s'
  assume run: "publish_definition_version rt now t c policy_in reason actor s = (Inr i, s')"
  from publish_outcome[OF run assms] obtain config policy v where
    c: "get_configuration t c s = Some config" and pol: "policy_valid policy"
    and v: "v = \<lparr>dv_id = next_id s, dv_tenant_id = t, dv_configuration_id = pc_id config,
          dv_version_number = max_version_number c s + 1, dv_pipeline_id = pc_pipeline_id config,
          dv_pipeline_code = po_pipeline_code policy, dv_stage_codes = po_stage_codes policy,
          dv_policy_snapshot_json = model_dump policy, dv_module_requirements = po_module_requirements policy,
          dv_published_at = now, dv_published_by_user_id = actor, dv_publish_reason = py_strip reason\<rparr>"
    and s': "spec_of s' = (spec_of s)\<lparr>sp_next := Suc (next_id s), sp_versions := row_insert v (definition_versions s)\<rparr>"
    by blast
  have "can_publish (spec_of s) v"
    using config_triple[OF c] get_configuration_Some[OF c] pol
    by (auto simp: can_publish_def v max_version_number_def simp del: spec_of_simps(7))
  then show "spec_step\<^sup>*\<^sup>* (spec_of s) (spec_of s')"
    using publish[of v "spec_of s"] by (auto simp: v s')
qed

lemma get_version_for_Some:
  "get_definition_version_for_configuration t c i s = Some v \<Longrightarrow>
     v \<in> set (definition_versions s) \<and> dv_tenant_id v = t \<and> dv_configuration_id v = c \<and> dv_id v = i"
  unfolding get_definition_version_for_configuration_def by (drule row_find_Some) simp

text \<open>A run that was started: active, with the item's current stage, pinned to the active version.\<close>

definition run_started ::
    "'z crm_db_scheme \<Rightarrow> uuid \<Rightarrow> uuid \<Rightarrow> uuid \<Rightarrow> instant \<Rightarrow> uuid \<Rightarrow> process_run \<Rightarrow> bool" where
  "run_started s t w c now actor run \<longleftrightarrow>
     (\<exists>config item v. get_configuration t c s = Some config \<and> get_work_item t w s = Some item \<and>
        pc_activation_state config = ProcessOverlayActivationState_ACTIVE \<and>
        pc_active_definition_version_id config = Some v \<and>
        get_definition_version_for_configuration t c v s \<noteq> None \<and>
        wi_pipeline_id item = pc_pipeline_id config \<and>
        run = \<lparr>pr_id = next_id s, pr_tenant_id = t, pr_configuration_id = c, pr_definition_version_id = v,
               pr_work_item_id = w, pr_run_state = ProcessRunState_ACTIVE, pr_started_at = now,
               pr_started_by_user_id = actor, pr_completed_at = None, pr_completed_by_user_id = None,
               pr_completion_reason = None,
               pr_current_stage_code = map_option sg_code (get_stage t (wi_stage_id item) s)\<rparr>) \<and>
     (\<forall>x \<in> set (process_runs s). \<not> (pr_work_item_id x = w \<and> run_active x))"

lemma start_run_outcome:
  assumes "start_run rt now t w c actor s = (Inr run, s')"
  obtains s1 k where "run_started s t w c now actor run"
    "spec_of s1 = (spec_of s)\<lparr>sp_next := Suc (next_id s), sp_runs := row_insert run (process_runs s)\<rparr>"
    "maybe_create_process_run_first_contact_task rt now t (pr_id run) w actor s1 = (Inr k, s')"
proof -
  let ?run = "\<lambda>config item v. \<lparr>pr_id = next_id s, pr_tenant_id = t, pr_configuration_id = pc_id config,
     pr_definition_version_id = v, pr_work_item_id = wi_id item, pr_run_state = ProcessRunState_ACTIVE,
     pr_started_at = now, pr_started_by_user_id = actor, pr_completed_at = None,
     pr_completed_by_user_id = None, pr_completion_reason = None,
     pr_current_stage_code = map_option sg_code (get_stage t (wi_stage_id item) s)\<rparr>"
  let ?s1 = "\<lambda>config item v e. s\<lparr>next_id := Suc (next_id s),
     process_runs := row_insert (?run config item v) (process_runs s), audit_logs := row_insert e (audit_logs s)\<rparr>"
  from assms obtain config v version item k e where
    c: "get_configuration t c s = Some config" "pc_activation_state config = ProcessOverlayActivationState_ACTIVE"
      "pc_active_definition_version_id config = Some v"
      "get_definition_version_for_configuration t c v s = Some version"
    and item: "get_work_item t w s = Some item" "wi_pipeline_id item = pc_pipeline_id config"
    and run: "run = ?run config item v"
    and free: "\<forall>x \<in> set (process_runs s). \<not> (pr_work_item_id x = wi_id item \<and> run_active x)"
    and k: "maybe_create_process_run_first_contact_task rt now t (pr_id run) (wi_id item) actor
      (?s1 config item v e) = (Inr k, s')"
    unfolding start_run_def
    by (auto simp: svc_ok get_configuration_or_raise_ok nested_or_ok create_run_def list_ex_iff run_active_def)
  have ids: "pc_id config = c" "wi_id item = w"
    using get_configuration_Some[OF c(1)] get_work_item_Some[OF item(1)] by auto
  then have "run_started s t w c now actor run"
    unfolding run_started_def using c item run free by auto
  moreover have "spec_of (?s1 config item v e) =
      (spec_of s)\<lparr>sp_next := Suc (next_id s), sp_runs := row_insert run (process_runs s)\<rparr>"
    by (simp add: spec_of_def run)
  ultimately show ?thesis using k ids(2) that by blast
qed

lemma run_started_can_start:
  assumes ok: "spec_ok (spec_of s)" and st: "run_started s t w c now actor run"
  shows "can_start (spec_of s) run"
proof -
  obtain config item v version where
    c: "get_configuration t c s = Some config"
      "get_definition_version_for_configuration t c v s = Some version"
    and item: "get_work_item t w s = Some item" "wi_pipeline_id item = pc_pipeline_id config"
    and run: "run = \<lparr>pr_id = next_id s, pr_tenant_id = t, pr_configuration_id = c, pr_definition_version_id = v,
               pr_work_item_id = w, pr_run_state = ProcessRunState_ACTIVE, pr_started_at = now,
               pr_started_by_user_id = actor, pr_completed_at = None, pr_completed_by_user_id = None,
               pr_completion_reason = None,
               pr_current_stage_code = map_option sg_code (get_stage t (wi_stage_id item) s)\<rparr>"
    and free: "\<forall>x \<in> set (process_runs s). \<not> (pr_work_item_id x = w \<and> run_active x)"
    using st unfolding run_started_def by auto
  have w: "item \<in> set (work_items s)" "wi_tenant_id item = t" "wi_id item = w"
    using get_work_item_Some[OF item(1)] by auto
  obtain g where g: "get_stage t (wi_stage_id item) s = Some g" "stage_at (spec_of s) (placed item) g"
    using stage_of_item[OF ok w(1)] w(2) by auto
  have v: "version \<in> set (definition_versions s)" "dv_tenant_id version = t" "dv_configuration_id version = c"
    "dv_id version = v"
    using get_version_for_Some[OF c(2)] by auto
  have "placed item \<in> set (sp_items (spec_of s))" using w(1) by simp
  moreover have "(c, t, pi_pipeline_id (placed item)) \<in> set (sp_configs (spec_of s))"
    using config_triple[OF c(1)] item(2) by simp
  ultimately show ?thesis
    unfolding can_start_def using free g v w
    by (auto simp: run run_active_def stage_at_def simp del: spec_of_simps(5,7)
        intro!: bexI[of _ "placed item"] exI[of _ g] bexI[of _ version])
qed

lemma sim_start_run: "sim (start_run rt now t w c actor)"
proof (rule simI)
  fix s :: "'a crm_db_scheme" and run s'
  assume ok: "spec_ok (spec_of s)" and "start_run rt now t w c actor s = (Inr run, s')"
  from start_run_outcome[OF this(2)] obtain s1 k where st: "run_started s t w c now actor run"
    and s1: "spec_of s1 = (spec_of s)\<lparr>sp_next := Suc (next_id s), sp_runs := row_insert run (process_runs s)\<rparr>"
    and k: "maybe_create_process_run_first_contact_task rt now t (pr_id run) w actor s1 = (Inr k, s')" .
  have "pr_id run = next_id s" using st by (auto simp: run_started_def)
  then have step: "spec_step (spec_of s) (spec_of s1)"
    using start[of run "spec_of s"] run_started_can_start[OF ok st] by (simp add: s1)
  show "spec_step\<^sup>*\<^sup>* (spec_of s) (spec_of s')"
    using simD[OF sim_first_contact _ k] spec_step_ok[OF step ok] step by (meson converse_rtranclp_into_rtranclp)
qed

lemma get_active_run_or_raise_ok:
  "get_active_run_or_raise t i s = (Inr run, s') \<longleftrightarrow>
     s' = s \<and> get_run t i s = Some run \<and> run_active run"
  by (auto simp: get_active_run_or_raise_def svc_ok run_active_def)

lemma end_run_step:
  assumes "get_run t i s = Some run" "run_active run" "st \<noteq> ProcessRunState_ACTIVE"
    "update_run_lifecycle run st at actor reason s = (Inr u, s')"
  shows "spec_step (spec_of s) (spec_of s')"
proof -
  let ?f = "\<lambda>r. r\<lparr>pr_run_state := st, pr_completed_at := Some at, pr_completed_by_user_id := Some actor,
    pr_completion_reason := reason\<rparr>"
  have "run \<in> set (process_runs s)" using assms(1) unfolding get_run_def by (auto dest: scoped_get_Some)
  moreover have "ends_run ?f" using assms(3) by (auto simp: ends_run_def run_active_def)
  moreover have "spec_of s' = end_run (pr_id run) ?f (spec_of s)"
    using assms(4) by (auto simp: update_run_lifecycle_def write_run_def svc_ok spec_of_def end_run_def)
  ultimately show ?thesis using finish[of ?f run "spec_of s"] assms(2) by simp
qed

lemma sim_complete_run: "sim (complete_run now t i actor reason)"
proof (rule simI)
  fix s :: "'a crm_db_scheme" and u s' assume "complete_run now t i actor reason s = (Inr u, s')"
  then obtain run s1 e cr where "get_run t i s = Some run" "run_active run"
    "update_run_lifecycle run ProcessRunState_COMPLETED now actor cr s = (Inr (), s1)" "record_audit e s1 = (Inr (), s')"
    by (auto simp: complete_run_def bindS_ok thenS_ok get_active_run_or_raise_ok svc_ok_rules)
  then show "spec_step\<^sup>*\<^sup>* (spec_of s) (spec_of s')"
    using end_run_step[of t i s run ProcessRunState_COMPLETED now actor cr "()" s1]
      keeps_specD[OF keeps_record_audit, of e s1] by fastforce
qed

lemma sim_cancel_run: "sim (cancel_run now t i actor reason)"
proof (rule simI)
  fix s :: "'a crm_db_scheme" and u s' assume "cancel_run now t i actor reason s = (Inr u, s')"
  then obtain run s1 e cr where "get_run t i s = Some run" "run_active run"
    "update_run_lifecycle run ProcessRunState_CANCELLED now actor cr s = (Inr (), s1)" "record_audit e s1 = (Inr (), s')"
    by (auto simp: cancel_run_def bindS_ok thenS_ok get_active_run_or_raise_ok svc_ok_rules)
  then show "spec_step\<^sup>*\<^sup>* (spec_of s) (spec_of s')"
    using end_run_step[of t i s run ProcessRunState_CANCELLED now actor cr "()" s1]
      keeps_specD[OF keeps_record_audit, of e s1] by fastforce
qed


end
