(* ===== verification/Workflow_Guard.thy ===== *)
theory Workflow_Guard
  imports Workflow_Refinement
begin

text \<open>
  The guarded stage changes: what the guard's answer means, and that update, move, close, reopen,
  creation, deletion and the bootstrap refine the abstract machine.  The rest is the reachability of
  session states under \<open>crm_step\<close> and the refinement theorem's ingredients.
\<close>

subsection \<open>The guard\<close>

text \<open>An enforced answer names the active run, its version, and an edge of the version's policy.\<close>

definition enforced_edge :: "'z crm_db_scheme \<Rightarrow> uuid \<Rightarrow> uuid \<Rightarrow> guard_result \<Rightarrow> string \<Rightarrow> string \<Rightarrow> bool" where
  "enforced_edge s t i res a b \<longleftrightarrow>
     (\<exists>run v. res = \<lparr>gr_enforced = True, gr_noop = False, gr_run = Some run, gr_version = Some v\<rparr> \<and>
        get_active_run_for_work_item t i s = Some run \<and> v \<in> set (definition_versions s) \<and>
        dv_id v = pr_definition_version_id run \<and> version_edge v a b)"

lemma get_version_Some:
  "get_definition_version t i s = Some v \<Longrightarrow> v \<in> set (definition_versions s) \<and> dv_tenant_id v = t \<and> dv_id v = i"
  unfolding get_definition_version_def by (rule scoped_get_Some)

lemma stored_policy:
  assumes ok: "spec_ok (spec_of s)" and v: "v \<in> set (definition_versions s)" and lib: "pydantic_ok lib"
  obtains p where "policy_valid p" "dv_policy_snapshot_json v = model_dump p"
    "parse_policy_snapshot lib (dv_policy_snapshot_json v) = Inr p"
  using spec_okD(4)[OF ok] v parse_dump[OF lib] unfolding versions_ok_def by fastforce

lemma assert_pinned_policy_ok:
  assumes ok: "spec_ok (spec_of s)" and lib: "pydantic_ok (rt_pydantic rt)"
    and run: "get_active_run_for_work_item t (wi_id w) s = Some run"
    and ret: "assert_pinned_policy rt t w a b run s = (Inr res, s')"
  shows "s' = s \<and> enforced_edge s t (wi_id w) res a b"
proof -
  from ret obtain v p where v: "get_definition_version t (pr_definition_version_id run) s = Some v"
    and p: "parse_policy_snapshot (rt_pydantic rt) (dv_policy_snapshot_json v) = Inr p"
      "(a, b) \<in> set (map edge (po_transitions p))"
    and res: "s' = s" "res = \<lparr>gr_enforced = True, gr_noop = False, gr_run = Some run, gr_version = Some v\<rparr>"
    by (cases "parse_policy_snapshot (rt_pydantic rt) (dv_policy_snapshot_json (the
           (get_definition_version t (pr_definition_version_id run) s)))")
      (auto simp: assert_pinned_policy_def svc_ok)
  note row = get_version_Some[OF v]
  obtain q where q: "policy_valid q" "dv_policy_snapshot_json v = model_dump q"
    "parse_policy_snapshot (rt_pydantic rt) (dv_policy_snapshot_json v) = Inr q"
    using stored_policy[OF ok _ lib, of v] row by blast
  have "version_edge v a b" using q p unfolding version_edge_def by auto
  with row res run show ?thesis unfolding enforced_edge_def by blast
qed

lemma guard_ok:
  assumes ok: "spec_ok (spec_of s)" and lib: "pydantic_ok (rt_pydantic rt)"
    and ret: "assert_transition_allowed rt t w (Some a) (Some b) s = (Inr res, s')"
  shows "s' = s \<and> (gr_enforced res = False \<and> (a = b \<or> \<not> has_active_run (spec_of s) t (wi_id w)) \<or>
     enforced_edge s t (wi_id w) res a b)"
proof (cases "a = b")
  case True
  with ret show ?thesis by (auto simp: assert_transition_allowed_def svc_ok)
next
  case False
  show ?thesis
  proof (cases "get_active_run_for_work_item t (wi_id w) s")
    case None
    with False ret get_active_run_None[of t "wi_id w" s] show ?thesis
      by (auto simp: assert_transition_allowed_def svc_ok)
  next
    case (Some run)
    with False ret have "assert_pinned_policy rt t w a b run s = (Inr res, s')"
      by (simp add: assert_transition_allowed_def bindS_ok svc_ok_rules)
    from assert_pinned_policy_ok[OF ok lib Some this] show ?thesis by blast
  qed
qed

subsection \<open>Stage writes\<close>

lemma set_stage_spec:
  "set_stage i g s = (Inr u, s') \<Longrightarrow> spec_of s' = move_item i g (spec_of s) \<and> process_runs s' = process_runs s"
  by (auto simp: set_stage_def write_work_item_def svc_ok spec_of_def move_item_def row_update_def placed_def)

lemma record_not_enforced:
  "\<not> gr_enforced res \<Longrightarrow> record_applied_transition t actor res w a b via s = (Inr u, s') \<Longrightarrow> s' = s"
  by (simp add: record_applied_transition_def svc_ok)

lemma record_enforced:
  assumes "record_applied_transition t actor
     \<lparr>gr_enforced = True, gr_noop = False, gr_run = Some run, gr_version = Some v\<rparr> w a b via s = (Inr u, s')"
  shows "spec_of s' = sync_run (pr_id run) b (spec_of s)"
proof -
  have "\<exists>e. record_audit e (s\<lparr>process_runs := row_update pr_id (pr_id run)
      (\<lambda>r. r\<lparr>pr_current_stage_code := Some b\<rparr>) (process_runs s)\<rparr>) = (Inr (), s')"
    using assms by (auto simp: record_applied_transition_def update_run_current_stage_code_def write_run_def svc_ok)
  then obtain e where "record_audit e (s\<lparr>process_runs := row_update pr_id (pr_id run)
      (\<lambda>r. r\<lparr>pr_current_stage_code := Some b\<rparr>) (process_runs s)\<rparr>) = (Inr (), s')" ..
  from keeps_specD[OF keeps_record_audit this] show ?thesis by (simp add: spec_of_def sync_run_def)
qed

text \<open>
  A stage write between the guard and the record of the transition is one abstract step.  \<open>h\<close> is the
  old stage, \<open>g\<close> the new one; \<open>s1\<close> is the state after the write and the calls around it.
\<close>

lemma stage_write_step:
  assumes ok: "spec_ok (spec_of s)" and lib: "pydantic_ok (rt_pydantic rt)"
    and w: "w \<in> set (work_items s)" "wi_tenant_id w = t"
    and h: "get_stage t (wi_stage_id w) s = Some h"
    and g: "g \<in> set (stages s)" "sg_pipeline_id g = wi_pipeline_id w"
    and guard: "assert_transition_allowed rt t w (Some (sg_code h)) (Some (sg_code g)) s = (Inr res, s0)"
    and s1: "spec_of s1 = move_item (wi_id w) (sg_id g) (spec_of s)"
    and rec: "record_applied_transition t actor res (wi_id w) a (sg_code g) via s1 = (Inr u, s')"
  shows "spec_step (spec_of s) (spec_of s')"
proof -
  have item: "placed w \<in> set (sp_items (spec_of s))" using w by simp
  have at: "stage_at (spec_of s) (placed w) h"
    using stage_of_item[OF ok w(1)] h w(2) by (metis option.inject)
  from guard_ok[OF ok lib guard] consider
      (free) "gr_enforced res = False" "sg_code h = sg_code g \<or> \<not> has_active_run (spec_of s) t (wi_id w)"
    | (edge) "enforced_edge s t (wi_id w) res (sg_code h) (sg_code g)"
    by blast
  then show ?thesis
  proof cases
    case free
    then have "s' = s1" using record_not_enforced[OF _ rec] by simp
    moreover have "spec_step (spec_of s) (move_item (pi_id (placed w)) (sg_id g) (spec_of s))"
      using free(2) at g w(2) by (intro move_free[OF item]) auto
    ultimately show ?thesis by (simp add: s1)
  next
    case edge
    then obtain run v where
      res: "res = \<lparr>gr_enforced = True, gr_noop = False, gr_run = Some run, gr_version = Some v\<rparr>"
      and run: "get_active_run_for_work_item t (wi_id w) s = Some run"
      and v: "v \<in> set (definition_versions s)" "dv_id v = pr_definition_version_id run"
        "version_edge v (sg_code h) (sg_code g)"
      unfolding enforced_edge_def by blast
    have "spec_of s' = sync_run (pr_id run) (sg_code g) (move_item (wi_id w) (sg_id g) (spec_of s))"
      using record_enforced[OF rec[unfolded res]] by (simp add: s1)
    moreover have "spec_step (spec_of s)
        (sync_run (pr_id run) (sg_code g) (move_item (pi_id (placed w)) (sg_id g) (spec_of s)))"
      using get_active_run_Some[OF run] v at g
      by (intro move_guarded[OF item _ _ _ _ _ _ _ v(1)[folded spec_of_simps(3)]]) (auto simp: stage_at_def)
    ultimately show ?thesis by simp
  qed
qed



subsection \<open>Runs of a service from a state\<close>

text \<open>
  \<open>ends R s b m\<close>: if the call \<open>m\<close> returns from \<open>s\<close>, its final state is abstractly related to \<open>b\<close> by
  \<open>R\<close> (one step at most, or any number of steps).  The rules walk through the reads of a service;
  \<open>leads R a m b\<close> is the same for every state whose abstraction is \<open>a\<close>, and its rules walk through
  the writes.
\<close>

type_synonym spec_rel = "process_spec \<Rightarrow> process_spec \<Rightarrow> bool"

definition ends :: "spec_rel \<Rightarrow> 'z crm_db_scheme \<Rightarrow> process_spec \<Rightarrow> ('z crm_db_scheme, 'a) svc \<Rightarrow> bool" where
  "ends R s b m \<longleftrightarrow> (\<forall>x s'. m s = (Inr x, s') \<longrightarrow> R b (spec_of s'))"

definition leads :: "spec_rel \<Rightarrow> process_spec \<Rightarrow> ('z crm_db_scheme, 'a) svc \<Rightarrow> process_spec \<Rightarrow> bool" where
  "leads R a m b \<longleftrightarrow> (\<forall>s x s'. spec_of s = a \<longrightarrow> m s = (Inr x, s') \<longrightarrow> R b (spec_of s'))"

text \<open>At most one abstract step.\<close>

definition one_step :: spec_rel where
  "one_step a b \<longleftrightarrow> a = b \<or> spec_step a b"

lemma sim_ends: "(\<And>s. spec_ok (spec_of s) \<Longrightarrow> ends spec_step\<^sup>*\<^sup>* s (spec_of s) m) \<Longrightarrow> sim m"
  by (rule simI) (simp add: ends_def)

lemma sim_one_step: "(\<And>s. spec_ok (spec_of s) \<Longrightarrow> ends one_step s (spec_of s) m) \<Longrightarrow> sim m"
  unfolding sim_def ends_def one_step_def by (metis r_into_rtranclp rtranclp.rtrancl_refl)

lemma ends_gets: "ends R s b (f (g s)) \<Longrightarrow> ends R s b (bindS (gets g) f)"
  by (simp add: ends_def svc_ok)

lemma ends_ret: "ends R s b (f x) \<Longrightarrow> ends R s b (bindS (ret x) f)"
  by (simp add: ends_def svc_ok)

lemma ends_or_raise: "(\<And>x. w = Some x \<Longrightarrow> ends R s b (f x)) \<Longrightarrow> ends R s b (bindS (or_raise w e) f)"
  by (auto simp: ends_def svc_ok)

lemma ends_item: "(\<And>w. get_work_item t i s = Some w \<Longrightarrow> ends R s b (f w)) \<Longrightarrow>
    ends R s b (bindS (get_work_item_or_404 t i) f)"
  by (auto simp: ends_def svc_ok get_work_item_or_404_def)

lemma ends_stage_in: "(\<And>g. found = Some g \<Longrightarrow> sg_pipeline_id g = wi_pipeline_id w \<Longrightarrow> ends R s b (f g)) \<Longrightarrow>
    ends R s b (bindS (stage_in_pipeline found w msg) f)"
  by (auto simp: ends_def svc_ok stage_in_pipeline_def)

lemma ends_state: "(\<And>x s'. m s = (Inr x, s') \<Longrightarrow> s' = s \<and> ends R s b (f x)) \<Longrightarrow> ends R s b (bindS m f)"
  by (fastforce simp: ends_def svc_ok)

lemma ends_leads: "leads R (spec_of s) m b \<Longrightarrow> ends R s b m"
  by (simp add: ends_def leads_def)

lemma ends_refl: "ends one_step s (spec_of s) (ret x)"
  by (simp add: ends_def one_step_def svc_ok)

lemma leads_keeps: "keeps_spec m \<Longrightarrow> leads R a n b \<Longrightarrow> leads R a (thenS m n) b"
  unfolding leads_def thenS_ok using keeps_specD by metis

lemma leads_set_stage: "leads R (move_item i g a) n b \<Longrightarrow> leads R a (thenS (set_stage i g) n) b"
  unfolding leads_def thenS_ok using set_stage_spec by metis

text \<open>What the guard guarantees to the writes that follow it.\<close>

definition may_move :: "process_spec \<Rightarrow> work_item \<Rightarrow> stage \<Rightarrow> guard_result \<Rightarrow> bool" where
  "may_move a w g res \<longleftrightarrow> (\<forall>h. stage_at a (placed w) h \<longrightarrow>
     gr_enforced res = False \<and> spec_step a (move_item (wi_id w) (sg_id g) a) \<or>
     (\<exists>run v. res = \<lparr>gr_enforced = True, gr_noop = False, gr_run = Some run, gr_version = Some v\<rparr> \<and>
        spec_step a (sync_run (pr_id run) (sg_code g) (move_item (wi_id w) (sg_id g) a))))"

lemma leads_record:
  assumes "may_move a w g res" "stage_at a (placed w) h"
  shows "leads one_step (move_item (wi_id w) (sg_id g) a) (record_applied_transition t actor res i from_code (sg_code g) via) a"
  using assms unfolding may_move_def leads_def
  by (metis record_not_enforced record_enforced one_step_def)

lemma guard_may_move:
  assumes ok: "spec_ok (spec_of s)" and lib: "pydantic_ok (rt_pydantic rt)"
    and w: "get_work_item t i s = Some w" and h: "get_stage t (wi_stage_id w) s = Some h"
    and g: "g \<in> set (stages s)" "sg_pipeline_id g = wi_pipeline_id w"
    and guard: "assert_transition_allowed rt t w (Some (sg_code h)) (Some (sg_code g)) s = (Inr res, s0)"
  shows "s0 = s \<and> may_move (spec_of s) w g res \<and> stage_at (spec_of s) (placed w) h"
proof -
  have row: "w \<in> set (work_items s)" "wi_tenant_id w = t" using get_work_item_Some[OF w] by auto
  have item: "placed w \<in> set (sp_items (spec_of s))" using row by simp
  have at: "stage_at (spec_of s) (placed w) h"
    using stage_of_item[OF ok row(1)] h row(2) by (metis option.inject)
  have "may_move (spec_of s) w g res"
    unfolding may_move_def
  proof (intro allI impI)
    fix h' assume "stage_at (spec_of s) (placed w) h'"
    from guard_ok[OF ok lib guard] consider
        (free) "gr_enforced res = False" "sg_code h = sg_code g \<or> \<not> has_active_run (spec_of s) t (wi_id w)"
      | (edge) "enforced_edge s t (wi_id w) res (sg_code h) (sg_code g)"
      by blast
    then show "gr_enforced res = False \<and> spec_step (spec_of s) (move_item (wi_id w) (sg_id g) (spec_of s)) \<or>
     (\<exists>run v. res = \<lparr>gr_enforced = True, gr_noop = False, gr_run = Some run, gr_version = Some v\<rparr> \<and>
        spec_step (spec_of s) (sync_run (pr_id run) (sg_code g) (move_item (wi_id w) (sg_id g) (spec_of s))))"
    proof cases
      case free
      have "spec_step (spec_of s) (move_item (pi_id (placed w)) (sg_id g) (spec_of s))"
        using free(2) at g row(2) by (intro move_free[OF item]) auto
      with free show ?thesis by simp
    next
      case edge
      then obtain run v where
        res: "res = \<lparr>gr_enforced = True, gr_noop = False, gr_run = Some run, gr_version = Some v\<rparr>"
        and run: "get_active_run_for_work_item t (wi_id w) s = Some run"
        and v: "v \<in> set (definition_versions s)" "dv_id v = pr_definition_version_id run"
          "version_edge v (sg_code h) (sg_code g)"
        unfolding enforced_edge_def by blast
      have "spec_step (spec_of s)
          (sync_run (pr_id run) (sg_code g) (move_item (pi_id (placed w)) (sg_id g) (spec_of s)))"
        using get_active_run_Some[OF run] v at g
        by (intro move_guarded[OF item _ _ _ _ _ _ _ v(1)[folded spec_of_simps(3)]]) (auto simp: stage_at_def)
      with res show ?thesis by simp
    qed
  qed
  with at guard_ok[OF ok lib guard] show ?thesis by simp
qed

lemma ends_guard:
  assumes ok: "spec_ok (spec_of s)" and lib: "pydantic_ok (rt_pydantic rt)"
    and w: "get_work_item t i s = Some w"
    and g: "g \<in> set (stages s)" "sg_pipeline_id g = wi_pipeline_id w"
    and from_code: "from_code = map_option sg_code (get_stage t (wi_stage_id w) s)"
    and rest: "\<And>res h. may_move (spec_of s) w g res \<Longrightarrow> stage_at (spec_of s) (placed w) h \<Longrightarrow> ends R s b (f res)"
  shows "ends R s b (bindS (assert_transition_allowed rt t w from_code (Some (sg_code g))) f)"
proof (rule ends_state)
  fix res s0 assume guard: "assert_transition_allowed rt t w from_code (Some (sg_code g)) s = (Inr res, s0)"
  have row: "w \<in> set (work_items s)" "wi_tenant_id w = t" using get_work_item_Some[OF w] by auto
  obtain h where h: "get_stage t (wi_stage_id w) s = Some h"
    using stage_of_item[OF ok row(1)] row(2) by metis
  have "s0 = s \<and> may_move (spec_of s) w g res \<and> stage_at (spec_of s) (placed w) h"
    using guard_may_move[OF ok lib w h g, of res s0] guard by (simp add: from_code h)
  with rest show "s0 = s \<and> ends R s b (f res)" by blast
qed

lemma ends_move_stage:
  assumes lib: "pydantic_ok (rt_pydantic rt)" and ok: "spec_ok (spec_of s)"
  shows "ends one_step s (spec_of s) (move_stage rt now t u i stage_id)"
  unfolding move_stage_def
  apply (rule ends_item, rule ends_gets, rule ends_stage_in, rule ends_gets)
  apply (simp only: split: if_splits)
  apply (intro conjI impI ends_refl)
  apply (rule ends_guard[OF ok lib], assumption+, drule get_stage_Some, simp, assumption, rule refl)
  apply (rule ends_leads)
  apply (intro leads_set_stage leads_keeps keeps_set_status keeps_set_updated_by keeps_stage_change_activity)
  apply (rule leads_record, assumption+)
  done


lemma ends_thenS_keeps: "ends R s b m \<Longrightarrow> keeps_spec n \<Longrightarrow> ends R s b (thenS m n)"
  unfolding ends_def thenS_ok using keeps_specD by metis

lemma ends_validate:
  "(\<And>x. ends R s b (f x)) \<Longrightarrow> ends R s b (bindS (validate_and_prepare num t etype values ap) f)"
  by (rule ends_state) (metis snd_conv validate_and_prepare_state)

lemma ends_change_stage:
  assumes lib: "pydantic_ok (rt_pydantic rt)" and ok: "spec_ok (spec_of s)"
    and w: "get_work_item t i s = Some w"
  shows "ends one_step s (spec_of s) (change_stage_by_update rt t u w stage_id)"
  unfolding change_stage_by_update_def
  apply (rule ends_gets, rule ends_stage_in)
  apply (simp only: split: if_splits)
  apply (intro conjI impI ends_refl)
  apply (rule ends_gets, rule ends_guard[OF ok lib w], drule get_stage_Some, simp, assumption, rule refl)
  apply (rule ends_leads)
  apply (intro leads_set_stage leads_keeps keeps_set_status keeps_set_updated_by keeps_stage_change_activity)
  apply (rule leads_record, assumption+)
  done

lemma ends_update_work_item:
  assumes lib: "pydantic_ok (rt_pydantic rt)" and ok: "spec_ok (spec_of s)"
  shows "ends one_step s (spec_of s) (update_work_item rt t u i payload)"
  unfolding update_work_item_def
  apply (rule ends_item, rule ends_thenS_keeps)
  subgoal for w
    using ends_refl ends_change_stage[OF lib ok] by (auto split: option.split)
  by (intro keeps_spec_thenS keeps_case_option keeps_write_work_item keeps_spec_bindS)
    (auto simp: placed_def keeps_spec_thenS keeps_write_work_item)

lemma ends_close_work_item:
  assumes lib: "pydantic_ok (rt_pydantic rt)" and ok: "spec_ok (spec_of s)"
  shows "ends one_step s (spec_of s) (close_work_item rt now t u i disposition note)"
  unfolding close_work_item_def
  apply (rule ends_item, rule ends_gets, rule ends_or_raise, drule get_stage_by_code_Some, rule ends_gets)
  apply (rule ends_guard[OF ok lib], assumption+, simp, simp, rule refl)
  apply (rule ends_ret, rule ends_validate, rule ends_leads)
  apply (intro leads_set_stage leads_keeps keeps_set_status keeps_set_updated_by keeps_stage_change_activity
      keeps_upsert_values)
  apply (rule leads_record, assumption+)
  done

lemma ends_reopen_work_item:
  assumes lib: "pydantic_ok (rt_pydantic rt)" and ok: "spec_ok (spec_of s)"
  shows "ends one_step s (spec_of s) (reopen_work_item rt now t u i note)"
  unfolding reopen_work_item_def
  apply (rule ends_item, rule ends_gets, rule ends_or_raise, rule ends_gets, rule ends_or_raise,
      drule get_stage_by_code_Some)
  apply (rule ends_guard[OF ok lib], assumption+, simp, simp, simp split: option.splits if_splits)
  apply (rule ends_gets, rule ends_validate, rule ends_leads)
  apply (intro leads_set_stage leads_keeps keeps_set_status keeps_set_updated_by keeps_stage_change_activity
      keeps_upsert_values)
  apply (rule leads_record, assumption+)
  done

subsection \<open>Creation, deletion, bootstrap\<close>

lemma ends_new:
  assumes ok: "spec_ok (spec_of s)"
    and new: "spec_step (spec_of s) (spec_of (ins (next_id s) (s\<lparr>next_id := Suc (next_id s)\<rparr>)))"
    and rest: "\<And>i. sim (rest i)"
  shows "ends spec_step\<^sup>*\<^sup>* s (spec_of s) (bindS fresh_id (\<lambda>i. thenS (modify (ins i)) (rest i)))"
  unfolding ends_def
proof (intro allI impI)
  fix x s' assume "bindS fresh_id (\<lambda>i. thenS (modify (ins i)) (rest i)) s = (Inr x, s')"
  then have "rest (next_id s) (ins (next_id s) (s\<lparr>next_id := Suc (next_id s)\<rparr>)) = (Inr x, s')"
    by (simp add: svc_ok)
  from simD[OF rest _ this] spec_step_ok[OF new ok] new show "spec_step\<^sup>*\<^sup>* (spec_of s) (spec_of s')"
    by (meson converse_rtranclp_into_rtranclp)
qed

lemma choose_stage_ok:
  assumes "choose_stage t p requested s = (Inr i, s')"
  shows "s' = s \<and> (\<exists>g \<in> set (stages s). sg_id g = i \<and> sg_pipeline_id g = pp_id p)"
proof (cases requested)
  case None
  with assms obtain gs where "stages_of (pp_id p) s = gs" "s' = s" "gs \<noteq> []" "i = sg_id (hd gs)"
    by (auto simp: choose_stage_def svc_ok split: list.splits)
  moreover have "set (stages_of (pp_id p) s) \<subseteq> {g \<in> set (stages s). sg_pipeline_id g = pp_id p}"
    by (auto simp: stages_of_def)
  moreover have "gs \<noteq> [] \<Longrightarrow> hd gs \<in> set gs" by simp
  ultimately show ?thesis by blast
next
  case (Some j)
  with assms have "s' = s" "i = j" "\<exists>g. get_stage t j s = Some g \<and> sg_pipeline_id g = pp_id p"
    by (auto simp: choose_stage_def svc_ok split: option.splits)
  then show ?thesis using get_stage_Some by metis
qed

lemma sim_auto_start: "sim (maybe_auto_start_process_run rt now t actor w p)"
  unfolding maybe_auto_start_process_run_def
  by (intro sim_bindS sim_case_option) (simp_all add: sim_keeps sim_bindS sim_start_run)

lemma ends_insert_item:
  assumes ok: "spec_ok (spec_of s)" and p: "(p, t) \<in> set (sp_pipelines (spec_of s))"
    and g: "x \<in> set (stages s)" "sg_id x = g" "sg_pipeline_id x = p"
    and rest: "\<And>i. sim (f i)"
  shows "ends spec_step\<^sup>*\<^sup>* s (spec_of s) (bindS (insert_work_item t u payload p g) f)"
proof -
  have "ends spec_step\<^sup>*\<^sup>* s (spec_of s) (bindS fresh_id (\<lambda>i. thenS (modify (\<lambda>s. s\<lparr>work_items := row_insert
              \<lparr>wi_id = i, wi_tenant_id = t, wi_pipeline_id = p, wi_stage_id = g,
               wi_work_item_type = wc_work_item_type payload, wi_title = wc_title payload,
               wi_description = wc_description payload, wi_primary_party_id = wc_primary_party_id payload,
               wi_status = wc_status payload, wi_amount = wc_amount payload,
               wi_currency = wc_currency payload, wi_source = wc_source payload,
               wi_custom_fields_json = [], wi_updated_by_user_id = us_id u\<rparr> (work_items s)\<rparr>)) (f i)))"
    using add_item[of "\<lparr>pi_id = next_id s, pi_tenant_id = t, pi_pipeline_id = p, pi_stage_id = g\<rparr>"
          "spec_of s" x] g p
    by (intro ends_new[OF ok] rest) (simp add: spec_of_def row_insert_def placed_def stage_at_def)
  then show ?thesis by (simp add: ends_def insert_work_item_def svc_ok)
qed

lemma sim_create_work_item: "sim (create_work_item rt now t u payload)"
  unfolding create_work_item_def thenS_def[of "case wc_primary_party_id payload of None \<Rightarrow> ret () | Some party \<Rightarrow> ensure_party t party"]
  apply (rule sim_ends, rule ends_gets, rule ends_or_raise, rule ends_state, drule choose_stage_ok)
  apply (elim conjE bexE, simp only:, intro conjI refl)
  apply (rule ends_state, rule conjI)
   apply (auto simp: ensure_party_def svc_ok split: option.splits)[1]
  apply (rule ends_ret, rule ends_ret, rule ends_validate)
  apply (rule ends_insert_item, assumption)
  subgoal for s p by (use get_pipeline_iff[of t "wc_pipeline_id payload" s] get_pipeline_Some[of t _ s p] in auto)
  by (assumption | rule refl | intro sim_thenS sim_auto_start sim_whenS)+
    (auto intro!: sim_keeps keeps_spec_whenS split: option.split)

lemma sim_delete_work_item: "sim (delete_work_item t i)"
proof (rule simI)
  fix s :: "'a crm_db_scheme" and x s' assume "delete_work_item t i s = (Inr x, s')"
  then obtain w where "get_work_item t i s = Some w" and free: "\<not> (\<exists>r \<in> set (process_runs s). pr_work_item_id r = wi_id w)"
    and s': "spec_of s' = (spec_of s)\<lparr>sp_items := map placed (filter (\<lambda>x. wi_id x \<noteq> wi_id w) (work_items s))\<rparr>"
    by (auto simp: delete_work_item_def svc_ok get_work_item_or_404_def list_ex_iff spec_of_def)
  have "spec_of s' = (spec_of s)\<lparr>sp_items := filter (\<lambda>x. pi_id x \<noteq> wi_id w) (sp_items (spec_of s))\<rparr>"
    by (simp add: s' filter_map comp_def)
  then show "spec_step\<^sup>*\<^sup>* (spec_of s) (spec_of s')"
    using remove_item[of "spec_of s" "wi_id w"] free by auto
qed

lemma keeps_find_matching [simp]: "keeps_spec (find_matching_published_version digest rt t c fp)"
proof -
  have m: "keeps_spec (matches_fingerprint digest rt fp v)" for v
    unfolding matches_fingerprint_def stored_fingerprint_def
    by (auto intro!: keeps_spec_bindS split: option.split sum.split)
  show ?thesis
    unfolding find_matching_published_version_def
    by (intro keeps_spec_bindS keeps_case_option) (simp_all add: m keeps_spec_bindS)
qed

lemma sim_finalize: "sim (finalize t c actor activate)"
  unfolding finalize_def by (intro sim_thenS sim_whenS sim_keeps) simp_all

lemma sim_publish_valid:
  "sim (bindS (case parse_policy_snapshot lib j of Inl e \<Rightarrow> raise e | Inr x \<Rightarrow> ret x) f)"
  if "\<And>p. policy_valid p \<Longrightarrow> sim (f p)"
  using that parse_policy_snapshot_ok[of lib j]
  by (cases "parse_policy_snapshot lib j") (auto simp: sim_def svc_ok)

lemma sim_bootstrap:
  "sim (bootstrap_flexity_sales_intake digest rt settings now t actor code activate reason)"
  unfolding bootstrap_flexity_sales_intake_def assert_ops_guard_def
  by (intro sim_bindS sim_thenS sim_seed_templates sim_case_option sim_publish_valid sim_publish sim_finalize
      sim_create_configuration)
    (auto simp: sim_keeps keeps_spec_whenS input_valid_def intro!: sim_publish sim_keeps)


subsection \<open>Reachable CRM states\<close>

definition crm_ok :: "runtime \<Rightarrow> 'z crm_db_scheme \<Rightarrow> bool" where
  "crm_ok rt s \<longleftrightarrow> pydantic_ok (rt_pydantic rt) \<and> spec_ok (spec_of s)"

text \<open>The start: a database without pipelines, work items, configurations, versions and runs.\<close>

definition crm_start :: "runtime \<Rightarrow> 'z crm_db_scheme \<Rightarrow> bool" where
  "crm_start rt s \<longleftrightarrow> pydantic_ok (rt_pydantic rt) \<and> pipelines s = [] \<and> stages s = [] \<and> work_items s = [] \<and>
     process_configs s = [] \<and> definition_versions s = [] \<and> process_runs s = []"

lemma sim_atomic:
  assumes "sim m" "spec_ok (spec_of s)"
  shows "spec_step\<^sup>*\<^sup>* (spec_of s) (spec_of (snd (atomic m s)))"
proof (cases "m s")
  case (Pair r s')
  then show ?thesis using simD[OF assms, of _ s'] by (cases r) (auto simp: atomic_def)
qed

lemma crm_step_refines:
  assumes "crm_step rt s s'" "crm_ok rt s"
  shows "spec_step\<^sup>*\<^sup>* (spec_of s) (spec_of s')"
proof -
  have ok: "spec_ok (spec_of s)" and lib: "pydantic_ok (rt_pydantic rt)" using assms(2) by (simp_all add: crm_ok_def)
  note writers = ends_move_stage[OF lib, THEN sim_one_step] ends_update_work_item[OF lib, THEN sim_one_step]
    ends_close_work_item[OF lib, THEN sim_one_step] ends_reopen_work_item[OF lib, THEN sim_one_step]
  show ?thesis
    using assms(1)
    by cases (auto intro!: sim_atomic[OF _ ok] sim_create_pipeline sim_create_work_item sim_add_task
        sim_delete_work_item sim_seed_templates sim_create_configuration sim_publish sim_start_run sim_complete_run
        sim_cancel_run sim_bootstrap writers sim_keeps[OF keeps_update_pipeline] sim_keeps[OF keeps_add_activity]
        sim_keeps[OF keeps_activate] sim_keeps[OF keeps_deactivate] sim_keeps[OF keeps_set_active])
qed

interpretation crm: invariant_machine "crm_start rt" "crm_step rt" "crm_ok rt" for rt
proof unfold_locales
  show "crm_ok rt s" if "crm_start rt s" for s :: "'a crm_db_scheme"
    using that spec_start_ok[of "spec_of s"] by (simp add: crm_start_def crm_ok_def spec_start_def)
  show "crm_ok rt s'" if "crm_ok rt s" "crm_step rt s s'" for s s' :: "'a crm_db_scheme"
    using spec_steps_ok[OF crm_step_refines[OF that(2,1)]] that(1) by (simp add: crm_ok_def)
qed

subsection \<open>The four writers of a stage\<close>

datatype stage_request =
    UpdateRequest work_item_update
  | MoveRequest uuid
  | CloseRequest string "string option"
  | ReopenRequest "string option"

fun run_stage_request ::
    "runtime \<Rightarrow> instant \<Rightarrow> uuid \<Rightarrow> user \<Rightarrow> uuid \<Rightarrow> stage_request \<Rightarrow> ('z crm_db_scheme, unit) svc" where
  "run_stage_request rt now t u i (UpdateRequest payload) = update_work_item rt t u i payload"
| "run_stage_request rt now t u i (MoveRequest g) = move_stage rt now t u i g"
| "run_stage_request rt now t u i (CloseRequest disposition note) = close_work_item rt now t u i disposition note"
| "run_stage_request rt now t u i (ReopenRequest note) = reopen_work_item rt now t u i note"

lemma stage_request_one_step:
  "crm_ok rt s \<Longrightarrow> ends one_step s (spec_of s) (run_stage_request rt now t u i rq)"
  by (cases rq) (simp_all add: crm_ok_def ends_move_stage ends_update_work_item ends_close_work_item
      ends_reopen_work_item)

lemma item_after_move:
  assumes "ids_ok a" "w \<in> set (sp_items a)" "w' \<in> set (sp_items (move_item i g a))" "pi_id w' = pi_id w"
  shows "w' = (if pi_id w = i then w\<lparr>pi_stage_id := g\<rparr> else w)"
proof -
  obtain y where y: "y \<in> set (sp_items a)" "w' = (if pi_id y = i then y\<lparr>pi_stage_id := g\<rparr> else y)"
    using assms(3) by (auto simp: move_item_def row_update_def)
  then have "pi_id y = pi_id w" using assms(4) by (auto split: if_splits)
  then have "y = w" using item_unique[OF assms(1) y(1) assms(2)] by simp
  with y(2) show ?thesis by simp
qed

lemma same_items_same_stage:
  assumes "ids_ok a" "w \<in> set (sp_items a)" "w' \<in> set (sp_items a)" "pi_id w' = pi_id w"
  shows "w' = w"
  using item_unique[OF assms(1,2,3)] assms(4) by simp

lemma moved_item:
  assumes ok: "spec_ok a" and st: "spec_step a b"
    and w: "w \<in> set (sp_items a)" "w' \<in> set (sp_items b)" "pi_id w' = pi_id w" "pi_stage_id w' \<noteq> pi_stage_id w"
    and r: "r \<in> set (sp_runs a)" "run_active r" "pr_work_item_id r = pi_id w" "pr_tenant_id r = pi_tenant_id w"
  shows "\<exists>v h g. v \<in> set (sp_versions a) \<and> dv_id v = pr_definition_version_id r \<and> stage_at a w h \<and>
     g \<in> set (sp_stages a) \<and> sg_id g = pi_stage_id w' \<and> version_edge v (sg_code h) (sg_code g) \<and>
     b = sync_run (pr_id r) (sg_code g) (move_item (pi_id w) (sg_id g) a)"
proof -
  note ids = spec_okD(1)[OF ok]
  from st show ?thesis
  proof cases
    case (move_free x g)
    have m: "w' = (if pi_id w = pi_id x then w\<lparr>pi_stage_id := sg_id g\<rparr> else w)"
      using item_after_move[OF ids w(1) _ w(3)] w(2) move_free(1) by simp
    then have "pi_id w = pi_id x" using w(4) by (auto split: if_splits)
    then have xw: "x = w" using item_unique[OF ids w(1) move_free(2)] by simp
    then have "has_active_run a (pi_tenant_id x) (pi_id x)" using r by (auto simp: has_active_run_def)
    then obtain h where h: "stage_at a w h" "sg_code h = sg_code g" using move_free(5) xw by blast
    have "distinct (map (\<lambda>g. (sg_pipeline_id g, sg_code g)) (sp_stages a))"
      using spec_okD(2)[OF ok] by (simp add: stages_ok_def)
    then have "h = g"
      using h move_free(3,4) xw distinct_keys_eq[of "\<lambda>g. (sg_pipeline_id g, sg_code g)" "sp_stages a" h g]
      by (simp add: stage_at_def)
    then have False using h(1) w(4) m xw by (simp add: stage_at_def)
    then show ?thesis ..
  next
    case (move_guarded x g r' h v)
    have m: "w' = (if pi_id w = pi_id x then w\<lparr>pi_stage_id := sg_id g\<rparr> else w)"
      using item_after_move[OF ids w(1) _ w(3)] w(2) move_guarded(1) by (simp add: sync_run_def)
    then have "pi_id w = pi_id x" using w(4) by (auto split: if_splits)
    then have xw: "x = w" using item_unique[OF ids w(1) move_guarded(2)] by simp
    have "r' = r" using one_active_unique[OF spec_okD(6)[OF ok] move_guarded(5) r(1)] move_guarded r xw by simp
    moreover obtain h' where h': "stage_at a w h'" using spec_okD(3)[OF ok] w(1) by (auto simp: items_ok_def)
    moreover have "h = h'"
      using keys_ok_eq[OF ids_okD(2)[OF ids] move_guarded(8), of h'] h' move_guarded(9) xw
      by (simp add: stage_at_def)
    ultimately show ?thesis using move_guarded m xw by auto
  next
    case (add_item x g)
    then have "w' = w" using w ids same_items_same_stage[OF ids w(1) _ w(3)] keys_ok_def
      by (fastforce simp: ids_ok_def keys_ok_def)
    with w(4) show ?thesis by simp
  next
    case (remove_item i)
    then have "w' = w" using w same_items_same_stage[OF ids w(1) _ w(3)] by simp
    with w(4) show ?thesis by simp
  qed (use w same_items_same_stage[OF ids w(1) _ w(3)] in \<open>auto simp: end_run_def\<close>)
qed


end
