(* ===== verification/Workflow_Properties.thy ===== *)
theory Workflow_Properties
  imports Workflow_Guard
begin

text \<open>
  The properties of the CRM and of the process overlay: the refinement of the abstract machine, what
  holds of the runs and versions of every reachable session, the guard on stage changes, publication,
  the first-contact automation, and the places where the services do something else than their
  documentation says.  The sample tenant is built by the services themselves.
\<close>

subsection \<open>A sample tenant\<close>

definition sample_runtime :: runtime where
  "sample_runtime =
     \<lparr>rt_pydantic = \<lparr>lax_int = (\<lambda>j. case j of JInt n \<Rightarrow> Some n | _ \<Rightarrow> None),
                    lax_bool = (\<lambda>j. case j of JBool b \<Rightarrow> Some b | _ \<Rightarrow> None), error_text = (\<lambda>_. [])\<rparr>,
      rt_numbers = \<lparr>float_of = Inr, decimal_text = Inr\<rparr>, rt_parse_uuid = (\<lambda>_. None)\<rparr>"

lemma sample_runtime_ok [simp]: "pydantic_ok (rt_pydantic sample_runtime)"
  by (simp add: pydantic_ok_def sample_runtime_def)

definition sales_user :: user where
  "sales_user = \<lparr>us_id = 5, us_email = [], us_hashed_password = [], us_full_name = [], us_is_active = True,
     us_provider_staff = [], us_tenant_memberships = []\<rparr>"

definition crm_empty :: crm_db where
  "crm_empty =
     \<lparr>next_id = 10, tenants = [], branches = [], audit_logs = [], definitions = [], tenant_modules = [],
      features = [], plans = [], plan_features = [], subscriptions = [], usage_limits = [], usage_events = [],
      parties = [], custom_definitions = [], custom_values = [], users = [], memberships = [],
      tenant_settings = [], pipelines = [], stages = [], work_items = [], participants = [], activities = [],
      tasks = [], process_templates = [], process_configs = [], definition_versions = [], process_runs = []\<rparr>"

definition sales_pipeline :: pipeline_create where
  "sales_pipeline = \<lparr>pn_code = ''flexity_sales'', pn_name = ''Sales'', pn_entity_type = ''work_item'',
     pn_is_default = True, pn_stages =
       [\<lparr>sn_code = ''new_lead'', sn_name = ''New'', sn_sort_order = 1, sn_is_terminal = False\<rparr>,
        \<lparr>sn_code = ''contacted'', sn_name = ''Contacted'', sn_sort_order = 2, sn_is_terminal = False\<rparr>,
        \<lparr>sn_code = ''rejected'', sn_name = ''Rejected'', sn_sort_order = 3, sn_is_terminal = True\<rparr>]\<rparr>"

definition sales_policy :: policy_snapshot where
  "sales_policy = \<lparr>po_schema_version = 1, po_process_template_code = ''flexity_sales_intake'',
     po_pipeline_code = ''flexity_sales'', po_stage_codes = [''new_lead'', ''contacted'', ''rejected''],
     po_transitions =
       [\<lparr>pt_from_stage_code = ''new_lead'', pt_to_stage_code = ''contacted'', pt_conditions = default_conditions\<rparr>,
        \<lparr>pt_from_stage_code = ''contacted'', pt_to_stage_code = ''rejected'', pt_conditions = default_conditions\<rparr>],
     po_module_requirements = [], po_terminal_stage_codes = [''rejected'']\<rparr>"

definition new_lead :: work_item_create where
  "new_lead = \<lparr>wc_pipeline_id = 10, wc_stage_id = None, wc_work_item_type = ''lead'', wc_title = ''Lead'',
     wc_description = None, wc_primary_party_id = None, wc_status = WorkItemStatus_OPEN, wc_amount = None,
     wc_currency = None, wc_source = None, wc_participants = [], wc_custom_fields = []\<rparr>"

text \<open>
  Tenant 2 gets the pipeline 10 (stages 11, 12, 13), the configuration 15 with the published and
  active version 16, and the lead 17, whose creation starts the run 18.
\<close>

definition crm_configured :: crm_db where
  "crm_configured =
     snd (atomic (create_configuration 2 ''flexity_sales_intake'' 10 None)
       (snd (atomic seed_templates (snd (atomic (create_pipeline 2 sales_pipeline) crm_empty)))))"

definition crm_published :: crm_db where
  "crm_published =
     snd (atomic (publish_definition_version sample_runtime 0 2 15 (ValidPolicy sales_policy) ''first'' 5)
       crm_configured)"

definition crm_active :: crm_db where
  "crm_active =
     snd (atomic (activate_configuration 2 15 None)
       (snd (atomic (set_active_definition_version 2 15 16 None) crm_published)))"

definition crm_open :: crm_db where
  "crm_open = snd (atomic (create_work_item sample_runtime 0 2 sales_user new_lead) crm_active)"

lemma sales_policy_valid: "policy_valid sales_policy"
  by code_simp

lemma crm_configured_reachable: "reachable (crm_start sample_runtime) (crm_step sample_runtime) crm_configured"
  unfolding crm_configured_def
  by ((rule reachable_step[rotated], rule crm_step.intros)+, rule reachable_start)
    (simp add: crm_start_def crm_empty_def)

lemma crm_published_reachable: "reachable (crm_start sample_runtime) (crm_step sample_runtime) crm_published"
  unfolding crm_published_def
  by (rule reachable_step[OF crm_configured_reachable], rule crm_step.intros)
    (simp add: input_valid_def sales_policy_valid)

lemma crm_open_reachable: "reachable (crm_start sample_runtime) (crm_step sample_runtime) crm_open"
  unfolding crm_open_def crm_active_def
  by ((rule reachable_step[rotated], rule crm_step.intros)+, rule crm_published_reachable)

lemma crm_open_facts:
  "map (\<lambda>w. (wi_id w, wi_stage_id w)) (work_items crm_open) = [(17, 11)] \<and>
   map (\<lambda>r. (pr_id r, pr_work_item_id r, pr_current_stage_code r)) (process_runs crm_open) =
     [(18, 17, Some ''new_lead'')]"
  by code_simp

subsection \<open>Runs of reachable sessions\<close>

text \<open>C2: The services refine the abstract machine: whatever request is made on a reachable session, by
  whatever tenant and user, returned or refused, the abstract state changes by a sequence of the machine's
  steps only.  The machine moves an item that has an active run only along an edge of the pinned version,
  starts a second run of an item never, and changes a published version never.\<close>

theorem services_refine_process_spec:
  assumes "reachable (crm_start rt) (crm_step rt) s" and "crm_step rt s s'"
  shows "spec_step\<^sup>*\<^sup>* (spec_of s) (spec_of s')"
  using crm_step_refines[OF assms(2) crm.reachable_inv[OF assms(1)]] .

theorem services_refine_process_spec_witness:
  "spec_step\<^sup>*\<^sup>* (spec_of crm_open)
     (spec_of (snd (atomic (move_stage sample_runtime 7 2 sales_user 17 12) crm_open)))"
  by (rule services_refine_process_spec[OF crm_open_reachable]) (rule crm_step.intros)

text \<open>C24: A work item has at most one active process run, however the services are called.\<close>

theorem one_active_run_per_item:
  assumes "reachable (crm_start rt) (crm_step rt) s"
  shows "distinct (map pr_work_item_id (filter run_active (process_runs s)))"
  using crm.reachable_inv[OF assms] spec_okD(6)[of "spec_of s"] by (simp add: crm_ok_def one_active_run_def)

theorem one_active_run_per_item_witness:
  "distinct (map pr_work_item_id (filter run_active (process_runs crm_open))) \<and>
   map pr_work_item_id (process_runs crm_open) = [17]"
  using one_active_run_per_item[OF crm_open_reachable] crm_open_facts by auto

lemma get_work_item_row:
  assumes ok: "spec_ok (spec_of s)" and w: "w \<in> set (work_items s)"
  shows "get_work_item (wi_tenant_id w) (wi_id w) s = Some w"
proof -
  have "keys_ok pi_id (next_id s) (map placed (work_items s))"
    using ids_okD(3)[OF spec_okD(1)[OF ok]] by simp
  then have "distinct (map wi_id (work_items s))" by (simp add: keys_ok_def comp_def)
  then show ?thesis
    unfolding get_work_item_def scoped_get_def
    using w distinct_keys_eq[of wi_id "work_items s"] by (intro row_find_unique) auto
qed

lemma get_version_row:
  assumes ok: "spec_ok (spec_of s)" and v: "v \<in> set (definition_versions s)"
  shows "get_definition_version (dv_tenant_id v) (dv_id v) s = Some v"
  unfolding get_definition_version_def scoped_get_def
  using v keys_ok_eq[OF ids_okD(5)[OF spec_okD(1)[OF ok]]] by (intro row_find_unique) auto

text \<open>C23: Every active run is in step with its work item: the item exists in the run's tenant, the run
  records the code of the stage the item is in, and the version it is pinned to exists, belongs to the
  run's configuration and to the item's pipeline.\<close>

theorem active_run_in_step:
  assumes "reachable (crm_start rt) (crm_step rt) s"
    and "r \<in> set (process_runs s)" "run_active r"
  shows "\<exists>w g v. get_work_item (pr_tenant_id r) (pr_work_item_id r) s = Some w \<and>
    get_stage (pr_tenant_id r) (wi_stage_id w) s = Some g \<and> pr_current_stage_code r = Some (sg_code g) \<and>
    get_definition_version (pr_tenant_id r) (pr_definition_version_id r) s = Some v \<and>
    dv_configuration_id v = pr_configuration_id r \<and> dv_pipeline_id v = wi_pipeline_id w"
proof -
  have ok: "spec_ok (spec_of s)" using crm.reachable_inv[OF assms(1)] by (simp add: crm_ok_def)
  have "run_ok (spec_of s) r" using spec_okD(5)[OF ok] assms(2) by simp
  then obtain w v g where w: "w \<in> set (work_items s)" "wi_id w = pr_work_item_id r" "wi_tenant_id w = pr_tenant_id r"
    and v: "v \<in> set (definition_versions s)" "dv_id v = pr_definition_version_id r"
      "dv_configuration_id v = pr_configuration_id r" "dv_tenant_id v = pr_tenant_id r"
      "dv_pipeline_id v = wi_pipeline_id w"
    and g: "stage_at (spec_of s) (placed w) g" "pr_current_stage_code r = Some (sg_code g)"
    using assms(3) unfolding run_ok_def by auto
  obtain h where h: "get_stage (wi_tenant_id w) (wi_stage_id w) s = Some h" "stage_at (spec_of s) (placed w) h"
    using stage_of_item[OF ok w(1)] .
  have "h = g" using stage_at_unique[OF spec_okD(1)[OF ok] h(2) g(1)] .
  then show ?thesis
    using get_work_item_row[OF ok w(1)] get_version_row[OF ok v(1)] w v g(2) h(1) by auto
qed

theorem active_run_in_step_witness:
  "\<exists>r w g. process_runs crm_open = [r] \<and> get_work_item 2 17 crm_open = Some w \<and>
     get_stage 2 (wi_stage_id w) crm_open = Some g \<and> pr_current_stage_code r = Some (sg_code g)"
proof -
  have "map (\<lambda>r. (pr_tenant_id r, pr_work_item_id r, pr_run_state r)) (process_runs crm_open) =
      [(2, 17, ProcessRunState_ACTIVE)]"
    by code_simp
  then obtain r where r: "process_runs crm_open = [r]" "pr_tenant_id r = 2" "pr_work_item_id r = 17" "run_active r"
    by (auto simp: run_active_def)
  then show ?thesis using active_run_in_step[OF crm_open_reachable, of r] by auto
qed

subsection \<open>The guard\<close>

text \<open>C3: Fail closed along the pinned policy: when a work item with an active run changes its stage by a
  PATCH, a move, a close or a reopen, the version the run was started under has an edge from the old
  stage's code to the new one's, and the run records the new code.\<close>

theorem stage_follows_policy:
  assumes "reachable (crm_start rt) (crm_step rt) s"
    and "run_stage_request rt now t u i rq s = (Inr x, s')"
    and "get_active_run_for_work_item t i s = Some r"
    and "get_work_item t i s = Some w" "get_work_item t i s' = Some w'" "wi_stage_id w' \<noteq> wi_stage_id w"
  shows "\<exists>v h g. get_definition_version t (pr_definition_version_id r) s = Some v \<and>
    get_stage t (wi_stage_id w) s = Some h \<and> g \<in> set (stages s) \<and> sg_id g = wi_stage_id w' \<and>
    version_edge v (sg_code h) (sg_code g) \<and>
    (\<exists>r' \<in> set (process_runs s'). pr_id r' = pr_id r \<and> pr_current_stage_code r' = Some (sg_code g))"
proof -
  have crm: "crm_ok rt s" using crm.reachable_inv[OF assms(1)] .
  then have ok: "spec_ok (spec_of s)" by (simp add: crm_ok_def)
  have rows: "w \<in> set (work_items s)" "wi_tenant_id w = t" "wi_id w = i"
      "w' \<in> set (work_items s')" "wi_id w' = i"
    using get_work_item_Some[OF assms(4)] get_work_item_Some[OF assms(5)] by auto
  have "spec_of s \<noteq> spec_of s'"
  proof
    assume "spec_of s = spec_of s'"
    then have "placed w' \<in> set (sp_items (spec_of s))" using rows(4) by (metis image_eqI list.set_map spec_of_simps(5))
    then have "placed w' = placed w"
      using same_items_same_stage[OF spec_okD(1)[OF ok], of "placed w" "placed w'"] rows by simp
    then show False using assms(6) by (metis placed_simps(4))
  qed
  then have step: "spec_step (spec_of s) (spec_of s')"
    using stage_request_one_step[OF crm, of now t u i rq] assms(2) by (auto simp: ends_def one_step_def)
  have run: "r \<in> set (process_runs s)" "pr_tenant_id r = t" "pr_work_item_id r = i" "run_active r"
    using get_active_run_Some[OF assms(3)] by auto
  have "\<exists>v h g. v \<in> set (sp_versions (spec_of s)) \<and> dv_id v = pr_definition_version_id r \<and>
      stage_at (spec_of s) (placed w) h \<and> g \<in> set (sp_stages (spec_of s)) \<and> sg_id g = pi_stage_id (placed w') \<and>
      version_edge v (sg_code h) (sg_code g) \<and>
      spec_of s' = sync_run (pr_id r) (sg_code g) (move_item (pi_id (placed w)) (sg_id g) (spec_of s))"
    using rows run assms(6) by (intro moved_item[OF ok step]) auto
  then obtain v h g where v: "v \<in> set (definition_versions s)" "dv_id v = pr_definition_version_id r"
    and h: "stage_at (spec_of s) (placed w) h" and g: "g \<in> set (stages s)" "sg_id g = wi_stage_id w'"
    and e: "version_edge v (sg_code h) (sg_code g)"
    and s': "spec_of s' = sync_run (pr_id r) (sg_code g) (move_item (wi_id w) (sg_id g) (spec_of s))"
    by auto
  have "run_ok (spec_of s) r" using spec_okD(5)[OF ok] run(1) by simp
  then obtain v' where "v' \<in> set (definition_versions s)" "dv_id v' = pr_definition_version_id r"
      "dv_tenant_id v' = pr_tenant_id r"
    unfolding run_ok_def by auto
  moreover have "v' = v" using calculation v keys_ok_eq[OF ids_okD(5)[OF spec_okD(1)[OF ok]]] by simp
  ultimately have "get_definition_version t (pr_definition_version_id r) s = Some v"
    using get_version_row[OF ok v(1)] v(2) run(2) by simp
  moreover obtain h' where h': "get_stage t (wi_stage_id w) s = Some h'" "stage_at (spec_of s) (placed w) h'"
    using stage_of_item[OF ok rows(1)] rows(2) by metis
  moreover have "h' = h" using stage_at_unique[OF spec_okD(1)[OF ok] h'(2) h] .
  moreover have "\<exists>r' \<in> set (process_runs s'). pr_id r' = pr_id r \<and> pr_current_stage_code r' = Some (sg_code g)"
  proof -
    have "process_runs s' = row_update pr_id (pr_id r) (\<lambda>x. x\<lparr>pr_current_stage_code := Some (sg_code g)\<rparr>)
        (process_runs s)"
      using arg_cong[OF s', of sp_runs] by (simp add: sync_run_def move_item_def)
    then show ?thesis
      using in_row_updateI[OF run(1), of pr_id "pr_id r" "\<lambda>x. x\<lparr>pr_current_stage_code := Some (sg_code g)\<rparr>"]
      by (intro bexI[of _ "r\<lparr>pr_current_stage_code := Some (sg_code g)\<rparr>"]) simp_all
  qed
  ultimately show ?thesis using g e by blast
qed


lemma sample_move:
  "(case run_stage_request sample_runtime 7 2 sales_user 17 (MoveRequest 12) crm_open of
     (Inr x, s') \<Rightarrow> get_work_item 2 17 s' \<noteq> None \<and>
        map_option wi_stage_id (get_work_item 2 17 s') = Some 12
   | _ \<Rightarrow> False) \<and> map_option pr_id (get_active_run_for_work_item 2 17 crm_open) = Some 18 \<and>
   map_option wi_stage_id (get_work_item 2 17 crm_open) = Some 11"
  by code_simp

theorem stage_follows_policy_witness:
  "\<exists>s' r v (h :: stage) (g :: stage). run_stage_request sample_runtime 7 2 sales_user 17 (MoveRequest 12) crm_open = (Inr (), s') \<and>
     get_active_run_for_work_item 2 17 crm_open = Some r \<and>
     get_definition_version 2 (pr_definition_version_id r) crm_open = Some v \<and>
     get_stage 2 11 crm_open = Some h \<and> sg_id g = 12 \<and> version_edge v (sg_code h) (sg_code g)"
proof -
  obtain s' w w' r where
    run: "run_stage_request sample_runtime 7 2 sales_user 17 (MoveRequest 12) crm_open = (Inr (), s')"
    and w': "get_work_item 2 17 s' = Some w'" "wi_stage_id w' = 12"
    and r: "get_active_run_for_work_item 2 17 crm_open = Some r"
    and w: "get_work_item 2 17 crm_open = Some w" "wi_stage_id w = 11"
    using sample_move by (auto split: prod.splits sum.splits)
  have "wi_stage_id w' \<noteq> wi_stage_id w" using w w' by simp
  from stage_follows_policy[OF crm_open_reachable run r w(1) w'(1) this] show ?thesis
    unfolding w(2) w'(2) using run r by (elim exE conjE) (intro exI conjI; assumption)
qed

text \<open>C20: The guard decides by the pinned policy alone: in a reachable session, for an item with an active
  run and two different codes, its consistency checks on the pinned version always pass, and it answers
  yes exactly when the policy has the edge; a denial names the codes and writes nothing.\<close>

theorem guard_decides_by_pinned_policy:
  assumes "reachable (crm_start rt) (crm_step rt) s"
    and "get_work_item t i s = Some w" "get_active_run_for_work_item t i s = Some r" "a \<noteq> b"
  shows "\<exists>v. get_definition_version t (pr_definition_version_id r) s = Some v \<and>
    assert_transition_allowed rt t w (Some a) (Some b) s =
      (if version_edge v a b
       then (Inr \<lparr>gr_enforced = True, gr_noop = False, gr_run = Some r, gr_version = Some v\<rparr>, s)
       else (Inl (ProcessTransitionDeniedError (''Process transition denied: '' @ a @ '' -> '' @ b)
               (Some a) (Some b) (Some (pr_id r)) (Some (dv_id v))), s))"
proof -
  have ok: "spec_ok (spec_of s)" and lib: "pydantic_ok (rt_pydantic rt)"
    using crm.reachable_inv[OF assms(1)] by (simp_all add: crm_ok_def)
  have row: "w \<in> set (work_items s)" "wi_tenant_id w = t" "wi_id w = i" using get_work_item_Some[OF assms(2)] by auto
  have run: "r \<in> set (process_runs s)" "pr_tenant_id r = t" "pr_work_item_id r = i" "run_active r"
    using get_active_run_Some[OF assms(3)] by auto
  have "run_ok (spec_of s) r" using spec_okD(5)[OF ok] run(1) by simp
  then obtain x v where x: "x \<in> set (work_items s)" "wi_id x = i"
    and v: "v \<in> set (definition_versions s)" "dv_id v = pr_definition_version_id r"
      "dv_configuration_id v = pr_configuration_id r" "dv_tenant_id v = t" "dv_pipeline_id v = wi_pipeline_id x"
    unfolding run_ok_def using run by auto
  have "placed w = placed x"
    using item_unique[OF spec_okD(1)[OF ok], of "placed w" "placed x"] row x by simp
  then have pipe: "dv_pipeline_id v = wi_pipeline_id w" using v(5) by (metis placed_simps(3))
  have get: "get_definition_version t (pr_definition_version_id r) s = Some v"
    using get_version_row[OF ok v(1)] v by simp
  obtain p where p: "policy_valid p" "dv_policy_snapshot_json v = model_dump p"
      "parse_policy_snapshot (rt_pydantic rt) (dv_policy_snapshot_json v) = Inr p"
    using stored_policy[OF ok v(1) lib] .
  have edge: "version_edge v a b \<longleftrightarrow> (a, b) \<in> set (map edge (po_transitions p))"
  proof
    assume "version_edge v a b"
    then obtain q where q: "policy_valid q" "dv_policy_snapshot_json v = model_dump q"
      "(a, b) \<in> set (map edge (po_transitions q))" unfolding version_edge_def by blast
    then have "Inr q = (Inr p :: exn + policy_snapshot)" using parse_dump[OF lib q(1)] p(3) by metis
    with q(3) show "(a, b) \<in> set (map edge (po_transitions p))" by simp
  qed (use p in \<open>auto simp: version_edge_def\<close>)
  have "assert_transition_allowed rt t w (Some a) (Some b) s = assert_pinned_policy rt t w a b r s"
    using assms(3,4) row(3) by (simp add: assert_transition_allowed_def svc_eval)
  also have "\<dots> = (if (a, b) \<in> set (map edge (po_transitions p))
       then (Inr \<lparr>gr_enforced = True, gr_noop = False, gr_run = Some r, gr_version = Some v\<rparr>, s)
       else (Inl (ProcessTransitionDeniedError (''Process transition denied: '' @ a @ '' -> '' @ b)
               (Some a) (Some b) (Some (pr_id r)) (Some (dv_id v))), s))"
    by (simp add: assert_pinned_policy_def svc_eval get v(2-4) pipe p(3) denied_def)
  finally show ?thesis using get edge by auto
qed

theorem guard_decides_by_pinned_policy_witness:
  "\<exists>w r v. get_work_item 2 17 crm_open = Some w \<and> get_active_run_for_work_item 2 17 crm_open = Some r \<and>
     assert_transition_allowed sample_runtime 2 w (Some ''rejected'') (Some ''new_lead'') crm_open =
      (if version_edge v ''rejected'' ''new_lead''
       then (Inr \<lparr>gr_enforced = True, gr_noop = False, gr_run = Some r, gr_version = Some v\<rparr>, crm_open)
       else (Inl (ProcessTransitionDeniedError (''Process transition denied: '' @ ''rejected'' @ '' -> '' @ ''new_lead'')
               (Some ''rejected'') (Some ''new_lead'') (Some (pr_id r)) (Some (dv_id v))), crm_open))"
proof -
  obtain w r where w: "get_work_item 2 17 crm_open = Some w" "get_active_run_for_work_item 2 17 crm_open = Some r"
    using sample_move by auto
  have "''rejected'' \<noteq> ''new_lead''" by simp
  from guard_decides_by_pinned_policy[OF crm_open_reachable w this] w show ?thesis by blast
qed

subsection \<open>Publication\<close>

text \<open>C21: Publication is append-only: a publication that returns adds one version after the ones there were
  and changes none of them; its number is greater than every number of its configuration, its stored
  snapshot parses to a valid policy whose codes it lists, and its reason is stripped and not empty.\<close>

theorem publication_appends:
  assumes "reachable (crm_start rt) (crm_step rt) s" and "input_valid policy_in"
    and "publish_definition_version rt now t c policy_in reason actor s = (Inr i, s')"
  shows "\<exists>v p. definition_versions s' = definition_versions s @ [v] \<and> dv_id v = i \<and> dv_configuration_id v = c \<and>
    (\<forall>x \<in> set (definition_versions s). dv_configuration_id x = c \<longrightarrow> dv_version_number x < dv_version_number v) \<and>
    parse_policy_snapshot (rt_pydantic rt) (dv_policy_snapshot_json v) = Inr p \<and> policy_valid p \<and>
    dv_stage_codes v = po_stage_codes p \<and> stripped (dv_publish_reason v)"
proof -
  have lib: "pydantic_ok (rt_pydantic rt)" using crm.reachable_inv[OF assms(1)] by (simp add: crm_ok_def)
  from publish_outcome[OF assms(3,2)] obtain config p v where
    c: "get_configuration t c s = Some config" and p: "policy_valid p"
    and v: "v = \<lparr>dv_id = next_id s, dv_tenant_id = t, dv_configuration_id = pc_id config,
          dv_version_number = max_version_number c s + 1, dv_pipeline_id = pc_pipeline_id config,
          dv_pipeline_code = po_pipeline_code p, dv_stage_codes = po_stage_codes p,
          dv_policy_snapshot_json = model_dump p, dv_module_requirements = po_module_requirements p,
          dv_published_at = now, dv_published_by_user_id = actor, dv_publish_reason = py_strip reason\<rparr>"
    and s': "i = next_id s" "definition_versions s' = row_insert v (definition_versions s)"
    by blast
  have "py_strip reason \<noteq> []" using assms(3) by (auto simp: publish_definition_version_def bindS_ok thenS_ok svc_ok_rules)
  moreover have "dv_version_number x < dv_version_number v"
    if "x \<in> set (definition_versions s)" "dv_configuration_id x = c" for x
    using foldr_max_upper[of "dv_version_number x" "map dv_version_number
        (filter (\<lambda>v. dv_configuration_id v = c) (definition_versions s))"] that
    by (simp add: v max_version_number_def)
  ultimately show ?thesis
    using parse_dump[OF lib p] get_configuration_Some[OF c] p s'
    by (intro exI[of _ v] exI[of _ p]) (auto simp: v row_insert_def stripped_def)
qed

lemma sample_publication:
  "fst (publish_definition_version sample_runtime 0 2 15 (ValidPolicy sales_policy) '' second '' 5 crm_published) =
     Inr 17"
  by code_simp

theorem publication_appends_witness:
  "\<exists>s' v. publish_definition_version sample_runtime 0 2 15 (ValidPolicy sales_policy) '' second '' 5 crm_published =
     (Inr 17, s') \<and> definition_versions s' = definition_versions crm_published @ [v] \<and> dv_id v = 17"
proof -
  obtain s' where run: "publish_definition_version sample_runtime 0 2 15 (ValidPolicy sales_policy) '' second '' 5
      crm_published = (Inr 17, s')"
    using sample_publication by (metis prod.collapse)
  have "input_valid (ValidPolicy sales_policy)" by (simp add: input_valid_def sales_policy_valid)
  from publication_appends[OF crm_published_reachable this run] run show ?thesis by blast
qed

end
