(* ===== verification/Ai.thy ===== *)
theory Ai
  imports Entitlements
begin

text \<open>
  \<^verbatim>\<open>ai/models.py\<close>, \<^verbatim>\<open>ai/repository.py\<close>, \<^verbatim>\<open>ai/schemas.py\<close>, \<^verbatim>\<open>ai/critical_actions.py\<close> and
  \<^verbatim>\<open>AIService\<close> of \<^verbatim>\<open>ai/service.py\<close>: agents, their tasks, the actions they propose, the decisions of
  users on the proposals, and the record of usage.  Instants are microseconds, so a proposal's seven days are
  \<open>7 * day_usec\<close>.
\<close>

subsection \<open>Rows\<close>

record ai_agent =
  ag_id :: uuid
  ag_tenant_id :: uuid
  ag_code :: string
  ag_name :: string
  ag_role_code :: string
  ag_description :: "string option"
  ag_system_prompt :: "string option"
  ag_config_json :: json
  ag_is_active :: bool
  ag_requires_approval_for_critical :: bool
  ag_updated_by_user_id :: uuid

record ai_task =
  at_id :: uuid
  at_tenant_id :: uuid
  at_agent_id :: uuid
  at_task_type :: string
  at_status :: AITaskStatus
  at_title :: string
  at_input_json :: json
  at_output_json :: json
  at_context_entity_type :: "string option"
  at_context_entity_id :: "uuid option"
  at_completed_at :: "instant option"
  at_updated_by_user_id :: uuid

record ai_proposal =
  ap_id :: uuid
  ap_tenant_id :: uuid
  ap_agent_id :: uuid
  ap_task_id :: "uuid option"
  ap_action_type :: AIActionType
  ap_status :: AIActionProposalStatus
  ap_title :: string
  ap_description :: "string option"
  ap_payload_json :: json
  ap_target_entity_type :: "string option"
  ap_target_entity_id :: "uuid option"
  ap_is_critical :: bool
  ap_expires_at :: "instant option"
  ap_executed_at :: "instant option"
  ap_execution_result_json :: json

record ai_approval =
  av_tenant_id :: uuid
  av_proposal_id :: uuid
  av_approver_user_id :: uuid
  av_decision :: AIApprovalDecision
  av_comment :: "string option"
  av_decided_at :: instant

record ai_usage_event =
  ae_tenant_id :: uuid
  ae_agent_id :: "uuid option"
  ae_task_id :: "uuid option"
  ae_proposal_id :: "uuid option"
  ae_event_type :: string
  ae_tokens_used :: int
  ae_cost_units :: int
  ae_metadata_json :: json

record ai_db = billing_db +
  agents :: "ai_agent list"
  ai_tasks :: "ai_task list"
  proposals :: "ai_proposal list"
  approvals :: "ai_approval list"
  ai_usage_events :: "ai_usage_event list"

definition CRITICAL_ACTION_TYPES :: "AIActionType list" where
  "CRITICAL_ACTION_TYPES =
     [AIActionType_SEND_DOCUMENT, AIActionType_CREATE_INVOICE, AIActionType_UPDATE_PAYMENT,
      AIActionType_DELETE_DATA, AIActionType_SEND_MESSAGE, AIActionType_CHANGE_WORK_ITEM_STATUS,
      AIActionType_UPDATE_LEGAL_PROFILE]"

definition is_critical_action :: "AIActionType \<Rightarrow> bool" where
  "is_critical_action a = (a \<in> set CRITICAL_ACTION_TYPES)"

subsection \<open>Repository\<close>

definition list_agents :: "uuid \<Rightarrow> bool \<Rightarrow> 'z ai_db_scheme \<Rightarrow> ai_agent list" where
  "list_agents t active_only s =
     sort_key ag_name (filter (\<lambda>a. ag_tenant_id a = t \<and> (active_only \<longrightarrow> ag_is_active a)) (agents s))"

definition get_agent :: "uuid \<Rightarrow> uuid \<Rightarrow> 'z ai_db_scheme \<Rightarrow> ai_agent option" where
  "get_agent t i s = scoped_get ag_tenant_id ag_id t i (agents s)"

definition get_agent_by_code :: "uuid \<Rightarrow> string \<Rightarrow> 'z ai_db_scheme \<Rightarrow> ai_agent option" where
  "get_agent_by_code t code s = row_find (\<lambda>a. ag_tenant_id a = t \<and> ag_code a = code) (agents s)"

definition insert_agent :: "ai_agent \<Rightarrow> ('z ai_db_scheme, unit) svc" where
  "insert_agent a =
     bindS (gets (get_agent_by_code (ag_tenant_id a) (ag_code a))) (\<lambda>existing.
     thenS (ensure (existing = None) (IntegrityError ''uq_ai_agent_tenant_code''))
     (modify (\<lambda>s. s\<lparr>agents := row_insert a (agents s)\<rparr>)))"

definition list_tasks ::
    "uuid \<Rightarrow> uuid option \<Rightarrow> AITaskStatus option \<Rightarrow> nat \<Rightarrow> 'z ai_db_scheme \<Rightarrow> ai_task list" where
  "list_tasks t agent status limit s =
     take limit (rev (filter (\<lambda>k. at_tenant_id k = t \<and> (agent \<noteq> None \<longrightarrow> agent = Some (at_agent_id k)) \<and>
       (status \<noteq> None \<longrightarrow> status = Some (at_status k))) (ai_tasks s)))"

definition get_task :: "uuid \<Rightarrow> uuid \<Rightarrow> 'z ai_db_scheme \<Rightarrow> ai_task option" where
  "get_task t i s = scoped_get at_tenant_id at_id t i (ai_tasks s)"

definition insert_task_row :: "ai_task \<Rightarrow> ('z ai_db_scheme, unit) svc" where
  "insert_task_row k = modify (\<lambda>s. s\<lparr>ai_tasks := row_insert k (ai_tasks s)\<rparr>)"

definition list_proposals ::
    "uuid \<Rightarrow> AIActionProposalStatus option \<Rightarrow> uuid option \<Rightarrow> nat \<Rightarrow> 'z ai_db_scheme \<Rightarrow> ai_proposal list" where
  "list_proposals t status agent limit s =
     take limit (rev (filter (\<lambda>p. ap_tenant_id p = t \<and> (status \<noteq> None \<longrightarrow> status = Some (ap_status p)) \<and>
       (agent \<noteq> None \<longrightarrow> agent = Some (ap_agent_id p))) (proposals s)))"

definition get_proposal :: "uuid \<Rightarrow> uuid \<Rightarrow> 'z ai_db_scheme \<Rightarrow> ai_proposal option" where
  "get_proposal t i s = scoped_get ap_tenant_id ap_id t i (proposals s)"

definition insert_proposal :: "ai_proposal \<Rightarrow> ('z ai_db_scheme, unit) svc" where
  "insert_proposal p = modify (\<lambda>s. s\<lparr>proposals := row_insert p (proposals s)\<rparr>)"

definition create_approval :: "ai_approval \<Rightarrow> ('z ai_db_scheme, unit) svc" where
  "create_approval a = modify (\<lambda>s. s\<lparr>approvals := row_insert a (approvals s)\<rparr>)"

definition list_usage_events :: "uuid \<Rightarrow> uuid option \<Rightarrow> nat \<Rightarrow> 'z ai_db_scheme \<Rightarrow> ai_usage_event list" where
  "list_usage_events t agent limit s =
     take limit (rev (filter (\<lambda>e. ae_tenant_id e = t \<and> (agent \<noteq> None \<longrightarrow> ae_agent_id e = agent))
       (ai_usage_events s)))"

definition sum_ai_usage :: "uuid \<Rightarrow> 'z ai_db_scheme \<Rightarrow> int \<times> int" where
  "sum_ai_usage t s =
     (let es = filter (\<lambda>e. ae_tenant_id e = t) (ai_usage_events s) in
      (sum_list (map ae_tokens_used es), sum_list (map ae_cost_units es)))"

definition write_agent :: "uuid \<Rightarrow> (ai_agent \<Rightarrow> ai_agent) \<Rightarrow> ('z ai_db_scheme, unit) svc" where
  "write_agent i f = modify (\<lambda>s. s\<lparr>agents := row_update ag_id i f (agents s)\<rparr>)"

definition write_task :: "uuid \<Rightarrow> (ai_task \<Rightarrow> ai_task) \<Rightarrow> ('z ai_db_scheme, unit) svc" where
  "write_task i f = modify (\<lambda>s. s\<lparr>ai_tasks := row_update at_id i f (ai_tasks s)\<rparr>)"

definition write_proposal :: "uuid \<Rightarrow> (ai_proposal \<Rightarrow> ai_proposal) \<Rightarrow> ('z ai_db_scheme, unit) svc" where
  "write_proposal i f = modify (\<lambda>s. s\<lparr>proposals := row_update ap_id i f (proposals s)\<rparr>)"

definition get_agent_or_404 :: "uuid \<Rightarrow> uuid \<Rightarrow> ('z ai_db_scheme, ai_agent) svc" where
  "get_agent_or_404 t i =
     bindS (gets (get_agent t i)) (\<lambda>x. or_raise x (NotFoundError ''AI agent not found''))"

definition get_task_or_404 :: "uuid \<Rightarrow> uuid \<Rightarrow> ('z ai_db_scheme, ai_task) svc" where
  "get_task_or_404 t i =
     bindS (gets (get_task t i)) (\<lambda>x. or_raise x (NotFoundError ''AI task not found''))"

definition get_proposal_or_404 :: "uuid \<Rightarrow> uuid \<Rightarrow> ('z ai_db_scheme, ai_proposal) svc" where
  "get_proposal_or_404 t i =
     bindS (gets (get_proposal t i)) (\<lambda>x. or_raise x (NotFoundError ''AI action proposal not found''))"

definition record_ai_usage ::
    "uuid \<Rightarrow> uuid option \<Rightarrow> uuid option \<Rightarrow> uuid option \<Rightarrow> string \<Rightarrow> int \<Rightarrow> json \<Rightarrow> ('z ai_db_scheme, unit) svc" where
  "record_ai_usage t agent task proposal event tokens meta =
     modify (\<lambda>s. s\<lparr>ai_usage_events := row_insert
       \<lparr>ae_tenant_id = t, ae_agent_id = agent, ae_task_id = task, ae_proposal_id = proposal,
        ae_event_type = event, ae_tokens_used = tokens, ae_cost_units = 0, ae_metadata_json = meta\<rparr>
       (ai_usage_events s)\<rparr>)"

subsection \<open>Agents\<close>

record ai_agent_create =
  ga_code :: string
  ga_name :: string
  ga_role_code :: string
  ga_description :: "string option"
  ga_system_prompt :: "string option"
  ga_config_json :: json
  ga_is_active :: bool
  ga_requires_approval_for_critical :: bool

record ai_agent_update =
  gu_name :: "string patch"
  gu_role_code :: "string patch"
  gu_description :: "string patch"
  gu_system_prompt :: "string patch"
  gu_config_json :: "json patch"
  gu_is_active :: "bool patch"
  gu_requires_approval_for_critical :: "bool patch"

definition new_agent :: "uuid \<Rightarrow> uuid \<Rightarrow> user \<Rightarrow> ai_agent_create \<Rightarrow> ai_agent" where
  "new_agent i t u payload =
     \<lparr>ag_id = i, ag_tenant_id = t, ag_code = ga_code payload, ag_name = ga_name payload,
      ag_role_code = ga_role_code payload, ag_description = ga_description payload,
      ag_system_prompt = ga_system_prompt payload, ag_config_json = ga_config_json payload,
      ag_is_active = ga_is_active payload,
      ag_requires_approval_for_critical = ga_requires_approval_for_critical payload,
      ag_updated_by_user_id = us_id u\<rparr>"

definition create_agent :: "uuid \<Rightarrow> user \<Rightarrow> ai_agent_create \<Rightarrow> ('z ai_db_scheme, ai_agent) svc" where
  "create_agent t u payload =
     bindS (gets (get_agent_by_code t (ga_code payload))) (\<lambda>existing.
     thenS (ensure (existing = None) (ConflictError ''AI agent code already exists''))
     (bindS fresh_id (\<lambda>i.
     thenS (insert_agent (new_agent i t u payload))
     (thenS (record_ai_usage t (Some i) None None ''agent.created'' 0 (JObj []))
     (ret (new_agent i t u payload))))))"

definition apply_agent_update :: "user \<Rightarrow> ai_agent_update \<Rightarrow> ai_agent \<Rightarrow> ai_agent" where
  "apply_agent_update u payload a =
     a\<lparr>ag_name := patched (gu_name payload) (ag_name a),
       ag_role_code := patched (gu_role_code payload) (ag_role_code a),
       ag_description := patched_option (gu_description payload) (ag_description a),
       ag_system_prompt := patched_option (gu_system_prompt payload) (ag_system_prompt a),
       ag_config_json := patched (gu_config_json payload) (ag_config_json a),
       ag_is_active := patched (gu_is_active payload) (ag_is_active a),
       ag_requires_approval_for_critical :=
         patched (gu_requires_approval_for_critical payload) (ag_requires_approval_for_critical a),
       ag_updated_by_user_id := us_id u\<rparr>"

text \<open>
  A null for a column that is not nullable fails at the flush; a null for the JSON column is stored as the
  JSON null.
\<close>

definition update_agent :: "uuid \<Rightarrow> user \<Rightarrow> uuid \<Rightarrow> ai_agent_update \<Rightarrow> ('z ai_db_scheme, ai_agent) svc" where
  "update_agent t u i payload =
     bindS (get_agent_or_404 t i) (\<lambda>a.
     thenS (ensure (\<not> is_null (gu_name payload) \<and> \<not> is_null (gu_role_code payload) \<and>
              \<not> is_null (gu_is_active payload) \<and> \<not> is_null (gu_requires_approval_for_critical payload))
       (IntegrityError ''NOT NULL constraint failed''))
     (bindS (ret (apply_agent_update u
               (if is_null (gu_config_json payload) then payload\<lparr>gu_config_json := SetTo JNull\<rparr> else payload) a)) (\<lambda>a'.
     thenS (write_agent i (\<lambda>_. a')) (ret a'))))"

text \<open>Entries of the configuration: \<open>None\<close> where the dict has no such key.\<close>

record agent_config =
  cf_code :: "string option"
  cf_name :: "string option"
  cf_role_code :: "string option"
  cf_description :: "string option"
  cf_system_prompt :: "string option"
  cf_config_json :: "json option"

definition import_agent :: "uuid \<Rightarrow> user \<Rightarrow> agent_config \<Rightarrow> ('z ai_db_scheme, nat) svc" where
  "import_agent t u item =
     bindS (or_raise (cf_code item) (PyKeyError ''code'')) (\<lambda>code.
     bindS (gets (get_agent_by_code t code)) (\<lambda>existing.
     if existing \<noteq> None then ret 0
     else
       bindS (or_raise (cf_name item) (PyKeyError ''name'')) (\<lambda>name.
       bindS fresh_id (\<lambda>i.
       thenS (insert_agent \<lparr>ag_id = i, ag_tenant_id = t, ag_code = code, ag_name = name,
          ag_role_code = (case cf_role_code item of None \<Rightarrow> code | Some r \<Rightarrow> r),
          ag_description = cf_description item, ag_system_prompt = cf_system_prompt item,
          ag_config_json = (case cf_config_json item of None \<Rightarrow> JObj [] | Some c \<Rightarrow> c),
          ag_is_active = True, ag_requires_approval_for_critical = True, ag_updated_by_user_id = us_id u\<rparr>)
       (ret 1)))))"

fun import_agents_from_config :: "uuid \<Rightarrow> user \<Rightarrow> agent_config list \<Rightarrow> ('z ai_db_scheme, nat) svc" where
  "import_agents_from_config t u [] = ret 0"
| "import_agents_from_config t u (item # items) =
     bindS (import_agent t u item) (\<lambda>n.
     bindS (import_agents_from_config t u items) (\<lambda>m. ret (n + m)))"

subsection \<open>Proposals\<close>

record ai_proposal_create =
  gp_agent_id :: uuid
  gp_task_id :: "uuid option"
  gp_action_type :: AIActionType
  gp_title :: string
  gp_description :: "string option"
  gp_payload_json :: json
  gp_target_entity_type :: "string option"
  gp_target_entity_id :: "uuid option"

definition new_proposal :: "instant \<Rightarrow> uuid \<Rightarrow> uuid \<Rightarrow> uuid \<Rightarrow> ai_proposal_create \<Rightarrow> ai_proposal" where
  "new_proposal now i t agent payload =
     \<lparr>ap_id = i, ap_tenant_id = t, ap_agent_id = agent, ap_task_id = gp_task_id payload,
      ap_action_type = gp_action_type payload, ap_status = AIActionProposalStatus_PENDING,
      ap_title = gp_title payload, ap_description = gp_description payload,
      ap_payload_json = gp_payload_json payload, ap_target_entity_type = gp_target_entity_type payload,
      ap_target_entity_id = gp_target_entity_id payload,
      ap_is_critical = is_critical_action (gp_action_type payload),
      ap_expires_at = Some (now + 7 * day_usec), ap_executed_at = None, ap_execution_result_json = JObj []\<rparr>"

definition create_proposal ::
    "instant \<Rightarrow> uuid \<Rightarrow> user \<Rightarrow> ai_proposal_create \<Rightarrow> ('z ai_db_scheme, ai_proposal) svc" where
  "create_proposal now t u payload =
     bindS (get_agent_or_404 t (gp_agent_id payload)) (\<lambda>a.
     thenS (case gp_task_id payload of
              None \<Rightarrow> ret () | Some k \<Rightarrow> bindS (get_task_or_404 t k) (\<lambda>_. ret ()))
     (bindS fresh_id (\<lambda>i.
     thenS (insert_proposal (new_proposal now i t (ag_id a) payload))
     (thenS (record_ai_usage t (Some (ag_id a)) (gp_task_id payload) (Some i) ''proposal.created'' 50
               (JObj [(''is_critical'', JBool (is_critical_action (gp_action_type payload)))]))
     (ret (new_proposal now i t (ag_id a) payload))))))"

definition is_expired :: "instant \<Rightarrow> instant \<Rightarrow> bool" where
  "is_expired now expires_at = (expires_at < now)"

definition ensure_pending :: "instant \<Rightarrow> ai_proposal \<Rightarrow> ('z ai_db_scheme, unit) svc" where
  "ensure_pending now p =
     thenS (ensure (ap_status p = AIActionProposalStatus_PENDING)
       (ConflictError (''Proposal is not pending (status: '' @ AIActionProposalStatus_value (ap_status p) @ '')'')))
     (case ap_expires_at p of
        None \<Rightarrow> ret ()
      | Some e \<Rightarrow>
          if is_expired now e then
            thenS (write_proposal (ap_id p) (\<lambda>r. r\<lparr>ap_status := AIActionProposalStatus_EXPIRED\<rparr>))
            (raise (ConflictError ''Proposal has expired''))
          else ret ())"

definition log_proposal ::
    "AuditAction \<Rightarrow> string \<Rightarrow> uuid \<Rightarrow> user \<Rightarrow> ai_proposal \<Rightarrow> uuid option \<Rightarrow> json \<Rightarrow> ('z ai_db_scheme, unit) svc" where
  "log_proposal action summary t u p approver meta =
     record_audit \<lparr>au_tenant_id = Some t, au_user_id = Some (us_id u), au_action = action,
       au_entity_type = Some ''ai_action_proposal'', au_entity_id = Some (ap_id p),
       au_summary = summary @ ap_title p, au_changes_json = JObj [], au_ai_proposal_id = Some (ap_id p),
       au_approved_by_user_id = approver, au_metadata_json = meta\<rparr>"

text \<open>The body \<^verbatim>\<open>approve_proposal\<close> and \<^verbatim>\<open>reject_proposal\<close> share: the decision and the status.\<close>

definition decide ::
    "instant \<Rightarrow> uuid \<Rightarrow> user \<Rightarrow> ai_proposal \<Rightarrow> string option \<Rightarrow> AIApprovalDecision \<Rightarrow> AIActionProposalStatus \<Rightarrow>
     ('z ai_db_scheme, unit) svc" where
  "decide now t u p comment decision status =
     thenS (create_approval \<lparr>av_tenant_id = t, av_proposal_id = ap_id p, av_approver_user_id = us_id u,
              av_decision = decision, av_comment = comment, av_decided_at = now\<rparr>)
     (write_proposal (ap_id p) (\<lambda>r. r\<lparr>ap_status := status\<rparr>))"

definition approve_proposal ::
    "instant \<Rightarrow> uuid \<Rightarrow> user \<Rightarrow> uuid \<Rightarrow> string option \<Rightarrow> ('z ai_db_scheme, ai_proposal) svc" where
  "approve_proposal now t u i comment =
     bindS (get_proposal_or_404 t i) (\<lambda>p.
     thenS (ensure_pending now p)
     (thenS (decide now t u p comment AIApprovalDecision_APPROVED AIActionProposalStatus_APPROVED)
     (thenS (log_proposal AuditAction_APPROVE ''AI proposal approved: '' t u p (Some (us_id u))
              (JObj [(''action_type'', JStr (AIActionType_value (ap_action_type p)))]))
     (thenS (record_ai_usage t (Some (ap_agent_id p)) None (Some (ap_id p)) ''proposal.approved'' 0
              (JObj [(''approver_id'', JId (us_id u))]))
     (get_proposal_or_404 t i)))))"

definition reject_proposal ::
    "instant \<Rightarrow> uuid \<Rightarrow> user \<Rightarrow> uuid \<Rightarrow> string option \<Rightarrow> ('z ai_db_scheme, ai_proposal) svc" where
  "reject_proposal now t u i comment =
     bindS (get_proposal_or_404 t i) (\<lambda>p.
     thenS (ensure_pending now p)
     (thenS (decide now t u p comment AIApprovalDecision_REJECTED AIActionProposalStatus_REJECTED)
     (thenS (log_proposal AuditAction_REJECT ''AI proposal rejected: '' t u p (Some (us_id u)) (JObj []))
     (thenS (record_ai_usage t (Some (ap_agent_id p)) None (Some (ap_id p)) ''proposal.rejected'' 0
              (JObj [(''approver_id'', JId (us_id u))]))
     (get_proposal_or_404 t i)))))"

definition executed :: "instant \<Rightarrow> user \<Rightarrow> ai_proposal \<Rightarrow> ai_proposal" where
  "executed now u p =
     p\<lparr>ap_status := AIActionProposalStatus_EXECUTED, ap_executed_at := Some now,
       ap_execution_result_json := JObj [(''mock'', JBool True), (''executed_by_user_id'', JId (us_id u)),
         (''action_type'', JStr (AIActionType_value (ap_action_type p))),
         (''message'', JStr ''Action executed in mock mode (no side effects on core data)'')]\<rparr>"

definition execute_proposal :: "instant \<Rightarrow> uuid \<Rightarrow> user \<Rightarrow> uuid \<Rightarrow> ('z ai_db_scheme, ai_proposal) svc" where
  "execute_proposal now t u i =
     bindS (get_proposal_or_404 t i) (\<lambda>p.
     bindS (get_agent_or_404 t (ap_agent_id p)) (\<lambda>a.
     thenS (ensure (ap_status p \<noteq> AIActionProposalStatus_EXECUTED) (ConflictError ''Proposal already executed''))
     (thenS (ensure (ap_status p \<noteq> AIActionProposalStatus_REJECTED)
        (ConflictError ''Rejected proposals cannot be executed''))
     (thenS (ensure (ap_status p \<noteq> AIActionProposalStatus_CANCELLED)
        (ConflictError ''Cancelled proposals cannot be executed''))
     (thenS (whenS (ap_is_critical p \<and> ag_requires_approval_for_critical a)
        (ensure (ap_status p = AIActionProposalStatus_APPROVED)
          (PermissionDeniedError ''Critical AI actions require human approval before execution'')))
     (thenS (write_proposal (ap_id p) (executed now u))
     (thenS (log_proposal AuditAction_EXECUTE ''AI proposal executed: '' t u p
               (if ap_is_critical p then Some (us_id u) else None)
               (JObj [(''action_type'', JStr (AIActionType_value (ap_action_type p))), (''mock'', JBool True)]))
     (thenS (record_ai_usage t (Some (ap_agent_id p)) None (Some (ap_id p)) ''proposal.executed'' 25 (JObj []))
     (get_proposal_or_404 t i)))))))))"

subsection \<open>Tasks\<close>

record ai_task_create =
  gk_agent_id :: uuid
  gk_task_type :: string
  gk_title :: string
  gk_input_json :: json
  gk_context_entity_type :: "string option"
  gk_context_entity_id :: "uuid option"
  gk_run_mock :: bool

definition mock_action_type :: "string \<Rightarrow> AIActionType" where
  "mock_action_type task_type =
     (if task_type = ''document_review'' then AIActionType_SEND_DOCUMENT
      else if task_type = ''finance_assist'' then AIActionType_CREATE_INVOICE
      else AIActionType_CHANGE_WORK_ITEM_STATUS)"

definition mock_proposal :: "instant \<Rightarrow> uuid \<Rightarrow> uuid \<Rightarrow> uuid \<Rightarrow> ai_task \<Rightarrow> ai_proposal" where
  "mock_proposal now i t agent k =
     new_proposal now i t agent
       \<lparr>gp_agent_id = agent, gp_task_id = Some (at_id k), gp_action_type = mock_action_type (at_task_type k),
        gp_title = ''Proposed: '' @ AIActionType_value (mock_action_type (at_task_type k)),
        gp_description = Some ''Auto-generated mock proposal from task'',
        gp_payload_json = JObj [(''source'', JStr ''mock_task''), (''task_type'', JStr (at_task_type k))],
        gp_target_entity_type = at_context_entity_type k, gp_target_entity_id = at_context_entity_id k\<rparr>"

definition run_mock_task :: "instant \<Rightarrow> uuid \<Rightarrow> user \<Rightarrow> uuid \<Rightarrow> ai_task \<Rightarrow> ('z ai_db_scheme, unit) svc" where
  "run_mock_task now t u agent k =
     thenS (write_task (at_id k) (\<lambda>r. r\<lparr>at_status := AITaskStatus_RUNNING\<rparr>))
     (bindS fresh_id (\<lambda>i.
     thenS (insert_proposal (mock_proposal now i t agent k))
     (thenS (write_task (at_id k) (\<lambda>r. r\<lparr>at_status := AITaskStatus_COMPLETED, at_completed_at := Some now,
               at_output_json := JObj [(''mock'', JBool True), (''proposal_id'', JId i),
                 (''proposal_requires_approval'', JBool (is_critical_action (mock_action_type (at_task_type k))))],
               at_updated_by_user_id := us_id u\<rparr>))
     (record_ai_usage t (Some agent) (Some (at_id k)) (Some i) ''task.completed'' 200 (JObj [])))))"

definition new_task :: "uuid \<Rightarrow> uuid \<Rightarrow> user \<Rightarrow> uuid \<Rightarrow> ai_task_create \<Rightarrow> ai_task" where
  "new_task i t u agent payload =
     \<lparr>at_id = i, at_tenant_id = t, at_agent_id = agent, at_task_type = gk_task_type payload,
      at_status = AITaskStatus_PENDING, at_title = gk_title payload, at_input_json = gk_input_json payload,
      at_output_json = JObj [], at_context_entity_type = gk_context_entity_type payload,
      at_context_entity_id = gk_context_entity_id payload, at_completed_at = None,
      at_updated_by_user_id = us_id u\<rparr>"

text \<open>\<^verbatim>\<open>create_task\<close>: first the guards and the pending task, then the mock run.\<close>

definition open_task :: "uuid \<Rightarrow> user \<Rightarrow> ai_task_create \<Rightarrow> ('z ai_db_scheme, ai_task) svc" where
  "open_task t u payload =
     thenS (assert_feature t ''ai.tasks.create'')
     (bindS (get_agent_or_404 t (gk_agent_id payload)) (\<lambda>a.
     thenS (ensure (ag_is_active a) (ConflictError ''AI agent is not active''))
     (bindS fresh_id (\<lambda>i.
     thenS (insert_task_row (new_task i t u (ag_id a) payload))
     (thenS (record_ai_usage t (Some (ag_id a)) (Some i) None ''task.created'' 100 (JObj []))
     (ret (new_task i t u (ag_id a) payload)))))))"

definition create_task :: "instant \<Rightarrow> uuid \<Rightarrow> user \<Rightarrow> ai_task_create \<Rightarrow> ('z ai_db_scheme, ai_task) svc" where
  "create_task now t u payload =
     bindS (open_task t u payload) (\<lambda>k.
     thenS (whenS (gk_run_mock payload) (run_mock_task now t u (at_agent_id k) k))
     (get_task_or_404 t (at_id k)))"

text \<open>\<^verbatim>\<open>get_usage_summary\<close>: all tokens and costs, but at most a thousand events are counted.\<close>

record ai_usage_summary =
  zs_total_tokens :: int
  zs_total_cost_units :: int
  zs_events_count :: nat

definition get_usage_summary :: "uuid \<Rightarrow> 'z ai_db_scheme \<Rightarrow> ai_usage_summary" where
  "get_usage_summary t s =
     \<lparr>zs_total_tokens = fst (sum_ai_usage t s), zs_total_cost_units = snd (sum_ai_usage t s),
      zs_events_count = length (list_usage_events t None 1000 s)\<rparr>"

end
