(* ===== verification/Ai_Properties.thy ===== *)
theory Ai_Properties
  imports Ai
begin

text \<open>
  The decisions of users on the actions AI agents propose: the invariant that ties the status of a proposal
  to the decisions recorded for it, what an execution presupposes, the life of a proposal, and what happens
  to one that expired.
\<close>

subsection \<open>Decisions and status\<close>

definition decisions :: "uuid \<Rightarrow> ai_approval list \<Rightarrow> AIApprovalDecision list" where
  "decisions i avs = map av_decision (filter (\<lambda>a. av_proposal_id a = i) avs)"

fun status_decided :: "AIActionProposalStatus \<Rightarrow> AIApprovalDecision list \<Rightarrow> bool" where
  "status_decided AIActionProposalStatus_PENDING ds \<longleftrightarrow> ds = []"
| "status_decided AIActionProposalStatus_APPROVED ds \<longleftrightarrow> ds = [AIApprovalDecision_APPROVED]"
| "status_decided AIActionProposalStatus_REJECTED ds \<longleftrightarrow> ds = [AIApprovalDecision_REJECTED]"
| "status_decided AIActionProposalStatus_EXECUTED ds \<longleftrightarrow> ds = [] \<or> ds = [AIApprovalDecision_APPROVED]"
| "status_decided AIActionProposalStatus_EXPIRED ds \<longleftrightarrow> False"
| "status_decided AIActionProposalStatus_CANCELLED ds \<longleftrightarrow> False"

definition proposal_ok :: "uuid \<Rightarrow> ai_approval list \<Rightarrow> ai_proposal \<Rightarrow> bool" where
  "proposal_ok bound avs p \<longleftrightarrow> ap_id p < bound \<and> status_decided (ap_status p) (decisions (ap_id p) avs) \<and>
     ap_is_critical p = is_critical_action (ap_action_type p) \<and>
     (ap_executed_at p \<noteq> None \<longleftrightarrow> ap_status p = AIActionProposalStatus_EXECUTED)"

definition decided_ok :: "uuid \<Rightarrow> ai_proposal list \<Rightarrow> ai_approval list \<Rightarrow> bool" where
  "decided_ok bound ps avs \<longleftrightarrow> distinct (map ap_id ps) \<and> (\<forall>p \<in> set ps. proposal_ok bound avs p) \<and>
     (\<forall>a \<in> set avs. av_proposal_id a < bound)"

definition ai_ok :: "'z ai_db_scheme \<Rightarrow> bool" where
  "ai_ok s \<longleftrightarrow> decided_ok (next_id s) (proposals s) (approvals s)"

lemma decided_ok_later: "decided_ok b ps avs \<Longrightarrow> b \<le> b' \<Longrightarrow> decided_ok b' ps avs"
  by (auto simp: decided_ok_def proposal_ok_def)

lemma decisions_fresh: "\<forall>a \<in> set avs. av_proposal_id a < i \<Longrightarrow> decisions i avs = []"
  by (auto simp: decisions_def filter_empty_conv)

lemma decisions_insert:
  "decisions i (row_insert a avs) = decisions i avs @ (if av_proposal_id a = i then [av_decision a] else [])"
  by (simp add: decisions_def row_insert_def)

lemma decided_ok_new:
  assumes "decided_ok i ps avs" "ap_id p = i" "ap_status p = AIActionProposalStatus_PENDING"
    "ap_is_critical p = is_critical_action (ap_action_type p)" "ap_executed_at p = None"
  shows "decided_ok (Suc i) (row_insert p ps) avs"
proof -
  have "decisions i avs = []" using assms(1) by (intro decisions_fresh) (auto simp: decided_ok_def)
  then have "proposal_ok (Suc i) avs p" using assms by (simp add: proposal_ok_def)
  moreover have "i \<notin> ap_id ` set ps" using assms(1) by (auto simp: decided_ok_def proposal_ok_def)
  ultimately show ?thesis using decided_ok_later[OF assms(1), of "Suc i"] assms(2)
    by (auto simp: decided_ok_def row_insert_def)
qed

text \<open>
  A write to the proposal with a decision appended for it, or with none.
\<close>

lemma decided_ok_write:
  assumes "decided_ok b ps avs" and "\<And>r. ap_id (f r) = ap_id r"
    and new: "\<And>p. p \<in> set ps \<Longrightarrow> ap_id p = i \<Longrightarrow> proposal_ok b avs p \<Longrightarrow> proposal_ok b avs' (f p)"
    and other: "\<And>j. j \<noteq> i \<Longrightarrow> decisions j avs' = decisions j avs"
    and ids: "\<forall>a \<in> set avs'. av_proposal_id a < b"
  shows "decided_ok b (row_update ap_id i f ps) avs'"
  unfolding decided_ok_def
proof (intro conjI ballI)
  show "distinct (map ap_id (row_update ap_id i f ps))"
    using assms(1) by (simp add: decided_ok_def map_key_row_update assms(2))
  show "proposal_ok b avs' p" if row: "p \<in> set (row_update ap_id i f ps)" for p
  proof -
    obtain r where r: "r \<in> set ps" "if ap_id r = i then p = f r else p = r"
      using row unfolding in_row_update by blast
    have "proposal_ok b avs r" using assms(1) r(1) by (simp add: decided_ok_def)
    then show ?thesis using r new other[of "ap_id r"]
      by (cases "ap_id r = i") (auto simp: proposal_ok_def)
  qed
  show "av_proposal_id a < b" if "a \<in> set avs'" for a using ids that by blast
qed

subsection \<open>Outcomes of the operations\<close>

text \<open>The tables the decisions live in, as they were before.\<close>

definition same_decisions :: "uuid \<Rightarrow> ai_proposal list \<Rightarrow> ai_approval list \<Rightarrow> 'z ai_db_scheme \<Rightarrow> bool" where
  "same_decisions n ps avs s \<longleftrightarrow> n \<le> next_id s \<and> proposals s = ps \<and> approvals s = avs"

lemma preserves_sd_modify:
  "(\<And>s. same_decisions n ps avs s \<Longrightarrow> same_decisions n ps avs (f s)) \<Longrightarrow>
     preserves (same_decisions n ps avs) (modify f)"
  by (simp add: preserves_def modify_def)

lemma preserves_sd_writes:
  "preserves (same_decisions n ps avs) fresh_id"
  "preserves (same_decisions n ps avs) (insert_agent a)"
  "preserves (same_decisions n ps avs) (insert_task_row k)"
  "preserves (same_decisions n ps avs) (write_agent i f)"
  "preserves (same_decisions n ps avs) (write_task i g)"
  "preserves (same_decisions n ps avs) (record_ai_usage t x y z e tk m)"
  "preserves (same_decisions n ps avs) (log_proposal act sm t u p v md)"
  "preserves (same_decisions n ps avs) (get_agent_or_404 t i)"
  "preserves (same_decisions n ps avs) (get_task_or_404 t i)"
  "preserves (same_decisions n ps avs) (get_proposal_or_404 t i)"
  unfolding insert_agent_def insert_task_row_def write_agent_def write_task_def record_ai_usage_def
    log_proposal_def record_audit_def get_agent_or_404_def get_task_or_404_def get_proposal_or_404_def
  by (auto intro!: preserves_bindS preserves_thenS preserves_sd_modify simp: same_decisions_def)
    (simp add: preserves_def fresh_id_def same_decisions_def)

lemma preserves_sd_feature: "preserves (same_decisions n ps avs) (assert_feature t code)"
  unfolding assert_feature_def assert_enabled_def
  by (intro preserves_bindS preserves_thenS preserves_gets preserves_ensure)
    (auto intro!: preserves_bindS preserves_thenS split: option.split)

lemmas preserves_sd = preserves_sd_writes preserves_sd_feature preserves_bindS preserves_thenS
  preserves_gets preserves_ensure preserves_ret preserves_or_raise

lemma preserves_sd_agents:
  "preserves (same_decisions n ps avs) (create_agent t u ga)"
  "preserves (same_decisions n ps avs) (update_agent t u i gu)"
  "preserves (same_decisions n ps avs) (import_agents_from_config t u items)"
proof -
  show "preserves (same_decisions n ps avs) (create_agent t u ga)"
    unfolding create_agent_def by (intro preserves_sd)
  show "preserves (same_decisions n ps avs) (update_agent t u i gu)"
    unfolding update_agent_def by (intro preserves_sd)
  have "preserves (same_decisions n ps avs) (import_agent t u item)" for item
    unfolding import_agent_def by (auto intro!: preserves_sd)
  then show "preserves (same_decisions n ps avs) (import_agents_from_config t u items)"
    by (induction items) (auto intro!: preserves_sd)
qed

lemma ai_ok_same:
  assumes "ai_ok s" and "\<And>n ps avs. preserves (same_decisions n ps avs) m" and "m s = (r, s')"
  shows "ai_ok s'"
proof -
  have "same_decisions (next_id s) (proposals s) (approvals s) s'"
    by (rule preservesD[OF assms(2) _ assms(3)]) (simp add: same_decisions_def)
  then show ?thesis using assms(1) decided_ok_later by (auto simp: ai_ok_def same_decisions_def)
qed

lemma get_proposal_Some: "get_proposal t i s = Some p \<Longrightarrow> p \<in> set (proposals s) \<and> ap_tenant_id p = t \<and> ap_id p = i"
  unfolding get_proposal_def by (rule scoped_get_Some)

lemma get_agent_or_404_ok [svc_ok]:
  "get_agent_or_404 t i s = (Inr a, s') \<longleftrightarrow> get_agent t i s = Some a \<and> s' = s"
  by (auto simp: get_agent_or_404_def svc_ok)

lemma get_task_or_404_ok [svc_ok]:
  "get_task_or_404 t i s = (Inr a, s') \<longleftrightarrow> get_task t i s = Some a \<and> s' = s"
  by (auto simp: get_task_or_404_def svc_ok)

lemma get_proposal_or_404_ok [svc_ok]:
  "get_proposal_or_404 t i s = (Inr a, s') \<longleftrightarrow> get_proposal t i s = Some a \<and> s' = s"
  by (auto simp: get_proposal_or_404_def svc_ok)

lemma ensure_pending_ok [svc_ok]:
  "ensure_pending now p s = (Inr x, s') \<longleftrightarrow>
     s' = s \<and> ap_status p = AIActionProposalStatus_PENDING \<and> (\<forall>e. ap_expires_at p = Some e \<longrightarrow> now \<le> e)"
  by (cases "ap_expires_at p") (auto simp: ensure_pending_def svc_ok is_expired_def split: if_splits)

text \<open>What a decision and an execution write, once the guards have let them through.\<close>

lemma decide_ok:
  "decide now t u p comment d st s = (Inr x, s') \<longleftrightarrow>
     s' = s\<lparr>approvals := row_insert \<lparr>av_tenant_id = t, av_proposal_id = ap_id p, av_approver_user_id = us_id u,
              av_decision = d, av_comment = comment, av_decided_at = now\<rparr> (approvals s),
            proposals := row_update ap_id (ap_id p) (\<lambda>r. r\<lparr>ap_status := st\<rparr>) (proposals s)\<rparr>"
  by (auto simp: decide_def create_approval_def write_proposal_def svc_ok)

lemma log_and_usage_ok:
  "log_proposal act sm t u p v md s = (Inr x, s') \<Longrightarrow>
     next_id s' = next_id s \<and> proposals s' = proposals s \<and> approvals s' = approvals s \<and> agents s' = agents s"
  "record_ai_usage t ag k pr e tk m s = (Inr y, s') \<Longrightarrow>
     next_id s' = next_id s \<and> proposals s' = proposals s \<and> approvals s' = approvals s \<and> agents s' = agents s"
  by (auto simp: log_proposal_def record_ai_usage_def svc_ok record_audit_ok)

definition decision_written ::
    "instant \<Rightarrow> uuid \<Rightarrow> user \<Rightarrow> uuid \<Rightarrow> string option \<Rightarrow> AIApprovalDecision \<Rightarrow> AIActionProposalStatus \<Rightarrow>
     'z ai_db_scheme \<Rightarrow> 'z ai_db_scheme \<Rightarrow> bool" where
  "decision_written now t u i comment d st s s' \<longleftrightarrow>
     (\<exists>p. get_proposal t i s = Some p \<and> ap_status p = AIActionProposalStatus_PENDING) \<and>
     next_id s' = next_id s \<and>
     approvals s' = row_insert \<lparr>av_tenant_id = t, av_proposal_id = i, av_approver_user_id = us_id u,
              av_decision = d, av_comment = comment, av_decided_at = now\<rparr> (approvals s) \<and>
     proposals s' = row_update ap_id i (\<lambda>r. r\<lparr>ap_status := st\<rparr>) (proposals s)"

lemma approve_proposal_ok:
  "approve_proposal now t u i comment s = (Inr r, s') \<Longrightarrow>
     decision_written now t u i comment AIApprovalDecision_APPROVED AIActionProposalStatus_APPROVED s s'"
  unfolding approve_proposal_def decision_written_def
  by (auto simp: svc_ok decide_ok dest!: log_and_usage_ok dest: get_proposal_Some)

lemma reject_proposal_ok:
  "reject_proposal now t u i comment s = (Inr r, s') \<Longrightarrow>
     decision_written now t u i comment AIApprovalDecision_REJECTED AIActionProposalStatus_REJECTED s s'"
  unfolding reject_proposal_def decision_written_def
  by (auto simp: svc_ok decide_ok dest!: log_and_usage_ok dest: get_proposal_Some)

lemma execute_proposal_ok:
  assumes "execute_proposal now t u i s = (Inr r, s')"
  shows "\<exists>p a. get_proposal t i s = Some p \<and> get_agent t (ap_agent_id p) s = Some a \<and>
    ap_status p \<notin> {AIActionProposalStatus_EXECUTED, AIActionProposalStatus_REJECTED, AIActionProposalStatus_CANCELLED} \<and>
    (ap_is_critical p \<and> ag_requires_approval_for_critical a \<longrightarrow> ap_status p = AIActionProposalStatus_APPROVED) \<and>
    next_id s' = next_id s \<and> approvals s' = approvals s \<and>
    proposals s' = row_update ap_id i (executed now u) (proposals s) \<and> get_proposal t i s' = Some r"
  using assms unfolding execute_proposal_def
  by (auto simp: svc_ok write_proposal_def split: if_splits dest!: log_and_usage_ok dest: get_proposal_Some)

subsection \<open>The invariant\<close>

lemma ai_ok_decision:
  assumes ok: "ai_ok s" and run: "decision_written now t u i comment d st s s'"
    and "st = AIActionProposalStatus_APPROVED \<and> d = AIApprovalDecision_APPROVED \<or>
      st = AIActionProposalStatus_REJECTED \<and> d = AIApprovalDecision_REJECTED"
  shows "ai_ok s'"
proof -
  obtain p where p: "get_proposal t i s = Some p" "ap_status p = AIActionProposalStatus_PENDING"
    using run by (auto simp: decision_written_def)
  have inv: "decided_ok (next_id s) (proposals s) (approvals s)" using ok by (simp add: ai_ok_def)
  have "decided_ok (next_id s) (row_update ap_id i (\<lambda>r. r\<lparr>ap_status := st\<rparr>) (proposals s)) (approvals s')"
  proof (rule decided_ok_write[OF inv])
    show "ap_id (r\<lparr>ap_status := st\<rparr>) = ap_id r" for r :: ai_proposal by simp
    show "decisions j (approvals s') = decisions j (approvals s)" if "j \<noteq> i" for j
      using run that by (simp add: decision_written_def decisions_insert)
    have "i < next_id s" using inv get_proposal_Some[OF p(1)] by (auto simp: decided_ok_def proposal_ok_def)
    then show "\<forall>a \<in> set (approvals s'). av_proposal_id a < next_id s"
      using run inv by (auto simp: decision_written_def decided_ok_def in_row_insert)
    show "proposal_ok (next_id s) (approvals s') (q\<lparr>ap_status := st\<rparr>)"
      if q: "q \<in> set (proposals s)" "ap_id q = i" "proposal_ok (next_id s) (approvals s) q" for q
    proof -
      have "q = p"
        using inv q get_proposal_Some[OF p(1)] by (auto simp: decided_ok_def dest: distinct_keys_eq)
      then show ?thesis
        using q p(2) run assms(3) by (auto simp: proposal_ok_def decision_written_def decisions_insert)
    qed
  qed
  then show ?thesis using run by (simp add: ai_ok_def decision_written_def)
qed

lemma ai_ok_execute:
  assumes ok: "ai_ok s" and run: "execute_proposal now t u i s = (Inr r, s')"
  shows "ai_ok s'"
proof -
  obtain p where p: "get_proposal t i s = Some p" "ap_status p \<notin> {AIActionProposalStatus_EXECUTED,
      AIActionProposalStatus_REJECTED, AIActionProposalStatus_CANCELLED}"
    and s': "next_id s' = next_id s" "approvals s' = approvals s"
      "proposals s' = row_update ap_id i (executed now u) (proposals s)"
    using execute_proposal_ok[OF run] by blast
  have inv: "decided_ok (next_id s) (proposals s) (approvals s)" using ok by (simp add: ai_ok_def)
  have "decided_ok (next_id s) (row_update ap_id i (executed now u) (proposals s)) (approvals s)"
  proof (rule decided_ok_write[OF inv])
    show "\<forall>a \<in> set (approvals s). av_proposal_id a < next_id s" using inv by (simp add: decided_ok_def)
    show "proposal_ok (next_id s) (approvals s) (executed now u q)"
      if q: "q \<in> set (proposals s)" "ap_id q = i" "proposal_ok (next_id s) (approvals s) q" for q
    proof -
      have "q = p"
        using inv q get_proposal_Some[OF p(1)] by (auto simp: decided_ok_def dest: distinct_keys_eq)
      then show ?thesis using q p(2) by (cases "ap_status p") (auto simp: proposal_ok_def executed_def)
    qed
  qed (simp_all add: executed_def)
  then show ?thesis using s' by (simp add: ai_ok_def)
qed

lemma ai_ok_insert_proposal:
  assumes "ai_ok s" "next_id s' = Suc (next_id s)" "approvals s' = approvals s"
    "proposals s' = row_insert (new_proposal now (next_id s) t ag payload) (proposals s)"
  shows "ai_ok s'"
  using assms decided_ok_new[of "next_id s" "proposals s" "approvals s" "new_proposal now (next_id s) t ag payload"]
  by (simp add: ai_ok_def new_proposal_def)

lemma ai_ok_create_proposal:
  assumes "ai_ok s" and "create_proposal now t u gp s = (Inr r, s')"
  shows "ai_ok s'"
  using assms(2) unfolding create_proposal_def
  by (auto simp: svc_ok insert_proposal_def split: option.splits dest!: log_and_usage_ok
      intro!: ai_ok_insert_proposal[OF assms(1)])

lemma run_mock_task_ok:
  "run_mock_task now t u ag k s = (Inr x, s') \<Longrightarrow>
     next_id s' = Suc (next_id s) \<and> approvals s' = approvals s \<and>
     proposals s' = row_insert (mock_proposal now (next_id s) t ag k) (proposals s)"
  by (auto simp: run_mock_task_def write_task_def insert_proposal_def svc_ok dest!: log_and_usage_ok)

lemma ai_ok_create_task:
  assumes "ai_ok s" and "create_task now t u gk s = (Inr r, s')"
  shows "ai_ok s'"
proof -
  obtain k s1 where before: "open_task t u gk s = (Inr k, s1)"
    and mock: "whenS (gk_run_mock gk) (run_mock_task now t u (at_agent_id k) k) s1 = (Inr (), s')"
    using assms(2) by (auto simp: create_task_def svc_ok)
  have "preserves (same_decisions n ps avs) (open_task t u gk)" for n ps avs
    unfolding open_task_def by (intro preserves_sd)
  then have ok: "ai_ok s1" using ai_ok_same[where m = "open_task t u gk", OF assms(1)] before by blast
  show ?thesis
  proof (cases "gk_run_mock gk")
    case True
    then have "run_mock_task now t u (at_agent_id k) k s1 = (Inr (), s')"
      using mock by (simp add: svc_ok)
    from run_mock_task_ok[OF this] show ?thesis
      unfolding mock_proposal_def by (blast intro: ai_ok_insert_proposal[OF ok])
  next
    case False
    then show ?thesis using ok mock by (simp add: svc_ok)
  qed
qed

text \<open>One request to the service, committed when it returns.\<close>

inductive ai_step :: "'z ai_db_scheme \<Rightarrow> 'z ai_db_scheme \<Rightarrow> bool" where
  step_create_agent: "ai_step s (snd (atomic (create_agent t u ga) s))"
| step_update_agent: "ai_step s (snd (atomic (update_agent t u i gu) s))"
| step_import_agents: "ai_step s (snd (atomic (import_agents_from_config t u items) s))"
| step_create_task: "ai_step s (snd (atomic (create_task now t u gk) s))"
| step_create_proposal: "ai_step s (snd (atomic (create_proposal now t u gp) s))"
| step_approve: "ai_step s (snd (atomic (approve_proposal now t u i comment) s))"
| step_reject: "ai_step s (snd (atomic (reject_proposal now t u i comment) s))"
| step_execute: "ai_step s (snd (atomic (execute_proposal now t u i) s))"

definition ai_start :: "'z ai_db_scheme \<Rightarrow> bool" where
  "ai_start s \<longleftrightarrow> proposals s = [] \<and> approvals s = []"

lemma ai_step_ok:
  assumes ok: "ai_ok s" and "ai_step s s'"
  shows "ai_ok s'"
  using assms(2)
proof cases
  case step_create_agent
  then show ?thesis using ai_ok_same[OF ok preserves_atomic[OF preserves_sd_agents(1)]] by (metis prod.collapse)
next
  case step_update_agent
  then show ?thesis using ai_ok_same[OF ok preserves_atomic[OF preserves_sd_agents(2)]] by (metis prod.collapse)
next
  case step_import_agents
  then show ?thesis using ai_ok_same[OF ok preserves_atomic[OF preserves_sd_agents(3)]] by (metis prod.collapse)
next
  case step_create_task
  then show ?thesis using ai_ok_create_task[OF ok] atomic_keeps[of ai_ok, OF ok] by metis
next
  case step_create_proposal
  then show ?thesis using ai_ok_create_proposal[OF ok] atomic_keeps[of ai_ok, OF ok] by metis
next
  case step_approve
  then show ?thesis
    using ai_ok_decision[OF ok approve_proposal_ok] atomic_keeps[of ai_ok, OF ok] by metis
next
  case step_reject
  then show ?thesis
    using ai_ok_decision[OF ok reject_proposal_ok] atomic_keeps[of ai_ok, OF ok] by metis
next
  case step_execute
  then show ?thesis using ai_ok_execute[OF ok] atomic_keeps[of ai_ok, OF ok] by metis
qed

interpretation ai: invariant_machine ai_start ai_step ai_ok
proof
  show "ai_ok s" if "ai_start s" for s :: "'a ai_db_scheme"
    using that by (simp add: ai_start_def ai_ok_def decided_ok_def)
  show "ai_ok s'" if "ai_ok s" "ai_step s s'" for s s' :: "'a ai_db_scheme"
    by (rule ai_step_ok[OF that])
qed

subsection \<open>A session\<close>

definition lab_user :: user where
  "lab_user = \<lparr>us_id = 5, us_email = [], us_hashed_password = [], us_full_name = [], us_is_active = True,
     us_provider_staff = [], us_tenant_memberships = []\<rparr>"

definition lab_agent :: ai_agent where
  "lab_agent = \<lparr>ag_id = 10, ag_tenant_id = 2, ag_code = ''a'', ag_name = ''a'', ag_role_code = ''a'',
     ag_description = None, ag_system_prompt = None, ag_config_json = JObj [], ag_is_active = True,
     ag_requires_approval_for_critical = True, ag_updated_by_user_id = 5\<rparr>"

definition lab_empty :: ai_db where
  "lab_empty =
     \<lparr>next_id = 20, tenants = [], branches = [], audit_logs = [], definitions = [], tenant_modules = [],
      features = [], plans = [], plan_features = [], subscriptions = [], usage_limits = [], usage_events = [],
      agents = [lab_agent], ai_tasks = [], proposals = [], approvals = [], ai_usage_events = []\<rparr>"

definition lab_send :: ai_proposal_create where
  "lab_send = \<lparr>gp_agent_id = 10, gp_task_id = None, gp_action_type = AIActionType_SEND_DOCUMENT, gp_title = ''s'',
     gp_description = None, gp_payload_json = JObj [], gp_target_entity_type = None, gp_target_entity_id = None\<rparr>"

definition lab_note :: ai_proposal_create where
  "lab_note = lab_send\<lparr>gp_action_type := AIActionType_OTHER\<rparr>"

text \<open>The critical proposal has the id 20, the other one 21; the first is approved and executed.\<close>

definition lab_proposed :: ai_db where
  "lab_proposed = snd (atomic (create_proposal 0 2 lab_user lab_note)
     (snd (atomic (create_proposal 0 2 lab_user lab_send) lab_empty)))"

definition lab_approved :: ai_db where
  "lab_approved = snd (atomic (approve_proposal 1 2 lab_user 20 None) lab_proposed)"

definition lab_executed :: ai_db where
  "lab_executed = snd (atomic (execute_proposal 2 2 lab_user 20) lab_approved)"

lemma lab_reachable:
  "reachable ai_start ai_step lab_proposed" "reachable ai_start ai_step lab_approved"
  "reachable ai_start ai_step lab_executed"
proof -
  have 0: "reachable ai_start ai_step lab_empty"
    by (rule reachable_start) (simp add: ai_start_def lab_empty_def)
  show 1: "reachable ai_start ai_step lab_proposed"
    unfolding lab_proposed_def by (rule reachable_step[OF reachable_step[OF 0]]) (rule ai_step.intros)+
  show 2: "reachable ai_start ai_step lab_approved"
    unfolding lab_approved_def by (rule reachable_step[OF 1]) (rule ai_step.intros)
  show "reachable ai_start ai_step lab_executed"
    unfolding lab_executed_def by (rule reachable_step[OF 2]) (rule ai_step.intros)
qed

lemma lab_facts: "map (\<lambda>p. (ap_id p, ap_status p)) (proposals lab_executed) =
     [(20, AIActionProposalStatus_EXECUTED), (21, AIActionProposalStatus_PENDING)]"
  by code_simp

subsection \<open>Properties\<close>

lemma decision_recorded:
  assumes "status_decided AIActionProposalStatus_APPROVED (decisions i avs)"
  shows "\<exists>a \<in> set avs. av_proposal_id a = i \<and> av_decision a = AIApprovalDecision_APPROVED"
proof -
  have "AIApprovalDecision_APPROVED \<in> set (decisions i avs)" using assms by simp
  then show ?thesis by (auto simp: decisions_def)
qed

lemma proposal_in_state:
  assumes "ai_ok s" "get_proposal t i s = Some p"
  shows "proposal_ok (next_id s) (approvals s) p"
  using assms get_proposal_Some[OF assms(2)] by (auto simp: ai_ok_def decided_ok_def)

text \<open>C5: No critical action is executed without a human decision: in every reachable session an execution
  that returns is of a proposal whose action, where it is critical and its agent requires approval, a
  user approved before; nobody has rejected it, it was not executed before, and what is executed is the
  proposal as it was stored.\<close>

theorem critical_execution_approved:
  assumes "reachable ai_start ai_step s" and "execute_proposal now t u i s = (Inr r, s')"
  shows "\<exists>p a. get_proposal t i s = Some p \<and> get_agent t (ap_agent_id p) s = Some a \<and> r = executed now u p \<and>
    ap_executed_at p = None \<and> AIApprovalDecision_REJECTED \<notin> set (decisions i (approvals s')) \<and>
    (is_critical_action (ap_action_type p) \<and> ag_requires_approval_for_critical a \<longrightarrow>
       (\<exists>v \<in> set (approvals s). av_proposal_id v = i \<and> av_decision v = AIApprovalDecision_APPROVED))"
proof -
  have ok: "ai_ok s" by (rule ai.reachable_inv[OF assms(1)])
  obtain p a where p: "get_proposal t i s = Some p" and a: "get_agent t (ap_agent_id p) s = Some a"
    and st: "ap_status p \<notin> {AIActionProposalStatus_EXECUTED, AIActionProposalStatus_REJECTED,
      AIActionProposalStatus_CANCELLED}"
    and gate: "ap_is_critical p \<and> ag_requires_approval_for_critical a \<longrightarrow> ap_status p = AIActionProposalStatus_APPROVED"
    and s': "approvals s' = approvals s" "proposals s' = row_update ap_id i (executed now u) (proposals s)"
    and r: "get_proposal t i s' = Some r"
    using execute_proposal_ok[OF assms(2)] by blast
  have pok: "proposal_ok (next_id s) (approvals s) p" by (rule proposal_in_state[OF ok p])
  have id: "ap_id p = i" using get_proposal_Some[OF p] by simp
  have "row_find (\<lambda>q. ap_tenant_id q = t \<and> ap_id q = i) ps = Some p \<Longrightarrow>
      row_find (\<lambda>q. ap_tenant_id q = t \<and> ap_id q = i) (row_update ap_id i (executed now u) ps) = Some (executed now u p)" for ps
    by (induction ps) (auto simp: executed_def split: if_splits)
  then have "r = executed now u p" using p r s'(2) by (simp add: get_proposal_def scoped_get_def)
  moreover have "ap_executed_at p = None" "AIApprovalDecision_REJECTED \<notin> set (decisions i (approvals s'))"
    using pok st id s'(1) by (cases "ap_status p"; auto simp: proposal_ok_def)+
  moreover have "\<exists>v \<in> set (approvals s). av_proposal_id v = i \<and> av_decision v = AIApprovalDecision_APPROVED"
    if "is_critical_action (ap_action_type p) \<and> ag_requires_approval_for_critical a"
    by (rule decision_recorded) (use that gate pok id in \<open>auto simp: proposal_ok_def\<close>)
  ultimately show ?thesis using p a by blast
qed

theorem critical_execution_approved_witness:
  "\<exists>r s' v. execute_proposal 2 2 lab_user 20 lab_approved = (Inr r, s') \<and> ap_is_critical r \<and>
     v \<in> set (approvals lab_approved) \<and> av_proposal_id v = 20 \<and> av_decision v = AIApprovalDecision_APPROVED"
proof -
  have run: "case execute_proposal 2 2 lab_user 20 lab_approved of (Inr r, s') \<Rightarrow> ap_is_critical r | _ \<Rightarrow> False"
    and agent: "case get_proposal 2 20 lab_approved of None \<Rightarrow> False | Some p \<Rightarrow>
      is_critical_action (ap_action_type p) \<and> (case get_agent 2 (ap_agent_id p) lab_approved of None \<Rightarrow> False
        | Some a \<Rightarrow> ag_requires_approval_for_critical a)"
    by code_simp+
  obtain r s' where r: "execute_proposal 2 2 lab_user 20 lab_approved = (Inr r, s')" "ap_is_critical r"
    using run by (auto split: prod.splits sum.splits)
  from critical_execution_approved[OF lab_reachable(2) r(1)] agent r show ?thesis by auto
qed

text \<open>C27: A proposal is decided at most once and its status follows from the decision: in every reachable
  session at most one user has decided on it, it is rejected exactly when that decision is a rejection, it
  was executed exactly when it has an execution time, and no rejected proposal was executed.\<close>

theorem proposal_decided_once:
  assumes "reachable ai_start ai_step s" and "p \<in> set (proposals s)"
  shows "length (decisions (ap_id p) (approvals s)) \<le> 1 \<and>
    (ap_status p = AIActionProposalStatus_REJECTED \<longleftrightarrow>
       AIApprovalDecision_REJECTED \<in> set (decisions (ap_id p) (approvals s))) \<and>
    (ap_status p = AIActionProposalStatus_EXECUTED \<longleftrightarrow> ap_executed_at p \<noteq> None) \<and>
    (AIApprovalDecision_REJECTED \<in> set (decisions (ap_id p) (approvals s)) \<longrightarrow> ap_executed_at p = None)"
proof -
  have "proposal_ok (next_id s) (approvals s) p"
    using ai.reachable_inv[OF assms(1)] assms(2) by (simp add: ai_ok_def decided_ok_def)
  then show ?thesis by (cases "ap_status p") (auto simp: proposal_ok_def)
qed

theorem proposal_decided_once_witness:
  "\<exists>p. p \<in> set (proposals lab_executed) \<and> ap_id p = 20 \<and> ap_executed_at p \<noteq> None \<and>
     length (decisions 20 (approvals lab_executed)) \<le> 1 \<and>
     AIApprovalDecision_REJECTED \<notin> set (decisions 20 (approvals lab_executed))"
proof -
  obtain p q where "proposals lab_executed = [p, q]" "ap_id p = 20" "ap_status p = AIActionProposalStatus_EXECUTED"
    using lab_facts by (auto simp: map_eq_Cons_conv)
  then have p: "p \<in> set (proposals lab_executed)" "ap_id p = 20" "ap_status p = AIActionProposalStatus_EXECUTED"
    by simp_all
  show ?thesis using proposal_decided_once[OF lab_reachable(3) p(1)] p by auto
qed

text \<open>The part of a proposal a user decides on.\<close>

definition substance :: "ai_proposal \<Rightarrow> ai_proposal" where
  "substance p = p\<lparr>ap_status := AIActionProposalStatus_PENDING, ap_executed_at := None,
     ap_execution_result_json := JNull\<rparr>"

fun may_become :: "AIActionProposalStatus \<Rightarrow> AIActionProposalStatus \<Rightarrow> bool" where
  "may_become AIActionProposalStatus_PENDING st \<longleftrightarrow> st \<in> {AIActionProposalStatus_PENDING,
     AIActionProposalStatus_APPROVED, AIActionProposalStatus_REJECTED, AIActionProposalStatus_EXECUTED}"
| "may_become AIActionProposalStatus_APPROVED st \<longleftrightarrow>
     st \<in> {AIActionProposalStatus_APPROVED, AIActionProposalStatus_EXECUTED}"
| "may_become old st \<longleftrightarrow> st = old"

definition lives_on :: "ai_proposal list \<Rightarrow> ai_proposal list \<Rightarrow> bool" where
  "lives_on ps ps' \<longleftrightarrow> (\<forall>p \<in> set ps. \<exists>p' \<in> set ps'. substance p' = substance p \<and> may_become (ap_status p) (ap_status p'))"

lemma lives_on_refl: "lives_on ps ps"
proof -
  have "may_become st st" for st by (cases st) simp_all
  then show ?thesis by (auto simp: lives_on_def)
qed

lemma lives_on_insert: "lives_on ps (row_insert p ps)"
  using lives_on_refl[of ps] by (fastforce simp: lives_on_def in_row_insert)

lemma lives_on_write:
  assumes "\<And>p. p \<in> set ps \<Longrightarrow> ap_id p = i \<Longrightarrow> substance (f p) = substance p \<and> may_become (ap_status p) (ap_status (f p))"
  shows "lives_on ps (row_update ap_id i f ps)"
  unfolding lives_on_def
proof (intro ballI)
  fix p assume p: "p \<in> set ps"
  show "\<exists>p' \<in> set (row_update ap_id i f ps). substance p' = substance p \<and> may_become (ap_status p) (ap_status p')"
  proof (cases "ap_id p = i")
    case True
    then show ?thesis using assms[OF p True] in_row_updateI[of p ps ap_id i f] p by blast
  next
    case False
    then have "p \<in> set (row_update ap_id i f ps)" using p by (force simp: row_update_def)
    then show ?thesis using lives_on_refl[of "[p]"] by (auto simp: lives_on_def)
  qed
qed

lemma lives_on_decision:
  assumes "ai_ok s" "decision_written now t u i comment d st s s'"
    "st \<in> {AIActionProposalStatus_APPROVED, AIActionProposalStatus_REJECTED}"
  shows "lives_on (proposals s) (proposals s')"
proof -
  obtain p where p: "get_proposal t i s = Some p" "ap_status p = AIActionProposalStatus_PENDING"
    using assms(2) by (auto simp: decision_written_def)
  have "q = p" if "q \<in> set (proposals s)" "ap_id q = i" for q
    using assms(1) that get_proposal_Some[OF p(1)] by (auto simp: ai_ok_def decided_ok_def dest: distinct_keys_eq)
  then have "lives_on (proposals s) (row_update ap_id i (\<lambda>r. r\<lparr>ap_status := st\<rparr>) (proposals s))"
    using p(2) assms(3) by (intro lives_on_write) (auto simp: substance_def)
  then show ?thesis using assms(2) by (simp add: decision_written_def)
qed

lemma lives_on_execute:
  assumes "ai_ok s" "execute_proposal now t u i s = (Inr r, s')"
  shows "lives_on (proposals s) (proposals s')"
proof -
  obtain p where p: "get_proposal t i s = Some p" "ap_status p \<notin> {AIActionProposalStatus_EXECUTED,
      AIActionProposalStatus_REJECTED, AIActionProposalStatus_CANCELLED}"
    and s': "proposals s' = row_update ap_id i (executed now u) (proposals s)"
    using execute_proposal_ok[OF assms(2)] by blast
  have same: "q = p" if "q \<in> set (proposals s)" "ap_id q = i" for q
    using assms(1) that get_proposal_Some[OF p(1)] by (auto simp: ai_ok_def decided_ok_def dest: distinct_keys_eq)
  have "ap_status p \<noteq> AIActionProposalStatus_EXPIRED"
    using proposal_in_state[OF assms(1) p(1)] by (auto simp: proposal_ok_def)
  then have "may_become (ap_status p) AIActionProposalStatus_EXECUTED" using p(2) by (cases "ap_status p") auto
  then show ?thesis unfolding s' using same by (intro lives_on_write) (auto simp: substance_def executed_def)
qed

lemma lives_on_same:
  assumes "\<And>n ps avs. preserves (same_decisions n ps avs) m"
  shows "lives_on (proposals s) (proposals (snd (atomic m s)))"
proof -
  have "same_decisions (next_id s) (proposals s) (approvals s) (snd (atomic m s))"
    by (rule preserves_snd[OF preserves_atomic[OF assms]]) (simp add: same_decisions_def)
  then show ?thesis using lives_on_refl by (simp add: same_decisions_def)
qed

lemma lives_on_atomic:
  "(\<And>x s'. m s = (Inr x, s') \<Longrightarrow> lives_on (proposals s) (proposals s')) \<Longrightarrow>
     lives_on (proposals s) (proposals (snd (atomic m s)))"
  using lives_on_refl by (rule atomic_keeps[of "\<lambda>s'. lives_on (proposals s) (proposals s')"])

lemma lives_on_create:
  "create_proposal now t u gp s = (Inr x, s') \<Longrightarrow> lives_on (proposals s) (proposals s')"
  "create_task now t u gk s = (Inr y, s') \<Longrightarrow> lives_on (proposals s) (proposals s')"
proof -
  show "lives_on (proposals s) (proposals s')" if "create_proposal now t u gp s = (Inr x, s')"
    using that unfolding create_proposal_def
    by (auto simp: svc_ok insert_proposal_def lives_on_insert split: option.splits dest!: log_and_usage_ok)
  show "lives_on (proposals s) (proposals s')" if run: "create_task now t u gk s = (Inr y, s')"
  proof -
    obtain k s1 where before: "open_task t u gk s = (Inr k, s1)"
      and mock: "whenS (gk_run_mock gk) (run_mock_task now t u (at_agent_id k) k) s1 = (Inr (), s')"
      using run by (auto simp: create_task_def svc_ok)
    have "proposals s1 = proposals s"
      using before unfolding open_task_def insert_task_row_def record_ai_usage_def
      by (auto simp: svc_ok assert_feature_def assert_enabled_def split: option.splits if_splits)
    then show ?thesis
      using mock lives_on_refl lives_on_insert by (auto simp: svc_ok split: if_splits dest!: run_mock_task_ok)
  qed
qed

text \<open>C26: The life of a proposal: every request keeps every proposal, with the action, the payload, the target,
  the criticality and the expiry a user saw when deciding on it, and moves its status at most from pending
  to approved, rejected or executed, or from approved to executed.\<close>

theorem proposal_lifecycle:
  assumes "reachable ai_start ai_step s" and "ai_step s s'" and "p \<in> set (proposals s)"
  shows "\<exists>p' \<in> set (proposals s'). substance p' = substance p \<and> may_become (ap_status p) (ap_status p')"
proof -
  note ok = ai.reachable_inv[OF assms(1)]
  have "lives_on (proposals s) (proposals s')"
    using assms(2)
  proof cases
    case step_approve
    show ?thesis unfolding step_approve
      by (rule lives_on_atomic) (rule lives_on_decision[OF ok approve_proposal_ok], assumption, simp)
  next
    case step_reject
    show ?thesis unfolding step_reject
      by (rule lives_on_atomic) (rule lives_on_decision[OF ok reject_proposal_ok], assumption, simp)
  next
    case step_execute
    show ?thesis unfolding step_execute by (rule lives_on_atomic) (rule lives_on_execute[OF ok])
  next
    case step_create_task
    show ?thesis unfolding step_create_task by (rule lives_on_atomic) (rule lives_on_create)
  next
    case step_create_proposal
    show ?thesis unfolding step_create_proposal by (rule lives_on_atomic) (rule lives_on_create)
  qed (simp_all add: lives_on_same preserves_sd_agents)
  then show ?thesis using assms(3) by (simp add: lives_on_def)
qed

theorem proposal_lifecycle_witness:
  "\<exists>p' p. p \<in> set (proposals lab_approved) \<and> p' \<in> set (proposals lab_executed) \<and> substance p' = substance p \<and>
     ap_id p = 20 \<and> may_become (ap_status p) (ap_status p')"
proof -
  have "ai_step lab_approved lab_executed" unfolding lab_executed_def by (rule ai_step.intros)
  moreover have "map ap_id (proposals lab_approved) = [20, 21]" by code_simp
  then obtain p q where "proposals lab_approved = [p, q]" "ap_id p = 20" by (auto simp: map_eq_Cons_conv)
  then have "p \<in> set (proposals lab_approved)" "ap_id p = 20" by simp_all
  ultimately show ?thesis using proposal_lifecycle[OF lab_reachable(2)] by blast
qed

text \<open>C38: An expired proposal can no longer be approved, but it stays pending and can be executed: the
  approval raises, the rollback of the request takes back the status expired it had written, and
  the execution, which looks at the status only, returns when the action needs no approval.\<close>

theorem expired_proposal_executes:
  assumes "get_proposal t i s = Some p" "ap_status p = AIActionProposalStatus_PENDING"
    and "ap_expires_at p = Some e" "e < now"
    and "get_agent t (ap_agent_id p) s = Some a" "\<not> (ap_is_critical p \<and> ag_requires_approval_for_critical a)"
  shows "atomic (approve_proposal now t u i comment) s = (Inl (ConflictError ''Proposal has expired''), s) \<and>
    (\<exists>r s'. execute_proposal now t u i s = (Inr r, s') \<and> ap_status r = AIActionProposalStatus_EXECUTED)"
proof
  show "atomic (approve_proposal now t u i comment) s = (Inl (ConflictError ''Proposal has expired''), s)"
    using assms(1-4)
    by (simp add: approve_proposal_def get_proposal_or_404_def svc_eval ensure_pending_def is_expired_def
        write_proposal_def)
  have "row_find (\<lambda>q. ap_tenant_id q = t \<and> ap_id q = i) ps = Some p \<Longrightarrow>
      row_find (\<lambda>q. ap_tenant_id q = t \<and> ap_id q = i) (row_update ap_id i (executed now u) ps) = Some (executed now u p)" for ps
    by (induction ps) (auto simp: executed_def split: if_splits)
  then show "\<exists>r s'. execute_proposal now t u i s = (Inr r, s') \<and> ap_status r = AIActionProposalStatus_EXECUTED"
    using assms get_proposal_Some[OF assms(1)]
    by (simp add: execute_proposal_def get_proposal_or_404_def get_agent_or_404_def svc_eval write_proposal_def
        log_proposal_def record_audit_eval record_ai_usage_def get_proposal_def scoped_get_def)
      (simp add: executed_def)
qed

theorem expired_proposal_executes_witness:
  "fst (atomic (approve_proposal (8 * day_usec) 2 lab_user 21 None) lab_proposed) =
     Inl (ConflictError ''Proposal has expired'') \<and>
   (\<exists>r s'. execute_proposal (8 * day_usec) 2 lab_user 21 lab_proposed = (Inr r, s') \<and>
      ap_status r = AIActionProposalStatus_EXECUTED)"
proof -
  have "case get_proposal 2 21 lab_proposed of None \<Rightarrow> False | Some p \<Rightarrow>
      ap_status p = AIActionProposalStatus_PENDING \<and> ap_expires_at p = Some (7 * day_usec) \<and>
      \<not> ap_is_critical p \<and> get_agent 2 (ap_agent_id p) lab_proposed \<noteq> None"
    by code_simp
  then obtain p a where p: "get_proposal 2 21 lab_proposed = Some p" "ap_status p = AIActionProposalStatus_PENDING"
    "ap_expires_at p = Some (7 * day_usec)" "\<not> ap_is_critical p" "get_agent 2 (ap_agent_id p) lab_proposed = Some a"
    by (auto split: option.splits)
  have "7 * day_usec < 8 * day_usec" by simp
  from expired_proposal_executes[OF p(1,2,3) this p(5), of lab_user None] p(4) show ?thesis by simp
qed

end
