(* ===== verification/Template_Engine.thy ===== *)
theory Template_Engine
  imports Session
begin

text \<open>
  \<^verbatim>\<open>documents/template_engine.py\<close>: the placeholders of a template body and their replacement.  Bodies and
  contexts hold any text, so a text is the list of its code points here.
\<close>

type_synonym utext = "int list"
type_synonym placeholder_values = "(utext \<times> utext) list"

definition codes :: "string \<Rightarrow> utext" where
  "codes s = map of_char s"

definition chars :: "utext \<Rightarrow> string" where
  "chars t = map char_of t"

lemma chars_codes [simp]: "chars (codes s) = s"
  by (induction s) (simp_all add: chars_def codes_def)

lemma codes_eq [simp]: "codes x = codes y \<longleftrightarrow> x = y"
  by (metis chars_codes)

subsection \<open>The pattern\<close>

text \<open>
  \<open>re_space\<close> is the class \<^verbatim>\<open>\s\<close> of a pattern over \<^verbatim>\<open>str\<close>, \<open>word_char\<close> the class
  \<^verbatim>\<open>[a-zA-Z0-9_]\<close>.
\<close>

definition re_space :: "int \<Rightarrow> bool" where
  "re_space c \<longleftrightarrow> 9 \<le> c \<and> c \<le> 13 \<or> 28 \<le> c \<and> c \<le> 32 \<or> c = 133 \<or> c = 160 \<or> c = 5760 \<or>
     8192 \<le> c \<and> c \<le> 8202 \<or> c = 8232 \<or> c = 8233 \<or> c = 8239 \<or> c = 8287 \<or> c = 12288"

definition word_char :: "int \<Rightarrow> bool" where
  "word_char c \<longleftrightarrow> 97 \<le> c \<and> c \<le> 122 \<or> 65 \<le> c \<and> c \<le> 90 \<or> 48 \<le> c \<and> c \<le> 57 \<or> c = 95"

text \<open>
  \<^verbatim>\<open>PLACEHOLDER_PATTERN.match\<close> at the start of a text: the key and the rest.  The classes of the
  pattern are disjoint from their successors, so the greedy match is the only one.
\<close>

definition match_placeholder :: "utext \<Rightarrow> (utext \<times> utext) option" where
  "match_placeholder t =
     (case t of
        a # b # t1 \<Rightarrow>
          (let t2 = dropWhile re_space t1; key = takeWhile word_char t2;
               t3 = dropWhile re_space (dropWhile word_char t2) in
           case t3 of
             c # d # rest \<Rightarrow>
               if a = 123 \<and> b = 123 \<and> key \<noteq> [] \<and> c = 125 \<and> d = 125 then Some (key, rest) else None
           | _ \<Rightarrow> None)
      | _ \<Rightarrow> None)"

text \<open>
  \<^verbatim>\<open>findall\<close> and \<^verbatim>\<open>sub\<close> walk the text from left to right and resume after a match: the pieces of
  the text between matches, character by character, and the keys matched.
\<close>

datatype piece = Lit int | Hole utext

lemma match_placeholder_shorter:
  assumes "match_placeholder t = Some (key, rest)"
  shows "length rest < length t"
proof -
  obtain a b t1 where t: "t = a # b # t1"
    using assms by (auto simp: match_placeholder_def split: list.splits)
  define t3 where "t3 = dropWhile re_space (dropWhile word_char (dropWhile re_space t1))"
  have "\<exists>c d. t3 = c # d # rest"
    using assms by (auto simp: match_placeholder_def t t3_def Let_def split: list.splits if_splits)
  then have "length rest \<le> length t3" by auto
  also have "length t3 \<le> length t1"
    unfolding t3_def by (metis le_trans length_dropWhile_le)
  finally show ?thesis by (simp add: t)
qed

function scan :: "utext \<Rightarrow> piece list" where
  "scan [] = []"
| "scan (c # t) = (case match_placeholder (c # t) of
      Some (key, rest) \<Rightarrow> Hole key # scan rest
    | None \<Rightarrow> Lit c # scan t)"
  by pat_completeness auto
termination
  by (relation "measure length") (auto dest: match_placeholder_shorter)

fun holes :: "piece list \<Rightarrow> utext list" where
  "holes [] = []"
| "holes (Lit c # ps) = holes ps"
| "holes (Hole k # ps) = k # holes ps"

text \<open>\<^verbatim>\<open>extract_placeholders\<close>: the set of the keys, listed without duplicates.\<close>

definition extract_placeholders :: "utext \<Rightarrow> utext list" where
  "extract_placeholders body = remdups (holes (scan body))"

text \<open>
  \<^verbatim>\<open>render_template\<close>: the replacer raises \<^verbatim>\<open>KeyError(key)\<close> at the first key the context lacks.
\<close>

fun replace_all :: "placeholder_values \<Rightarrow> piece list \<Rightarrow> utext + utext" where
  "replace_all ctx [] = Inr []"
| "replace_all ctx (Lit c # ps) = (case replace_all ctx ps of Inl k \<Rightarrow> Inl k | Inr t \<Rightarrow> Inr (c # t))"
| "replace_all ctx (Hole k # ps) =
     (case map_of ctx k of
        None \<Rightarrow> Inl k
      | Some v \<Rightarrow> (case replace_all ctx ps of Inl k' \<Rightarrow> Inl k' | Inr t \<Rightarrow> Inr (v @ t)))"

definition render_template :: "utext \<Rightarrow> placeholder_values \<Rightarrow> utext + utext" where
  "render_template body ctx = replace_all ctx (scan body)"

subsection \<open>What rendering does\<close>

lemma holes_append [simp]: "holes (ps @ qs) = holes ps @ holes qs"
  by (induction ps rule: holes.induct) auto

lemma set_extract [simp]: "set (extract_placeholders body) = set (holes (scan body))"
  by (simp add: extract_placeholders_def)

text \<open>The text a piece stands for under a context that has its key.\<close>

fun piece_text :: "placeholder_values \<Rightarrow> piece \<Rightarrow> utext" where
  "piece_text ctx (Lit c) = [c]"
| "piece_text ctx (Hole k) = (case map_of ctx k of None \<Rightarrow> [] | Some v \<Rightarrow> v)"

lemma replace_all_ok:
  "(\<forall>k \<in> set (holes ps). map_of ctx k \<noteq> None) \<Longrightarrow>
     replace_all ctx ps = Inr (concat (map (piece_text ctx) ps))"
  by (induction ps rule: holes.induct) auto

lemma replace_all_missing:
  "replace_all ctx ps = Inl k \<longleftrightarrow>
     (\<exists>before after. holes ps = before @ k # after \<and> map_of ctx k = None \<and>
        (\<forall>x \<in> set before. map_of ctx x \<noteq> None))"
proof (induction ps rule: holes.induct)
  case 1
  show ?case by simp
next
  case (2 c ps)
  have "replace_all ctx (Lit c # ps) = Inl k \<longleftrightarrow> replace_all ctx ps = Inl k"
    by (simp split: sum.splits)
  then show ?case using 2 by simp
next
  case (3 h ps)
  show ?case
  proof (cases "map_of ctx h")
    case None
    have "(\<exists>before after. h # holes ps = before @ k # after \<and> map_of ctx k = None \<and>
        (\<forall>x \<in> set before. map_of ctx x \<noteq> None)) \<longleftrightarrow> k = h" (is "?l \<longleftrightarrow> _")
    proof
      assume ?l
      then obtain before after where split: "h # holes ps = before @ k # after"
        "\<forall>x \<in> set before. map_of ctx x \<noteq> None" by blast
      then show "k = h" using None by (cases before) auto
    next
      assume "k = h"
      then show ?l using None by (intro exI[of _ "[]"] exI[of _ "holes ps"]) simp
    qed
    then show ?thesis using None by auto
  next
    case (Some v)
    have "replace_all ctx (Hole h # ps) = Inl k \<longleftrightarrow> replace_all ctx ps = Inl k"
      using Some by (simp split: sum.splits)
    also have "\<dots> \<longleftrightarrow> (\<exists>before after. h # holes ps = before @ k # after \<and> map_of ctx k = None \<and>
        (\<forall>x \<in> set before. map_of ctx x \<noteq> None))" (is "_ \<longleftrightarrow> ?r")
    proof
      assume "replace_all ctx ps = Inl k"
      then obtain before after where "holes ps = before @ k # after" "map_of ctx k = None"
        "\<forall>x \<in> set before. map_of ctx x \<noteq> None" using 3 by blast
      then show ?r using Some by (intro exI[of _ "h # before"] exI[of _ after]) simp
    next
      assume ?r
      then obtain before after where split: "h # holes ps = before @ k # after" "map_of ctx k = None"
        "\<forall>x \<in> set before. map_of ctx x \<noteq> None" by blast
      then obtain before' where "before = h # before'" using Some by (cases before) auto
      then show "replace_all ctx ps = Inl k" using split 3 by auto
    qed
    finally show ?thesis by simp
  qed
qed

subsection \<open>Printing a template\<close>

text \<open>
  A template written piece by piece: \<open>canonical\<close> pieces are characters other than an opening brace
  and keys the pattern accepts.  Scanning what was printed gives the pieces back, whatever white space the
  author puts inside the braces.
\<close>

fun print_piece :: "utext \<Rightarrow> utext \<Rightarrow> piece \<Rightarrow> utext" where
  "print_piece l r (Lit c) = [c]"
| "print_piece l r (Hole k) = [123, 123] @ l @ k @ r @ [125, 125]"

definition print_pieces :: "utext \<Rightarrow> utext \<Rightarrow> piece list \<Rightarrow> utext" where
  "print_pieces l r ps = concat (map (print_piece l r) ps)"

fun canonical :: "piece \<Rightarrow> bool" where
  "canonical (Lit c) \<longleftrightarrow> c \<noteq> 123"
| "canonical (Hole k) \<longleftrightarrow> k \<noteq> [] \<and> list_all word_char k"

lemma word_not_space: "word_char c \<Longrightarrow> \<not> re_space c"
  by (auto simp: word_char_def re_space_def)

lemma space_not_word: "re_space c \<Longrightarrow> \<not> word_char c"
  using word_not_space by blast

lemma brace_class [simp]: "\<not> word_char 125" "\<not> re_space 125"
  by (simp_all add: word_char_def re_space_def)

lemma takeWhile_block:
  "list_all P xs \<Longrightarrow> (ys = [] \<or> \<not> P (hd ys)) \<Longrightarrow> takeWhile P (xs @ ys) = xs \<and> dropWhile P (xs @ ys) = ys"
  by (induction xs) (cases ys, auto)

lemma match_printed_hole:
  assumes "k \<noteq> []" "list_all word_char k" "list_all re_space l" "list_all re_space r"
  shows "match_placeholder ([123, 123] @ l @ k @ r @ [125, 125] @ t) = Some (k, t)"
proof -
  have "\<not> re_space (hd (k @ r @ 125 # 125 # t))"
    using assms(1,2) word_not_space by (cases k) auto
  then have 1: "dropWhile re_space (l @ k @ r @ 125 # 125 # t) = k @ r @ 125 # 125 # t"
    using takeWhile_block[OF assms(3)] by blast
  have "\<not> word_char (hd (r @ 125 # 125 # t))"
    using assms(4) space_not_word by (cases r) auto
  then have 2: "takeWhile word_char (k @ r @ 125 # 125 # t) = k"
    "dropWhile word_char (k @ r @ 125 # 125 # t) = r @ 125 # 125 # t"
    using takeWhile_block[OF assms(2)] by blast+
  have 3: "dropWhile re_space (r @ 125 # 125 # t) = 125 # 125 # t"
    using takeWhile_block[OF assms(4)] by auto
  show ?thesis using assms(1) by (simp add: match_placeholder_def Let_def 1 2 3)
qed

lemma match_placeholder_brace: "c \<noteq> 123 \<Longrightarrow> match_placeholder (c # t) = None"
  by (auto simp: match_placeholder_def Let_def split: list.split)

lemma scan_print_pieces:
  assumes "list_all canonical ps" "list_all re_space l" "list_all re_space r"
  shows "scan (print_pieces l r ps) = ps"
  using assms(1)
proof (induction ps)
  case Nil
  show ?case by (simp add: print_pieces_def)
next
  case (Cons p ps)
  show ?case
  proof (cases p)
    case (Lit c)
    then have "match_placeholder (c # print_pieces l r ps) = None"
      using Cons.prems by (simp add: match_placeholder_brace)
    then show ?thesis using Cons Lit by (simp add: print_pieces_def)
  next
    case (Hole k)
    have "match_placeholder ([123, 123] @ l @ k @ r @ [125, 125] @ print_pieces l r ps) =
        Some (k, print_pieces l r ps)"
      using Cons.prems assms(2,3) Hole by (intro match_printed_hole) auto
    then show ?thesis using Cons Hole by (simp add: print_pieces_def)
  qed
qed

end
