(* ===== verification/Document_Storage.thy ===== *)
theory Document_Storage
  imports Template_Engine
begin

text \<open>
  \<^verbatim>\<open>documents/storage.py\<close>: the files of the documents under the storage directory.  The disk is the part of
  a POSIX file system the code touches: its directories and its files with their bytes, by absolute path.
  \<^verbatim>\<open>pathlib\<close> joins and compares paths by their components; only the operating system resolves
  \<^verbatim>\<open>..\<close> when a file is opened.  Names the system refuses (a NUL byte, too long) are not modelled.
\<close>

type_synonym path = "string list"

record disk =
  dirs :: "path list"
  files :: "(path \<times> int list) list"

text \<open>A \<^verbatim>\<open>Path\<close>: whether it is absolute, and its components with \<^verbatim>\<open>""\<close> and \<^verbatim>\<open>"."\<close> dropped.\<close>

fun split_slash :: "string \<Rightarrow> string list" where
  "split_slash [] = [[]]"
| "split_slash (c # s) = (case split_slash s of
      [] \<Rightarrow> [[c]]
    | w # ws \<Rightarrow> if c = CHR 47 then [] # w # ws else (c # w) # ws)"

definition path_parts :: "string \<Rightarrow> path" where
  "path_parts s = filter (\<lambda>w. w \<noteq> [] \<and> w \<noteq> ''.'') (split_slash s)"

definition is_absolute :: "string \<Rightarrow> bool" where
  "is_absolute s \<longleftrightarrow> s \<noteq> [] \<and> hd s = CHR 47"

text \<open>\<^verbatim>\<open>base / name\<close>: an absolute right operand replaces the left one.\<close>

definition path_join :: "path \<Rightarrow> string \<Rightarrow> path" where
  "path_join base name = (if is_absolute name then path_parts name else base @ path_parts name)"

text \<open>\<^verbatim>\<open>target.relative_to(base)\<close>: the components of the base must be a prefix.\<close>

definition relative_to :: "path \<Rightarrow> path \<Rightarrow> path option" where
  "relative_to target base =
     (if take (length base) target = base then Some (drop (length base) target) else None)"

text \<open>\<^verbatim>\<open>str(path)\<close>.\<close>

definition path_str :: "path \<Rightarrow> string" where
  "path_str p = (if p = [] then ''.'' else join_with ''/'' p)"

text \<open>\<^verbatim>\<open>s.replace("\\", "/")\<close>.\<close>

definition forward_slashes :: "string \<Rightarrow> string" where
  "forward_slashes s = map (\<lambda>c. if c = CHR 92 then CHR 47 else c) s"

text \<open>Opening a path: every component but the last must be a directory.\<close>

fun walk :: "disk \<Rightarrow> path \<Rightarrow> path \<Rightarrow> path option" where
  "walk d cur [] = Some cur"
| "walk d cur (w # ws) =
     (if cur \<in> set (dirs d) then walk d (if w = ''..'' then butlast cur else cur @ [w]) ws else None)"

definition write_bytes :: "path \<Rightarrow> int list \<Rightarrow> disk \<Rightarrow> disk option" where
  "write_bytes target content d =
     (case walk d [] target of
        None \<Rightarrow> None
      | Some p \<Rightarrow>
          if p \<in> set (dirs d) then None
          else Some (d\<lparr>files := (p, content) # filter (\<lambda>e. fst e \<noteq> p) (files d)\<rparr>))"

text \<open>\<^verbatim>\<open>path.mkdir(parents=True, exist_ok=True)\<close>.\<close>

definition prefixes_of :: "path \<Rightarrow> path list" where
  "prefixes_of p = map (\<lambda>n. take n p) [0 ..< Suc (length p)]"

definition mkdir_parents :: "path \<Rightarrow> disk \<Rightarrow> disk option" where
  "mkdir_parents p d =
     (if list_ex (\<lambda>q. q \<in> fst ` set (files d)) (prefixes_of p) then None
      else Some (d\<lparr>dirs := dirs d @ filter (\<lambda>q. q \<notin> set (dirs d)) (prefixes_of p)\<rparr>))"

text \<open>
  \<^verbatim>\<open>document_dir\<close>.  The storage directory and the text of an identifier (\<^verbatim>\<open>str(uuid)\<close>) are parameters.
\<close>

record storage =
  st_path :: path
  st_uuid :: "uuid \<Rightarrow> string"

definition tenant_documents_path :: "storage \<Rightarrow> uuid \<Rightarrow> path" where
  "tenant_documents_path st t =
     path_join (path_join (path_join (st_path st) ''tenants'') (st_uuid st t)) ''documents''"

definition document_path :: "storage \<Rightarrow> uuid \<Rightarrow> uuid \<Rightarrow> path" where
  "document_path st t i = path_join (tenant_documents_path st t) (st_uuid st i)"

definition document_dir :: "storage \<Rightarrow> uuid \<Rightarrow> uuid \<Rightarrow> disk \<Rightarrow> disk option" where
  "document_dir st t i d =
     (case mkdir_parents (tenant_documents_path st t) d of
        None \<Rightarrow> None
      | Some d' \<Rightarrow> mkdir_parents (document_path st t i) d')"

text \<open>\<^verbatim>\<open>str.encode("utf-8")\<close> of a text without surrogates.\<close>

definition utf8_char :: "int \<Rightarrow> int list" where
  "utf8_char c =
     (if c < 128 then [c]
      else if c < 2048 then [192 + c div 64, 128 + c mod 64]
      else if c < 65536 then [224 + c div 4096, 128 + c div 64 mod 64, 128 + c mod 64]
      else [240 + c div 262144, 128 + c div 4096 mod 64, 128 + c div 64 mod 64, 128 + c mod 64])"

definition utf8 :: "utext \<Rightarrow> int list" where
  "utf8 t = concat (map utf8_char t)"

text \<open>
  \<^verbatim>\<open>save_binary_file\<close> and \<^verbatim>\<open>save_text_file\<close>: the file is written before \<^verbatim>\<open>relative_to\<close> can
  refuse its path, and what was written stays.
\<close>

definition save_binary_file ::
    "storage \<Rightarrow> uuid \<Rightarrow> uuid \<Rightarrow> string \<Rightarrow> int list \<Rightarrow> disk \<Rightarrow> (exn + string \<times> nat) \<times> disk" where
  "save_binary_file st t i filename data d =
     (case document_dir st t i d of
        None \<Rightarrow> (Inl (PyOSError ''mkdir''), d)
      | Some d1 \<Rightarrow>
          let target = path_join (document_path st t i) filename in
          (case write_bytes target data d1 of
             None \<Rightarrow> (Inl (PyOSError ''open''), d1)
           | Some d2 \<Rightarrow>
               (case relative_to target (st_path st) of
                  None \<Rightarrow> (Inl (PyValueError ''is not in the subpath of''), d2)
                | Some p \<Rightarrow> (Inr (forward_slashes (path_str p), length data), d2))))"

definition save_text_file ::
    "storage \<Rightarrow> uuid \<Rightarrow> uuid \<Rightarrow> string \<Rightarrow> utext \<Rightarrow> disk \<Rightarrow> (exn + string \<times> nat) \<times> disk" where
  "save_text_file st t i filename content d = save_binary_file st t i filename (utf8 content) d"

subsection \<open>Plain names\<close>

text \<open>A file name of one component: such are the names the service makes itself.\<close>

definition plain_name :: "string \<Rightarrow> bool" where
  "plain_name w \<longleftrightarrow> w \<noteq> [] \<and> w \<noteq> ''.'' \<and> w \<noteq> ''..'' \<and> CHR 47 \<notin> set w"

lemma split_slash_plain: "CHR 47 \<notin> set w \<Longrightarrow> split_slash w = [w]"
  by (induction w) auto

lemma path_join_plain [simp]: "plain_name w \<Longrightarrow> path_join base w = base @ [w]"
  unfolding path_join_def path_parts_def is_absolute_def plain_name_def
  by (cases w) (auto simp: split_slash_plain)

lemma plain_literals [simp]: "plain_name ''tenants''" "plain_name ''documents''"
  by (simp_all add: plain_name_def)

text \<open>
  What the storage relies on: \<^verbatim>\<open>str(uuid)\<close> is one component and distinguishes identifiers, and the
  storage directory is given without \<^verbatim>\<open>..\<close>.
\<close>

definition storage_ok :: "storage \<Rightarrow> bool" where
  "storage_ok st \<longleftrightarrow> inj (st_uuid st) \<and> (\<forall>i. plain_name (st_uuid st i)) \<and> list_all plain_name (st_path st)"

lemma document_path_plain:
  "storage_ok st \<Longrightarrow>
     document_path st t i = st_path st @ [''tenants'', st_uuid st t, ''documents'', st_uuid st i]"
  by (simp add: storage_ok_def document_path_def tenant_documents_path_def)

lemma in_prefixes_of: "q \<in> set (prefixes_of p) \<longleftrightarrow> (\<exists>n \<le> length p. q = take n p)"
  by (auto simp: prefixes_of_def less_Suc_eq_le simp del: upt_Suc)

lemma mkdir_parents_Some:
  "mkdir_parents p d = Some d' \<Longrightarrow>
     files d' = files d \<and> set (dirs d') = set (dirs d) \<union> set (prefixes_of p) \<and>
     set (prefixes_of p) \<inter> fst ` set (files d) = {}"
  by (auto simp: mkdir_parents_def list_ex_iff split: if_splits)

lemma document_dir_Some:
  assumes "document_dir st t i d = Some d'"
  shows "files d' = files d \<and>
    set (dirs d') = set (dirs d) \<union> set (prefixes_of (tenant_documents_path st t)) \<union> set (prefixes_of (document_path st t i)) \<and>
    set (prefixes_of (document_path st t i)) \<inter> fst ` set (files d) = {} \<and>
    set (prefixes_of (tenant_documents_path st t)) \<inter> fst ` set (files d) = {}"
proof -
  obtain d1 where 1: "mkdir_parents (tenant_documents_path st t) d = Some d1"
    and 2: "mkdir_parents (document_path st t i) d1 = Some d'"
    using assms by (auto simp: document_dir_def split: option.splits)
  show ?thesis using mkdir_parents_Some[OF 1] mkdir_parents_Some[OF 2] by auto
qed

text \<open>A walk along plain components whose directories exist goes where the components say.\<close>

lemma walk_plain:
  assumes "list_all (\<lambda>w. w \<noteq> ''..'') ws" and "\<And>n. n < length ws \<Longrightarrow> cur @ take n ws \<in> set (dirs d)"
  shows "walk d cur ws = Some (cur @ ws)"
  using assms
proof (induction ws arbitrary: cur)
  case Nil
  show ?case by simp
next
  case (Cons w ws)
  have here: "cur \<in> set (dirs d)" using Cons.prems(2)[of 0] by simp
  have "(cur @ [w]) @ take n ws \<in> set (dirs d)" if "n < length ws" for n
    using Cons.prems(2)[of "Suc n"] that by simp
  then have "walk d (cur @ [w]) ws = Some ((cur @ [w]) @ ws)"
    using Cons.prems(1) by (intro Cons.IH) auto
  then show ?case using here Cons.prems(1) by simp
qed

lemma write_bytes_Some:
  "write_bytes target content d = Some d' \<Longrightarrow>
     \<exists>p. walk d [] target = Some p \<and> p \<notin> set (dirs d) \<and> dirs d' = dirs d \<and>
       files d' = (p, content) # filter (\<lambda>e. fst e \<noteq> p) (files d)"
  by (auto simp: write_bytes_def split: option.splits if_splits)

text \<open>
  A plain file name stays in the document's own directory: nothing but this file changes, and it holds the
  data afterwards.
\<close>

definition read_file :: "path \<Rightarrow> disk \<Rightarrow> int list option" where
  "read_file p d = map_of (files d) p"

lemma read_after_write:
  "map_of ((p, content) # filter (\<lambda>e. fst e \<noteq> p) fs) q = (if q = p then Some content else map_of fs q)"
  by (induction fs) auto

lemma plain_path_components:
  "storage_ok st \<Longrightarrow> plain_name name \<Longrightarrow>
     list_all (\<lambda>w. w \<noteq> ''..'') (document_path st t i @ [name])"
  by (auto simp: document_path_plain storage_ok_def plain_name_def list_all_iff)

lemma save_binary_file_plain:
  assumes st: "storage_ok st" and name: "plain_name name"
    and run: "save_binary_file st t i name data d = (Inr (p, n), d')"
  shows "p = forward_slashes (path_str [''tenants'', st_uuid st t, ''documents'', st_uuid st i, name]) \<and>
    n = length data \<and>
    read_file q d' = (if q = document_path st t i @ [name] then Some data else read_file q d)"
proof -
  let ?target = "document_path st t i @ [name]"
  obtain d1 d2 where dir: "document_dir st t i d = Some d1"
    and wr: "write_bytes ?target data d1 = Some d2"
    and out: "d' = d2" "n = length data"
      "p = forward_slashes (path_str [''tenants'', st_uuid st t, ''documents'', st_uuid st i, name])"
    using run name st by (auto simp: save_binary_file_def Let_def relative_to_def document_path_plain
        split: option.splits if_splits)
  have "walk d1 [] ?target = Some ([] @ ?target)"
  proof (rule walk_plain[OF plain_path_components[OF st name]])
    fix n assume "n < length ?target"
    then have "[] @ take n ?target \<in> set (prefixes_of (document_path st t i))"
      by (auto simp: in_prefixes_of intro: exI[of _ n])
    then show "[] @ take n ?target \<in> set (dirs d1)" using document_dir_Some[OF dir] by blast
  qed
  then have "files d2 = (?target, data) # filter (\<lambda>e. fst e \<noteq> ?target) (files d1)"
    using write_bytes_Some[OF wr] by auto
  then have "read_file q d' = (if q = ?target then Some data else read_file q d)"
    using document_dir_Some[OF dir] by (simp only: read_file_def out read_after_write)
  then show ?thesis using out by simp
qed

end
