(* ===== verification/Documents.thy ===== *)
theory Documents
  imports Entitlements Document_Storage
begin

text \<open>
  \<^verbatim>\<open>documents/models.py\<close>, \<^verbatim>\<open>documents/repository.py\<close>, \<^verbatim>\<open>documents/schemas.py\<close> and
  \<^verbatim>\<open>DocumentService\<close> of \<^verbatim>\<open>documents/service.py\<close>: templates with their fields, documents generated from
  them or imported, their files, signature requests and audit trail.  The disk is part of the state; a
  rollback of the session does not undo it.
\<close>

subsection \<open>Rows\<close>

record document_template =
  dt_id :: uuid
  dt_tenant_id :: uuid
  dt_code :: string
  dt_name :: string
  dt_description :: "string option"
  dt_document_type :: string
  dt_body_template :: utext
  dt_is_active :: bool
  dt_created_by_user_id :: uuid
  dt_updated_by_user_id :: uuid

record document_field =
  df_template_id :: uuid
  df_field_key :: utext
  df_label :: utext
  df_field_type :: string
  df_is_required :: bool
  df_default_value :: "utext option"

record document_instance =
  do_id :: uuid
  do_tenant_id :: uuid
  do_template_id :: "uuid option"
  do_title :: string
  do_status :: DocumentStatus
  do_rendered_content :: "utext option"
  do_context_json :: placeholder_values
  do_party_id :: "uuid option"
  do_work_item_id :: "uuid option"
  do_created_by_user_id :: uuid
  do_updated_by_user_id :: uuid

record document_file =
  dl_tenant_id :: uuid
  dl_document_id :: uuid
  dl_file_type :: DocumentFileType
  dl_storage_path :: string
  dl_filename :: string
  dl_mime_type :: string
  dl_size_bytes :: nat

record signature_request =
  sr_tenant_id :: uuid
  sr_document_id :: uuid
  sr_status :: SignatureStatus
  sr_sent_at :: "instant option"
  sr_signed_at :: "instant option"

record document_audit =
  da_tenant_id :: uuid
  da_document_id :: uuid
  da_action :: string
  da_actor_user_id :: "uuid option"
  da_details_json :: json

record document_db = billing_db +
  templates :: "document_template list"
  template_fields :: "document_field list"
  documents :: "document_instance list"
  document_files :: "document_file list"
  signature_requests :: "signature_request list"
  document_audits :: "document_audit list"
  storage_disk :: disk

subsection \<open>Repository\<close>

definition list_templates :: "uuid \<Rightarrow> bool \<Rightarrow> 'z document_db_scheme \<Rightarrow> document_template list" where
  "list_templates t active_only s =
     sort_key dt_name (filter (\<lambda>r. dt_tenant_id r = t \<and> (active_only \<longrightarrow> dt_is_active r)) (templates s))"

definition get_template :: "uuid \<Rightarrow> uuid \<Rightarrow> 'z document_db_scheme \<Rightarrow> document_template option" where
  "get_template t i s = scoped_get dt_tenant_id dt_id t i (templates s)"

definition get_template_by_code :: "uuid \<Rightarrow> string \<Rightarrow> 'z document_db_scheme \<Rightarrow> document_template option" where
  "get_template_by_code t code s = row_find (\<lambda>r. dt_tenant_id r = t \<and> dt_code r = code) (templates s)"

definition fields_of :: "uuid \<Rightarrow> 'z document_db_scheme \<Rightarrow> document_field list" where
  "fields_of i s = filter (\<lambda>f. df_template_id f = i) (template_fields s)"

definition insert_template :: "document_template \<Rightarrow> ('z document_db_scheme, unit) svc" where
  "insert_template r =
     bindS (gets (get_template_by_code (dt_tenant_id r) (dt_code r))) (\<lambda>existing.
     thenS (ensure (existing = None) (IntegrityError ''uq_document_template_tenant_code''))
     (modify (\<lambda>s. s\<lparr>templates := row_insert r (templates s)\<rparr>)))"

definition create_field :: "document_field \<Rightarrow> ('z document_db_scheme, unit) svc" where
  "create_field f =
     bindS (gets (fields_of (df_template_id f))) (\<lambda>fs.
     thenS (ensure (\<not> list_ex (\<lambda>g. df_field_key g = df_field_key f) fs)
       (IntegrityError ''uq_document_field_template_key''))
     (modify (\<lambda>s. s\<lparr>template_fields := row_insert f (template_fields s)\<rparr>)))"

text \<open>\<^verbatim>\<open>order_by(created_at.desc())\<close>: the newest first; \<open>skip\<close> and \<open>limit\<close> of the page.\<close>

definition list_documents ::
    "uuid \<Rightarrow> DocumentStatus option \<Rightarrow> uuid option \<Rightarrow> nat \<Rightarrow> nat \<Rightarrow> 'z document_db_scheme \<Rightarrow> document_instance list" where
  "list_documents t status party skip limit s =
     take limit (drop skip (rev (filter (\<lambda>d. do_tenant_id d = t \<and>
       (status \<noteq> None \<longrightarrow> status = Some (do_status d)) \<and>
       (party \<noteq> None \<longrightarrow> do_party_id d = party)) (documents s))))"

definition get_document :: "uuid \<Rightarrow> uuid \<Rightarrow> 'z document_db_scheme \<Rightarrow> document_instance option" where
  "get_document t i s = scoped_get do_tenant_id do_id t i (documents s)"

definition insert_document :: "document_instance \<Rightarrow> ('z document_db_scheme, unit) svc" where
  "insert_document d = modify (\<lambda>s. s\<lparr>documents := row_insert d (documents s)\<rparr>)"

definition create_file :: "document_file \<Rightarrow> ('z document_db_scheme, unit) svc" where
  "create_file f = modify (\<lambda>s. s\<lparr>document_files := row_insert f (document_files s)\<rparr>)"

definition create_signature_request :: "signature_request \<Rightarrow> ('z document_db_scheme, unit) svc" where
  "create_signature_request r = modify (\<lambda>s. s\<lparr>signature_requests := row_insert r (signature_requests s)\<rparr>)"

definition create_audit :: "document_audit \<Rightarrow> ('z document_db_scheme, unit) svc" where
  "create_audit a = modify (\<lambda>s. s\<lparr>document_audits := row_insert a (document_audits s)\<rparr>)"

definition write_document ::
    "uuid \<Rightarrow> (document_instance \<Rightarrow> document_instance) \<Rightarrow> ('z document_db_scheme, unit) svc" where
  "write_document i f = modify (\<lambda>s. s\<lparr>documents := row_update do_id i f (documents s)\<rparr>)"

definition write_template ::
    "uuid \<Rightarrow> (document_template \<Rightarrow> document_template) \<Rightarrow> ('z document_db_scheme, unit) svc" where
  "write_template i f = modify (\<lambda>s. s\<lparr>templates := row_update dt_id i f (templates s)\<rparr>)"

definition get_template_or_404 :: "uuid \<Rightarrow> uuid \<Rightarrow> ('z document_db_scheme, document_template) svc" where
  "get_template_or_404 t i =
     bindS (gets (get_template t i)) (\<lambda>x. or_raise x (NotFoundError ''Document template not found''))"

definition get_document_or_404 :: "uuid \<Rightarrow> uuid \<Rightarrow> ('z document_db_scheme, document_instance) svc" where
  "get_document_or_404 t i =
     bindS (gets (get_document t i)) (\<lambda>x. or_raise x (NotFoundError ''Document not found''))"

definition audit_document ::
    "uuid \<Rightarrow> uuid \<Rightarrow> uuid \<Rightarrow> string \<Rightarrow> json \<Rightarrow> ('z document_db_scheme, unit) svc" where
  "audit_document t i u action details =
     create_audit \<lparr>da_tenant_id = t, da_document_id = i, da_action = action, da_actor_user_id = Some u,
       da_details_json = details\<rparr>"

definition log_document :: "uuid \<Rightarrow> uuid \<Rightarrow> uuid \<Rightarrow> string \<Rightarrow> json \<Rightarrow> ('z document_db_scheme, unit) svc" where
  "log_document t u i summary meta =
     record_audit \<lparr>au_tenant_id = Some t, au_user_id = Some u, au_action = AuditAction_CREATE,
       au_entity_type = Some ''document_instance'', au_entity_id = Some i, au_summary = summary,
       au_changes_json = JObj [], au_ai_proposal_id = None, au_approved_by_user_id = None,
       au_metadata_json = meta\<rparr>"

text \<open>Work on the disk inside a call of the service, and the request around it.\<close>

definition on_disk :: "(disk \<Rightarrow> (exn + 'a) \<times> disk) \<Rightarrow> ('z document_db_scheme, 'a) svc" where
  "on_disk f s = (let (r, d) = f (storage_disk s) in (r, s\<lparr>storage_disk := d\<rparr>))"

definition document_request :: "('z document_db_scheme, 'a) svc \<Rightarrow> ('z document_db_scheme, 'a) svc" where
  "document_request m s =
     (case m s of
        (Inl e, s') \<Rightarrow> (Inl e, s\<lparr>storage_disk := storage_disk s'\<rparr>)
      | (Inr x, s') \<Rightarrow> (Inr x, s'))"

subsection \<open>Templates\<close>

record document_field_create =
  nf_field_key :: utext
  nf_label :: utext
  nf_field_type :: string
  nf_is_required :: bool
  nf_default_value :: "utext option"

record document_template_create =
  nt_code :: string
  nt_name :: string
  nt_description :: "string option"
  nt_document_type :: string
  nt_body_template :: utext
  nt_is_active :: bool
  nt_fields :: "document_field_create list"

record document_template_update =
  tu_name :: "string patch"
  tu_description :: "string patch"
  tu_document_type :: "string patch"
  tu_body_template :: "utext patch"
  tu_is_active :: "bool patch"

definition add_field :: "uuid \<Rightarrow> document_field_create \<Rightarrow> ('z document_db_scheme, unit) svc" where
  "add_field i f =
     create_field \<lparr>df_template_id = i, df_field_key = nf_field_key f, df_label = nf_label f,
       df_field_type = nf_field_type f, df_is_required = nf_is_required f, df_default_value = nf_default_value f\<rparr>"

definition new_template :: "uuid \<Rightarrow> uuid \<Rightarrow> user \<Rightarrow> document_template_create \<Rightarrow> document_template" where
  "new_template i t u payload =
     \<lparr>dt_id = i, dt_tenant_id = t, dt_code = nt_code payload, dt_name = nt_name payload,
      dt_description = nt_description payload, dt_document_type = nt_document_type payload,
      dt_body_template = nt_body_template payload, dt_is_active = nt_is_active payload,
      dt_created_by_user_id = us_id u, dt_updated_by_user_id = us_id u\<rparr>"

definition create_template ::
    "uuid \<Rightarrow> user \<Rightarrow> document_template_create \<Rightarrow> ('z document_db_scheme, document_template) svc" where
  "create_template t u payload =
     bindS (gets (get_template_by_code t (nt_code payload))) (\<lambda>existing.
     thenS (ensure (existing = None) (ConflictError ''Document template code already exists''))
     (bindS fresh_id (\<lambda>i.
     thenS (insert_template (new_template i t u payload))
     (thenS (for_each (nt_fields payload) (add_field i))
     (get_template_or_404 t i)))))"

definition apply_template_update :: "user \<Rightarrow> document_template_update \<Rightarrow> document_template \<Rightarrow> document_template" where
  "apply_template_update u payload r =
     r\<lparr>dt_name := patched (tu_name payload) (dt_name r),
       dt_description := patched_option (tu_description payload) (dt_description r),
       dt_document_type := patched (tu_document_type payload) (dt_document_type r),
       dt_body_template := patched (tu_body_template payload) (dt_body_template r),
       dt_is_active := patched (tu_is_active payload) (dt_is_active r),
       dt_updated_by_user_id := us_id u\<rparr>"

text \<open>A null for a column that is not nullable fails at the flush.\<close>

definition update_template ::
    "uuid \<Rightarrow> user \<Rightarrow> uuid \<Rightarrow> document_template_update \<Rightarrow> ('z document_db_scheme, document_template) svc" where
  "update_template t u i payload =
     bindS (get_template_or_404 t i) (\<lambda>r.
     thenS (ensure (\<not> is_null (tu_name payload) \<and> \<not> is_null (tu_document_type payload) \<and>
              \<not> is_null (tu_body_template payload) \<and> \<not> is_null (tu_is_active payload))
       (IntegrityError ''NOT NULL constraint failed''))
     (thenS (write_template (dt_id r) (apply_template_update u payload))
     (get_template_or_404 t i)))"

text \<open>
  \<^verbatim>\<open>_default_body_for_code\<close> and \<^verbatim>\<open>_default_fields_for_code\<close>, with the Russian texts as code
  points.
\<close>

definition default_body_for_code :: "string \<Rightarrow> utext" where
  "default_body_for_code code =
     (if code = ''parent_contract'' then
        [1044, 1054, 1043, 1054, 1042, 1054, 1056, 32, 8470] @ codes '' {{contract_number}}'' @ [10, 10] @
        [1047, 1072, 1082, 1086, 1085, 1085, 1099, 1081, 32, 1087, 1088, 1077, 1076, 1089, 1090, 1072, 1074, 1080, 1090, 1077, 1083, 1100] @
        codes '': {{guardian_name}}'' @ [10] @
        [1056, 1077, 1073, 1105, 1085, 1086, 1082] @ codes '': {{child_name}}'' @ [10] @
        [1044, 1072, 1090, 1072] @ codes '': {{contract_date}}'' @ [10]
      else if code = ''enrollment_application'' then
        [1047, 1040, 1071, 1042, 1051, 1045, 1053, 1048, 1045, 32, 1053, 1040, 32, 1047, 1040, 1063, 1048, 1057, 1051, 1045, 1053, 1048, 1045] @
        [10, 10] @ [1056, 1077, 1073, 1105, 1085, 1086, 1082] @ codes '': {{child_name}}'' @ [10] @
        [1047, 1072, 1082, 1086, 1085, 1085, 1099, 1081, 32, 1087, 1088, 1077, 1076, 1089, 1090, 1072, 1074, 1080, 1090, 1077, 1083, 1100] @
        codes '': {{guardian_name}}'' @ [10] @
        [1044, 1072, 1090, 1072] @ codes '': {{application_date}}'' @ [10]
      else
        [1044, 1086, 1082, 1091, 1084, 1077, 1085, 1090] @ codes '' {{document_code}}'' @ [10, 10] @
        [1057, 1086, 1076, 1077, 1088, 1078, 1072, 1085, 1080, 1077] @ codes '': {{body}}'' @ [10])"

record field_config =
  fc_field_key :: "utext option"
  fc_label :: "utext option"
  fc_field_type :: "string option"
  fc_is_required :: "bool option"
  fc_default_value :: "utext option"

definition required_field_config :: "string \<Rightarrow> utext \<Rightarrow> field_config" where
  "required_field_config key label =
     \<lparr>fc_field_key = Some (codes key), fc_label = Some label, fc_field_type = None,
      fc_is_required = Some True, fc_default_value = None\<rparr>"

definition default_fields_for_code :: "string \<Rightarrow> field_config list" where
  "default_fields_for_code code =
     (if code = ''parent_contract'' then
        [required_field_config ''contract_number''
           [1053, 1086, 1084, 1077, 1088, 32, 1076, 1086, 1075, 1086, 1074, 1086, 1088, 1072],
         required_field_config ''guardian_name''
           [1047, 1072, 1082, 1086, 1085, 1085, 1099, 1081, 32, 1087, 1088, 1077, 1076, 1089, 1090, 1072, 1074, 1080, 1090, 1077, 1083, 1100],
         required_field_config ''child_name'' [1056, 1077, 1073, 1105, 1085, 1086, 1082],
         required_field_config ''contract_date''
           [1044, 1072, 1090, 1072, 32, 1076, 1086, 1075, 1086, 1074, 1086, 1088, 1072]]
      else if code = ''enrollment_application'' then
        [required_field_config ''child_name'' [1056, 1077, 1073, 1105, 1085, 1086, 1082],
         required_field_config ''guardian_name''
           [1047, 1072, 1082, 1086, 1085, 1085, 1099, 1081, 32, 1087, 1088, 1077, 1076, 1089, 1090, 1072, 1074, 1080, 1090, 1077, 1083, 1100],
         required_field_config ''application_date''
           [1044, 1072, 1090, 1072, 32, 1079, 1072, 1103, 1074, 1083, 1077, 1085, 1080, 1103]]
      else [required_field_config ''body'' [1058, 1077, 1082, 1089, 1090]])"

text \<open>
  An entry of the configuration: the keys of its dict, \<open>None\<close> where the key is absent;
  \<^verbatim>\<open>item["code"]\<close> raises \<^verbatim>\<open>KeyError\<close> then.
\<close>

record template_config =
  tc_code :: "string option"
  tc_name :: "string option"
  tc_description :: "string option"
  tc_document_type :: "string option"
  tc_body_template :: "utext option"
  tc_fields :: "field_config list option"

definition add_configured_field :: "uuid \<Rightarrow> field_config \<Rightarrow> ('z document_db_scheme, unit) svc" where
  "add_configured_field i f =
     bindS (or_raise (fc_field_key f) (PyKeyError ''field_key'')) (\<lambda>key.
     bindS (or_raise (fc_label f) (PyKeyError ''label'')) (\<lambda>label.
     create_field \<lparr>df_template_id = i, df_field_key = key, df_label = label,
       df_field_type = (case fc_field_type f of None \<Rightarrow> ''string'' | Some x \<Rightarrow> x),
       df_is_required = (case fc_is_required f of None \<Rightarrow> False | Some x \<Rightarrow> x),
       df_default_value = fc_default_value f\<rparr>))"

definition configured_template ::
    "uuid \<Rightarrow> uuid \<Rightarrow> user \<Rightarrow> string \<Rightarrow> string \<Rightarrow> template_config \<Rightarrow> document_template" where
  "configured_template i t u code name item =
     \<lparr>dt_id = i, dt_tenant_id = t, dt_code = code, dt_name = name, dt_description = tc_description item,
      dt_document_type = (case tc_document_type item of None \<Rightarrow> ''contract'' | Some x \<Rightarrow> x),
      dt_body_template = (case tc_body_template item of
          None \<Rightarrow> default_body_for_code code
        | Some b \<Rightarrow> if b = [] then default_body_for_code code else b),
      dt_is_active = True, dt_created_by_user_id = us_id u, dt_updated_by_user_id = us_id u\<rparr>"

definition import_template :: "uuid \<Rightarrow> user \<Rightarrow> template_config \<Rightarrow> ('z document_db_scheme, nat) svc" where
  "import_template t u item =
     bindS (or_raise (tc_code item) (PyKeyError ''code'')) (\<lambda>code.
     bindS (gets (get_template_by_code t code)) (\<lambda>existing.
     if existing \<noteq> None then ret 0
     else
       bindS (or_raise (tc_name item) (PyKeyError ''name'')) (\<lambda>name.
       bindS fresh_id (\<lambda>i.
       thenS (insert_template (configured_template i t u code name item))
       (thenS (for_each (case tc_fields item of None \<Rightarrow> default_fields_for_code code | Some fs \<Rightarrow> fs)
                (add_configured_field i))
       (ret 1))))))"

fun import_templates_from_config ::
    "uuid \<Rightarrow> user \<Rightarrow> template_config list \<Rightarrow> ('z document_db_scheme, nat) svc" where
  "import_templates_from_config t u [] = ret 0"
| "import_templates_from_config t u (item # items) =
     bindS (import_template t u item) (\<lambda>n.
     bindS (import_templates_from_config t u items) (\<lambda>m. ret (n + m)))"

subsection \<open>Generation\<close>

record document_generate_request =
  gr_template_id :: uuid
  gr_title :: "string option"
  gr_context :: placeholder_values
  gr_party_id :: "uuid option"
  gr_work_item_id :: "uuid option"

definition ctx_set :: "utext \<Rightarrow> utext \<Rightarrow> placeholder_values \<Rightarrow> placeholder_values" where
  "ctx_set k v d =
     (if map_of d k = None then d @ [(k, v)] else map (\<lambda>(k', w). if k' = k then (k', v) else (k', w)) d)"

text \<open>\<^verbatim>\<open>_build_context\<close>: the defaults of the fields, then the placeholders still without a value.\<close>

fun fill_fields ::
    "utext list \<Rightarrow> document_field list \<Rightarrow> placeholder_values \<Rightarrow> exn + placeholder_values" where
  "fill_fields placeholders [] ctx = Inr ctx"
| "fill_fields placeholders (f # fs) ctx =
     (if map_of ctx (df_field_key f) \<noteq> None then fill_fields placeholders fs ctx
      else case df_default_value f of
        Some v \<Rightarrow> fill_fields placeholders fs (ctx_set (df_field_key f) v ctx)
      | None \<Rightarrow>
          if df_is_required f \<and> df_field_key f \<in> set placeholders
          then Inl (ConflictError (''Required field missing: '' @ chars (df_field_key f)))
          else fill_fields placeholders fs ctx)"

definition build_context ::
    "document_template \<Rightarrow> document_field list \<Rightarrow> placeholder_values \<Rightarrow> exn + placeholder_values" where
  "build_context r fs provided =
     (let placeholders = extract_placeholders (dt_body_template r) in
      case fill_fields placeholders fs provided of
        Inl e \<Rightarrow> Inl e
      | Inr ctx \<Rightarrow>
          (let missing = filter (\<lambda>k. map_of ctx k = None) placeholders in
           if missing = [] then Inr ctx
           else Inl (ConflictError (''Missing placeholder values: '' @
                  join_with '', '' (map chars (sort missing))))))"

definition raise_left :: "exn + 'a \<Rightarrow> ('s, 'a) svc" where
  "raise_left r = (case r of Inl e \<Rightarrow> raise e | Inr x \<Rightarrow> ret x)"

definition render_or_conflict :: "utext \<Rightarrow> placeholder_values \<Rightarrow> exn + utext" where
  "render_or_conflict body ctx =
     (case render_template body ctx of
        Inl k \<Rightarrow> Inl (ConflictError (''Missing placeholder value: '' @ chars k))
      | Inr t \<Rightarrow> Inr t)"

definition generated_document ::
    "uuid \<Rightarrow> uuid \<Rightarrow> user \<Rightarrow> document_template \<Rightarrow> document_generate_request \<Rightarrow> placeholder_values \<Rightarrow> utext \<Rightarrow>
     document_instance" where
  "generated_document i t u r payload ctx rendered =
     \<lparr>do_id = i, do_tenant_id = t, do_template_id = Some (dt_id r),
      do_title = (case gr_title payload of None \<Rightarrow> dt_name r | Some x \<Rightarrow> if x = [] then dt_name r else x),
      do_status = DocumentStatus_GENERATED, do_rendered_content = Some rendered, do_context_json = ctx,
      do_party_id = gr_party_id payload, do_work_item_id = gr_work_item_id payload,
      do_created_by_user_id = us_id u, do_updated_by_user_id = us_id u\<rparr>"

definition store_file ::
    "storage \<Rightarrow> uuid \<Rightarrow> uuid \<Rightarrow> DocumentFileType \<Rightarrow> string \<Rightarrow> string \<Rightarrow> int list \<Rightarrow> ('z document_db_scheme, unit) svc" where
  "store_file st t i kind filename mime content =
     bindS (on_disk (save_binary_file st t i filename content)) (\<lambda>(p, size).
     create_file \<lparr>dl_tenant_id = t, dl_document_id = i, dl_file_type = kind, dl_storage_path = p,
       dl_filename = filename, dl_mime_type = mime, dl_size_bytes = size\<rparr>)"

text \<open>The rest of \<^verbatim>\<open>generate_document\<close> once the text is rendered.\<close>

definition finish_generation ::
    "storage \<Rightarrow> uuid \<Rightarrow> user \<Rightarrow> document_template \<Rightarrow> document_instance \<Rightarrow> utext \<Rightarrow> ('z document_db_scheme, unit) svc" where
  "finish_generation st t u r d rendered =
     thenS (insert_document d)
     (thenS (store_file st t (do_id d) DocumentFileType_GENERATED (st_uuid st (do_id d) @ ''.txt'') ''text/plain''
               (utf8 rendered))
     (thenS (audit_document t (do_id d) (us_id u) ''generated'' (JObj [(''template_code'', JStr (dt_code r))]))
     (log_document t (us_id u) (do_id d) (''Document generated: '' @ do_title d)
        (JObj [(''template_code'', JStr (dt_code r))]))))"

definition generate_document ::
    "storage \<Rightarrow> uuid \<Rightarrow> user \<Rightarrow> document_generate_request \<Rightarrow> ('z document_db_scheme, document_instance) svc" where
  "generate_document st t u payload =
     bindS (get_template_or_404 t (gr_template_id payload)) (\<lambda>r.
     thenS (ensure (dt_is_active r) (ConflictError ''Document template is not active''))
     (bindS (gets (fields_of (dt_id r))) (\<lambda>fs.
     bindS (raise_left (build_context r fs (gr_context payload))) (\<lambda>ctx.
     bindS (raise_left (render_or_conflict (dt_body_template r) ctx)) (\<lambda>rendered.
     bindS fresh_id (\<lambda>i.
     thenS (finish_generation st t u r (generated_document i t u r payload ctx rendered) rendered)
     (get_document_or_404 t i)))))))"

end
