(* ===== verification/Document_Lifecycle.thy ===== *)
theory Document_Lifecycle
  imports Documents
begin

text \<open>
  The rest of \<^verbatim>\<open>DocumentService\<close>: import of legacy contracts (\<^verbatim>\<open>documents/schemas.py\<close>), changes of a
  document, its way to signature, and the requests of \<^verbatim>\<open>documents/routes.py\<close>.
\<close>

subsection \<open>Legacy contracts\<close>

text \<open>
  A finite \<^verbatim>\<open>Decimal\<close> with its sign, digits and exponent, and \<^verbatim>\<open>str(d)\<close>.
\<close>

record py_decimal =
  pd_negative :: bool
  pd_digits :: nat
  pd_exponent :: int

definition int_str_signed :: "int \<Rightarrow> string" where
  "int_str_signed i = (if i < 0 then ''-'' else ''+'') @ nat_str (nat \<bar>i\<bar>)"

definition decimal_str :: "py_decimal \<Rightarrow> string" where
  "decimal_str d =
     (let digits = nat_str (pd_digits d);
          leftdigits = pd_exponent d + int (length digits);
          dotplace = (if pd_exponent d \<le> 0 \<and> leftdigits > - 6 then leftdigits else 1);
          body = (if dotplace \<le> 0 then ''0.'' @ replicate (nat (- dotplace)) (CHR 48) @ digits
                  else if dotplace \<ge> int (length digits)
                  then digits @ replicate (nat dotplace - length digits) (CHR 48)
                  else take (nat dotplace) digits @ ''.'' @ drop (nat dotplace) digits);
          exponent = (if leftdigits = dotplace then [] else ''E'' @ int_str_signed (leftdigits - dotplace))
      in (if pd_negative d then ''-'' else []) @ body @ exponent)"

definition LEGACY_CONTRACT_STATUS_TO_DOCUMENT_STATUS :: "(string \<times> DocumentStatus) list" where
  "LEGACY_CONTRACT_STATUS_TO_DOCUMENT_STATUS =
     [(''SIGNED'', DocumentStatus_SIGNED),
      (''COMPLETED'', DocumentStatus_ARCHIVED),
      (''ON_REVIEW'', DocumentStatus_SENT_FOR_REVIEW),
      (''CANCELLED'', DocumentStatus_CANCELLED)]"

definition map_legacy_contract_status :: "string option \<Rightarrow> DocumentStatus \<times> bool" where
  "map_legacy_contract_status status =
     (case status of
        None \<Rightarrow> (DocumentStatus_DRAFT, True)
      | Some x \<Rightarrow>
          (case map_of LEGACY_CONTRACT_STATUS_TO_DOCUMENT_STATUS (map ascii_upper (py_strip x)) of
             None \<Rightarrow> (DocumentStatus_DRAFT, True)
           | Some mapped \<Rightarrow> (mapped, False)))"

record import_policy =
  ip_mark_link_review_required :: bool
  ip_mark_zero_amount_review_required :: bool
  ip_fallback_status :: DocumentStatus

definition default_import_policy :: import_policy where
  "default_import_policy = \<lparr>ip_mark_link_review_required = True,
     ip_mark_zero_amount_review_required = True, ip_fallback_status = DocumentStatus_DRAFT\<rparr>"

record import_assessment =
  ia_target_status :: DocumentStatus
  ia_status_needs_review :: bool
  ia_link_needs_review :: bool
  ia_amount_needs_review :: bool

definition assess_legacy_contract_import ::
    "string option \<Rightarrow> uuid option \<Rightarrow> py_decimal \<Rightarrow> import_policy option \<Rightarrow> import_assessment" where
  "assess_legacy_contract_import legacy_status work_item amount policy =
     (let effective = (case policy of None \<Rightarrow> default_import_policy | Some p \<Rightarrow> p);
          (status, needs_review) = map_legacy_contract_status legacy_status
      in \<lparr>ia_target_status = (if \<not> needs_review then status else ip_fallback_status effective),
          ia_status_needs_review = needs_review,
          ia_link_needs_review = (work_item = None \<and> ip_mark_link_review_required effective),
          ia_amount_needs_review = (pd_digits amount = 0 \<and> ip_mark_zero_amount_review_required effective)\<rparr>)"

record document_import =
  di_title :: string
  di_party_id :: "uuid option"
  di_work_item_id :: "uuid option"
  di_legacy_status :: "string option"
  di_status :: "DocumentStatus option"
  di_amount :: py_decimal
  di_external_ref :: "string option"
  di_source_system :: string
  di_branch_id :: "uuid option"
  di_rendered_content :: "utext option"
  di_extra_context :: placeholder_values

definition bool_lower :: "bool \<Rightarrow> utext" where
  "bool_lower b = codes (if b then ''true'' else ''false'')"

fun ctx_update :: "placeholder_values \<Rightarrow> placeholder_values \<Rightarrow> placeholder_values" where
  "ctx_update d [] = d"
| "ctx_update d ((k, v) # kvs) = ctx_update (ctx_set k v d) kvs"

definition import_flags :: "import_assessment \<Rightarrow> document_import \<Rightarrow> placeholder_values" where
  "import_flags a payload =
     [(codes ''import_mode'', codes ''legacy_contract''),
      (codes ''source_system'', codes (di_source_system payload)),
      (codes ''amount'', codes (decimal_str (di_amount payload))),
      (codes ''status_needs_review'', bool_lower (ia_status_needs_review a)),
      (codes ''link_needs_review'', bool_lower (ia_link_needs_review a)),
      (codes ''amount_needs_review'', bool_lower (ia_amount_needs_review a))]"

definition import_context :: "(uuid \<Rightarrow> string) \<Rightarrow> import_assessment \<Rightarrow> document_import \<Rightarrow> placeholder_values" where
  "import_context uid a payload =
     (let c0 = import_flags a payload;
          c1 = (case di_external_ref payload of
                  None \<Rightarrow> c0
                | Some r \<Rightarrow> if r = [] then c0
                    else ctx_set (codes ''external_legacy_id'') (codes r) (ctx_set (codes ''external_ref'') (codes r) c0));
          c2 = (case di_legacy_status payload of
                  None \<Rightarrow> c1 | Some x \<Rightarrow> ctx_set (codes ''legacy_status'') (codes x) c1);
          c3 = (case di_branch_id payload of
                  None \<Rightarrow> c2 | Some b \<Rightarrow> ctx_set (codes ''branch_id'') (codes (uid b)) c2)
      in ctx_update c3 (di_extra_context payload))"

definition json_opt :: "string option \<Rightarrow> json" where
  "json_opt x = (case x of None \<Rightarrow> JNull | Some y \<Rightarrow> JStr y)"

definition imported_document ::
    "(uuid \<Rightarrow> string) \<Rightarrow> uuid \<Rightarrow> uuid \<Rightarrow> user \<Rightarrow> document_import \<Rightarrow> document_instance" where
  "imported_document uid i t u payload =
     (let a = assess_legacy_contract_import (di_legacy_status payload) (di_work_item_id payload)
                (di_amount payload) None
      in \<lparr>do_id = i, do_tenant_id = t, do_template_id = None, do_title = di_title payload,
          do_status = (case di_status payload of None \<Rightarrow> ia_target_status a | Some x \<Rightarrow> x),
          do_rendered_content = di_rendered_content payload, do_context_json = import_context uid a payload,
          do_party_id = di_party_id payload, do_work_item_id = di_work_item_id payload,
          do_created_by_user_id = us_id u, do_updated_by_user_id = us_id u\<rparr>)"

definition import_document ::
    "storage \<Rightarrow> uuid \<Rightarrow> user \<Rightarrow> document_import \<Rightarrow> ('z document_db_scheme, document_instance) svc" where
  "import_document st t u payload =
     (let a = assess_legacy_contract_import (di_legacy_status payload) (di_work_item_id payload)
                (di_amount payload) None in
      bindS fresh_id (\<lambda>i.
      thenS (insert_document (imported_document (st_uuid st) i t u payload))
      (thenS (audit_document t i (us_id u) ''imported''
         (JObj [(''source_system'', JStr (di_source_system payload)),
                (''external_ref'', json_opt (di_external_ref payload)),
                (''amount'', JStr (decimal_str (di_amount payload))),
                (''link_needs_review'', JBool (ia_link_needs_review a)),
                (''amount_needs_review'', JBool (ia_amount_needs_review a)),
                (''status_needs_review'', JBool (ia_status_needs_review a))]))
      (thenS (log_document t (us_id u) i (''Document imported: '' @ di_title payload)
         (JObj [(''import_mode'', JStr ''legacy_contract''),
                (''source_system'', JStr (di_source_system payload)),
                (''external_ref'', json_opt (di_external_ref payload))]))
      (get_document_or_404 t i)))))"

subsection \<open>Changes and signature\<close>

record document_update =
  du_title :: "string option"
  du_status :: "DocumentStatus option"

definition update_document ::
    "uuid \<Rightarrow> user \<Rightarrow> uuid \<Rightarrow> document_update \<Rightarrow> ('z document_db_scheme, document_instance) svc" where
  "update_document t u i payload =
     bindS (get_document_or_404 t i) (\<lambda>d.
     thenS (case du_title payload of
              None \<Rightarrow> ret () | Some x \<Rightarrow> write_document i (\<lambda>r. r\<lparr>do_title := x\<rparr>))
     (thenS (case du_status payload of
              None \<Rightarrow> ret ()
            | Some x \<Rightarrow>
                thenS (write_document i (\<lambda>r. r\<lparr>do_status := x\<rparr>))
                (audit_document t i (us_id u) ''status_changed''
                   (JObj [(''from'', JStr (DocumentStatus_value (do_status d))),
                          (''to'', JStr (DocumentStatus_value x))])))
     (thenS (write_document i (\<lambda>r. r\<lparr>do_updated_by_user_id := us_id u\<rparr>))
     (get_document_or_404 t i))))"

definition send_for_signature ::
    "instant \<Rightarrow> uuid \<Rightarrow> user \<Rightarrow> uuid \<Rightarrow> ('z document_db_scheme, document_instance) svc" where
  "send_for_signature now t u i =
     bindS (get_document_or_404 t i) (\<lambda>d.
     thenS (ensure (do_status d \<in> {DocumentStatus_GENERATED, DocumentStatus_SENT_FOR_REVIEW})
       (ConflictError ''Document cannot be sent for signature in current status''))
     (thenS (write_document i (\<lambda>r. r\<lparr>do_status := DocumentStatus_SENT_FOR_SIGNATURE, do_updated_by_user_id := us_id u\<rparr>))
     (thenS (create_signature_request \<lparr>sr_tenant_id = t, sr_document_id = i, sr_status = SignatureStatus_SENT,
               sr_sent_at = Some now, sr_signed_at = None\<rparr>)
     (thenS (audit_document t i (us_id u) ''sent_for_signature'' (JObj []))
     (get_document_or_404 t i)))))"

definition sign_requests :: "instant \<Rightarrow> uuid \<Rightarrow> ('z document_db_scheme, unit) svc" where
  "sign_requests now i =
     modify (\<lambda>s. s\<lparr>signature_requests := map (\<lambda>r.
       if sr_document_id r = i \<and> sr_status r = SignatureStatus_SENT
       then r\<lparr>sr_status := SignatureStatus_SIGNED, sr_signed_at := Some now\<rparr> else r) (signature_requests s)\<rparr>)"

definition upload_signed_file ::
    "storage \<Rightarrow> instant \<Rightarrow> uuid \<Rightarrow> user \<Rightarrow> uuid \<Rightarrow> string \<Rightarrow> int list \<Rightarrow> string \<Rightarrow>
     ('z document_db_scheme, document_instance) svc" where
  "upload_signed_file st now t u i filename content mime =
     bindS (get_document_or_404 t i) (\<lambda>d.
     thenS (ensure (do_status d \<in> {DocumentStatus_SENT_FOR_SIGNATURE, DocumentStatus_SENT_FOR_REVIEW,
                                   DocumentStatus_GENERATED})
       (ConflictError ''Document cannot accept signed file in current status''))
     (thenS (store_file st t i DocumentFileType_SIGNED filename mime content)
     (thenS (write_document i (\<lambda>r. r\<lparr>do_status := DocumentStatus_SIGNED, do_updated_by_user_id := us_id u\<rparr>))
     (thenS (sign_requests now i)
     (thenS (audit_document t i (us_id u) ''signed'' (JObj [(''filename'', JStr filename)]))
     (get_document_or_404 t i))))))"

text \<open>\<^verbatim>\<open>upload_signed_document_file\<close> of the routes: the names a request leaves out.\<close>

definition upload_signed_document_file ::
    "storage \<Rightarrow> instant \<Rightarrow> uuid \<Rightarrow> user \<Rightarrow> uuid \<Rightarrow> string option \<Rightarrow> string option \<Rightarrow> int list \<Rightarrow>
     ('z document_db_scheme, document_instance) svc" where
  "upload_signed_document_file st now t u i filename mime content =
     upload_signed_file st now t u i
       (case filename of None \<Rightarrow> ''signed.pdf'' | Some f \<Rightarrow> if f = [] then ''signed.pdf'' else f) content
       (case mime of None \<Rightarrow> ''application/octet-stream'' | Some m \<Rightarrow> if m = [] then ''application/octet-stream'' else m)"

text \<open>\<^verbatim>\<open>generate_document\<close> of the routes asks for the feature first.\<close>

definition generate_document_route ::
    "storage \<Rightarrow> uuid \<Rightarrow> user \<Rightarrow> document_generate_request \<Rightarrow> ('z document_db_scheme, document_instance) svc" where
  "generate_document_route st t u payload =
     thenS (assert_feature t ''documents.generate'') (generate_document st t u payload)"

end
