(* ===== verification/Document_Safety.thy ===== *)
theory Document_Safety
  imports Document_Lifecycle
begin

text \<open>
  The invariant of the document tables in every reachable session, and what the operations on documents
  write.
\<close>

subsection \<open>The tables\<close>

definition document_owner :: "document_instance \<Rightarrow> uuid \<times> uuid" where
  "document_owner d = (do_id d, do_tenant_id d)"

definition documents_ok :: "uuid \<Rightarrow> document_instance list \<Rightarrow> document_file list \<Rightarrow> bool" where
  "documents_ok bound ds fs \<longleftrightarrow> distinct (map do_id ds) \<and> (\<forall>d \<in> set ds. do_id d < bound) \<and>
     (\<forall>f \<in> set fs. (dl_document_id f, dl_tenant_id f) \<in> set (map document_owner ds))"

definition template_key :: "document_template \<Rightarrow> uuid \<times> string" where
  "template_key r = (dt_tenant_id r, dt_code r)"

definition field_key :: "document_field \<Rightarrow> uuid \<times> utext" where
  "field_key f = (df_template_id f, df_field_key f)"

definition templates_ok :: "uuid \<Rightarrow> document_template list \<Rightarrow> document_field list \<Rightarrow> bool" where
  "templates_ok bound rs fs \<longleftrightarrow> distinct (map dt_id rs) \<and> (\<forall>r \<in> set rs. dt_id r < bound) \<and>
     distinct (map template_key rs) \<and> distinct (map field_key fs)"

definition document_ok :: "'z document_db_scheme \<Rightarrow> bool" where
  "document_ok s \<longleftrightarrow> documents_ok (next_id s) (documents s) (document_files s) \<and>
     templates_ok (next_id s) (templates s) (template_fields s)"

lemma documents_ok_later: "documents_ok b ds fs \<Longrightarrow> b \<le> b' \<Longrightarrow> documents_ok b' ds fs"
  by (auto simp: documents_ok_def)

lemma templates_ok_later: "templates_ok b rs fs \<Longrightarrow> b \<le> b' \<Longrightarrow> templates_ok b' rs fs"
  by (auto simp: templates_ok_def)

lemma documents_ok_new:
  assumes "documents_ok i ds fs" "do_id d = i"
  shows "documents_ok (Suc i) (row_insert d ds) fs"
proof -
  have "i \<notin> do_id ` set ds" using assms(1) by (auto simp: documents_ok_def)
  then show ?thesis using assms by (auto simp: documents_ok_def row_insert_def)
qed

lemma documents_ok_file:
  assumes "documents_ok b ds fs" "(dl_document_id f, dl_tenant_id f) \<in> set (map document_owner ds)"
  shows "documents_ok b ds (row_insert f fs)"
  using assms by (auto simp: documents_ok_def row_insert_def)

lemma documents_ok_write:
  assumes "documents_ok b ds fs" "\<And>d. do_id (f d) = do_id d" "\<And>d. do_tenant_id (f d) = do_tenant_id d"
  shows "documents_ok b (row_update do_id i f ds) fs"
proof -
  have "map do_id (row_update do_id i f ds) = map do_id ds" by (simp add: map_key_row_update assms(2))
  moreover have "map document_owner (row_update do_id i f ds) = map document_owner ds"
    by (rule map_row_update) (simp add: document_owner_def assms(2,3))
  moreover have "\<forall>d \<in> set (row_update do_id i f ds). do_id d < b"
    using assms(1,2) by (auto simp: documents_ok_def in_row_update split: if_splits)
  ultimately show ?thesis using assms(1) by (simp add: documents_ok_def)
qed

lemma templates_ok_write:
  assumes "templates_ok b rs fs" "\<And>r. dt_id (f r) = dt_id r" "\<And>r. template_key (f r) = template_key r"
  shows "templates_ok b (row_update dt_id i f rs) fs"
proof -
  have "map dt_id (row_update dt_id i f rs) = map dt_id rs" by (simp add: map_key_row_update assms(2))
  moreover have "map template_key (row_update dt_id i f rs) = map template_key rs"
    by (simp add: map_row_update assms(3))
  moreover have "\<forall>r \<in> set (row_update dt_id i f rs). dt_id r < b"
    using assms(1,2) by (auto simp: templates_ok_def in_row_update split: if_splits)
  ultimately show ?thesis using assms(1) by (simp add: templates_ok_def)
qed

lemma document_ok_frame:
  assumes "document_ok s" "next_id s \<le> next_id s'" "documents s' = documents s"
    "document_files s' = document_files s" "templates s' = templates s" "template_fields s' = template_fields s"
  shows "document_ok s'"
  using assms documents_ok_later templates_ok_later by (auto simp: document_ok_def)

subsection \<open>Calls that keep the invariant\<close>

lemma preserves_document_writes:
  "preserves document_ok fresh_id"
  "preserves document_ok (create_signature_request r)"
  "preserves document_ok (create_audit a)"
  "preserves document_ok (audit_document t i u act j)"
  "preserves document_ok (log_document t u i sm m)"
  "preserves document_ok (sign_requests now i)"
  "preserves document_ok (get_template_or_404 t i)"
  "preserves document_ok (get_document_or_404 t i)"
  "preserves document_ok (on_disk g)"
  unfolding create_signature_request_def create_audit_def audit_document_def log_document_def sign_requests_def
    record_audit_def get_template_or_404_def get_document_or_404_def
  by (auto intro!: preserves_bindS preserves_modify elim!: document_ok_frame)
    (auto simp: preserves_def fresh_id_def on_disk_def split: prod.splits elim!: document_ok_frame)

lemma preserves_document_feature: "preserves document_ok (assert_feature t code)"
  unfolding assert_feature_def assert_enabled_def
  by (intro preserves_bindS preserves_thenS preserves_gets preserves_ensure)
    (auto intro!: preserves_bindS preserves_thenS split: option.split)

lemma preserves_write_document:
  assumes "\<And>d. do_id (f d) = do_id d" "\<And>d. do_tenant_id (f d) = do_tenant_id d"
  shows "preserves document_ok (write_document i f)"
  unfolding write_document_def
  by (rule preserves_modify) (simp add: document_ok_def documents_ok_write assms)

lemma preserves_write_template:
  assumes "\<And>r. dt_id (f r) = dt_id r" "\<And>r. template_key (f r) = template_key r"
  shows "preserves document_ok (write_template i f)"
  unfolding write_template_def
  by (rule preserves_modify) (simp add: document_ok_def templates_ok_write assms)

lemma preserves_create_field: "preserves document_ok (create_field f)"
  unfolding preserves_def
proof (intro allI impI)
  fix s :: "'a document_db_scheme" assume ok: "document_ok s"
  show "document_ok (snd (create_field f s))"
  proof (cases "list_ex (\<lambda>g. df_field_key g = df_field_key f) (fields_of (df_template_id f) s)")
    case True
    then show ?thesis using ok by (simp add: create_field_def svc_eval)
  next
    case False
    then have "field_key f \<notin> set (map field_key (template_fields s))"
      by (auto simp: list_ex_iff fields_of_def field_key_def)
    then have "templates_ok (next_id s) (templates s) (row_insert f (template_fields s))"
      using ok by (simp add: document_ok_def templates_ok_def row_insert_def)
    then show ?thesis using False ok by (simp add: create_field_def svc_eval document_ok_def)
  qed
qed

text \<open>A call that takes a new identifier and stores a row under it.\<close>

lemma insert_template_keeps:
  assumes "document_ok s" "dt_id r = next_id s"
  shows "document_ok (snd (insert_template r (s\<lparr>next_id := Suc (next_id s)\<rparr>)))"
proof (cases "get_template_by_code (dt_tenant_id r) (dt_code r) s")
  case None
  then have "template_key r \<notin> set (map template_key (templates s))"
    by (auto simp: get_template_by_code_def row_find_None template_key_def)
  moreover have "dt_id r \<notin> dt_id ` set (templates s)"
    using assms by (auto simp: document_ok_def templates_ok_def)
  ultimately have "templates_ok (Suc (next_id s)) (row_insert r (templates s)) (template_fields s)"
    using assms by (auto simp: document_ok_def templates_ok_def row_insert_def)
  moreover have "documents_ok (Suc (next_id s)) (documents s) (document_files s)"
    using assms(1) documents_ok_later by (auto simp: document_ok_def)
  moreover have "get_template_by_code (dt_tenant_id r) (dt_code r) (s\<lparr>next_id := Suc (next_id s)\<rparr>) = None"
    using None by (simp add: get_template_by_code_def)
  ultimately show ?thesis by (simp add: insert_template_def svc_eval document_ok_def)
next
  case (Some q)
  then have "get_template_by_code (dt_tenant_id r) (dt_code r) (s\<lparr>next_id := Suc (next_id s)\<rparr>) = Some q"
    by (simp add: get_template_by_code_def)
  then show ?thesis using assms(1) by (auto simp: insert_template_def svc_eval elim!: document_ok_frame)
qed

lemma preserves_new_row:
  assumes "\<And>s. document_ok s \<Longrightarrow> document_ok (snd (store (next_id s) (s\<lparr>next_id := Suc (next_id s)\<rparr>)))"
    and "\<And>i. preserves document_ok (rest i)"
  shows "preserves document_ok (bindS fresh_id (\<lambda>i. thenS (store i) (rest i)))"
  unfolding preserves_def
proof (intro allI impI)
  fix s :: "'a document_db_scheme" assume ok: "document_ok s"
  obtain r s1 where run: "store (next_id s) (s\<lparr>next_id := Suc (next_id s)\<rparr>) = (r, s1)" by force
  then have "document_ok s1" using assms(1)[OF ok] by simp
  then show "document_ok (snd (bindS fresh_id (\<lambda>i. thenS (store i) (rest i)) s))"
    using preserves_snd[OF assms(2)] by (cases r) (simp_all add: svc_eval fresh_id_eval run)
qed

lemmas preserves_document = preserves_document_writes preserves_document_feature preserves_create_field
  preserves_bindS preserves_thenS preserves_gets preserves_ensure preserves_ret preserves_raise
  preserves_or_raise preserves_for_each

lemma preserves_create_template: "preserves document_ok (create_template t u payload)"
  unfolding create_template_def add_field_def
  by (intro preserves_document preserves_new_row insert_template_keeps) (simp_all add: new_template_def)

lemma preserves_update_template: "preserves document_ok (update_template t u i payload)"
  unfolding update_template_def
  by (intro preserves_document preserves_write_template)
    (simp_all add: apply_template_update_def template_key_def)

lemma preserves_import_templates: "preserves document_ok (import_templates_from_config t u items)"
proof (induction items)
  case Nil
  show ?case by simp
next
  case (Cons item items)
  have field: "preserves document_ok (add_configured_field i f)" for i f
    unfolding add_configured_field_def by (intro preserves_document)
  have "preserves document_ok (import_template t u item)"
    unfolding import_template_def
    by (auto intro!: preserves_bindS preserves_new_row insert_template_keeps preserves_thenS preserves_for_each field
        simp: configured_template_def)
  then show ?case using Cons by (auto intro!: preserves_bindS)
qed

text \<open>A stored document is inserted under a new identifier; its files come after it.\<close>

lemma insert_document_keeps:
  assumes "document_ok s" "do_id d = next_id s"
  shows "document_ok (snd (insert_document d (s\<lparr>next_id := Suc (next_id s)\<rparr>)))"
proof -
  have "documents_ok (Suc (next_id s)) (row_insert d (documents s)) (document_files s)"
    using assms by (intro documents_ok_new) (simp_all add: document_ok_def)
  moreover have "templates_ok (Suc (next_id s)) (templates s) (template_fields s)"
    using assms(1) templates_ok_later by (auto simp: document_ok_def)
  ultimately show ?thesis by (simp add: insert_document_def svc_eval document_ok_def)
qed

lemma store_file_keeps:
  assumes "document_ok s" "(i, t) \<in> set (map document_owner (documents s))"
  shows "document_ok (snd (store_file st t i kind name mime content s))"
proof -
  obtain r d where run: "save_binary_file st t i name content (storage_disk s) = (r, d)" by force
  show ?thesis
  proof (cases r)
    case (Inl e)
    then show ?thesis using assms(1)
      by (auto simp: store_file_def svc_eval on_disk_def run elim!: document_ok_frame)
  next
    case (Inr out)
    then show ?thesis using assms
      by (auto simp: store_file_def svc_eval on_disk_def run create_file_def document_ok_def split: prod.splits
          intro!: documents_ok_file)
  qed
qed

lemma preserves_import_document: "preserves document_ok (import_document st t u payload)"
  unfolding import_document_def Let_def
  by (intro preserves_document preserves_new_row insert_document_keeps) (simp_all add: imported_document_def Let_def)

lemma preserves_update_document: "preserves document_ok (update_document t u i payload)"
  unfolding update_document_def
  by (intro preserves_document preserves_write_document) 
    (auto split: option.split intro!: preserves_document preserves_write_document)

lemma preserves_send_for_signature: "preserves document_ok (send_for_signature now t u i)"
  unfolding send_for_signature_def
  by (intro preserves_document preserves_write_document) simp_all

lemma get_document_Some: "get_document t i s = Some d \<Longrightarrow> d \<in> set (documents s) \<and> do_tenant_id d = t \<and> do_id d = i"
  unfolding get_document_def by (rule scoped_get_Some)

lemma get_document_or_404_ok [svc_ok]:
  "get_document_or_404 t i s = (Inr d, s') \<longleftrightarrow> get_document t i s = Some d \<and> s' = s"
  by (auto simp: get_document_or_404_def svc_ok)

lemma get_template_or_404_ok [svc_ok]:
  "get_template_or_404 t i s = (Inr d, s') \<longleftrightarrow> get_template t i s = Some d \<and> s' = s"
  by (auto simp: get_template_or_404_def svc_ok)

text \<open>The steps of an upload and of a generation after the file was named.\<close>

lemma thenS_keeps:
  assumes "document_ok (snd (m s))" "preserves document_ok n"
  shows "document_ok (snd (thenS m n s))"
proof -
  obtain r s1 where "m s = (r, s1)" by force
  then show ?thesis using assms preserves_snd[OF assms(2)] by (cases r) (simp_all add: svc_eval)
qed

lemma preserves_upload_signed_file: "preserves document_ok (upload_signed_file st now t u i name content mime)"
  unfolding preserves_def
proof (intro allI impI)
  fix s :: "'a document_db_scheme" assume ok: "document_ok s"
  show "document_ok (snd (upload_signed_file st now t u i name content mime s))"
  proof (cases "get_document t i s")
    case None
    then show ?thesis using ok by (simp add: upload_signed_file_def get_document_or_404_def svc_eval)
  next
    case (Some d)
    then have owner: "(i, t) \<in> set (map document_owner (documents s))"
      using get_document_Some[OF Some] by (auto simp: document_owner_def image_iff)
    have rest: "preserves document_ok (thenS (write_document i (\<lambda>r. r\<lparr>do_status := DocumentStatus_SIGNED,
        do_updated_by_user_id := us_id u\<rparr>)) (thenS (sign_requests now i)
        (thenS (audit_document t i (us_id u) ''signed'' (JObj [(''filename'', JStr name)])) (get_document_or_404 t i))))"
      by (intro preserves_document preserves_write_document) simp_all
    show ?thesis
      using thenS_keeps[where s = s and m = "store_file st t i DocumentFileType_SIGNED name mime content",
          OF store_file_keeps[OF ok owner] rest] Some ok
      by (simp add: upload_signed_file_def get_document_or_404_def svc_eval)
  qed
qed

lemma finish_generation_keeps:
  assumes "document_ok s" "do_id d = next_id s" "do_tenant_id d = t"
  shows "document_ok (snd (finish_generation st t u r d rendered (s\<lparr>next_id := Suc (next_id s)\<rparr>)))"
proof -
  let ?s1 = "s\<lparr>next_id := Suc (next_id s), documents := row_insert d (documents s)\<rparr>"
  have s1: "document_ok ?s1" using insert_document_keeps[OF assms(1,2)] by (simp add: insert_document_def svc_eval)
  have owner: "(do_id d, t) \<in> set (map document_owner (documents ?s1))"
    using assms(3) by (auto simp: document_owner_def row_insert_def)
  have rest: "preserves document_ok (thenS (audit_document t (do_id d) (us_id u) ''generated''
        (JObj [(''template_code'', JStr (dt_code r))]))
      (log_document t (us_id u) (do_id d) (''Document generated: '' @ do_title d)
        (JObj [(''template_code'', JStr (dt_code r))])))"
    by (intro preserves_document)
  show ?thesis
    using thenS_keeps[where s = ?s1 and m = "store_file st t (do_id d) DocumentFileType_GENERATED
        (st_uuid st (do_id d) @ ''.txt'') ''text/plain'' (utf8 rendered)", OF store_file_keeps[OF s1 owner] rest]
    by (simp add: finish_generation_def insert_document_def svc_eval)
qed

lemma preserves_generate_document: "preserves document_ok (generate_document st t u payload)"
  unfolding generate_document_def raise_left_def
  by (intro preserves_document preserves_new_row finish_generation_keeps)
    (auto simp: generated_document_def split: sum.split)

lemma preserves_generate_route: "preserves document_ok (generate_document_route st t u payload)"
  unfolding generate_document_route_def by (intro preserves_document preserves_generate_document)

end
