(* ===== verification/Document_Properties.thy ===== *)
theory Document_Properties
  imports Document_Safety
begin

text \<open>
  The requests of the documents module as a machine, a session of two tenants, and the properties: what a
  generation produces, what a template means, what an upload writes and where, and how an import is marked
  for review.
\<close>

subsection \<open>Requests\<close>

inductive document_step :: "storage \<Rightarrow> 'z document_db_scheme \<Rightarrow> 'z document_db_scheme \<Rightarrow> bool" for st where
  step_create_template: "document_step st s (snd (document_request (create_template t u nt) s))"
| step_update_template: "document_step st s (snd (document_request (update_template t u i tu) s))"
| step_import_templates: "document_step st s (snd (document_request (import_templates_from_config t u items) s))"
| step_generate: "document_step st s (snd (document_request (generate_document_route st t u gr) s))"
| step_import: "document_step st s (snd (document_request (import_document st t u di) s))"
| step_update: "document_step st s (snd (document_request (update_document t u i du) s))"
| step_send: "document_step st s (snd (document_request (send_for_signature now t u i) s))"
| step_upload: "document_step st s (snd (document_request
    (upload_signed_document_file st now t u i filename mime content) s))"

definition document_start :: "'z document_db_scheme \<Rightarrow> bool" where
  "document_start s \<longleftrightarrow> documents s = [] \<and> document_files s = [] \<and> templates s = [] \<and> template_fields s = []"

lemma request_keeps:
  assumes "document_ok s" "preserves document_ok m"
  shows "document_ok (snd (document_request m s))"
proof -
  obtain r s1 where run: "m s = (r, s1)" by force
  have "document_ok s1" using preserves_snd[OF assms(2,1)] by (simp add: run)
  moreover have "document_ok (s\<lparr>storage_disk := storage_disk s1\<rparr>)" using assms(1) by (simp add: document_ok_def)
  ultimately show ?thesis by (cases r) (simp_all add: document_request_def run)
qed

interpretation document: invariant_machine document_start "document_step st" document_ok for st
proof
  show "document_ok s" if "document_start s" for s :: "'a document_db_scheme"
    using that by (simp add: document_start_def document_ok_def documents_ok_def templates_ok_def)
  show "document_ok s'" if "document_ok s" "document_step st s s'" for s s' :: "'a document_db_scheme"
    using that(2)
    by cases (simp_all add: request_keeps[OF that(1)] preserves_create_template preserves_update_template
        preserves_import_templates preserves_generate_route preserves_import_document preserves_update_document
        preserves_send_for_signature preserves_upload_signed_file upload_signed_document_file_def)
qed

subsection \<open>A session of two tenants\<close>

definition desk_storage :: storage where
  "desk_storage = \<lparr>st_path = [''st''], st_uuid = (\<lambda>i. replicate (Suc i) (CHR ''u''))\<rparr>"

lemma desk_storage_ok: "storage_ok desk_storage"
proof -
  have "inj (\<lambda>i. replicate (Suc i) (CHR ''u''))" by (rule injI) (metis length_replicate Suc_inject)
  then show ?thesis by (simp add: storage_ok_def desk_storage_def plain_name_def)
qed

definition desk_user :: user where
  "desk_user = \<lparr>us_id = 9, us_email = [], us_hashed_password = [], us_full_name = [], us_is_active = True,
     us_provider_staff = [], us_tenant_memberships = []\<rparr>"

definition desk_empty :: document_db where
  "desk_empty =
     \<lparr>next_id = 2, tenants = [], branches = [], audit_logs = [], definitions = [], tenant_modules = [],
      features = [\<lparr>ft_id = 1, ft_code = ''documents.generate'', ft_module_code = None, ft_name = ''g''\<rparr>],
      plans = [], plan_features = [\<lparr>pf_plan_id = 1, pf_feature_id = 1\<rparr>],
      subscriptions = [\<lparr>sb_id = 0, sb_tenant_id = 0, sb_plan_id = 1, sb_status = SubscriptionStatus_ACTIVE\<rparr>], usage_limits = [], usage_events = [],
      templates = [], template_fields = [], documents = [], document_files = [], signature_requests = [],
      document_audits = [], storage_disk = \<lparr>dirs = [[]], files = []\<rparr>\<rparr>"

definition desk_template :: document_template_create where
  "desk_template = \<lparr>nt_code = ''t'', nt_name = ''n'', nt_description = None, nt_document_type = ''contract'',
     nt_body_template = codes ''A{{ b }}{{c}}'', nt_is_active = True,
     nt_fields = [\<lparr>nf_field_key = codes ''c'', nf_label = [], nf_field_type = ''string'', nf_is_required = False,
       nf_default_value = Some (codes ''D'')\<rparr>]\<rparr>"

definition desk_request :: document_generate_request where
  "desk_request = \<lparr>gr_template_id = 2, gr_title = None, gr_context = [(codes ''b'', [1044])], gr_party_id = None,
     gr_work_item_id = None\<rparr>"

definition desk_import :: document_import where
  "desk_import = \<lparr>di_title = ''i'', di_party_id = None, di_work_item_id = None, di_legacy_status = Some '' signed '',
     di_status = Some DocumentStatus_GENERATED, di_amount = \<lparr>pd_negative = False, pd_digits = 0, pd_exponent = - 2\<rparr>,
     di_external_ref = None, di_source_system = ''x'', di_branch_id = None, di_rendered_content = None,
     di_extra_context = [(codes ''amount_needs_review'', codes ''false'')]\<rparr>"

text \<open>
  Tenant 0 creates a template (2) and generates a document (3) from it; tenant 1 imports a contract (4) and
  uploads a signed file for it.
\<close>

definition desk_ready :: document_db where
  "desk_ready = snd (document_request (create_template 0 desk_user desk_template) desk_empty)"

definition desk_generated :: document_db where
  "desk_generated = snd (document_request (generate_document_route desk_storage 0 desk_user desk_request) desk_ready)"

definition desk_imported :: document_db where
  "desk_imported = snd (document_request (import_document desk_storage 1 desk_user desk_import) desk_generated)"

definition desk_uploaded :: "string \<Rightarrow> document_db" where
  "desk_uploaded name = snd (document_request (upload_signed_document_file desk_storage 7 1 desk_user 4
     (Some name) None [1, 2]) desk_imported)"

lemma desk_reachable:
  "reachable document_start (document_step desk_storage) desk_ready"
  "reachable document_start (document_step desk_storage) desk_generated"
  "reachable document_start (document_step desk_storage) desk_imported"
  "reachable document_start (document_step desk_storage) (desk_uploaded name)"
proof -
  have 0: "reachable document_start (document_step desk_storage) desk_empty"
    by (rule reachable_start) (simp add: document_start_def desk_empty_def)
  show 1: "reachable document_start (document_step desk_storage) desk_ready"
    unfolding desk_ready_def by (rule reachable_step[OF 0]) (rule document_step.intros)
  show 2: "reachable document_start (document_step desk_storage) desk_generated"
    unfolding desk_generated_def by (rule reachable_step[OF 1]) (rule document_step.intros)
  show 3: "reachable document_start (document_step desk_storage) desk_imported"
    unfolding desk_imported_def by (rule reachable_step[OF 2]) (rule document_step.intros)
  show "reachable document_start (document_step desk_storage) (desk_uploaded name)"
    unfolding desk_uploaded_def by (rule reachable_step[OF 3]) (rule document_step.intros)
qed

subsection \<open>What a context holds\<close>

lemma map_of_ctx_set: "map_of (ctx_set k v d) x = (if x = k then Some v else map_of d x)"
proof (cases "map_of d k")
  case None
  then show ?thesis by (auto simp: ctx_set_def map_add_def split: option.split)
next
  case (Some w)
  have "map_of (map (\<lambda>(k', w). if k' = k then (k', v) else (k', w)) d) x =
      (if x = k then map_option (\<lambda>_. v) (map_of d k) else map_of d x)"
    by (induction d) auto
  then show ?thesis using Some by (simp add: ctx_set_def)
qed

lemma map_of_ctx_update:
  "map_of (ctx_update d kvs) x = (case map_of (rev kvs) x of Some v \<Rightarrow> Some v | None \<Rightarrow> map_of d x)"
  by (induction kvs arbitrary: d) (auto simp: map_of_ctx_set map_add_def split: option.split)

text \<open>The value a placeholder has: what the request gives, or else the default of the field of that name.\<close>

definition defaults :: "document_field list \<Rightarrow> placeholder_values" where
  "defaults fs = concat (map (\<lambda>f. case df_default_value f of None \<Rightarrow> [] | Some v \<Rightarrow> [(df_field_key f, v)]) fs)"

definition value_of :: "placeholder_values \<Rightarrow> document_field list \<Rightarrow> utext \<Rightarrow> utext option" where
  "value_of provided fs k = (case map_of provided k of Some v \<Rightarrow> Some v | None \<Rightarrow> map_of (defaults fs) k)"

lemma defaults_simps:
  "defaults [] = []"
  "defaults (f # fs) = (case df_default_value f of None \<Rightarrow> defaults fs | Some v \<Rightarrow> (df_field_key f, v) # defaults fs)"
  by (simp_all add: defaults_def split: option.split)

lemma value_of_Cons:
  "value_of ctx (f # fs) k =
     (case df_default_value f of
        None \<Rightarrow> value_of ctx fs k
      | Some v \<Rightarrow> if map_of ctx k = None \<and> k = df_field_key f then Some v else value_of ctx fs k)"
  by (cases "map_of ctx k") (auto simp: value_of_def defaults_simps split: option.split)

lemma value_of_given: "map_of ctx k = Some v \<Longrightarrow> value_of ctx fs k = Some v"
  by (simp add: value_of_def)

lemma value_of_set: "value_of (ctx_set k v ctx) fs x = (if x = k then Some v else value_of ctx fs x)"
  by (simp add: value_of_def map_of_ctx_set)

lemma value_of_no_field:
  "map_of ctx k = None \<Longrightarrow> k \<notin> df_field_key ` set fs \<Longrightarrow> value_of ctx fs k = None"
  by (induction fs) (auto simp: value_of_Cons value_of_def defaults_simps split: option.split)

lemma fill_fields_values:
  "fill_fields ps fs ctx = Inr ctx' \<Longrightarrow> map_of ctx' k = value_of ctx fs k"
proof (induction fs arbitrary: ctx)
  case Nil
  then show ?case by (cases "map_of ctx k") (auto simp: value_of_def defaults_simps)
next
  case (Cons f fs)
  show ?case
  proof (cases "map_of ctx (df_field_key f)")
    case (Some v)
    then have "map_of ctx' k = value_of ctx fs k" using Cons by simp
    then show ?thesis using Some by (auto simp: value_of_Cons split: option.split)
  next
    case None
    then show ?thesis using Cons
      by (auto simp: value_of_Cons value_of_set split: option.splits if_splits)
  qed
qed

lemma fill_fields_raises:
  "fill_fields ps fs ctx = Inl e \<Longrightarrow> distinct (map df_field_key fs) \<Longrightarrow>
     (\<exists>k \<in> set ps. value_of ctx fs k = None) \<and> (\<exists>m. e = ConflictError m)"
proof (induction fs arbitrary: ctx)
  case Nil
  then show ?case by simp
next
  case (Cons f fs)
  have later: "(\<exists>k \<in> set ps. value_of ctx' fs k = None) \<and> (\<exists>m. e = ConflictError m)"
    if "fill_fields ps fs ctx' = Inl e" for ctx'
    using Cons that by simp
  have keep: "value_of ctx (f # fs) k = None" if "value_of ctx fs k = None" "map_of ctx (df_field_key f) = Some v" for k v
    using that value_of_given[of ctx k v fs] by (auto simp: value_of_Cons split: option.split)
  show ?case
  proof (cases "map_of ctx (df_field_key f)")
    case (Some v)
    then show ?thesis using later[of ctx] keep Cons.prems(1) by auto
  next
    case None
    show ?thesis
    proof (cases "df_default_value f")
      case (Some v)
      then have "fill_fields ps fs (ctx_set (df_field_key f) v ctx) = Inl e" using Cons.prems(1) None by simp
      from later[OF this] show ?thesis using Some
        by (auto simp: value_of_set value_of_Cons split: if_splits)
    next
      case no: None
      have "value_of ctx fs (df_field_key f) = None"
        using Cons.prems(2) None by (intro value_of_no_field) simp_all
      then show ?thesis using Cons.prems(1) None no later[of ctx]
        by (auto simp: value_of_Cons split: if_splits)
    qed
  qed
qed

lemma build_context_decides:
  assumes "distinct (map df_field_key fs)"
  shows "case build_context r fs provided of
      Inr ctx \<Rightarrow> (\<forall>k \<in> set (extract_placeholders (dt_body_template r)). value_of provided fs k \<noteq> None) \<and>
        (\<forall>k. map_of ctx k = value_of provided fs k)
    | Inl e \<Rightarrow> (\<exists>k \<in> set (extract_placeholders (dt_body_template r)). value_of provided fs k = None) \<and>
        (\<exists>m. e = ConflictError m)"
proof (cases "fill_fields (extract_placeholders (dt_body_template r)) fs provided")
  case (Inl e)
  then show ?thesis using fill_fields_raises[OF Inl assms] by (simp add: build_context_def)
next
  case (Inr ctx)
  note filled = fill_fields_values[OF Inr]
  show ?thesis
  proof (cases "filter (\<lambda>k. map_of ctx k = None) (extract_placeholders (dt_body_template r))")
    case Nil
    then have "\<forall>k \<in> set (extract_placeholders (dt_body_template r)). map_of ctx k \<noteq> None"
      by (simp only: filter_empty_conv not_None_eq)
    then show ?thesis using Inr Nil filled by (simp add: build_context_def)
  next
    case (Cons k ks)
    then have "k \<in> set (filter (\<lambda>k. map_of ctx k = None) (extract_placeholders (dt_body_template r)))" by simp
    then have "\<exists>k \<in> set (extract_placeholders (dt_body_template r)). value_of provided fs k = None"
      using filled by auto
    then show ?thesis using Inr Cons by (simp add: build_context_def)
  qed
qed

subsection \<open>Where files go\<close>

text \<open>The disk has room for a file when no file stands where a directory has to be, and no directory where
  the file goes.\<close>

definition room_for :: "storage \<Rightarrow> uuid \<Rightarrow> uuid \<Rightarrow> string \<Rightarrow> disk \<Rightarrow> bool" where
  "room_for st t i name d \<longleftrightarrow>
     (\<forall>q \<in> set (prefixes_of (document_path st t i)). q \<notin> fst ` set (files d)) \<and>
     document_path st t i @ [name] \<notin> set (dirs d)"

lemma tenant_prefixes:
  assumes "storage_ok st"
  shows "set (prefixes_of (tenant_documents_path st t)) \<subseteq> set (prefixes_of (document_path st t i))"
proof -
  have "document_path st t i = tenant_documents_path st t @ [st_uuid st i]"
    using assms by (simp add: document_path_def storage_ok_def)
  moreover have "\<exists>m \<le> length (p @ [w]). take n p = take m (p @ [w])" if "n \<le> length p" for n and p :: path and w
    using that by (intro exI[of _ n]) simp
  ultimately show ?thesis by (simp only: in_prefixes_of subset_iff) metis
qed

lemma save_plain_succeeds:
  assumes "storage_ok st" "plain_name name" "room_for st t i name d"
  shows "\<exists>p d'. save_binary_file st t i name data d = (Inr (p, length data), d')"
proof -
  have "\<exists>d1. document_dir st t i d = Some d1"
    using assms(1,3) tenant_prefixes[OF assms(1), of t i]
    by (fastforce simp: document_dir_def mkdir_parents_def room_for_def list_ex_iff)
  then obtain d1 where dir: "document_dir st t i d = Some d1" ..
  let ?target = "document_path st t i @ [name]"
  have "?target \<notin> set (prefixes_of (document_path st t i))" by (auto simp: in_prefixes_of)
      (metis append_eq_conv_conj append_take_drop_id length_append_singleton length_take min.absorb2 n_not_Suc_n take_all_iff)
  then have free: "?target \<notin> set (dirs d1)"
    using document_dir_Some[OF dir] assms(3) tenant_prefixes[OF assms(1), of t i] by (auto simp: room_for_def)
  have "walk d1 [] ?target = Some ([] @ ?target)"
  proof (rule walk_plain[OF plain_path_components[OF assms(1,2)]])
    fix n assume "n < length ?target"
    then have "[] @ take n ?target \<in> set (prefixes_of (document_path st t i))"
      by (auto simp: in_prefixes_of intro: exI[of _ n])
    then show "[] @ take n ?target \<in> set (dirs d1)" using document_dir_Some[OF dir] by blast
  qed
  then show ?thesis
    using dir free assms(1,2) by (auto simp: save_binary_file_def Let_def write_bytes_def relative_to_def document_path_plain)
qed

lemma uuid_txt_plain: "storage_ok st \<Longrightarrow> plain_name (st_uuid st i @ ''.txt'')"
proof -
  assume "storage_ok st"
  then have "plain_name (st_uuid st i)" by (simp add: storage_ok_def)
  then show ?thesis by (cases "st_uuid st i") (auto simp: plain_name_def)
qed

lemma store_plain_file:
  assumes "storage_ok st" "plain_name name" "room_for st t i name (storage_disk s)"
  shows "\<exists>p d. store_file st t i kind name mime content s =
      (Inr (), s\<lparr>storage_disk := d, document_files := row_insert
         \<lparr>dl_tenant_id = t, dl_document_id = i, dl_file_type = kind, dl_storage_path = p, dl_filename = name,
          dl_mime_type = mime, dl_size_bytes = length content\<rparr> (document_files s)\<rparr>) \<and>
    read_file (document_path st t i @ [name]) d = Some content"
proof -
  obtain p d where run: "save_binary_file st t i name content (storage_disk s) = (Inr (p, length content), d)"
    using save_plain_succeeds[OF assms] by blast
  have "read_file (document_path st t i @ [name]) d = Some content"
    using save_binary_file_plain[OF assms(1,2) run, of "document_path st t i @ [name]"] by simp
  then show ?thesis
    by (intro exI[of _ p] exI[of _ d]) (simp add: store_file_def on_disk_def svc_eval run create_file_def)
qed

subsection \<open>Properties\<close>

definition filled_text :: "placeholder_values \<Rightarrow> document_field list \<Rightarrow> piece \<Rightarrow> utext" where
  "filled_text provided fs p =
     (case p of Lit c \<Rightarrow> [c] | Hole k \<Rightarrow> (case value_of provided fs k of None \<Rightarrow> [] | Some v \<Rightarrow> v))"

lemma render_filled:
  assumes "\<forall>k \<in> set (extract_placeholders body). value_of provided fs k \<noteq> None"
    and "\<And>k. map_of ctx k = value_of provided fs k"
  shows "render_or_conflict body ctx = Inr (concat (map (filled_text provided fs) (scan body)))"
proof -
  have "piece_text ctx p = filled_text provided fs p" for p
    by (cases p) (simp_all add: filled_text_def assms(2))
  then have "piece_text ctx = filled_text provided fs" by blast
  then show ?thesis
    using replace_all_ok[of "scan body" ctx] assms by (simp add: render_or_conflict_def render_template_def)
qed

lemma fields_of_distinct: "document_ok s \<Longrightarrow> distinct (map df_field_key (fields_of i s))"
proof -
  assume "document_ok s"
  then have "distinct (map field_key (template_fields s))" by (simp add: document_ok_def templates_ok_def)
  moreover have "distinct (map field_key fs) \<Longrightarrow> distinct (map df_field_key (filter (\<lambda>f. df_template_id f = i) fs))" for fs
    by (induction fs) (auto simp: field_key_def rev_image_eqI)
  ultimately show ?thesis by (simp add: fields_of_def)
qed

lemma get_template_Some: "get_template t i s = Some r \<Longrightarrow> r \<in> set (templates s) \<and> dt_tenant_id r = t \<and> dt_id r = i"
  unfolding get_template_def by (rule scoped_get_Some)

lemma row_find_fresh:
  "\<forall>d \<in> set ds. do_id d < i \<Longrightarrow> do_id x = i \<Longrightarrow> do_tenant_id x = t \<Longrightarrow>
     row_find (\<lambda>d. do_tenant_id d = t \<and> do_id d = i) (row_insert x ds) = Some x"
  by (induction ds) (auto simp: row_insert_def)

text \<open>The run of a generation whose placeholders all have values, step by step.\<close>

lemma generate_document_returns:
  assumes st: "storage_ok st" and ok: "document_ok s"
    and r: "get_template t (gr_template_id payload) s = Some r" "dt_is_active r"
    and given: "\<forall>k \<in> set (extract_placeholders (dt_body_template r)).
      value_of (gr_context payload) (fields_of (dt_id r) s) k \<noteq> None"
    and room: "room_for st t (next_id s) (st_uuid st (next_id s) @ ''.txt'') (storage_disk s)"
  shows "\<exists>d s'. generate_document st t u payload s = (Inr d, s') \<and> do_status d = DocumentStatus_GENERATED \<and>
    do_rendered_content d =
      Some (concat (map (filled_text (gr_context payload) (fields_of (dt_id r) s)) (scan (dt_body_template r)))) \<and>
    read_file (document_path st t (do_id d) @ [st_uuid st (do_id d) @ ''.txt'']) (storage_disk s') =
      map_option utf8 (do_rendered_content d)"
proof -
  let ?i = "next_id s" and ?fs = "fields_of (dt_id r) s"
  let ?text = "concat (map (filled_text (gr_context payload) ?fs) (scan (dt_body_template r)))"
  obtain ctx where ctx: "build_context r ?fs (gr_context payload) = Inr ctx"
    and val: "\<And>k. map_of ctx k = value_of (gr_context payload) ?fs k"
    using build_context_decides[OF fields_of_distinct[OF ok], of r "gr_context payload" "dt_id r"] given
    by (auto split: sum.splits)
  note rendered = render_filled[OF given val]
  let ?d = "generated_document ?i t u r payload ctx ?text"
  let ?s1 = "s\<lparr>next_id := Suc ?i, documents := row_insert ?d (documents s)\<rparr>"
  have id: "do_id ?d = ?i" "do_tenant_id ?d = t" by (simp_all add: generated_document_def)
  have "room_for st t ?i (st_uuid st ?i @ ''.txt'') (storage_disk ?s1)" using room by simp
  from store_plain_file[OF st uuid_txt_plain[OF st] this] obtain p disk where
    stored: "store_file st t ?i DocumentFileType_GENERATED (st_uuid st ?i @ ''.txt'') ''text/plain'' (utf8 ?text) ?s1 =
      (Inr (), ?s1\<lparr>storage_disk := disk, document_files := row_insert
         \<lparr>dl_tenant_id = t, dl_document_id = ?i, dl_file_type = DocumentFileType_GENERATED, dl_storage_path = p,
          dl_filename = st_uuid st ?i @ ''.txt'', dl_mime_type = ''text/plain'', dl_size_bytes = length (utf8 ?text)\<rparr>
         (document_files ?s1)\<rparr>)"
    and content: "read_file (document_path st t ?i @ [st_uuid st ?i @ ''.txt'']) disk = Some (utf8 ?text)"
    by blast
  have get: "row_find (\<lambda>d. do_tenant_id d = t \<and> do_id d = ?i) (row_insert ?d (documents s)) = Some ?d"
    using ok id by (intro row_find_fresh) (auto simp: document_ok_def documents_ok_def)
  have "\<exists>s'. generate_document st t u payload s = (Inr ?d, s') \<and> storage_disk s' = disk"
    using r ctx rendered stored get id
    by (simp add: generate_document_def get_template_or_404_def get_document_or_404_def svc_eval raise_left_def
        fresh_id_eval finish_generation_def insert_document_def audit_document_def create_audit_def log_document_def
        record_audit_eval get_document_def scoped_get_def)
  then show ?thesis using content id by (auto simp: generated_document_def)
qed

text \<open>C15: What a generation produces: for an active template of a reachable session, when every placeholder of
  the body has a value - given in the request, or else the default of the template's field of that name -
  the generation returns a document whose text is the body with each placeholder replaced by its value, and
  the file on the disk holds this text in UTF-8; when a placeholder has no value, it raises a conflict and
  changes nothing, so the renderer's \<^verbatim>\<open>KeyError\<close> never happens.\<close>

theorem generate_document_decides:
  assumes "reachable document_start (document_step st) s" and "storage_ok st"
    and "get_template t (gr_template_id payload) s = Some r" "dt_is_active r"
    and "room_for st t (next_id s) (st_uuid st (next_id s) @ ''.txt'') (storage_disk s)"
  shows "if \<forall>k \<in> set (extract_placeholders (dt_body_template r)).
            value_of (gr_context payload) (fields_of (dt_id r) s) k \<noteq> None
    then \<exists>d s'. generate_document st t u payload s = (Inr d, s') \<and> do_status d = DocumentStatus_GENERATED \<and>
      do_rendered_content d =
        Some (concat (map (filled_text (gr_context payload) (fields_of (dt_id r) s)) (scan (dt_body_template r)))) \<and>
      read_file (document_path st t (do_id d) @ [st_uuid st (do_id d) @ ''.txt'']) (storage_disk s') =
        map_option utf8 (do_rendered_content d)
    else \<exists>m. generate_document st t u payload s = (Inl (ConflictError m), s)"
proof -
  note ok = document.reachable_inv[OF assms(1)]
  let ?fs = "fields_of (dt_id r) s"
  show ?thesis
  proof (cases "\<forall>k \<in> set (extract_placeholders (dt_body_template r)). value_of (gr_context payload) ?fs k \<noteq> None")
    case True
    then show ?thesis using generate_document_returns[OF assms(2) ok assms(3,4) True assms(5)] by simp
  next
    case False
    then obtain m where "build_context r ?fs (gr_context payload) = Inl (ConflictError m)"
      using build_context_decides[OF fields_of_distinct[OF ok], of r "gr_context payload" "dt_id r"]
      by (auto split: sum.splits)
    then have "generate_document st t u payload s = (Inl (ConflictError m), s)"
      using assms(3,4) by (simp add: generate_document_def get_template_or_404_def svc_eval raise_left_def)
    then show ?thesis using False by simp
  qed
qed

lemma desk_ready_facts:
  "map_option (\<lambda>r. (dt_is_active r, dt_body_template r, dt_id r)) (get_template 0 2 desk_ready) =
     Some (True, codes ''A{{ b }}{{c}}'', 2) \<and> next_id desk_ready = 3 \<and>
   extract_placeholders (codes ''A{{ b }}{{c}}'') = [codes ''b'', codes ''c''] \<and>
   value_of (gr_context desk_request) (fields_of 2 desk_ready) (codes ''b'') = Some [1044] \<and>
   value_of (gr_context desk_request) (fields_of 2 desk_ready) (codes ''c'') = Some (codes ''D'') \<and>
   storage_disk desk_ready = \<lparr>dirs = [[]], files = []\<rparr>"
  by code_simp

theorem generate_document_decides_witness:
  "\<exists>d s'. generate_document desk_storage 0 desk_user desk_request desk_ready = (Inr d, s') \<and>
     do_rendered_content d = Some [65, 1044, 68]"
proof -
  obtain r where r: "get_template 0 (gr_template_id desk_request) desk_ready = Some r" "dt_is_active r"
    "dt_body_template r = codes ''A{{ b }}{{c}}''" "dt_id r = 2"
    using desk_ready_facts by (auto simp: desk_request_def)
  have "room_for desk_storage 0 (next_id desk_ready) (st_uuid desk_storage (next_id desk_ready) @ ''.txt'') (storage_disk desk_ready)"
    using desk_ready_facts by (simp add: room_for_def document_path_plain[OF desk_storage_ok])
  note run = generate_document_decides[OF desk_reachable(1) desk_storage_ok r(1,2) this, of desk_user]
  have "concat (map (filled_text (gr_context desk_request) (fields_of 2 desk_ready)) (scan (codes ''A{{ b }}{{c}}''))) =
      [65, 1044, 68]"
    by code_simp
  then show ?thesis using run r(3,4) desk_ready_facts by auto
qed

text \<open>C16: Templates round trip: a template printed piece by piece, its characters other than an opening brace and
  its keys of the pattern's alphabet, with any white space inside the double braces, scans back to its
  pieces; so its placeholders are exactly its keys and rendering it is replacing each key by its value.\<close>

theorem template_round_trip:
  assumes "list_all canonical ps" "list_all re_space l" "list_all re_space r"
    and "\<forall>k \<in> set (holes ps). map_of ctx k \<noteq> None"
  shows "scan (print_pieces l r ps) = ps \<and> set (extract_placeholders (print_pieces l r ps)) = set (holes ps) \<and>
    render_template (print_pieces l r ps) ctx = Inr (concat (map (piece_text ctx) ps))"
proof -
  have "scan (print_pieces l r ps) = ps" by (rule scan_print_pieces[OF assms(1-3)])
  then show ?thesis using replace_all_ok[OF assms(4)] by (simp add: render_template_def)
qed

theorem template_round_trip_witness:
  "render_template (print_pieces [32] [] [Lit 65, Hole (codes ''b''), Lit 125]) [(codes ''b'', [1044])] =
     Inr [65, 1044, 125]"
proof -
  have "list_all canonical [Lit 65, Hole (codes ''b''), Lit 125]" "list_all re_space [32]" "list_all re_space []"
    by code_simp+
  moreover have "\<forall>k \<in> set (holes [Lit 65, Hole (codes ''b''), Lit 125]). map_of [(codes ''b'', [1044 :: int])] k \<noteq> None"
    by simp
  ultimately show ?thesis using template_round_trip[of "[Lit 65, Hole (codes ''b''), Lit 125]" "[32]" "[]"] by fastforce
qed

lemma store_file_ok:
  assumes "storage_ok st" "plain_name name" "store_file st t i kind name mime content s = (Inr x, s')"
  shows "\<exists>p d. s' = s\<lparr>storage_disk := d, document_files := document_files s @
        [\<lparr>dl_tenant_id = t, dl_document_id = i, dl_file_type = kind, dl_storage_path = p, dl_filename = name,
          dl_mime_type = mime, dl_size_bytes = length content\<rparr>]\<rparr> \<and>
    (\<forall>q. read_file q d = (if q = document_path st t i @ [name] then Some content else read_file q (storage_disk s)))"
proof -
  obtain p n d where run: "save_binary_file st t i name content (storage_disk s) = (Inr (p, n), d)"
    and s': "s' = s\<lparr>storage_disk := d, document_files := document_files s @
        [\<lparr>dl_tenant_id = t, dl_document_id = i, dl_file_type = kind, dl_storage_path = p, dl_filename = name,
          dl_mime_type = mime, dl_size_bytes = n\<rparr>]\<rparr>"
    using assms(3) unfolding store_file_def on_disk_def create_file_def row_insert_def
    by (auto simp: svc_ok split: prod.splits)
  show ?thesis using save_binary_file_plain[OF assms(1,2) run] s' by blast
qed

lemma status_write_get:
  assumes "get_document t i s = Some d"
  shows "row_find (\<lambda>d. do_tenant_id d = t \<and> do_id d = i)
      (row_update do_id i (\<lambda>r. r\<lparr>do_status := st, do_updated_by_user_id := v\<rparr>) (documents s)) =
    Some (d\<lparr>do_status := st, do_updated_by_user_id := v\<rparr>)"
proof -
  have "row_find (\<lambda>d. do_tenant_id d = t \<and> do_id d = i) ds = Some d \<Longrightarrow> row_find (\<lambda>d. do_tenant_id d = t \<and> do_id d = i)
      (row_update do_id i (\<lambda>r. r\<lparr>do_status := st, do_updated_by_user_id := v\<rparr>) ds) =
    Some (d\<lparr>do_status := st, do_updated_by_user_id := v\<rparr>)" for ds
    by (induction ds) (auto split: if_splits)
  then show ?thesis using assms by (simp add: get_document_def scoped_get_def)
qed

text \<open>C29: What an upload of a signed file does when its name is a plain file name: it returns only for a document
  that was generated, sent for review or sent for signature, makes it signed, leaves no signature request of
  the document open, records the file with its size, and on the disk writes this one file under the
  document's own directory and no other.\<close>

theorem upload_signed_file_writes:
  assumes "storage_ok st" "plain_name name"
    and run: "upload_signed_file st now t u i name content mime s = (Inr d, s')"
  shows "\<exists>d0 p. get_document t i s = Some d0 \<and>
    do_status d0 \<in> {DocumentStatus_SENT_FOR_SIGNATURE, DocumentStatus_SENT_FOR_REVIEW, DocumentStatus_GENERATED} \<and>
    d = d0\<lparr>do_status := DocumentStatus_SIGNED, do_updated_by_user_id := us_id u\<rparr> \<and>
    (\<forall>r \<in> set (signature_requests s'). sr_document_id r = i \<longrightarrow> sr_status r \<noteq> SignatureStatus_SENT) \<and>
    document_files s' = document_files s @ [\<lparr>dl_tenant_id = t, dl_document_id = i,
      dl_file_type = DocumentFileType_SIGNED, dl_storage_path = p, dl_filename = name, dl_mime_type = mime,
      dl_size_bytes = length content\<rparr>] \<and>
    (\<forall>q. read_file q (storage_disk s') =
       (if q = document_path st t i @ [name] then Some content else read_file q (storage_disk s)))"
proof -
  obtain d0 s1 where d0: "get_document t i s = Some d0"
    and status: "do_status d0 \<in> {DocumentStatus_SENT_FOR_SIGNATURE, DocumentStatus_SENT_FOR_REVIEW, DocumentStatus_GENERATED}"
    and stored: "store_file st t i DocumentFileType_SIGNED name mime content s = (Inr (), s1)"
    and rest: "thenS (write_document i (\<lambda>r. r\<lparr>do_status := DocumentStatus_SIGNED, do_updated_by_user_id := us_id u\<rparr>))
      (thenS (sign_requests now i) (thenS (audit_document t i (us_id u) ''signed'' (JObj [(''filename'', JStr name)]))
        (get_document_or_404 t i))) s1 = (Inr d, s')"
    using run by (auto simp: upload_signed_file_def svc_ok)
  obtain p disk where s1: "s1 = s\<lparr>storage_disk := disk, document_files := document_files s @ [\<lparr>dl_tenant_id = t,
      dl_document_id = i, dl_file_type = DocumentFileType_SIGNED, dl_storage_path = p, dl_filename = name,
      dl_mime_type = mime, dl_size_bytes = length content\<rparr>]\<rparr>"
    and disk: "\<forall>q. read_file q disk =
      (if q = document_path st t i @ [name] then Some content else read_file q (storage_disk s))"
    using store_file_ok[OF assms(1,2) stored] by blast
  let ?signed = "map (\<lambda>r. if sr_document_id r = i \<and> sr_status r = SignatureStatus_SENT
      then r\<lparr>sr_status := SignatureStatus_SIGNED, sr_signed_at := Some now\<rparr> else r) (signature_requests s1)"
  obtain x2 s2 x3 s3 x4 s4 where run2: "write_document i (\<lambda>r. r\<lparr>do_status := DocumentStatus_SIGNED, do_updated_by_user_id := us_id u\<rparr>) s1 = (Inr x2, s2)"
    and run3: "sign_requests now i s2 = (Inr x3, s3)"
    and run4: "audit_document t i (us_id u) ''signed'' (JObj [(''filename'', JStr name)]) s3 = (Inr x4, s4)"
    and got: "get_document t i s4 = Some d" and s'_eq: "s' = s4"
    using rest unfolding thenS_ok get_document_or_404_ok by blast
  note s2 = run2[unfolded write_document_def svc_ok] and s3 = run3[unfolded sign_requests_def svc_ok]
    and s4 = run4[unfolded audit_document_def create_audit_def svc_ok]
  have s': "get_document t i s' = Some d" using got s'_eq by simp
  have s'2: "storage_disk s' = storage_disk s1" unfolding s'_eq s4 s3 s2 by simp
  have s'3: "document_files s' = document_files s1" unfolding s'_eq s4 s3 s2 by simp
  have s'4: "signature_requests s' = ?signed" unfolding s'_eq s4 s3 s2 by simp
  have docs: "documents s' = row_update do_id i (\<lambda>r. r\<lparr>do_status := DocumentStatus_SIGNED, do_updated_by_user_id := us_id u\<rparr>) (documents s1)"
    unfolding s'_eq s4 s3 s2 by simp
  have requests: "\<forall>r \<in> set ?signed. sr_document_id r = i \<longrightarrow> sr_status r \<noteq> SignatureStatus_SENT"
  proof
    fix r assume "r \<in> set ?signed"
    then obtain q where q: "r = (if sr_document_id q = i \<and> sr_status q = SignatureStatus_SENT
        then q\<lparr>sr_status := SignatureStatus_SIGNED, sr_signed_at := Some now\<rparr> else q)"
      by (simp only: set_map) blast
    show "sr_document_id r = i \<longrightarrow> sr_status r \<noteq> SignatureStatus_SENT"
      by (cases "sr_document_id q = i \<and> sr_status q = SignatureStatus_SENT") (simp_all add: q)
  qed
  have "d = d0\<lparr>do_status := DocumentStatus_SIGNED, do_updated_by_user_id := us_id u\<rparr>"
    using status_write_get[OF d0] docs s' s1 by (simp add: get_document_def scoped_get_def)
  moreover have "document_files s' = document_files s @ [\<lparr>dl_tenant_id = t, dl_document_id = i,
      dl_file_type = DocumentFileType_SIGNED, dl_storage_path = p, dl_filename = name, dl_mime_type = mime,
      dl_size_bytes = length content\<rparr>]"
    unfolding s'3 s1 by simp
  moreover have "storage_disk s' = disk" unfolding s'2 s1 by simp
  ultimately show ?thesis
    using disk requests[folded s'4] by (intro exI[of _ d0] exI[of _ p] conjI d0 status; simp only: simp_thms)
qed

theorem upload_signed_file_writes_witness:
  "\<exists>d s'. upload_signed_file desk_storage 7 1 desk_user 4 ''f'' [1, 2] ''m'' desk_imported = (Inr d, s') \<and>
     do_status d = DocumentStatus_SIGNED \<and>
     read_file (document_path desk_storage 1 4 @ [''f'']) (storage_disk s') = Some [1, 2]"
proof -
  have "case upload_signed_file desk_storage 7 1 desk_user 4 ''f'' [1, 2] ''m'' desk_imported of
      (Inr d, s') \<Rightarrow> True | _ \<Rightarrow> False"
    by code_simp
  then obtain d s' where run: "upload_signed_file desk_storage 7 1 desk_user 4 ''f'' [1, 2] ''m'' desk_imported = (Inr d, s')"
    by (auto split: prod.splits sum.splits)
  have "plain_name ''f''" by (simp add: plain_name_def)
  from upload_signed_file_writes[OF desk_storage_ok this run] run show ?thesis by auto
qed

subsection \<open>A name that leaves the directory\<close>

text \<open>
  The name that climbs from a document's directory to the tenants and down to the directory of another
  document.  \<open>has_directory\<close>: that directory exists, as it does once a file of the document was stored.
\<close>

definition traversal_name :: "storage \<Rightarrow> uuid \<Rightarrow> uuid \<Rightarrow> string \<Rightarrow> string" where
  "traversal_name st v j name =
     concat (map (\<lambda>w. w @ ''/'') [''..'', ''..'', ''..'', st_uuid st v, ''documents'', st_uuid st j]) @ name"

definition has_directory :: "storage \<Rightarrow> uuid \<Rightarrow> uuid \<Rightarrow> disk \<Rightarrow> bool" where
  "has_directory st v j d \<longleftrightarrow> set (prefixes_of (document_path st v j)) \<subseteq> set (dirs d)"

definition component :: "string \<Rightarrow> bool" where
  "component w \<longleftrightarrow> w \<noteq> [] \<and> w \<noteq> ''.'' \<and> CHR 47 \<notin> set w"

lemma plain_component: "plain_name w \<Longrightarrow> component w"
  by (simp add: plain_name_def component_def)

lemma split_slash_append: "CHR 47 \<notin> set w \<Longrightarrow> split_slash (w @ CHR 47 # r) = w # split_slash r"
proof (induction w)
  case Nil
  have "split_slash r \<noteq> []" by (induction r) (auto split: list.split)
  then show ?case by (auto split: list.split)
qed auto

lemma path_parts_joined:
  assumes "list_all component ws" "component name"
  shows "path_parts (concat (map (\<lambda>w. w @ ''/'') ws) @ name) = ws @ [name]"
  using assms(1)
proof (induction ws)
  case Nil
  then show ?case using assms(2) by (simp add: path_parts_def component_def split_slash_plain)
next
  case (Cons w ws)
  then show ?case by (simp add: path_parts_def component_def split_slash_append)
qed

lemma path_join_traversal:
  assumes st: "storage_ok st" and name: "plain_name name"
  shows "path_join base (traversal_name st v j name) =
    base @ [''..'', ''..'', ''..'', st_uuid st v, ''documents'', st_uuid st j, name]"
proof -
  have "list_all component [''..'', ''..'', ''..'', st_uuid st v, ''documents'', st_uuid st j]"
    using st plain_component by (auto simp: storage_ok_def component_def plain_name_def)
  from path_parts_joined[OF this plain_component[OF name]] show ?thesis
    unfolding path_join_def traversal_name_def by (simp add: is_absolute_def)
qed

lemma walk_append: "walk d cur (ws @ vs) = Option.bind (walk d cur ws) (\<lambda>c. walk d c vs)"
  by (induction ws arbitrary: cur) auto

lemma document_dir_exists:
  assumes st: "storage_ok st"
    and room: "\<forall>q \<in> set (prefixes_of (document_path st t i)). q \<notin> fst ` set (files d)"
  shows "\<exists>d1. document_dir st t i d = Some d1"
proof -
  have "\<forall>q \<in> set (prefixes_of (tenant_documents_path st t)). q \<notin> fst ` set (files d)"
    using room tenant_prefixes[OF st, of t i] by blast
  then have "\<exists>dd. mkdir_parents (tenant_documents_path st t) d = Some (d\<lparr>dirs := dd\<rparr>)"
    by (auto simp: mkdir_parents_def list_ex_iff)
  then obtain dd where "mkdir_parents (tenant_documents_path st t) d = Some (d\<lparr>dirs := dd\<rparr>)" ..
  moreover have "\<exists>d1. mkdir_parents (document_path st t i) (d\<lparr>dirs := dd\<rparr>) = Some d1"
    using room by (simp add: mkdir_parents_def list_ex_iff)
  ultimately show ?thesis by (simp add: document_dir_def)
qed

lemma save_traversal:
  assumes st: "storage_ok st" and name: "plain_name name" and dir: "has_directory st v j d"
    and room: "\<forall>q \<in> set (prefixes_of (document_path st t i)). q \<notin> fst ` set (files d)"
    and free: "document_path st v j @ [name] \<notin> set (dirs d)"
  shows "\<exists>p d'. save_binary_file st t i (traversal_name st v j name) data d = (Inr (p, length data), d') \<and>
    (\<forall>q. read_file q d' = (if q = document_path st v j @ [name] then Some data else read_file q d))"
proof -
  let ?here = "document_path st t i" and ?up = "st_path st @ [''tenants'']"
  let ?down = "[st_uuid st v, ''documents'', st_uuid st j, name]"
  let ?victim = "document_path st v j @ [name]"
  obtain d1 where d1: "document_dir st t i d = Some d1" using document_dir_exists[OF st room] ..
  note made = document_dir_Some[OF d1]
  have here: "?here = ?up @ [st_uuid st t, ''documents'', st_uuid st i]"
    and victim: "?victim = ?up @ ?down"
    using st by (simp_all add: document_path_plain)
  have prefixes: "take n ?here \<in> set (dirs d1)" for n
  proof -
    have "take n ?here \<in> set (prefixes_of ?here)"
      unfolding in_prefixes_of by (cases "n \<le> length ?here") (auto intro: exI[of _ n] exI[of _ "length ?here"])
    then show ?thesis using made by blast
  qed
  have plain: "list_all (\<lambda>w. w \<noteq> ''..'') ?here" "list_all (\<lambda>w. w \<noteq> ''..'') ?down"
    using plain_path_components[OF st name, of t i] plain_path_components[OF st name, of v j] here victim by simp_all
  have "walk d1 [] ?here = Some ([] @ ?here)" by (rule walk_plain[OF plain(1)]) (simp add: prefixes)
  moreover have "?here \<in> set (dirs d1)" "?up @ [st_uuid st t, ''documents''] \<in> set (dirs d1)"
    "?up @ [st_uuid st t] \<in> set (dirs d1)"
    using prefixes[of "length ?here"] prefixes[of "length ?up + 2"] prefixes[of "length ?up + 1"] unfolding here by simp_all
  then have "walk d1 ?here [''..'', ''..'', ''..''] = Some ?up"
    unfolding here by (simp add: butlast_append)
  moreover have "walk d1 ?up ?down = Some (?up @ ?down)"
  proof (rule walk_plain[OF plain(2)])
    fix n assume n: "n < length ?down"
    have "?up @ take n ?down = take (length ?up + n) (document_path st v j)"
      using n st by (auto simp: document_path_plain less_Suc_eq)
    moreover have "take k (document_path st v j) \<in> set (prefixes_of (document_path st v j))" for k
      unfolding in_prefixes_of by (cases "k \<le> length (document_path st v j)")
        (auto intro: exI[of _ k] exI[of _ "length (document_path st v j)"])
    ultimately show "?up @ take n ?down \<in> set (dirs d1)" using dir made unfolding has_directory_def by auto
  qed
  ultimately have walk: "walk d1 [] (?here @ [''..'', ''..'', ''..''] @ ?down) = Some ?victim"
    unfolding victim by (simp only: walk_append append_Nil bind.bind_lunit)
  have "length (take n ?here) < length ?victim" for n using st by (simp add: document_path_plain)
  then have "?victim \<notin> set (prefixes_of ?here)" unfolding in_prefixes_of by (metis less_irrefl)
  then have "?victim \<notin> set (dirs d1)" using free made tenant_prefixes[OF st, of t i] by auto
  then have wr: "write_bytes (?here @ [''..'', ''..'', ''..''] @ ?down) data d1 =
      Some (d1\<lparr>files := (?victim, data) # filter (\<lambda>e. fst e \<noteq> ?victim) (files d1)\<rparr>)"
    unfolding write_bytes_def walk by simp
  have target: "path_join ?here (traversal_name st v j name) = ?here @ [''..'', ''..'', ''..''] @ ?down"
    using path_join_traversal[OF st name] by simp
  have rel: "relative_to (?here @ [''..'', ''..'', ''..''] @ ?down) (st_path st) =
      Some (drop (length (st_path st)) (?here @ [''..'', ''..'', ''..''] @ ?down))"
    using st by (simp add: relative_to_def document_path_plain)
  have "save_binary_file st t i (traversal_name st v j name) data d =
      (Inr (forward_slashes (path_str (drop (length (st_path st)) (?here @ [''..'', ''..'', ''..''] @ ?down))), length data),
       d1\<lparr>files := (?victim, data) # filter (\<lambda>e. fst e \<noteq> ?victim) (files d1)\<rparr>)"
    unfolding save_binary_file_def d1 Let_def target option.case wr rel by simp
  moreover have written: "files (d1\<lparr>files := x\<rparr>) = x" for x by simp
  have "read_file q (d1\<lparr>files := (?victim, data) # filter (\<lambda>e. fst e \<noteq> ?victim) (files d1)\<rparr>) =
      (if q = ?victim then Some data else read_file q d)" for q
    unfolding read_file_def written read_after_write made[THEN conjunct1] ..
  ultimately show ?thesis by blast
qed

text \<open>C37: The name of an uploaded file is not checked, so a user of one tenant can overwrite a file of another
  tenant's document: whenever the user may upload to some document of the own tenant and the other document's
  directory exists, the upload under the name that climbs three directories and goes down to the other document
  returns, the other document's file holds the uploaded bytes, no other file has changed, and the other
  document's row, its rendered text included, is as it was.\<close>

theorem upload_overwrites_other_tenant:
  assumes reached: "reachable document_start (document_step st) s"
    and st: "storage_ok st" and name: "plain_name name"
    and own: "get_document t i s = Some d0" "do_status d0 \<in> {DocumentStatus_SENT_FOR_SIGNATURE,
      DocumentStatus_SENT_FOR_REVIEW, DocumentStatus_GENERATED}"
    and other: "get_document v j s = Some victim" "v \<noteq> t" "has_directory st v j (storage_disk s)"
      "document_path st v j @ [name] \<notin> set (dirs (storage_disk s))"
    and room: "\<forall>q \<in> set (prefixes_of (document_path st t i)). q \<notin> fst ` set (files (storage_disk s))"
  shows "\<exists>d s'. upload_signed_document_file st now t u i (Some (traversal_name st v j name)) mime content s = (Inr d, s') \<and>
    (\<forall>q. read_file q (storage_disk s') =
       (if q = document_path st v j @ [name] then Some content else read_file q (storage_disk s))) \<and>
    get_document v j s' = Some victim"
proof -
  let ?name = "traversal_name st v j name"
  let ?mime = "case mime of None \<Rightarrow> ''application/octet-stream'' | Some m \<Rightarrow> if m = [] then ''application/octet-stream'' else m"
  obtain p d where saved: "save_binary_file st t i ?name content (storage_disk s) = (Inr (p, length content), d)"
    and disk: "\<forall>q. read_file q d = (if q = document_path st v j @ [name] then Some content else read_file q (storage_disk s))"
    using save_traversal[OF st name other(3) room other(4)] by blast
  let ?s1 = "s\<lparr>storage_disk := d, document_files := row_insert \<lparr>dl_tenant_id = t, dl_document_id = i,
      dl_file_type = DocumentFileType_SIGNED, dl_storage_path = p, dl_filename = ?name, dl_mime_type = ?mime,
      dl_size_bytes = length content\<rparr> (document_files s)\<rparr>"
  have stored: "store_file st t i DocumentFileType_SIGNED ?name ?mime content s = (Inr (), ?s1)"
    by (simp add: store_file_def on_disk_def svc_eval saved create_file_def)
  define f where "f r = r\<lparr>do_status := DocumentStatus_SIGNED, do_updated_by_user_id := us_id u\<rparr>" for r :: document_instance
  have got: "row_find (\<lambda>d. do_tenant_id d = t \<and> do_id d = i) (row_update do_id i f (documents s)) = Some (f d0)"
    using status_write_get[OF own(1)] unfolding f_def .
  have "?name \<noteq> []" using name by (simp add: traversal_name_def)
  then have upload: "upload_signed_document_file st now t u i (Some ?name) mime content s =
      upload_signed_file st now t u i ?name content ?mime s"
    by (simp add: upload_signed_document_file_def)
  obtain s' where run: "upload_signed_file st now t u i ?name content ?mime s = (Inr (f d0), s')"
    and s': "storage_disk s' = d" "documents s' = row_update do_id i f (documents s)"
  proof -
    let ?audit = "\<lambda>x. x"
    have "upload_signed_file st now t u i ?name content ?mime s =
        thenS (write_document i f) (thenS (sign_requests now i)
          (thenS (audit_document t i (us_id u) ''signed'' (JObj [(''filename'', JStr ?name)])) (get_document_or_404 t i))) ?s1"
      unfolding upload_signed_file_def get_document_or_404_def f_def
      using own stored by (simp add: svc_eval bindS_def thenS_def)
    also have "\<dots> = (Inr (f d0), snd \<dots>)"
      using got by (simp add: write_document_def sign_requests_def audit_document_def create_audit_def svc_eval
          get_document_or_404_def get_document_def scoped_get_def)
    finally show thesis
      by (rule that) (simp_all add: write_document_def sign_requests_def audit_document_def create_audit_def svc_eval
          get_document_or_404_def get_document_def scoped_get_def got)
  qed
  have distinct: "distinct (map do_id (documents s))"
    using document.reachable_inv[OF reached] by (simp add: document_ok_def documents_ok_def)
  have rows: "victim \<in> set (documents s)" "do_id victim = j" "do_tenant_id victim = v"
      "d0 \<in> set (documents s)" "do_id d0 = i" "do_tenant_id d0 = t"
    using other(1) own(1) unfolding get_document_def by (auto dest: scoped_get_Some)
  have "j \<noteq> i" using distinct_keys_eq[OF distinct rows(1,4)] rows other(2) by auto
  then have "row_find (\<lambda>d. do_tenant_id d = v \<and> do_id d = j) (row_update do_id i f ds) =
      row_find (\<lambda>d. do_tenant_id d = v \<and> do_id d = j) ds" for ds
    by (induction ds) (auto simp: f_def)
  then have "get_document v j s' = Some victim"
    using other(1) by (simp add: get_document_def scoped_get_def s'(2))
  then show ?thesis unfolding upload using run disk s'(1) by blast
qed

definition contract_path :: path where
  "contract_path = [''st'', ''tenants'', ''u'', ''documents'', ''uuuu'', ''uuuu.txt'']"

lemma contract_facts:
  "map_option (\<lambda>d. (do_status d, do_tenant_id d)) (get_document 1 4 desk_imported) = Some (DocumentStatus_GENERATED, 1) \<and>
   map_option do_rendered_content (get_document 0 3 desk_imported) = Some (Some [65, 1044, 68]) \<and>
   read_file contract_path (storage_disk desk_imported) = Some [65, 208, 148, 68]"
  by code_simp

lemma contract_disk:
  "list_all (\<lambda>q. List.member (dirs (storage_disk desk_imported)) q) (prefixes_of (document_path desk_storage 0 3)) \<and>
   \<not> List.member (dirs (storage_disk desk_imported)) contract_path \<and>
   list_all (\<lambda>q. \<not> List.member (map fst (files (storage_disk desk_imported))) q) (prefixes_of (document_path desk_storage 1 4)) \<and>
   document_path desk_storage 0 3 @ [''uuuu.txt''] = contract_path"
  by code_simp

theorem upload_overwrites_other_tenant_witness:
  "\<exists>d s'. upload_signed_document_file desk_storage 7 1 desk_user 4 (Some ''../../../u/documents/uuuu/uuuu.txt'') None
      [1, 2] desk_imported = (Inr d, s') \<and>
    read_file contract_path (storage_disk desk_imported) = Some [65, 208, 148, 68] \<and>
    read_file contract_path (storage_disk s') = Some [1, 2]"
proof -
  obtain own where own: "get_document 1 4 desk_imported = Some own" "do_status own = DocumentStatus_GENERATED"
    using contract_facts by auto
  obtain victim where victim: "get_document 0 3 desk_imported = Some victim" using contract_facts by auto
  have path: "document_path desk_storage 0 3 @ [''uuuu.txt''] = contract_path" using contract_disk by blast
  have name: "traversal_name desk_storage 0 3 ''uuuu.txt'' = ''../../../u/documents/uuuu/uuuu.txt''" by code_simp
  have "has_directory desk_storage 0 3 (storage_disk desk_imported)"
    using contract_disk by (auto simp: has_directory_def list_all_iff)
  moreover have "document_path desk_storage 0 3 @ [''uuuu.txt''] \<notin> set (dirs (storage_disk desk_imported))"
    unfolding path using contract_disk by simp
  moreover have "\<forall>q \<in> set (prefixes_of (document_path desk_storage 1 4)). q \<notin> fst ` set (files (storage_disk desk_imported))"
    using contract_disk by (auto simp: list_all_iff)
  moreover have "plain_name ''uuuu.txt''" by (simp add: plain_name_def)
  ultimately have "\<exists>d s'. upload_signed_document_file desk_storage 7 1 desk_user 4
      (Some (traversal_name desk_storage 0 3 ''uuuu.txt'')) None [1, 2] desk_imported = (Inr d, s') \<and>
      (\<forall>q. read_file q (storage_disk s') = (if q = document_path desk_storage 0 3 @ [''uuuu.txt''] then Some [1, 2]
        else read_file q (storage_disk desk_imported))) \<and> get_document 0 3 s' = Some victim"
    by (intro upload_overwrites_other_tenant[OF desk_reachable(3) desk_storage_ok _ own(1) _ victim]) (simp_all add: own(2))
  then obtain d s' where run: "upload_signed_document_file desk_storage 7 1 desk_user 4
      (Some (traversal_name desk_storage 0 3 ''uuuu.txt'')) None [1, 2] desk_imported = (Inr d, s')"
    and "\<forall>q. read_file q (storage_disk s') = (if q = document_path desk_storage 0 3 @ [''uuuu.txt''] then Some [1, 2]
        else read_file q (storage_disk desk_imported))"
    by blast
  then have "read_file contract_path (storage_disk s') = Some [1, 2]" by (simp add: path)
  with run contract_facts show ?thesis unfolding name by blast
qed

text \<open>An absolute name is worse: the file is written outside the storage directory although the request then
  fails.\<close>

lemma outside_written:
  "fst (upload_signed_document_file desk_storage 7 1 desk_user 4 (Some ''/x'') None [1, 2] desk_imported) =
     Inl (PyValueError ''is not in the subpath of'')"
  "read_file [''x''] (storage_disk (desk_uploaded ''/x'')) = Some [1, 2]"
  by code_simp+

lemma import_context_flag:
  assumes "x \<notin> {''external_ref'', ''external_legacy_id'', ''legacy_status'', ''branch_id''}"
  shows "map_of (import_context uid a payload) (codes x) =
    (case map_of (rev (di_extra_context payload)) (codes x) of
       Some v \<Rightarrow> Some v | None \<Rightarrow> map_of (import_flags a payload) (codes x))"
  using assms
  by (simp add: import_context_def Let_def map_of_ctx_update map_of_ctx_set split: option.split)

text \<open>How an import is marked: in a reachable session the imported document has the requested status, or else
  the one mapped from the legacy status, or else draft; its context says for the status, the link and the
  amount whether they need a review - the status unknown, no work item, the amount zero - except where the
  extra context of the same request has an entry of that name, which replaces the flag.\<close>

theorem import_document_marks:
  assumes "reachable document_start (document_step st) s"
    and "import_document st t u payload s = (Inr d, s')"
  shows "do_status d = (case di_status payload of Some x \<Rightarrow> x | None \<Rightarrow> fst (map_legacy_contract_status (di_legacy_status payload))) \<and>
    (\<forall>(k, flag) \<in> {(codes ''status_needs_review'', snd (map_legacy_contract_status (di_legacy_status payload))),
        (codes ''link_needs_review'', di_work_item_id payload = None),
        (codes ''amount_needs_review'', pd_digits (di_amount payload) = 0)}.
      map_of (do_context_json d) k =
        (case map_of (rev (di_extra_context payload)) k of Some v \<Rightarrow> Some v | None \<Rightarrow> Some (bool_lower flag)))"
proof -
  note ok = document.reachable_inv[OF assms(1)]
  let ?d = "imported_document (st_uuid st) (next_id s) t u payload"
  let ?a = "assess_legacy_contract_import (di_legacy_status payload) (di_work_item_id payload) (di_amount payload) None"
  have "row_find (\<lambda>d. do_tenant_id d = t \<and> do_id d = next_id s) (row_insert ?d (documents s)) = Some ?d"
    using ok by (intro row_find_fresh) (auto simp: document_ok_def documents_ok_def imported_document_def Let_def)
  then have d: "d = ?d"
    using assms(2)
    by (auto simp: import_document_def Let_def svc_ok insert_document_def audit_document_def create_audit_def
        log_document_def record_audit_ok get_document_def scoped_get_def)
  have default: "fst (map_legacy_contract_status x) = DocumentStatus_DRAFT" if "snd (map_legacy_contract_status x)" for x
    using that by (auto simp: map_legacy_contract_status_def split: option.splits)
  have assessed: "ia_target_status ?a = fst (map_legacy_contract_status (di_legacy_status payload))"
    "ia_status_needs_review ?a = snd (map_legacy_contract_status (di_legacy_status payload))"
    "ia_link_needs_review ?a = (di_work_item_id payload = None)"
    "ia_amount_needs_review ?a = (pd_digits (di_amount payload) = 0)"
    using default[of "di_legacy_status payload"]
    by (auto simp: assess_legacy_contract_import_def default_import_policy_def Let_def split: prod.splits)
  have "map_of (import_context (st_uuid st) ?a payload) (codes x) =
      (case map_of (rev (di_extra_context payload)) (codes x) of Some v \<Rightarrow> Some v | None \<Rightarrow> map_of (import_flags ?a payload) (codes x))"
    if "x \<in> {''status_needs_review'', ''link_needs_review'', ''amount_needs_review''}" for x
    using that by (intro import_context_flag) auto
  then show ?thesis unfolding d using assessed by (auto simp: import_flags_def imported_document_def Let_def split: option.split)
qed

theorem import_document_marks_witness:
  "\<exists>d s'. import_document desk_storage 1 desk_user desk_import desk_generated = (Inr d, s') \<and>
     do_status d = DocumentStatus_GENERATED \<and>
     map_of (do_context_json d) (codes ''link_needs_review'') = Some (codes ''true'') \<and>
     map_of (do_context_json d) (codes ''amount_needs_review'') = Some (codes ''false'')"
proof -
  have "case import_document desk_storage 1 desk_user desk_import desk_generated of (Inr d, s') \<Rightarrow> True | _ \<Rightarrow> False"
    by code_simp
  then obtain d s' where run: "import_document desk_storage 1 desk_user desk_import desk_generated = (Inr d, s')"
    by (auto split: prod.splits sum.splits)
  have "map_of (rev (di_extra_context desk_import)) (codes ''link_needs_review'') = None"
    "map_of (rev (di_extra_context desk_import)) (codes ''amount_needs_review'') = Some (codes ''false'')"
    by code_simp+
  note extra = this
  have payload: "di_status desk_import = Some DocumentStatus_GENERATED" "di_work_item_id desk_import = None"
    by (simp_all add: desk_import_def)
  note marks = import_document_marks[OF desk_reachable(2) run]
  have "do_status d = DocumentStatus_GENERATED" using conjunct1[OF marks] by (simp only: payload option.case)
  moreover have "map_of (do_context_json d) (codes ''link_needs_review'') = Some (codes ''true'')"
    using bspec[OF conjunct2[OF marks], of "(codes ''link_needs_review'', di_work_item_id desk_import = None)"] extra(1)
    by (simp only: payload bool_lower_def insert_iff simp_thms split_conv option.case if_True)
  moreover have "map_of (do_context_json d) (codes ''amount_needs_review'') = Some (codes ''false'')"
    using bspec[OF conjunct2[OF marks], of "(codes ''amount_needs_review'', pd_digits (di_amount desk_import) = 0)"] extra(2)
    by (simp only: insert_iff simp_thms split_conv option.case)
  ultimately show ?thesis using run by blast
qed

end
