(* ===== verification/Marketing_Enums.thy ===== *)
theory Marketing_Enums
  imports Enums
begin

text \<open>
  The string enums of \<^verbatim>\<open>marketing/enums.py\<close>, in the form of \<^verbatim>\<open>Enums\<close>, with its constants and the
  maps of destination types.
\<close>

datatype MarketingTopicStatus =
    MarketingTopicStatus_DRAFT
  | MarketingTopicStatus_APPROVED
  | MarketingTopicStatus_USED
  | MarketingTopicStatus_ARCHIVED

primrec MarketingTopicStatus_value :: "MarketingTopicStatus \<Rightarrow> string" where
  "MarketingTopicStatus_value MarketingTopicStatus_DRAFT = ''draft''"
| "MarketingTopicStatus_value MarketingTopicStatus_APPROVED = ''approved''"
| "MarketingTopicStatus_value MarketingTopicStatus_USED = ''used''"
| "MarketingTopicStatus_value MarketingTopicStatus_ARCHIVED = ''archived''"

definition MarketingTopicStatus_members :: "MarketingTopicStatus list" where
  "MarketingTopicStatus_members =
     [MarketingTopicStatus_DRAFT,
      MarketingTopicStatus_APPROVED,
      MarketingTopicStatus_USED,
      MarketingTopicStatus_ARCHIVED]"

interpretation marketingTopicStatus: str_enum MarketingTopicStatus_members MarketingTopicStatus_value
  by unfold_locales (case_tac x, simp_all add: MarketingTopicStatus_members_def)

datatype MarketingGuideStatus =
    MarketingGuideStatus_DRAFT
  | MarketingGuideStatus_ACTIVE
  | MarketingGuideStatus_SUPERSEDED

primrec MarketingGuideStatus_value :: "MarketingGuideStatus \<Rightarrow> string" where
  "MarketingGuideStatus_value MarketingGuideStatus_DRAFT = ''draft''"
| "MarketingGuideStatus_value MarketingGuideStatus_ACTIVE = ''active''"
| "MarketingGuideStatus_value MarketingGuideStatus_SUPERSEDED = ''superseded''"

definition MarketingGuideStatus_members :: "MarketingGuideStatus list" where
  "MarketingGuideStatus_members =
     [MarketingGuideStatus_DRAFT,
      MarketingGuideStatus_ACTIVE,
      MarketingGuideStatus_SUPERSEDED]"

interpretation marketingGuideStatus: str_enum MarketingGuideStatus_members MarketingGuideStatus_value
  by unfold_locales (case_tac x, simp_all add: MarketingGuideStatus_members_def)

datatype MarketingRubricStatus =
    MarketingRubricStatus_ACTIVE
  | MarketingRubricStatus_INACTIVE
  | MarketingRubricStatus_ARCHIVED

primrec MarketingRubricStatus_value :: "MarketingRubricStatus \<Rightarrow> string" where
  "MarketingRubricStatus_value MarketingRubricStatus_ACTIVE = ''active''"
| "MarketingRubricStatus_value MarketingRubricStatus_INACTIVE = ''inactive''"
| "MarketingRubricStatus_value MarketingRubricStatus_ARCHIVED = ''archived''"

definition MarketingRubricStatus_members :: "MarketingRubricStatus list" where
  "MarketingRubricStatus_members =
     [MarketingRubricStatus_ACTIVE,
      MarketingRubricStatus_INACTIVE,
      MarketingRubricStatus_ARCHIVED]"

interpretation marketingRubricStatus: str_enum MarketingRubricStatus_members MarketingRubricStatus_value
  by unfold_locales (case_tac x, simp_all add: MarketingRubricStatus_members_def)

datatype MarketingContentPlanStatus =
    MarketingContentPlanStatus_DRAFT
  | MarketingContentPlanStatus_APPROVED
  | MarketingContentPlanStatus_ARCHIVED

primrec MarketingContentPlanStatus_value :: "MarketingContentPlanStatus \<Rightarrow> string" where
  "MarketingContentPlanStatus_value MarketingContentPlanStatus_DRAFT = ''draft''"
| "MarketingContentPlanStatus_value MarketingContentPlanStatus_APPROVED = ''approved''"
| "MarketingContentPlanStatus_value MarketingContentPlanStatus_ARCHIVED = ''archived''"

definition MarketingContentPlanStatus_members :: "MarketingContentPlanStatus list" where
  "MarketingContentPlanStatus_members =
     [MarketingContentPlanStatus_DRAFT,
      MarketingContentPlanStatus_APPROVED,
      MarketingContentPlanStatus_ARCHIVED]"

interpretation marketingContentPlanStatus: str_enum MarketingContentPlanStatus_members MarketingContentPlanStatus_value
  by unfold_locales (case_tac x, simp_all add: MarketingContentPlanStatus_members_def)

datatype MarketingContentPlanItemStatus =
    MarketingContentPlanItemStatus_DRAFT
  | MarketingContentPlanItemStatus_APPROVED
  | MarketingContentPlanItemStatus_TOPIC_CREATED
  | MarketingContentPlanItemStatus_CANCELLED

primrec MarketingContentPlanItemStatus_value :: "MarketingContentPlanItemStatus \<Rightarrow> string" where
  "MarketingContentPlanItemStatus_value MarketingContentPlanItemStatus_DRAFT = ''draft''"
| "MarketingContentPlanItemStatus_value MarketingContentPlanItemStatus_APPROVED = ''approved''"
| "MarketingContentPlanItemStatus_value MarketingContentPlanItemStatus_TOPIC_CREATED = ''topic_created''"
| "MarketingContentPlanItemStatus_value MarketingContentPlanItemStatus_CANCELLED = ''cancelled''"

definition MarketingContentPlanItemStatus_members :: "MarketingContentPlanItemStatus list" where
  "MarketingContentPlanItemStatus_members =
     [MarketingContentPlanItemStatus_DRAFT,
      MarketingContentPlanItemStatus_APPROVED,
      MarketingContentPlanItemStatus_TOPIC_CREATED,
      MarketingContentPlanItemStatus_CANCELLED]"

interpretation marketingContentPlanItemStatus: str_enum MarketingContentPlanItemStatus_members MarketingContentPlanItemStatus_value
  by unfold_locales (case_tac x, simp_all add: MarketingContentPlanItemStatus_members_def)

datatype MarketingContentPlanSource =
    MarketingContentPlanSource_MANUAL
  | MarketingContentPlanSource_JSON_IMPORT

primrec MarketingContentPlanSource_value :: "MarketingContentPlanSource \<Rightarrow> string" where
  "MarketingContentPlanSource_value MarketingContentPlanSource_MANUAL = ''manual''"
| "MarketingContentPlanSource_value MarketingContentPlanSource_JSON_IMPORT = ''json_import''"

definition MarketingContentPlanSource_members :: "MarketingContentPlanSource list" where
  "MarketingContentPlanSource_members =
     [MarketingContentPlanSource_MANUAL,
      MarketingContentPlanSource_JSON_IMPORT]"

interpretation marketingContentPlanSource: str_enum MarketingContentPlanSource_members MarketingContentPlanSource_value
  by unfold_locales (case_tac x, simp_all add: MarketingContentPlanSource_members_def)

datatype MarketingPackStatus =
    MarketingPackStatus_DRAFT
  | MarketingPackStatus_PREFLIGHT_FAILED
  | MarketingPackStatus_READY_FOR_APPROVAL
  | MarketingPackStatus_APPROVED
  | MarketingPackStatus_SCHEDULED
  | MarketingPackStatus_PUBLISHING
  | MarketingPackStatus_PUBLISHED
  | MarketingPackStatus_FAILED
  | MarketingPackStatus_ARCHIVED

primrec MarketingPackStatus_value :: "MarketingPackStatus \<Rightarrow> string" where
  "MarketingPackStatus_value MarketingPackStatus_DRAFT = ''draft''"
| "MarketingPackStatus_value MarketingPackStatus_PREFLIGHT_FAILED = ''preflight_failed''"
| "MarketingPackStatus_value MarketingPackStatus_READY_FOR_APPROVAL = ''ready_for_approval''"
| "MarketingPackStatus_value MarketingPackStatus_APPROVED = ''approved''"
| "MarketingPackStatus_value MarketingPackStatus_SCHEDULED = ''scheduled''"
| "MarketingPackStatus_value MarketingPackStatus_PUBLISHING = ''publishing''"
| "MarketingPackStatus_value MarketingPackStatus_PUBLISHED = ''published''"
| "MarketingPackStatus_value MarketingPackStatus_FAILED = ''failed''"
| "MarketingPackStatus_value MarketingPackStatus_ARCHIVED = ''archived''"

definition MarketingPackStatus_members :: "MarketingPackStatus list" where
  "MarketingPackStatus_members =
     [MarketingPackStatus_DRAFT,
      MarketingPackStatus_PREFLIGHT_FAILED,
      MarketingPackStatus_READY_FOR_APPROVAL,
      MarketingPackStatus_APPROVED,
      MarketingPackStatus_SCHEDULED,
      MarketingPackStatus_PUBLISHING,
      MarketingPackStatus_PUBLISHED,
      MarketingPackStatus_FAILED,
      MarketingPackStatus_ARCHIVED]"

interpretation marketingPackStatus: str_enum MarketingPackStatus_members MarketingPackStatus_value
  by unfold_locales (case_tac x, simp_all add: MarketingPackStatus_members_def)

datatype MarketingPreflightStatus =
    MarketingPreflightStatus_NOT_RUN
  | MarketingPreflightStatus_PASSED
  | MarketingPreflightStatus_FAILED

primrec MarketingPreflightStatus_value :: "MarketingPreflightStatus \<Rightarrow> string" where
  "MarketingPreflightStatus_value MarketingPreflightStatus_NOT_RUN = ''not_run''"
| "MarketingPreflightStatus_value MarketingPreflightStatus_PASSED = ''passed''"
| "MarketingPreflightStatus_value MarketingPreflightStatus_FAILED = ''failed''"

definition MarketingPreflightStatus_members :: "MarketingPreflightStatus list" where
  "MarketingPreflightStatus_members =
     [MarketingPreflightStatus_NOT_RUN,
      MarketingPreflightStatus_PASSED,
      MarketingPreflightStatus_FAILED]"

interpretation marketingPreflightStatus: str_enum MarketingPreflightStatus_members MarketingPreflightStatus_value
  by unfold_locales (case_tac x, simp_all add: MarketingPreflightStatus_members_def)

datatype MarketingApprovalStatus =
    MarketingApprovalStatus_DRAFT
  | MarketingApprovalStatus_PENDING
  | MarketingApprovalStatus_APPROVED
  | MarketingApprovalStatus_REJECTED

primrec MarketingApprovalStatus_value :: "MarketingApprovalStatus \<Rightarrow> string" where
  "MarketingApprovalStatus_value MarketingApprovalStatus_DRAFT = ''draft''"
| "MarketingApprovalStatus_value MarketingApprovalStatus_PENDING = ''pending''"
| "MarketingApprovalStatus_value MarketingApprovalStatus_APPROVED = ''approved''"
| "MarketingApprovalStatus_value MarketingApprovalStatus_REJECTED = ''rejected''"

definition MarketingApprovalStatus_members :: "MarketingApprovalStatus list" where
  "MarketingApprovalStatus_members =
     [MarketingApprovalStatus_DRAFT,
      MarketingApprovalStatus_PENDING,
      MarketingApprovalStatus_APPROVED,
      MarketingApprovalStatus_REJECTED]"

interpretation marketingApprovalStatus: str_enum MarketingApprovalStatus_members MarketingApprovalStatus_value
  by unfold_locales (case_tac x, simp_all add: MarketingApprovalStatus_members_def)

datatype MarketingPublishStatus =
    MarketingPublishStatus_NOT_STARTED
  | MarketingPublishStatus_PARTIAL
  | MarketingPublishStatus_PUBLISHED
  | MarketingPublishStatus_FAILED

primrec MarketingPublishStatus_value :: "MarketingPublishStatus \<Rightarrow> string" where
  "MarketingPublishStatus_value MarketingPublishStatus_NOT_STARTED = ''not_started''"
| "MarketingPublishStatus_value MarketingPublishStatus_PARTIAL = ''partial''"
| "MarketingPublishStatus_value MarketingPublishStatus_PUBLISHED = ''published''"
| "MarketingPublishStatus_value MarketingPublishStatus_FAILED = ''failed''"

definition MarketingPublishStatus_members :: "MarketingPublishStatus list" where
  "MarketingPublishStatus_members =
     [MarketingPublishStatus_NOT_STARTED,
      MarketingPublishStatus_PARTIAL,
      MarketingPublishStatus_PUBLISHED,
      MarketingPublishStatus_FAILED]"

interpretation marketingPublishStatus: str_enum MarketingPublishStatus_members MarketingPublishStatus_value
  by unfold_locales (case_tac x, simp_all add: MarketingPublishStatus_members_def)

datatype MarketingChannel =
    MarketingChannel_TELEGRAM
  | MarketingChannel_INSTAGRAM
  | MarketingChannel_THREADS
  | MarketingChannel_INSIGHTS

primrec MarketingChannel_value :: "MarketingChannel \<Rightarrow> string" where
  "MarketingChannel_value MarketingChannel_TELEGRAM = ''telegram''"
| "MarketingChannel_value MarketingChannel_INSTAGRAM = ''instagram''"
| "MarketingChannel_value MarketingChannel_THREADS = ''threads''"
| "MarketingChannel_value MarketingChannel_INSIGHTS = ''insights''"

definition MarketingChannel_members :: "MarketingChannel list" where
  "MarketingChannel_members =
     [MarketingChannel_TELEGRAM,
      MarketingChannel_INSTAGRAM,
      MarketingChannel_THREADS,
      MarketingChannel_INSIGHTS]"

interpretation marketingChannel: str_enum MarketingChannel_members MarketingChannel_value
  by unfold_locales (case_tac x, simp_all add: MarketingChannel_members_def)

datatype MarketingTextStatus =
    MarketingTextStatus_DRAFT
  | MarketingTextStatus_READY
  | MarketingTextStatus_APPROVED

primrec MarketingTextStatus_value :: "MarketingTextStatus \<Rightarrow> string" where
  "MarketingTextStatus_value MarketingTextStatus_DRAFT = ''draft''"
| "MarketingTextStatus_value MarketingTextStatus_READY = ''ready''"
| "MarketingTextStatus_value MarketingTextStatus_APPROVED = ''approved''"

definition MarketingTextStatus_members :: "MarketingTextStatus list" where
  "MarketingTextStatus_members =
     [MarketingTextStatus_DRAFT,
      MarketingTextStatus_READY,
      MarketingTextStatus_APPROVED]"

interpretation marketingTextStatus: str_enum MarketingTextStatus_members MarketingTextStatus_value
  by unfold_locales (case_tac x, simp_all add: MarketingTextStatus_members_def)

datatype MarketingMediaAssetStatus =
    MarketingMediaAssetStatus_PENDING
  | MarketingMediaAssetStatus_STORED
  | MarketingMediaAssetStatus_FAILED
  | MarketingMediaAssetStatus_ARCHIVED

primrec MarketingMediaAssetStatus_value :: "MarketingMediaAssetStatus \<Rightarrow> string" where
  "MarketingMediaAssetStatus_value MarketingMediaAssetStatus_PENDING = ''pending''"
| "MarketingMediaAssetStatus_value MarketingMediaAssetStatus_STORED = ''stored''"
| "MarketingMediaAssetStatus_value MarketingMediaAssetStatus_FAILED = ''failed''"
| "MarketingMediaAssetStatus_value MarketingMediaAssetStatus_ARCHIVED = ''archived''"

definition MarketingMediaAssetStatus_members :: "MarketingMediaAssetStatus list" where
  "MarketingMediaAssetStatus_members =
     [MarketingMediaAssetStatus_PENDING,
      MarketingMediaAssetStatus_STORED,
      MarketingMediaAssetStatus_FAILED,
      MarketingMediaAssetStatus_ARCHIVED]"

interpretation marketingMediaAssetStatus: str_enum MarketingMediaAssetStatus_members MarketingMediaAssetStatus_value
  by unfold_locales (case_tac x, simp_all add: MarketingMediaAssetStatus_members_def)

datatype MarketingAttributionTouchType =
    MarketingAttributionTouchType_FIRST_TOUCH
  | MarketingAttributionTouchType_ASSISTED
  | MarketingAttributionTouchType_CONVERTED

primrec MarketingAttributionTouchType_value :: "MarketingAttributionTouchType \<Rightarrow> string" where
  "MarketingAttributionTouchType_value MarketingAttributionTouchType_FIRST_TOUCH = ''first_touch''"
| "MarketingAttributionTouchType_value MarketingAttributionTouchType_ASSISTED = ''assisted''"
| "MarketingAttributionTouchType_value MarketingAttributionTouchType_CONVERTED = ''converted''"

definition MarketingAttributionTouchType_members :: "MarketingAttributionTouchType list" where
  "MarketingAttributionTouchType_members =
     [MarketingAttributionTouchType_FIRST_TOUCH,
      MarketingAttributionTouchType_ASSISTED,
      MarketingAttributionTouchType_CONVERTED]"

interpretation marketingAttributionTouchType: str_enum MarketingAttributionTouchType_members MarketingAttributionTouchType_value
  by unfold_locales (case_tac x, simp_all add: MarketingAttributionTouchType_members_def)

datatype MarketingPublishingProvider =
    MarketingPublishingProvider_TELEGRAM
  | MarketingPublishingProvider_INSTAGRAM
  | MarketingPublishingProvider_THREADS
  | MarketingPublishingProvider_TIKTOK

primrec MarketingPublishingProvider_value :: "MarketingPublishingProvider \<Rightarrow> string" where
  "MarketingPublishingProvider_value MarketingPublishingProvider_TELEGRAM = ''telegram''"
| "MarketingPublishingProvider_value MarketingPublishingProvider_INSTAGRAM = ''instagram''"
| "MarketingPublishingProvider_value MarketingPublishingProvider_THREADS = ''threads''"
| "MarketingPublishingProvider_value MarketingPublishingProvider_TIKTOK = ''tiktok''"

definition MarketingPublishingProvider_members :: "MarketingPublishingProvider list" where
  "MarketingPublishingProvider_members =
     [MarketingPublishingProvider_TELEGRAM,
      MarketingPublishingProvider_INSTAGRAM,
      MarketingPublishingProvider_THREADS,
      MarketingPublishingProvider_TIKTOK]"

interpretation marketingPublishingProvider: str_enum MarketingPublishingProvider_members MarketingPublishingProvider_value
  by unfold_locales (case_tac x, simp_all add: MarketingPublishingProvider_members_def)

datatype MarketingPublishingConnectionStatus =
    MarketingPublishingConnectionStatus_NOT_CONNECTED
  | MarketingPublishingConnectionStatus_ACTIVE
  | MarketingPublishingConnectionStatus_ERROR
  | MarketingPublishingConnectionStatus_DISABLED
  | MarketingPublishingConnectionStatus_EXPIRED

primrec MarketingPublishingConnectionStatus_value :: "MarketingPublishingConnectionStatus \<Rightarrow> string" where
  "MarketingPublishingConnectionStatus_value MarketingPublishingConnectionStatus_NOT_CONNECTED = ''not_connected''"
| "MarketingPublishingConnectionStatus_value MarketingPublishingConnectionStatus_ACTIVE = ''active''"
| "MarketingPublishingConnectionStatus_value MarketingPublishingConnectionStatus_ERROR = ''error''"
| "MarketingPublishingConnectionStatus_value MarketingPublishingConnectionStatus_DISABLED = ''disabled''"
| "MarketingPublishingConnectionStatus_value MarketingPublishingConnectionStatus_EXPIRED = ''expired''"

definition MarketingPublishingConnectionStatus_members :: "MarketingPublishingConnectionStatus list" where
  "MarketingPublishingConnectionStatus_members =
     [MarketingPublishingConnectionStatus_NOT_CONNECTED,
      MarketingPublishingConnectionStatus_ACTIVE,
      MarketingPublishingConnectionStatus_ERROR,
      MarketingPublishingConnectionStatus_DISABLED,
      MarketingPublishingConnectionStatus_EXPIRED]"

interpretation marketingPublishingConnectionStatus: str_enum MarketingPublishingConnectionStatus_members MarketingPublishingConnectionStatus_value
  by unfold_locales (case_tac x, simp_all add: MarketingPublishingConnectionStatus_members_def)

datatype MarketingPublishingTokenStatus =
    MarketingPublishingTokenStatus_NOT_CONFIGURED
  | MarketingPublishingTokenStatus_VALID
  | MarketingPublishingTokenStatus_EXPIRING
  | MarketingPublishingTokenStatus_INVALID

primrec MarketingPublishingTokenStatus_value :: "MarketingPublishingTokenStatus \<Rightarrow> string" where
  "MarketingPublishingTokenStatus_value MarketingPublishingTokenStatus_NOT_CONFIGURED = ''not_configured''"
| "MarketingPublishingTokenStatus_value MarketingPublishingTokenStatus_VALID = ''valid''"
| "MarketingPublishingTokenStatus_value MarketingPublishingTokenStatus_EXPIRING = ''expiring''"
| "MarketingPublishingTokenStatus_value MarketingPublishingTokenStatus_INVALID = ''invalid''"

definition MarketingPublishingTokenStatus_members :: "MarketingPublishingTokenStatus list" where
  "MarketingPublishingTokenStatus_members =
     [MarketingPublishingTokenStatus_NOT_CONFIGURED,
      MarketingPublishingTokenStatus_VALID,
      MarketingPublishingTokenStatus_EXPIRING,
      MarketingPublishingTokenStatus_INVALID]"

interpretation marketingPublishingTokenStatus: str_enum MarketingPublishingTokenStatus_members MarketingPublishingTokenStatus_value
  by unfold_locales (case_tac x, simp_all add: MarketingPublishingTokenStatus_members_def)

datatype MarketingStorageResourceMode =
    MarketingStorageResourceMode_FLEXITY_MANAGED
  | MarketingStorageResourceMode_CLIENT_PUBLIC_URL
  | MarketingStorageResourceMode_CLIENT_BUCKET

primrec MarketingStorageResourceMode_value :: "MarketingStorageResourceMode \<Rightarrow> string" where
  "MarketingStorageResourceMode_value MarketingStorageResourceMode_FLEXITY_MANAGED = ''flexity_managed''"
| "MarketingStorageResourceMode_value MarketingStorageResourceMode_CLIENT_PUBLIC_URL = ''client_public_url''"
| "MarketingStorageResourceMode_value MarketingStorageResourceMode_CLIENT_BUCKET = ''client_bucket''"

definition MarketingStorageResourceMode_members :: "MarketingStorageResourceMode list" where
  "MarketingStorageResourceMode_members =
     [MarketingStorageResourceMode_FLEXITY_MANAGED,
      MarketingStorageResourceMode_CLIENT_PUBLIC_URL,
      MarketingStorageResourceMode_CLIENT_BUCKET]"

interpretation marketingStorageResourceMode: str_enum MarketingStorageResourceMode_members MarketingStorageResourceMode_value
  by unfold_locales (case_tac x, simp_all add: MarketingStorageResourceMode_members_def)

datatype MarketingStorageProfileStatus =
    MarketingStorageProfileStatus_ACTIVE
  | MarketingStorageProfileStatus_DISABLED

primrec MarketingStorageProfileStatus_value :: "MarketingStorageProfileStatus \<Rightarrow> string" where
  "MarketingStorageProfileStatus_value MarketingStorageProfileStatus_ACTIVE = ''active''"
| "MarketingStorageProfileStatus_value MarketingStorageProfileStatus_DISABLED = ''disabled''"

definition MarketingStorageProfileStatus_members :: "MarketingStorageProfileStatus list" where
  "MarketingStorageProfileStatus_members =
     [MarketingStorageProfileStatus_ACTIVE,
      MarketingStorageProfileStatus_DISABLED]"

interpretation marketingStorageProfileStatus: str_enum MarketingStorageProfileStatus_members MarketingStorageProfileStatus_value
  by unfold_locales (case_tac x, simp_all add: MarketingStorageProfileStatus_members_def)

datatype MarketingMediaValidationStatus =
    MarketingMediaValidationStatus_LEGACY_UNVERIFIED
  | MarketingMediaValidationStatus_REGISTERED_UNVERIFIED
  | MarketingMediaValidationStatus_VALIDATED_METADATA
  | MarketingMediaValidationStatus_REJECTED
  | MarketingMediaValidationStatus_ARCHIVED

primrec MarketingMediaValidationStatus_value :: "MarketingMediaValidationStatus \<Rightarrow> string" where
  "MarketingMediaValidationStatus_value MarketingMediaValidationStatus_LEGACY_UNVERIFIED = ''legacy_unverified''"
| "MarketingMediaValidationStatus_value MarketingMediaValidationStatus_REGISTERED_UNVERIFIED = ''registered_unverified''"
| "MarketingMediaValidationStatus_value MarketingMediaValidationStatus_VALIDATED_METADATA = ''validated_metadata''"
| "MarketingMediaValidationStatus_value MarketingMediaValidationStatus_REJECTED = ''rejected''"
| "MarketingMediaValidationStatus_value MarketingMediaValidationStatus_ARCHIVED = ''archived''"

definition MarketingMediaValidationStatus_members :: "MarketingMediaValidationStatus list" where
  "MarketingMediaValidationStatus_members =
     [MarketingMediaValidationStatus_LEGACY_UNVERIFIED,
      MarketingMediaValidationStatus_REGISTERED_UNVERIFIED,
      MarketingMediaValidationStatus_VALIDATED_METADATA,
      MarketingMediaValidationStatus_REJECTED,
      MarketingMediaValidationStatus_ARCHIVED]"

interpretation marketingMediaValidationStatus: str_enum MarketingMediaValidationStatus_members MarketingMediaValidationStatus_value
  by unfold_locales (case_tac x, simp_all add: MarketingMediaValidationStatus_members_def)

datatype MarketingDestinationStatus =
    MarketingDestinationStatus_ENABLED
  | MarketingDestinationStatus_DISABLED
  | MarketingDestinationStatus_ARCHIVED

primrec MarketingDestinationStatus_value :: "MarketingDestinationStatus \<Rightarrow> string" where
  "MarketingDestinationStatus_value MarketingDestinationStatus_ENABLED = ''enabled''"
| "MarketingDestinationStatus_value MarketingDestinationStatus_DISABLED = ''disabled''"
| "MarketingDestinationStatus_value MarketingDestinationStatus_ARCHIVED = ''archived''"

definition MarketingDestinationStatus_members :: "MarketingDestinationStatus list" where
  "MarketingDestinationStatus_members =
     [MarketingDestinationStatus_ENABLED,
      MarketingDestinationStatus_DISABLED,
      MarketingDestinationStatus_ARCHIVED]"

interpretation marketingDestinationStatus: str_enum MarketingDestinationStatus_members MarketingDestinationStatus_value
  by unfold_locales (case_tac x, simp_all add: MarketingDestinationStatus_members_def)

datatype MarketingDestinationValidationStatus =
    MarketingDestinationValidationStatus_UNCHECKED
  | MarketingDestinationValidationStatus_VALID
  | MarketingDestinationValidationStatus_INVALID
  | MarketingDestinationValidationStatus_UNAVAILABLE

primrec MarketingDestinationValidationStatus_value :: "MarketingDestinationValidationStatus \<Rightarrow> string" where
  "MarketingDestinationValidationStatus_value MarketingDestinationValidationStatus_UNCHECKED = ''unchecked''"
| "MarketingDestinationValidationStatus_value MarketingDestinationValidationStatus_VALID = ''valid''"
| "MarketingDestinationValidationStatus_value MarketingDestinationValidationStatus_INVALID = ''invalid''"
| "MarketingDestinationValidationStatus_value MarketingDestinationValidationStatus_UNAVAILABLE = ''unavailable''"

definition MarketingDestinationValidationStatus_members :: "MarketingDestinationValidationStatus list" where
  "MarketingDestinationValidationStatus_members =
     [MarketingDestinationValidationStatus_UNCHECKED,
      MarketingDestinationValidationStatus_VALID,
      MarketingDestinationValidationStatus_INVALID,
      MarketingDestinationValidationStatus_UNAVAILABLE]"

interpretation marketingDestinationValidationStatus: str_enum MarketingDestinationValidationStatus_members MarketingDestinationValidationStatus_value
  by unfold_locales (case_tac x, simp_all add: MarketingDestinationValidationStatus_members_def)

datatype MarketingPublishDestinationType =
    MarketingPublishDestinationType_TELEGRAM_CHAT
  | MarketingPublishDestinationType_INSTAGRAM_USER
  | MarketingPublishDestinationType_THREADS_USER
  | MarketingPublishDestinationType_TIKTOK_USER

primrec MarketingPublishDestinationType_value :: "MarketingPublishDestinationType \<Rightarrow> string" where
  "MarketingPublishDestinationType_value MarketingPublishDestinationType_TELEGRAM_CHAT = ''telegram_chat''"
| "MarketingPublishDestinationType_value MarketingPublishDestinationType_INSTAGRAM_USER = ''instagram_user''"
| "MarketingPublishDestinationType_value MarketingPublishDestinationType_THREADS_USER = ''threads_user''"
| "MarketingPublishDestinationType_value MarketingPublishDestinationType_TIKTOK_USER = ''tiktok_user''"

definition MarketingPublishDestinationType_members :: "MarketingPublishDestinationType list" where
  "MarketingPublishDestinationType_members =
     [MarketingPublishDestinationType_TELEGRAM_CHAT,
      MarketingPublishDestinationType_INSTAGRAM_USER,
      MarketingPublishDestinationType_THREADS_USER,
      MarketingPublishDestinationType_TIKTOK_USER]"

interpretation marketingPublishDestinationType: str_enum MarketingPublishDestinationType_members MarketingPublishDestinationType_value
  by unfold_locales (case_tac x, simp_all add: MarketingPublishDestinationType_members_def)


subsection \<open>Constants\<close>

definition DEFAULT_PACK_CHANNELS :: "MarketingChannel list" where
  "DEFAULT_PACK_CHANNELS =
     [MarketingChannel_TELEGRAM, MarketingChannel_INSTAGRAM, MarketingChannel_THREADS, MarketingChannel_INSIGHTS]"

definition ALLOWED_MEDIA_MIME_TYPES :: "string list" where
  "ALLOWED_MEDIA_MIME_TYPES = [''image/png'', ''image/jpeg'', ''image/jpg'', ''image/webp'']"

definition C2A_ALLOWED_MEDIA_MIME_TYPES :: "string list" where
  "C2A_ALLOWED_MEDIA_MIME_TYPES = [''image/png'', ''image/jpeg'', ''image/webp'']"

definition DEFAULT_MAX_UPLOAD_BYTES :: int where
  "DEFAULT_MAX_UPLOAD_BYTES = 10 * 1024 * 1024"

definition DEFAULT_MAX_URL_LENGTH :: int where
  "DEFAULT_MAX_URL_LENGTH = 1024"

definition MAX_UPLOAD_BYTES_HARD_CAP :: int where
  "MAX_UPLOAD_BYTES_HARD_CAP = 50 * 1024 * 1024"

definition MAX_URL_LENGTH_HARD_CAP :: int where
  "MAX_URL_LENGTH_HARD_CAP = 2048"

fun destination_type_provider :: "MarketingPublishDestinationType \<Rightarrow> MarketingPublishingProvider" where
  "destination_type_provider MarketingPublishDestinationType_TELEGRAM_CHAT = MarketingPublishingProvider_TELEGRAM"
| "destination_type_provider MarketingPublishDestinationType_INSTAGRAM_USER = MarketingPublishingProvider_INSTAGRAM"
| "destination_type_provider MarketingPublishDestinationType_THREADS_USER = MarketingPublishingProvider_THREADS"
| "destination_type_provider MarketingPublishDestinationType_TIKTOK_USER = MarketingPublishingProvider_TIKTOK"

definition destination_capability_enabled :: "MarketingPublishDestinationType \<Rightarrow> bool" where
  "destination_capability_enabled d = (d \<noteq> MarketingPublishDestinationType_TIKTOK_USER)"

end
