(* ===== verification/Marketing_Text.thy ===== *)
theory Marketing_Text
  imports Marketing_Enums Parties "HOL-Library.Sublist"
begin

text \<open>
  The texts of the marketing module: \<^verbatim>\<open>str.lower\<close>, \<^verbatim>\<open>str.casefold\<close> and the ASCII part of the NFKD form
  on the 256 code points of a \<open>char\<close>, \<^verbatim>\<open>date.isoformat\<close>, and \<^verbatim>\<open>marketing/service/slugify.py\<close> with
  the form of every slug it returns.
\<close>

subsection \<open>Letter case\<close>

definition py_lower :: "string \<Rightarrow> string" where
  "py_lower s = map (\<lambda>c. let n = of_char c :: nat in
     if 65 \<le> n \<and> n \<le> 90 \<or> 192 \<le> n \<and> n \<le> 222 \<and> n \<noteq> 215 then char_of (n + 32) else c) s"

text \<open>
  The folding of the micro sign leaves the 256 code points; it is kept, which no comparison with an ASCII
  string sees.
\<close>

definition py_casefold :: "string \<Rightarrow> string" where
  "py_casefold s = concat (map (\<lambda>c. if (of_char c :: nat) = 223 then ''ss'' else py_lower [c]) s)"

subsection \<open>Slugs\<close>

text \<open>
  \<^verbatim>\<open>unicodedata.normalize("NFKD", c).encode("ascii", "ignore")\<close> of one character: a letter with a mark
  becomes the letter, a compatibility form its ASCII characters, anything else outside ASCII is dropped.
\<close>

definition nfkd_ascii :: "char \<Rightarrow> string" where
  "nfkd_ascii c = (let n = of_char c :: nat in
     if n < 128 then [c]
     else if n \<in> set [160, 168, 175, 180, 184] then '' ''
     else if n = 170 \<or> 224 \<le> n \<and> n \<le> 229 then ''a''
     else if n = 178 then ''2'' else if n = 179 then ''3'' else if n = 185 then ''1''
     else if n = 186 \<or> 242 \<le> n \<and> n \<le> 246 then ''o''
     else if n = 188 then ''14'' else if n = 189 then ''12'' else if n = 190 then ''34''
     else if 192 \<le> n \<and> n \<le> 197 then ''A'' else if n = 199 then ''C''
     else if 200 \<le> n \<and> n \<le> 203 then ''E'' else if 204 \<le> n \<and> n \<le> 207 then ''I''
     else if n = 209 then ''N'' else if 210 \<le> n \<and> n \<le> 214 then ''O''
     else if 217 \<le> n \<and> n \<le> 220 then ''U'' else if n = 221 then ''Y''
     else if n = 231 then ''c'' else if 232 \<le> n \<and> n \<le> 235 then ''e''
     else if 236 \<le> n \<and> n \<le> 239 then ''i'' else if n = 241 then ''n''
     else if 249 \<le> n \<and> n \<le> 252 then ''u'' else if n = 253 \<or> n = 255 then ''y''
     else [])"

definition slug_char :: "char \<Rightarrow> bool" where
  "slug_char c = (let n = of_char c :: nat in 97 \<le> n \<and> n \<le> 122 \<or> 65 \<le> n \<and> n \<le> 90 \<or> 48 \<le> n \<and> n \<le> 57)"

text \<open>\<^verbatim>\<open>re.sub(r"[^a-zA-Z0-9]+", "-", s)\<close>: every maximal run of other characters becomes one hyphen.\<close>

fun hyphenate :: "string \<Rightarrow> string" where
  "hyphenate [] = []"
| "hyphenate (c # s) =
     (if slug_char c then c # hyphenate s
      else if s = [] \<or> slug_char (hd s) then CHR ''-'' # hyphenate s else hyphenate s)"

definition strip_hyphens :: "string \<Rightarrow> string" where
  "strip_hyphens s = rev (dropWhile (\<lambda>c. c = CHR ''-'') (rev (dropWhile (\<lambda>c. c = CHR ''-'') s)))"

definition slugify :: "nat \<Rightarrow> string \<Rightarrow> string" where
  "slugify max_length value =
     (let slug = strip_hyphens (hyphenate (py_lower (concat (map nfkd_ascii value))));
          slug' = (if slug = [] then ''pack'' else slug) in
      strip_hyphens (take max_length slug'))"

subsection \<open>The form of a slug\<close>

text \<open>Lower-case letters, digits and single hyphens, with a letter or digit at both ends.\<close>

definition lower_slug_char :: "char \<Rightarrow> bool" where
  "lower_slug_char c = (let n = of_char c :: nat in 97 \<le> n \<and> n \<le> 122 \<or> 48 \<le> n \<and> n \<le> 57)"

definition slug_text :: "string \<Rightarrow> bool" where
  "slug_text s \<longleftrightarrow> (\<forall>c \<in> set s. lower_slug_char c \<or> c = CHR ''-'') \<and> \<not> sublist ''--'' s"

definition slug_ok :: "nat \<Rightarrow> string \<Rightarrow> bool" where
  "slug_ok n s \<longleftrightarrow> s \<noteq> [] \<and> length s \<le> n \<and> slug_text s \<and> hd s \<noteq> CHR ''-'' \<and> last s \<noteq> CHR ''-''"

lemma hyphen_no_slug_char [simp]: "\<not> slug_char (CHR ''-'')" "\<not> lower_slug_char (CHR ''-'')"
  by (simp_all add: slug_char_def lower_slug_char_def)

lemma slug_text_sublist: "slug_text t \<Longrightarrow> sublist s t \<Longrightarrow> slug_text s"
  unfolding slug_text_def by (meson set_mono_sublist sublist_order.order.trans subsetD)

lemma strip_hyphens_sublist: "sublist (strip_hyphens s) s"
proof -
  have "sublist (dropWhile P xs) xs" for P and xs :: string
    by (rule suffix_imp_sublist) (rule suffix_dropWhile)
  then show ?thesis
    unfolding strip_hyphens_def by (metis rev_rev_ident sublist_order.order.trans sublist_rev)
qed

lemma strip_hyphens_ends:
  assumes "strip_hyphens s \<noteq> []"
  shows "hd (strip_hyphens s) \<noteq> CHR ''-'' \<and> last (strip_hyphens s) \<noteq> CHR ''-''"
proof -
  define t where "t = dropWhile (\<lambda>c. c = CHR ''-'') s"
  have strip: "strip_hyphens s = rev (dropWhile (\<lambda>c. c = CHR ''-'') (rev t))" by (simp add: strip_hyphens_def t_def)
  have t: "t \<noteq> []" using assms strip by auto
  then have hd: "hd t \<noteq> CHR ''-''"
    using hd_dropWhile_not[of "\<lambda>c. c = CHR ''-''" s] by (simp add: t_def)
  have "suffix (dropWhile (\<lambda>c. c = CHR ''-'') (rev t)) (rev t)" by (rule suffix_dropWhile)
  then have "prefix (strip_hyphens s) t" by (simp add: strip suffix_to_prefix)
  then have "hd (strip_hyphens s) = hd t" using assms by (auto simp: prefix_def)
  moreover have "last (strip_hyphens s) \<noteq> CHR ''-''"
    using assms hd_dropWhile_not[of "\<lambda>c. c = CHR ''-''" "rev t"] by (simp add: strip last_rev)
  ultimately show ?thesis using hd by simp
qed

lemma strip_hyphens_keeps: "s \<noteq> [] \<Longrightarrow> hd s \<noteq> CHR ''-'' \<Longrightarrow> strip_hyphens s \<noteq> []"
  by (cases s) (auto simp: strip_hyphens_def dropWhile_append dropWhile_eq_Nil_conv)

lemma strip_hyphens_id: "s \<noteq> [] \<Longrightarrow> hd s \<noteq> CHR ''-'' \<Longrightarrow> last s \<noteq> CHR ''-'' \<Longrightarrow> strip_hyphens s = s"
  by (simp add: strip_hyphens_def dropWhile_id hd_rev)

lemma code_of_char: "n < 256 \<Longrightarrow> of_char (char_of n :: char) = (n :: nat)"
  by simp

lemma lower_slug: "slug_char c \<Longrightarrow> c \<in> set (py_lower s) \<Longrightarrow> lower_slug_char c"
  by (auto simp: py_lower_def slug_char_def lower_slug_char_def Let_def split: if_splits)

lemma hyphenate_text: "(\<And>c. c \<in> set s \<Longrightarrow> slug_char c \<Longrightarrow> lower_slug_char c) \<Longrightarrow> slug_text (hyphenate s)"
proof (induction s)
  case Nil
  then show ?case by (simp add: slug_text_def)
next
  case (Cons c s)
  then have rest: "slug_text (hyphenate s)" by simp
  show ?case
  proof (cases "slug_char c")
    case True
    then have "c \<noteq> CHR ''-''" by auto
    then show ?thesis using rest Cons.prems[of c] True by (auto simp: slug_text_def sublist_Cons_right)
  next
    case False
    have "s = [] \<or> slug_char (hd s) \<Longrightarrow> \<not> prefix ''-'' (hyphenate s)"
      by (cases s) (auto simp: prefix_Cons)
    then show ?thesis using rest False by (auto simp: slug_text_def sublist_Cons_right)
  qed
qed

lemma hyphenate_id: "slug_text s \<Longrightarrow> hyphenate s = s"
proof (induction s)
  case (Cons c s)
  then have s: "hyphenate s = s" by (auto simp: slug_text_def sublist_Cons_right)
  show ?case
  proof (cases "c = CHR ''-''")
    case True
    have "s = [] \<or> slug_char (hd s)"
    proof (cases s)
      case (Cons d t)
      then have "d \<noteq> CHR ''-''" using Cons.prems True by (auto simp: slug_text_def sublist_Cons_right)
      then show ?thesis using Cons.prems Cons by (auto simp: slug_text_def lower_slug_char_def slug_char_def Let_def)
    qed simp
    then show ?thesis using True s by simp
  next
    case False
    then have "slug_char c" using Cons.prems by (auto simp: slug_text_def lower_slug_char_def slug_char_def Let_def)
    then show ?thesis using s by simp
  qed
qed simp

lemma slug_form: "1 \<le> n \<Longrightarrow> slug_ok n (slugify n v)"
proof -
  assume n: "1 \<le> n"
  define raw where "raw = strip_hyphens (hyphenate (py_lower (concat (map nfkd_ascii v))))"
  define slug where "slug = (if raw = [] then ''pack'' else raw)"
  have raw: "slug_text raw"
    unfolding raw_def by (rule slug_text_sublist[OF hyphenate_text strip_hyphens_sublist]) (rule lower_slug)
  have slug: "slug_text slug" "slug \<noteq> []" "hd slug \<noteq> CHR ''-''"
    using raw strip_hyphens_ends[of "hyphenate (py_lower (concat (map nfkd_ascii v)))"]
    by (auto simp: slug_def raw_def, simp add: slug_text_def lower_slug_char_def sublist_code)
  have result: "slugify n v = strip_hyphens (take n slug)"
    by (simp add: slugify_def slug_def raw_def Let_def)
  have "take n slug \<noteq> []" "hd (take n slug) = hd slug" using slug(2) n by (cases slug; cases n; simp)+
  then have nonempty: "strip_hyphens (take n slug) \<noteq> []" using slug(3) strip_hyphens_keeps by simp
  have "sublist (strip_hyphens (take n slug)) slug"
    using strip_hyphens_sublist take_is_prefix prefix_imp_sublist sublist_order.order.trans by blast
  moreover have "length (strip_hyphens (take n slug)) \<le> n"
    using sublist_length_le[OF strip_hyphens_sublist, of "take n slug"] by simp
  ultimately show ?thesis
    using slug(1) slug_text_sublist nonempty strip_hyphens_ends by (auto simp: slug_ok_def result)
qed

lemma slugify_id: "slug_ok n s \<Longrightarrow> slugify n s = s"
proof -
  assume ok: "slug_ok n s"
  then have chars: "(of_char c :: nat) < 128 \<and> \<not> (65 \<le> (of_char c :: nat) \<and> of_char c \<le> (90 :: nat))" if "c \<in> set s" for c
    using that by (auto simp: slug_ok_def slug_text_def lower_slug_char_def Let_def)
  have "concat (map nfkd_ascii s) = s"
    using chars by (induction s) (auto simp: nfkd_ascii_def Let_def)
  moreover have "py_lower s = s"
    unfolding py_lower_def by (rule map_idI) (use chars in \<open>fastforce simp: Let_def\<close>)
  ultimately show ?thesis
    using ok by (simp add: slugify_def Let_def hyphenate_id strip_hyphens_id slug_ok_def)
qed

subsection \<open>Dates\<close>

text \<open>
  \<^verbatim>\<open>datetime._ord2ymd\<close> and \<^verbatim>\<open>date.isoformat\<close> for the ordinals of the years 1 to 9999.
\<close>

definition DAYS_IN_MONTH :: "int list" where
  "DAYS_IN_MONTH = [31, 28, 31, 30, 31, 30, 31, 31, 30, 31, 30, 31]"

definition ymd_of_day :: "day \<Rightarrow> int \<times> int \<times> int" where
  "ymd_of_day d =
     (let n = d - 1; n400 = n div 146097; a = n mod 146097; n100 = a div 36524; b = a mod 36524;
          n4 = b div 1461; c = b mod 1461; n1 = c div 365; e = c mod 365;
          year = n400 * 400 + 1 + n100 * 100 + n4 * 4 + n1 in
      if n1 = 4 \<or> n100 = 4 then (year - 1, 12, 31)
      else
        (let leap = n1 = 3 \<and> (n4 \<noteq> 24 \<or> n100 = 3); month = (e + 50) div 32;
             before = (\<lambda>m. sum_list (take (nat (m - 1)) DAYS_IN_MONTH) + (if 2 < m \<and> leap then 1 else 0));
             m' = (if e < before month then month - 1 else month) in
         (year, m', e - before m' + 1)))"

fun digits :: "nat \<Rightarrow> int \<Rightarrow> string" where
  "digits 0 n = []"
| "digits (Suc k) n = digits k (n div 10) @ [char_of (48 + nat (n mod 10))]"

definition isoformat :: "day \<Rightarrow> string" where
  "isoformat d = (case ymd_of_day d of (y, m, dd) \<Rightarrow> digits 4 y @ ''-'' @ digits 2 m @ ''-'' @ digits 2 dd)"

end
