(* ===== verification/Marketing_Db.thy ===== *)
theory Marketing_Db
  imports Marketing_Text "HOL-Library.AList"
begin

text \<open>
  The editorial rows of \<^verbatim>\<open>marketing/models.py\<close> (topics, guides, rubrics, content plans, publication packs with
  their texts, media assets and publish log) and the queries and writes of
  \<^verbatim>\<open>marketing/repository.py\<close> on them.  A JSON object column is an association list, its writes those of a
  \<^verbatim>\<open>dict\<close>: \<open>AList.update\<close> keeps the place of a key it overwrites.
\<close>

type_synonym dict = "(string \<times> json) list"

text \<open>A condition on the value a patch sets, or an optional value has.\<close>

fun if_set :: "('a \<Rightarrow> bool) \<Rightarrow> 'a patch \<Rightarrow> bool" where
  "if_set P (SetTo x) = P x"
| "if_set P _ = True"

fun if_some :: "('a \<Rightarrow> bool) \<Rightarrow> 'a option \<Rightarrow> bool" where
  "if_some P None = True"
| "if_some P (Some x) = P x"

subsection \<open>Rows\<close>

record marketing_topic =
  mt_id :: uuid
  mt_tenant_id :: uuid
  mt_legacy_topic_id :: "string option"
  mt_title :: string
  mt_rubric :: string
  mt_angle :: "string option"
  mt_source :: string
  mt_status :: MarketingTopicStatus
  mt_priority :: int
  mt_reusable :: bool
  mt_recommended_channels :: "string list"
  mt_used_count :: int
  mt_last_used_at :: "instant option"
  mt_slug_hint :: "string option"
  mt_metadata_json :: dict
  mt_updated_by_user_id :: uuid

record marketing_guide =
  mg_id :: uuid
  mg_tenant_id :: uuid
  mg_version :: int
  mg_status :: MarketingGuideStatus
  mg_business_name :: string
  mg_business_summary :: string
  mg_products_services :: string
  mg_audiences :: string
  mg_goals :: string
  mg_channels :: "string list"
  mg_default_frequency :: string
  mg_tone_rules :: "string option"
  mg_constraints :: "string option"
  mg_sources_notes :: "string option"
  mg_extra_json :: dict
  mg_updated_by_user_id :: uuid

record marketing_rubric =
  mb_id :: uuid
  mb_tenant_id :: uuid
  mb_code :: string
  mb_name :: string
  mb_description :: "string option"
  mb_content_instructions :: "string option"
  mb_status :: MarketingRubricStatus
  mb_sort_order :: int
  mb_metadata_json :: dict
  mb_updated_by_user_id :: uuid

record content_plan =
  cp_id :: uuid
  cp_tenant_id :: uuid
  cp_title :: string
  cp_period_start :: day
  cp_period_end :: day
  cp_status :: MarketingContentPlanStatus
  cp_guide_id :: "uuid option"
  cp_guide_version :: "int option"
  cp_source :: MarketingContentPlanSource
  cp_import_fingerprint :: "string option"
  cp_metadata_json :: dict
  cp_updated_by_user_id :: uuid

record plan_item =
  pi_id :: uuid
  pi_tenant_id :: uuid
  pi_plan_id :: uuid
  pi_planned_date :: day
  pi_rubric_id :: uuid
  pi_working_title :: string
  pi_angle :: "string option"
  pi_channels :: "string list"
  pi_format :: "string option"
  pi_goal :: "string option"
  pi_audience :: "string option"
  pi_cta :: "string option"
  pi_pain :: "string option"
  pi_insight :: "string option"
  pi_funnel_stage :: "string option"
  pi_notes :: "string option"
  pi_status :: MarketingContentPlanItemStatus
  pi_topic_id :: "uuid option"
  pi_external_line_key :: "string option"
  pi_sort_order :: int
  pi_updated_by_user_id :: uuid

text \<open>
  The report of a preflight (\<^verbatim>\<open>preflight_report_json\<close>): \<^verbatim>\<open>blockers\<close> repeats \<^verbatim>\<open>errors\<close> and
  \<^verbatim>\<open>checklist\<close> repeats \<^verbatim>\<open>checks\<close>, so each is kept once.
\<close>

record preflight_issue =
  is_code :: string
  is_message :: string
  is_channel :: "string option"

record preflight_check =
  ck_code :: string
  ck_passed :: bool
  ck_message :: "string option"
  ck_channel :: "string option"

record channel_check =
  cc_channel :: string
  cc_present :: bool
  cc_length :: nat
  cc_short_warn :: bool
  cc_below_blocker_threshold :: bool

record preflight_report =
  rp_passed :: bool
  rp_status :: string
  rp_checked_at :: instant
  rp_errors :: "preflight_issue list"
  rp_warnings :: "preflight_issue list"
  rp_checks :: "preflight_check list"
  rp_channel_eligibility :: "(string \<times> bool) list"
  rp_topic_context_summary :: "dict option"
  rp_channel_checks :: "channel_check list"
  rp_media_count :: nat
  rp_media_missing :: bool

record publication_pack =
  mp_id :: uuid
  mp_tenant_id :: uuid
  mp_topic_id :: "uuid option"
  mp_slug :: string
  mp_pack_dir_name :: "string option"
  mp_title :: string
  mp_planned_date :: day
  mp_status :: MarketingPackStatus
  mp_preflight_status :: MarketingPreflightStatus
  mp_preflight_report :: "preflight_report option"
  mp_preflight_at :: "instant option"
  mp_approval_status :: MarketingApprovalStatus
  mp_approved_at :: "instant option"
  mp_approved_by_user_id :: "uuid option"
  mp_publish_status :: MarketingPublishStatus
  mp_source :: string
  mp_metadata_json :: dict
  mp_updated_by_user_id :: uuid

record publication_text =
  mx_id :: uuid
  mx_tenant_id :: uuid
  mx_pack_id :: uuid
  mx_channel :: MarketingChannel
  mx_text :: string
  mx_status :: MarketingTextStatus
  mx_version :: int
  mx_char_count :: nat
  mx_updated_by_user_id :: uuid

record media_asset =
  mm_id :: uuid
  mm_tenant_id :: uuid
  mm_pack_id :: "uuid option"
  mm_role :: string
  mm_file_name :: string
  mm_mime_type :: string
  mm_storage_provider :: string
  mm_storage_key :: string
  mm_public_url :: "string option"
  mm_preview_url :: "string option"
  mm_width :: "int option"
  mm_height :: "int option"
  mm_alt_text :: "string option"
  mm_status :: MarketingMediaAssetStatus
  mm_validation_status :: MarketingMediaValidationStatus
  mm_declared_mime_type :: "string option"
  mm_metadata_json :: dict
  mm_updated_by_user_id :: uuid

record publish_log =
  ml_id :: uuid
  ml_tenant_id :: uuid
  ml_pack_id :: uuid
  ml_channel :: string
  ml_action :: string
  ml_status :: string
  ml_external_url :: "string option"
  ml_published_at :: "instant option"
  ml_actor :: "string option"
  ml_metadata_json :: dict
  ml_created_at :: instant

record marketing_db = registry_db +
  mk_topics :: "marketing_topic list"
  mk_guides :: "marketing_guide list"
  mk_rubrics :: "marketing_rubric list"
  mk_plans :: "content_plan list"
  mk_plan_items :: "plan_item list"
  mk_packs :: "publication_pack list"
  mk_texts :: "publication_text list"
  mk_media :: "media_asset list"
  mk_logs :: "publish_log list"

subsection \<open>Topics, guides and rubrics\<close>

definition get_topic :: "uuid \<Rightarrow> uuid \<Rightarrow> 'z marketing_db_scheme \<Rightarrow> marketing_topic option" where
  "get_topic t i s = scoped_get mt_tenant_id mt_id t i (mk_topics s)"

text \<open>The unique key \<^verbatim>\<open>uq_marketing_topic_tenant_legacy_id\<close> holds between rows with a legacy id.\<close>

definition legacy_taken :: "marketing_topic \<Rightarrow> 'z marketing_db_scheme \<Rightarrow> bool" where
  "legacy_taken r s \<longleftrightarrow> mt_legacy_topic_id r \<noteq> None \<and>
     row_find (\<lambda>x. mt_tenant_id x = mt_tenant_id r \<and> mt_legacy_topic_id x = mt_legacy_topic_id r \<and>
       mt_id x \<noteq> mt_id r) (mk_topics s) \<noteq> None"

definition insert_topic :: "marketing_topic \<Rightarrow> ('z marketing_db_scheme, unit) svc" where
  "insert_topic r =
     bindS (gets (legacy_taken r)) (\<lambda>taken.
     thenS (ensure (\<not> taken) (IntegrityError ''uq_marketing_topic_tenant_legacy_id''))
     (modify (\<lambda>s. s\<lparr>mk_topics := row_insert r (mk_topics s)\<rparr>)))"

definition store_topic :: "marketing_topic \<Rightarrow> ('z marketing_db_scheme, unit) svc" where
  "store_topic r =
     bindS (gets (legacy_taken r)) (\<lambda>taken.
     thenS (ensure (\<not> taken) (IntegrityError ''uq_marketing_topic_tenant_legacy_id''))
     (modify (\<lambda>s. s\<lparr>mk_topics := row_update mt_id (mt_id r) (\<lambda>_. r) (mk_topics s)\<rparr>)))"

definition count_approved_topics :: "uuid \<Rightarrow> 'z marketing_db_scheme \<Rightarrow> nat" where
  "count_approved_topics t s =
     length (filter (\<lambda>r. mt_tenant_id r = t \<and> mt_status r = MarketingTopicStatus_APPROVED) (mk_topics s))"

definition list_guides :: "uuid \<Rightarrow> 'z marketing_db_scheme \<Rightarrow> marketing_guide list" where
  "list_guides t s = sort_key (\<lambda>g. - mg_version g) (filter (\<lambda>g. mg_tenant_id g = t) (mk_guides s))"

definition get_guide :: "uuid \<Rightarrow> uuid \<Rightarrow> 'z marketing_db_scheme \<Rightarrow> marketing_guide option" where
  "get_guide t i s = scoped_get mg_tenant_id mg_id t i (mk_guides s)"

definition list_active_guides_for_update :: "uuid \<Rightarrow> 'z marketing_db_scheme \<Rightarrow> marketing_guide list" where
  "list_active_guides_for_update t s =
     filter (\<lambda>g. mg_tenant_id g = t \<and> mg_status g = MarketingGuideStatus_ACTIVE) (mk_guides s)"

definition get_active_guide :: "uuid \<Rightarrow> 'z marketing_db_scheme \<Rightarrow> marketing_guide option" where
  "get_active_guide t s =
     row_find (\<lambda>g. mg_tenant_id g = t \<and> mg_status g = MarketingGuideStatus_ACTIVE) (mk_guides s)"

definition max_guide_version :: "uuid \<Rightarrow> 'z marketing_db_scheme \<Rightarrow> int" where
  "max_guide_version t s =
     (let vs = map mg_version (filter (\<lambda>g. mg_tenant_id g = t) (mk_guides s)) in
      if vs = [] then 0 else Max (set vs))"

definition get_rubric :: "uuid \<Rightarrow> uuid \<Rightarrow> 'z marketing_db_scheme \<Rightarrow> marketing_rubric option" where
  "get_rubric t i s = scoped_get mb_tenant_id mb_id t i (mk_rubrics s)"

definition get_rubric_by_code :: "uuid \<Rightarrow> string \<Rightarrow> 'z marketing_db_scheme \<Rightarrow> marketing_rubric option" where
  "get_rubric_by_code t code s = row_find (\<lambda>r. mb_tenant_id r = t \<and> mb_code r = code) (mk_rubrics s)"

definition list_rubrics ::
    "uuid \<Rightarrow> MarketingRubricStatus option \<Rightarrow> bool \<Rightarrow> 'z marketing_db_scheme \<Rightarrow> marketing_rubric list" where
  "list_rubrics t status include_archived s =
     sort_key mb_sort_order (sort_key mb_name (filter (\<lambda>r. mb_tenant_id r = t \<and>
       (case status of Some st \<Rightarrow> mb_status r = st
                     | None \<Rightarrow> include_archived \<or> mb_status r \<noteq> MarketingRubricStatus_ARCHIVED)) (mk_rubrics s)))"

definition insert_rubric :: "marketing_rubric \<Rightarrow> ('z marketing_db_scheme, unit) svc" where
  "insert_rubric r =
     bindS (gets (get_rubric_by_code (mb_tenant_id r) (mb_code r))) (\<lambda>existing.
     thenS (ensure (existing = None) (IntegrityError ''uq_marketing_rubrics_tenant_code''))
     (modify (\<lambda>s. s\<lparr>mk_rubrics := row_insert r (mk_rubrics s)\<rparr>)))"

definition write_rubric :: "uuid \<Rightarrow> (marketing_rubric \<Rightarrow> marketing_rubric) \<Rightarrow> ('z marketing_db_scheme, unit) svc" where
  "write_rubric i f = modify (\<lambda>s. s\<lparr>mk_rubrics := row_update mb_id i f (mk_rubrics s)\<rparr>)"

subsection \<open>Packs, texts, media and the publish log\<close>

definition get_pack :: "uuid \<Rightarrow> uuid \<Rightarrow> 'z marketing_db_scheme \<Rightarrow> publication_pack option" where
  "get_pack t i s = scoped_get mp_tenant_id mp_id t i (mk_packs s)"

definition get_pack_by_slug :: "uuid \<Rightarrow> string \<Rightarrow> 'z marketing_db_scheme \<Rightarrow> publication_pack option" where
  "get_pack_by_slug t slug s = row_find (\<lambda>p. mp_tenant_id p = t \<and> mp_slug p = slug) (mk_packs s)"

definition active_pack_of :: "uuid \<Rightarrow> uuid \<Rightarrow> publication_pack \<Rightarrow> bool" where
  "active_pack_of t topic p \<longleftrightarrow> mp_tenant_id p = t \<and> mp_topic_id p = Some topic \<and>
     mp_status p \<noteq> MarketingPackStatus_ARCHIVED"

definition find_pack_for_topic_date ::
    "uuid \<Rightarrow> uuid \<Rightarrow> day \<Rightarrow> 'z marketing_db_scheme \<Rightarrow> publication_pack option" where
  "find_pack_for_topic_date t topic d s =
     row_find (\<lambda>p. active_pack_of t topic p \<and> mp_planned_date p = d) (mk_packs s)"

definition list_active_packs_for_topic ::
    "uuid \<Rightarrow> uuid \<Rightarrow> 'z marketing_db_scheme \<Rightarrow> publication_pack list" where
  "list_active_packs_for_topic t topic s = filter (active_pack_of t topic) (mk_packs s)"

definition list_packs ::
    "uuid \<Rightarrow> MarketingPackStatus option \<Rightarrow> uuid option \<Rightarrow> day option \<Rightarrow> nat \<Rightarrow> nat \<Rightarrow>
     'z marketing_db_scheme \<Rightarrow> publication_pack list" where
  "list_packs t status topic date skip limit s =
     take limit (drop skip (rev (filter (\<lambda>p. mp_tenant_id p = t \<and>
       (status \<noteq> None \<longrightarrow> status = Some (mp_status p)) \<and> (topic \<noteq> None \<longrightarrow> mp_topic_id p = topic) \<and>
       (date \<noteq> None \<longrightarrow> date = Some (mp_planned_date p))) (mk_packs s))))"

definition insert_pack :: "publication_pack \<Rightarrow> ('z marketing_db_scheme, unit) svc" where
  "insert_pack p =
     bindS (gets (get_pack_by_slug (mp_tenant_id p) (mp_slug p))) (\<lambda>existing.
     thenS (ensure (existing = None) (IntegrityError ''uq_marketing_pack_tenant_slug''))
     (modify (\<lambda>s. s\<lparr>mk_packs := row_insert p (mk_packs s)\<rparr>)))"

definition write_pack :: "uuid \<Rightarrow> (publication_pack \<Rightarrow> publication_pack) \<Rightarrow> ('z marketing_db_scheme, unit) svc" where
  "write_pack i f = modify (\<lambda>s. s\<lparr>mk_packs := row_update mp_id i f (mk_packs s)\<rparr>)"

text \<open>The relationship \<^verbatim>\<open>pack.topic\<close>.\<close>

definition pack_topic :: "publication_pack \<Rightarrow> 'z marketing_db_scheme \<Rightarrow> marketing_topic option" where
  "pack_topic p s =
     (case mp_topic_id p of None \<Rightarrow> None | Some i \<Rightarrow> row_find (\<lambda>r. mt_id r = i) (mk_topics s))"

definition list_pack_texts :: "uuid \<Rightarrow> uuid \<Rightarrow> 'z marketing_db_scheme \<Rightarrow> publication_text list" where
  "list_pack_texts t i s = filter (\<lambda>x. mx_tenant_id x = t \<and> mx_pack_id x = i) (mk_texts s)"

definition get_pack_text ::
    "uuid \<Rightarrow> uuid \<Rightarrow> MarketingChannel \<Rightarrow> 'z marketing_db_scheme \<Rightarrow> publication_text option" where
  "get_pack_text t i c s =
     row_find (\<lambda>x. mx_tenant_id x = t \<and> mx_pack_id x = i \<and> mx_channel x = c) (mk_texts s)"

definition insert_text :: "publication_text \<Rightarrow> ('z marketing_db_scheme, unit) svc" where
  "insert_text x =
     bindS (gets (\<lambda>s. row_find (\<lambda>y. mx_pack_id y = mx_pack_id x \<and> mx_channel y = mx_channel x) (mk_texts s))) (\<lambda>existing.
     thenS (ensure (existing = None) (IntegrityError ''uq_marketing_text_pack_channel''))
     (modify (\<lambda>s. s\<lparr>mk_texts := row_insert x (mk_texts s)\<rparr>)))"

definition write_text :: "uuid \<Rightarrow> (publication_text \<Rightarrow> publication_text) \<Rightarrow> ('z marketing_db_scheme, unit) svc" where
  "write_text i f = modify (\<lambda>s. s\<lparr>mk_texts := row_update mx_id i f (mk_texts s)\<rparr>)"

definition list_pack_media :: "uuid \<Rightarrow> uuid \<Rightarrow> bool \<Rightarrow> 'z marketing_db_scheme \<Rightarrow> media_asset list" where
  "list_pack_media t i include_archived s =
     filter (\<lambda>m. mm_tenant_id m = t \<and> mm_pack_id m = Some i \<and>
       (include_archived \<or> mm_status m \<noteq> MarketingMediaAssetStatus_ARCHIVED)) (mk_media s)"

definition get_media_asset :: "uuid \<Rightarrow> uuid \<Rightarrow> 'z marketing_db_scheme \<Rightarrow> media_asset option" where
  "get_media_asset t i s = scoped_get mm_tenant_id mm_id t i (mk_media s)"

definition create_media_asset :: "media_asset \<Rightarrow> ('z marketing_db_scheme, unit) svc" where
  "create_media_asset m = modify (\<lambda>s. s\<lparr>mk_media := row_insert m (mk_media s)\<rparr>)"

definition write_media :: "uuid \<Rightarrow> (media_asset \<Rightarrow> media_asset) \<Rightarrow> ('z marketing_db_scheme, unit) svc" where
  "write_media i f = modify (\<lambda>s. s\<lparr>mk_media := row_update mm_id i f (mk_media s)\<rparr>)"

definition list_pack_logs :: "uuid \<Rightarrow> uuid \<Rightarrow> 'z marketing_db_scheme \<Rightarrow> publish_log list" where
  "list_pack_logs t i s =
     sort_key (\<lambda>l. - ml_created_at l) (filter (\<lambda>l. ml_tenant_id l = t \<and> ml_pack_id l = i) (mk_logs s))"

definition create_publish_log :: "publish_log \<Rightarrow> ('z marketing_db_scheme, unit) svc" where
  "create_publish_log l = modify (\<lambda>s. s\<lparr>mk_logs := row_insert l (mk_logs s)\<rparr>)"

text \<open>
  \<^verbatim>\<open>find_historical_publish_log\<close>: \<^verbatim>\<open>meta.get\<close> of an absent key is \<^verbatim>\<open>None\<close>; an evidence reference is
  compared when it is given and not empty, the date otherwise.
\<close>

definition truthy_str :: "json option \<Rightarrow> bool" where
  "truthy_str j = (case j of Some (JStr x) \<Rightarrow> x \<noteq> [] | _ \<Rightarrow> False)"

definition historical_match :: "string \<Rightarrow> string option \<Rightarrow> string \<Rightarrow> publish_log \<Rightarrow> bool" where
  "historical_match source evidence_ref date l =
     (let meta = map_of (ml_metadata_json l) in
      meta ''source'' = Some (JStr source) \<and>
      (case evidence_ref of
         Some (c # e) \<Rightarrow> meta ''evidence_ref'' = Some (JStr (c # e))
       | _ \<Rightarrow> \<not> truthy_str (meta ''evidence_ref'') \<and> meta ''published_at_date'' = Some (JStr date)))"

definition find_historical_publish_log ::
    "uuid \<Rightarrow> uuid \<Rightarrow> string \<Rightarrow> string \<Rightarrow> string option \<Rightarrow> string \<Rightarrow> 'z marketing_db_scheme \<Rightarrow> publish_log option" where
  "find_historical_publish_log t i channel source evidence_ref date s =
     row_find (\<lambda>l. ml_tenant_id l = t \<and> ml_pack_id l = i \<and> ml_channel l = channel \<and>
       ml_action l = ''historical_record'' \<and> historical_match source evidence_ref date l) (mk_logs s)"

end
