(* ===== verification/Marketing_Topics.thy ===== *)
theory Marketing_Topics
  imports Marketing_Db
begin

text \<open>
  \<^verbatim>\<open>marketing/topic_metadata.py\<close>, \<^verbatim>\<open>marketing/service/rubrics.py\<close>, \<^verbatim>\<open>guides.py\<close>, \<^verbatim>\<open>topics.py\<close> and
  \<^verbatim>\<open>pack_factory.py\<close>: the directory of rubrics, the guide of a tenant, the topics and the pack a topic is
  taken into.
\<close>

subsection \<open>Editorial metadata\<close>

definition EDITORIAL_METADATA_KEYS :: "string list" where
  "EDITORIAL_METADATA_KEYS =
     [''audience'', ''pain'', ''insight'', ''source_ref'', ''cta'', ''funnel_stage'', ''notes'', ''planned_date'']"

definition strip_or_none :: "string \<Rightarrow> string option" where
  "strip_or_none x = (if py_strip x = [] then None else Some (py_strip x))"

definition normalize_str :: "json option \<Rightarrow> string option" where
  "normalize_str j = (case j of None \<Rightarrow> None | Some JNull \<Rightarrow> None | Some v \<Rightarrow> strip_or_none (py_str v))"

definition extract_editorial_fields :: "dict \<Rightarrow> string \<Rightarrow> string option" where
  "extract_editorial_fields metadata key = normalize_str (map_of metadata key)"

text \<open>The editorial fields of a payload, each absent or given.\<close>

type_synonym editorial = "string \<Rightarrow> string patch"

fun given :: "string patch \<Rightarrow> string option" where
  "given (SetTo x) = strip_or_none x"
| "given _ = None"

fun build_topic_metadata_for_create :: "string list \<Rightarrow> editorial \<Rightarrow> dict \<Rightarrow> dict" where
  "build_topic_metadata_for_create [] ed merged = merged"
| "build_topic_metadata_for_create (key # keys) ed merged =
     build_topic_metadata_for_create keys ed
       (case given (ed key) of None \<Rightarrow> merged | Some x \<Rightarrow> AList.update key (JStr x) merged)"

definition dict_update :: "dict \<Rightarrow> dict \<Rightarrow> dict" where
  "dict_update d new = fold (\<lambda>(k, v). AList.update k v) new d"

fun merge_editorial :: "string list \<Rightarrow> editorial \<Rightarrow> dict \<Rightarrow> dict" where
  "merge_editorial [] ed merged = merged"
| "merge_editorial (key # keys) ed merged =
     merge_editorial keys ed
       (if ed key = Unset then merged
        else case given (ed key) of None \<Rightarrow> AList.delete key merged | Some x \<Rightarrow> AList.update key (JStr x) merged)"

definition build_topic_metadata_for_update :: "dict \<Rightarrow> editorial \<Rightarrow> dict patch \<Rightarrow> dict option" where
  "build_topic_metadata_for_update existing ed bag =
     (if (\<forall>key \<in> set EDITORIAL_METADATA_KEYS. ed key = Unset) \<and> bag = Unset then None
      else Some (merge_editorial EDITORIAL_METADATA_KEYS ed
             (case bag of SetTo d \<Rightarrow> dict_update existing d | _ \<Rightarrow> existing)))"

subsection \<open>Keys that look like secrets\<close>

text \<open>
  \<^verbatim>\<open>_SECRETISH_KEY.search\<close>: one of the words anywhere in the key, in any case.  The underscore or hyphen of
  \<^verbatim>\<open>api[_-]?key\<close> is optional.
\<close>

fun occurs_in :: "string \<Rightarrow> string \<Rightarrow> bool" where
  "occurs_in w [] = (w = [])"
| "occurs_in w (c # s) = (take (length w) (c # s) = w \<or> occurs_in w s)"

definition secretish_key :: "string \<Rightarrow> bool" where
  "secretish_key key =
     list_ex (\<lambda>w. occurs_in w (py_lower key))
       [''secret'', ''token'', ''password'', ''apikey'', ''api_key'', ''api-key'', ''bearer'', ''credential'']"

fun secretish :: "json \<Rightarrow> bool" where
  "secretish (JObj kvs) = (\<exists>kv \<in> set kvs. secretish_key (fst kv) \<or> secretish (snd kv))"
| "secretish (JList js) = (\<exists>j \<in> set js. secretish j)"
| "secretish _ = False"

subsection \<open>Guides\<close>

record guide_create =
  gc_business_name :: string
  gc_business_summary :: string
  gc_products_services :: string
  gc_audiences :: string
  gc_goals :: string
  gc_channels :: "string list"
  gc_default_frequency :: string
  gc_tone_rules :: "string option"
  gc_constraints :: "string option"
  gc_sources_notes :: "string option"
  gc_extra_json :: dict
  gc_activate :: bool

definition assert_extra_json_safe :: "dict \<Rightarrow> ('z marketing_db_scheme, unit) svc" where
  "assert_extra_json_safe extra = ensure (\<not> secretish (JObj extra)) (ConflictError ''extra_json_forbidden_key'')"

definition get_guide_or_404 :: "uuid \<Rightarrow> uuid \<Rightarrow> ('z marketing_db_scheme, marketing_guide) svc" where
  "get_guide_or_404 t i =
     bindS (gets (get_guide t i)) (\<lambda>g. or_raise g (NotFoundError ''marketing_guide_not_found''))"

definition get_active_or_404 :: "uuid \<Rightarrow> ('z marketing_db_scheme, marketing_guide) svc" where
  "get_active_or_404 t =
     bindS (gets (get_active_guide t)) (\<lambda>g. or_raise g (NotFoundError ''marketing_guide_not_found''))"

text \<open>\<^verbatim>\<open>payload.x.strip() if payload.x else None\<close>: a text of blanks stays, as the empty text.\<close>

definition strip_given :: "string option \<Rightarrow> string option" where
  "strip_given x = (case x of Some (c # cs) \<Rightarrow> Some (py_strip (c # cs)) | _ \<Rightarrow> None)"

definition new_guide :: "uuid \<Rightarrow> uuid \<Rightarrow> user \<Rightarrow> int \<Rightarrow> guide_create \<Rightarrow> marketing_guide" where
  "new_guide i t u version payload =
     \<lparr>mg_id = i, mg_tenant_id = t, mg_version = version, mg_status = MarketingGuideStatus_DRAFT,
      mg_business_name = py_strip (gc_business_name payload),
      mg_business_summary = py_strip (gc_business_summary payload),
      mg_products_services = py_strip (gc_products_services payload),
      mg_audiences = py_strip (gc_audiences payload), mg_goals = py_strip (gc_goals payload),
      mg_channels = gc_channels payload, mg_default_frequency = py_strip (gc_default_frequency payload),
      mg_tone_rules = strip_given (gc_tone_rules payload), mg_constraints = strip_given (gc_constraints payload),
      mg_sources_notes = strip_given (gc_sources_notes payload), mg_extra_json = gc_extra_json payload,
      mg_updated_by_user_id = us_id u\<rparr>"

text \<open>The keys \<^verbatim>\<open>uq_marketing_guides_tenant_version\<close> and \<^verbatim>\<open>uq_marketing_guides_tenant_active\<close>.\<close>

definition insert_guide :: "marketing_guide \<Rightarrow> ('z marketing_db_scheme, unit) svc" where
  "insert_guide g =
     bindS (gets (\<lambda>s. row_find (\<lambda>x. mg_tenant_id x = mg_tenant_id g \<and> mg_version x = mg_version g) (mk_guides s))) (\<lambda>existing.
     thenS (ensure (existing = None) (IntegrityError ''uq_marketing_guides_tenant_version''))
     (modify (\<lambda>s. s\<lparr>mk_guides := row_insert g (mk_guides s)\<rparr>)))"

definition supersede_others :: "uuid \<Rightarrow> user \<Rightarrow> uuid \<Rightarrow> ('z marketing_db_scheme, unit) svc" where
  "supersede_others t u i =
     modify (\<lambda>s. s\<lparr>mk_guides := map (\<lambda>g.
       if mg_tenant_id g = t \<and> mg_status g = MarketingGuideStatus_ACTIVE \<and> mg_id g \<noteq> i
       then g\<lparr>mg_status := MarketingGuideStatus_SUPERSEDED, mg_updated_by_user_id := us_id u\<rparr> else g) (mk_guides s)\<rparr>)"

definition set_guide_active :: "uuid \<Rightarrow> user \<Rightarrow> uuid \<Rightarrow> ('z marketing_db_scheme, unit) svc" where
  "set_guide_active t u i =
     bindS (gets (\<lambda>s. row_find (\<lambda>g. mg_tenant_id g = t \<and> mg_status g = MarketingGuideStatus_ACTIVE \<and> mg_id g \<noteq> i) (mk_guides s))) (\<lambda>other.
     thenS (ensure (other = None) (IntegrityError ''uq_marketing_guides_tenant_active''))
     (modify (\<lambda>s. s\<lparr>mk_guides := row_update mg_id i
       (\<lambda>g. g\<lparr>mg_status := MarketingGuideStatus_ACTIVE, mg_updated_by_user_id := us_id u\<rparr>) (mk_guides s)\<rparr>)))"

definition activate_guide :: "uuid \<Rightarrow> user \<Rightarrow> uuid \<Rightarrow> ('z marketing_db_scheme, marketing_guide) svc" where
  "activate_guide t u i =
     bindS (get_guide_or_404 t i) (\<lambda>g.
     thenS (ensure (mg_status g \<noteq> MarketingGuideStatus_SUPERSEDED) (ConflictError ''guide_superseded_immutable''))
     (if mg_status g = MarketingGuideStatus_ACTIVE then ret g
      else thenS (supersede_others t u i) (thenS (set_guide_active t u i) (get_guide_or_404 t i))))"

definition create_draft :: "uuid \<Rightarrow> user \<Rightarrow> guide_create \<Rightarrow> ('z marketing_db_scheme, marketing_guide) svc" where
  "create_draft t u payload =
     thenS (assert_extra_json_safe (gc_extra_json payload))
     (bindS (gets (max_guide_version t)) (\<lambda>version.
      bindS fresh_id (\<lambda>i.
      thenS (insert_guide (new_guide i t u (version + 1) payload))
      (if gc_activate payload then activate_guide t u i else get_guide_or_404 t i))))"

record guide_update =
  gv_business_name :: "string patch"
  gv_business_summary :: "string patch"
  gv_products_services :: "string patch"
  gv_audiences :: "string patch"
  gv_goals :: "string patch"
  gv_default_frequency :: "string patch"
  gv_channels :: "string list patch"
  gv_tone_rules :: "string patch"
  gv_constraints :: "string patch"
  gv_sources_notes :: "string patch"
  gv_extra_json :: "dict patch"

text \<open>A required text: absent, or not blank.\<close>

definition required_text :: "string \<Rightarrow> string patch \<Rightarrow> ('z marketing_db_scheme, unit) svc" where
  "required_text field p = ensure (p = Unset \<or> given p \<noteq> None) (ConflictError (field @ ''_required''))"

definition stripped :: "string patch \<Rightarrow> string \<Rightarrow> string" where
  "stripped p old = (case p of SetTo x \<Rightarrow> py_strip x | _ \<Rightarrow> old)"

definition stripped_option :: "string patch \<Rightarrow> string option \<Rightarrow> string option" where
  "stripped_option p old = (if p = Unset then old else given p)"

definition apply_guide_update :: "user \<Rightarrow> guide_update \<Rightarrow> marketing_guide \<Rightarrow> marketing_guide" where
  "apply_guide_update u payload g =
     g\<lparr>mg_extra_json := patched (gv_extra_json payload) (mg_extra_json g),
       mg_business_name := stripped (gv_business_name payload) (mg_business_name g),
       mg_business_summary := stripped (gv_business_summary payload) (mg_business_summary g),
       mg_products_services := stripped (gv_products_services payload) (mg_products_services g),
       mg_audiences := stripped (gv_audiences payload) (mg_audiences g),
       mg_goals := stripped (gv_goals payload) (mg_goals g),
       mg_default_frequency := stripped (gv_default_frequency payload) (mg_default_frequency g),
       mg_channels := patched (gv_channels payload) (mg_channels g),
       mg_tone_rules := stripped_option (gv_tone_rules payload) (mg_tone_rules g),
       mg_constraints := stripped_option (gv_constraints payload) (mg_constraints g),
       mg_sources_notes := stripped_option (gv_sources_notes payload) (mg_sources_notes g),
       mg_updated_by_user_id := us_id u\<rparr>"

definition required_texts :: "guide_update \<Rightarrow> ('z marketing_db_scheme, unit) svc" where
  "required_texts payload =
     thenS (required_text ''business_name'' (gv_business_name payload))
     (thenS (required_text ''business_summary'' (gv_business_summary payload))
     (thenS (required_text ''products_services'' (gv_products_services payload))
     (thenS (required_text ''audiences'' (gv_audiences payload))
     (thenS (required_text ''goals'' (gv_goals payload))
     (required_text ''default_frequency'' (gv_default_frequency payload))))))"

definition update_guide :: "uuid \<Rightarrow> user \<Rightarrow> uuid \<Rightarrow> guide_update \<Rightarrow> ('z marketing_db_scheme, marketing_guide) svc" where
  "update_guide t u i payload =
     bindS (get_guide_or_404 t i) (\<lambda>g.
     thenS (ensure (mg_status g \<noteq> MarketingGuideStatus_SUPERSEDED) (ConflictError ''guide_superseded_immutable''))
     (thenS (case gv_extra_json payload of SetTo d \<Rightarrow> assert_extra_json_safe d | _ \<Rightarrow> ret ())
     (thenS (required_texts payload)
     (thenS (modify (\<lambda>s. s\<lparr>mk_guides := row_update mg_id i (apply_guide_update u payload) (mk_guides s)\<rparr>))
     (get_guide_or_404 t i)))))"

subsection \<open>Rubrics\<close>

definition normalize_rubric_code :: "string \<Rightarrow> string" where
  "normalize_rubric_code code = py_casefold (py_strip code)"

text \<open>The pattern \<^verbatim>\<open>^[a-z][a-z0-9_]{1,62}$\<close>, on a text that does not end in a newline.\<close>

definition rubric_code_ok :: "string \<Rightarrow> bool" where
  "rubric_code_ok code =
     (case code of
        [] \<Rightarrow> False
      | c # cs \<Rightarrow> c \<in> set ''abcdefghijklmnopqrstuvwxyz'' \<and> 1 \<le> length cs \<and> length cs \<le> 62 \<and>
          list_all (\<lambda>x. x \<in> set ''abcdefghijklmnopqrstuvwxyz0123456789_'') cs)"

record rubric_create =
  rb_code :: string
  rb_name :: string
  rb_description :: "string option"
  rb_content_instructions :: "string option"
  rb_status :: MarketingRubricStatus
  rb_sort_order :: int
  rb_metadata_json :: dict

definition get_rubric_or_404 :: "uuid \<Rightarrow> uuid \<Rightarrow> ('z marketing_db_scheme, marketing_rubric) svc" where
  "get_rubric_or_404 t i =
     bindS (gets (get_rubric t i)) (\<lambda>r. or_raise r (NotFoundError ''marketing_rubric_not_found''))"

text \<open>\<^verbatim>\<open>except IntegrityError\<close>: the violation of the code's key becomes the duplicate error.\<close>

definition insert_rubric_or_duplicate :: "marketing_rubric \<Rightarrow> ('z marketing_db_scheme, unit) svc" where
  "insert_rubric_or_duplicate r s =
     (case insert_rubric r s of
        (Inl (IntegrityError c), s') \<Rightarrow>
          (Inl (if c = ''uq_marketing_rubrics_tenant_code'' then ConflictError ''marketing_rubric_duplicate''
                else IntegrityError c), s')
      | res \<Rightarrow> res)"

definition create_rubric :: "uuid \<Rightarrow> user \<Rightarrow> rubric_create \<Rightarrow> ('z marketing_db_scheme, marketing_rubric) svc" where
  "create_rubric t u payload =
     bindS (ret (normalize_rubric_code (rb_code payload))) (\<lambda>code.
     thenS (ensure (rubric_code_ok code) (ConflictError ''invalid_rubric_code''))
     (bindS (gets (get_rubric_by_code t code)) (\<lambda>existing.
     thenS (ensure (existing = None) (ConflictError ''marketing_rubric_duplicate''))
     (bindS fresh_id (\<lambda>i.
     thenS (insert_rubric_or_duplicate \<lparr>mb_id = i, mb_tenant_id = t, mb_code = code,
        mb_name = py_strip (rb_name payload), mb_description = strip_given (rb_description payload),
        mb_content_instructions = strip_given (rb_content_instructions payload), mb_status = rb_status payload,
        mb_sort_order = rb_sort_order payload, mb_metadata_json = rb_metadata_json payload,
        mb_updated_by_user_id = us_id u\<rparr>)
     (get_rubric_or_404 t i))))))"

record rubric_update =
  rv_code :: "string patch"
  rv_name :: "string patch"
  rv_description :: "string patch"
  rv_content_instructions :: "string patch"
  rv_status :: "MarketingRubricStatus patch"
  rv_sort_order :: "int patch"
  rv_metadata_json :: "dict patch"

definition apply_rubric_update :: "user \<Rightarrow> rubric_update \<Rightarrow> marketing_rubric \<Rightarrow> marketing_rubric" where
  "apply_rubric_update u payload r =
     r\<lparr>mb_name := stripped (rv_name payload) (mb_name r),
       mb_description := stripped_option (rv_description payload) (mb_description r),
       mb_content_instructions := stripped_option (rv_content_instructions payload) (mb_content_instructions r),
       mb_sort_order := patched (rv_sort_order payload) (mb_sort_order r),
       mb_metadata_json := patched (rv_metadata_json payload) (mb_metadata_json r),
       mb_status := patched (rv_status payload) (mb_status r),
       mb_updated_by_user_id := us_id u\<rparr>"

definition update_rubric :: "uuid \<Rightarrow> user \<Rightarrow> uuid \<Rightarrow> rubric_update \<Rightarrow> ('z marketing_db_scheme, marketing_rubric) svc" where
  "update_rubric t u i payload =
     bindS (get_rubric_or_404 t i) (\<lambda>r.
     thenS (ensure (if_set (\<lambda>c. normalize_rubric_code c = mb_code r) (rv_code payload))
       (ConflictError ''rubric_code_immutable''))
     (thenS (ensure (if_set (\<lambda>x. py_strip x \<noteq> []) (rv_name payload)) (ConflictError ''name_required''))
     (thenS (write_rubric i (apply_rubric_update u payload))
     (get_rubric_or_404 t i))))"

definition set_rubric_status ::
    "uuid \<Rightarrow> user \<Rightarrow> uuid \<Rightarrow> MarketingRubricStatus \<Rightarrow> ('z marketing_db_scheme, marketing_rubric) svc" where
  "set_rubric_status t u i st =
     bindS (get_rubric_or_404 t i) (\<lambda>_.
     thenS (write_rubric i (\<lambda>r. r\<lparr>mb_status := st, mb_updated_by_user_id := us_id u\<rparr>))
     (get_rubric_or_404 t i))"

definition delete_rubric_forbidden :: "('z marketing_db_scheme, unit) svc" where
  "delete_rubric_forbidden = raise (ConflictError ''marketing_rubric_hard_delete_forbidden'')"

text \<open>
  \<^verbatim>\<open>seed_defaults\<close> over the rows of \<^verbatim>\<open>rubric_seed.py\<close>, which hold Cyrillic names and are given as an
  argument.
\<close>

record rubric_seed_row =
  rs_code :: string
  rs_name :: string
  rs_description :: string
  rs_content_instructions :: string
  rs_sort_order :: int

definition seed_rubric ::
    "uuid \<Rightarrow> user \<Rightarrow> bool \<Rightarrow> rubric_seed_row \<Rightarrow> ('z marketing_db_scheme, nat \<times> nat \<times> nat) svc" where
  "seed_rubric t u force row =
     bindS (gets (get_rubric_by_code t (rs_code row))) (\<lambda>existing.
     case existing of
       None \<Rightarrow>
         bindS fresh_id (\<lambda>i.
         thenS (insert_rubric \<lparr>mb_id = i, mb_tenant_id = t, mb_code = rs_code row, mb_name = rs_name row,
            mb_description = Some (rs_description row), mb_content_instructions = Some (rs_content_instructions row),
            mb_status = MarketingRubricStatus_ACTIVE, mb_sort_order = rs_sort_order row,
            mb_metadata_json = [(''seeded'', JBool True)], mb_updated_by_user_id = us_id u\<rparr>)
         (ret (1, 0, 0)))
     | Some r \<Rightarrow>
         if force then
           thenS (write_rubric (mb_id r) (\<lambda>x. x\<lparr>mb_name := rs_name row, mb_description := Some (rs_description row),
              mb_content_instructions := Some (rs_content_instructions row), mb_sort_order := rs_sort_order row,
              mb_updated_by_user_id := us_id u\<rparr>))
           (ret (0, 1, 1))
         else ret (0, 1, 0))"

fun seed_defaults ::
    "uuid \<Rightarrow> user \<Rightarrow> bool \<Rightarrow> rubric_seed_row list \<Rightarrow> ('z marketing_db_scheme, nat \<times> nat \<times> nat) svc" where
  "seed_defaults t u force [] = ret (0, 0, 0)"
| "seed_defaults t u force (row # rows) =
     bindS (seed_rubric t u force row) (\<lambda>(c, k, d).
     bindS (seed_defaults t u force rows) (\<lambda>(c', k', d'). ret (c + c', k + k', d + d')))"

definition assert_code_selectable_for_new_topic :: "uuid \<Rightarrow> string \<Rightarrow> ('z marketing_db_scheme, unit) svc" where
  "assert_code_selectable_for_new_topic t code =
     bindS (gets (\<lambda>s. case get_rubric_by_code t (normalize_rubric_code code) s of
         None \<Rightarrow> get_rubric_by_code t (py_strip code) s | found \<Rightarrow> found)) (\<lambda>row.
     ensure (if_some (\<lambda>r. mb_status r = MarketingRubricStatus_ACTIVE) row)
       (ConflictError ''marketing_rubric_not_selectable''))"

subsection \<open>Topics\<close>

record topic_create =
  tc_title :: string
  tc_rubric :: string
  tc_angle :: "string option"
  tc_source :: string
  tc_status :: MarketingTopicStatus
  tc_priority :: int
  tc_reusable :: bool
  tc_recommended_channels :: "string list"
  tc_legacy_topic_id :: "string option"
  tc_slug_hint :: "string option"
  tc_metadata_json :: dict
  tc_editorial :: editorial

definition get_topic_or_404 :: "uuid \<Rightarrow> uuid \<Rightarrow> ('z marketing_db_scheme, marketing_topic) svc" where
  "get_topic_or_404 t i = bindS (gets (get_topic t i)) (\<lambda>r. or_raise r (NotFoundError ''Topic not found''))"

definition new_topic :: "uuid \<Rightarrow> uuid \<Rightarrow> user \<Rightarrow> topic_create \<Rightarrow> marketing_topic" where
  "new_topic i t u payload =
     \<lparr>mt_id = i, mt_tenant_id = t, mt_legacy_topic_id = tc_legacy_topic_id payload, mt_title = tc_title payload,
      mt_rubric = tc_rubric payload, mt_angle = tc_angle payload, mt_source = tc_source payload,
      mt_status = tc_status payload, mt_priority = tc_priority payload, mt_reusable = tc_reusable payload,
      mt_recommended_channels = tc_recommended_channels payload, mt_used_count = 0, mt_last_used_at = None,
      mt_slug_hint = tc_slug_hint payload,
      mt_metadata_json = build_topic_metadata_for_create EDITORIAL_METADATA_KEYS (tc_editorial payload) (tc_metadata_json payload),
      mt_updated_by_user_id = us_id u\<rparr>"

definition create_topic :: "uuid \<Rightarrow> user \<Rightarrow> topic_create \<Rightarrow> ('z marketing_db_scheme, marketing_topic) svc" where
  "create_topic t u payload =
     thenS (assert_code_selectable_for_new_topic t (tc_rubric payload))
     (bindS fresh_id (\<lambda>i.
      thenS (insert_topic (new_topic i t u payload)) (ret (new_topic i t u payload))))"

record topic_update =
  tv_title :: "string option"
  tv_rubric :: "string option"
  tv_angle :: "string option"
  tv_source :: "string option"
  tv_status :: "MarketingTopicStatus option"
  tv_priority :: "int option"
  tv_reusable :: "bool option"
  tv_recommended_channels :: "string list option"
  tv_legacy_topic_id :: "string option"
  tv_slug_hint :: "string option"
  tv_metadata_json :: "dict patch"
  tv_editorial :: editorial

definition apply_topic_update :: "user \<Rightarrow> topic_update \<Rightarrow> marketing_topic \<Rightarrow> marketing_topic" where
  "apply_topic_update u payload r =
     (let r' = r\<lparr>mt_title := (case tv_title payload of None \<Rightarrow> mt_title r | Some x \<Rightarrow> x),
         mt_rubric := (case tv_rubric payload of None \<Rightarrow> mt_rubric r | Some x \<Rightarrow> x),
         mt_angle := (case tv_angle payload of None \<Rightarrow> mt_angle r | Some x \<Rightarrow> Some x),
         mt_source := (case tv_source payload of None \<Rightarrow> mt_source r | Some x \<Rightarrow> x),
         mt_status := (case tv_status payload of None \<Rightarrow> mt_status r | Some x \<Rightarrow> x),
         mt_priority := (case tv_priority payload of None \<Rightarrow> mt_priority r | Some x \<Rightarrow> x),
         mt_reusable := (case tv_reusable payload of None \<Rightarrow> mt_reusable r | Some x \<Rightarrow> x),
         mt_recommended_channels := (case tv_recommended_channels payload of None \<Rightarrow> mt_recommended_channels r | Some x \<Rightarrow> x),
         mt_legacy_topic_id := (case tv_legacy_topic_id payload of None \<Rightarrow> mt_legacy_topic_id r | Some x \<Rightarrow> Some x),
         mt_slug_hint := (case tv_slug_hint payload of None \<Rightarrow> mt_slug_hint r | Some x \<Rightarrow> Some x)\<rparr> in
      r'\<lparr>mt_metadata_json :=
           (case build_topic_metadata_for_update (mt_metadata_json r) (tv_editorial payload) (tv_metadata_json payload) of
              None \<Rightarrow> mt_metadata_json r | Some d \<Rightarrow> d),
         mt_updated_by_user_id := us_id u\<rparr>)"

definition update_topic :: "uuid \<Rightarrow> user \<Rightarrow> uuid \<Rightarrow> topic_update \<Rightarrow> ('z marketing_db_scheme, marketing_topic) svc" where
  "update_topic t u i payload =
     bindS (get_topic_or_404 t i) (\<lambda>r.
     thenS (case tv_rubric payload of None \<Rightarrow> ret () | Some c \<Rightarrow> assert_code_selectable_for_new_topic t c)
     (thenS (store_topic (apply_topic_update u payload r)) (ret (apply_topic_update u payload r))))"

definition archive_topic :: "uuid \<Rightarrow> user \<Rightarrow> uuid \<Rightarrow> ('z marketing_db_scheme, marketing_topic) svc" where
  "archive_topic t u i =
     bindS (get_topic_or_404 t i) (\<lambda>r.
     bindS (ret (r\<lparr>mt_status := MarketingTopicStatus_ARCHIVED, mt_updated_by_user_id := us_id u\<rparr>)) (\<lambda>r'.
     thenS (store_topic r') (ret r')))"

definition mark_used :: "instant \<Rightarrow> uuid \<Rightarrow> user \<Rightarrow> uuid \<Rightarrow> ('z marketing_db_scheme, marketing_topic) svc" where
  "mark_used now t u i =
     bindS (get_topic_or_404 t i) (\<lambda>r.
     bindS (ret (r\<lparr>mt_used_count := mt_used_count r + 1, mt_last_used_at := Some now,
                   mt_status := (if mt_reusable r then mt_status r else MarketingTopicStatus_USED),
                   mt_updated_by_user_id := us_id u\<rparr>)) (\<lambda>r'.
     thenS (store_topic r') (ret r')))"

definition duplicate_status :: "uuid \<Rightarrow> marketing_topic \<Rightarrow> 'z marketing_db_scheme \<Rightarrow> string \<times> string option" where
  "duplicate_status t r s =
     (if mt_status r = MarketingTopicStatus_ARCHIVED then (''blocked'', Some ''topic is archived'')
      else if \<not> mt_reusable r \<and> mt_used_count r > 0 then (''blocked'', Some ''topic already used and not reusable'')
      else
        (let active = list_active_packs_for_topic t (mt_id r) s in
         if active \<noteq> [] then (''warning'', Some (nat_str (length active) @ '' active pack(s) linked to topic''))
         else (''ok'', None)))"

subsection \<open>The pack of a topic\<close>

definition resolve_pack_channels :: "marketing_topic option \<Rightarrow> MarketingChannel list" where
  "resolve_pack_channels topic =
     (let resolved = (case topic of
            None \<Rightarrow> []
          | Some r \<Rightarrow> List.map_filter (\<lambda>raw. enum_of MarketingChannel_members MarketingChannel_value (py_lower raw))
              (mt_recommended_channels r)) in
      if resolved = [] then DEFAULT_PACK_CHANNELS else resolved)"

record pack_draft =
  pd_title :: string
  pd_slug :: string
  pd_planned_date :: day
  pd_topic :: "marketing_topic option"
  pd_topic_id :: "uuid option"
  pd_source :: string
  pd_metadata_json :: dict

definition draft_metadata :: "marketing_topic option \<Rightarrow> dict \<Rightarrow> dict" where
  "draft_metadata topic meta =
     (case topic of
        Some r \<Rightarrow> if map_of meta ''topic_rubric'' = None then AList.update ''topic_rubric'' (JStr (mt_rubric r)) meta else meta
      | None \<Rightarrow> meta)"

definition draft_pack :: "uuid \<Rightarrow> uuid \<Rightarrow> user \<Rightarrow> pack_draft \<Rightarrow> publication_pack" where
  "draft_pack i t u d =
     \<lparr>mp_id = i, mp_tenant_id = t,
      mp_topic_id = (case pd_topic_id d of None \<Rightarrow> map_option mt_id (pd_topic d) | found \<Rightarrow> found),
      mp_slug = pd_slug d, mp_pack_dir_name = Some (isoformat (pd_planned_date d) @ ''-'' @ pd_slug d),
      mp_title = pd_title d, mp_planned_date = pd_planned_date d, mp_status = MarketingPackStatus_DRAFT,
      mp_preflight_status = MarketingPreflightStatus_NOT_RUN, mp_preflight_report = None, mp_preflight_at = None,
      mp_approval_status = MarketingApprovalStatus_DRAFT, mp_approved_at = None, mp_approved_by_user_id = None,
      mp_publish_status = MarketingPublishStatus_NOT_STARTED, mp_source = pd_source d,
      mp_metadata_json = draft_metadata (pd_topic d) (pd_metadata_json d), mp_updated_by_user_id = us_id u\<rparr>"

definition create_stub_text :: "uuid \<Rightarrow> user \<Rightarrow> uuid \<Rightarrow> MarketingChannel \<Rightarrow> ('z marketing_db_scheme, unit) svc" where
  "create_stub_text t u pack channel =
     bindS fresh_id (\<lambda>i.
     insert_text \<lparr>mx_id = i, mx_tenant_id = t, mx_pack_id = pack, mx_channel = channel, mx_text = [],
       mx_status = MarketingTextStatus_DRAFT, mx_version = 1, mx_char_count = 0, mx_updated_by_user_id = us_id u\<rparr>)"

definition create_draft_pack_with_texts ::
    "uuid \<Rightarrow> user \<Rightarrow> pack_draft \<Rightarrow> ('z marketing_db_scheme, publication_pack) svc" where
  "create_draft_pack_with_texts t u d =
     bindS fresh_id (\<lambda>i.
     thenS (insert_pack (draft_pack i t u d))
     (thenS (for_each (resolve_pack_channels (pd_topic d)) (create_stub_text t u i))
     (ret (draft_pack i t u d))))"

text \<open>\<^verbatim>\<open>a or b\<close> on an optional text: the empty text counts as absent.\<close>

definition or_else :: "string option \<Rightarrow> string \<Rightarrow> string" where
  "or_else x y = (case x of Some (c # cs) \<Rightarrow> c # cs | _ \<Rightarrow> y)"

definition assert_take_allowed :: "uuid \<Rightarrow> marketing_topic \<Rightarrow> ('z marketing_db_scheme, unit) svc" where
  "assert_take_allowed t r =
     thenS (ensure (mt_reusable r \<or> mt_used_count r \<le> 0)
       (ConflictError ''topic_duplicate_blocked: topic already used and not reusable''))
     (bindS (gets (list_active_packs_for_topic t (mt_id r))) (\<lambda>active.
      ensure (active = [] \<or> mt_reusable r)
        (ConflictError (''topic_duplicate_blocked: '' @ nat_str (length active) @ '' active pack(s) exist for this topic''))))"

record take_topic_request =
  tk_planned_date :: "day option"
  tk_slug :: "string option"
  tk_source :: string

definition take_topic ::
    "day \<Rightarrow> uuid \<Rightarrow> user \<Rightarrow> uuid \<Rightarrow> take_topic_request \<Rightarrow> ('z marketing_db_scheme, publication_pack) svc" where
  "take_topic today t u i payload =
     bindS (get_topic_or_404 t i) (\<lambda>r.
     thenS (ensure (mt_status r = MarketingTopicStatus_APPROVED) (ConflictError ''topic_not_approved''))
     (thenS (assert_take_allowed t r)
     (bindS (ret (case tk_planned_date payload of None \<Rightarrow> today | Some d \<Rightarrow> d)) (\<lambda>planned.
      bindS (ret (or_else (tk_slug payload) (or_else (mt_slug_hint r) (slugify 128 (mt_title r))))) (\<lambda>slug.
      bindS (gets (get_pack_by_slug t slug)) (\<lambda>same_slug.
      thenS (ensure (same_slug = None) (ConflictError ''pack_slug_exists''))
      (bindS (gets (find_pack_for_topic_date t (mt_id r) planned)) (\<lambda>same_date.
      thenS (ensure (same_date = None)
        (ConflictError (''topic_duplicate_blocked: pack already exists for topic on '' @ isoformat planned)))
      (create_draft_pack_with_texts t u
         \<lparr>pd_title = mt_title r, pd_slug = slug, pd_planned_date = planned, pd_topic = Some r, pd_topic_id = None,
          pd_source = tk_source payload, pd_metadata_json = []\<rparr>)))))))))"

end
