(* ===== verification/Marketing_Packs.thy ===== *)
theory Marketing_Packs
  imports Marketing_Topics
begin

text \<open>
  \<^verbatim>\<open>marketing/service/packs.py\<close>, \<^verbatim>\<open>approval_reset.py\<close>, \<^verbatim>\<open>texts.py\<close>, \<^verbatim>\<open>media.py\<close> and
  \<^verbatim>\<open>historical_publish.py\<close>: a publication pack, its texts and media, whose changes take back an approval,
  and the record of past publications.
\<close>

subsection \<open>Packs\<close>

definition get_pack_or_404 :: "uuid \<Rightarrow> uuid \<Rightarrow> ('z marketing_db_scheme, publication_pack) svc" where
  "get_pack_or_404 t i = bindS (gets (get_pack t i)) (\<lambda>p. or_raise p (NotFoundError ''Pack not found''))"

record pack_create =
  pk_title :: string
  pk_slug :: "string option"
  pk_planned_date :: "day option"
  pk_topic_id :: "uuid option"
  pk_source :: string
  pk_metadata_json :: dict

definition create_pack :: "day \<Rightarrow> uuid \<Rightarrow> user \<Rightarrow> pack_create \<Rightarrow> ('z marketing_db_scheme, publication_pack) svc" where
  "create_pack today t u payload =
     bindS (case pk_topic_id payload of
              None \<Rightarrow> ret None | Some i \<Rightarrow> bindS (get_topic_or_404 t i) (\<lambda>r. ret (Some r))) (\<lambda>topic.
     bindS (ret (or_else (pk_slug payload) (slugify 128 (pk_title payload)))) (\<lambda>slug.
     bindS (gets (get_pack_by_slug t slug)) (\<lambda>existing.
     thenS (ensure (existing = None) (ConflictError ''pack_slug_exists''))
     (create_draft_pack_with_texts t u
        \<lparr>pd_title = pk_title payload, pd_slug = slug,
         pd_planned_date = (case pk_planned_date payload of None \<Rightarrow> today | Some d \<Rightarrow> d),
         pd_topic = topic, pd_topic_id = pk_topic_id payload, pd_source = pk_source payload,
         pd_metadata_json = pk_metadata_json payload\<rparr>))))"

definition PATCHABLE_STATUSES :: "MarketingPackStatus list" where
  "PATCHABLE_STATUSES = [MarketingPackStatus_DRAFT, MarketingPackStatus_ARCHIVED]"

definition FORBIDDEN_PATCH_STATUSES :: "MarketingPackStatus list" where
  "FORBIDDEN_PATCH_STATUSES =
     [MarketingPackStatus_APPROVED, MarketingPackStatus_PUBLISHED, MarketingPackStatus_PUBLISHING,
      MarketingPackStatus_SCHEDULED]"

definition apply_safe_status_change ::
    "publication_pack \<Rightarrow> MarketingPackStatus \<Rightarrow> ('z marketing_db_scheme, unit) svc" where
  "apply_safe_status_change p new_status =
     thenS (ensure (\<not> List.member FORBIDDEN_PATCH_STATUSES new_status)
       (ConflictError (''Cannot set pack status to '' @ quoted (MarketingPackStatus_value new_status) @
          '' via PATCH; use approval/publish flows'')))
     (thenS (ensure (List.member PATCHABLE_STATUSES new_status)
       (ConflictError (''Pack status '' @ quoted (MarketingPackStatus_value new_status) @ '' is not allowed via PATCH'')))
     (thenS (ensure (\<not> List.member FORBIDDEN_PATCH_STATUSES (mp_status p) \<or> new_status = MarketingPackStatus_ARCHIVED)
       (ConflictError ''Cannot change status of an approved or publishing pack except to archived''))
     (write_pack (mp_id p) (\<lambda>r. r\<lparr>mp_status := new_status\<rparr>))))"

record pack_update =
  pu_title :: "string option"
  pu_topic_id :: "uuid option"
  pu_source :: "string option"
  pu_status :: "MarketingPackStatus option"

definition update_pack :: "uuid \<Rightarrow> user \<Rightarrow> uuid \<Rightarrow> pack_update \<Rightarrow> ('z marketing_db_scheme, publication_pack) svc" where
  "update_pack t u i payload =
     bindS (get_pack_or_404 t i) (\<lambda>p.
     thenS (case pu_title payload of None \<Rightarrow> ret () | Some x \<Rightarrow> write_pack i (\<lambda>r. r\<lparr>mp_title := x\<rparr>))
     (thenS (case pu_source payload of None \<Rightarrow> ret () | Some x \<Rightarrow> write_pack i (\<lambda>r. r\<lparr>mp_source := x\<rparr>))
     (thenS (case pu_topic_id payload of
               None \<Rightarrow> ret ()
             | Some k \<Rightarrow> bindS (get_topic_or_404 t k) (\<lambda>_. write_pack i (\<lambda>r. r\<lparr>mp_topic_id := Some k\<rparr>)))
     (thenS (case pu_status payload of None \<Rightarrow> ret () | Some st \<Rightarrow> apply_safe_status_change p st)
     (thenS (write_pack i (\<lambda>r. r\<lparr>mp_updated_by_user_id := us_id u\<rparr>))
     (get_pack_or_404 t i))))))"

subsection \<open>Changes of the content\<close>

definition untouched_draft :: "publication_pack \<Rightarrow> bool" where
  "untouched_draft p \<longleftrightarrow> mp_status p = MarketingPackStatus_DRAFT \<and>
     mp_preflight_status p = MarketingPreflightStatus_NOT_RUN \<and> mp_approval_status p = MarketingApprovalStatus_DRAFT"

definition reset_pack_after_content_change :: "uuid \<Rightarrow> publication_pack \<Rightarrow> publication_pack" where
  "reset_pack_after_content_change user p =
     (if untouched_draft p then p
      else p\<lparr>mp_approval_status := MarketingApprovalStatus_DRAFT,
             mp_preflight_status := MarketingPreflightStatus_NOT_RUN,
             mp_status := MarketingPackStatus_DRAFT, mp_approved_at := None, mp_approved_by_user_id := None,
             mp_preflight_at := None, mp_preflight_report := None, mp_updated_by_user_id := user\<rparr>)"

definition reset_pack :: "user \<Rightarrow> uuid \<Rightarrow> ('z marketing_db_scheme, unit) svc" where
  "reset_pack u i = write_pack i (reset_pack_after_content_change (us_id u))"

record pack_text_upsert =
  tu_text :: string
  tu_status :: "MarketingTextStatus option"

definition new_text ::
    "uuid \<Rightarrow> uuid \<Rightarrow> user \<Rightarrow> uuid \<Rightarrow> MarketingChannel \<Rightarrow> MarketingTextStatus \<Rightarrow> string \<Rightarrow> publication_text" where
  "new_text k t u i channel st x =
     \<lparr>mx_id = k, mx_tenant_id = t, mx_pack_id = i, mx_channel = channel, mx_text = x,
      mx_status = st, mx_version = 1, mx_char_count = length x, mx_updated_by_user_id = us_id u\<rparr>"

definition rewritten_text :: "user \<Rightarrow> MarketingTextStatus \<Rightarrow> string \<Rightarrow> publication_text \<Rightarrow> publication_text" where
  "rewritten_text u st x r =
     r\<lparr>mx_text := x, mx_char_count := length x, mx_version := mx_version r + 1, mx_status := st,
       mx_updated_by_user_id := us_id u\<rparr>"

definition upsert_text_row ::
    "uuid \<Rightarrow> user \<Rightarrow> uuid \<Rightarrow> MarketingChannel \<Rightarrow> pack_text_upsert \<Rightarrow> ('z marketing_db_scheme, unit) svc" where
  "upsert_text_row t u i channel payload =
     bindS (gets (get_pack_text t i channel)) (\<lambda>row.
     bindS (ret (case tu_status payload of None \<Rightarrow> MarketingTextStatus_DRAFT | Some st \<Rightarrow> st)) (\<lambda>st.
     case row of
       None \<Rightarrow>
         bindS fresh_id (\<lambda>k. insert_text (new_text k t u i channel st (tu_text payload)))
     | Some x \<Rightarrow> write_text (mx_id x) (rewritten_text u st (tu_text payload))))"

definition upsert_pack_text ::
    "uuid \<Rightarrow> user \<Rightarrow> uuid \<Rightarrow> MarketingChannel \<Rightarrow> pack_text_upsert \<Rightarrow> ('z marketing_db_scheme, unit) svc" where
  "upsert_pack_text t u i channel payload =
     thenS (ensure (List.member DEFAULT_PACK_CHANNELS channel)
       (ConflictError (''unsupported_channel: '' @ MarketingChannel_value channel)))
     (bindS (get_pack_or_404 t i) (\<lambda>_.
      thenS (upsert_text_row t u i channel payload) (reset_pack u i)))"

subsection \<open>Media\<close>

definition validate_mime :: "string \<Rightarrow> ('z marketing_db_scheme, string) svc" where
  "validate_mime mime =
     (let normalized = py_lower (py_strip mime) in
      thenS (ensure (List.member ALLOWED_MEDIA_MIME_TYPES normalized) (ConflictError (''invalid_mime_type: '' @ mime)))
      (ret normalized))"

definition get_asset_or_404 :: "uuid \<Rightarrow> uuid \<Rightarrow> ('z marketing_db_scheme, media_asset) svc" where
  "get_asset_or_404 t i =
     bindS (gets (get_media_asset t i)) (\<lambda>m. or_raise m (NotFoundError ''Media asset not found''))"

record media_create =
  mc_file_name :: string
  mc_mime_type :: string
  mc_storage_provider :: string
  mc_storage_key :: string
  mc_public_url :: "string option"
  mc_preview_url :: "string option"
  mc_width :: "int option"
  mc_height :: "int option"
  mc_role :: string
  mc_alt_text :: "string option"
  mc_metadata_json :: dict

definition new_media :: "uuid \<Rightarrow> uuid \<Rightarrow> user \<Rightarrow> uuid \<Rightarrow> string \<Rightarrow> media_create \<Rightarrow> media_asset" where
  "new_media k t u i mime payload =
     \<lparr>mm_id = k, mm_tenant_id = t, mm_pack_id = Some i, mm_role = mc_role payload,
      mm_file_name = mc_file_name payload, mm_mime_type = mime, mm_storage_provider = mc_storage_provider payload,
      mm_storage_key = mc_storage_key payload, mm_public_url = mc_public_url payload,
      mm_preview_url = mc_preview_url payload, mm_width = mc_width payload, mm_height = mc_height payload,
      mm_alt_text = mc_alt_text payload, mm_status = MarketingMediaAssetStatus_STORED,
      mm_validation_status = MarketingMediaValidationStatus_LEGACY_UNVERIFIED,
      mm_declared_mime_type = Some mime, mm_metadata_json = mc_metadata_json payload, mm_updated_by_user_id = us_id u\<rparr>"

definition attach_media ::
    "uuid \<Rightarrow> user \<Rightarrow> uuid \<Rightarrow> media_create \<Rightarrow> ('z marketing_db_scheme, media_asset) svc" where
  "attach_media t u i payload =
     bindS (get_pack_or_404 t i) (\<lambda>_.
     bindS (validate_mime (mc_mime_type payload)) (\<lambda>mime.
     bindS fresh_id (\<lambda>k.
     thenS (create_media_asset (new_media k t u i mime payload))
     (thenS (reset_pack u i) (get_asset_or_404 t k)))))"

record media_update =
  mu_file_name :: "string option"
  mu_mime_type :: "string option"
  mu_storage_provider :: "string option"
  mu_storage_key :: "string option"
  mu_public_url :: "string option"
  mu_preview_url :: "string option"
  mu_width :: "int option"
  mu_height :: "int option"
  mu_role :: "string option"
  mu_alt_text :: "string option"
  mu_status :: "MarketingMediaAssetStatus option"
  mu_metadata_json :: "dict option"

fun some_or :: "'a option \<Rightarrow> 'a \<Rightarrow> 'a" where
  "some_or None old = old"
| "some_or (Some x) old = x"

fun some_or_old :: "'a option \<Rightarrow> 'a option \<Rightarrow> 'a option" where
  "some_or_old None old = old"
| "some_or_old (Some x) old = Some x"

definition apply_media_update :: "user \<Rightarrow> string option \<Rightarrow> media_update \<Rightarrow> media_asset \<Rightarrow> media_asset" where
  "apply_media_update u mime payload m =
     m\<lparr>mm_file_name := some_or (mu_file_name payload) (mm_file_name m),
       mm_mime_type := some_or mime (mm_mime_type m),
       mm_storage_provider := some_or (mu_storage_provider payload) (mm_storage_provider m),
       mm_storage_key := some_or (mu_storage_key payload) (mm_storage_key m),
       mm_public_url := some_or_old (mu_public_url payload) (mm_public_url m),
       mm_preview_url := some_or_old (mu_preview_url payload) (mm_preview_url m),
       mm_width := some_or_old (mu_width payload) (mm_width m),
       mm_height := some_or_old (mu_height payload) (mm_height m),
       mm_role := some_or (mu_role payload) (mm_role m),
       mm_alt_text := some_or_old (mu_alt_text payload) (mm_alt_text m),
       mm_status := some_or (mu_status payload) (mm_status m),
       mm_metadata_json := some_or (mu_metadata_json payload) (mm_metadata_json m),
       mm_updated_by_user_id := us_id u\<rparr>"

definition reset_pack_of_asset :: "uuid \<Rightarrow> user \<Rightarrow> media_asset \<Rightarrow> ('z marketing_db_scheme, unit) svc" where
  "reset_pack_of_asset t u m =
     (case mm_pack_id m of
        None \<Rightarrow> ret () | Some i \<Rightarrow> bindS (get_pack_or_404 t i) (\<lambda>_. reset_pack u i))"

definition update_media ::
    "uuid \<Rightarrow> user \<Rightarrow> uuid \<Rightarrow> media_update \<Rightarrow> ('z marketing_db_scheme, media_asset) svc" where
  "update_media t u k payload =
     bindS (get_asset_or_404 t k) (\<lambda>m.
     bindS (case mu_mime_type payload of
              None \<Rightarrow> ret None | Some x \<Rightarrow> bindS (validate_mime x) (\<lambda>y. ret (Some y))) (\<lambda>mime.
     thenS (write_media k (apply_media_update u mime payload))
     (thenS (reset_pack_of_asset t u m) (get_asset_or_404 t k))))"

definition archive_media :: "uuid \<Rightarrow> user \<Rightarrow> uuid \<Rightarrow> ('z marketing_db_scheme, media_asset) svc" where
  "archive_media t u k =
     bindS (get_asset_or_404 t k) (\<lambda>m.
     thenS (write_media k (\<lambda>r. r\<lparr>mm_status := MarketingMediaAssetStatus_ARCHIVED, mm_updated_by_user_id := us_id u\<rparr>))
     (thenS (reset_pack_of_asset t u m) (get_asset_or_404 t k)))"

subsection \<open>Past publications\<close>

text \<open>
  A \<^verbatim>\<open>datetime\<close> of a payload is an instant with the offset of its zone in microseconds; its \<^verbatim>\<open>date()\<close> is
  the local one.  The ordinal of the epoch is 719163.
\<close>

record historical_publish_request =
  hr_channels :: "string list"
  hr_published_at :: "(instant \<times> int) option"
  hr_source :: string
  hr_external_url :: "string option"
  hr_evidence_ref :: "string option"
  hr_note :: "string option"
  hr_target_social_channels :: "string list option"
  hr_needs_review :: bool
  hr_update_publish_status :: bool

definition DEFAULT_TARGET_SOCIAL_CHANNELS :: "string list" where
  "DEFAULT_TARGET_SOCIAL_CHANNELS = [''telegram'', ''instagram'']"

definition local_day :: "instant \<times> int \<Rightarrow> day" where
  "local_day p = (fst p + snd p) div day_usec + 719163"

definition json_of :: "string option \<Rightarrow> json" where
  "json_of x = (case x of None \<Rightarrow> JNull | Some y \<Rightarrow> JStr y)"

datatype channel_result = LogCreated uuid | LogExisting uuid

definition record_channel ::
    "instant \<Rightarrow> uuid \<Rightarrow> user \<Rightarrow> uuid \<Rightarrow> instant \<times> int \<Rightarrow> historical_publish_request \<Rightarrow> string \<Rightarrow>
     ('z marketing_db_scheme, channel_result) svc" where
  "record_channel now t u i published payload channel =
     bindS (gets (find_historical_publish_log t i channel (hr_source payload) (hr_evidence_ref payload)
              (isoformat (local_day published)))) (\<lambda>existing.
     case existing of
       Some l \<Rightarrow> ret (LogExisting (ml_id l))
     | None \<Rightarrow>
         bindS fresh_id (\<lambda>k.
         thenS (create_publish_log \<lparr>ml_id = k, ml_tenant_id = t, ml_pack_id = i, ml_channel = channel,
            ml_action = ''historical_record'', ml_status = ''recorded'', ml_external_url = hr_external_url payload,
            ml_published_at = Some (fst published), ml_actor = Some (nat_str (us_id u)),
            ml_metadata_json =
              [(''source'', JStr (hr_source payload)), (''evidence_ref'', json_of (hr_evidence_ref payload)),
               (''published_at_date'', JStr (isoformat (local_day published))), (''note'', json_of (hr_note payload)),
               (''needs_review'', JBool (hr_needs_review payload))],
            ml_created_at = now\<rparr>)
         (ret (LogCreated k))))"

fun record_channels ::
    "instant \<Rightarrow> uuid \<Rightarrow> user \<Rightarrow> uuid \<Rightarrow> instant \<times> int \<Rightarrow> historical_publish_request \<Rightarrow> string list \<Rightarrow>
     ('z marketing_db_scheme, channel_result list) svc" where
  "record_channels now t u i published payload [] = ret []"
| "record_channels now t u i published payload (c # cs) =
     bindS (record_channel now t u i published payload c) (\<lambda>r.
     bindS (record_channels now t u i published payload cs) (\<lambda>rs. ret (r # rs)))"

definition historical_channels :: "uuid \<Rightarrow> uuid \<Rightarrow> 'z marketing_db_scheme \<Rightarrow> string list" where
  "historical_channels t i s =
     map ml_channel (filter (\<lambda>l. ml_action l = ''historical_record'' \<and> ml_status l = ''recorded'' \<and>
       map_of (ml_metadata_json l) ''needs_review'' \<noteq> Some (JBool True)) (list_pack_logs t i s))"

definition rollup_publish_status ::
    "uuid \<Rightarrow> uuid \<Rightarrow> string list \<Rightarrow> 'z marketing_db_scheme \<Rightarrow> MarketingPublishStatus" where
  "rollup_publish_status t i targets s =
     (if list_all (List.member (historical_channels t i s)) targets then MarketingPublishStatus_PUBLISHED
      else MarketingPublishStatus_PARTIAL)"

definition record_historical ::
    "instant \<Rightarrow> uuid \<Rightarrow> user \<Rightarrow> uuid \<Rightarrow> historical_publish_request \<Rightarrow>
     ('z marketing_db_scheme, channel_result list) svc" where
  "record_historical now t u i payload =
     bindS (get_pack_or_404 t i) (\<lambda>p.
     thenS (ensure (mp_status p \<noteq> MarketingPackStatus_PUBLISHING)
       (ConflictError ''Cannot record historical publish while pack is publishing''))
     (bindS (record_channels now t u i (some_or (hr_published_at payload) (now, 0)) payload (hr_channels payload)) (\<lambda>results.
      thenS (whenS (hr_update_publish_status payload)
        (bindS (gets (rollup_publish_status t i (case hr_target_social_channels payload of
              Some (c # cs) \<Rightarrow> c # cs | _ \<Rightarrow> DEFAULT_TARGET_SOCIAL_CHANNELS))) (\<lambda>st.
         write_pack i (\<lambda>r. r\<lparr>mp_publish_status := st\<rparr>))))
      (ret results))))"

end
