(* ===== verification/Marketing_Preflight.thy ===== *)
theory Marketing_Preflight
  imports Marketing_Packs
begin

text \<open>
  \<^verbatim>\<open>marketing/service/preflight_rules.py\<close> and \<^verbatim>\<open>approval.py\<close>: the rules a pack is checked by, the report,
  approval and rejection.  A rule returns the errors, warnings and checks it appends.
\<close>

subsection \<open>Findings of a rule\<close>

type_synonym findings = "preflight_issue list \<times> preflight_issue list \<times> preflight_check list"

definition nothing_found :: findings where
  "nothing_found = ([], [], [])"

fun also_found :: "findings \<Rightarrow> findings \<Rightarrow> findings" where
  "also_found (e, w, c) (e', w', c') = (e @ e', w @ w', c @ c')"

definition all_found :: "findings list \<Rightarrow> findings" where
  "all_found fs = foldr also_found fs nothing_found"

definition issue :: "string \<Rightarrow> string \<Rightarrow> preflight_issue" where
  "issue code message = \<lparr>is_code = code, is_message = message, is_channel = None\<rparr>"

definition check :: "string \<Rightarrow> bool \<Rightarrow> string option \<Rightarrow> preflight_check" where
  "check code passed message = \<lparr>ck_code = code, ck_passed = passed, ck_message = message, ck_channel = None\<rparr>"

definition blocker :: "preflight_issue \<Rightarrow> findings" where
  "blocker i = ([i], [], [])"

definition warning :: "preflight_issue \<Rightarrow> findings" where
  "warning i = ([], [i], [])"

definition checked :: "preflight_check \<Rightarrow> findings" where
  "checked c = ([], [], [c])"

definition found_if :: "bool \<Rightarrow> findings \<Rightarrow> findings" where
  "found_if b f = (if b then f else nothing_found)"

subsection \<open>The topic of the pack\<close>

definition CTA_FUNNEL_STAGES :: "string list" where
  "CTA_FUNNEL_STAGES = [''diagnosis'', ''consultation'', ''product_education'', ''objection_handling'']"

definition filled :: "string option \<Rightarrow> bool" where
  "filled x = (case x of None \<Rightarrow> False | Some y \<Rightarrow> py_strip y \<noteq> [])"

definition topic_context_summary_from_topic :: "marketing_topic \<Rightarrow> dict" where
  "topic_context_summary_from_topic r =
     (let ed = extract_editorial_fields (mt_metadata_json r); has = (\<lambda>k. JBool (filled (ed k))) in
      [(''topic_id'', JId (mt_id r)), (''title'', JStr (mt_title r)),
       (''status'', JStr (MarketingTopicStatus_value (mt_status r))),
       (''audience'', json_of (ed ''audience'')), (''pain'', json_of (ed ''pain'')),
       (''insight'', json_of (ed ''insight'')), (''source_ref'', json_of (ed ''source_ref'')),
       (''cta'', json_of (ed ''cta'')), (''funnel_stage'', json_of (ed ''funnel_stage'')),
       (''notes'', json_of (ed ''notes'')), (''planned_date'', json_of (ed ''planned_date'')),
       (''has_audience'', has ''audience''), (''has_pain'', has ''pain''), (''has_insight'', has ''insight''),
       (''has_source_ref'', has ''source_ref''), (''has_cta'', has ''cta''), (''has_notes'', has ''notes''),
       (''has_planned_date'', has ''planned_date'')])"

text \<open>A warning and a failed check when a field is empty, a passed check otherwise.\<close>

definition expect_filled :: "string option \<Rightarrow> string \<Rightarrow> string \<Rightarrow> string \<Rightarrow> findings" where
  "expect_filled x code message present =
     (if filled x then checked (check present True None)
      else also_found (warning (issue code message)) (checked (check present False None)))"

definition context_triple :: "(string \<Rightarrow> string option) \<Rightarrow> findings" where
  "context_triple ed =
     (if \<not> filled (ed ''audience'') \<and> \<not> filled (ed ''pain'') \<and> \<not> filled (ed ''cta'') then
        also_found
          (blocker (issue ''context_triple_missing'' ''Audience, pain and CTA are all missing on the linked topic''))
          (checked (check ''context_triple'' False (Some ''audience, pain and cta are empty'')))
      else checked (check ''context_triple'' True None))"

definition cta_for_funnel :: "(string \<Rightarrow> string option) \<Rightarrow> findings" where
  "cta_for_funnel ed =
     (case ed ''funnel_stage'' of
        Some stage \<Rightarrow>
          if List.member CTA_FUNNEL_STAGES stage \<and> \<not> filled (ed ''cta'') then
            also_found (warning (issue ''cta_missing_for_funnel'' (''CTA is empty for funnel_stage='' @ stage)))
              (checked (check ''cta_for_funnel'' False (Some (''funnel '' @ stage @ '' expects CTA''))))
          else checked (check ''cta_for_funnel'' True None)
      | None \<Rightarrow> checked (check ''cta_for_funnel'' True None))"

definition append_topic_context_rules ::
    "uuid option \<Rightarrow> marketing_topic option \<Rightarrow> findings \<times> dict option" where
  "append_topic_context_rules pack_topic_id topic =
     (case pack_topic_id of
        None \<Rightarrow>
          (also_found (blocker (issue ''topic_missing'' ''Pack has no linked topic''))
             (checked (check ''topic_linked'' False (Some ''topic_id is null''))), None)
      | Some _ \<Rightarrow>
          (case topic of
             None \<Rightarrow>
               (also_found (checked (check ''topic_linked'' True None))
                  (blocker (issue ''topic_missing'' ''Linked topic could not be loaded'')), None)
           | Some r \<Rightarrow>
               (let ed = extract_editorial_fields (mt_metadata_json r) in
                (all_found
                   [checked (check ''topic_linked'' True None), context_triple ed,
                    expect_filled (ed ''insight'') ''insight_missing'' ''Topic insight is empty'' ''insight_present'',
                    expect_filled (ed ''source_ref'') ''source_ref_missing'' ''Topic source_ref is empty'' ''source_ref_present'',
                    cta_for_funnel ed,
                    expect_filled (ed ''notes'') ''notes_missing'' ''Topic notes are empty'' ''notes_present'',
                    expect_filled (ed ''planned_date'') ''topic_planned_date_missing'' ''Topic planned_date is empty''
                      ''topic_planned_date_present''],
                 Some (topic_context_summary_from_topic r)))))"

definition topic_approval_rule :: "uuid option \<Rightarrow> marketing_topic option \<Rightarrow> findings" where
  "topic_approval_rule pack_topic_id topic =
     (case (pack_topic_id, topic) of
        (Some _, Some r) \<Rightarrow>
          if mt_status r \<noteq> MarketingTopicStatus_APPROVED then
            also_found (blocker (issue ''topic_not_approved'' ''Linked topic is not approved''))
              (checked (check ''topic_approved'' False (Some (''status='' @ MarketingTopicStatus_value (mt_status r)))))
          else checked (check ''topic_approved'' True None)
      | _ \<Rightarrow> nothing_found)"

subsection \<open>Texts and media\<close>

definition MIN_SOCIAL_TEXT_BLOCKER :: nat where
  "MIN_SOCIAL_TEXT_BLOCKER = 20"

definition MIN_SOCIAL_TEXT_WARN :: nat where
  "MIN_SOCIAL_TEXT_WARN = 40"

definition TELEGRAM_MAX_CHARS :: nat where
  "TELEGRAM_MAX_CHARS = 4096"

definition SOCIAL_CHANNELS :: "MarketingChannel list" where
  "SOCIAL_CHANNELS = [MarketingChannel_TELEGRAM, MarketingChannel_INSTAGRAM, MarketingChannel_THREADS]"

text \<open>\<^verbatim>\<open>text_by_channel\<close>: a channel's last row in the listing.\<close>

definition text_by_channel :: "publication_text list \<Rightarrow> MarketingChannel \<Rightarrow> publication_text option" where
  "text_by_channel texts c = row_find (\<lambda>x. mx_channel x = c) (rev texts)"

definition stripped_text :: "publication_text option \<Rightarrow> string" where
  "stripped_text row = (case row of None \<Rightarrow> [] | Some x \<Rightarrow> py_strip (mx_text x))"

definition metadata_rule :: "publication_pack \<Rightarrow> findings" where
  "metadata_rule p =
     (let ok = mp_title p \<noteq> [] \<and> mp_slug p \<noteq> [] in
      also_found
        (checked (check ''pack_metadata_complete'' ok (if ok then None else Some ''title, slug and planned_date are required'')))
        (found_if (\<not> ok) (blocker (issue ''pack_metadata_incomplete''
           ''Pack metadata incomplete (title, slug, planned_date)''))))"

definition row_exists_rule :: "publication_text list \<Rightarrow> MarketingChannel \<Rightarrow> findings" where
  "row_exists_rule texts c =
     (let name = MarketingChannel_value c; exists = text_by_channel texts c \<noteq> None in
      also_found (checked ((check (name @ ''_row_exists'') exists None)\<lparr>ck_channel := Some name\<rparr>))
        (found_if (\<not> exists)
          (blocker ((issue ''channel_text_missing'' (''No text row for channel '' @ name))\<lparr>is_channel := Some name\<rparr>))))"

definition has_text :: "publication_text list \<Rightarrow> MarketingChannel \<Rightarrow> bool" where
  "has_text texts c \<longleftrightarrow> stripped_text (text_by_channel texts c) \<noteq> []"

definition char_count :: "publication_text option \<Rightarrow> nat" where
  "char_count row = (case row of None \<Rightarrow> 0 | Some x \<Rightarrow> mx_char_count x)"

definition text_present_rule :: "publication_text list \<Rightarrow> MarketingChannel \<Rightarrow> findings" where
  "text_present_rule texts c =
     (let name = MarketingChannel_value c; has = has_text texts c in
      also_found
        (checked ((check (name @ ''_text_present'') has (if has then None else Some ''text is empty''))\<lparr>ck_channel := Some name\<rparr>))
        (found_if (has \<and> c = MarketingChannel_TELEGRAM \<and> char_count (text_by_channel texts c) > TELEGRAM_MAX_CHARS)
          (also_found
             (warning ((issue ''telegram_text_too_long'' ''Telegram text exceeds 4096 characters'')\<lparr>is_channel := Some ''telegram''\<rparr>))
             (checked ((check ''telegram_length_limit'' False (Some ''char_count > 4096''))\<lparr>ck_channel := Some ''telegram''\<rparr>)))))"

definition publishable_rule :: "publication_text list \<Rightarrow> MarketingChannel list \<Rightarrow> findings" where
  "publishable_rule texts targets =
     (if list_ex (has_text texts) targets then checked (check ''at_least_one_channel_text'' True None)
      else also_found (blocker (issue ''no_publishable_text'' ''At least one channel must have non-empty text''))
        (checked (check ''at_least_one_channel_text'' False (Some ''all channel texts are empty''))))"

definition insights_rule :: "publication_text list \<Rightarrow> findings" where
  "insights_rule texts =
     found_if (text_by_channel texts MarketingChannel_INSIGHTS \<noteq> None \<and> \<not> has_text texts MarketingChannel_INSIGHTS)
       (warning ((issue ''insights_text_empty'' ''Insights text is empty (allowed for MVP)'')\<lparr>is_channel := Some ''insights''\<rparr>))"

definition social_length :: "publication_text list \<Rightarrow> MarketingChannel \<Rightarrow> nat" where
  "social_length texts c = length (stripped_text (text_by_channel texts c))"

definition social_check :: "publication_text list \<Rightarrow> MarketingChannel \<Rightarrow> channel_check" where
  "social_check texts c =
     (let n = social_length texts c; present = 0 < n in
      \<lparr>cc_channel = MarketingChannel_value c, cc_present = present, cc_length = n,
       cc_short_warn = (present \<and> n < MIN_SOCIAL_TEXT_WARN),
       cc_below_blocker_threshold = (present \<and> n < MIN_SOCIAL_TEXT_BLOCKER)\<rparr>)"

definition social_length_rule :: "publication_text list \<Rightarrow> MarketingChannel \<Rightarrow> findings" where
  "social_length_rule texts c =
     (let name = MarketingChannel_value c; n = social_length texts c; short = 0 < n \<and> n < MIN_SOCIAL_TEXT_WARN in
      also_found
        (checked ((check (name @ ''_social_length_ok'') (\<not> short)
           (if short then Some (''text length '' @ nat_str n @ '' < 40'') else None))\<lparr>ck_channel := Some name\<rparr>))
        (found_if short
          (warning ((issue ''channel_text_short''
             (name @ '' text is shorter than 40 characters ('' @ nat_str n @ '')''))\<lparr>is_channel := Some name\<rparr>))))"

definition all_texts_short :: "publication_text list \<Rightarrow> bool" where
  "all_texts_short texts =
     (let lengths = filter (\<lambda>n. 0 < n) (map (social_length texts) SOCIAL_CHANNELS) in
      lengths \<noteq> [] \<and> list_all (\<lambda>n. n < MIN_SOCIAL_TEXT_BLOCKER) lengths)"

definition build_social_channel_checks :: "publication_text list \<Rightarrow> findings \<times> channel_check list" where
  "build_social_channel_checks texts =
     (also_found (all_found (map (social_length_rule texts) SOCIAL_CHANNELS))
        (if all_texts_short texts then
           also_found
             (blocker (issue ''all_texts_too_short'' ''All non-empty social channel texts are shorter than 20 characters''))
             (checked (check ''social_texts_min_length'' False (Some ''all social texts < 20'')))
         else checked (check ''social_texts_min_length'' True None)),
      map (social_check texts) SOCIAL_CHANNELS)"

definition mime_ok :: "media_asset \<Rightarrow> bool" where
  "mime_ok m = List.member ALLOWED_MEDIA_MIME_TYPES (py_lower (mm_mime_type m))"

definition not_square :: "media_asset \<Rightarrow> bool" where
  "not_square m =
     (case (mm_width m, mm_height m) of
        (Some w, Some h) \<Rightarrow> w \<noteq> 0 \<and> h \<noteq> 0 \<and> (w \<noteq> 1080 \<or> h \<noteq> 1080)
      | _ \<Rightarrow> False)"

definition media_rule :: "media_asset \<Rightarrow> findings" where
  "media_rule m =
     all_found
       [checked (check (''media_mime_'' @ nat_str (mm_id m)) (mime_ok m)
          (if mime_ok m then None else Some (''invalid mime: '' @ mm_mime_type m))),
        found_if (\<not> mime_ok m)
          (blocker (issue ''media_invalid_mime'' (''Media asset has invalid mime type: '' @ mm_mime_type m))),
        found_if (not_square m)
          (warning (issue ''media_not_1080'' (''Media '' @ mm_file_name m @ '' is not 1080x1080'')))]"

definition build_media_checks :: "media_asset list \<Rightarrow> findings" where
  "build_media_checks media =
     also_found
       (checked (check ''media_present'' (media \<noteq> []) (if media \<noteq> [] then None else Some ''no media metadata rows'')))
       (found_if (media = []) (warning (issue ''media_missing'' ''Pack has no media metadata'')))"

subsection \<open>The report\<close>

definition preflight_findings ::
    "publication_pack \<Rightarrow> marketing_topic option \<Rightarrow> publication_text list \<Rightarrow> media_asset list \<Rightarrow>
     MarketingChannel list \<Rightarrow> findings" where
  "preflight_findings p topic texts media targets =
     all_found
       ([metadata_rule p] @ map (row_exists_rule texts) DEFAULT_PACK_CHANNELS @
        map (text_present_rule texts) targets @
        [publishable_rule texts targets, insights_rule texts,
         fst (append_topic_context_rules (mp_topic_id p) topic), topic_approval_rule (mp_topic_id p) topic,
         fst (build_social_channel_checks texts)] @
        map media_rule media @ [build_media_checks media])"

definition preflight_report_of ::
    "instant \<Rightarrow> publication_pack \<Rightarrow> marketing_topic option \<Rightarrow> publication_text list \<Rightarrow> media_asset list \<Rightarrow>
     MarketingChannel list \<Rightarrow> preflight_report" where
  "preflight_report_of now p topic texts media targets =
     (case preflight_findings p topic texts media targets of (errors, warnings, checks) \<Rightarrow>
      \<lparr>rp_passed = (errors = []),
       rp_status = (if errors \<noteq> [] then ''failed'' else if warnings \<noteq> [] then ''warning'' else ''passed''),
       rp_checked_at = now, rp_errors = errors, rp_warnings = warnings, rp_checks = checks,
       rp_channel_eligibility =
         fold (\<lambda>c. AList.update (MarketingChannel_value c) (has_text texts c)) targets [],
       rp_topic_context_summary = snd (append_topic_context_rules (mp_topic_id p) topic),
       rp_channel_checks = snd (build_social_channel_checks texts),
       rp_media_count = length media, rp_media_missing = (media = [])\<rparr>)"

subsection \<open>Preflight, approval, rejection\<close>

definition PREFLIGHT_ALLOWED_STATUSES :: "MarketingPackStatus list" where
  "PREFLIGHT_ALLOWED_STATUSES =
     [MarketingPackStatus_DRAFT, MarketingPackStatus_PREFLIGHT_FAILED, MarketingPackStatus_READY_FOR_APPROVAL]"

definition PREFLIGHT_FORBIDDEN_STATUSES :: "MarketingPackStatus list" where
  "PREFLIGHT_FORBIDDEN_STATUSES =
     [MarketingPackStatus_APPROVED, MarketingPackStatus_PUBLISHING, MarketingPackStatus_PUBLISHED,
      MarketingPackStatus_SCHEDULED, MarketingPackStatus_ARCHIVED]"

definition assert_preflight_allowed :: "publication_pack \<Rightarrow> ('z marketing_db_scheme, unit) svc" where
  "assert_preflight_allowed p =
     (if List.member PREFLIGHT_ALLOWED_STATUSES (mp_status p) then ret ()
      else if mp_approval_status p = MarketingApprovalStatus_REJECTED \<and> mp_status p = MarketingPackStatus_DRAFT then ret ()
      else ensure (\<not> List.member PREFLIGHT_FORBIDDEN_STATUSES (mp_status p))
        (ConflictError (''Preflight not allowed for pack status '' @ MarketingPackStatus_value (mp_status p))))"

definition target_channels :: "MarketingChannel list option \<Rightarrow> MarketingChannel list" where
  "target_channels channels = (case channels of Some (c # cs) \<Rightarrow> c # cs | _ \<Rightarrow> DEFAULT_PACK_CHANNELS)"

definition preflighted :: "user \<Rightarrow> preflight_report \<Rightarrow> publication_pack \<Rightarrow> publication_pack" where
  "preflighted u rep p =
     p\<lparr>mp_preflight_status := (if rp_passed rep then MarketingPreflightStatus_PASSED else MarketingPreflightStatus_FAILED),
       mp_status := (if rp_passed rep then MarketingPackStatus_READY_FOR_APPROVAL else MarketingPackStatus_PREFLIGHT_FAILED),
       mp_preflight_at := Some (rp_checked_at rep), mp_preflight_report := Some rep,
       mp_updated_by_user_id := us_id u\<rparr>"

definition run_preflight ::
    "instant \<Rightarrow> uuid \<Rightarrow> user \<Rightarrow> uuid \<Rightarrow> MarketingChannel list option \<Rightarrow> ('z marketing_db_scheme, preflight_report) svc" where
  "run_preflight now t u i channels =
     bindS (get_pack_or_404 t i) (\<lambda>p.
     thenS (assert_preflight_allowed p)
     (bindS (gets (\<lambda>s. preflight_report_of now p (pack_topic p s) (list_pack_texts t i s)
                       (list_pack_media t i False s) (target_channels channels))) (\<lambda>rep.
      thenS (write_pack i (preflighted u rep)) (ret rep))))"

definition approved :: "instant \<Rightarrow> user \<Rightarrow> publication_pack \<Rightarrow> publication_pack" where
  "approved now u p =
     p\<lparr>mp_approval_status := MarketingApprovalStatus_APPROVED, mp_status := MarketingPackStatus_APPROVED,
       mp_approved_at := Some now, mp_approved_by_user_id := Some (us_id u), mp_updated_by_user_id := us_id u\<rparr>"

definition approve_pack :: "instant \<Rightarrow> uuid \<Rightarrow> user \<Rightarrow> uuid \<Rightarrow> ('z marketing_db_scheme, publication_pack) svc" where
  "approve_pack now t u i =
     bindS (get_pack_or_404 t i) (\<lambda>p.
     thenS (ensure (mp_preflight_status p = MarketingPreflightStatus_PASSED) (ConflictError ''preflight_not_passed''))
     (thenS (ensure (mp_status p = MarketingPackStatus_READY_FOR_APPROVAL)
        (ConflictError (''Pack must be ready_for_approval to approve (current: '' @
           MarketingPackStatus_value (mp_status p) @ '')'')))
     (thenS (write_pack i (approved now u)) (get_pack_or_404 t i))))"

text \<open>\<^verbatim>\<open>datetime.now(UTC).isoformat()\<close>: the fraction is left out when it is zero.\<close>

definition isoformat_utc :: "instant \<Rightarrow> string" where
  "isoformat_utc now =
     (let c = now mod day_usec; sec = c div 1000000; us = c mod 1000000 in
      isoformat (local_day (now, 0)) @ ''T'' @ digits 2 (sec div 3600) @ '':'' @ digits 2 (sec div 60 mod 60) @ '':'' @
      digits 2 (sec mod 60) @ (if us = 0 then [] else ''.'' @ digits 6 us) @ ''+00:00'')"

definition rejected :: "instant \<Rightarrow> user \<Rightarrow> string option \<Rightarrow> publication_pack \<Rightarrow> publication_pack" where
  "rejected now u reason p =
     p\<lparr>mp_metadata_json :=
         (case reason of
            Some (c # cs) \<Rightarrow> AList.update ''rejected_at'' (JStr (isoformat_utc now))
                              (AList.update ''reject_reason'' (JStr (c # cs)) (mp_metadata_json p))
          | _ \<Rightarrow> mp_metadata_json p),
       mp_approval_status := MarketingApprovalStatus_REJECTED, mp_status := MarketingPackStatus_DRAFT,
       mp_approved_at := None, mp_approved_by_user_id := None, mp_updated_by_user_id := us_id u\<rparr>"

definition reject_pack ::
    "instant \<Rightarrow> uuid \<Rightarrow> user \<Rightarrow> uuid \<Rightarrow> string option \<Rightarrow> ('z marketing_db_scheme, publication_pack) svc" where
  "reject_pack now t u i reason =
     bindS (get_pack_or_404 t i) (\<lambda>p.
     thenS (ensure (mp_status p \<in> {MarketingPackStatus_READY_FOR_APPROVAL, MarketingPackStatus_APPROVED})
        (ConflictError (''Pack cannot be rejected from status '' @ MarketingPackStatus_value (mp_status p))))
     (thenS (write_pack i (rejected now u reason)) (get_pack_or_404 t i)))"

end
