(* ===== verification/Marketing_Safety.thy ===== *)
theory Marketing_Safety
  imports Marketing_Preflight
begin

text \<open>
  What a preflight decides, against a reference predicate on the pack, its topic, texts and media; and the
  invariant of the packs: one that is ready for approval or approved has passed a preflight over the
  texts and media it has now.
\<close>

subsection \<open>What a preflight decides\<close>

lemma errors_also_found [simp]: "fst (also_found f g) = fst f @ fst g"
  by (cases f; cases g) auto

lemma errors_all_found: "fst (all_found fs) = concat (map fst fs)"
  by (induction fs) (simp_all add: all_found_def nothing_found_def)

lemma errors_one [simp]:
  "fst (blocker i) = [i]" "fst (warning i) = []" "fst (checked c) = []" "fst nothing_found = []"
  "fst (found_if b f) = (if b then fst f else [])"
  by (simp_all add: blocker_def warning_def checked_def nothing_found_def found_if_def)

text \<open>The pack's own texts and media: every channel has a row, one target has text, the social texts are not
  all too short, every medium is an image of an allowed type.\<close>

definition long_enough :: "publication_text list \<Rightarrow> bool" where
  "long_enough xs \<longleftrightarrow> (\<forall>c \<in> set SOCIAL_CHANNELS. social_length xs c = 0) \<or>
     (\<exists>c \<in> set SOCIAL_CHANNELS. MIN_SOCIAL_TEXT_BLOCKER \<le> social_length xs c)"

definition content_fit :: "MarketingChannel list \<Rightarrow> publication_text list \<Rightarrow> media_asset list \<Rightarrow> bool" where
  "content_fit targets xs ms \<longleftrightarrow> (\<forall>c \<in> set DEFAULT_PACK_CHANNELS. text_by_channel xs c \<noteq> None) \<and>
     (\<exists>c \<in> set targets. has_text xs c) \<and> long_enough xs \<and> (\<forall>m \<in> set ms. mime_ok m)"

definition topic_fit :: "marketing_topic option \<Rightarrow> bool" where
  "topic_fit topic \<longleftrightarrow>
     (case topic of
        None \<Rightarrow> False
      | Some r \<Rightarrow> mt_status r = MarketingTopicStatus_APPROVED \<and>
          (\<exists>key \<in> {''audience'', ''pain'', ''cta''}. filled (extract_editorial_fields (mt_metadata_json r) key)))"

definition pack_fit ::
    "publication_pack \<Rightarrow> marketing_topic option \<Rightarrow> publication_text list \<Rightarrow> media_asset list \<Rightarrow>
     MarketingChannel list \<Rightarrow> bool" where
  "pack_fit p topic xs ms targets \<longleftrightarrow> mp_title p \<noteq> [] \<and> mp_slug p \<noteq> [] \<and>
     mp_topic_id p \<noteq> None \<and> topic_fit topic \<and> content_fit targets xs ms"

lemma row_errors: "fst (row_exists_rule xs c) = [] \<longleftrightarrow> text_by_channel xs c \<noteq> None"
  by (simp add: row_exists_rule_def Let_def)

lemma present_errors [simp]: "fst (text_present_rule xs c) = []"
  by (simp add: text_present_rule_def Let_def)

lemma social_errors [simp]: "fst (social_length_rule xs c) = []"
  by (simp add: social_length_rule_def Let_def)

lemma media_errors: "fst (media_rule m) = [] \<longleftrightarrow> mime_ok m"
  by (simp add: media_rule_def errors_all_found)

lemma publishable_errors: "fst (publishable_rule xs targets) = [] \<longleftrightarrow> (\<exists>c \<in> set targets. has_text xs c)"
  by (simp add: publishable_rule_def list_ex_iff)

lemma short_errors: "fst (fst (build_social_channel_checks xs)) = [] \<longleftrightarrow> long_enough xs"
  by (auto simp: build_social_channel_checks_def errors_all_found all_texts_short_def long_enough_def Let_def
      list_all_iff filter_empty_conv not_less SOCIAL_CHANNELS_def MIN_SOCIAL_TEXT_BLOCKER_def)

lemma topic_errors:
  "fst (fst (append_topic_context_rules i topic)) = [] \<and> fst (topic_approval_rule i topic) = [] \<longleftrightarrow>
     i \<noteq> None \<and> topic_fit topic"
  by (auto simp: append_topic_context_rules_def topic_approval_rule_def topic_fit_def errors_all_found
      context_triple_def cta_for_funnel_def expect_filled_def Let_def split: option.splits if_splits)

lemma preflight_errors:
  "fst (preflight_findings p topic xs ms targets) = [] \<longleftrightarrow> pack_fit p topic xs ms targets"
proof -
  have "fst (preflight_findings p topic xs ms targets) = [] \<longleftrightarrow>
      fst (metadata_rule p) = [] \<and> (\<forall>c \<in> set DEFAULT_PACK_CHANNELS. fst (row_exists_rule xs c) = []) \<and>
      fst (publishable_rule xs targets) = [] \<and>
      (fst (fst (append_topic_context_rules (mp_topic_id p) topic)) = [] \<and> fst (topic_approval_rule (mp_topic_id p) topic) = []) \<and>
      fst (fst (build_social_channel_checks xs)) = [] \<and> (\<forall>m \<in> set ms. fst (media_rule m) = [])"
    unfolding preflight_findings_def
    by (auto simp: errors_all_found insights_rule_def build_media_checks_def)
  also have "\<dots> \<longleftrightarrow> pack_fit p topic xs ms targets"
    unfolding row_errors publishable_errors topic_errors short_errors media_errors pack_fit_def content_fit_def
    by (auto simp: metadata_rule_def Let_def)
  finally show ?thesis .
qed

lemma report_passed: "rp_passed (preflight_report_of now p topic xs ms targets) \<longleftrightarrow> pack_fit p topic xs ms targets"
  by (simp add: preflight_report_of_def case_prod_beta preflight_errors)

subsection \<open>The invariant of the packs\<close>

definition texts_of :: "publication_text list \<Rightarrow> publication_pack \<Rightarrow> publication_text list" where
  "texts_of xs p = filter (\<lambda>x. mx_tenant_id x = mp_tenant_id p \<and> mx_pack_id x = mp_id p) xs"

definition live_media_of :: "media_asset list \<Rightarrow> publication_pack \<Rightarrow> media_asset list" where
  "live_media_of ms p = filter (\<lambda>m. mm_tenant_id m = mp_tenant_id p \<and> mm_pack_id m = Some (mp_id p) \<and>
     mm_status m \<noteq> MarketingMediaAssetStatus_ARCHIVED) ms"

definition passing_report :: "publication_pack \<Rightarrow> bool" where
  "passing_report p = (case mp_preflight_report p of None \<Rightarrow> False | Some rep \<Rightarrow> rp_passed rep)"

definition pack_ok :: "publication_text list \<Rightarrow> media_asset list \<Rightarrow> publication_pack \<Rightarrow> bool" where
  "pack_ok xs ms p \<longleftrightarrow>
     mp_status p \<in> {MarketingPackStatus_DRAFT, MarketingPackStatus_PREFLIGHT_FAILED,
       MarketingPackStatus_READY_FOR_APPROVAL, MarketingPackStatus_APPROVED, MarketingPackStatus_ARCHIVED} \<and>
     (mp_status p \<in> {MarketingPackStatus_READY_FOR_APPROVAL, MarketingPackStatus_APPROVED} \<longrightarrow>
        mp_preflight_status p = MarketingPreflightStatus_PASSED \<and>
        content_fit DEFAULT_PACK_CHANNELS (texts_of xs p) (live_media_of ms p)) \<and>
     (mp_status p = MarketingPackStatus_APPROVED \<longrightarrow>
        mp_approval_status p = MarketingApprovalStatus_APPROVED \<and> mp_approved_by_user_id p \<noteq> None) \<and>
     (mp_preflight_status p = MarketingPreflightStatus_PASSED \<longleftrightarrow> passing_report p)"

lemma pack_ok_same_content:
  "texts_of xs' p = texts_of xs p \<Longrightarrow> live_media_of ms' p = live_media_of ms p \<Longrightarrow> pack_ok xs' ms' p = pack_ok xs ms p"
  by (simp add: pack_ok_def)

definition packs_inv ::
    "uuid \<Rightarrow> publication_pack list \<Rightarrow> publication_text list \<Rightarrow> media_asset list \<Rightarrow> bool" where
  "packs_inv n ps xs ms \<longleftrightarrow>
     distinct (map mp_id ps) \<and> distinct (map mx_id xs) \<and> distinct (map mm_id ms) \<and>
     (\<forall>p \<in> set ps. mp_id p < n \<and> pack_ok xs ms p) \<and> (\<forall>x \<in> set xs. mx_id x < n) \<and> (\<forall>m \<in> set ms. mm_id m < n)"

lemma packs_inv_later: "packs_inv n ps xs ms \<Longrightarrow> n \<le> n' \<Longrightarrow> packs_inv n' ps xs ms"
  unfolding packs_inv_def by (meson less_le_trans)

lemma packs_inv_pack: "packs_inv n ps xs ms \<Longrightarrow> p \<in> set ps \<Longrightarrow> pack_ok xs ms p"
  by (simp add: packs_inv_def)

text \<open>One pack is written and the content of every other pack is what it was.\<close>

lemma packs_inv_update:
  assumes inv: "packs_inv n ps xs ms" and keep: "\<And>p. mp_id (f p) = mp_id p \<and> mp_tenant_id (f p) = mp_tenant_id p"
    and ids: "distinct (map mx_id xs')" "distinct (map mm_id ms')" "\<forall>x \<in> set xs'. mx_id x < n'"
      "\<forall>m \<in> set ms'. mm_id m < n'" "n \<le> n'"
    and other: "\<And>p. p \<in> set ps \<Longrightarrow> mp_id p \<noteq> i \<Longrightarrow> texts_of xs' p = texts_of xs p \<and> live_media_of ms' p = live_media_of ms p"
    and new: "\<And>p. p \<in> set ps \<Longrightarrow> mp_id p = i \<Longrightarrow> pack_ok xs ms p \<Longrightarrow> pack_ok xs' ms' (f p)"
  shows "packs_inv n' (row_update mp_id i f ps) xs' ms'"
proof -
  have "distinct (map mp_id (row_update mp_id i f ps))"
    using inv by (simp add: packs_inv_def map_key_row_update keep)
  moreover have "mp_id q < n' \<and> pack_ok xs' ms' q" if q: "q \<in> set (row_update mp_id i f ps)" for q
  proof -
    obtain p where p: "p \<in> set ps" "if mp_id p = i then q = f p else q = p"
      using q unfolding in_row_update by blast
    have old: "pack_ok xs ms p" "mp_id p < n" using inv p(1) by (simp_all add: packs_inv_def)
    show ?thesis
    proof (cases "mp_id p = i")
      case True
      then show ?thesis using p(2) new[OF p(1) True old(1)] old(2) keep[of p] ids(5) by simp
    next
      case False
      then show ?thesis using p(2) other[OF p(1) False] old ids(5) pack_ok_same_content[of xs' p xs ms' ms] by simp
    qed
  qed
  ultimately show ?thesis using ids by (simp add: packs_inv_def)
qed

lemma packs_inv_write:
  assumes "packs_inv n ps xs ms" and "\<And>p. mp_id (f p) = mp_id p \<and> mp_tenant_id (f p) = mp_tenant_id p"
    and "\<And>p. p \<in> set ps \<Longrightarrow> mp_id p = i \<Longrightarrow> pack_ok xs ms p \<Longrightarrow> pack_ok xs ms (f p)"
  shows "packs_inv n (row_update mp_id i f ps) xs ms"
  by (rule packs_inv_update[OF assms(1,2)]) (use assms(1,3) in \<open>auto simp: packs_inv_def\<close>)

lemma reset_same: "mp_id (reset_pack_after_content_change u p) = mp_id p \<and>
    mp_tenant_id (reset_pack_after_content_change u p) = mp_tenant_id p"
  by (simp add: reset_pack_after_content_change_def)

lemma reset_untouched: "untouched_draft (reset_pack_after_content_change u p)"
  by (simp add: reset_pack_after_content_change_def untouched_draft_def)

lemma pack_ok_reset: "pack_ok xs ms p \<Longrightarrow> pack_ok xs' ms' (reset_pack_after_content_change u p)"
  by (auto simp: pack_ok_def reset_pack_after_content_change_def untouched_draft_def passing_report_def)

lemma packs_inv_new_pack:
  assumes "packs_inv n ps xs ms" "mp_id p = n" "untouched_draft p" "mp_preflight_report p = None"
  shows "packs_inv (Suc n) (row_insert p ps) xs ms"
proof -
  have "pack_ok xs ms p" using assms(3,4) by (simp add: pack_ok_def untouched_draft_def passing_report_def)
  moreover have "n \<notin> mp_id ` set ps" using assms(1) by (auto simp: packs_inv_def)
  ultimately show ?thesis using packs_inv_later[OF assms(1), of "Suc n"] assms(2)
    by (auto simp: packs_inv_def row_insert_def)
qed

text \<open>A text for a pack that is still a draft.\<close>

definition draft_of :: "uuid \<Rightarrow> publication_pack list \<Rightarrow> bool" where
  "draft_of i ps \<longleftrightarrow> (\<forall>p \<in> set ps. mp_id p = i \<longrightarrow> mp_status p = MarketingPackStatus_DRAFT)"

lemma packs_inv_new_text:
  assumes inv: "packs_inv n ps xs ms" and "mx_id x = n" and draft: "draft_of (mx_pack_id x) ps"
  shows "packs_inv (Suc n) ps (row_insert x xs) ms"
proof -
  have "pack_ok (row_insert x xs) ms p" if p: "p \<in> set ps" for p
  proof (cases "mp_id p = mx_pack_id x")
    case True
    then show ?thesis using draft p packs_inv_pack[OF inv p] by (auto simp: draft_of_def pack_ok_def)
  next
    case False
    then have "texts_of (row_insert x xs) p = texts_of xs p" by (simp add: texts_of_def row_insert_def)
    then show ?thesis using packs_inv_pack[OF inv p] pack_ok_same_content by blast
  qed
  moreover have "n \<notin> mx_id ` set xs" using inv by (auto simp: packs_inv_def)
  ultimately show ?thesis using packs_inv_later[OF inv, of "Suc n"] assms(2)
    by (auto simp: packs_inv_def row_insert_def)
qed

subsection \<open>Outcomes of the operations on packs\<close>

definition packs_ok :: "'z marketing_db_scheme \<Rightarrow> bool" where
  "packs_ok s \<longleftrightarrow> packs_inv (next_id s) (mk_packs s) (mk_texts s) (mk_media s)"

lemma get_pack_Some: "get_pack t i s = Some p \<Longrightarrow> p \<in> set (mk_packs s) \<and> mp_tenant_id p = t \<and> mp_id p = i"
  unfolding get_pack_def by (rule scoped_get_Some)

lemma get_media_Some: "get_media_asset t k s = Some m \<Longrightarrow> m \<in> set (mk_media s) \<and> mm_tenant_id m = t \<and> mm_id m = k"
  unfolding get_media_asset_def by (rule scoped_get_Some)

lemma get_pack_or_404_ok [svc_ok]:
  "get_pack_or_404 t i s = (Inr p, s') \<longleftrightarrow> get_pack t i s = Some p \<and> s' = s"
  by (auto simp: get_pack_or_404_def svc_ok)

lemma get_topic_or_404_ok [svc_ok]:
  "get_topic_or_404 t i s = (Inr r, s') \<longleftrightarrow> get_topic t i s = Some r \<and> s' = s"
  by (auto simp: get_topic_or_404_def svc_ok)

lemma get_asset_or_404_ok [svc_ok]:
  "get_asset_or_404 t i s = (Inr m, s') \<longleftrightarrow> get_media_asset t i s = Some m \<and> s' = s"
  by (auto simp: get_asset_or_404_def svc_ok)

lemma same_pack: "packs_ok s \<Longrightarrow> get_pack t i s = Some p \<Longrightarrow> q \<in> set (mk_packs s) \<Longrightarrow> mp_id q = i \<Longrightarrow> q = p"
  using get_pack_Some[of t i s p] by (auto simp: packs_ok_def packs_inv_def dest: distinct_keys_eq)

lemma packs_ok_write:
  assumes "packs_ok s" and "\<And>p. mp_id (f p) = mp_id p \<and> mp_tenant_id (f p) = mp_tenant_id p"
    and "\<And>p. p \<in> set (mk_packs s) \<Longrightarrow> mp_id p = i \<Longrightarrow> pack_ok (mk_texts s) (mk_media s) p \<Longrightarrow>
      pack_ok (mk_texts s) (mk_media s) (f p)"
  shows "packs_ok (s\<lparr>mk_packs := row_update mp_id i f (mk_packs s)\<rparr>)"
  using packs_inv_write[of "next_id s" "mk_packs s" "mk_texts s" "mk_media s" f i] assms by (simp add: packs_ok_def)

text \<open>Writes that leave the states of preflight and approval alone, or close the pack.\<close>

definition same_states :: "publication_pack \<Rightarrow> publication_pack \<Rightarrow> bool" where
  "same_states p q \<longleftrightarrow> mp_id q = mp_id p \<and> mp_tenant_id q = mp_tenant_id p \<and>
     (mp_status q = mp_status p \<or> mp_status q \<in> set PATCHABLE_STATUSES) \<and>
     mp_preflight_status q = mp_preflight_status p \<and> mp_preflight_report q = mp_preflight_report p \<and>
     mp_approval_status q = mp_approval_status p \<and> mp_approved_by_user_id q = mp_approved_by_user_id p"

lemma pack_ok_same_states: "same_states p q \<Longrightarrow> pack_ok xs ms p \<Longrightarrow> pack_ok xs ms q"
proof -
  assume same: "same_states p q" and ok: "pack_ok xs ms p"
  have "texts_of xs q = texts_of xs p" "live_media_of ms q = live_media_of ms p" "passing_report q = passing_report p"
    using same by (simp_all add: same_states_def texts_of_def live_media_of_def passing_report_def)
  then show ?thesis
    using same ok by (cases "mp_status q = mp_status p")
      (simp_all add: pack_ok_def same_states_def PATCHABLE_STATUSES_def, auto)
qed

lemma preserves_packs_write: "(\<And>p. same_states p (f p)) \<Longrightarrow> preserves packs_ok (write_pack i f)"
proof -
  assume same: "\<And>p. same_states p (f p)"
  show ?thesis
    unfolding preserves_def write_pack_def modify_def snd_conv
    by (intro allI impI, rule packs_ok_write)
      (use same in \<open>simp_all add: same_states_def pack_ok_same_states[OF same]\<close>)
qed

lemma preserves_packs_lookup:
  "preserves packs_ok (get_pack_or_404 t i)" "preserves packs_ok (get_topic_or_404 t k)"
  "preserves packs_ok (get_asset_or_404 t j)"
  unfolding get_pack_or_404_def get_topic_or_404_def get_asset_or_404_def by (auto intro!: preserves_bindS)

lemma preserves_packs_status: "preserves packs_ok (apply_safe_status_change p st)"
proof (cases "st \<in> set PATCHABLE_STATUSES")
  case True
  have "preserves packs_ok (write_pack (mp_id p) (\<lambda>r. r\<lparr>mp_status := st\<rparr>))"
    by (rule preserves_packs_write) (simp add: same_states_def True)
  then show ?thesis unfolding apply_safe_status_change_def by (intro preserves_thenS preserves_ensure)
next
  case False
  then show ?thesis
    by (simp add: apply_safe_status_change_def preserves_def thenS_def bindS_def ensure_def raise_def ret_def)
qed

lemma preserves_packs_update: "preserves packs_ok (update_pack t u i payload)"
  unfolding update_pack_def
  by (intro preserves_bindS preserves_thenS preserves_packs_lookup preserves_packs_write)
    (auto intro!: preserves_bindS preserves_packs_write preserves_packs_lookup preserves_packs_status
      simp: same_states_def split: option.splits)

lemma run_preflight_ok:
  assumes "run_preflight now t u i channels s = (Inr rep, s')"
  shows "\<exists>p. get_pack t i s = Some p \<and> s' = s\<lparr>mk_packs := row_update mp_id i (preflighted u rep) (mk_packs s)\<rparr> \<and>
    mp_status p \<notin> set PREFLIGHT_FORBIDDEN_STATUSES \<and>
    rep = preflight_report_of now p (pack_topic p s) (list_pack_texts t i s) (list_pack_media t i False s)
            (target_channels channels)"
  using assms unfolding run_preflight_def assert_preflight_allowed_def
  by (auto simp: svc_ok write_pack_def PREFLIGHT_ALLOWED_STATUSES_def PREFLIGHT_FORBIDDEN_STATUSES_def split: if_splits)

lemma content_fit_targets: "content_fit targets xs ms \<Longrightarrow> content_fit DEFAULT_PACK_CHANNELS xs ms"
proof -
  have "c \<in> set DEFAULT_PACK_CHANNELS" for c by (cases c) (simp_all add: DEFAULT_PACK_CHANNELS_def)
  then show "content_fit targets xs ms \<Longrightarrow> content_fit DEFAULT_PACK_CHANNELS xs ms" by (auto simp: content_fit_def)
qed

lemma packs_ok_preflight:
  assumes ok: "packs_ok s" and run: "run_preflight now t u i channels s = (Inr rep, s')"
  shows "packs_ok s'"
proof -
  obtain p where p: "get_pack t i s = Some p" "s' = s\<lparr>mk_packs := row_update mp_id i (preflighted u rep) (mk_packs s)\<rparr>"
    "rep = preflight_report_of now p (pack_topic p s) (list_pack_texts t i s) (list_pack_media t i False s)
            (target_channels channels)"
    using run_preflight_ok[OF run] by blast
  have id: "mp_id p = i" "mp_tenant_id p = t" using get_pack_Some[OF p(1)] by simp_all
  have "list_pack_texts t i s = texts_of (mk_texts s) p" "list_pack_media t i False s = live_media_of (mk_media s) p"
    using id by (auto simp: list_pack_texts_def texts_of_def list_pack_media_def live_media_of_def)
  then have fit: "content_fit DEFAULT_PACK_CHANNELS (texts_of (mk_texts s) p) (live_media_of (mk_media s) p)"
    if "rp_passed rep"
    using that report_passed content_fit_targets unfolding p(3) pack_fit_def by metis
  have "pack_ok (mk_texts s) (mk_media s) (preflighted u rep q)"
    if "q \<in> set (mk_packs s)" "mp_id q = i" "pack_ok (mk_texts s) (mk_media s) q" for q
  proof -
    have "q = p" using same_pack[OF ok p(1) that(1,2)] .
    then show ?thesis using fit
      by (simp add: pack_ok_def preflighted_def passing_report_def texts_of_def live_media_of_def)
  qed
  then show ?thesis unfolding p(2) by (intro packs_ok_write[OF ok]) (simp_all add: preflighted_def)
qed

lemma packs_ok_approve:
  assumes ok: "packs_ok s" and run: "approve_pack now t u i s = (Inr r, s')"
  shows "packs_ok s'"
proof -
  obtain p where p: "get_pack t i s = Some p" "mp_status p = MarketingPackStatus_READY_FOR_APPROVAL"
    "s' = s\<lparr>mk_packs := row_update mp_id i (approved now u) (mk_packs s)\<rparr>"
    using run unfolding approve_pack_def by (auto simp: svc_ok write_pack_def)
  have "pack_ok (mk_texts s) (mk_media s) (approved now u q)"
    if "q \<in> set (mk_packs s)" "mp_id q = i" "pack_ok (mk_texts s) (mk_media s) q" for q
    using same_pack[OF ok p(1) that(1,2)] that(3) p(2)
    by (auto simp: pack_ok_def approved_def passing_report_def texts_of_def live_media_of_def)
  then show ?thesis unfolding p(3) by (intro packs_ok_write[OF ok]) (simp_all add: approved_def)
qed

lemma packs_ok_reject:
  assumes ok: "packs_ok s" and run: "reject_pack now t u i reason s = (Inr r, s')"
  shows "packs_ok s'"
proof -
  have s': "s' = s\<lparr>mk_packs := row_update mp_id i (rejected now u reason) (mk_packs s)\<rparr>"
    using run unfolding reject_pack_def by (auto simp: svc_ok write_pack_def)
  show ?thesis unfolding s'
    by (intro packs_ok_write[OF ok])
      (simp_all add: rejected_def pack_ok_def passing_report_def texts_of_def live_media_of_def)
qed

text \<open>A change of the content of one pack, followed by the reset.\<close>

lemma packs_ok_content:
  assumes ok: "packs_ok s"
    and packs: "mk_packs s' = row_update mp_id i (reset_pack_after_content_change u) (mk_packs s)"
    and ids: "distinct (map mx_id (mk_texts s'))" "distinct (map mm_id (mk_media s'))"
      "\<forall>x \<in> set (mk_texts s'). mx_id x < next_id s'" "\<forall>m \<in> set (mk_media s'). mm_id m < next_id s'" "next_id s \<le> next_id s'"
    and other: "\<And>p. mp_id p \<noteq> i \<Longrightarrow> texts_of (mk_texts s') p = texts_of (mk_texts s) p \<and>
      live_media_of (mk_media s') p = live_media_of (mk_media s) p"
  shows "packs_ok s'"
  unfolding packs_ok_def packs
  by (rule packs_inv_update[OF ok[unfolded packs_ok_def] reset_same ids]) (use other pack_ok_reset in blast)+

lemma row_update_id: "row_update key k id rows = rows"
  by (induction rows) simp_all

lemma key_bound_row_update:
  "(\<And>r. key (f r) = key r) \<Longrightarrow> (\<forall>x \<in> set (row_update key k f rows). key x < n) \<longleftrightarrow> (\<forall>x \<in> set rows. key x < n)"
  by (induction rows) auto

lemma filter_row_update_other:
  "(\<And>r. r \<in> set rows \<Longrightarrow> key r = k \<Longrightarrow> \<not> P r \<and> \<not> P (f r)) \<Longrightarrow> filter P (row_update key k f rows) = filter P rows"
  by (induction rows) auto

lemma packs_ok_upsert_text:
  assumes ok: "packs_ok s" and run: "upsert_pack_text t u i channel payload s = (Inr r, s')"
  shows "packs_ok s'"
proof -
  obtain s1 where s1: "upsert_text_row t u i channel payload s = (Inr (), s1)"
    and s': "s' = s1\<lparr>mk_packs := row_update mp_id i (reset_pack_after_content_change (us_id u)) (mk_packs s1)\<rparr>"
    using run unfolding upsert_pack_text_def reset_pack_def by (auto simp: svc_ok write_pack_def)
  have inv: "packs_inv (next_id s) (mk_packs s) (mk_texts s) (mk_media s)" using ok by (simp add: packs_ok_def)
  show ?thesis
  proof (cases "get_pack_text t i channel s")
    case None
    then obtain st where s1': "s1 = s\<lparr>next_id := Suc (next_id s),
        mk_texts := row_insert (new_text (next_id s) t u i channel st (tu_text payload)) (mk_texts s)\<rparr>"
      using s1 by (auto simp: upsert_text_row_def svc_ok insert_text_def)
    show ?thesis
      by (rule packs_ok_content[OF ok, of _ i "us_id u"])
        (use inv in \<open>auto simp: s' s1' new_text_def packs_inv_def row_insert_def texts_of_def live_media_of_def\<close>)
  next
    case (Some y)
    then have y: "y \<in> set (mk_texts s)" "mx_pack_id y = i"
      unfolding get_pack_text_def by (auto dest: row_find_Some)
    obtain st where s1': "s1 = s\<lparr>mk_texts := row_update mx_id (mx_id y) (rewritten_text u st (tu_text payload)) (mk_texts s)\<rparr>"
      using s1 Some by (auto simp: upsert_text_row_def svc_ok write_text_def)
    have same: "r = y" if "r \<in> set (mk_texts s)" "mx_id r = mx_id y" for r
      using inv y(1) that by (auto simp: packs_inv_def dest: distinct_keys_eq)
    have "texts_of (mk_texts s1) p = texts_of (mk_texts s) p" if "mp_id p \<noteq> i" for p
      unfolding texts_of_def s1' using that y(2)
      by (simp, intro filter_row_update_other) (drule (1) same, simp add: rewritten_text_def)
    then show ?thesis
      by (intro packs_ok_content[OF ok, of _ i "us_id u"])
        (use inv in \<open>auto simp: s' s1' packs_inv_def rewritten_text_def map_key_row_update key_bound_row_update\<close>)
  qed
qed


text \<open>An asset keeps its pack; the pack's own media change, the media of other packs do not.\<close>

lemma packs_ok_media:
  fixes s :: "'z marketing_db_scheme"
  assumes ok: "packs_ok s" and m: "get_media_asset t k s = Some m"
    and f: "\<And>r. mm_id (f r) = mm_id r \<and> mm_pack_id (f r) = mm_pack_id r"
    and run: "reset_pack_of_asset t u m (s\<lparr>mk_media := row_update mm_id k f (mk_media s)\<rparr>) = (Inr x, s')"
  shows "packs_ok s'"
proof -
  define s1 where "s1 = s\<lparr>mk_media := row_update mm_id k f (mk_media s)\<rparr>"
  have inv: "packs_inv (next_id s) (mk_packs s) (mk_texts s) (mk_media s)" using ok by (simp add: packs_ok_def)
  have same: "r = m" if "r \<in> set (mk_media s)" "mm_id r = k" for r
    using inv get_media_Some[OF m] that by (auto simp: packs_inv_def dest: distinct_keys_eq)
  have keep: "live_media_of (mk_media s1) p = live_media_of (mk_media s) p" if "mm_pack_id m \<noteq> Some (mp_id p)" for p
    unfolding live_media_of_def s1_def using that f
    by (simp, intro filter_row_update_other) (drule (1) same, simp)
  show ?thesis
  proof (cases "mm_pack_id m")
    case None
    then have s': "s' = s1" using run by (simp add: reset_pack_of_asset_def svc_ok s1_def)
    have "packs_inv (next_id s) (row_update mp_id 0 id (mk_packs s)) (mk_texts s1) (mk_media s1)"
      by (rule packs_inv_update[OF inv])
        (use inv keep None f pack_ok_same_content[of "mk_texts s" _ "mk_texts s" "mk_media s1" "mk_media s"] in
          \<open>auto simp: packs_inv_def s1_def map_key_row_update key_bound_row_update\<close>)
    then show ?thesis by (simp add: packs_ok_def s' s1_def row_update_id)
  next
    case (Some i)
    then have s': "s' = s1\<lparr>mk_packs := row_update mp_id i (reset_pack_after_content_change (us_id u)) (mk_packs s1)\<rparr>"
      using run by (auto simp: reset_pack_of_asset_def reset_pack_def write_pack_def svc_ok s1_def)
    show ?thesis
      by (rule packs_ok_content[OF ok, of _ i "us_id u"])
        (use inv keep Some f in \<open>auto simp: s' s1_def packs_inv_def map_key_row_update key_bound_row_update\<close>)
  qed
qed

lemma packs_ok_update_media:
  assumes ok: "packs_ok s" and run: "update_media t u k payload s = (Inr r, s')"
  shows "packs_ok s'"
proof -
  obtain m mime where m: "get_media_asset t k s = Some m"
    and reset: "reset_pack_of_asset t u m (s\<lparr>mk_media := row_update mm_id k (apply_media_update u mime payload) (mk_media s)\<rparr>) = (Inr (), s')"
    using run unfolding update_media_def validate_mime_def Let_def
    by (auto simp: svc_ok write_media_def split: option.splits)
  show ?thesis by (rule packs_ok_media[OF ok m _ reset]) (simp add: apply_media_update_def)
qed

lemma packs_ok_archive_media:
  assumes ok: "packs_ok s" and run: "archive_media t u k s = (Inr r, s')"
  shows "packs_ok s'"
proof -
  obtain m where m: "get_media_asset t k s = Some m"
    and reset: "reset_pack_of_asset t u m (s\<lparr>mk_media := row_update mm_id k (\<lambda>r. r\<lparr>mm_status := MarketingMediaAssetStatus_ARCHIVED,
      mm_updated_by_user_id := us_id u\<rparr>) (mk_media s)\<rparr>) = (Inr (), s')"
    using run unfolding archive_media_def by (auto simp: svc_ok write_media_def)
  show ?thesis by (rule packs_ok_media[OF ok m _ reset]) simp
qed

lemma packs_ok_attach_media:
  assumes ok: "packs_ok s" and run: "attach_media t u i payload s = (Inr r, s')"
  shows "packs_ok s'"
proof -
  have inv: "packs_inv (next_id s) (mk_packs s) (mk_texts s) (mk_media s)" using ok by (simp add: packs_ok_def)
  obtain mime where s': "s' = s\<lparr>next_id := Suc (next_id s),
      mk_media := row_insert (new_media (next_id s) t u i mime payload) (mk_media s),
      mk_packs := row_update mp_id i (reset_pack_after_content_change (us_id u)) (mk_packs s)\<rparr>"
    using run unfolding attach_media_def validate_mime_def Let_def
    by (auto simp: svc_ok create_media_asset_def reset_pack_def write_pack_def)
  show ?thesis
    by (rule packs_ok_content[OF ok, of _ i "us_id u"])
      (use inv in \<open>auto simp: s' new_media_def packs_inv_def row_insert_def live_media_of_def\<close>)
qed

lemma packs_ok_stubs:
  "packs_ok s \<Longrightarrow> draft_of i (mk_packs s) \<Longrightarrow> for_each cs (create_stub_text t u i) s = (Inr (), s') \<Longrightarrow> packs_ok s'"
proof (induction cs arbitrary: s)
  case Nil
  then show ?case by (simp add: svc_ok)
next
  case (Cons c cs)
  obtain s1 where s1: "create_stub_text t u i c s = (Inr (), s1)" and rest: "for_each cs (create_stub_text t u i) s1 = (Inr (), s')"
    using Cons.prems(3) by (auto simp: svc_ok)
  have "packs_ok s1" "mk_packs s1 = mk_packs s"
    using s1 packs_inv_new_text[OF Cons.prems(1)[unfolded packs_ok_def]] Cons.prems(2)
    by (auto simp: create_stub_text_def insert_text_def svc_ok packs_ok_def)
  then show ?case using Cons.IH Cons.prems(2) rest by simp
qed

lemma packs_ok_draft:
  assumes ok: "packs_ok s" and run: "create_draft_pack_with_texts t u d s = (Inr r, s')"
  shows "packs_ok s'"
proof -
  define p where "p = draft_pack (next_id s) t u d"
  define s1 where "s1 = s\<lparr>next_id := Suc (next_id s), mk_packs := row_insert p (mk_packs s)\<rparr>"
  have stubs: "for_each (resolve_pack_channels (pd_topic d)) (create_stub_text t u (next_id s)) s1 = (Inr (), s')"
    using run by (auto simp: create_draft_pack_with_texts_def insert_pack_def svc_ok s1_def p_def)
  have inv: "packs_inv (next_id s) (mk_packs s) (mk_texts s) (mk_media s)" using ok by (simp add: packs_ok_def)
  have "packs_ok s1"
    using packs_inv_new_pack[OF inv, of p] by (simp add: packs_ok_def s1_def p_def draft_pack_def untouched_draft_def)
  moreover have "draft_of (next_id s) (mk_packs s1)"
    using inv by (auto simp: draft_of_def s1_def row_insert_def p_def draft_pack_def packs_inv_def)
  ultimately show ?thesis using packs_ok_stubs stubs by blast
qed

lemma packs_ok_create_pack:
  "packs_ok s \<Longrightarrow> create_pack today t u payload s = (Inr r, s') \<Longrightarrow> packs_ok s'"
  unfolding create_pack_def by (auto simp: svc_ok split: option.splits intro: packs_ok_draft)

lemma packs_ok_take_topic:
  "packs_ok s \<Longrightarrow> take_topic today t u i payload s = (Inr r, s') \<Longrightarrow> packs_ok s'"
  unfolding take_topic_def assert_take_allowed_def by (auto simp: svc_ok intro: packs_ok_draft)

lemma preserves_packs_fresh: "preserves packs_ok fresh_id"
  by (auto simp: preserves_def fresh_id_def packs_ok_def intro: packs_inv_later)

lemma preserves_packs_historical: "preserves packs_ok (record_historical now t u i payload)"
proof -
  have "preserves packs_ok (create_publish_log l)" for l
    by (simp add: preserves_def create_publish_log_def modify_def packs_ok_def)
  then have "preserves packs_ok (record_channels now t u i published payload cs)" for published cs
    by (induction cs)
      (auto intro!: preserves_bindS preserves_thenS preserves_packs_fresh simp: record_channel_def split: option.split)
  then show ?thesis
    unfolding record_historical_def
    by (intro preserves_bindS preserves_thenS preserves_packs_lookup preserves_whenS preserves_packs_write
        preserves_gets preserves_ensure preserves_ret) (simp_all add: same_states_def)
qed

end
