(* ===== verification/Marketing_Plans.thy ===== *)
theory Marketing_Plans
  imports Marketing_Topics
begin

text \<open>
  \<^verbatim>\<open>marketing/service/content_plans.py\<close> with the plan queries of the repository: a plan over a period, its
  items, the approval of both and the topic made from an approved item.
\<close>

subsection \<open>Queries and writes\<close>

definition list_content_plans ::
    "uuid \<Rightarrow> MarketingContentPlanStatus option \<Rightarrow> nat \<Rightarrow> nat \<Rightarrow> 'z marketing_db_scheme \<Rightarrow> content_plan list" where
  "list_content_plans t status skip limit s =
     take limit (drop skip (sort_key (\<lambda>p. - cp_period_start p) (rev (filter (\<lambda>p. cp_tenant_id p = t \<and>
       (status \<noteq> None \<longrightarrow> status = Some (cp_status p))) (mk_plans s)))))"

definition get_content_plan :: "uuid \<Rightarrow> uuid \<Rightarrow> 'z marketing_db_scheme \<Rightarrow> content_plan option" where
  "get_content_plan t i s = scoped_get cp_tenant_id cp_id t i (mk_plans s)"

definition get_content_plan_by_fingerprint :: "uuid \<Rightarrow> string \<Rightarrow> 'z marketing_db_scheme \<Rightarrow> content_plan option" where
  "get_content_plan_by_fingerprint t f s =
     row_find (\<lambda>p. cp_tenant_id p = t \<and> cp_import_fingerprint p = Some f) (mk_plans s)"

text \<open>
  The key \<^verbatim>\<open>uq_marketing_content_plans_tenant_fingerprint\<close> and the check
  \<^verbatim>\<open>ck_marketing_content_plans_period\<close>.
\<close>

definition insert_plan :: "content_plan \<Rightarrow> ('z marketing_db_scheme, unit) svc" where
  "insert_plan p =
     bindS (gets (\<lambda>s. case cp_import_fingerprint p of
         None \<Rightarrow> None | Some f \<Rightarrow> get_content_plan_by_fingerprint (cp_tenant_id p) f s)) (\<lambda>existing.
     thenS (ensure (existing = None) (IntegrityError ''uq_marketing_content_plans_tenant_fingerprint''))
     (thenS (ensure (cp_period_start p \<le> cp_period_end p) (IntegrityError ''ck_marketing_content_plans_period''))
     (modify (\<lambda>s. s\<lparr>mk_plans := row_insert p (mk_plans s)\<rparr>))))"

definition write_plan :: "uuid \<Rightarrow> (content_plan \<Rightarrow> content_plan) \<Rightarrow> ('z marketing_db_scheme, unit) svc" where
  "write_plan i f = modify (\<lambda>s. s\<lparr>mk_plans := row_update cp_id i f (mk_plans s)\<rparr>)"

text \<open>In the order of the date, then of the position; items of one call keep the order they were made in.\<close>

definition list_content_plan_items :: "uuid \<Rightarrow> uuid \<Rightarrow> 'z marketing_db_scheme \<Rightarrow> plan_item list" where
  "list_content_plan_items t i s =
     sort_key pi_planned_date (sort_key pi_sort_order
       (filter (\<lambda>x. pi_tenant_id x = t \<and> pi_plan_id x = i) (mk_plan_items s)))"

definition get_content_plan_item :: "uuid \<Rightarrow> uuid \<Rightarrow> uuid \<Rightarrow> 'z marketing_db_scheme \<Rightarrow> plan_item option" where
  "get_content_plan_item t i k s =
     row_find (\<lambda>x. pi_tenant_id x = t \<and> pi_plan_id x = i \<and> pi_id x = k) (mk_plan_items s)"

definition get_content_plan_item_by_line_key ::
    "uuid \<Rightarrow> uuid \<Rightarrow> string \<Rightarrow> 'z marketing_db_scheme \<Rightarrow> plan_item option" where
  "get_content_plan_item_by_line_key t i key s =
     row_find (\<lambda>x. pi_tenant_id x = t \<and> pi_plan_id x = i \<and> pi_external_line_key x = Some key) (mk_plan_items s)"

definition insert_plan_item :: "plan_item \<Rightarrow> ('z marketing_db_scheme, unit) svc" where
  "insert_plan_item x =
     bindS (gets (\<lambda>s. case pi_external_line_key x of
         None \<Rightarrow> None
       | Some key \<Rightarrow> get_content_plan_item_by_line_key (pi_tenant_id x) (pi_plan_id x) key s)) (\<lambda>existing.
     thenS (ensure (existing = None) (IntegrityError ''uq_marketing_content_plan_items_line_key''))
     (thenS (ensure (0 \<le> pi_sort_order x) (IntegrityError ''ck_marketing_content_plan_items_sort_order''))
     (modify (\<lambda>s. s\<lparr>mk_plan_items := row_insert x (mk_plan_items s)\<rparr>))))"

definition write_plan_item :: "uuid \<Rightarrow> (plan_item \<Rightarrow> plan_item) \<Rightarrow> ('z marketing_db_scheme, unit) svc" where
  "write_plan_item k f = modify (\<lambda>s. s\<lparr>mk_plan_items := row_update pi_id k f (mk_plan_items s)\<rparr>)"

definition get_plan_or_404 :: "uuid \<Rightarrow> uuid \<Rightarrow> ('z marketing_db_scheme, content_plan) svc" where
  "get_plan_or_404 t i =
     bindS (gets (get_content_plan t i)) (\<lambda>p. or_raise p (NotFoundError ''marketing_content_plan_not_found''))"

definition get_item_or_404 :: "uuid \<Rightarrow> uuid \<Rightarrow> uuid \<Rightarrow> ('z marketing_db_scheme, plan_item) svc" where
  "get_item_or_404 t i k =
     bindS (gets (get_content_plan_item t i k)) (\<lambda>x. or_raise x (NotFoundError ''marketing_content_plan_item_not_found''))"

subsection \<open>Guards\<close>

definition assert_metadata_safe :: "dict \<Rightarrow> ('z marketing_db_scheme, unit) svc" where
  "assert_metadata_safe d = ensure (\<not> secretish (JObj d)) (ConflictError ''metadata_json_forbidden_key'')"

definition assert_period :: "day \<Rightarrow> day \<Rightarrow> ('z marketing_db_scheme, unit) svc" where
  "assert_period a b = ensure (\<not> b < a) (ConflictError ''invalid_period'')"

definition assert_date_in_period :: "day \<Rightarrow> day \<Rightarrow> day \<Rightarrow> ('z marketing_db_scheme, unit) svc" where
  "assert_date_in_period d a b = ensure (\<not> (d < a \<or> b < d)) (ConflictError ''planned_date_out_of_period'')"

definition require_draft_plan :: "content_plan \<Rightarrow> ('z marketing_db_scheme, unit) svc" where
  "require_draft_plan p = ensure (cp_status p = MarketingContentPlanStatus_DRAFT) (ConflictError ''plan_not_draft'')"

definition require_active_rubric :: "uuid \<Rightarrow> uuid \<Rightarrow> ('z marketing_db_scheme, unit) svc" where
  "require_active_rubric t i =
     bindS (get_rubric_or_404 t i) (\<lambda>r.
     ensure (mb_status r = MarketingRubricStatus_ACTIVE) (ConflictError ''marketing_rubric_not_selectable''))"

subsection \<open>Plans\<close>

record plan_create =
  pc_title :: string
  pc_period_start :: day
  pc_period_end :: day
  pc_guide_id :: "uuid option"
  pc_metadata_json :: dict

text \<open>The guide a plan follows: the one it names, otherwise the active one.\<close>

definition plan_guide :: "uuid \<Rightarrow> uuid option \<Rightarrow> ('z marketing_db_scheme, marketing_guide option) svc" where
  "plan_guide t guide_id =
     (case guide_id of
        Some g \<Rightarrow> bindS (get_guide_or_404 t g) (\<lambda>x. ret (Some x))
      | None \<Rightarrow> gets (get_active_guide t))"

definition new_plan ::
    "uuid \<Rightarrow> uuid \<Rightarrow> user \<Rightarrow> marketing_guide option \<Rightarrow> plan_create \<Rightarrow> content_plan" where
  "new_plan i t u guide payload =
     \<lparr>cp_id = i, cp_tenant_id = t, cp_title = py_strip (pc_title payload), cp_period_start = pc_period_start payload,
      cp_period_end = pc_period_end payload, cp_status = MarketingContentPlanStatus_DRAFT,
      cp_guide_id = map_option mg_id guide, cp_guide_version = map_option mg_version guide,
      cp_source = MarketingContentPlanSource_MANUAL, cp_import_fingerprint = None,
      cp_metadata_json = pc_metadata_json payload, cp_updated_by_user_id = us_id u\<rparr>"

definition create_plan :: "uuid \<Rightarrow> user \<Rightarrow> plan_create \<Rightarrow> ('z marketing_db_scheme, content_plan) svc" where
  "create_plan t u payload =
     thenS (assert_period (pc_period_start payload) (pc_period_end payload))
     (thenS (assert_metadata_safe (pc_metadata_json payload))
     (bindS (plan_guide t (pc_guide_id payload)) (\<lambda>guide.
      bindS fresh_id (\<lambda>i.
      thenS (insert_plan (new_plan i t u guide payload)) (ret (new_plan i t u guide payload))))))"

record plan_update =
  pv_title :: "string patch"
  pv_period_start :: "day patch"
  pv_period_end :: "day patch"
  pv_guide_id :: "uuid patch"
  pv_metadata_json :: "dict patch"

definition plan_update_guide ::
    "uuid \<Rightarrow> uuid patch \<Rightarrow> content_plan \<Rightarrow> ('z marketing_db_scheme, content_plan) svc" where
  "plan_update_guide t g p =
     (case g of
        Unset \<Rightarrow> ret p
      | Null \<Rightarrow> ret (p\<lparr>cp_guide_id := None, cp_guide_version := None\<rparr>)
      | SetTo i \<Rightarrow> bindS (get_guide_or_404 t i) (\<lambda>x.
          ret (p\<lparr>cp_guide_id := Some (mg_id x), cp_guide_version := Some (mg_version x)\<rparr>)))"

definition items_in_period :: "day \<Rightarrow> day \<Rightarrow> plan_item list \<Rightarrow> ('z marketing_db_scheme, unit) svc" where
  "items_in_period a b items =
     for_each (filter (\<lambda>x. pi_status x \<noteq> MarketingContentPlanItemStatus_CANCELLED) items)
       (\<lambda>x. assert_date_in_period (pi_planned_date x) a b)"

definition update_plan :: "uuid \<Rightarrow> user \<Rightarrow> uuid \<Rightarrow> plan_update \<Rightarrow> ('z marketing_db_scheme, content_plan) svc" where
  "update_plan t u i payload =
     bindS (get_plan_or_404 t i) (\<lambda>p.
     thenS (require_draft_plan p)
     (bindS (ret (patched (pv_period_start payload) (cp_period_start p))) (\<lambda>a.
      bindS (ret (patched (pv_period_end payload) (cp_period_end p))) (\<lambda>b.
      thenS (assert_period a b)
      (bindS (plan_update_guide t (pv_guide_id payload)
                (p\<lparr>cp_title := stripped (pv_title payload) (cp_title p), cp_period_start := a, cp_period_end := b\<rparr>)) (\<lambda>q.
       thenS (case pv_metadata_json payload of SetTo d \<Rightarrow> assert_metadata_safe d | _ \<Rightarrow> ret ())
       (bindS (gets (list_content_plan_items t i)) (\<lambda>items.
        thenS (items_in_period a b items)
        (bindS (ret (q\<lparr>cp_metadata_json := patched (pv_metadata_json payload) (cp_metadata_json p),
                       cp_updated_by_user_id := us_id u\<rparr>)) (\<lambda>q'.
         thenS (write_plan i (\<lambda>_. q')) (ret q')))))))))))"

definition approve_item :: "user \<Rightarrow> plan_item \<Rightarrow> ('z marketing_db_scheme, unit) svc" where
  "approve_item u x =
     (if pi_status x = MarketingContentPlanItemStatus_DRAFT then
        write_plan_item (pi_id x) (\<lambda>r. r\<lparr>pi_status := MarketingContentPlanItemStatus_APPROVED, pi_updated_by_user_id := us_id u\<rparr>)
      else ensure (pi_status x = MarketingContentPlanItemStatus_APPROVED) (ConflictError ''item_status_blocks_approve''))"

definition approve_plan :: "uuid \<Rightarrow> user \<Rightarrow> uuid \<Rightarrow> ('z marketing_db_scheme, content_plan) svc" where
  "approve_plan t u i =
     bindS (get_plan_or_404 t i) (\<lambda>p.
     thenS (require_draft_plan p)
     (bindS (gets (\<lambda>s. filter (\<lambda>x. pi_status x \<noteq> MarketingContentPlanItemStatus_CANCELLED)
                       (list_content_plan_items t i s))) (\<lambda>items.
      thenS (ensure (items \<noteq> []) (ConflictError ''approve_requires_items''))
      (thenS (for_each items (approve_item u))
      (thenS (write_plan i (\<lambda>r. r\<lparr>cp_status := MarketingContentPlanStatus_APPROVED, cp_updated_by_user_id := us_id u\<rparr>))
      (get_plan_or_404 t i))))))"

definition archive_plan :: "uuid \<Rightarrow> user \<Rightarrow> uuid \<Rightarrow> ('z marketing_db_scheme, content_plan) svc" where
  "archive_plan t u i =
     bindS (get_plan_or_404 t i) (\<lambda>p.
     if cp_status p = MarketingContentPlanStatus_ARCHIVED then ret p
     else
       thenS (ensure (cp_status p \<in> {MarketingContentPlanStatus_DRAFT, MarketingContentPlanStatus_APPROVED})
         (ConflictError ''plan_archive_forbidden''))
       (thenS (write_plan i (\<lambda>r. r\<lparr>cp_status := MarketingContentPlanStatus_ARCHIVED, cp_updated_by_user_id := us_id u\<rparr>))
       (get_plan_or_404 t i)))"

subsection \<open>Items\<close>

record item_create =
  ic_planned_date :: day
  ic_rubric_id :: uuid
  ic_working_title :: string
  ic_angle :: "string option"
  ic_channels :: "string list"
  ic_format :: "string option"
  ic_goal :: "string option"
  ic_audience :: "string option"
  ic_cta :: "string option"
  ic_pain :: "string option"
  ic_insight :: "string option"
  ic_funnel_stage :: "string option"
  ic_notes :: "string option"
  ic_line_key :: "string option"
  ic_sort_order :: int

definition nonblank :: "string option \<Rightarrow> string option" where
  "nonblank x = Option.bind x strip_or_none"

definition new_item :: "uuid \<Rightarrow> uuid \<Rightarrow> user \<Rightarrow> uuid \<Rightarrow> string option \<Rightarrow> item_create \<Rightarrow> plan_item" where
  "new_item k t u i line_key payload =
     \<lparr>pi_id = k, pi_tenant_id = t, pi_plan_id = i, pi_planned_date = ic_planned_date payload,
      pi_rubric_id = ic_rubric_id payload, pi_working_title = py_strip (ic_working_title payload),
      pi_angle = nonblank (ic_angle payload), pi_channels = ic_channels payload,
      pi_format = nonblank (ic_format payload), pi_goal = nonblank (ic_goal payload),
      pi_audience = nonblank (ic_audience payload), pi_cta = nonblank (ic_cta payload),
      pi_pain = nonblank (ic_pain payload), pi_insight = nonblank (ic_insight payload),
      pi_funnel_stage = nonblank (ic_funnel_stage payload), pi_notes = nonblank (ic_notes payload),
      pi_status = MarketingContentPlanItemStatus_DRAFT, pi_topic_id = None, pi_external_line_key = line_key,
      pi_sort_order = ic_sort_order payload, pi_updated_by_user_id = us_id u\<rparr>"

text \<open>A line key of blanks is looked up by no one, but stored, as the empty key.\<close>

definition create_item :: "uuid \<Rightarrow> user \<Rightarrow> uuid \<Rightarrow> item_create \<Rightarrow> ('z marketing_db_scheme, plan_item) svc" where
  "create_item t u i payload =
     bindS (get_plan_or_404 t i) (\<lambda>p.
     thenS (require_draft_plan p)
     (thenS (assert_date_in_period (ic_planned_date payload) (cp_period_start p) (cp_period_end p))
     (thenS (require_active_rubric t (ic_rubric_id payload))
     (bindS (ret (strip_given (ic_line_key payload))) (\<lambda>line_key.
      bindS (gets (\<lambda>s. case line_key of
          Some (c # cs) \<Rightarrow> get_content_plan_item_by_line_key t i (c # cs) s | _ \<Rightarrow> None)) (\<lambda>existing.
      thenS (ensure (existing = None) (ConflictError ''marketing_content_plan_item_line_key_duplicate''))
      (bindS fresh_id (\<lambda>k.
       thenS (insert_plan_item (new_item k t u i line_key payload)) (ret (new_item k t u i line_key payload))))))))))"

record item_update =
  iu_planned_date :: "day patch"
  iu_rubric_id :: "uuid patch"
  iu_working_title :: "string patch"
  iu_channels :: "string list patch"
  iu_sort_order :: "int patch"
  iu_angle :: "string patch"
  iu_format :: "string patch"
  iu_goal :: "string patch"
  iu_audience :: "string patch"
  iu_cta :: "string patch"
  iu_pain :: "string patch"
  iu_insight :: "string patch"
  iu_funnel_stage :: "string patch"
  iu_notes :: "string patch"

definition apply_item_update :: "user \<Rightarrow> item_update \<Rightarrow> plan_item \<Rightarrow> plan_item" where
  "apply_item_update u payload x =
     x\<lparr>pi_planned_date := patched (iu_planned_date payload) (pi_planned_date x),
       pi_rubric_id := patched (iu_rubric_id payload) (pi_rubric_id x),
       pi_working_title := stripped (iu_working_title payload) (pi_working_title x),
       pi_channels := patched (iu_channels payload) (pi_channels x),
       pi_sort_order := patched (iu_sort_order payload) (pi_sort_order x),
       pi_angle := stripped_option (iu_angle payload) (pi_angle x),
       pi_format := stripped_option (iu_format payload) (pi_format x),
       pi_goal := stripped_option (iu_goal payload) (pi_goal x),
       pi_audience := stripped_option (iu_audience payload) (pi_audience x),
       pi_cta := stripped_option (iu_cta payload) (pi_cta x),
       pi_pain := stripped_option (iu_pain payload) (pi_pain x),
       pi_insight := stripped_option (iu_insight payload) (pi_insight x),
       pi_funnel_stage := stripped_option (iu_funnel_stage payload) (pi_funnel_stage x),
       pi_notes := stripped_option (iu_notes payload) (pi_notes x), pi_updated_by_user_id := us_id u\<rparr>"

definition update_item ::
    "uuid \<Rightarrow> user \<Rightarrow> uuid \<Rightarrow> uuid \<Rightarrow> item_update \<Rightarrow> ('z marketing_db_scheme, plan_item) svc" where
  "update_item t u i k payload =
     bindS (get_plan_or_404 t i) (\<lambda>p.
     thenS (require_draft_plan p)
     (bindS (get_item_or_404 t i k) (\<lambda>x.
      thenS (ensure (pi_status x = MarketingContentPlanItemStatus_DRAFT) (ConflictError ''item_not_draft''))
      (thenS (case iu_planned_date payload of
                SetTo d \<Rightarrow> assert_date_in_period d (cp_period_start p) (cp_period_end p) | _ \<Rightarrow> ret ())
      (thenS (case iu_rubric_id payload of SetTo r \<Rightarrow> require_active_rubric t r | _ \<Rightarrow> ret ())
      (thenS (ensure (if_set (\<lambda>n. 0 \<le> n) (iu_sort_order payload))
         (IntegrityError ''ck_marketing_content_plan_items_sort_order''))
      (thenS (write_plan_item k (apply_item_update u payload)) (get_item_or_404 t i k))))))))"

definition cancel_item :: "uuid \<Rightarrow> user \<Rightarrow> uuid \<Rightarrow> uuid \<Rightarrow> ('z marketing_db_scheme, plan_item) svc" where
  "cancel_item t u i k =
     bindS (get_plan_or_404 t i) (\<lambda>p.
     thenS (require_draft_plan p)
     (bindS (get_item_or_404 t i k) (\<lambda>x.
      if pi_status x = MarketingContentPlanItemStatus_CANCELLED then ret x
      else
        thenS (ensure (pi_status x = MarketingContentPlanItemStatus_DRAFT) (ConflictError ''item_cancel_not_draft''))
        (thenS (write_plan_item k (\<lambda>r. r\<lparr>pi_status := MarketingContentPlanItemStatus_CANCELLED, pi_updated_by_user_id := us_id u\<rparr>))
        (get_item_or_404 t i k)))))"

subsection \<open>The topic of an item\<close>

definition item_metadata :: "uuid \<Rightarrow> plan_item \<Rightarrow> dict" where
  "item_metadata plan x =
     [(''plan_id'', JId plan), (''plan_item_id'', JId (pi_id x)), (''rubric_id'', JId (pi_rubric_id x)),
      (''channels'', JList (map JStr (pi_channels x))), (''planned_date'', JStr (isoformat (pi_planned_date x)))] @
     concat (map (\<lambda>(key, v). case nonblank v of None \<Rightarrow> [] | Some y \<Rightarrow> [(key, JStr y)])
       [(''audience'', pi_audience x), (''pain'', pi_pain x), (''insight'', pi_insight x), (''cta'', pi_cta x),
        (''funnel_stage'', pi_funnel_stage x), (''notes'', pi_notes x), (''format'', pi_format x), (''goal'', pi_goal x)])"

definition topic_of_item :: "uuid \<Rightarrow> uuid \<Rightarrow> user \<Rightarrow> uuid \<Rightarrow> marketing_rubric \<Rightarrow> plan_item \<Rightarrow> marketing_topic" where
  "topic_of_item j t u plan rubric x =
     \<lparr>mt_id = j, mt_tenant_id = t, mt_legacy_topic_id = None, mt_title = py_strip (pi_working_title x),
      mt_rubric = mb_code rubric, mt_angle = pi_angle x, mt_source = ''content_plan'',
      mt_status = MarketingTopicStatus_APPROVED, mt_priority = 0, mt_reusable = False,
      mt_recommended_channels = pi_channels x, mt_used_count = 0, mt_last_used_at = None, mt_slug_hint = None,
      mt_metadata_json = item_metadata plan x, mt_updated_by_user_id = us_id u\<rparr>"

definition link_topic :: "user \<Rightarrow> uuid \<Rightarrow> uuid \<Rightarrow> ('z marketing_db_scheme, unit) svc" where
  "link_topic u k j =
     write_plan_item k (\<lambda>r. r\<lparr>pi_topic_id := Some j, pi_status := MarketingContentPlanItemStatus_TOPIC_CREATED,
       pi_updated_by_user_id := us_id u\<rparr>)"

definition replay_topic ::
    "uuid \<Rightarrow> user \<Rightarrow> uuid \<Rightarrow> plan_item \<Rightarrow> uuid \<Rightarrow> ('z marketing_db_scheme, uuid \<times> bool) svc" where
  "replay_topic t u i x j =
     bindS (gets (get_topic t j)) (\<lambda>found.
     bindS (or_raise found (ConflictError ''linked_topic_missing'')) (\<lambda>r.
     thenS (whenS (pi_status x \<noteq> MarketingContentPlanItemStatus_TOPIC_CREATED)
       (write_plan_item (pi_id x) (\<lambda>y. y\<lparr>pi_status := MarketingContentPlanItemStatus_TOPIC_CREATED, pi_updated_by_user_id := us_id u\<rparr>)))
     (thenS (record_audit (audit_entry AuditAction_EXECUTE ''Marketing plan item create-topic replay'' t (Some (us_id u))
        ''marketing_content_plan_item'' (pi_id x)
        (JObj [(''replayed'', JBool True), (''topic_id'', JId (mt_id r)), (''plan_id'', JId i)])))
     (ret (mt_id r, True)))))"

text \<open>The result is the topic and whether it was there already.\<close>

definition create_topic_from_item ::
    "uuid \<Rightarrow> user \<Rightarrow> uuid \<Rightarrow> uuid \<Rightarrow> ('z marketing_db_scheme, uuid \<times> bool) svc" where
  "create_topic_from_item t u i k =
     bindS (get_plan_or_404 t i) (\<lambda>p.
     thenS (ensure (cp_status p = MarketingContentPlanStatus_APPROVED) (ConflictError ''plan_not_approved''))
     (bindS (get_item_or_404 t i k) (\<lambda>x.
      case pi_topic_id x of
        Some j \<Rightarrow> replay_topic t u i x j
      | None \<Rightarrow>
          thenS (ensure (pi_status x \<noteq> MarketingContentPlanItemStatus_CANCELLED) (ConflictError ''item_cancelled''))
          (thenS (ensure (pi_status x = MarketingContentPlanItemStatus_APPROVED) (ConflictError ''item_not_approved''))
          (bindS (get_rubric_or_404 t (pi_rubric_id x)) (\<lambda>rubric.
           bindS fresh_id (\<lambda>j.
           thenS (insert_topic (topic_of_item j t u i rubric x))
           (thenS (link_topic u k j)
           (thenS (record_audit (audit_entry AuditAction_CREATE ''Marketing topic created from content plan item'' t
              (Some (us_id u)) ''marketing_content_topic'' j
              (JObj [(''replayed'', JBool False), (''plan_id'', JId i), (''plan_item_id'', JId k),
                     (''rubric_code'', JStr (mb_code rubric))])))
           (ret (j, False)))))))))))"

end
