(* ===== verification/Marketing_Import.thy ===== *)
theory Marketing_Import
  imports Marketing_Plans Json_Text
begin

text \<open>
  \<^verbatim>\<open>marketing/content_plan_schema.py\<close>, \<^verbatim>\<open>marketing/service/content_plan_import.py\<close> and the checks of
  \<^verbatim>\<open>content_plan_prompt.py\<close>: the plan document a client sends as JSON, its fingerprint, the preview of an
  import and the import.  Pydantic's reading of a date (\<open>pl_date\<close>), the JSON parser (\<open>pl_loads\<close>) and the
  SHA-256 of a text (\<open>pl_digest\<close>) are parameters; \<open>None\<close> is the \<^verbatim>\<open>ValidationError\<close> or
  \<^verbatim>\<open>JSONDecodeError\<close>.
\<close>

record plan_lib =
  pl_date :: "json \<Rightarrow> day option"
  pl_loads :: "string \<Rightarrow> json option"
  pl_digest :: "string \<Rightarrow> string"

subsection \<open>The document\<close>

definition SCHEMA_VERSION :: string where
  "SCHEMA_VERSION = ''m7.5.plan.v1''"

definition ALLOWED_CHANNELS :: "string list" where
  "ALLOWED_CHANNELS = [''telegram'', ''instagram'', ''threads'', ''insights'']"

definition MAX_JSON_BYTES :: nat where "MAX_JSON_BYTES = 256000"

definition MAX_ITEMS :: nat where "MAX_ITEMS = 200"

definition MAX_TITLE_LEN :: nat where "MAX_TITLE_LEN = 512"

definition MAX_LINE_KEY_LEN :: nat where "MAX_LINE_KEY_LEN = 128"

definition MAX_TEXT_FIELD_LEN :: nat where "MAX_TEXT_FIELD_LEN = 4000"

definition MAX_CHANNELS_PER_ITEM :: nat where "MAX_CHANNELS_PER_ITEM = 8"

definition MAX_MAPPING_ENTRIES :: nat where "MAX_MAPPING_ENTRIES = 100"

record plan_item_document =
  dl_line_key :: string
  dl_date :: day
  dl_rubric_code :: string
  dl_working_title :: string
  dl_angle :: "string option"
  dl_channels :: "string list"
  dl_format :: "string option"
  dl_goal :: "string option"
  dl_audience :: "string option"
  dl_cta :: "string option"
  dl_pain :: "string option"
  dl_insight :: "string option"
  dl_funnel_stage :: "string option"
  dl_notes :: "string option"

record plan_document =
  pd_schema_version :: string
  pd_period_start :: day
  pd_period_end :: day
  pd_doc_title :: string
  pd_items :: "plan_item_document list"

text \<open>\<^verbatim>\<open>_strip_required\<close> and the length bounds; a value that is no string is refused.\<close>

definition required_string :: "nat \<Rightarrow> string \<Rightarrow> dict \<Rightarrow> string option" where
  "required_string bound key d =
     (case map_of d key of
        Some (JStr x) \<Rightarrow>
          (let y = py_strip x in if 1 \<le> length y \<and> length y \<le> bound then Some y else None)
      | _ \<Rightarrow> None)"

text \<open>\<^verbatim>\<open>_strip_optional\<close>: the field may be absent, null or blank.\<close>

definition optional_string :: "nat \<Rightarrow> string \<Rightarrow> dict \<Rightarrow> string option option" where
  "optional_string bound key d =
     (case map_of d key of
        None \<Rightarrow> Some None
      | Some JNull \<Rightarrow> Some None
      | Some (JStr x) \<Rightarrow>
          (case strip_or_none x of
             None \<Rightarrow> Some None
           | Some y \<Rightarrow> if length y \<le> bound then Some (Some y) else None)
      | _ \<Rightarrow> None)"

fun normalize_channels :: "json list \<Rightarrow> string list \<Rightarrow> string list option" where
  "normalize_channels [] out = Some out"
| "normalize_channels (raw # raws) out =
     (let ch = py_lower (py_strip (py_str raw)) in
      if ch = [] then normalize_channels raws out
      else if \<not> List.member ALLOWED_CHANNELS ch then None
      else normalize_channels raws (if List.member out ch then out else out @ [ch]))"

definition document_channels :: "dict \<Rightarrow> string list option" where
  "document_channels d =
     (case map_of d ''channels'' of
        None \<Rightarrow> Some []
      | Some JNull \<Rightarrow> Some []
      | Some (JList raws) \<Rightarrow>
          (case normalize_channels raws [] of
             None \<Rightarrow> None
           | Some out \<Rightarrow> if length out \<le> MAX_CHANNELS_PER_ITEM then Some out else None)
      | _ \<Rightarrow> None)"

definition ITEM_KEYS :: "string list" where
  "ITEM_KEYS = [''line_key'', ''date'', ''rubric_code'', ''working_title'', ''angle'', ''channels'', ''format'',
     ''goal'', ''audience'', ''cta'', ''pain'', ''insight'', ''funnel_stage'', ''notes'']"

definition parse_item_document :: "plan_lib \<Rightarrow> json \<Rightarrow> plan_item_document option" where
  "parse_item_document lib j =
     (case j of
        JObj d \<Rightarrow>
          (case (required_string MAX_LINE_KEY_LEN ''line_key'' d, Option.bind (map_of d ''date'') (pl_date lib),
                 required_string 64 ''rubric_code'' d, required_string MAX_TITLE_LEN ''working_title'' d,
                 document_channels d) of
             (Some key, Some date, Some code, Some title, Some channels) \<Rightarrow>
               (case (optional_string MAX_TEXT_FIELD_LEN ''angle'' d, optional_string 64 ''format'' d,
                      optional_string MAX_TEXT_FIELD_LEN ''goal'' d, optional_string MAX_TEXT_FIELD_LEN ''audience'' d,
                      optional_string MAX_TEXT_FIELD_LEN ''cta'' d) of
                  (Some angle, Some fmt, Some goal, Some audience, Some cta) \<Rightarrow>
                    (case (optional_string MAX_TEXT_FIELD_LEN ''pain'' d,
                           optional_string MAX_TEXT_FIELD_LEN ''insight'' d, optional_string 64 ''funnel_stage'' d,
                           optional_string MAX_TEXT_FIELD_LEN ''notes'' d) of
                       (Some pain, Some insight, Some funnel, Some notes) \<Rightarrow>
                         if list_all (\<lambda>kv. List.member ITEM_KEYS (fst kv)) d then
                           Some \<lparr>dl_line_key = key, dl_date = date, dl_rubric_code = code, dl_working_title = title,
                             dl_angle = angle, dl_channels = channels, dl_format = fmt, dl_goal = goal,
                             dl_audience = audience, dl_cta = cta, dl_pain = pain, dl_insight = insight,
                             dl_funnel_stage = funnel, dl_notes = notes\<rparr>
                         else None
                     | _ \<Rightarrow> None)
                | _ \<Rightarrow> None)
           | _ \<Rightarrow> None)
      | _ \<Rightarrow> None)"

fun parse_items :: "plan_lib \<Rightarrow> json list \<Rightarrow> plan_item_document list option" where
  "parse_items lib [] = Some []"
| "parse_items lib (j # js) =
     (case parse_item_document lib j of
        None \<Rightarrow> None
      | Some x \<Rightarrow> map_option (\<lambda>xs. x # xs) (parse_items lib js))"

definition DOCUMENT_KEYS :: "string list" where
  "DOCUMENT_KEYS = [''schema_version'', ''period_start'', ''period_end'', ''title'', ''items'']"

text \<open>\<^verbatim>\<open>_period_and_keys\<close>.\<close>

definition document_ok :: "plan_document \<Rightarrow> bool" where
  "document_ok doc \<longleftrightarrow>
     \<not> pd_period_end doc < pd_period_start doc \<and> distinct (map dl_line_key (pd_items doc)) \<and>
     (\<forall>x \<in> set (pd_items doc). \<not> (dl_date x < pd_period_start doc \<or> pd_period_end doc < dl_date x))"

definition validate_document :: "plan_lib \<Rightarrow> dict \<Rightarrow> plan_document option" where
  "validate_document lib d =
     (case (map_of d ''schema_version'', Option.bind (map_of d ''period_start'') (pl_date lib),
            Option.bind (map_of d ''period_end'') (pl_date lib), required_string MAX_TITLE_LEN ''title'' d,
            map_of d ''items'') of
        (Some (JStr version), Some a, Some b, Some title, Some (JList js)) \<Rightarrow>
          (case parse_items lib js of
             Some items \<Rightarrow>
               (let doc = \<lparr>pd_schema_version = version, pd_period_start = a, pd_period_end = b,
                           pd_doc_title = title, pd_items = items\<rparr> in
                if version = SCHEMA_VERSION \<and> 1 \<le> length items \<and> length items \<le> MAX_ITEMS \<and>
                   list_all (\<lambda>kv. List.member DOCUMENT_KEYS (fst kv)) d \<and> document_ok doc
                then Some doc else None)
           | None \<Rightarrow> None)
      | _ \<Rightarrow> None)"

text \<open>
  \<^verbatim>\<open>parse_plan_document\<close> as \<^verbatim>\<open>_parse_document\<close> calls it: the code of the first issue, or the document.  The UTF-8
  form of a character from 128 on has two bytes.
\<close>

datatype plan_payload = PlanObject dict | PlanText string

definition utf8_length :: "string \<Rightarrow> nat" where
  "utf8_length s = sum_list (map (\<lambda>c. if (of_char c :: nat) < 128 then 1 else 2) s)"

definition parse_document_object :: "plan_lib \<Rightarrow> dict \<Rightarrow> string + plan_document" where
  "parse_document_object lib d =
     (case validate_document lib d of None \<Rightarrow> Inl ''schema_validation_error'' | Some doc \<Rightarrow> Inr doc)"

definition parse_document :: "plan_lib \<Rightarrow> plan_payload \<Rightarrow> string + plan_document" where
  "parse_document lib plan =
     (case plan of
        PlanObject d \<Rightarrow> parse_document_object lib d
      | PlanText x \<Rightarrow>
          if utf8_length x > MAX_JSON_BYTES then Inl ''json_too_large''
          else
            (case pl_loads lib x of
               None \<Rightarrow> Inl ''malformed_json''
             | Some (JObj d) \<Rightarrow> parse_document_object lib d
             | Some _ \<Rightarrow> Inl ''plan_must_be_object''))"

subsection \<open>The fingerprint\<close>

definition canonical_item :: "plan_item_document \<Rightarrow> json" where
  "canonical_item x =
     (let text = (\<lambda>y. case y of None \<Rightarrow> JNull | Some z \<Rightarrow> JStr z) in
      JObj [(''line_key'', JStr (dl_line_key x)), (''date'', JStr (isoformat (dl_date x))),
        (''rubric_code'', JStr (dl_rubric_code x)), (''working_title'', JStr (dl_working_title x)),
        (''angle'', text (dl_angle x)), (''channels'', JList (map JStr (sort (dl_channels x)))),
        (''format'', text (dl_format x)), (''goal'', text (dl_goal x)), (''audience'', text (dl_audience x)),
        (''cta'', text (dl_cta x)), (''pain'', text (dl_pain x)), (''insight'', text (dl_insight x)),
        (''funnel_stage'', text (dl_funnel_stage x)), (''notes'', text (dl_notes x))])"

definition canonical_plan :: "plan_document \<Rightarrow> json" where
  "canonical_plan doc =
     JObj [(''schema_version'', JStr (pd_schema_version doc)),
       (''period_start'', JStr (isoformat (pd_period_start doc))),
       (''period_end'', JStr (isoformat (pd_period_end doc))), (''title'', JStr (pd_doc_title doc)),
       (''items'', JList (map canonical_item (sort_key dl_line_key (pd_items doc))))]"

definition compute_import_fingerprint :: "plan_lib \<Rightarrow> uuid \<Rightarrow> plan_document \<Rightarrow> string" where
  "compute_import_fingerprint lib t doc =
     pl_digest lib (json_dumps (JObj [(''tenant_id'', JId t), (''plan'', canonical_plan doc)]))"

subsection \<open>Rubric codes\<close>

type_synonym rubric_map = "(string \<times> uuid) list"

fun normalize_mapping_from :: "rubric_map \<Rightarrow> rubric_map \<Rightarrow> exn + rubric_map" where
  "normalize_mapping_from [] out = Inr out"
| "normalize_mapping_from ((code, i) # rest) out =
     (if py_strip code = [] then Inl (ConflictError ''empty_rubric_mapping_code'')
      else normalize_mapping_from rest (AList.update (py_strip code) i out))"

definition normalize_mapping :: "rubric_map option \<Rightarrow> exn + rubric_map" where
  "normalize_mapping raw =
     (case raw of
        None \<Rightarrow> Inr []
      | Some m \<Rightarrow>
          if length m > MAX_MAPPING_ENTRIES then Inl (ConflictError ''too_many_rubric_mappings'')
          else normalize_mapping_from m [])"

definition from_sum :: "exn + 'a \<Rightarrow> ('s, 'a) svc" where
  "from_sum r = (case r of Inl e \<Rightarrow> raise e | Inr x \<Rightarrow> ret x)"

record import_issue =
  ii_code :: string
  ii_path :: string
  ii_message :: string

text \<open>A rubric, or the issue and whether the code is unknown.\<close>

datatype resolution = Resolved uuid | Unresolved import_issue bool

definition resolve_rubric_code ::
    "uuid \<Rightarrow> rubric_map \<Rightarrow> string \<Rightarrow> string \<Rightarrow> 'z marketing_db_scheme \<Rightarrow> exn + resolution" where
  "resolve_rubric_code t mapping path code s =
     (case map_of mapping code of
        Some i \<Rightarrow>
          (case get_rubric t i s of
             None \<Rightarrow> Inl (NotFoundError ''marketing_rubric_not_found'')
           | Some r \<Rightarrow>
               if mb_status r \<noteq> MarketingRubricStatus_ACTIVE then
                 Inr (Unresolved \<lparr>ii_code = ''rubric_not_active'', ii_path = path @ ''.rubric_code'',
                   ii_message = ''Mapped rubric '' @ nat_str i @ '' is not active''\<rparr> False)
               else Inr (Resolved (mb_id r)))
      | None \<Rightarrow>
          (case get_rubric_by_code t code s of
             None \<Rightarrow> Inr (Unresolved \<lparr>ii_code = ''unknown_rubric'', ii_path = path @ ''.rubric_code'',
               ii_message = ''Unknown rubric_code='' @ code\<rparr> True)
           | Some r \<Rightarrow>
               if mb_status r \<noteq> MarketingRubricStatus_ACTIVE then
                 Inr (Unresolved \<lparr>ii_code = ''rubric_not_active'', ii_path = path @ ''.rubric_code'',
                   ii_message = ''Rubric '' @ code @ '' is not active''\<rparr> False)
               else Inr (Resolved (mb_id r))))"

definition item_path :: "nat \<Rightarrow> string" where
  "item_path n = ''items['' @ nat_str n @ '']''"

fun resolve_all ::
    "uuid \<Rightarrow> rubric_map \<Rightarrow> nat \<Rightarrow> plan_item_document list \<Rightarrow> 'z marketing_db_scheme \<Rightarrow>
     exn + (plan_item_document \<times> resolution) list" where
  "resolve_all t mapping n [] s = Inr []"
| "resolve_all t mapping n (x # xs) s =
     (case resolve_rubric_code t mapping (item_path n) (dl_rubric_code x) s of
        Inl e \<Rightarrow> Inl e
      | Inr r \<Rightarrow>
          (case resolve_all t mapping (Suc n) xs s of Inl e \<Rightarrow> Inl e | Inr rs \<Rightarrow> Inr ((x, r) # rs)))"

subsection \<open>Preview\<close>

record import_preview =
  ip_valid :: bool
  ip_errors :: "import_issue list"
  ip_warnings :: "import_issue list"
  ip_unknown_rubric_codes :: "string list"
  ip_resolved_items :: "(plan_item_document \<times> uuid option) list"
  ip_import_fingerprint :: "string option"
  ip_existing_plan_id :: "uuid option"

fun resolved_id :: "resolution \<Rightarrow> uuid option" where
  "resolved_id (Resolved i) = Some i"
| "resolved_id (Unresolved _ _) = None"

fun resolution_errors :: "resolution \<Rightarrow> import_issue list" where
  "resolution_errors (Unresolved issue False) = [issue]"
| "resolution_errors _ = []"

fun resolution_warnings :: "resolution \<Rightarrow> import_issue list" where
  "resolution_warnings (Unresolved issue True) = [issue]"
| "resolution_warnings _ = []"

text \<open>The second pass: an item that has no error yet gets one when it is unresolved.\<close>

fun unresolved_errors ::
    "nat \<Rightarrow> (plan_item_document \<times> resolution) list \<Rightarrow> import_issue list \<Rightarrow> import_issue list" where
  "unresolved_errors n [] errors = errors"
| "unresolved_errors n ((x, r) # rest) errors =
     (let path = item_path n @ ''.rubric_code'' in
      unresolved_errors (Suc n) rest
        (if resolved_id r \<noteq> None \<or> List.member (map ii_path errors) path then errors
         else errors @ [\<lparr>ii_code = ''unresolved_rubric'', ii_path = path,
                         ii_message = ''Unresolved rubric_code='' @ dl_rubric_code x\<rparr>]))"

definition preview_resolved ::
    "string \<Rightarrow> content_plan option \<Rightarrow> (plan_item_document \<times> resolution) list \<Rightarrow> import_preview" where
  "preview_resolved fp existing rs =
     (let errors = unresolved_errors 0 rs (concat (map (\<lambda>xr. resolution_errors (snd xr)) rs)) in
      \<lparr>ip_valid = (errors = []), ip_errors = errors,
       ip_warnings = concat (map (\<lambda>xr. resolution_warnings (snd xr)) rs) @
         (case existing of
            None \<Rightarrow> []
          | Some p \<Rightarrow> [\<lparr>ii_code = ''fingerprint_already_imported'', ii_path = ''import_fingerprint'',
              ii_message = ''Plan '' @ nat_str (cp_id p) @ '' already imported with this fingerprint''\<rparr>]),
       ip_unknown_rubric_codes =
         sort (remdups (map (\<lambda>xr. dl_rubric_code (fst xr)) (filter (\<lambda>xr. resolution_warnings (snd xr) \<noteq> []) rs))),
       ip_resolved_items = map (\<lambda>xr. (fst xr, resolved_id (snd xr))) rs, ip_import_fingerprint = Some fp,
       ip_existing_plan_id = map_option cp_id existing\<rparr>)"

definition preview ::
    "plan_lib \<Rightarrow> uuid \<Rightarrow> plan_payload \<Rightarrow> rubric_map option \<Rightarrow> ('z marketing_db_scheme, import_preview) svc" where
  "preview lib t plan code_map =
     bindS (from_sum (normalize_mapping code_map)) (\<lambda>mapping.
     case parse_document lib plan of
       Inl code \<Rightarrow>
         ret \<lparr>ip_valid = False, ip_errors = [\<lparr>ii_code = code, ii_path = ''plan'', ii_message = code\<rparr>], ip_warnings = [],
              ip_unknown_rubric_codes = [], ip_resolved_items = [], ip_import_fingerprint = None,
              ip_existing_plan_id = None\<rparr>
     | Inr doc \<Rightarrow>
         bindS (gets (get_content_plan_by_fingerprint t (compute_import_fingerprint lib t doc))) (\<lambda>existing.
         bindS (gets (resolve_all t mapping 0 (pd_items doc))) (\<lambda>res.
         bindS (from_sum res) (\<lambda>rs.
         ret (preview_resolved (compute_import_fingerprint lib t doc) existing rs)))))"

subsection \<open>Commit\<close>

definition imported_plan ::
    "uuid \<Rightarrow> uuid \<Rightarrow> user \<Rightarrow> string \<Rightarrow> marketing_guide option \<Rightarrow> plan_document \<Rightarrow> content_plan" where
  "imported_plan i t u fp guide doc =
     \<lparr>cp_id = i, cp_tenant_id = t, cp_title = pd_doc_title doc, cp_period_start = pd_period_start doc,
      cp_period_end = pd_period_end doc, cp_status = MarketingContentPlanStatus_DRAFT,
      cp_guide_id = map_option mg_id guide, cp_guide_version = map_option mg_version guide,
      cp_source = MarketingContentPlanSource_JSON_IMPORT, cp_import_fingerprint = Some fp,
      cp_metadata_json = [(''schema_version'', JStr (pd_schema_version doc))], cp_updated_by_user_id = us_id u\<rparr>"

definition imported_item ::
    "uuid \<Rightarrow> uuid \<Rightarrow> user \<Rightarrow> uuid \<Rightarrow> nat \<Rightarrow> uuid \<Rightarrow> plan_item_document \<Rightarrow> plan_item" where
  "imported_item k t u plan n rubric x =
     \<lparr>pi_id = k, pi_tenant_id = t, pi_plan_id = plan, pi_planned_date = dl_date x, pi_rubric_id = rubric,
      pi_working_title = dl_working_title x, pi_angle = dl_angle x, pi_channels = dl_channels x,
      pi_format = dl_format x, pi_goal = dl_goal x, pi_audience = dl_audience x, pi_cta = dl_cta x,
      pi_pain = dl_pain x, pi_insight = dl_insight x, pi_funnel_stage = dl_funnel_stage x, pi_notes = dl_notes x,
      pi_status = MarketingContentPlanItemStatus_DRAFT, pi_topic_id = None,
      pi_external_line_key = Some (dl_line_key x), pi_sort_order = int n, pi_updated_by_user_id = us_id u\<rparr>"

fun import_items ::
    "uuid \<Rightarrow> user \<Rightarrow> uuid \<Rightarrow> nat \<Rightarrow> (plan_item_document \<times> uuid) list \<Rightarrow> ('z marketing_db_scheme, unit) svc" where
  "import_items t u plan n [] = ret ()"
| "import_items t u plan n ((x, rubric) # rest) =
     bindS fresh_id (\<lambda>k.
     thenS (insert_plan_item (imported_item k t u plan n rubric x)) (import_items t u plan (Suc n) rest))"

text \<open>The first item that does not resolve ends the import.\<close>

fun resolve_for_commit ::
    "uuid \<Rightarrow> rubric_map \<Rightarrow> nat \<Rightarrow> plan_item_document list \<Rightarrow> 'z marketing_db_scheme \<Rightarrow>
     exn + (plan_item_document \<times> uuid) list" where
  "resolve_for_commit t mapping n [] s = Inr []"
| "resolve_for_commit t mapping n (x # xs) s =
     (case resolve_rubric_code t mapping (item_path n) (dl_rubric_code x) s of
        Inl e \<Rightarrow> Inl e
      | Inr (Unresolved issue _) \<Rightarrow> Inl (ConflictError (ii_code issue))
      | Inr (Resolved i) \<Rightarrow>
          (case resolve_for_commit t mapping (Suc n) xs s of Inl e \<Rightarrow> Inl e | Inr rs \<Rightarrow> Inr ((x, i) # rs)))"

record import_result =
  ir_plan_id :: uuid
  ir_item_count :: nat
  ir_replayed :: bool
  ir_import_fingerprint :: string

definition replay_import ::
    "uuid \<Rightarrow> user \<Rightarrow> string \<Rightarrow> plan_document \<Rightarrow> content_plan \<Rightarrow> ('z marketing_db_scheme, import_result) svc" where
  "replay_import t u fp doc p =
     thenS (record_audit (audit_entry AuditAction_EXECUTE ''Marketing content plan import replay'' t (Some (us_id u))
        ''marketing_content_plan'' (cp_id p)
        (JObj [(''replayed'', JBool True), (''import_fingerprint'', JStr fp),
               (''item_count'', JInt (int (length (pd_items doc))))])))
     (bindS (gets (list_content_plan_items t (cp_id p))) (\<lambda>items.
      ret \<lparr>ir_plan_id = cp_id p, ir_item_count = length items, ir_replayed = True, ir_import_fingerprint = fp\<rparr>))"

definition import_new ::
    "uuid \<Rightarrow> user \<Rightarrow> string \<Rightarrow> plan_document \<Rightarrow> (plan_item_document \<times> uuid) list \<Rightarrow>
     ('z marketing_db_scheme, import_result) svc" where
  "import_new t u fp doc rs =
     bindS (gets (get_active_guide t)) (\<lambda>guide.
     bindS fresh_id (\<lambda>i.
     thenS (insert_plan (imported_plan i t u fp guide doc))
     (thenS (import_items t u i 0 rs)
     (thenS (record_audit (audit_entry AuditAction_CREATE ''Marketing content plan imported from JSON'' t (Some (us_id u))
        ''marketing_content_plan'' i
        (JObj [(''replayed'', JBool False), (''import_fingerprint'', JStr fp),
               (''item_count'', JInt (int (length rs))),
               (''source'', JStr (MarketingContentPlanSource_value MarketingContentPlanSource_JSON_IMPORT))])))
     (ret \<lparr>ir_plan_id = i, ir_item_count = length rs, ir_replayed = False, ir_import_fingerprint = fp\<rparr>)))))"

definition commit_import ::
    "plan_lib \<Rightarrow> uuid \<Rightarrow> user \<Rightarrow> plan_payload \<Rightarrow> rubric_map option \<Rightarrow> ('z marketing_db_scheme, import_result) svc" where
  "commit_import lib t u plan code_map =
     (case parse_document lib plan of
        Inl code \<Rightarrow> raise (ConflictError code)
      | Inr doc \<Rightarrow>
          bindS (from_sum (normalize_mapping code_map)) (\<lambda>mapping.
          bindS (ret (compute_import_fingerprint lib t doc)) (\<lambda>fp.
          bindS (gets (get_content_plan_by_fingerprint t fp)) (\<lambda>existing.
          case existing of
            Some p \<Rightarrow> replay_import t u fp doc p
          | None \<Rightarrow>
              bindS (gets (resolve_for_commit t mapping 0 (pd_items doc))) (\<lambda>res.
              bindS (from_sum res) (\<lambda>rs. import_new t u fp doc rs))))))"

subsection \<open>Prompt export\<close>

text \<open>
  \<^verbatim>\<open>export_prompt\<close> up to the text of the prompt: the checks, the rubrics and the channels it is built from.
\<close>

definition MAX_TARGET_ITEM_COUNT :: int where "MAX_TARGET_ITEM_COUNT = 366"

definition MAX_ADDITIONAL_INSTRUCTIONS_LEN :: nat where "MAX_ADDITIONAL_INSTRUCTIONS_LEN = 4000"

definition MAX_RUBRIC_FILTER :: nat where "MAX_RUBRIC_FILTER = 100"

record prompt_request =
  pr_period_start :: day
  pr_period_end :: day
  pr_rubric_ids :: "uuid list option"
  pr_channels :: "string list option"
  pr_target_item_count :: "int option"
  pr_frequency :: "string option"
  pr_additional_instructions :: "string option"
  pr_language :: "string option"

record prompt_export =
  px_guide_id :: uuid
  px_guide_version :: int
  px_rubric_ids :: "uuid list"
  px_rubric_codes :: "string list"
  px_channels :: "string list"
  px_frequency :: "string option"
  px_language :: string

fun rubrics_by_id :: "uuid \<Rightarrow> uuid list \<Rightarrow> ('z marketing_db_scheme, marketing_rubric list) svc" where
  "rubrics_by_id t [] = ret []"
| "rubrics_by_id t (i # is) =
     bindS (get_rubric_or_404 t i) (\<lambda>r.
     thenS (ensure (mb_status r = MarketingRubricStatus_ACTIVE) (ConflictError ''rubric_not_active''))
     (bindS (rubrics_by_id t is) (\<lambda>rs. ret (r # rs))))"

definition resolve_rubrics :: "uuid \<Rightarrow> uuid list option \<Rightarrow> ('z marketing_db_scheme, marketing_rubric list) svc" where
  "resolve_rubrics t rubric_ids =
     (case rubric_ids of
        None \<Rightarrow> gets (list_rubrics t (Some MarketingRubricStatus_ACTIVE) False)
      | Some is \<Rightarrow>
          thenS (ensure (length is \<le> MAX_RUBRIC_FILTER) (ConflictError ''too_many_rubric_ids''))
          (thenS (ensure (distinct is) (ConflictError ''duplicate_rubric_ids'')) (rubrics_by_id t is)))"

fun prompt_channels :: "string list \<Rightarrow> string list \<Rightarrow> ('z marketing_db_scheme, string list) svc" where
  "prompt_channels [] out = ret out"
| "prompt_channels (raw # raws) out =
     (let ch = py_lower (py_strip raw) in
      thenS (ensure (List.member ALLOWED_CHANNELS ch) (ConflictError (''unsupported_channel:'' @ ch)))
      (prompt_channels raws (if List.member out ch then out else out @ [ch])))"

definition normalize_prompt_channels :: "string list option \<Rightarrow> ('z marketing_db_scheme, string list) svc" where
  "normalize_prompt_channels channels =
     (case channels of Some (c # cs) \<Rightarrow> prompt_channels (c # cs) [] | _ \<Rightarrow> ret (sort ALLOWED_CHANNELS))"

definition export_prompt :: "uuid \<Rightarrow> prompt_request \<Rightarrow> ('z marketing_db_scheme, prompt_export) svc" where
  "export_prompt t payload =
     thenS (ensure (pr_period_start payload \<le> pr_period_end payload) (ConflictError ''invalid_period''))
     (thenS (ensure (if_some (\<lambda>n. 1 \<le> n \<and> n \<le> MAX_TARGET_ITEM_COUNT) (pr_target_item_count payload))
        (ConflictError ''invalid_target_item_count''))
     (thenS (ensure (if_some (\<lambda>x. length x \<le> MAX_ADDITIONAL_INSTRUCTIONS_LEN) (pr_additional_instructions payload))
        (ConflictError ''additional_instructions_too_long''))
     (bindS (gets (get_active_guide t)) (\<lambda>active.
      bindS (or_raise active (NotFoundError ''marketing_guide_not_found'')) (\<lambda>guide.
      bindS (resolve_rubrics t (pr_rubric_ids payload)) (\<lambda>rubrics.
      thenS (ensure (rubrics \<noteq> []) (ConflictError ''no_active_rubrics''))
      (bindS (normalize_prompt_channels (pr_channels payload)) (\<lambda>channels.
       ret \<lparr>px_guide_id = mg_id guide, px_guide_version = mg_version guide, px_rubric_ids = map mb_id rubrics,
            px_rubric_codes = map mb_code rubrics, px_channels = channels,
            px_frequency = map_option py_strip (case pr_frequency payload of Some (c # cs) \<Rightarrow> Some (c # cs) | _ \<Rightarrow> None),
            px_language = or_else (Some (py_strip (or_else (pr_language payload) ''ru''))) ''ru''\<rparr>))))))))"

end
