(* ===== verification/Marketing_Plan_Safety.thy ===== *)
theory Marketing_Plan_Safety
  imports Marketing_Import
begin

text \<open>
  The invariants of the guides (one is active, their versions are distinct) and of the content plans (the
  items lie in the period, their states go with the state of the plan, an item has a topic exactly when it
  says so), kept by every operation on them, the import included.
\<close>

subsection \<open>Plans and items\<close>

fun item_state_fits :: "MarketingContentPlanStatus \<Rightarrow> MarketingContentPlanItemStatus \<Rightarrow> bool" where
  "item_state_fits MarketingContentPlanStatus_DRAFT st \<longleftrightarrow>
     st \<in> {MarketingContentPlanItemStatus_DRAFT, MarketingContentPlanItemStatus_CANCELLED}"
| "item_state_fits MarketingContentPlanStatus_APPROVED st \<longleftrightarrow> st \<noteq> MarketingContentPlanItemStatus_DRAFT"
| "item_state_fits MarketingContentPlanStatus_ARCHIVED st \<longleftrightarrow> True"

definition item_fits :: "content_plan \<Rightarrow> plan_item \<Rightarrow> bool" where
  "item_fits p x \<longleftrightarrow> item_state_fits (cp_status p) (pi_status x) \<and>
     (pi_status x \<noteq> MarketingContentPlanItemStatus_CANCELLED \<longrightarrow>
        cp_period_start p \<le> pi_planned_date x \<and> pi_planned_date x \<le> cp_period_end p) \<and>
     (pi_topic_id x \<noteq> None \<longleftrightarrow> pi_status x = MarketingContentPlanItemStatus_TOPIC_CREATED)"

definition belongs :: "content_plan \<Rightarrow> plan_item \<Rightarrow> bool" where
  "belongs p x \<longleftrightarrow> cp_id p = pi_plan_id x \<and> cp_tenant_id p = pi_tenant_id x"

definition plans_inv :: "uuid \<Rightarrow> content_plan list \<Rightarrow> plan_item list \<Rightarrow> bool" where
  "plans_inv n ps xs \<longleftrightarrow> distinct (map cp_id ps) \<and> (\<forall>p \<in> set ps. cp_id p < n \<and> cp_period_start p \<le> cp_period_end p) \<and>
     distinct (map pi_id xs) \<and> (\<forall>x \<in> set xs. pi_id x < n \<and> (\<exists>p \<in> set ps. belongs p x \<and> item_fits p x))"

lemma plans_inv_later: "plans_inv n ps xs \<Longrightarrow> n \<le> n' \<Longrightarrow> plans_inv n' ps xs"
  unfolding plans_inv_def by (meson less_le_trans)

lemma plan_of_item:
  assumes "plans_inv n ps xs" "x \<in> set xs" "p \<in> set ps" "cp_id p = pi_plan_id x"
  shows "belongs p x \<and> item_fits p x"
proof -
  obtain q where q: "q \<in> set ps" "belongs q x" "item_fits q x" using assms(1,2) by (auto simp: plans_inv_def)
  have "q = p" using assms q(1,2) by (auto simp: plans_inv_def belongs_def dest: distinct_keys_eq)
  then show ?thesis using q by simp
qed

text \<open>The plan written, and the items of that plan alone.\<close>

lemma plans_inv_change:
  assumes inv: "plans_inv n ps xs" and f: "\<And>p. cp_id (f p) = cp_id p \<and> cp_tenant_id (f p) = cp_tenant_id p"
    and g: "\<And>x. pi_id (g x) = pi_id x \<and> pi_plan_id (g x) = pi_plan_id x \<and> pi_tenant_id (g x) = pi_tenant_id x"
    and period: "\<And>p. p \<in> set ps \<Longrightarrow> cp_id p = i \<Longrightarrow> cp_period_start (f p) \<le> cp_period_end (f p)"
    and other: "\<And>x. x \<in> set xs \<Longrightarrow> pi_plan_id x \<noteq> i \<Longrightarrow> g x = x"
    and fits: "\<And>p x. p \<in> set ps \<Longrightarrow> x \<in> set xs \<Longrightarrow> cp_id p = i \<Longrightarrow> belongs p x \<Longrightarrow> item_fits p x \<Longrightarrow> item_fits (f p) (g x)"
  shows "plans_inv n (row_update cp_id i f ps) (map g xs)"
proof -
  have "distinct (map cp_id (row_update cp_id i f ps))" "distinct (map pi_id (map g xs))"
    using inv f g by (simp_all add: plans_inv_def map_key_row_update o_def)
  moreover have "cp_id q < n \<and> cp_period_start q \<le> cp_period_end q" if "q \<in> set (row_update cp_id i f ps)" for q
    using that inv f period unfolding in_row_update plans_inv_def by (metis (full_types))
  moreover have "\<exists>q \<in> set (row_update cp_id i f ps). belongs q (g x) \<and> item_fits q (g x)" if x: "x \<in> set xs" for x
  proof -
    obtain p where p: "p \<in> set ps" "belongs p x" "item_fits p x" using inv x by (auto simp: plans_inv_def)
    show ?thesis
    proof (cases "cp_id p = i")
      case True
      then have "f p \<in> set (row_update cp_id i f ps)" using p(1) by (intro in_row_updateI)
      moreover have "belongs (f p) (g x)" using p(2) f[of p] g[of x] by (simp add: belongs_def)
      ultimately show ?thesis using fits[OF p(1) x True p(2,3)] by blast
    next
      case False
      then have "p \<in> set (row_update cp_id i f ps)" using p(1) by (force simp: row_update_def)
      moreover have "g x = x" using p(2) False other[OF x] by (simp add: belongs_def)
      ultimately show ?thesis using p by auto
    qed
  qed
  ultimately show ?thesis using inv g by (simp add: plans_inv_def)
qed

lemma row_update_absent_id: "(\<And>r. r \<in> set rows \<Longrightarrow> key r = k \<Longrightarrow> f r = r) \<Longrightarrow> row_update key k f rows = rows"
  by (induction rows) auto

lemma plans_inv_write_plan:
  assumes "plans_inv n ps xs" and "\<And>p. cp_id (f p) = cp_id p \<and> cp_tenant_id (f p) = cp_tenant_id p"
    and "\<And>p. p \<in> set ps \<Longrightarrow> cp_id p = i \<Longrightarrow> cp_period_start (f p) \<le> cp_period_end (f p)"
    and "\<And>p x. p \<in> set ps \<Longrightarrow> x \<in> set xs \<Longrightarrow> cp_id p = i \<Longrightarrow> belongs p x \<Longrightarrow> item_fits p x \<Longrightarrow> item_fits (f p) x"
  shows "plans_inv n (row_update cp_id i f ps) xs"
  using plans_inv_change[of n ps xs f "\<lambda>x. x" i] assms by simp

lemma plans_inv_write_item:
  assumes inv: "plans_inv n ps xs"
    and g: "\<And>x. pi_id (g x) = pi_id x \<and> pi_plan_id (g x) = pi_plan_id x \<and> pi_tenant_id (g x) = pi_tenant_id x"
    and fits: "\<And>p x. p \<in> set ps \<Longrightarrow> x \<in> set xs \<Longrightarrow> pi_id x = k \<Longrightarrow> belongs p x \<Longrightarrow> item_fits p x \<Longrightarrow> item_fits p (g x)"
  shows "plans_inv n ps (row_update pi_id k g xs)"
proof -
  have "distinct (map pi_id (row_update pi_id k g xs))"
    using inv g by (simp add: plans_inv_def map_key_row_update)
  moreover have "pi_id y < n \<and> (\<exists>p \<in> set ps. belongs p y \<and> item_fits p y)" if "y \<in> set (row_update pi_id k g xs)" for y
  proof -
    obtain x where x: "x \<in> set xs" "if pi_id x = k then y = g x else y = x" using \<open>y \<in> _\<close> unfolding in_row_update by blast
    obtain p where p: "p \<in> set ps" "belongs p x" "item_fits p x" "pi_id x < n"
      using inv x(1) by (auto simp: plans_inv_def)
    then show ?thesis using x fits[OF p(1) x(1)] g[of x] by (cases "pi_id x = k") (auto simp: belongs_def)
  qed
  ultimately show ?thesis using inv by (simp add: plans_inv_def)
qed

lemma plans_inv_new_plan:
  assumes "plans_inv n ps xs" "cp_id p = n" "cp_period_start p \<le> cp_period_end p"
  shows "plans_inv (Suc n) (row_insert p ps) xs"
proof -
  have "n \<notin> cp_id ` set ps" using assms(1) by (auto simp: plans_inv_def)
  then show ?thesis using plans_inv_later[OF assms(1), of "Suc n"] assms(2,3)
    by (auto simp: plans_inv_def row_insert_def)
qed

lemma plans_inv_new_item:
  assumes "plans_inv n ps xs" "pi_id x = n" "p \<in> set ps" "belongs p x" "item_fits p x"
  shows "plans_inv (Suc n) ps (row_insert x xs)"
proof -
  have "n \<notin> pi_id ` set xs" using assms(1) by (auto simp: plans_inv_def)
  then show ?thesis using plans_inv_later[OF assms(1), of "Suc n"] assms(2-5)
    by (auto simp: plans_inv_def row_insert_def)
qed

subsection \<open>Guides\<close>

definition active_guide :: "marketing_guide \<Rightarrow> bool" where
  "active_guide g \<longleftrightarrow> mg_status g = MarketingGuideStatus_ACTIVE"

definition one_active :: "marketing_guide list \<Rightarrow> bool" where
  "one_active gs \<longleftrightarrow> (\<forall>g \<in> set gs. \<forall>h \<in> set gs.
     active_guide g \<and> active_guide h \<and> mg_tenant_id g = mg_tenant_id h \<longrightarrow> mg_id g = mg_id h)"

definition guides_inv :: "uuid \<Rightarrow> marketing_guide list \<Rightarrow> bool" where
  "guides_inv n gs \<longleftrightarrow> distinct (map mg_id gs) \<and> (\<forall>g \<in> set gs. mg_id g < n) \<and>
     distinct (map (\<lambda>g. (mg_tenant_id g, mg_version g)) gs) \<and> one_active gs"

lemma guides_inv_later: "guides_inv n gs \<Longrightarrow> n \<le> n' \<Longrightarrow> guides_inv n' gs"
  unfolding guides_inv_def by (meson less_le_trans)

lemma guides_inv_new:
  assumes "guides_inv n gs" "mg_id g = n" "mg_status g = MarketingGuideStatus_DRAFT"
    and "row_find (\<lambda>x. mg_tenant_id x = mg_tenant_id g \<and> mg_version x = mg_version g) gs = None"
  shows "guides_inv (Suc n) (row_insert g gs)"
proof -
  have "one_active (row_insert g gs)"
    unfolding one_active_def
  proof (intro ballI impI)
    fix x y
    assume "x \<in> set (row_insert g gs)" "y \<in> set (row_insert g gs)"
      and both: "active_guide x \<and> active_guide y \<and> mg_tenant_id x = mg_tenant_id y"
    moreover have "x \<noteq> g" "y \<noteq> g" using both assms(3) by (auto simp: active_guide_def)
    ultimately have "x \<in> set gs" "y \<in> set gs" by (simp_all add: in_row_insert)
    then show "mg_id x = mg_id y" using assms(1) both unfolding guides_inv_def one_active_def by blast
  qed
  moreover have "(mg_tenant_id g, mg_version g) \<notin> (\<lambda>g. (mg_tenant_id g, mg_version g)) ` set gs"
    using assms(4) by (auto simp: row_find_None)
  moreover have "n \<notin> mg_id ` set gs" using assms(1) by (auto simp: guides_inv_def)
  ultimately show ?thesis
    using guides_inv_later[OF assms(1), of "Suc n"] assms(2) by (simp add: guides_inv_def row_insert_def)
qed

definition same_guide :: "marketing_guide \<Rightarrow> marketing_guide \<Rightarrow> bool" where
  "same_guide g h \<longleftrightarrow> mg_id h = mg_id g \<and> mg_tenant_id h = mg_tenant_id g \<and> mg_version h = mg_version g"

lemma guides_inv_map:
  assumes inv: "guides_inv n gs" and f: "\<And>g. same_guide g (f g)"
    and active: "one_active (map f gs)"
  shows "guides_inv n (map f gs)"
proof -
  have "mg_id (f g) = mg_id g" "mg_tenant_id (f g) = mg_tenant_id g" "mg_version (f g) = mg_version g" for g
    using f[of g] by (simp_all add: same_guide_def)
  then show ?thesis using inv active by (simp add: guides_inv_def o_def)
qed

lemma one_active_fewer:
  assumes "one_active gs" and f: "\<And>g. same_guide g (f g)" and active: "\<And>g. active_guide (f g) \<Longrightarrow> active_guide g"
  shows "one_active (map f gs)"
  unfolding one_active_def
proof (intro ballI impI)
  fix x y
  assume "x \<in> set (map f gs)" "y \<in> set (map f gs)"
  then obtain g h where "g \<in> set gs" "x = f g" "h \<in> set gs" "y = f h" by auto
  moreover assume "active_guide x \<and> active_guide y \<and> mg_tenant_id x = mg_tenant_id y"
  ultimately show "mg_id x = mg_id y"
    using assms(1) f[of g] f[of h] active[of g] active[of h] unfolding one_active_def same_guide_def by metis
qed

lemma one_active_only:
  assumes one: "one_active gs" and f: "\<And>g. same_guide g (f g)"
    and mine: "\<And>g. g \<in> set gs \<Longrightarrow> mg_id g = i \<Longrightarrow> mg_tenant_id g = t"
    and none: "\<And>g. g \<in> set gs \<Longrightarrow> mg_tenant_id g = t \<Longrightarrow> active_guide g \<Longrightarrow> mg_id g = i"
  shows "one_active (row_update mg_id i f gs)"
proof -
  have key: "mg_id g = i" if g: "g \<in> set (row_update mg_id i f gs)" "active_guide g" "mg_tenant_id g = t" for g
  proof -
    obtain r where r: "r \<in> set gs" "if mg_id r = i then g = f r else g = r" using g(1) unfolding in_row_update by blast
    show ?thesis
    proof (cases "mg_id r = i")
      case True
      then show ?thesis using r(2) f[of r] by (simp add: same_guide_def)
    next
      case False
      then have "g = r" using r(2) by simp
      then show ?thesis using none[OF r(1)] g(2,3) by simp
    qed
  qed
  have other: "g \<in> set gs" if g: "g \<in> set (row_update mg_id i f gs)" "mg_tenant_id g \<noteq> t" for g
  proof -
    obtain r where r: "r \<in> set gs" "if mg_id r = i then g = f r else g = r" using g(1) unfolding in_row_update by blast
    have "mg_id r \<noteq> i" using r mine[OF r(1)] f[of r] g(2) by (auto simp: same_guide_def)
    then show ?thesis using r by simp
  qed
  show ?thesis
    unfolding one_active_def
  proof (intro ballI impI)
    fix g h
    assume g: "g \<in> set (row_update mg_id i f gs)" and h: "h \<in> set (row_update mg_id i f gs)"
      and both: "active_guide g \<and> active_guide h \<and> mg_tenant_id g = mg_tenant_id h"
    show "mg_id g = mg_id h"
    proof (cases "mg_tenant_id g = t")
      case True
      then show ?thesis using key[OF g] key[OF h] both by simp
    next
      case False
      then have "g \<in> set gs" "h \<in> set gs" using other[OF g] other[OF h] both by simp_all
      then show ?thesis using one both unfolding one_active_def by blast
    qed
  qed
qed

lemma row_update_map: "row_update key k f rows = map (\<lambda>r. if key r = k then f r else r) rows"
  by (simp add: row_update_def)

lemma guides_inv_activate:
  assumes "guides_inv n gs" "\<And>g. same_guide g (f g)" "\<And>g. g \<in> set gs \<Longrightarrow> mg_id g = i \<Longrightarrow> mg_tenant_id g = t"
    and "\<And>g. g \<in> set gs \<Longrightarrow> mg_tenant_id g = t \<Longrightarrow> active_guide g \<Longrightarrow> mg_id g = i"
  shows "guides_inv n (row_update mg_id i f gs)"
proof -
  have "one_active (row_update mg_id i f gs)"
    by (rule one_active_only[OF _ assms(2,3,4)]) (use assms(1) in \<open>simp_all add: guides_inv_def\<close>)
  then show ?thesis unfolding row_update_map
    by (intro guides_inv_map[OF assms(1)]) (use assms(2) in \<open>simp_all add: same_guide_def\<close>)
qed

subsection \<open>Operations on guides\<close>

definition plans_ok :: "'z marketing_db_scheme \<Rightarrow> bool" where
  "plans_ok s \<longleftrightarrow> plans_inv (next_id s) (mk_plans s) (mk_plan_items s) \<and> guides_inv (next_id s) (mk_guides s)"

lemma plans_ok_fresh: "plans_ok s \<Longrightarrow> plans_ok (s\<lparr>next_id := Suc (next_id s)\<rparr>)"
  by (auto simp: plans_ok_def intro: plans_inv_later guides_inv_later)

lemma get_guide_or_404_ok [svc_ok]:
  "get_guide_or_404 t i s = (Inr g, s') \<longleftrightarrow> get_guide t i s = Some g \<and> s' = s"
  by (auto simp: get_guide_or_404_def svc_ok)

lemma assert_extra_json_safe_ok [svc_ok]:
  "assert_extra_json_safe d s = (Inr x, s') \<longleftrightarrow> \<not> secretish (JObj d) \<and> s' = s"
  by (auto simp: assert_extra_json_safe_def svc_ok)

lemma get_guide_Some: "get_guide t i s = Some g \<Longrightarrow> g \<in> set (mk_guides s) \<and> mg_tenant_id g = t \<and> mg_id g = i"
  unfolding get_guide_def by (rule scoped_get_Some)

lemma guides_activate_ok:
  assumes run: "activate_guide t u i s = (Inr r, s')" and inv: "guides_inv (next_id s) (mk_guides s)"
  shows "guides_inv (next_id s') (mk_guides s') \<and> next_id s' = next_id s \<and> mk_plans s' = mk_plans s \<and>
    mk_plan_items s' = mk_plan_items s"
proof -
  obtain g where g: "get_guide t i s = Some g" using run by (auto simp: activate_guide_def svc_ok)
  define f :: "marketing_guide \<Rightarrow> marketing_guide" where "f = (\<lambda>h. if mg_tenant_id h = t \<and> mg_status h = MarketingGuideStatus_ACTIVE \<and> mg_id h \<noteq> i
    then h\<lparr>mg_status := MarketingGuideStatus_SUPERSEDED, mg_updated_by_user_id := us_id u\<rparr> else h)"
  show ?thesis
  proof (cases "mg_status g = MarketingGuideStatus_ACTIVE")
    case True
    then show ?thesis using run g inv by (simp add: activate_guide_def svc_ok)
  next
    case False
    have s': "s' = s\<lparr>mk_guides := row_update mg_id i
        (\<lambda>g. g\<lparr>mg_status := MarketingGuideStatus_ACTIVE, mg_updated_by_user_id := us_id u\<rparr>) (map f (mk_guides s))\<rparr>"
      using run g False by (auto simp: activate_guide_def svc_ok supersede_others_def set_guide_active_def f_def)
    have same: "same_guide h (f h)" for h by (simp add: same_guide_def f_def)
    have fewer: "guides_inv (next_id s) (map f (mk_guides s))"
      by (rule guides_inv_map[OF inv same], rule one_active_fewer[OF _ same])
        (use inv in \<open>auto simp: guides_inv_def active_guide_def f_def split: if_splits\<close>)
    have mine: "mg_tenant_id h = t" if h: "h \<in> set (map f (mk_guides s))" "mg_id h = i" for h
    proof -
      obtain h0 where h0: "h0 \<in> set (mk_guides s)" "h = f h0" using h(1) by auto
      have "mg_id h0 = mg_id g" using h0(2) h(2) same[of h0] get_guide_Some[OF g] by (simp add: same_guide_def)
      then have "h0 = g"
        using inv h0(1) get_guide_Some[OF g] distinct_keys_eq[of mg_id "mk_guides s" h0 g] by (simp add: guides_inv_def)
      then show ?thesis using h0(2) same[of h0] get_guide_Some[OF g] by (simp add: same_guide_def)
    qed
    have none: "mg_id h = i" if h: "h \<in> set (map f (mk_guides s))" "mg_tenant_id h = t" "active_guide h" for h
    proof -
      obtain h0 where h0: "h0 \<in> set (mk_guides s)" "h = f h0" using h(1) by auto
      show ?thesis
      proof (cases "mg_tenant_id h0 = t \<and> mg_status h0 = MarketingGuideStatus_ACTIVE \<and> mg_id h0 \<noteq> i")
        case True
        then show ?thesis using h(3) by (simp add: h0(2) f_def active_guide_def)
      next
        case False
        then have "h = h0" by (simp only: h0(2) f_def if_False)
        then show ?thesis using False h(2,3) by (simp add: active_guide_def)
      qed
    qed
    have "guides_inv (next_id s) (row_update mg_id i
        (\<lambda>g. g\<lparr>mg_status := MarketingGuideStatus_ACTIVE, mg_updated_by_user_id := us_id u\<rparr>) (map f (mk_guides s)))"
      by (rule guides_inv_activate[OF fewer _ mine none]) (simp add: same_guide_def)
    then show ?thesis by (simp add: s')
  qed
qed

lemma plans_ok_activate: "plans_ok s \<Longrightarrow> activate_guide t u i s = (Inr r, s') \<Longrightarrow> plans_ok s'"
  using guides_activate_ok[of t u i s r s'] by (auto simp: plans_ok_def)

lemma plans_ok_create_draft:
  assumes ok: "plans_ok s" and run: "create_draft t u payload s = (Inr r, s')"
  shows "plans_ok s'"
proof -
  define s1 where "s1 = s\<lparr>next_id := Suc (next_id s),
    mk_guides := row_insert (new_guide (next_id s) t u (max_guide_version t s + 1) payload) (mk_guides s)\<rparr>"
  have go: "(if gc_activate payload then activate_guide t u (next_id s) else get_guide_or_404 t (next_id s)) s1 = (Inr r, s')"
    and free: "row_find (\<lambda>x. mg_tenant_id x = t \<and> mg_version x = max_guide_version t s + 1) (mk_guides s) = None"
    using run by (auto simp: create_draft_def svc_ok insert_guide_def new_guide_def s1_def)
  have "plans_ok s1"
    using ok free guides_inv_new[of "next_id s" "mk_guides s" "new_guide (next_id s) t u (max_guide_version t s + 1) payload"]
    by (auto simp: plans_ok_def s1_def new_guide_def intro: plans_inv_later)
  then show ?thesis using go plans_ok_activate by (auto simp: svc_ok split: if_splits)
qed

lemma plans_ok_update_guide:
  assumes ok: "plans_ok s" and run: "update_guide t u i payload s = (Inr r, s')"
  shows "plans_ok s'"
proof -
  have s': "s' = s\<lparr>mk_guides := row_update mg_id i (apply_guide_update u payload) (mk_guides s)\<rparr>"
    using run unfolding update_guide_def required_texts_def required_text_def assert_extra_json_safe_def
    by (auto simp: svc_ok split: patch.splits)
  have same: "same_guide g (if mg_id g = i then apply_guide_update u payload g else g)" for g
    by (simp add: same_guide_def apply_guide_update_def)
  have inv: "guides_inv (next_id s) (mk_guides s)" using ok by (simp add: plans_ok_def)
  have "guides_inv (next_id s) (row_update mg_id i (apply_guide_update u payload) (mk_guides s))"
    unfolding row_update_map
    by (rule guides_inv_map[OF inv same], rule one_active_fewer[OF _ same])
      (use inv in \<open>auto simp: guides_inv_def active_guide_def apply_guide_update_def split: if_splits\<close>)
  then show ?thesis using ok by (simp add: plans_ok_def s')
qed

subsection \<open>Operations on plans\<close>

lemma get_plan_or_404_ok [svc_ok]:
  "get_plan_or_404 t i s = (Inr p, s') \<longleftrightarrow> get_content_plan t i s = Some p \<and> s' = s"
  by (auto simp: get_plan_or_404_def svc_ok)

lemma get_item_or_404_ok [svc_ok]:
  "get_item_or_404 t i k s = (Inr x, s') \<longleftrightarrow> get_content_plan_item t i k s = Some x \<and> s' = s"
  by (auto simp: get_item_or_404_def svc_ok)

lemma get_rubric_or_404_ok [svc_ok]:
  "get_rubric_or_404 t i s = (Inr x, s') \<longleftrightarrow> get_rubric t i s = Some x \<and> s' = s"
  by (auto simp: get_rubric_or_404_def svc_ok)

lemma guards_ok [svc_ok]:
  "assert_metadata_safe d s = (Inr x, s') \<longleftrightarrow> \<not> secretish (JObj d) \<and> s' = s"
  "assert_period a b s = (Inr x, s') \<longleftrightarrow> a \<le> b \<and> s' = s"
  "assert_date_in_period c a b s = (Inr x, s') \<longleftrightarrow> a \<le> c \<and> c \<le> b \<and> s' = s"
  "require_draft_plan p s = (Inr x, s') \<longleftrightarrow> cp_status p = MarketingContentPlanStatus_DRAFT \<and> s' = s"
  "require_active_rubric t i s = (Inr x, s') \<longleftrightarrow>
     (\<exists>r. get_rubric t i s = Some r \<and> mb_status r = MarketingRubricStatus_ACTIVE) \<and> s' = s"
  by (auto simp: assert_metadata_safe_def assert_period_def assert_date_in_period_def require_draft_plan_def
      require_active_rubric_def svc_ok)

lemma get_plan_Some: "get_content_plan t i s = Some p \<Longrightarrow> p \<in> set (mk_plans s) \<and> cp_tenant_id p = t \<and> cp_id p = i"
  unfolding get_content_plan_def by (rule scoped_get_Some)

lemma get_item_Some:
  "get_content_plan_item t i k s = Some x \<Longrightarrow>
     x \<in> set (mk_plan_items s) \<and> pi_tenant_id x = t \<and> pi_plan_id x = i \<and> pi_id x = k"
  unfolding get_content_plan_item_def by (auto dest: row_find_Some)

lemma same_plan:
  "plans_ok s \<Longrightarrow> get_content_plan t i s = Some p \<Longrightarrow> q \<in> set (mk_plans s) \<Longrightarrow> cp_id q = i \<Longrightarrow> q = p"
  using get_plan_Some[of t i s p] by (auto simp: plans_ok_def plans_inv_def dest: distinct_keys_eq)

lemma same_item:
  "plans_ok s \<Longrightarrow> get_content_plan_item t i k s = Some x \<Longrightarrow> y \<in> set (mk_plan_items s) \<Longrightarrow> pi_id y = k \<Longrightarrow> y = x"
  using get_item_Some[of t i k s x] by (auto simp: plans_ok_def plans_inv_def dest: distinct_keys_eq)

lemma plans_ok_create_plan:
  assumes ok: "plans_ok s" and run: "create_plan t u payload s = (Inr r, s')"
  shows "plans_ok s'"
proof -
  obtain guide where "s' = s\<lparr>next_id := Suc (next_id s),
      mk_plans := row_insert (new_plan (next_id s) t u guide payload) (mk_plans s)\<rparr>"
    and "pc_period_start payload \<le> pc_period_end payload"
    using run by (auto simp: create_plan_def plan_guide_def insert_plan_def svc_ok split: option.splits)
  then show ?thesis
    using ok plans_inv_new_plan[of "next_id s" "mk_plans s" "mk_plan_items s" "new_plan (next_id s) t u guide payload"]
    by (auto simp: plans_ok_def new_plan_def intro: guides_inv_later)
qed

lemma items_in_period_ok [svc_ok]:
  "items_in_period a b items s = (Inr x, s') \<longleftrightarrow>
     s' = s \<and> (\<forall>y \<in> set items. pi_status y \<noteq> MarketingContentPlanItemStatus_CANCELLED \<longrightarrow>
       a \<le> pi_planned_date y \<and> pi_planned_date y \<le> b)"
  by (induction items) (auto simp: items_in_period_def svc_ok)

lemma in_plan_items: "x \<in> set (list_content_plan_items t i s) \<longleftrightarrow>
    x \<in> set (mk_plan_items s) \<and> pi_tenant_id x = t \<and> pi_plan_id x = i"
  by (auto simp: list_content_plan_items_def)

lemma plan_update_guide_ok:
  "plan_update_guide t g p s = (Inr q, s') \<Longrightarrow> s' = s \<and> cp_id q = cp_id p \<and> cp_tenant_id q = cp_tenant_id p \<and>
     cp_status q = cp_status p \<and> cp_period_start q = cp_period_start p \<and> cp_period_end q = cp_period_end p"
  by (cases g) (auto simp: plan_update_guide_def svc_ok)

lemma patch_guard_ok:
  "(case g of SetTo d \<Rightarrow> assert_metadata_safe d | _ \<Rightarrow> ret ()) s = (Inr x, s') \<Longrightarrow> s' = s"
  by (cases g) (auto simp: svc_ok)

lemma plans_ok_update_plan:
  assumes ok: "plans_ok s" and run: "update_plan t u i payload s = (Inr r, s')"
  shows "plans_ok s'"
proof -
  obtain p where p: "get_content_plan t i s = Some p" "cp_status p = MarketingContentPlanStatus_DRAFT"
    and s': "s' = s\<lparr>mk_plans := row_update cp_id i (\<lambda>_. r) (mk_plans s)\<rparr>"
    and period: "cp_period_start r \<le> cp_period_end r"
      "\<forall>x \<in> set (list_content_plan_items t i s). pi_status x \<noteq> MarketingContentPlanItemStatus_CANCELLED \<longrightarrow>
         cp_period_start r \<le> pi_planned_date x \<and> pi_planned_date x \<le> cp_period_end r"
    and r: "cp_id r = cp_id p" "cp_tenant_id r = cp_tenant_id p" "cp_status r = cp_status p"
    using run unfolding update_plan_def write_plan_def
    by (auto simp: svc_ok dest!: plan_update_guide_ok patch_guard_ok)
  have inv: "plans_inv (next_id s) (mk_plans s) (mk_plan_items s)" using ok by (simp add: plans_ok_def)
  have mine: "q = p" if "q \<in> set (mk_plans s)" "cp_id q = i" for q using same_plan[OF ok p(1) that] .
  have "row_update cp_id i (\<lambda>_. r) (mk_plans s) = row_update cp_id i (\<lambda>q. if q = p then r else q) (mk_plans s)"
    unfolding row_update_def using mine by (intro map_cong) auto
  moreover have "plans_inv (next_id s) (row_update cp_id i (\<lambda>q. if q = p then r else q) (mk_plans s)) (mk_plan_items s)"
  proof (rule plans_inv_write_plan[OF inv])
    show "cp_id (if q = p then r else q) = cp_id q \<and> cp_tenant_id (if q = p then r else q) = cp_tenant_id q" for q
      using r by simp
    show "cp_period_start (if q = p then r else q) \<le> cp_period_end (if q = p then r else q)"
      if "q \<in> set (mk_plans s)" "cp_id q = i" for q using mine[OF that] period(1) by simp
    show "item_fits (if q = p then r else q) x"
      if "q \<in> set (mk_plans s)" "x \<in> set (mk_plan_items s)" "cp_id q = i" "belongs q x" "item_fits q x" for q x
      using mine[OF that(1,3)] that(2,4,5) period(2) r(3) p(2) get_plan_Some[OF p(1)]
      by (auto simp: item_fits_def in_plan_items belongs_def)
  qed
  ultimately show ?thesis using ok by (simp add: plans_ok_def s')
qed

text \<open>The items a plan's approval approves.\<close>

definition item_approved :: "user \<Rightarrow> plan_item \<Rightarrow> plan_item" where
  "item_approved u x = x\<lparr>pi_status := MarketingContentPlanItemStatus_APPROVED, pi_updated_by_user_id := us_id u\<rparr>"

definition draft_ids :: "plan_item list \<Rightarrow> uuid set" where
  "draft_ids items = pi_id ` set (filter (\<lambda>y. pi_status y = MarketingContentPlanItemStatus_DRAFT) items)"

definition approve_those :: "user \<Rightarrow> uuid set \<Rightarrow> plan_item \<Rightarrow> plan_item" where
  "approve_those u S x = (if pi_id x \<in> S then item_approved u x else x)"

lemma approve_those_twice:
  "approve_those u S (if pi_id x = k then item_approved u x else x) = approve_those u (insert k S) x"
  by (simp add: approve_those_def item_approved_def)

lemma approve_items_ok:
  "for_each items (approve_item u) s = (Inr r, s') \<Longrightarrow>
     s' = s\<lparr>mk_plan_items := map (approve_those u (draft_ids items)) (mk_plan_items s)\<rparr> \<and>
     (\<forall>y \<in> set items. pi_status y \<in> {MarketingContentPlanItemStatus_DRAFT, MarketingContentPlanItemStatus_APPROVED})"
proof (induction items arbitrary: s)
  case Nil
  then show ?case by (simp add: svc_ok draft_ids_def approve_those_def[abs_def])
next
  case (Cons y items)
  obtain s1 where s1: "approve_item u y s = (Inr (), s1)" and rest: "for_each items (approve_item u) s1 = (Inr r, s')"
    using Cons.prems by (auto simp: svc_ok)
  note IH = Cons.IH[OF rest]
  show ?case
  proof (cases "pi_status y = MarketingContentPlanItemStatus_DRAFT")
    case True
    then have "s1 = s\<lparr>mk_plan_items := row_update pi_id (pi_id y) (item_approved u) (mk_plan_items s)\<rparr>"
      using s1 by (simp add: approve_item_def write_plan_item_def svc_ok item_approved_def[abs_def])
    moreover have "draft_ids (y # items) = insert (pi_id y) (draft_ids items)" using True by (simp add: draft_ids_def)
    ultimately show ?thesis using IH True by (simp add: row_update_def o_def approve_those_twice)
  next
    case False
    then have "s1 = s" "pi_status y = MarketingContentPlanItemStatus_APPROVED"
      using s1 by (auto simp: approve_item_def svc_ok)
    moreover have "draft_ids (y # items) = draft_ids items" using False by (simp add: draft_ids_def)
    ultimately show ?thesis using IH by simp
  qed
qed

lemma plans_ok_approve:
  assumes ok: "plans_ok s" and run: "approve_plan t u i s = (Inr r, s')"
  shows "plans_ok s'"
proof -
  define items where "items = filter (\<lambda>x. pi_status x \<noteq> MarketingContentPlanItemStatus_CANCELLED) (list_content_plan_items t i s)"
  define S where "S = draft_ids items"
  define g where "g = approve_those u S"
  obtain p s1 where p: "get_content_plan t i s = Some p" "cp_status p = MarketingContentPlanStatus_DRAFT"
    and each: "for_each items (approve_item u) s = (Inr (), s1)"
    and s': "s' = s1\<lparr>mk_plans := row_update cp_id i (\<lambda>r. r\<lparr>cp_status := MarketingContentPlanStatus_APPROVED,
      cp_updated_by_user_id := us_id u\<rparr>) (mk_plans s1)\<rparr>"
    using run unfolding approve_plan_def items_def by (auto simp: svc_ok write_plan_def)
  have s1: "s1 = s\<lparr>mk_plan_items := map g (mk_plan_items s)\<rparr>"
    using approve_items_ok[OF each] by (simp add: g_def S_def)
  have inv: "plans_inv (next_id s) (mk_plans s) (mk_plan_items s)" using ok by (simp add: plans_ok_def)
  have inS: "pi_id x \<in> S \<longleftrightarrow> pi_plan_id x = i \<and> pi_tenant_id x = t \<and> pi_status x = MarketingContentPlanItemStatus_DRAFT"
    if x: "x \<in> set (mk_plan_items s)" for x
  proof -
    have "y = x" if "y \<in> set (mk_plan_items s)" "pi_id y = pi_id x" for y
      using inv x that by (auto simp: plans_inv_def dest: distinct_keys_eq)
    then show ?thesis using x by (auto simp: S_def draft_ids_def items_def in_plan_items)
  qed
  have "plans_inv (next_id s) (row_update cp_id i (\<lambda>r. r\<lparr>cp_status := MarketingContentPlanStatus_APPROVED,
      cp_updated_by_user_id := us_id u\<rparr>) (mk_plans s)) (map g (mk_plan_items s))"
  proof (rule plans_inv_change[OF inv])
    show "g x = x" if "x \<in> set (mk_plan_items s)" "pi_plan_id x \<noteq> i" for x using inS[OF that(1)] that(2) by (simp add: g_def approve_those_def)
    show "cp_period_start (q\<lparr>cp_status := MarketingContentPlanStatus_APPROVED, cp_updated_by_user_id := us_id u\<rparr>)
        \<le> cp_period_end (q\<lparr>cp_status := MarketingContentPlanStatus_APPROVED, cp_updated_by_user_id := us_id u\<rparr>)"
      if "q \<in> set (mk_plans s)" for q using inv that by (simp add: plans_inv_def)
    show "item_fits (q\<lparr>cp_status := MarketingContentPlanStatus_APPROVED, cp_updated_by_user_id := us_id u\<rparr>) (g x)"
      if "q \<in> set (mk_plans s)" "x \<in> set (mk_plan_items s)" "cp_id q = i" "belongs q x" "item_fits q x" for q x
    proof -
      have "q = p" using same_plan[OF ok p(1) that(1,3)] .
      then have "cp_tenant_id q = t" "cp_status q = MarketingContentPlanStatus_DRAFT" using get_plan_Some[OF p(1)] p(2) by simp_all
      then show ?thesis using inS[OF that(2)] that(3,4,5)
        by (auto simp: g_def approve_those_def item_approved_def item_fits_def belongs_def)
    qed
  qed (simp_all add: g_def approve_those_def item_approved_def)
  then show ?thesis using ok by (simp add: plans_ok_def s' s1)
qed

lemma plans_ok_archive_plan:
  assumes ok: "plans_ok s" and run: "archive_plan t u i s = (Inr r, s')"
  shows "plans_ok s'"
proof -
  have inv: "plans_inv (next_id s) (mk_plans s) (mk_plan_items s)" using ok by (simp add: plans_ok_def)
  have "plans_inv (next_id s) (row_update cp_id i (\<lambda>r. r\<lparr>cp_status := MarketingContentPlanStatus_ARCHIVED,
      cp_updated_by_user_id := us_id u\<rparr>) (mk_plans s)) (mk_plan_items s)"
    by (rule plans_inv_write_plan[OF inv]) (use inv in \<open>auto simp: plans_inv_def item_fits_def\<close>)
  moreover have "s' = s \<or> s' = s\<lparr>mk_plans := row_update cp_id i (\<lambda>r. r\<lparr>cp_status := MarketingContentPlanStatus_ARCHIVED,
      cp_updated_by_user_id := us_id u\<rparr>) (mk_plans s)\<rparr>"
    using run unfolding archive_plan_def by (auto simp: svc_ok write_plan_def split: if_splits)
  ultimately show ?thesis using ok by (auto simp: plans_ok_def)
qed

lemma insert_plan_item_ok [svc_ok]:
  "insert_plan_item x s = (Inr r, s') \<longleftrightarrow>
     (\<forall>key. pi_external_line_key x = Some key \<longrightarrow>
        get_content_plan_item_by_line_key (pi_tenant_id x) (pi_plan_id x) key s = None) \<and> 0 \<le> pi_sort_order x \<and>
     s' = s\<lparr>mk_plan_items := row_insert x (mk_plan_items s)\<rparr>"
  by (auto simp: insert_plan_item_def svc_ok split: option.splits)

lemma plans_ok_create_item:
  assumes ok: "plans_ok s" and run: "create_item t u i payload s = (Inr r, s')"
  shows "plans_ok s'"
proof -
  obtain p key where p: "get_content_plan t i s = Some p" "cp_status p = MarketingContentPlanStatus_DRAFT"
    "cp_period_start p \<le> ic_planned_date payload" "ic_planned_date payload \<le> cp_period_end p"
    and s': "s' = s\<lparr>next_id := Suc (next_id s), mk_plan_items := row_insert (new_item (next_id s) t u i key payload) (mk_plan_items s)\<rparr>"
    using run unfolding create_item_def by (auto simp: svc_ok)
  have "plans_inv (Suc (next_id s)) (mk_plans s) (row_insert (new_item (next_id s) t u i key payload) (mk_plan_items s))"
    by (rule plans_inv_new_item[where p = p])
      (use ok p get_plan_Some[OF p(1)] in \<open>auto simp: plans_ok_def new_item_def belongs_def item_fits_def\<close>)
  then show ?thesis using ok by (auto simp: plans_ok_def s' intro: guides_inv_later)
qed

lemma plans_ok_write_item:
  assumes ok: "plans_ok s" and x: "get_content_plan_item t i k s = Some x" and p: "get_content_plan t i s = Some p"
    and g: "\<And>y. pi_id (g y) = pi_id y \<and> pi_plan_id (g y) = pi_plan_id y \<and> pi_tenant_id (g y) = pi_tenant_id y"
    and fits: "item_fits p x \<Longrightarrow> item_fits p (g x)"
  shows "plans_ok (s\<lparr>mk_plan_items := row_update pi_id k g (mk_plan_items s)\<rparr>)"
proof -
  have inv: "plans_inv (next_id s) (mk_plans s) (mk_plan_items s)" using ok by (simp add: plans_ok_def)
  have "plans_inv (next_id s) (mk_plans s) (row_update pi_id k g (mk_plan_items s))"
  proof (rule plans_inv_write_item[OF inv g])
    fix q y assume q: "q \<in> set (mk_plans s)" and y: "y \<in> set (mk_plan_items s)" "pi_id y = k"
      and fit: "belongs q y" "item_fits q y"
    have "y = x" using same_item[OF ok x y] .
    then have "q = p" using same_plan[OF ok p q] fit(1) get_item_Some[OF x] by (simp add: belongs_def)
    then show "item_fits q (g y)" using fits fit(2) \<open>y = x\<close> by simp
  qed
  then show ?thesis using ok by (simp add: plans_ok_def)
qed

lemma item_guards_ok:
  "(case d of SetTo c \<Rightarrow> assert_date_in_period c a b | _ \<Rightarrow> ret ()) s = (Inr x, s') \<Longrightarrow>
     s' = s \<and> (\<forall>c. d = SetTo c \<longrightarrow> a \<le> c \<and> c \<le> b)"
  "(case e of SetTo c \<Rightarrow> require_active_rubric t c | _ \<Rightarrow> ret ()) s = (Inr y, s') \<Longrightarrow> s' = s"
  by (cases d; auto simp: svc_ok) (cases e; auto simp: svc_ok)

lemma plans_ok_update_item:
  assumes ok: "plans_ok s" and run: "update_item t u i k payload s = (Inr r, s')"
  shows "plans_ok s'"
proof -
  obtain p x where p: "get_content_plan t i s = Some p" and x: "get_content_plan_item t i k s = Some x"
    "pi_status x = MarketingContentPlanItemStatus_DRAFT"
    and date: "\<forall>c. iu_planned_date payload = SetTo c \<longrightarrow> cp_period_start p \<le> c \<and> c \<le> cp_period_end p"
    and s': "s' = s\<lparr>mk_plan_items := row_update pi_id k (apply_item_update u payload) (mk_plan_items s)\<rparr>"
    using run unfolding update_item_def by (auto simp: svc_ok write_plan_item_def dest!: item_guards_ok)
  show ?thesis unfolding s'
    by (rule plans_ok_write_item[OF ok x(1) p])
      (use x(2) date in \<open>cases "iu_planned_date payload"; simp add: apply_item_update_def item_fits_def\<close>)+
qed

lemma plans_ok_cancel_item:
  assumes ok: "plans_ok s" and run: "cancel_item t u i k s = (Inr r, s')"
  shows "plans_ok s'"
proof (cases "s' = s")
  case False
  then obtain p x where p: "get_content_plan t i s = Some p" "cp_status p = MarketingContentPlanStatus_DRAFT"
    and x: "get_content_plan_item t i k s = Some x" "pi_status x = MarketingContentPlanItemStatus_DRAFT"
    and s': "s' = s\<lparr>mk_plan_items := row_update pi_id k (\<lambda>r. r\<lparr>pi_status := MarketingContentPlanItemStatus_CANCELLED,
      pi_updated_by_user_id := us_id u\<rparr>) (mk_plan_items s)\<rparr>"
    using run unfolding cancel_item_def by (auto simp: svc_ok write_plan_item_def split: if_splits)
  show ?thesis unfolding s'
    by (rule plans_ok_write_item[OF ok x(1) p(1)]) (use p(2) x(2) in \<open>simp_all add: item_fits_def\<close>)
qed (use ok in simp)

lemma record_audit_marketing:
  "record_audit e s = (Inr x, s') \<Longrightarrow> next_id s' = next_id s \<and> mk_plans s' = mk_plans s \<and>
     mk_plan_items s' = mk_plan_items s \<and> mk_guides s' = mk_guides s \<and> mk_topics s' = mk_topics s"
  by (auto simp: record_audit_ok)

lemma insert_topic_ok [svc_ok]:
  "insert_topic r s = (Inr x, s') \<longleftrightarrow> \<not> legacy_taken r s \<and> s' = s\<lparr>mk_topics := row_insert r (mk_topics s)\<rparr>"
  by (auto simp: insert_topic_def svc_ok)

lemma get_topic_Some: "get_topic t i s = Some r \<Longrightarrow> r \<in> set (mk_topics s) \<and> mt_tenant_id r = t \<and> mt_id r = i"
  unfolding get_topic_def by (rule scoped_get_Some)

lemma replay_topic_ok:
  "replay_topic t u i x j s = (Inr r, s') \<Longrightarrow>
     (\<exists>topic. get_topic t j s = Some topic \<and> r = (mt_id topic, True)) \<and> next_id s' = next_id s \<and> mk_plans s' = mk_plans s \<and>
     mk_guides s' = mk_guides s \<and> mk_topics s' = mk_topics s \<and>
     (pi_status x = MarketingContentPlanItemStatus_TOPIC_CREATED \<longrightarrow> mk_plan_items s' = mk_plan_items s)"
  by (auto simp: replay_topic_def svc_ok write_plan_item_def split: if_splits dest!: record_audit_marketing)

text \<open>What a creation that returned has done: found the topic there, or made it and linked the item to it.\<close>

definition linked_item :: "user \<Rightarrow> uuid \<Rightarrow> plan_item \<Rightarrow> plan_item" where
  "linked_item u j r = r\<lparr>pi_topic_id := Some j, pi_status := MarketingContentPlanItemStatus_TOPIC_CREATED,
     pi_updated_by_user_id := us_id u\<rparr>"

definition topic_outcome ::
    "uuid \<Rightarrow> user \<Rightarrow> uuid \<Rightarrow> uuid \<Rightarrow> uuid \<Rightarrow> bool \<Rightarrow> plan_item \<Rightarrow> 'z marketing_db_scheme \<Rightarrow> 'z marketing_db_scheme \<Rightarrow> bool" where
  "topic_outcome t u i k j replayed x s s' \<longleftrightarrow>
     replayed \<and> pi_topic_id x = Some j \<and> next_id s' = next_id s \<and> mk_plan_items s' = mk_plan_items s \<and> mk_topics s' = mk_topics s \<or>
     \<not> replayed \<and> pi_topic_id x = None \<and> j = next_id s \<and> next_id s' = Suc (next_id s) \<and>
     pi_status x = MarketingContentPlanItemStatus_APPROVED \<and>
     (\<exists>rubric. get_rubric t (pi_rubric_id x) s = Some rubric \<and>
        mk_topics s' = row_insert (topic_of_item j t u i rubric x) (mk_topics s)) \<and>
     mk_plan_items s' = row_update pi_id k (linked_item u j) (mk_plan_items s)"

lemma create_topic_from_item_ok:
  assumes ok: "plans_ok s" and run: "create_topic_from_item t u i k s = (Inr (j, replayed), s')"
  obtains p x where "get_content_plan t i s = Some p" "cp_status p = MarketingContentPlanStatus_APPROVED"
    "get_content_plan_item t i k s = Some x" "mk_plans s' = mk_plans s" "mk_guides s' = mk_guides s"
    and "topic_outcome t u i k j replayed x s s'"
proof -
  obtain p x where p: "get_content_plan t i s = Some p" "cp_status p = MarketingContentPlanStatus_APPROVED"
    and x: "get_content_plan_item t i k s = Some x"
    using run by (auto simp: create_topic_from_item_def svc_ok)
  have fits: "item_fits p x"
    using ok plan_of_item[of "next_id s" "mk_plans s" "mk_plan_items s" x p] get_item_Some[OF x] get_plan_Some[OF p(1)]
    by (simp add: plans_ok_def)
  show thesis
  proof (cases "pi_topic_id x")
    case (Some l)
    then have "replay_topic t u i x l s = (Inr (j, replayed), s')"
      using run p x by (simp add: create_topic_from_item_def svc_ok)
    from replay_topic_ok[OF this] Some fits get_topic_Some show thesis
      by (intro that[OF p x]) (auto simp: item_fits_def topic_outcome_def)
  next
    case None
    then show thesis
      using run p x by (intro that[OF p x])
        (auto simp: create_topic_from_item_def svc_ok link_topic_def write_plan_item_def topic_outcome_def
          linked_item_def[abs_def] dest!: record_audit_marketing)
  qed
qed

lemma plans_ok_create_topic:
  assumes ok: "plans_ok s" and run: "create_topic_from_item t u i k s = (Inr r, s')"
  shows "plans_ok s'"
proof -
  obtain j replayed where r: "r = (j, replayed)" by (cases r)
  obtain p x where p: "get_content_plan t i s = Some p" and approved: "cp_status p = MarketingContentPlanStatus_APPROVED"
    and x: "get_content_plan_item t i k s = Some x" and same: "mk_plans s' = mk_plans s" "mk_guides s' = mk_guides s"
    and result: "topic_outcome t u i k j replayed x s s'"
    using create_topic_from_item_ok[OF ok run[unfolded r]] by metis
  have "item_fits p (linked_item u j x)" if "item_fits p x" "pi_status x = MarketingContentPlanItemStatus_APPROVED"
    using that approved by (simp add: item_fits_def linked_item_def)
  then have "plans_ok (s\<lparr>mk_plan_items := row_update pi_id k (linked_item u j) (mk_plan_items s)\<rparr>)"
    if "pi_status x = MarketingContentPlanItemStatus_APPROVED"
    using that by (intro plans_ok_write_item[OF ok x p]) (simp_all add: linked_item_def)
  then show ?thesis
    using result ok plans_inv_later[of "next_id s" _ _ "Suc (next_id s)"] guides_inv_later[of "next_id s" _ "Suc (next_id s)"]
    by (auto simp: plans_ok_def same topic_outcome_def)
qed

text \<open>After it, the item has its topic, and the topic is there.\<close>

lemma get_linked_item:
  "get_content_plan_item t i k s = Some x \<Longrightarrow> mk_plan_items s' = row_update pi_id k (linked_item u j) (mk_plan_items s) \<Longrightarrow>
     get_content_plan_item t i k s' = Some (linked_item u j x)"
proof -
  have "row_find (\<lambda>x. pi_tenant_id x = t \<and> pi_plan_id x = i \<and> pi_id x = k) xs = Some x \<Longrightarrow>
      row_find (\<lambda>x. pi_tenant_id x = t \<and> pi_plan_id x = i \<and> pi_id x = k) (row_update pi_id k (linked_item u j) xs) =
        Some (linked_item u j x)" for xs
    by (induction xs) (auto simp: linked_item_def split: if_splits)
  then show "get_content_plan_item t i k s = Some x \<Longrightarrow> mk_plan_items s' = row_update pi_id k (linked_item u j) (mk_plan_items s) \<Longrightarrow>
      get_content_plan_item t i k s' = Some (linked_item u j x)"
    by (simp add: get_content_plan_item_def)
qed

lemma topic_linked:
  assumes ok: "plans_ok s" and run: "create_topic_from_item t u i k s = (Inr (j, replayed), s')"
  obtains p x topic where "get_content_plan t i s' = Some p" "cp_status p = MarketingContentPlanStatus_APPROVED"
    "get_content_plan_item t i k s' = Some x" "pi_topic_id x = Some j"
    "pi_status x = MarketingContentPlanItemStatus_TOPIC_CREATED" "get_topic t j s' = Some topic"
proof -
  obtain p x where p: "get_content_plan t i s = Some p" "cp_status p = MarketingContentPlanStatus_APPROVED"
    and x: "get_content_plan_item t i k s = Some x" and same: "mk_plans s' = mk_plans s"
    and result: "topic_outcome t u i k j replayed x s s'"
    using create_topic_from_item_ok[OF ok run] by metis
  have p': "get_content_plan t i s' = Some p" using p(1) same by (simp add: get_content_plan_def)
  show thesis
  proof (cases replayed)
    case True
    have "replay_topic t u i x j s = (Inr (j, replayed), s')"
      using run p x result True by (auto simp: create_topic_from_item_def svc_ok topic_outcome_def)
    then obtain topic where "get_topic t j s = Some topic" using replay_topic_ok by blast
    moreover have "item_fits p x"
      using ok plan_of_item[of "next_id s" "mk_plans s" "mk_plan_items s" x p] get_item_Some[OF x] get_plan_Some[OF p(1)]
      by (simp add: plans_ok_def)
    ultimately show thesis
      using result True x by (intro that[OF p' p(2), of x topic])
        (simp_all add: get_content_plan_item_def get_topic_def item_fits_def topic_outcome_def)
  next
    case False
    then obtain rubric where new: "mk_topics s' = row_insert (topic_of_item j t u i rubric x) (mk_topics s)"
      and items: "mk_plan_items s' = row_update pi_id k (linked_item u j) (mk_plan_items s)"
      using result by (auto simp: topic_outcome_def)
    have "\<exists>topic. get_topic t j s' = Some topic"
      by (auto simp: get_topic_def scoped_get_def new row_find_insert topic_of_item_def split: option.split)
    then show thesis
      using get_linked_item[OF x items] by (auto simp: linked_item_def intro: that[OF p' p(2)])
  qed
qed

subsection \<open>The import\<close>

lemma parse_document_ok:
  assumes "parse_document lib plan = Inr doc"
  shows "document_ok doc"
proof -
  have "document_ok doc" if "validate_document lib d = Some doc" for d
    using that by (auto simp: validate_document_def Let_def split: option.splits json.splits if_splits)
  moreover have "\<exists>d. validate_document lib d = Some doc" if "parse_document_object lib d = Inr doc" for d
    using that by (auto simp: parse_document_object_def split: option.splits)
  ultimately show ?thesis
    using assms by (auto simp: parse_document_def split: plan_payload.splits option.splits json.splits if_splits)
qed

lemma from_sum_ok [svc_ok]: "from_sum r s = (Inr x, s') \<longleftrightarrow> r = Inr x \<and> s' = s"
  by (cases r) (auto simp: from_sum_def svc_ok)

lemma resolve_for_commit_items:
  "resolve_for_commit t mapping n items s = Inr rs \<Longrightarrow> map fst rs = items"
  by (induction items arbitrary: n rs) (auto split: sum.splits resolution.splits)

definition fits_period :: "content_plan \<Rightarrow> (plan_item_document \<times> uuid) list \<Rightarrow> bool" where
  "fits_period p rs \<longleftrightarrow> (\<forall>x \<in> set (map fst rs). cp_period_start p \<le> dl_date x \<and> dl_date x \<le> cp_period_end p)"

lemma plans_ok_import_items:
  assumes "plans_ok s" "p \<in> set (mk_plans s)" "cp_id p = i" "cp_tenant_id p = t"
    and "cp_status p = MarketingContentPlanStatus_DRAFT" "fits_period p rs"
    and "import_items t u i n rs s = (Inr (), s')"
  shows "plans_ok s'"
  using assms
proof (induction rs arbitrary: n s)
  case Nil
  then show ?case by (simp add: svc_ok)
next
  case (Cons xr rs)
  obtain x rubric where xr: "xr = (x, rubric)" by (cases xr)
  define y where "y = imported_item (next_id s) t u i n rubric x"
  define s1 where "s1 = s\<lparr>next_id := Suc (next_id s), mk_plan_items := row_insert y (mk_plan_items s)\<rparr>"
  have rest: "import_items t u i (Suc n) rs s1 = (Inr (), s')"
    using Cons.prems(7) by (auto simp: xr svc_ok y_def s1_def)
  have "plans_inv (Suc (next_id s)) (mk_plans s) (row_insert y (mk_plan_items s))"
    using Cons.prems(1-6)
    by (intro plans_inv_new_item[where p = p])
      (auto simp: plans_ok_def y_def imported_item_def belongs_def item_fits_def fits_period_def xr)
  then have "plans_ok s1" using Cons.prems(1) by (auto simp: plans_ok_def s1_def intro: guides_inv_later)
  then show ?case
    using Cons.IH[of s1 "Suc n"] Cons.prems(2-6) rest by (simp add: s1_def fits_period_def)
qed

lemma plans_ok_import_new:
  assumes ok: "plans_ok s" and doc: "document_ok doc" and rs: "map fst rs = pd_items doc"
    and run: "import_new t u fp doc rs s = (Inr r, s')"
  shows "plans_ok s'"
proof -
  define p where "p = imported_plan (next_id s) t u fp (get_active_guide t s) doc"
  define s1 where "s1 = s\<lparr>next_id := Suc (next_id s), mk_plans := row_insert p (mk_plans s)\<rparr>"
  obtain s2 where items: "import_items t u (next_id s) 0 rs s1 = (Inr (), s2)"
    and s': "next_id s' = next_id s2 \<and> mk_plans s' = mk_plans s2 \<and> mk_plan_items s' = mk_plan_items s2 \<and> mk_guides s' = mk_guides s2"
    using run by (auto simp: import_new_def insert_plan_def svc_ok p_def s1_def imported_plan_def
        split: option.splits dest!: record_audit_marketing)
  have "plans_inv (Suc (next_id s)) (row_insert p (mk_plans s)) (mk_plan_items s)"
    using ok doc by (intro plans_inv_new_plan) (auto simp: plans_ok_def p_def imported_plan_def document_ok_def)
  then have ok1: "plans_ok s1" using ok by (auto simp: plans_ok_def s1_def intro: guides_inv_later)
  have fits: "fits_period p rs"
    unfolding fits_period_def rs using doc by (simp add: document_ok_def p_def imported_plan_def not_less)
  have "plans_ok s2"
    by (rule plans_ok_import_items[OF ok1 _ _ _ _ fits items])
      (simp_all add: s1_def in_row_insert p_def imported_plan_def)
  then show ?thesis using s' by (simp add: plans_ok_def)
qed

lemma replay_import_ok:
  "replay_import t u fp doc p s = (Inr r, s') \<Longrightarrow> next_id s' = next_id s \<and> mk_plans s' = mk_plans s \<and>
     mk_plan_items s' = mk_plan_items s \<and> mk_guides s' = mk_guides s \<and> mk_topics s' = mk_topics s"
  unfolding replay_import_def by (auto simp: svc_ok dest!: record_audit_marketing)

lemma plans_ok_commit_import:
  assumes ok: "plans_ok s" and run: "commit_import lib t u plan code_map s = (Inr r, s')"
  shows "plans_ok s'"
proof -
  obtain doc where doc: "parse_document lib plan = Inr doc"
    using run by (auto simp: commit_import_def svc_ok split: sum.splits)
  show ?thesis
  proof (cases "get_content_plan_by_fingerprint t (compute_import_fingerprint lib t doc) s")
    case None
    then obtain rs mapping where "resolve_for_commit t mapping 0 (pd_items doc) s = Inr rs"
      "import_new t u (compute_import_fingerprint lib t doc) doc rs s = (Inr r, s')"
      using run doc by (auto simp: commit_import_def svc_ok)
    then show ?thesis using plans_ok_import_new[OF ok parse_document_ok[OF doc]] resolve_for_commit_items by blast
  next
    case (Some p)
    then have "replay_import t u (compute_import_fingerprint lib t doc) doc p s = (Inr r, s')"
      using run doc by (auto simp: commit_import_def svc_ok)
    then show ?thesis using ok replay_import_ok by (fastforce simp: plans_ok_def)
  qed
qed

end
