(* ===== verification/Marketing_Routes.thy ===== *)
theory Marketing_Routes
  imports Marketing_Import Marketing_Preflight
begin

text \<open>
  The editorial part of \<^verbatim>\<open>marketing/routes.py\<close> with its guards from \<^verbatim>\<open>marketing/deps.py\<close>: every
  request but the search of topics, the service call it makes and who may make it.  A request is one transaction: \<^verbatim>\<open>db.commit()\<close> after
  the call, the roll-back of the session when it raises (\<open>marketing_request\<close>).  The bodies of the responses
  are left out.
\<close>

subsection \<open>Guards\<close>

definition require_module ::
    "string \<Rightarrow> (string \<Rightarrow> uuid option) \<Rightarrow> string option \<Rightarrow> user \<Rightarrow> ('z registry_db_scheme, tenant \<times> user) svc" where
  "require_module code parse_uuid x_tenant_id current_user =
     bindS (get_tenant_context parse_uuid None x_tenant_id current_user) (\<lambda>ctx.
     thenS (assert_enabled (tn_id (fst ctx)) code) (ret ctx))"

definition CONNECTION_ADMIN_ROLES :: "TenantRole list" where
  "CONNECTION_ADMIN_ROLES = [TenantRole_TENANT_OWNER, TenantRole_TENANT_ADMIN]"

definition connection_admin :: "tenant \<Rightarrow> user \<Rightarrow> bool" where
  "connection_admin tn u \<longleftrightarrow> staff_of_tenant_provider u tn \<or>
     user_has_any_tenant_role u (tn_id tn) CONNECTION_ADMIN_ROLES"

definition require_marketing_connection_admin ::
    "(string \<Rightarrow> uuid option) \<Rightarrow> string option \<Rightarrow> user \<Rightarrow> ('z registry_db_scheme, tenant \<times> user) svc" where
  "require_marketing_connection_admin parse_uuid x_tenant_id current_user =
     bindS (require_module ''marketing'' parse_uuid x_tenant_id current_user) (\<lambda>ctx.
     thenS (ensure (connection_admin (fst ctx) (snd ctx))
       (PermissionDeniedError ''Insufficient permissions for publishing connection management''))
     (ret ctx))"

abbreviation require_marketing_settings_admin ::
    "(string \<Rightarrow> uuid option) \<Rightarrow> string option \<Rightarrow> user \<Rightarrow> ('z registry_db_scheme, tenant \<times> user) svc" where
  "require_marketing_settings_admin \<equiv> require_marketing_connection_admin"

definition discard :: "('s, 'a) svc \<Rightarrow> ('s, unit) svc" where
  "discard m = bindS m (\<lambda>_. ret ())"

subsection \<open>Requests\<close>

datatype guide_request =
    CreateGuide guide_create
  | UpdateGuide uuid guide_update
  | ActivateGuide uuid
  | GetActiveGuide
  | ListGuides
  | GetGuide uuid

fun guide_routes :: "guide_request \<Rightarrow> uuid \<Rightarrow> user \<Rightarrow> ('z marketing_db_scheme, unit) svc" where
  "guide_routes (CreateGuide payload) t u = discard (create_draft t u payload)"
| "guide_routes (UpdateGuide i payload) t u = discard (update_guide t u i payload)"
| "guide_routes (ActivateGuide i) t u = discard (activate_guide t u i)"
| "guide_routes GetActiveGuide t u = discard (get_active_or_404 t)"
| "guide_routes ListGuides t u = discard (gets (list_guides t))"
| "guide_routes (GetGuide i) t u = discard (get_guide_or_404 t i)"

datatype rubric_request =
    CreateRubric rubric_create
  | SeedDefaultRubrics bool
  | UpdateRubric uuid rubric_update
  | ActivateRubric uuid
  | DeactivateRubric uuid
  | ArchiveRubric uuid
  | ListRubrics "MarketingRubricStatus option" bool
  | GetRubric uuid

fun rubric_routes ::
    "rubric_seed_row list \<Rightarrow> rubric_request \<Rightarrow> uuid \<Rightarrow> user \<Rightarrow> ('z marketing_db_scheme, unit) svc" where
  "rubric_routes rows (CreateRubric payload) t u = discard (create_rubric t u payload)"
| "rubric_routes rows (SeedDefaultRubrics force) t u = discard (seed_defaults t u force rows)"
| "rubric_routes rows (UpdateRubric i payload) t u = discard (update_rubric t u i payload)"
| "rubric_routes rows (ActivateRubric i) t u = discard (set_rubric_status t u i MarketingRubricStatus_ACTIVE)"
| "rubric_routes rows (DeactivateRubric i) t u = discard (set_rubric_status t u i MarketingRubricStatus_INACTIVE)"
| "rubric_routes rows (ArchiveRubric i) t u = discard (set_rubric_status t u i MarketingRubricStatus_ARCHIVED)"
| "rubric_routes rows (ListRubrics status archived) t u = discard (gets (list_rubrics t status archived))"
| "rubric_routes rows (GetRubric i) t u = discard (get_rubric_or_404 t i)"

datatype plan_request =
    CreateContentPlan plan_create
  | CommitContentPlanImport plan_payload "rubric_map option"
  | UpdateContentPlan uuid plan_update
  | ApproveContentPlan uuid
  | ArchiveContentPlan uuid
  | CreateContentPlanItem uuid item_create
  | UpdateContentPlanItem uuid uuid item_update
  | CancelContentPlanItem uuid uuid
  | CreateTopicFromContentPlanItem uuid uuid
  | ListContentPlans "MarketingContentPlanStatus option" nat nat
  | ExportContentPlanPrompt prompt_request
  | PreviewContentPlanImport plan_payload "rubric_map option"
  | GetContentPlan uuid
  | ListContentPlanItems uuid

fun plan_routes :: "plan_lib \<Rightarrow> plan_request \<Rightarrow> uuid \<Rightarrow> user \<Rightarrow> ('z marketing_db_scheme, unit) svc" where
  "plan_routes lib (CreateContentPlan payload) t u = discard (create_plan t u payload)"
| "plan_routes lib (CommitContentPlanImport plan m) t u = discard (commit_import lib t u plan m)"
| "plan_routes lib (UpdateContentPlan i payload) t u = discard (update_plan t u i payload)"
| "plan_routes lib (ApproveContentPlan i) t u = discard (approve_plan t u i)"
| "plan_routes lib (ArchiveContentPlan i) t u = discard (archive_plan t u i)"
| "plan_routes lib (CreateContentPlanItem i payload) t u = discard (create_item t u i payload)"
| "plan_routes lib (UpdateContentPlanItem i k payload) t u = discard (update_item t u i k payload)"
| "plan_routes lib (CancelContentPlanItem i k) t u = discard (cancel_item t u i k)"
| "plan_routes lib (CreateTopicFromContentPlanItem i k) t u = discard (create_topic_from_item t u i k)"
| "plan_routes lib (ListContentPlans status skip limit) t u = discard (gets (list_content_plans t status skip limit))"
| "plan_routes lib (ExportContentPlanPrompt payload) t u = discard (export_prompt t payload)"
| "plan_routes lib (PreviewContentPlanImport plan m) t u = discard (preview lib t plan m)"
| "plan_routes lib (GetContentPlan i) t u = discard (get_plan_or_404 t i)"
| "plan_routes lib (ListContentPlanItems i) t u =
     thenS (discard (get_plan_or_404 t i)) (discard (gets (list_content_plan_items t i)))"

datatype topic_request =
    CreateTopic topic_create
  | UpdateTopic uuid topic_update
  | TakeTopic uuid take_topic_request
  | ArchiveTopic uuid
  | MarkTopicUsed uuid
  | GetTopic uuid

fun topic_routes ::
    "day \<Rightarrow> instant \<Rightarrow> topic_request \<Rightarrow> uuid \<Rightarrow> user \<Rightarrow> ('z marketing_db_scheme, unit) svc" where
  "topic_routes today now (CreateTopic payload) t u = discard (create_topic t u payload)"
| "topic_routes today now (UpdateTopic i payload) t u = discard (update_topic t u i payload)"
| "topic_routes today now (TakeTopic i payload) t u = discard (take_topic today t u i payload)"
| "topic_routes today now (ArchiveTopic i) t u = discard (archive_topic t u i)"
| "topic_routes today now (MarkTopicUsed i) t u = discard (mark_used now t u i)"
| "topic_routes today now (GetTopic i) t u = discard (get_topic_or_404 t i)"

datatype pack_request =
    CreatePack pack_create
  | UpdatePack uuid pack_update
  | RunPackPreflight uuid "MarketingChannel list option"
  | ApprovePack uuid
  | RejectPack uuid "string option"
  | RecordHistoricalPublish uuid historical_publish_request
  | UpsertPackText uuid MarketingChannel pack_text_upsert
  | AttachPackMedia uuid media_create
  | UpdateMediaAsset uuid media_update
  | ArchiveMediaAsset uuid
  | ListPacks "MarketingPackStatus option" "uuid option" "day option" nat nat
  | GetPack uuid
  | ListPackTexts uuid
  | ListPackMedia uuid

fun pack_routes ::
    "day \<Rightarrow> instant \<Rightarrow> pack_request \<Rightarrow> uuid \<Rightarrow> user \<Rightarrow> ('z marketing_db_scheme, unit) svc" where
  "pack_routes today now (CreatePack payload) t u = discard (create_pack today t u payload)"
| "pack_routes today now (UpdatePack i payload) t u = discard (update_pack t u i payload)"
| "pack_routes today now (RunPackPreflight i channels) t u = discard (run_preflight now t u i channels)"
| "pack_routes today now (ApprovePack i) t u = discard (approve_pack now t u i)"
| "pack_routes today now (RejectPack i reason) t u = discard (reject_pack now t u i reason)"
| "pack_routes today now (RecordHistoricalPublish i payload) t u = discard (record_historical now t u i payload)"
| "pack_routes today now (UpsertPackText i channel payload) t u = upsert_pack_text t u i channel payload"
| "pack_routes today now (AttachPackMedia i payload) t u = discard (attach_media t u i payload)"
| "pack_routes today now (UpdateMediaAsset i payload) t u = discard (update_media t u i payload)"
| "pack_routes today now (ArchiveMediaAsset i) t u = discard (archive_media t u i)"
| "pack_routes today now (ListPacks status topic date skip limit) t u =
     discard (gets (list_packs t status topic date skip limit))"
| "pack_routes today now (GetPack i) t u = discard (get_pack_or_404 t i)"
| "pack_routes today now (ListPackTexts i) t u =
     thenS (discard (get_pack_or_404 t i)) (discard (gets (list_pack_texts t i)))"
| "pack_routes today now (ListPackMedia i) t u =
     thenS (discard (get_pack_or_404 t i)) (discard (gets (list_pack_media t i False)))"

text \<open>
  What a request is given beside its payload: the header and the user of the session, the clock, the plan
  library, the seed rows and \<^verbatim>\<open>uuid.UUID\<close>.
\<close>

record marketing_env =
  me_parse_uuid :: "string \<Rightarrow> uuid option"
  me_lib :: plan_lib
  me_seed_rows :: "rubric_seed_row list"

record marketing_call =
  mq_tenant_header :: "string option"
  mq_user :: user
  mq_today :: day
  mq_now :: instant

datatype marketing_request =
    GuideRequest guide_request
  | RubricRequest rubric_request
  | PlanRequest plan_request
  | TopicRequest topic_request
  | PackRequest pack_request

text \<open>The requests that ask for no more than the module.\<close>

fun guide_read :: "guide_request \<Rightarrow> bool" where
  "guide_read GetActiveGuide = True"
| "guide_read ListGuides = True"
| "guide_read (GetGuide i) = True"
| "guide_read r = False"

fun rubric_read :: "rubric_request \<Rightarrow> bool" where
  "rubric_read (ListRubrics status archived) = True"
| "rubric_read (GetRubric i) = True"
| "rubric_read r = False"

fun plan_read :: "plan_request \<Rightarrow> bool" where
  "plan_read (ListContentPlans status skip limit) = True"
| "plan_read (ExportContentPlanPrompt payload) = True"
| "plan_read (PreviewContentPlanImport plan m) = True"
| "plan_read (GetContentPlan i) = True"
| "plan_read (ListContentPlanItems i) = True"
| "plan_read r = False"

definition member_route ::
    "marketing_env \<Rightarrow> marketing_call \<Rightarrow> (uuid \<Rightarrow> user \<Rightarrow> ('z registry_db_scheme, unit) svc) \<Rightarrow>
     ('z registry_db_scheme, unit) svc" where
  "member_route e q f =
     bindS (require_module ''marketing'' (me_parse_uuid e) (mq_tenant_header q) (mq_user q)) (\<lambda>ctx.
     f (tn_id (fst ctx)) (snd ctx))"

definition admin_route ::
    "marketing_env \<Rightarrow> marketing_call \<Rightarrow> (uuid \<Rightarrow> user \<Rightarrow> ('z registry_db_scheme, unit) svc) \<Rightarrow>
     ('z registry_db_scheme, unit) svc" where
  "admin_route e q f =
     bindS (require_marketing_settings_admin (me_parse_uuid e) (mq_tenant_header q) (mq_user q)) (\<lambda>ctx.
     f (tn_id (fst ctx)) (snd ctx))"

fun marketing_handler ::
    "marketing_env \<Rightarrow> marketing_call \<Rightarrow> marketing_request \<Rightarrow> ('z marketing_db_scheme, unit) svc" where
  "marketing_handler e q (GuideRequest r) =
     (if guide_read r then member_route else admin_route) e q (guide_routes r)"
| "marketing_handler e q (RubricRequest r) =
     (if rubric_read r then member_route else admin_route) e q (rubric_routes (me_seed_rows e) r)"
| "marketing_handler e q (PlanRequest r) =
     (if plan_read r then member_route else admin_route) e q (plan_routes (me_lib e) r)"
| "marketing_handler e q (TopicRequest r) = member_route e q (topic_routes (mq_today q) (mq_now q) r)"
| "marketing_handler e q (PackRequest r) = member_route e q (pack_routes (mq_today q) (mq_now q) r)"

definition marketing_request ::
    "marketing_env \<Rightarrow> marketing_call \<Rightarrow> marketing_request \<Rightarrow> ('z marketing_db_scheme, unit) svc" where
  "marketing_request e q r = atomic (marketing_handler e q r)"

lemma discard_ok [svc_ok]: "discard m s = (Inr x, s') \<longleftrightarrow> (\<exists>y. m s = (Inr y, s'))"
  by (auto simp: discard_def svc_ok)

lemma tenant_context_ok:
  "get_tenant_context pu x h u s = (Inr (tn, u'), s') \<Longrightarrow> s' = s \<and> u' = u \<and>
     tn \<in> set (tenants s) \<and> (staff_of_tenant_provider u tn \<or> active_member_of u (tn_id tn))"
  by (auto simp: get_tenant_context_def get_tenant_def svc_ok split: option.splits if_splits dest: row_find_Some)

text \<open>A route's body runs, for a member of the tenant whose module is enabled, on the state it was called in.\<close>

lemma member_route_ok:
  assumes "member_route e q f s = (Inr (), s')"
  obtains tn where "f (tn_id tn) (mq_user q) s = (Inr (), s')" "tn \<in> set (tenants s)" "is_active (tn_id tn) ''marketing'' s"
    "staff_of_tenant_provider (mq_user q) tn \<or> active_member_of (mq_user q) (tn_id tn)"
  using assms
  by (auto simp: member_route_def require_module_def svc_ok assert_enabled_def is_active_def
      dest!: tenant_context_ok split: option.splits)

lemma admin_route_ok:
  assumes "admin_route e q f s = (Inr (), s')"
  obtains tn where "f (tn_id tn) (mq_user q) s = (Inr (), s')" "tn \<in> set (tenants s)" "is_active (tn_id tn) ''marketing'' s"
    "connection_admin tn (mq_user q)"
  using assms
  by (auto simp: admin_route_def require_marketing_connection_admin_def require_module_def svc_ok assert_enabled_def
      is_active_def dest!: tenant_context_ok split: option.splits)

end
