(* ===== verification/Marketing_Frames.thy ===== *)
theory Marketing_Frames
  imports Marketing_Safety Marketing_Plan_Safety Marketing_Routes
begin

text \<open>
  What an invariant has to bear to be kept by the operations it says nothing about: the interfaces
  \<open>topic_side\<close> (topics, rubrics, the audit and publish logs are written freely), \<open>pack_side\<close> (packs, texts and
  media too) and \<open>planning_side\<close> (guides, plans and items too).  The invariant of the plans is a
  \<open>pack_side\<close>, the invariant of the packs a \<open>planning_side\<close>, and a handled request keeps both.
\<close>

locale topic_side =
  fixes I :: "'z marketing_db_scheme \<Rightarrow> bool"
  assumes fresh: "I s \<Longrightarrow> I (s\<lparr>next_id := Suc (next_id s)\<rparr>)"
    and topics: "I s \<Longrightarrow> I (s\<lparr>mk_topics := ts\<rparr>)"
    and rubrics: "I s \<Longrightarrow> I (s\<lparr>mk_rubrics := bs\<rparr>)"
    and logs: "I s \<Longrightarrow> I (s\<lparr>mk_logs := ls\<rparr>)"
    and audit: "I s \<Longrightarrow> I (s\<lparr>audit_logs := us\<rparr>)"
begin

lemma side_fresh: "preserves I fresh_id"
  by (simp add: preserves_def fresh_id_def fresh)

lemma side_audit: "preserves I (record_audit a)"
  by (simp add: preserves_def record_audit_def modify_def audit)

lemma side_insert_topic: "preserves I (insert_topic r)" and side_store_topic: "preserves I (store_topic r)"
  by (auto simp: insert_topic_def store_topic_def intro!: preserves_bindS preserves_thenS preserves_modify topics)

lemma side_insert_rubric: "preserves I (insert_rubric r)" and side_write_rubric: "preserves I (write_rubric i f)"
  by (auto simp: insert_rubric_def write_rubric_def intro!: preserves_bindS preserves_thenS preserves_modify rubrics)

lemma side_insert_rubric_or_duplicate: "preserves I (insert_rubric_or_duplicate r)"
proof -
  have "snd (insert_rubric_or_duplicate r s) = snd (insert_rubric r s)" for s :: "'z marketing_db_scheme"
    by (auto simp: insert_rubric_or_duplicate_def split: prod.split sum.split exn.split)
  then show ?thesis using side_insert_rubric[of r] by (simp add: preserves_def)
qed

lemma side_publish_log: "preserves I (create_publish_log l)"
  by (simp add: preserves_def create_publish_log_def modify_def logs)

lemma side_lookups:
  "preserves I (get_topic_or_404 t i)" "preserves I (get_rubric_or_404 t i)" "preserves I (get_guide_or_404 t i)"
  "preserves I (get_plan_or_404 t i)" "preserves I (get_item_or_404 t i k)" "preserves I (get_pack_or_404 t i)"
  "preserves I (get_asset_or_404 t i)" "preserves I (get_active_or_404 t)" "preserves I (assert_code_selectable_for_new_topic t c)"
  by (auto simp: get_topic_or_404_def get_rubric_or_404_def get_guide_or_404_def get_plan_or_404_def get_item_or_404_def
      get_pack_or_404_def get_asset_or_404_def get_active_or_404_def assert_code_selectable_for_new_topic_def intro!: preserves_bindS)

lemmas side_basics = preserves_bindS preserves_thenS preserves_whenS preserves_for_each side_fresh side_audit side_insert_topic
  side_store_topic side_insert_rubric_or_duplicate side_insert_rubric side_write_rubric side_publish_log side_lookups

lemma side_topics:
  "preserves I (create_topic t u tc)" "preserves I (update_topic t u i tv)" "preserves I (archive_topic t u i)"
  "preserves I (mark_used now t u i)"
  by (auto simp: create_topic_def update_topic_def archive_topic_def mark_used_def intro!: side_basics split: option.split)

lemma side_seed: "preserves I (seed_defaults t u force rows)"
proof -
  have "preserves I (seed_rubric t u force row)" for row
    by (auto simp: seed_rubric_def intro!: side_basics split: option.split)
  then show ?thesis by (induction rows) (auto intro!: side_basics)
qed

lemma side_rubrics:
  "preserves I (create_rubric t u rc)" "preserves I (update_rubric t u i rv)" "preserves I (set_rubric_status t u i st)"
  by (auto simp: create_rubric_def update_rubric_def set_rubric_status_def intro!: side_basics)

end

locale pack_side = topic_side I for I :: "'z marketing_db_scheme \<Rightarrow> bool" +
  assumes packs: "I s \<Longrightarrow> I (s\<lparr>mk_packs := ps\<rparr>)"
    and texts: "I s \<Longrightarrow> I (s\<lparr>mk_texts := xs\<rparr>)"
    and media: "I s \<Longrightarrow> I (s\<lparr>mk_media := ms\<rparr>)"
begin

lemma side_pack_writes:
  "preserves I (insert_pack p)" "preserves I (write_pack i f)" "preserves I (insert_text x)" "preserves I (write_text i g)"
  "preserves I (create_media_asset m)" "preserves I (write_media i h)" "preserves I (reset_pack u i)"
  by (auto simp: insert_pack_def write_pack_def insert_text_def write_text_def create_media_asset_def write_media_def
      reset_pack_def intro!: preserves_bindS preserves_thenS preserves_modify packs texts media)

lemmas side_pack_basics = side_basics side_pack_writes

lemma side_draft: "preserves I (create_draft_pack_with_texts t u d)"
  unfolding create_draft_pack_with_texts_def create_stub_text_def by (intro side_pack_basics preserves_ret)

lemma side_take: "preserves I (take_topic today t u i tk)" "preserves I (create_pack today t u pk)"
  unfolding take_topic_def create_pack_def assert_take_allowed_def
  by (auto intro!: side_pack_basics side_draft split: option.split)

lemma side_update_pack: "preserves I (update_pack t u i payload)"
  unfolding update_pack_def apply_safe_status_change_def
  by (intro side_pack_basics preserves_ensure preserves_ret; (auto intro!: side_pack_basics split: option.split)?)

lemma side_review:
  "preserves I (run_preflight now t u i channels)" "preserves I (approve_pack now t u i)"
  "preserves I (reject_pack now t u i reason)"
  unfolding run_preflight_def assert_preflight_allowed_def approve_pack_def reject_pack_def
  by (auto intro!: side_pack_basics)

lemma side_historical: "preserves I (record_historical now t u i payload)"
proof -
  have one: "preserves I (record_channel now t u i published payload c)" for published c
    unfolding record_channel_def by (auto intro!: side_pack_basics split: option.split)
  have "preserves I (record_channels now t u i published payload cs)" for published cs
    by (induction cs) (simp_all only: record_channels.simps one preserves_bindS preserves_ret)
  then show ?thesis
    unfolding record_historical_def by (intro side_pack_basics preserves_ret preserves_gets preserves_ensure)
qed

lemma side_content:
  "preserves I (upsert_pack_text t u i channel payload)" "preserves I (attach_media t u i mc)"
  "preserves I (update_media t u k mu)" "preserves I (archive_media t u k)"
  unfolding upsert_pack_text_def upsert_text_row_def attach_media_def update_media_def archive_media_def validate_mime_def
    reset_pack_of_asset_def Let_def
  by (auto intro!: side_pack_basics split: option.split)

lemma side_pack_routes: "preserves I (pack_routes today now r t u)"
  by (cases r)
    (simp_all add: discard_def preserves_bindS preserves_thenS side_lookups side_take side_update_pack side_review
      side_historical side_content)

lemma side_topic_routes: "preserves I (topic_routes today now r t u)"
  by (cases r) (simp_all add: discard_def preserves_bindS side_lookups side_topics side_take)

lemma side_rubric_routes: "preserves I (rubric_routes rows r t u)"
  by (cases r) (simp_all add: discard_def preserves_bindS side_lookups side_rubrics side_seed)

end

locale planning_side = topic_side I for I :: "'z marketing_db_scheme \<Rightarrow> bool" +
  assumes guides: "I s \<Longrightarrow> I (s\<lparr>mk_guides := gs\<rparr>)"
    and plans: "I s \<Longrightarrow> I (s\<lparr>mk_plans := ps\<rparr>)"
    and items: "I s \<Longrightarrow> I (s\<lparr>mk_plan_items := xs\<rparr>)"
begin

lemma side_planning_writes:
  "preserves I (insert_guide g)" "preserves I (supersede_others t u i)" "preserves I (set_guide_active t u i)"
  "preserves I (insert_plan p)" "preserves I (write_plan i f)" "preserves I (insert_plan_item x)"
  "preserves I (write_plan_item i h)"
  by (auto simp: insert_guide_def supersede_others_def set_guide_active_def insert_plan_def write_plan_def
      insert_plan_item_def write_plan_item_def intro!: preserves_bindS preserves_thenS preserves_modify guides plans items)

lemmas side_planning_basics = side_basics side_planning_writes

lemma side_activate: "preserves I (activate_guide t u i)"
  unfolding activate_guide_def by (auto intro!: side_planning_basics)

lemma side_guides:
  "preserves I (create_draft t u gc)" "preserves I (update_guide t u i gv)"
  unfolding create_draft_def update_guide_def assert_extra_json_safe_def required_texts_def required_text_def
  by (auto intro!: side_planning_basics side_activate preserves_modify guides split: patch.split)

lemma side_guide_routes: "preserves I (guide_routes r t u)"
  by (cases r) (simp_all add: discard_def preserves_bindS side_lookups side_guides side_activate)

lemma side_guards:
  "preserves I (assert_period a b)" "preserves I (assert_metadata_safe d)" "preserves I (assert_date_in_period x a b)"
  "preserves I (require_draft_plan p)" "preserves I (require_active_rubric t i)" "preserves I (plan_guide t g)"
  "preserves I (plan_update_guide t pg p)" "preserves I (items_in_period a b xs)" "preserves I (approve_item u y)"
  by (auto simp: assert_period_def assert_metadata_safe_def assert_date_in_period_def require_draft_plan_def
      require_active_rubric_def plan_guide_def plan_update_guide_def items_in_period_def approve_item_def
      intro!: side_planning_basics split: option.split patch.split)

lemma side_plans:
  "preserves I (create_plan t u pc)" "preserves I (update_plan t u i pv)" "preserves I (approve_plan t u i)"
  "preserves I (archive_plan t u i)"
  unfolding create_plan_def update_plan_def approve_plan_def archive_plan_def
  by (auto intro!: side_planning_basics side_guards split: patch.split)

lemma side_items:
  "preserves I (create_item t u i ic)" "preserves I (update_item t u i k iu)" "preserves I (cancel_item t u i k)"
  unfolding create_item_def update_item_def cancel_item_def
  by (auto intro!: side_planning_basics side_guards split: patch.split)

lemma side_item_topic: "preserves I (create_topic_from_item t u i k)"
  unfolding create_topic_from_item_def replay_topic_def link_topic_def
  by (auto intro!: side_planning_basics split: option.split)

lemma side_from_sum: "preserves I (from_sum r)"
  by (cases r) (simp_all add: from_sum_def)

lemma side_import: "preserves I (commit_import lib t u plan m)"
proof -
  have "preserves I (import_items t u i n rs)" for i n rs
    by (induction t u i n rs rule: import_items.induct) (auto intro!: side_planning_basics)
  then have "preserves I (import_new t u fp doc rs)" for fp doc rs
    unfolding import_new_def by (auto intro!: side_planning_basics)
  moreover have "preserves I (replay_import t u fp doc p)" for fp doc p
    unfolding replay_import_def by (auto intro!: side_planning_basics)
  ultimately show ?thesis
    unfolding commit_import_def by (auto intro!: side_planning_basics side_from_sum split: sum.split option.split)
qed

lemma side_prompt: "preserves I (export_prompt t payload)" "preserves I (preview lib t plan m)"
proof -
  have rubrics: "preserves I (rubrics_by_id t is)" for "is" by (induction "is") (auto intro!: side_basics)
  have "preserves I (prompt_channels cs out)" for cs out
    by (induction cs out rule: prompt_channels.induct) (auto simp: Let_def intro!: side_basics)
  then have channels: "preserves I (normalize_prompt_channels cs)" for cs
    by (simp add: normalize_prompt_channels_def del: prompt_channels.simps split: option.split list.split)
  show "preserves I (export_prompt t payload)"
    unfolding export_prompt_def resolve_rubrics_def
    by (auto intro!: side_basics rubrics channels split: option.split)
  show "preserves I (preview lib t plan m)"
    unfolding preview_def by (auto intro!: side_basics side_from_sum split: sum.split)
qed

lemma side_plan_routes: "preserves I (plan_routes lib r t u)"
  by (cases r)
    (simp_all add: discard_def preserves_bindS preserves_thenS side_lookups side_prompt side_plans side_items side_item_topic side_import)

end

interpretation plans_side: pack_side plans_ok
  by unfold_locales (auto simp: plans_ok_fresh, simp_all add: plans_ok_def)

interpretation packs_side: planning_side packs_ok
  by unfold_locales (auto simp: packs_ok_def intro: packs_inv_later)

end
