(* ===== verification/Marketing_Properties.thy ===== *)
theory Marketing_Properties
  imports Marketing_Frames
begin

text \<open>
  The requests of the marketing module as a machine, a session of one tenant, and the properties: what a
  preflight decides and what stays true of a pack until it is approved, what a plan and its items are, and
  what a repeated import or a repeated creation of a topic does.
\<close>

subsection \<open>Requests\<close>

inductive marketing_step :: "marketing_env \<Rightarrow> 'z marketing_db_scheme \<Rightarrow> 'z marketing_db_scheme \<Rightarrow> bool" for e where
  step_request: "marketing_step e s (snd (marketing_request e q r s))"

definition marketing_start :: "'z marketing_db_scheme \<Rightarrow> bool" where
  "marketing_start s \<longleftrightarrow> mk_packs s = [] \<and> mk_texts s = [] \<and> mk_media s = [] \<and> mk_plans s = [] \<and>
     mk_plan_items s = [] \<and> mk_guides s = []"

definition marketing_ok :: "'z marketing_db_scheme \<Rightarrow> bool" where
  "marketing_ok s \<longleftrightarrow> packs_ok s \<and> plans_ok s"

lemma packs_ok_pack_routes:
  "packs_ok s \<Longrightarrow> pack_routes today now r t u s = (Inr (), s') \<Longrightarrow> packs_ok s'"
  by (cases r)
    (auto simp: svc_ok dest: packs_ok_create_pack preservesD[OF preserves_packs_update] packs_ok_preflight packs_ok_approve
      packs_ok_reject preservesD[OF preserves_packs_historical] packs_ok_upsert_text packs_ok_attach_media
      packs_ok_update_media packs_ok_archive_media)

lemma packs_ok_topic_routes:
  "packs_ok s \<Longrightarrow> topic_routes today now r t u s = (Inr (), s') \<Longrightarrow> packs_ok s'"
  by (cases r)
    (auto simp: svc_ok dest: packs_ok_take_topic preservesD[OF packs_side.side_topics(1)]
      preservesD[OF packs_side.side_topics(2)] preservesD[OF packs_side.side_topics(3)]
      preservesD[OF packs_side.side_topics(4)])

lemma packs_side_rubric_routes: "preserves packs_ok (rubric_routes rows r t u)"
  by (cases r)
    (simp_all add: discard_def preserves_bindS packs_side.side_lookups packs_side.side_rubrics packs_side.side_seed)

lemma reads_ok [svc_ok]:
  "get_active_or_404 t s = (Inr g, s') \<longleftrightarrow> get_active_guide t s = Some g \<and> s' = s"
  by (auto simp: get_active_or_404_def svc_ok)

lemma reads_keep:
  fixes s s' :: "'a marketing_db_scheme"
  shows "export_prompt t payload s = (Inr x, s') \<Longrightarrow> s' = s" "preview lib t plan m s = (Inr y, s') \<Longrightarrow> s' = s"
proof -
  have rubrics: "rubrics_by_id t is s = (Inr rs, s') \<Longrightarrow> s' = s" for "is" rs and s s' :: "'a marketing_db_scheme"
    by (induction "is" arbitrary: rs) (auto simp: svc_ok)
  have channels: "prompt_channels cs out s = (Inr ys, s') \<Longrightarrow> s' = s" for cs out ys and s s' :: "'a marketing_db_scheme"
    by (induction cs out arbitrary: s rule: prompt_channels.induct) (auto simp: Let_def svc_ok)
  then have normalized: "normalize_prompt_channels cs s = (Inr ys, s') \<Longrightarrow> s' = s" for cs ys and s s' :: "'a marketing_db_scheme"
    by (auto simp: normalize_prompt_channels_def svc_ok simp del: prompt_channels.simps split: option.splits list.splits)
  show "export_prompt t payload s = (Inr x, s') \<Longrightarrow> s' = s"
    unfolding export_prompt_def resolve_rubrics_def
    by (auto simp: svc_ok split: option.splits dest!: rubrics normalized)
  show "preview lib t plan m s = (Inr y, s') \<Longrightarrow> s' = s"
    unfolding preview_def by (cases "parse_document lib plan") (auto simp: svc_ok)
qed

lemma plans_ok_guide_routes: "plans_ok s \<Longrightarrow> guide_routes r t u s = (Inr (), s') \<Longrightarrow> plans_ok s'"
  by (cases r) (auto simp: svc_ok dest: plans_ok_create_draft plans_ok_update_guide plans_ok_activate)

lemma plans_ok_plan_routes: "plans_ok s \<Longrightarrow> plan_routes lib r t u s = (Inr (), s') \<Longrightarrow> plans_ok s'"
  by (cases r)
    (auto simp: svc_ok dest: plans_ok_create_plan plans_ok_commit_import plans_ok_update_plan plans_ok_approve
      plans_ok_archive_plan plans_ok_create_item plans_ok_update_item plans_ok_cancel_item plans_ok_create_topic reads_keep)

lemma marketing_handler_ok:
  assumes ok: "marketing_ok s" and run: "marketing_handler e q r s = (Inr (), s')"
  shows "marketing_ok s'"
proof (cases r)
  case (GuideRequest x)
  then show ?thesis using ok run preservesD[OF packs_side.side_guide_routes]
    by (auto simp: marketing_ok_def elim!: admin_route_ok member_route_ok intro: plans_ok_guide_routes split: if_splits)
next
  case (RubricRequest x)
  then show ?thesis
    using ok run preservesD[OF packs_side_rubric_routes] preservesD[OF plans_side.side_rubric_routes]
    by (auto simp: marketing_ok_def elim!: admin_route_ok member_route_ok split: if_splits)
next
  case (PlanRequest x)
  then show ?thesis using ok run preservesD[OF packs_side.side_plan_routes]
    by (auto simp: marketing_ok_def elim!: admin_route_ok member_route_ok intro: plans_ok_plan_routes split: if_splits)
next
  case (TopicRequest x)
  then show ?thesis using ok run preservesD[OF plans_side.side_topic_routes]
    by (auto simp: marketing_ok_def elim!: member_route_ok intro: packs_ok_topic_routes)
next
  case (PackRequest x)
  then show ?thesis using ok run preservesD[OF plans_side.side_pack_routes]
    by (auto simp: marketing_ok_def elim!: member_route_ok intro: packs_ok_pack_routes)
qed

interpretation marketing: invariant_machine marketing_start "marketing_step e" marketing_ok for e
proof
  show "marketing_ok s" if "marketing_start s" for s :: "'a marketing_db_scheme"
    using that by (simp add: marketing_start_def marketing_ok_def packs_ok_def packs_inv_def plans_ok_def plans_inv_def
        guides_inv_def one_active_def)
  show "marketing_ok s'" if ok: "marketing_ok s" and step: "marketing_step e s s'" for s s' :: "'a marketing_db_scheme"
    using step
  proof cases
    case (step_request q r)
    show ?thesis
      unfolding step_request marketing_request_def
      by (rule atomic_keeps[of marketing_ok, OF ok]) (use marketing_handler_ok[OF ok] in auto)
  qed
qed

lemma marketing_packs_ok: "reachable marketing_start (marketing_step e) s \<Longrightarrow> packs_ok s"
  using marketing.reachable_inv[of e s] by (simp add: marketing_ok_def)

lemma marketing_plans_ok: "reachable marketing_start (marketing_step e) s \<Longrightarrow> plans_ok s"
  using marketing.reachable_inv[of e s] by (simp add: marketing_ok_def)

subsection \<open>A session\<close>

text \<open>
  One tenant (0) with the module enabled and an owner (9); a rubric (0) and an approved topic (1) are there
  from the start.
\<close>

definition promo_env :: marketing_env where
  "promo_env = \<lparr>me_parse_uuid = (\<lambda>h. if h = ''t'' then Some 0 else None),
     me_lib = \<lparr>pl_date = (\<lambda>j. case j of JInt n \<Rightarrow> Some n | _ \<Rightarrow> None), pl_loads = (\<lambda>_. None),
       pl_digest = (\<lambda>_. ''f'')\<rparr>, me_seed_rows = []\<rparr>"

definition promo_user :: "TenantRole \<Rightarrow> user" where
  "promo_user role = \<lparr>us_id = 9, us_email = [], us_hashed_password = [], us_full_name = [], us_is_active = True,
     us_provider_staff = [],
     us_tenant_memberships = [\<lparr>um_id = 0, um_tenant_id = 0, um_user_id = 9, um_role = role, um_is_active = True\<rparr>]\<rparr>"

abbreviation promo_owner :: user where
  "promo_owner \<equiv> promo_user TenantRole_TENANT_OWNER"

definition promo_call :: "TenantRole \<Rightarrow> marketing_call" where
  "promo_call role = \<lparr>mq_tenant_header = Some ''t'', mq_user = promo_user role, mq_today = 3, mq_now = 7\<rparr>"

definition promo_start :: marketing_db where
  "promo_start =
     \<lparr>next_id = 2,
      tenants = [\<lparr>tn_id = 0, tn_provider_company_id = 0, tn_name = [], tn_slug = [], tn_industry_template_id = None,
        tn_status = TenantStatus_ACTIVE, tn_default_branch_id = None\<rparr>], branches = [], audit_logs = [], definitions = [],
      tenant_modules = [\<lparr>tm_tenant_id = 0, tm_module_code = ''marketing'', tm_status = ModuleStatus_ENABLED,
        tm_mode = ModuleMode_INTERNAL, tm_external_provider_code = None, tm_settings_json = JNull\<rparr>],
      mk_topics = [\<lparr>mt_id = 1, mt_tenant_id = 0, mt_legacy_topic_id = None, mt_title = ''W'', mt_rubric = ''ab'',
        mt_angle = None, mt_source = ''s'', mt_status = MarketingTopicStatus_APPROVED, mt_priority = 0,
        mt_reusable = True, mt_recommended_channels = [], mt_used_count = 0, mt_last_used_at = None,
        mt_slug_hint = None, mt_metadata_json = [(''cta'', JStr ''c'')], mt_updated_by_user_id = 9\<rparr>],
      mk_guides = [],
      mk_rubrics = [\<lparr>mb_id = 0, mb_tenant_id = 0, mb_code = ''ab'', mb_name = ''r'', mb_description = None,
        mb_content_instructions = None, mb_status = MarketingRubricStatus_ACTIVE, mb_sort_order = 0,
        mb_metadata_json = [], mb_updated_by_user_id = 9\<rparr>],
      mk_plans = [], mk_plan_items = [], mk_packs = [], mk_texts = [], mk_media = [], mk_logs = []\<rparr>"

abbreviation promo_reachable :: "marketing_db \<Rightarrow> bool" where
  "promo_reachable \<equiv> reachable marketing_start (marketing_step promo_env)"

definition promo_run :: "marketing_request \<Rightarrow> marketing_db \<Rightarrow> marketing_db" where
  "promo_run r s = snd (marketing_request promo_env (promo_call TenantRole_TENANT_OWNER) r s)"

lemma promo_start_reachable: "promo_reachable promo_start"
  by (rule reachable_start) (simp add: marketing_start_def promo_start_def)

lemma promo_run_reachable: "promo_reachable s \<Longrightarrow> promo_reachable (promo_run r s)"
  unfolding promo_run_def by (rule reachable_step) (auto intro: step_request)

text \<open>The topic's pack (2) with its texts (3 to 6), the text for the insights channel, the preflight and the approval.\<close>

definition promo_pack :: marketing_db where
  "promo_pack = promo_run (TopicRequest (TakeTopic 1 \<lparr>tk_planned_date = None, tk_slug = None, tk_source = ''s''\<rparr>)) promo_start"

definition promo_text :: marketing_db where
  "promo_text = promo_run (PackRequest (UpsertPackText 2 MarketingChannel_INSIGHTS \<lparr>tu_text = ''x'', tu_status = None\<rparr>)) promo_pack"

definition promo_ready :: marketing_db where
  "promo_ready = promo_run (PackRequest (RunPackPreflight 2 None)) promo_text"

definition promo_approved :: marketing_db where
  "promo_approved = promo_run (PackRequest (ApprovePack 2)) promo_ready"

lemma promo_pack_reachable:
  "promo_reachable promo_pack" "promo_reachable promo_text" "promo_reachable promo_ready" "promo_reachable promo_approved"
proof -
  show 1: "promo_reachable promo_pack" unfolding promo_pack_def by (rule promo_run_reachable[OF promo_start_reachable])
  show 2: "promo_reachable promo_text" unfolding promo_text_def by (rule promo_run_reachable[OF 1])
  show 3: "promo_reachable promo_ready" unfolding promo_ready_def by (rule promo_run_reachable[OF 2])
  show "promo_reachable promo_approved" unfolding promo_approved_def by (rule promo_run_reachable[OF 3])
qed

text \<open>The import of a plan (2) of one item (3), and its approval.\<close>

definition promo_document :: plan_payload where
  "promo_document = PlanObject [(''schema_version'', JStr SCHEMA_VERSION), (''period_start'', JInt 1), (''period_end'', JInt 5),
     (''title'', JStr ''p''), (''items'', JList [JObj [(''line_key'', JStr ''k''), (''date'', JInt 2),
       (''rubric_code'', JStr ''ab''), (''working_title'', JStr ''W''), (''cta'', JStr ''c'')]])]"

definition promo_imported :: marketing_db where
  "promo_imported = promo_run (PlanRequest (CommitContentPlanImport promo_document None)) promo_start"

definition promo_planned :: marketing_db where
  "promo_planned = promo_run (PlanRequest (ApproveContentPlan 2)) promo_imported"

lemma promo_plan_reachable: "promo_reachable promo_imported" "promo_reachable promo_planned"
proof -
  show 1: "promo_reachable promo_imported" unfolding promo_imported_def by (rule promo_run_reachable[OF promo_start_reachable])
  show "promo_reachable promo_planned" unfolding promo_planned_def by (rule promo_run_reachable[OF 1])
qed

subsection \<open>Packs\<close>

lemma scoped_get_row_update:
  "(\<And>r. ten (f r) = ten r \<and> key (f r) = key r) \<Longrightarrow>
     scoped_get ten key t i (row_update key i f rows) = map_option f (scoped_get ten key t i rows)"
  unfolding scoped_get_def by (induction rows) auto

text \<open>C7: A pack is ready for approval or approved only with a passed preflight that holds for the texts and media it
  has now, and approved only by a user.
\<close>

theorem reviewed_pack_is_fit:
  assumes "reachable marketing_start (marketing_step e) s" and "p \<in> set (mk_packs s)"
    and "mp_status p \<in> {MarketingPackStatus_READY_FOR_APPROVAL, MarketingPackStatus_APPROVED}"
  shows "passing_report p \<and> content_fit DEFAULT_PACK_CHANNELS (texts_of (mk_texts s) p) (live_media_of (mk_media s) p) \<and>
    (mp_status p = MarketingPackStatus_APPROVED \<longrightarrow>
       mp_approval_status p = MarketingApprovalStatus_APPROVED \<and> mp_approved_by_user_id p \<noteq> None)"
proof -
  have "pack_ok (mk_texts s) (mk_media s) p"
    using marketing_packs_ok[OF assms(1)] assms(2) by (simp add: packs_ok_def packs_inv_pack)
  then show ?thesis using assms(3) by (auto simp: pack_ok_def)
qed

lemma promo_approved_pack:
  "map mp_id (filter (\<lambda>p. mp_status p = MarketingPackStatus_APPROVED) (mk_packs promo_approved)) = [2]"
  by code_simp

lemma reviewed_pack_is_fit_witness:
  "\<exists>p \<in> set (mk_packs promo_approved). mp_status p = MarketingPackStatus_APPROVED \<and> passing_report p \<and>
     mp_approved_by_user_id p \<noteq> None"
proof -
  obtain p where p: "p \<in> set (mk_packs promo_approved)" "mp_status p = MarketingPackStatus_APPROVED"
    using promo_approved_pack by (metis (mono_tags, lifting) filter_False list.simps(8) not_Cons_self2)
  then show ?thesis using reviewed_pack_is_fit[OF promo_pack_reachable(4) p(1)] by auto
qed

text \<open>C9: The preflight of a pack in an allowed status returns, writes only the pack, and passes exactly when the pack,
  its topic, texts and media meet the reference conditions.
\<close>

theorem preflight_decides:
  assumes p: "get_pack t i s = Some p" and allowed: "mp_status p \<in> set PREFLIGHT_ALLOWED_STATUSES"
  shows "let fit = pack_fit p (pack_topic p s) (list_pack_texts t i s) (list_pack_media t i False s) (target_channels channels) in
    \<exists>rep s' q. run_preflight now t u i channels s = (Inr rep, s') \<and> (rp_passed rep \<longleftrightarrow> fit) \<and> get_pack t i s' = Some q \<and>
      (passing_report q \<longleftrightarrow> fit) \<and>
      mp_status q = (if fit then MarketingPackStatus_READY_FOR_APPROVAL else MarketingPackStatus_PREFLIGHT_FAILED) \<and>
      mk_texts s' = mk_texts s \<and> mk_media s' = mk_media s \<and> mk_topics s' = mk_topics s"
proof -
  define rep where "rep = preflight_report_of now p (pack_topic p s) (list_pack_texts t i s) (list_pack_media t i False s)
    (target_channels channels)"
  define s' where "s' = s\<lparr>mk_packs := row_update mp_id i (preflighted u rep) (mk_packs s)\<rparr>"
  have "run_preflight now t u i channels s = (Inr rep, s')"
    using p allowed
    by (simp add: run_preflight_def get_pack_or_404_def assert_preflight_allowed_def write_pack_def svc_eval rep_def s'_def
        bindS_def thenS_def)
  moreover have "get_pack t i s' = Some (preflighted u rep p)"
    using p by (simp add: get_pack_def scoped_get_row_update preflighted_def s'_def)
  moreover have "rp_passed rep \<longleftrightarrow> pack_fit p (pack_topic p s) (list_pack_texts t i s) (list_pack_media t i False s)
      (target_channels channels)"
    by (simp only: rep_def report_passed)
  ultimately show ?thesis by (simp add: Let_def s'_def preflighted_def passing_report_def)
qed

lemma preflight_decides_witness:
  "\<exists>rep s'. run_preflight 7 0 promo_owner 2 None promo_text = (Inr rep, s') \<and> rp_passed rep"
proof -
  have "map_option (\<lambda>p. mp_status p \<in> set PREFLIGHT_ALLOWED_STATUSES \<and>
      pack_fit p (pack_topic p promo_text) (list_pack_texts 0 2 promo_text) (list_pack_media 0 2 False promo_text)
        (target_channels None)) (get_pack 0 2 promo_text) = Some True"
    by code_simp
  then obtain p where "get_pack 0 2 promo_text = Some p" "mp_status p \<in> set PREFLIGHT_ALLOWED_STATUSES"
      "pack_fit p (pack_topic p promo_text) (list_pack_texts 0 2 promo_text) (list_pack_media 0 2 False promo_text) (target_channels None)"
    by auto
  then show ?thesis using preflight_decides[where now = 7 and u = promo_owner and channels = None, of 0 2 promo_text p] by (auto simp: Let_def)
qed

text \<open>
  A text that is stored takes back the review of its pack: the pack is an untouched draft without a passing
  report, and no approval goes through before the next preflight.
\<close>

lemma reset_pack_result:
  "get_pack t i s = Some p \<Longrightarrow>
     get_pack t i (s\<lparr>mk_packs := row_update mp_id i (reset_pack_after_content_change u) (mk_packs s)\<rparr>) =
       Some (reset_pack_after_content_change u p)"
  by (simp add: get_pack_def scoped_get_row_update reset_same)

definition next_version :: "publication_text option \<Rightarrow> int" where
  "next_version x = (case x of None \<Rightarrow> 1 | Some y \<Rightarrow> mx_version y + 1)"

lemma upsert_text_row_stores:
  assumes "upsert_text_row t u i c payload s = (Inr (), s')"
  shows "mk_packs s' = mk_packs s \<and> (\<exists>x. get_pack_text t i c s' = Some x \<and> mx_text x = tu_text payload \<and>
    mx_char_count x = length (tu_text payload) \<and> mx_version x = next_version (get_pack_text t i c s))"
proof (cases "get_pack_text t i c s")
  case None
  then have "row_find (\<lambda>x. mx_tenant_id x = t \<and> mx_pack_id x = i \<and> mx_channel x = c)
      (row_insert (new_text k t u i c st y) (mk_texts s)) = Some (new_text k t u i c st y)" for k st y
    by (simp add: row_find_insert get_pack_text_def new_text_def)
  then show ?thesis
    using assms None by (auto simp: upsert_text_row_def svc_ok insert_text_def get_pack_text_def new_text_def next_version_def)
next
  case (Some y)
  have "row_find (\<lambda>x. mx_tenant_id x = t \<and> mx_pack_id x = i \<and> mx_channel x = c)
      (row_update mx_id (mx_id y) (rewritten_text u st z) xs) = Some (rewritten_text u st z y)"
    if "row_find (\<lambda>x. mx_tenant_id x = t \<and> mx_pack_id x = i \<and> mx_channel x = c) xs = Some y" for st z xs
    using that by (induction xs) (auto simp: rewritten_text_def split: if_splits)
  then show ?thesis
    using assms Some
    by (auto simp: upsert_text_row_def svc_ok write_text_def get_pack_text_def rewritten_text_def next_version_def)
qed

text \<open>C18: A stored text has the new text and the next version, its pack is an untouched draft without a passing report, and no approval goes through before the next preflight.\<close>

theorem content_change_resets:
  assumes reached: "reachable marketing_start (marketing_step e) s"
    and run: "upsert_pack_text t u i c payload s = (Inr (), s')"
  shows "(\<exists>x. get_pack_text t i c s' = Some x \<and> mx_text x = tu_text payload \<and>
      mx_version x = next_version (get_pack_text t i c s)) \<and>
    (\<exists>q. get_pack t i s' = Some q \<and> untouched_draft q \<and> \<not> passing_report q) \<and>
    approve_pack now t v i s' = (Inl (ConflictError ''preflight_not_passed''), s')"
proof -
  obtain p s1 where p: "get_pack t i s = Some p" and s1: "upsert_text_row t u i c payload s = (Inr (), s1)"
    and s': "s' = s1\<lparr>mk_packs := row_update mp_id i (reset_pack_after_content_change (us_id u)) (mk_packs s1)\<rparr>"
    using run unfolding upsert_pack_text_def reset_pack_def by (auto simp: svc_ok write_pack_def)
  have "get_pack t i s1 = Some p" using p upsert_text_row_stores[OF s1] by (simp add: get_pack_def)
  then have q: "get_pack t i s' = Some (reset_pack_after_content_change (us_id u) p)"
    unfolding s' by (rule reset_pack_result)
  have "pack_ok (mk_texts s) (mk_media s) p"
    using marketing_packs_ok[OF reached] get_pack_Some[OF p] by (simp add: packs_ok_def packs_inv_pack)
  then have "\<not> passing_report (reset_pack_after_content_change (us_id u) p)"
    using pack_ok_reset[of _ _ p "mk_texts s" "mk_media s" "us_id u"] reset_untouched[of "us_id u" p]
    by (fastforce simp: pack_ok_def untouched_draft_def)
  moreover have "approve_pack now t v i s' = (Inl (ConflictError ''preflight_not_passed''), s')"
    using q reset_untouched[of "us_id u" p]
    by (simp add: approve_pack_def get_pack_or_404_def svc_eval bindS_def thenS_def untouched_draft_def)
  moreover have "get_pack_text t i c s' = get_pack_text t i c s1" by (simp add: s' get_pack_text_def)
  ultimately show ?thesis using q upsert_text_row_stores[OF s1] reset_untouched by auto
qed

lemma content_change_resets_witness:
  "\<exists>q s'. upsert_pack_text 0 promo_owner 2 MarketingChannel_INSIGHTS \<lparr>tu_text = ''y'', tu_status = None\<rparr> promo_ready = (Inr (), s') \<and>
     get_pack 0 2 s' = Some q \<and> untouched_draft q"
proof -
  have "fst (upsert_pack_text 0 promo_owner 2 MarketingChannel_INSIGHTS \<lparr>tu_text = ''y'', tu_status = None\<rparr> promo_ready) = Inr ()"
    by code_simp
  then obtain s' where "upsert_pack_text 0 promo_owner 2 MarketingChannel_INSIGHTS \<lparr>tu_text = ''y'', tu_status = None\<rparr> promo_ready = (Inr (), s')"
    by (metis prod.collapse)
  then show ?thesis using content_change_resets[OF promo_pack_reachable(3)] by blast
qed

text \<open>
  A PATCH archives an approved pack and another one opens it again as a draft: it is a draft that counts as
  approved, with the report of the last preflight.
\<close>

definition status_patch :: "MarketingPackStatus \<Rightarrow> pack_update" where
  "status_patch st = \<lparr>pu_title = None, pu_topic_id = None, pu_source = None, pu_status = Some st\<rparr>"

lemma status_patch_result:
  assumes p: "get_pack t i s = Some p" and st: "st \<in> set PATCHABLE_STATUSES"
    and free: "mp_status p \<notin> set FORBIDDEN_PATCH_STATUSES \<or> st = MarketingPackStatus_ARCHIVED"
  shows "\<exists>s'. update_pack t u i (status_patch st) s = (Inr (p\<lparr>mp_status := st, mp_updated_by_user_id := us_id u\<rparr>), s') \<and>
    get_pack t i s' = Some (p\<lparr>mp_status := st, mp_updated_by_user_id := us_id u\<rparr>)"
proof -
  define s1 where "s1 = s\<lparr>mk_packs := row_update mp_id i (\<lambda>r. r\<lparr>mp_status := st\<rparr>) (mk_packs s)\<rparr>"
  define s2 where "s2 = s1\<lparr>mk_packs := row_update mp_id i (\<lambda>r. r\<lparr>mp_updated_by_user_id := us_id u\<rparr>) (mk_packs s1)\<rparr>"
  have "get_pack t i s1 = Some (p\<lparr>mp_status := st\<rparr>)"
    using p by (simp add: get_pack_def s1_def scoped_get_row_update)
  then have s2: "get_pack t i s2 = Some (p\<lparr>mp_status := st, mp_updated_by_user_id := us_id u\<rparr>)"
    by (simp add: get_pack_def s2_def scoped_get_row_update)
  have "\<not> List.member FORBIDDEN_PATCH_STATUSES st" "List.member PATCHABLE_STATUSES st"
    using st by (auto simp: PATCHABLE_STATUSES_def FORBIDDEN_PATCH_STATUSES_def)
  then have "update_pack t u i (status_patch st) s = (Inr (p\<lparr>mp_status := st, mp_updated_by_user_id := us_id u\<rparr>), s2)"
    using p free get_pack_Some[OF p] s2
    by (simp add: update_pack_def status_patch_def get_pack_or_404_def apply_safe_status_change_def write_pack_def svc_eval
        bindS_def thenS_def s1_def s2_def)
  then show ?thesis using s2 by blast
qed

theorem reopened_pack_stays_approved:
  assumes reached: "reachable marketing_start (marketing_step e) s" and p: "get_pack t i s = Some p"
    and approved: "mp_status p = MarketingPackStatus_APPROVED"
  shows "\<exists>s1 q1 s2 q2. update_pack t u i (status_patch MarketingPackStatus_ARCHIVED) s = (Inr q1, s1) \<and>
    update_pack t u i (status_patch MarketingPackStatus_DRAFT) s1 = (Inr q2, s2) \<and> get_pack t i s2 = Some q2 \<and>
    mp_status q2 = MarketingPackStatus_DRAFT \<and> mp_approval_status q2 = MarketingApprovalStatus_APPROVED \<and>
    passing_report q2 \<and> mp_approved_by_user_id q2 = mp_approved_by_user_id p"
proof -
  define q1 where "q1 = p\<lparr>mp_status := MarketingPackStatus_ARCHIVED, mp_updated_by_user_id := us_id u\<rparr>"
  define q2 where "q2 = q1\<lparr>mp_status := MarketingPackStatus_DRAFT, mp_updated_by_user_id := us_id u\<rparr>"
  obtain s1 where s1: "update_pack t u i (status_patch MarketingPackStatus_ARCHIVED) s = (Inr q1, s1)" "get_pack t i s1 = Some q1"
    using status_patch_result[OF p, of MarketingPackStatus_ARCHIVED u] by (auto simp: q1_def PATCHABLE_STATUSES_def)
  obtain s2 where s2: "update_pack t u i (status_patch MarketingPackStatus_DRAFT) s1 = (Inr q2, s2)" "get_pack t i s2 = Some q2"
    using status_patch_result[OF s1(2), of MarketingPackStatus_DRAFT u]
    by (auto simp: q2_def q1_def PATCHABLE_STATUSES_def FORBIDDEN_PATCH_STATUSES_def)
  have "pack_ok (mk_texts s) (mk_media s) p"
    using marketing_packs_ok[OF reached] get_pack_Some[OF p] by (simp add: packs_ok_def packs_inv_pack)
  then have "mp_approval_status q2 = MarketingApprovalStatus_APPROVED" "passing_report q2"
    using approved by (auto simp: pack_ok_def q2_def q1_def passing_report_def)
  then show ?thesis
    using s1(1) s2 by (intro exI[of _ s1] exI[of _ q1] exI[of _ s2] exI[of _ q2]) (simp add: q2_def q1_def)
qed

lemma reopened_pack_stays_approved_witness:
  "\<exists>s1 q1 s2 q2. update_pack 0 promo_owner 2 (status_patch MarketingPackStatus_ARCHIVED) promo_approved = (Inr q1, s1) \<and>
     update_pack 0 promo_owner 2 (status_patch MarketingPackStatus_DRAFT) s1 = (Inr q2, s2) \<and>
     mp_status q2 = MarketingPackStatus_DRAFT \<and> mp_approval_status q2 = MarketingApprovalStatus_APPROVED"
proof -
  have "map_option mp_status (get_pack 0 2 promo_approved) = Some MarketingPackStatus_APPROVED" by code_simp
  then obtain p where "get_pack 0 2 promo_approved = Some p" "mp_status p = MarketingPackStatus_APPROVED" by auto
  then show ?thesis using reopened_pack_stays_approved[OF promo_pack_reachable(4)] by blast
qed

text \<open>
  \<^verbatim>\<open>resolve_pack_channels\<close> keeps a channel a topic recommends twice, and the second stub text breaks the unique
  key of the texts: such a topic can never be taken.
\<close>

lemma stubs_result:
  "fst (for_each cs (create_stub_text t u i) s) = Inr () \<and> distinct cs \<and>
     (\<forall>c \<in> set cs. row_find (\<lambda>y. mx_pack_id y = i \<and> mx_channel y = c) (mk_texts s) = None) \<or>
   fst (for_each cs (create_stub_text t u i) s) = Inl (IntegrityError ''uq_marketing_text_pack_channel'')"
proof (induction cs arbitrary: s)
  case Nil
  then show ?case by (simp add: svc_eval)
next
  case (Cons c cs)
  show ?case
  proof (cases "row_find (\<lambda>y. mx_pack_id y = i \<and> mx_channel y = c) (mk_texts s) = None")
    case True
    then obtain s1 x where "create_stub_text t u i c s = (Inr (), s1)" "mk_texts s1 = row_insert x (mk_texts s)"
      "mx_pack_id x = i" "mx_channel x = c"
      by (simp add: create_stub_text_def insert_text_def fresh_id_def svc_eval bindS_def thenS_def)
    then have step: "for_each (c # cs) (create_stub_text t u i) s = for_each cs (create_stub_text t u i) s1"
      and new: "row_find (\<lambda>y. mx_pack_id y = i \<and> mx_channel y = d) (mk_texts s1) = None \<longleftrightarrow>
        d \<noteq> c \<and> row_find (\<lambda>y. mx_pack_id y = i \<and> mx_channel y = d) (mk_texts s) = None" for d
      by (simp_all only: for_each_step) (auto simp: row_find_insert split: option.split)
    show ?thesis using Cons.IH[of s1] True unfolding step new by auto
  next
    case False
    then obtain y where "row_find (\<lambda>y. mx_pack_id y = i \<and> mx_channel y = c) (mk_texts s) = Some y" by auto
    then show ?thesis
      by (simp add: create_stub_text_def insert_text_def fresh_id_def svc_eval bindS_def thenS_def)
  qed
qed

theorem repeated_channel_blocks_topic:
  assumes "get_topic t i s = Some r" and "mt_status r = MarketingTopicStatus_APPROVED" and "mt_reusable r"
    and "get_pack_by_slug t slug s = None" and "slug \<noteq> []" and "find_pack_for_topic_date t (mt_id r) d s = None"
    and "\<not> distinct (resolve_pack_channels (Some r))"
  shows "atomic (take_topic today t u i \<lparr>tk_planned_date = Some d, tk_slug = Some slug, tk_source = src\<rparr>) s =
    (Inl (IntegrityError ''uq_marketing_text_pack_channel''), s)"
proof -
  define p where "p = \<lparr>pd_title = mt_title r, pd_slug = slug, pd_planned_date = d, pd_topic = Some r, pd_topic_id = None,
    pd_source = src, pd_metadata_json = []\<rparr>"
  define s1 where "s1 = s\<lparr>next_id := Suc (next_id s), mk_packs := row_insert (draft_pack (next_id s) t u p) (mk_packs s)\<rparr>"
  have stubs: "fst (for_each (resolve_pack_channels (Some r)) (create_stub_text t u (next_id s)) s1) =
      Inl (IntegrityError ''uq_marketing_text_pack_channel'')"
    using stubs_result[of "resolve_pack_channels (Some r)" t u "next_id s" s1] assms(7) by blast
  have "or_else (Some slug) x = slug" for x using assms(5) by (cases slug) (simp_all add: or_else_def)
  moreover have draft: "pd_topic p = Some r" "mp_tenant_id (draft_pack k t u p) = t" "mp_slug (draft_pack k t u p) = slug" for k
    by (simp_all add: p_def draft_pack_def)
  have "create_draft_pack_with_texts t u p s =
      (case for_each (resolve_pack_channels (Some r)) (create_stub_text t u (next_id s)) s1 of
         (Inl e, s2) \<Rightarrow> (Inl e, s2) | (Inr _, s2) \<Rightarrow> (Inr (draft_pack (next_id s) t u p), s2))"
    using assms(4)
    by (simp add: create_draft_pack_with_texts_def insert_pack_def fresh_id_def svc_eval bindS_def thenS_def s1_def
        get_pack_by_slug_def draft ret_def split: prod.split sum.split)
  then have "atomic (create_draft_pack_with_texts t u p) s = (Inl (IntegrityError ''uq_marketing_text_pack_channel''), s)"
    using stubs by (auto simp: atomic_def split: prod.splits sum.splits)
  ultimately show ?thesis
    using assms(1-6)
    by (simp add: take_topic_def get_topic_or_404_def assert_take_allowed_def svc_eval bindS_def thenS_def atomic_def
        flip: p_def)
qed

definition promo_repeating :: marketing_db where
  "promo_repeating = promo_start\<lparr>mk_topics := map (\<lambda>r. r\<lparr>mt_recommended_channels := [''telegram'', ''Telegram'']\<rparr>) (mk_topics promo_start)\<rparr>"

lemma repeated_channel_blocks_topic_witness:
  "\<exists>s :: marketing_db. atomic (take_topic 3 0 promo_owner 1 \<lparr>tk_planned_date = Some 4, tk_slug = Some ''w'', tk_source = []\<rparr>) s =
    (Inl (IntegrityError ''uq_marketing_text_pack_channel''), s)"
proof -
  define r where "r = hd (mk_topics promo_repeating)"
  have "get_topic 0 1 promo_repeating = Some r" "mt_status r = MarketingTopicStatus_APPROVED" "mt_reusable r"
    "get_pack_by_slug 0 ''w'' promo_repeating = None" "find_pack_for_topic_date 0 (mt_id r) 4 promo_repeating = None"
    by (simp_all add: r_def promo_repeating_def promo_start_def get_topic_def scoped_get_def get_pack_by_slug_def
        find_pack_for_topic_date_def)
  moreover have "resolve_pack_channels (Some r) = [MarketingChannel_TELEGRAM, MarketingChannel_TELEGRAM]"
    unfolding r_def by code_simp
  ultimately show ?thesis
    using repeated_channel_blocks_topic[of 0 1 promo_repeating r "''w''" 4 3 promo_owner "[]"]
    by (intro exI[of _ promo_repeating]) simp
qed

end
