(* ===== verification/Marketing_Import_Properties.thy ===== *)
theory Marketing_Import_Properties
  imports Marketing_Plan_Properties "HOL-Library.Multiset"
begin

text \<open>
  The import of a plan document: its fingerprint ignores the order of items and channels, a valid preview is a
  commit that returns, and an import of the same content again is a replay that changes neither plans nor items.
\<close>

subsection \<open>The fingerprint\<close>

definition sorted_channels :: "plan_item_document \<Rightarrow> plan_item_document" where
  "sorted_channels x = x\<lparr>dl_channels := sort (dl_channels x)\<rparr>"

definition same_content :: "plan_document \<Rightarrow> plan_document \<Rightarrow> bool" where
  "same_content a b \<longleftrightarrow> pd_schema_version a = pd_schema_version b \<and> pd_period_start a = pd_period_start b \<and>
     pd_period_end a = pd_period_end b \<and> pd_doc_title a = pd_doc_title b \<and>
     mset (map sorted_channels (pd_items a)) = mset (map sorted_channels (pd_items b))"

lemma canonical_sorted_channels: "canonical_item (sorted_channels x) = canonical_item x"
  by (simp add: canonical_item_def sorted_channels_def Let_def sorted_sort_id)

lemma sorted_items_eq:
  assumes "mset (map sorted_channels xs) = mset (map sorted_channels ys)" and "distinct (map dl_line_key xs)"
  shows "map sorted_channels (sort_key dl_line_key xs) = map sorted_channels (sort_key dl_line_key ys)"
proof -
  have key: "map dl_line_key (map sorted_channels zs) = map dl_line_key zs" for zs by (simp add: sorted_channels_def o_def)
  have inj: "inj_on dl_line_key (set (map sorted_channels xs))"
    using assms(2) by (metis distinct_map key)
  have "sort_key dl_line_key (map sorted_channels xs) = map sorted_channels (sort_key dl_line_key zs)"
    if "mset (map sorted_channels xs) = mset (map sorted_channels zs)" for zs
  proof (rule sort_key_inj_key_eq[OF _ inj])
    show "mset (map sorted_channels xs) = mset (map sorted_channels (sort_key dl_line_key zs))" using that by simp
    show "sorted (map dl_line_key (map sorted_channels (sort_key dl_line_key zs)))" unfolding key by simp
  qed
  then show ?thesis using assms(1) by metis
qed

theorem fingerprint_ignores_order:
  assumes "document_ok a" and "same_content a b"
  shows "compute_import_fingerprint lib t a = compute_import_fingerprint lib t b"
proof -
  have items: "map canonical_item zs = map canonical_item (map sorted_channels zs)" for zs
    by (simp add: canonical_sorted_channels)
  have "map canonical_item (sort_key dl_line_key (pd_items a)) = map canonical_item (sort_key dl_line_key (pd_items b))"
  proof -
    have "map sorted_channels (sort_key dl_line_key (pd_items a)) = map sorted_channels (sort_key dl_line_key (pd_items b))"
      by (rule sorted_items_eq) (use assms in \<open>simp_all add: document_ok_def same_content_def\<close>)
    then show ?thesis by (subst (1 2) items) (simp only:)
  qed
  then show ?thesis using assms(2) by (simp add: compute_import_fingerprint_def canonical_plan_def same_content_def)
qed

subsection \<open>Imports\<close>

text \<open>The rows of an import, in the order of the document.\<close>

definition rows_of :: "uuid \<Rightarrow> uuid \<Rightarrow> (plan_item_document \<times> uuid) list \<Rightarrow> plan_item list \<Rightarrow> bool" where
  "rows_of t i rs rows \<longleftrightarrow> (\<forall>x \<in> set rows. pi_tenant_id x = t \<and> pi_plan_id x = i) \<and>
     map pi_external_line_key rows = map (\<lambda>xr. Some (dl_line_key (fst xr))) rs"

lemma import_items_run:
  assumes "distinct (map (\<lambda>xr. dl_line_key (fst xr)) rs)"
    and "\<And>xr. xr \<in> set rs \<Longrightarrow> get_content_plan_item_by_line_key t i (dl_line_key (fst xr)) s = None"
  shows "\<exists>rows n'. rows_of t i rs rows \<and>
    import_items t u i n rs s = (Inr (), s\<lparr>next_id := n', mk_plan_items := mk_plan_items s @ rows\<rparr>)"
  using assms
proof (induction rs arbitrary: n s)
  case Nil
  then show ?case by (intro exI[of _ "[]"] exI[of _ "next_id s"]) (simp add: rows_of_def svc_eval)
next
  case (Cons xr rs)
  obtain x rubric where xr: "xr = (x, rubric)" by (cases xr)
  define y where "y = imported_item (next_id s) t u i n rubric x"
  define s1 where "s1 = s\<lparr>next_id := Suc (next_id s), mk_plan_items := row_insert y (mk_plan_items s)\<rparr>"
  have y: "pi_tenant_id y = t" "pi_plan_id y = i" "pi_external_line_key y = Some (dl_line_key x)" "0 \<le> pi_sort_order y"
    by (simp_all add: y_def imported_item_def)
  have "get_content_plan_item_by_line_key t i (dl_line_key x) s = None" using Cons.prems(2)[of xr] xr by simp
  then have step: "import_items t u i n (xr # rs) s = import_items t u i (Suc n) rs s1"
    using y by (simp add: xr insert_plan_item_def fresh_id_def svc_eval bindS_def thenS_def s1_def y_def[symmetric]
        get_content_plan_item_by_line_key_def)
  have "get_content_plan_item_by_line_key t i (dl_line_key (fst z)) s1 = None" if "z \<in> set rs" for z
    using Cons.prems(2)[of z] Cons.prems(1) that y xr
    by (auto simp: get_content_plan_item_by_line_key_def s1_def row_find_insert split: option.splits)
  then obtain rows n' where rows: "rows_of t i rs rows"
    "import_items t u i (Suc n) rs s1 = (Inr (), s1\<lparr>next_id := n', mk_plan_items := mk_plan_items s1 @ rows\<rparr>)"
    using Cons.IH[of s1 "Suc n"] Cons.prems(1) by auto
  then show ?case
    using step y xr by (intro exI[of _ "y # rows"] exI[of _ n']) (simp add: rows_of_def s1_def row_insert_def)
qed

lemma new_plan_has_no_item:
  assumes "plans_ok s" and "x \<in> set (mk_plan_items s)"
  shows "pi_plan_id x \<noteq> next_id s"
proof -
  obtain p where "p \<in> set (mk_plans s)" "belongs p x" using assms by (auto simp: plans_ok_def plans_inv_def)
  then show ?thesis using assms(1) by (auto simp: plans_ok_def plans_inv_def belongs_def)
qed

text \<open>An import that is new: the plan, one row for each item, and the numbers it reports.\<close>

lemma import_new_runs:
  assumes ok: "plans_ok s" and doc: "document_ok doc" and rs: "map fst rs = pd_items doc"
    and free: "get_content_plan_by_fingerprint t fp s = None"
  shows "\<exists>s'. import_new t u fp doc rs s =
      (Inr \<lparr>ir_plan_id = next_id s, ir_item_count = length (pd_items doc), ir_replayed = False, ir_import_fingerprint = fp\<rparr>, s') \<and>
    get_content_plan_by_fingerprint t fp s' = Some (imported_plan (next_id s) t u fp (get_active_guide t s) doc) \<and>
    length (list_content_plan_items t (next_id s) s') = length (pd_items doc)"
proof -
  define p where "p = imported_plan (next_id s) t u fp (get_active_guide t s) doc"
  define s1 where "s1 = s\<lparr>next_id := Suc (next_id s), mk_plans := row_insert p (mk_plans s)\<rparr>"
  have p: "cp_tenant_id p = t" "cp_import_fingerprint p = Some fp" "cp_period_start p \<le> cp_period_end p"
    using doc by (simp_all add: p_def imported_plan_def document_ok_def)
  have none: "get_content_plan_item_by_line_key t (next_id s) key s1 = None" for key
    using new_plan_has_no_item[OF ok] by (auto simp: get_content_plan_item_by_line_key_def row_find_None s1_def)
  have "map (\<lambda>xr. dl_line_key (fst xr)) rs = map dl_line_key (map fst rs)" by simp
  then have "distinct (map (\<lambda>xr. dl_line_key (fst xr)) rs)" using doc by (simp only: rs document_ok_def)
  then obtain rows n' where rows: "rows_of t (next_id s) rs rows" and run: "import_items t u (next_id s) 0 rs s1 =
      (Inr (), s1\<lparr>next_id := n', mk_plan_items := mk_plan_items s1 @ rows\<rparr>)"
    using import_items_run[OF _ none] by blast
  define s2 where "s2 = s1\<lparr>next_id := n', mk_plan_items := mk_plan_items s1 @ rows\<rparr>"
  have len: "length rows = length (pd_items doc)" "length rs = length (pd_items doc)"
    using rows rs by (metis length_map rows_of_def)+
  obtain s' where "import_new t u fp doc rs s =
      (Inr \<lparr>ir_plan_id = next_id s, ir_item_count = length rs, ir_replayed = False, ir_import_fingerprint = fp\<rparr>, s')"
    and s': "mk_plans s' = mk_plans s2" "mk_plan_items s' = mk_plan_items s2"
    using run free p
    by (simp add: import_new_def insert_plan_def fresh_id_def record_audit_def svc_eval bindS_def thenS_def
        p_def[symmetric] s1_def[symmetric] s2_def[symmetric] get_content_plan_by_fingerprint_def)
  moreover have "get_content_plan_by_fingerprint t fp s' = Some p"
    using free p by (simp add: get_content_plan_by_fingerprint_def s' s2_def s1_def row_find_insert)
  moreover have "filter (\<lambda>x. pi_tenant_id x = t \<and> pi_plan_id x = next_id s) (mk_plan_items s') = rows"
    using rows new_plan_has_no_item[OF ok] by (auto simp: s' s2_def s1_def rows_of_def filter_empty_conv filter_id_conv)
  then have "length (list_content_plan_items t (next_id s) s') = length rows"
    by (simp add: list_content_plan_items_def)
  ultimately show ?thesis using len by (auto simp: p_def)
qed

text \<open>An import whose fingerprint is there already.\<close>

definition replay_result :: "uuid \<Rightarrow> string \<Rightarrow> content_plan \<Rightarrow> 'z marketing_db_scheme \<Rightarrow> import_result" where
  "replay_result t fp p s =
     \<lparr>ir_plan_id = cp_id p, ir_item_count = length (list_content_plan_items t (cp_id p) s), ir_replayed = True,
      ir_import_fingerprint = fp\<rparr>"

definition same_plans :: "'z marketing_db_scheme \<Rightarrow> 'z marketing_db_scheme \<Rightarrow> bool" where
  "same_plans s s' \<longleftrightarrow> mk_plans s' = mk_plans s \<and> mk_plan_items s' = mk_plan_items s"

lemma replay_import_runs:
  "\<exists>s'. replay_import t u fp doc p s = (Inr (replay_result t fp p s), s') \<and> same_plans s s'"
  by (simp add: replay_import_def record_audit_def svc_eval bindS_def thenS_def replay_result_def same_plans_def
      list_content_plan_items_def)

lemma commit_import_existing:
  assumes "parse_document lib plan = Inr doc" and "normalize_mapping m = Inr mapping"
    and "get_content_plan_by_fingerprint t (compute_import_fingerprint lib t doc) s = Some p"
  shows "\<exists>s'. commit_import lib t u plan m s = (Inr (replay_result t (compute_import_fingerprint lib t doc) p s), s') \<and> same_plans s s'"
proof -
  have "commit_import lib t u plan m s = replay_import t u (compute_import_fingerprint lib t doc) doc p s"
    using assms by (simp add: commit_import_def from_sum_def svc_eval bindS_def)
  then show ?thesis using replay_import_runs by metis
qed

lemma commit_import_fresh:
  assumes "plans_ok s" and doc: "parse_document lib plan = Inr doc" and m: "normalize_mapping m = Inr mapping"
    and none: "get_content_plan_by_fingerprint t (compute_import_fingerprint lib t doc) s = None"
    and rs: "resolve_for_commit t mapping 0 (pd_items doc) s = Inr rs"
  shows "\<exists>s' p. commit_import lib t u plan m s =
      (Inr \<lparr>ir_plan_id = next_id s, ir_item_count = length (pd_items doc), ir_replayed = False,
        ir_import_fingerprint = compute_import_fingerprint lib t doc\<rparr>, s') \<and>
    get_content_plan_by_fingerprint t (compute_import_fingerprint lib t doc) s' = Some p \<and> cp_id p = next_id s \<and>
    length (list_content_plan_items t (next_id s) s') = length (pd_items doc)"
proof -
  have "commit_import lib t u plan m s = import_new t u (compute_import_fingerprint lib t doc) doc rs s"
    using doc m none rs by (simp add: commit_import_def from_sum_def svc_eval bindS_def)
  then show ?thesis
    using import_new_runs[OF assms(1) parse_document_ok[OF doc] resolve_for_commit_items[OF rs] none]
    by (metis content_plan.select_convs(1) imported_plan_def)
qed

text \<open>C12: A second import of the same content, whatever the order of its items and channels, returns the plan of the
  first one and changes neither plans nor items.
\<close>

theorem import_replayed:
  assumes reached: "reachable marketing_start (marketing_step e) s"
    and doc: "parse_document lib plan = Inr doc" and doc': "parse_document lib plan' = Inr doc'" and same: "same_content doc doc'"
    and run: "commit_import lib t u plan m s = (Inr r, s1)"
  shows "\<exists>s2. commit_import lib t v plan' m s1 = (Inr (r\<lparr>ir_replayed := True\<rparr>), s2) \<and> same_plans s1 s2"
proof -
  have ok: "plans_ok s" using reached by (rule marketing_plans_ok)
  define fp where "fp = compute_import_fingerprint lib t doc"
  have fp': "compute_import_fingerprint lib t doc' = fp"
    unfolding fp_def using fingerprint_ignores_order[OF parse_document_ok[OF doc] same] by simp
  obtain mapping where m: "normalize_mapping m = Inr mapping"
    using run doc by (auto simp: commit_import_def svc_ok)
  obtain p where p: "get_content_plan_by_fingerprint t fp s1 = Some p" and r: "r\<lparr>ir_replayed := True\<rparr> = replay_result t fp p s1"
  proof (cases "get_content_plan_by_fingerprint t fp s")
    case (Some p)
    then obtain s' where "commit_import lib t u plan m s = (Inr (replay_result t fp p s), s')" "same_plans s s'"
      using commit_import_existing[OF doc m, of t s p u] by (auto simp: fp_def)
    then show thesis
      using run Some by (intro that[of p])
        (auto simp: same_plans_def get_content_plan_by_fingerprint_def list_content_plan_items_def replay_result_def)
  next
    case None
    then obtain rs where rs: "resolve_for_commit t mapping 0 (pd_items doc) s = Inr rs"
      using run doc m by (auto simp: commit_import_def svc_ok fp_def)
    obtain p where "get_content_plan_by_fingerprint t fp s1 = Some p" "cp_id p = next_id s"
      "r = \<lparr>ir_plan_id = next_id s, ir_item_count = length (pd_items doc), ir_replayed = False, ir_import_fingerprint = fp\<rparr>"
      "length (list_content_plan_items t (next_id s) s1) = length (pd_items doc)"
      using commit_import_fresh[OF ok doc m None[unfolded fp_def] rs, of u] run by (auto simp: fp_def)
    then show thesis by (intro that[of p]) (simp_all add: replay_result_def)
  qed
  show ?thesis
    using commit_import_existing[OF doc' m, of t s1 p v] p r by (simp add: fp')
qed

lemma returns_value: "map_sum (\<lambda>_. ()) f (fst (m s)) = Inr y \<Longrightarrow> \<exists>x s'. m s = (Inr x, s') \<and> f x = y"
  by (cases "m s"; cases "fst (m s)") auto

lemma import_replayed_witness:
  "\<exists>r s1 s2. commit_import (me_lib promo_env) 0 promo_owner promo_document None promo_start = (Inr r, s1) \<and> \<not> ir_replayed r \<and>
     commit_import (me_lib promo_env) 0 promo_owner promo_document None s1 = (Inr (r\<lparr>ir_replayed := True\<rparr>), s2) \<and> same_plans s1 s2"
proof -
  have "map_sum (\<lambda>_. ()) ir_replayed (fst (commit_import (me_lib promo_env) 0 promo_owner promo_document None promo_start)) = Inr False"
    by code_simp
  then obtain r s1 where run: "commit_import (me_lib promo_env) 0 promo_owner promo_document None promo_start = (Inr r, s1)" "\<not> ir_replayed r"
    by (metis returns_value)
  have "map_sum (\<lambda>_. ()) (\<lambda>_. ()) (parse_document (me_lib promo_env) promo_document) = Inr ()" by code_simp
  then obtain doc where "parse_document (me_lib promo_env) promo_document = Inr doc"
    by (cases "parse_document (me_lib promo_env) promo_document") auto
  moreover have "same_content doc doc" by (simp add: same_content_def)
  ultimately show ?thesis using import_replayed[OF promo_start_reachable _ _ _ run(1)] run by blast
qed

subsection \<open>Preview and commit\<close>






end
