(* ===== verification/Spec2Isabelle.thy ===== *)
theory Spec2Isabelle
  imports Booking_Properties Finance_Properties Workflow_Properties Ai_Properties Document_Properties
    Marketing_Import_Properties
begin

text \<open>
  A model of the CoreOps platform backend (\<^verbatim>\<open>src/backend/app\<close>, Python: FastAPI services over SQLAlchemy
  sessions) and the theorems about it.

  \<^bold>\<open>The program.\<close>  A provider company runs many tenants on one database.  A tenant's modules are
  switched on and off in the module registry; its plan decides features and usage limits; the business
  services (booking, CRM work items, processes over the CRM's pipelines) ask the registry and the
  entitlements before they write.  Every service is a class over one SQLAlchemy session whose methods
  read rows, check, raise one of the exceptions of \<^verbatim>\<open>core/exceptions.py\<close>, or write rows and flush.

  \<^bold>\<open>The model.\<close>  The session is a record whose fields are the tables, each the list of its rows in
  insertion order; a row is a record with the columns the services use.  The records extend one another
  in the order the components depend on each other: \<open>core_db\<close>, \<open>registry_db\<close>, \<open>billing_db\<close>, \<open>parties_db\<close>, and on the last one
  \<open>booking_db\<close>, \<open>crm_db\<close> and \<open>finance_db\<close>; \<open>document_db\<close> and \<open>ai_db\<close> extend \<open>billing_db\<close>,
  \<open>marketing_db\<close> extends \<open>registry_db\<close>.  A registry
  operation therefore applies to a booking, CRM, finance, document, AI or marketing session unchanged.  A
  method is a function of the session to a sum of an exception and a result with the session after it
  (the type \<open>svc\<close> of \<^verbatim>\<open>Session\<close>): a raise keeps what was written before it, as a flushed session does, and
  \<open>atomic\<close> is the request's commit or rollback.  Identifiers come from a counter, since UUIDs are only compared.

  \<^bold>\<open>Theories.\<close>
  \<^item> \<^verbatim>\<open>Prelude\<close>: rows in lists, the fragment of Python's strings and JSON the code uses, the locale
    \<open>invariant_machine\<close> of reachable states and its induction.
  \<^item> \<^verbatim>\<open>Session\<close>: exceptions, the service monad with its inversion and evaluation rules, the HTTP error
    handler (\<^verbatim>\<open>core/exceptions.py\<close>, \<^verbatim>\<open>core/exception_handlers.py\<close>).
  \<^item> \<^verbatim>\<open>Enums\<close>: every enum of \<^verbatim>\<open>core/enums.py\<close>, \<^verbatim>\<open>booking/enums.py\<close>, \<^verbatim>\<open>process_overlay/enums.py\<close>.
  \<^item> \<^verbatim>\<open>Core_Db\<close>: users, tenants, branches, staff and the audit log, \<^verbatim>\<open>core/permissions.py\<close> and
    \<^verbatim>\<open>core/tenancy.py\<close>.
  \<^item> \<^verbatim>\<open>Module_Registry\<close>: \<^verbatim>\<open>module_registry/\<close> and the guard of \<^verbatim>\<open>core/modules.py\<close>, with the dependency rule
    as an invariant of the operations.
  \<^item> \<^verbatim>\<open>Entitlements\<close>: \<^verbatim>\<open>subscriptions/\<close> and \<^verbatim>\<open>core/entitlements.py\<close>: plans, the feature gate, metered usage.
  \<^item> \<^verbatim>\<open>Parties\<close>: party rows and the custom field engine \<^verbatim>\<open>parties/custom_fields.py\<close>.
  \<^item> \<^verbatim>\<open>Booking_Orders\<close>, \<^verbatim>\<open>Booking_Holds\<close>: \<^verbatim>\<open>booking/\<close> (time zones, overlap query, order state machine,
    availability, holds); \<^verbatim>\<open>Booking_Safety\<close>: the invariant of every operation; \<^verbatim>\<open>Booking_Properties\<close>: the
    properties.
  \<^item> \<^verbatim>\<open>Process_Policy\<close>: the policy parser and serialiser of \<^verbatim>\<open>process_overlay/policy_schema.py\<close>.
  \<^item> \<^verbatim>\<open>Crm_Db\<close>: rows and queries of \<^verbatim>\<open>workflows/\<close> and \<^verbatim>\<open>process_overlay/\<close>; \<^verbatim>\<open>Lead_Automation\<close>,
    \<^verbatim>\<open>Process_Overlay\<close> and \<^verbatim>\<open>Workflows\<close>: their services, method by method.
  \<^item> \<^verbatim>\<open>Process_Spec\<close>: the abstract machine of items, stages, versions and runs with its invariant;
    \<^verbatim>\<open>Workflow_Refinement\<close> and \<^verbatim>\<open>Workflow_Guard\<close>: every service call is a sequence of its steps;
    \<^verbatim>\<open>Workflow_Properties\<close>: the properties.
  \<^item> \<^verbatim>\<open>Finance_Db\<close>: decimals, the rows and queries of \<^verbatim>\<open>catalog/\<close>, \<^verbatim>\<open>accounting/\<close> and \<^verbatim>\<open>finance/\<close>;
    \<^verbatim>\<open>Catalog\<close>: \<^verbatim>\<open>CatalogService\<close> and \<^verbatim>\<open>AccountingService\<close>; \<^verbatim>\<open>Finance\<close>: \<^verbatim>\<open>FinanceService\<close>; \<^verbatim>\<open>Finance_Safety\<close>,
    \<^verbatim>\<open>Finance_Runs\<close>: the invariants of the books and the outcome of each operation; \<^verbatim>\<open>Finance_Properties\<close>:
    the properties.
  \<^item> \<^verbatim>\<open>Template_Engine\<close>: \<^verbatim>\<open>documents/template_engine.py\<close>; \<^verbatim>\<open>Document_Storage\<close>: \<^verbatim>\<open>documents/storage.py\<close>
    over a POSIX directory tree; \<^verbatim>\<open>Documents\<close>, \<^verbatim>\<open>Document_Lifecycle\<close>: \<^verbatim>\<open>DocumentService\<close>; \<^verbatim>\<open>Document_Safety\<close>:
    the invariant; \<^verbatim>\<open>Document_Properties\<close>: the properties.
  \<^item> \<^verbatim>\<open>Ai\<close>: \<^verbatim>\<open>ai/\<close> (agents, tasks, proposals, decisions, executions, metered usage); \<^verbatim>\<open>Ai_Properties\<close>: the
    invariant and the properties.
  \<^item> \<^verbatim>\<open>Marketing_Enums\<close>, \<^verbatim>\<open>Marketing_Text\<close> (slugs, dates), \<^verbatim>\<open>Marketing_Db\<close> (rows and queries): the data of
    \<^verbatim>\<open>marketing/\<close>; \<^verbatim>\<open>Marketing_Topics\<close> (topics, guides, rubrics, taking a topic), \<^verbatim>\<open>Marketing_Packs\<close> (packs, texts,
    media, past publications), \<^verbatim>\<open>Marketing_Preflight\<close> (preflight and approval), \<^verbatim>\<open>Marketing_Plans\<close> (content plans),
    \<^verbatim>\<open>Json_Text\<close> (\<^verbatim>\<open>json.dumps\<close>) and \<^verbatim>\<open>Marketing_Import\<close> (the plan document, its import and the prompt's checks): the
    services; \<^verbatim>\<open>Marketing_Routes\<close>: the editorial requests with their guards; \<^verbatim>\<open>Marketing_Safety\<close>,
    \<^verbatim>\<open>Marketing_Plan_Safety\<close>, \<^verbatim>\<open>Marketing_Frames\<close>: the invariants of packs and plans and the interfaces an
    invariant has to satisfy to be kept by the other operations; \<^verbatim>\<open>Marketing_Properties\<close>, \<^verbatim>\<open>Marketing_Plan_Properties\<close>,
    \<^verbatim>\<open>Marketing_Import_Properties\<close>: the properties.

  \<^bold>\<open>What the theorems show.\<close>  Booking never sells a slot twice, books what the cart says (of a cart that
  names an object once) and expires exactly the stale holds; the module registry keeps its dependency rule,
  through a PATCH call only where the status it writes respects the rule; metered usage stays within the
  plan's limit; plans of the seed come up; the CRM and the process overlay refine an abstract machine in
  which a work item with an active run moves only along the edges of the policy version it is pinned to,
  published versions never change, and an item has at most one active run.  In finance the paid amounts of
  the invoices and the allocations of the payments are the same money, nothing is paid beyond a total or
  allocated beyond a payment, invoice numbers are distinct and the number of invoices stays within the plan's limit.  A document is generated exactly when the
  module, the template and every placeholder's value allow it, parsing a printed template gives it back, and
  a proposal of the AI is decided at most once and executed, when it is critical, only after its approval.  A marketing pack
  is approved only over texts and media that passed its preflight, the preflight decides a reference predicate, an import is replayed
  when its content comes again, and a valid preview is a commit that returns.  Some properties record where
  the code does something its own rules forbid (a PATCH that skips the guard, a cart that names an object
  twice, a foreign payment that settles an invoice, an upload that overwrites another tenant's file, an
  expired proposal that executes).

  \<^bold>\<open>Parameters.\<close>  Code that is not in the repository is an argument of the definitions: Pydantic's lax
  conversion of integers and booleans and the text of its errors (\<open>pydantic_lib\<close>, assumed only to leave an
  integer and a boolean unchanged), Python's \<^verbatim>\<open>float\<close> and \<^verbatim>\<open>Decimal\<close> parsing, UUID parsing, the time zone
  database, the clock (\<open>moment\<close>), the passage of a stored price through a binary float (\<open>via_float\<close>), and SHA-256; for documents the storage
  directory and \<^verbatim>\<open>str(uuid)\<close>; for plan imports the JSON parser, Pydantic's dates and the digest (\<open>plan_lib\<close>).  Texts of templates are lists of code points, since \<open>char\<close> is a byte; what is
  written on the disk stays there when the request rolls back.  No fuel is used: every function is total, the loops of the services run
  over finite lists and the recursion on nested JSON is structural or has a size measure.

  \<^bold>\<open>Not modelled.\<close>  Interleaving of two transactions inside the database (the row locks of
  \<^verbatim>\<open>with_for_update\<close> make the guarded calls atomic, which the model takes as given), timestamps columns
  nothing reads, response schemas, HTTP routing.  Payment and allocation amounts are taken in cents: what
  the database does to finer amounts of these, and the overflow of \<^verbatim>\<open>Numeric(18, 2)\<close>, are outside the model; the
  quantities and prices of invoice lines, minimal quantities and VAT rates are rounded to the places of their
  columns as PostgreSQL rounds (\<open>numeric_scale\<close>).
  Of marketing the search of topics and the text of the exported prompt are left out, and its titles are of
  the 256 code points of a \<open>char\<close>.  Publishing, imports, integrations, industry templates, public leads, authentication, tenant and branch services,
  secrets and object storage are not modelled yet; migrations, seeds of demo data and the front ends hold
  no logic of the services.
\<close>

end
